(* ===== verification/Prelude.thy ===== *)
theory Prelude
  imports Complex_Main "HOL-Library.Word"
begin

unbundle bit_operations_syntax

text \<open>
  What the component theories share: bytes, the values a thrown JavaScript exception or a
  rejected promise is modelled by, sequencing of fallible steps, list lemmas, and the
  collections of facts that carry the component proofs.

  A fallible step returns a value of \<open>js_error + 'a\<close>: \<open>Inl\<close> is what was thrown (or what the
  promise was rejected with), \<open>Inr\<close> what was returned.
\<close>

section \<open>Values and errors\<close>

type_synonym byte = "8 word"
type_synonym bytes = "byte list"

text \<open>
  \<open>Error\<close>, \<open>RangeError\<close> and \<open>TypeError\<close> carry the constant part of the message. \<open>Rejected\<close> is a
  promise rejected with a string. \<open>Foreign\<close> is an exception raised by code outside the
  repository; its argument is whatever that code raises.
\<close>

datatype js_error =
    Error string
  | RangeError string
  | TypeError string
  | Rejected string
  | Foreign string

type_synonym 'a result = "js_error + 'a"

definition bindR :: "'e + 'a \<Rightarrow> ('a \<Rightarrow> 'e + 'b) \<Rightarrow> 'e + 'b" where
  "bindR m f = (case m of Inl e \<Rightarrow> Inl e | Inr x \<Rightarrow> f x)"

definition mapR :: "('a \<Rightarrow> 'b) \<Rightarrow> 'e + 'a \<Rightarrow> 'e + 'b" where
  "mapR f m = (case m of Inl e \<Rightarrow> Inl e | Inr x \<Rightarrow> Inr (f x))"

lemma bindR_simps [simp]:
  "bindR (Inl e) f = Inl e"
  "bindR (Inr x) f = f x"
  by (simp_all add: bindR_def)

lemma mapR_simps [simp]:
  "mapR f (Inl e) = Inl e"
  "mapR f (Inr x) = Inr (f x)"
  by (simp_all add: mapR_def)

lemma bindR_eq_Inr [simp]:
  "bindR m f = Inr y \<longleftrightarrow> (\<exists>x. m = Inr x \<and> f x = Inr y)"
  by (cases m) auto

lemma bindR_eq_Inl:
  "bindR m f = Inl e \<longleftrightarrow> m = Inl e \<or> (\<exists>x. m = Inr x \<and> f x = Inl e)"
  by (cases m) auto

lemma mapR_eq_Inr [simp]: "mapR f m = Inr y \<longleftrightarrow> (\<exists>x. m = Inr x \<and> y = f x)"
  by (cases m) auto

lemma bindR_assoc: "bindR (bindR m f) g = bindR m (\<lambda>x. bindR (f x) g)"
  by (cases m) auto

text \<open>A list of fallible values, evaluated left to right; the first error wins.\<close>

fun sequenceR :: "('e + 'a) list \<Rightarrow> 'e + 'a list" where
  "sequenceR [] = Inr []"
| "sequenceR (m # ms) = bindR m (\<lambda>x. bindR (sequenceR ms) (\<lambda>xs. Inr (x # xs)))"

lemma sequenceR_map_Inr [simp]: "sequenceR (map (\<lambda>x. Inr (f x)) xs) = Inr (map f xs)"
  by (induction xs) auto

lemma sequenceR_length: "sequenceR ms = Inr xs \<Longrightarrow> length xs = length ms"
  by (induction ms arbitrary: xs) auto

lemma sequenceR_eq_Inr: "sequenceR ms = Inr xs \<longleftrightarrow> ms = map Inr xs"
  by (induction ms arbitrary: xs) auto

section \<open>Lists\<close>

text \<open>\<open>String.prototype.padStart\<close> and \<open>slice\<close> (\<open>js_slice\<close>) for indices that are not negative.\<close>

definition padStart :: "nat \<Rightarrow> 'a \<Rightarrow> 'a list \<Rightarrow> 'a list" where
  "padStart k c s = replicate (k - length s) c @ s"

definition js_slice :: "'a list \<Rightarrow> nat \<Rightarrow> nat \<Rightarrow> 'a list" where
  "js_slice xs s e = take (e - s) (drop s xs)"

text \<open>Reading an array at an index outside it gives undefined (\<open>None\<close>).\<close>

definition js_index :: "'a list \<Rightarrow> nat \<Rightarrow> 'a option" where
  "js_index xs i = (if i < length xs then Some (xs ! i) else None)"

lemma js_index_simps [simp]:
  "js_index [] i = None"
  "js_index (x # xs) 0 = Some x"
  "js_index (x # xs) (Suc i) = js_index xs i"
  by (simp_all add: js_index_def)

lemma length_padStart [simp]: "length (padStart k c s) = max k (length s)"
  by (simp add: padStart_def)

lemma length_js_slice [simp]: "length (js_slice xs a b) = min (b - a) (length xs - a)"
  by (simp add: js_slice_def min.commute)

lemma js_slice_eq_Nil [simp]: "js_slice xs a b = [] \<longleftrightarrow> b \<le> a \<or> length xs \<le> a"
  by (simp add: js_slice_def)

lemma js_slice_append_left [simp]: "b \<le> length xs \<Longrightarrow> js_slice (xs @ ys) a b = js_slice xs a b"
  by (simp add: js_slice_def)

lemma js_slice_append_right:
  "length xs \<le> a \<Longrightarrow> js_slice (xs @ ys) a b = js_slice ys (a - length xs) (b - length xs)"
  by (cases "b - length xs = 0") (auto simp: js_slice_def)

lemma js_slice_all [simp]: "js_slice xs 0 (length xs) = xs"
  by (simp add: js_slice_def)

lemma list_two_cases [case_names Nil Single Cons2]:
  "(xs = [] \<Longrightarrow> P) \<Longrightarrow> (\<And>x. xs = [x] \<Longrightarrow> P) \<Longrightarrow> (\<And>x y ys. xs = x # y # ys \<Longrightarrow> P) \<Longrightarrow> P"
  by (cases xs; cases "tl xs") auto

section \<open>Strings\<close>

text \<open>\<open>a || b\<close> for strings: an undefined or empty string is falsy.\<close>

definition orElse :: "string option \<Rightarrow> string \<Rightarrow> string" where
  "orElse a b = (case a of None \<Rightarrow> b | Some s \<Rightarrow> if s = [] then b else s)"

end
