(* ===== verification/Bytes.thy ===== *)
theory Bytes
  imports Prelude
begin

text \<open>
  Byte sequences and their text forms: hexadecimal digits, \<open>utils/hex.ts\<close>, the parts of
  Node's \<open>Buffer\<close> that the SDK uses (\<open>from(_, "hex")\<close>, \<open>toString("hex")\<close>, the big-endian
  readers with their \<open>RangeError\<close>), and big-endian numbers with the lemmas that relate them.
\<close>

section \<open>Decimal numbers\<close>

text \<open>\<open>String(n)\<close> of a whole number.\<close>

fun decimal :: "nat \<Rightarrow> string" where
  "decimal n = (if n < 10 then [''0123456789'' ! n] else decimal (n div 10) @ [''0123456789'' ! (n mod 10)])"

declare decimal.simps [simp del]

definition int_decimal :: "int \<Rightarrow> string" where
  "int_decimal n = (if n < 0 then CHR ''-'' # decimal (nat (- n)) else decimal (nat n))"

section \<open>Hexadecimal digits\<close>

definition hex_digit :: "nat \<Rightarrow> char" where
  "hex_digit n = ''0123456789abcdef'' ! n"

definition hexval :: "char \<Rightarrow> nat option" where
  "hexval c = (let n = (of_char c :: nat) in
     if 48 \<le> n \<and> n \<le> 57 then Some (n - 48)
     else if 97 \<le> n \<and> n \<le> 102 then Some (n - 87)
     else if 65 \<le> n \<and> n \<le> 70 then Some (n - 55)
     else None)"

lemma nat_lt16_cases:
  "n < (16::nat) \<Longrightarrow> n \<in> {0,1,2,3,4,5,6,7,8,9,10,11,12,13,14,15}"
  by simp presburger

lemma hexval_hex_digit [simp]: "n < 16 \<Longrightarrow> hexval (hex_digit n) = Some n"
  by (drule nat_lt16_cases) (auto simp: hex_digit_def hexval_def)

lemma hexval_lt16: "hexval c = Some n \<Longrightarrow> n < 16"
  by (auto simp: hexval_def Let_def split: if_splits)

lemma hexval_digits [simp]:
  "hexval (CHR ''0'') = Some 0" "hexval (CHR ''1'') = Some 1" "hexval (CHR ''2'') = Some 2"
  "hexval (CHR ''3'') = Some 3" "hexval (CHR ''4'') = Some 4" "hexval (CHR ''5'') = Some 5"
  "hexval (CHR ''6'') = Some 6" "hexval (CHR ''7'') = Some 7" "hexval (CHR ''8'') = Some 8"
  "hexval (CHR ''9'') = Some 9" "hexval (CHR ''a'') = Some 10" "hexval (CHR ''b'') = Some 11"
  "hexval (CHR ''c'') = Some 12" "hexval (CHR ''d'') = Some 13" "hexval (CHR ''e'') = Some 14"
  "hexval (CHR ''f'') = Some 15"
  by (simp_all add: hexval_def)

text \<open>\<open>Number.prototype.toString(16)\<close> and \<open>BigInt.prototype.toString(16)\<close> of a value that is
  not negative.\<close>

fun nat_to_hex :: "nat \<Rightarrow> string" where
  "nat_to_hex n = (if n < 16 then [hex_digit n] else nat_to_hex (n div 16) @ [hex_digit (n mod 16)])"

declare nat_to_hex.simps [simp del]

lemma nat_to_hex_small: "n < 16 \<Longrightarrow> nat_to_hex n = [hex_digit n]"
  by (simp add: nat_to_hex.simps)

lemma nat_to_hex_big: "16 \<le> n \<Longrightarrow> nat_to_hex n = nat_to_hex (n div 16) @ [hex_digit (n mod 16)]"
  by (subst nat_to_hex.simps) simp

lemma nat_to_hex_nonempty [simp]: "nat_to_hex n \<noteq> []"
  by (subst nat_to_hex.simps) simp

definition is_hex :: "string \<Rightarrow> bool" where
  "is_hex s = list_all (\<lambda>c. hexval c \<noteq> None) s"

lemma is_hex_simps [simp]:
  "is_hex []" "is_hex (c # s) \<longleftrightarrow> hexval c \<noteq> None \<and> is_hex s"
  "is_hex (s @ t) \<longleftrightarrow> is_hex s \<and> is_hex t"
  by (simp_all add: is_hex_def)

lemma is_hex_nat_to_hex [simp]: "is_hex (nat_to_hex n)"
proof (induction n rule: nat_to_hex.induct)
  case (1 n)
  then show ?case by (subst nat_to_hex.simps) simp
qed

text \<open>The number a digit string denotes.\<close>

definition hexnum :: "string \<Rightarrow> nat" where
  "hexnum s = foldl (\<lambda>a c. 16 * a + the (hexval c)) 0 s"

lemma hexnum_Nil [simp]: "hexnum [] = 0"
  by (simp add: hexnum_def)

lemma hexnum_snoc [simp]: "hexnum (s @ [c]) = 16 * hexnum s + the (hexval c)"
  by (simp add: hexnum_def)

lemma hexnum_append: "hexnum (s @ t) = hexnum s * 16 ^ length t + hexnum t"
  by (induction t rule: rev_induct)
     (simp_all add: algebra_simps flip: append_assoc)

lemma hexnum_Cons: "hexnum (c # s) = the (hexval c) * 16 ^ length s + hexnum s"
  using hexnum_append [of "[c]" s] by (simp add: hexnum_def)

lemma hexnum_nat_to_hex [simp]: "hexnum (nat_to_hex n) = n"
proof (induction n rule: nat_to_hex.induct)
  case (1 n)
  then show ?case
    by (subst nat_to_hex.simps) (auto simp: hexnum_Cons)
qed

lemma hexnum_zeros [simp]: "hexnum (replicate k (CHR ''0'') @ s) = hexnum s"
  by (induction k) (simp_all add: hexnum_Cons hexval_def)

lemma length_nat_to_hex_le: "n < 16 ^ k \<Longrightarrow> 0 < k \<Longrightarrow> length (nat_to_hex n) \<le> k"
proof (induction n arbitrary: k rule: nat_to_hex.induct)
  case (1 n)
  show ?case
  proof (cases "n < 16")
    case True
    with "1.prems" show ?thesis by (simp add: nat_to_hex_small)
  next
    case False
    with "1.prems" obtain j where k: "k = Suc j" and j: "0 < j"
      by (cases k; cases "k - 1") auto
    from "1.prems" k have "n div 16 < 16 ^ j"
      by (simp add: less_mult_imp_div_less mult.commute)
    with "1.IH" [OF False] j have "length (nat_to_hex (n div 16)) \<le> j" by simp
    with False k show ?thesis by (simp add: nat_to_hex_big)
  qed
qed

lemma length_nat_to_hex_gt: "16 ^ k \<le> n \<Longrightarrow> k < length (nat_to_hex n)"
proof (induction n arbitrary: k rule: nat_to_hex.induct)
  case (1 n)
  show ?case
  proof (cases k)
    case 0
    then show ?thesis by (simp add: length_greater_0_conv [symmetric])
  next
    case (Suc j)
    with "1.prems" have big: "\<not> n < 16"
      by (metis le_less_trans linorder_not_le one_le_numeral one_le_power
          mult_le_mono2 mult_numeral_1_right numeral_One power_Suc)
    from "1.prems" Suc have "16 ^ j \<le> n div 16"
      by (simp add: less_eq_div_iff_mult_less_eq mult.commute)
    with "1.IH" [OF big] have "j < length (nat_to_hex (n div 16))" by simp
    with big Suc show ?thesis by (simp add: nat_to_hex_big)
  qed
qed

section \<open>Hex encoding of bytes\<close>

text \<open>\<open>utils/hex.ts\<close>: \<open>toHex\<close>. The callback given to \<open>Array.from\<close> is \<open>byte_hex\<close>.\<close>

definition byte_hex :: "byte \<Rightarrow> string" where
  "byte_hex b = padStart 2 (CHR ''0'') (nat_to_hex (unat b))"

definition toHex :: "bytes \<Rightarrow> string" where
  "toHex bs = concat (map byte_hex bs)"

text \<open>\<open>Buffer.from(h, "hex")\<close>: pairs of digits up to the first pair that is not hexadecimal;
  an odd digit at the end is dropped.\<close>

fun fromHex :: "string \<Rightarrow> bytes" where
  "fromHex (a # b # s) =
     (case (hexval a, hexval b) of
        (Some x, Some y) \<Rightarrow> of_nat (16 * x + y) # fromHex s
      | _ \<Rightarrow> [])"
| "fromHex _ = []"

lemma unat_byte_lt [simp]: "unat (b::byte) < 256"
proof -
  have "unat b < 2 ^ LENGTH(8)" by (rule unsigned_less)
  then show ?thesis by simp
qed

lemma byte_hex_digits: "byte_hex b = [hex_digit (unat b div 16), hex_digit (unat b mod 16)]"
proof (cases "unat b < 16")
  case True
  then show ?thesis
    by (simp add: byte_hex_def nat_to_hex_small padStart_def hex_digit_def)
next
  case False
  have "unat b div 16 < 16" using unat_byte_lt [of b] by linarith
  with False show ?thesis
    by (simp add: byte_hex_def nat_to_hex_big nat_to_hex_small padStart_def)
qed

lemma length_byte_hex [simp]: "length (byte_hex b) = 2"
  by (simp add: byte_hex_digits)

lemma toHex_simps [simp]:
  "toHex [] = []" "toHex (b # bs) = byte_hex b @ toHex bs" "toHex (bs @ cs) = toHex bs @ toHex cs"
  by (simp_all add: toHex_def)

lemma length_toHex [simp]: "length (toHex bs) = 2 * length bs"
  by (induction bs) simp_all

lemma toHex_eq_Nil [simp]: "toHex bs = [] \<longleftrightarrow> bs = []"
  by (metis length_toHex length_0_conv mult_eq_0_iff zero_neq_numeral)

lemma byte_div16_lt [simp]: "unat (b::byte) div 16 < 16"
  using unat_byte_lt [of b] by linarith

lemma is_hex_toHex [simp]: "is_hex (toHex bs)"
  by (induction bs) (simp_all add: byte_hex_digits)

lemma fromHex_toHex_append [simp]: "fromHex (toHex bs @ s) = bs @ fromHex s"
proof (induction bs)
  case (Cons b bs)
  have "of_nat (16 * (unat b div 16) + unat b mod 16) = b" by simp
  with Cons show ?case by (simp add: byte_hex_digits)
qed simp

lemma fromHex_toHex [simp]: "fromHex (toHex bs) = bs"
  using fromHex_toHex_append [of bs "[]"] by simp

lemma toHex_inject [simp]: "toHex bs = toHex cs \<longleftrightarrow> bs = cs"
  using fromHex_toHex by metis

lemma take_toHex: "take (2 * n) (toHex bs) = toHex (take n bs)"
proof (induction bs arbitrary: n)
  case (Cons b bs)
  then show ?case by (cases n) simp_all
qed simp

lemma drop_toHex: "drop (2 * n) (toHex bs) = toHex (drop n bs)"
proof (induction bs arbitrary: n)
  case (Cons b bs)
  then show ?case by (cases n) simp_all
qed simp

text \<open>A string that \<open>Buffer.from(_, "hex")\<close> decodes completely.\<close>

definition hex_bytes :: "string \<Rightarrow> bool" where
  "hex_bytes s \<longleftrightarrow> even (length s) \<and> is_hex s"

lemma hex_bytes_toHex [simp]: "hex_bytes (toHex bs)"
  by (simp add: hex_bytes_def)

lemma hex_bytes_simps [simp]:
  "hex_bytes []"
  "hex_bytes (a # b # s) \<longleftrightarrow> hexval a \<noteq> None \<and> hexval b \<noteq> None \<and> hex_bytes s"
  by (auto simp: hex_bytes_def)

lemma hex_bytes_append [intro]: "hex_bytes s \<Longrightarrow> hex_bytes t \<Longrightarrow> hex_bytes (s @ t)"
  by (simp add: hex_bytes_def)

lemma fromHex_append [simp]: "hex_bytes s \<Longrightarrow> fromHex (s @ t) = fromHex s @ fromHex t"
  by (induction s rule: fromHex.induct) (auto simp: hex_bytes_def)

lemma length_fromHex: "hex_bytes s \<Longrightarrow> length (fromHex s) = length s div 2"
  by (induction s rule: fromHex.induct) (auto simp: hex_bytes_def)

section \<open>Big-endian numbers\<close>

definition be_nat :: "bytes \<Rightarrow> nat" where
  "be_nat bs = foldl (\<lambda>a b. 256 * a + unat b) 0 bs"

fun be_bytes :: "nat \<Rightarrow> nat \<Rightarrow> bytes" where
  "be_bytes 0 n = []"
| "be_bytes (Suc k) n = be_bytes k (n div 256) @ [of_nat n]"

lemma be_nat_Nil [simp]: "be_nat [] = 0"
  by (simp add: be_nat_def)

lemma be_nat_snoc [simp]: "be_nat (bs @ [b]) = 256 * be_nat bs + unat b"
  by (simp add: be_nat_def)

lemma be_nat_append: "be_nat (bs @ cs) = be_nat bs * 256 ^ length cs + be_nat cs"
  by (induction cs rule: rev_induct) (simp_all add: algebra_simps flip: append_assoc)

lemma be_nat_Cons: "be_nat (b # bs) = unat b * 256 ^ length bs + be_nat bs"
  using be_nat_append [of "[b]" bs] by (simp add: be_nat_def)

lemma be_nat_bound: "be_nat bs < 256 ^ length bs"
proof (induction bs rule: rev_induct)
  case (snoc b bs)
  have "256 * be_nat bs + unat b < 256 * (be_nat bs + 1)" by simp
  also have "\<dots> \<le> 256 * 256 ^ length bs" using snoc by simp
  finally show ?case by simp
qed simp

lemma length_be_bytes [simp]: "length (be_bytes k n) = k"
  by (induction k arbitrary: n) simp_all

lemma be_bytes_eq_Nil [simp]: "be_bytes k n = [] \<longleftrightarrow> k = 0"
  by (metis length_be_bytes length_0_conv)

lemma unat_of_nat_byte: "unat (of_nat n :: byte) = n mod 256"
  by (simp add: unat_of_nat)

lemma be_nat_be_bytes: "be_nat (be_bytes k n) = n mod 256 ^ k"
proof (induction k arbitrary: n)
  case (Suc k)
  have "n mod (256 * 256 ^ k) = 256 * (n div 256 mod 256 ^ k) + n mod 256"
    by (rule mod_mult2_eq)
  with Suc show ?case by (simp add: unat_of_nat_byte)
qed simp

lemma be_nat_be_bytes_id [simp]: "n < 256 ^ k \<Longrightarrow> be_nat (be_bytes k n) = n"
  by (simp add: be_nat_be_bytes)

lemma be_bytes_be_nat [simp]: "be_bytes (length bs) (be_nat bs) = bs"
proof (induction bs rule: rev_induct)
  case (snoc b bs)
  have "(of_nat (256 * be_nat bs + unat b) :: byte) = of_nat (256 * be_nat bs) + b" by simp
  also have "(of_nat (256 * be_nat bs) :: byte) = 0"
    by (subst word_of_nat_eq_0_iff) simp
  finally show ?case using snoc by simp
qed simp

lemma be_nat_inject: "length bs = length cs \<Longrightarrow> be_nat bs = be_nat cs \<longleftrightarrow> bs = cs"
  by (metis be_bytes_be_nat)

lemma be_nat_fromHex: "hex_bytes s \<Longrightarrow> be_nat (fromHex s) = hexnum s"
proof (induction s rule: fromHex.induct)
  case (1 a b s)
  then obtain x y where x: "hexval a = Some x" and y: "hexval b = Some y"
    and s: "hex_bytes s" by (auto simp: hex_bytes_def)
  have "16 * x + y < 256" using hexval_lt16 [OF x] hexval_lt16 [OF y] by simp
  then have "unat (of_nat (16 * x + y) :: byte) = 16 * x + y"
    by (subst unat_of_nat_byte) simp
  moreover have "(256::nat) ^ (length s div 2) = 16 ^ length s"
  proof -
    have "(256::nat) ^ (length s div 2) = (16 ^ 2) ^ (length s div 2)" by simp
    also have "\<dots> = 16 ^ (2 * (length s div 2))" by (simp only: power_mult)
    finally show ?thesis using s by (simp add: hex_bytes_def)
  qed
  ultimately show ?case using 1 x y s
    by (simp add: be_nat_Cons hexnum_Cons length_fromHex algebra_simps)
qed (auto simp: hex_bytes_def)

section \<open>Node buffers\<close>

text \<open>Reading past the end of a buffer throws a \<open>RangeError\<close>.\<close>

definition readUIntBE :: "nat \<Rightarrow> bytes \<Rightarrow> nat \<Rightarrow> nat result" where
  "readUIntBE w buf off =
     (if off + w \<le> length buf then Inr (be_nat (js_slice buf off (off + w)))
      else Inl (RangeError ''ERR_OUT_OF_RANGE''))"

definition readUInt8 :: "bytes \<Rightarrow> nat \<Rightarrow> nat result" where
  "readUInt8 = readUIntBE 1"

definition readUInt16BE :: "bytes \<Rightarrow> nat \<Rightarrow> nat result" where
  "readUInt16BE = readUIntBE 2"

lemma readUIntBE_bound: "readUIntBE w buf off = Inr n \<Longrightarrow> n < 256 ^ w"
  using be_nat_bound [of "js_slice buf off (off + w)"]
  by (auto simp: readUIntBE_def split: if_splits)

lemma readUIntBE_err [simp]:
  "readUIntBE w buf off = Inl e \<longleftrightarrow> length buf < off + w \<and> e = RangeError ''ERR_OUT_OF_RANGE''"
  by (auto simp: readUIntBE_def)

end
