(* ===== verification/Serde.thy ===== *)
theory Serde
  imports Bytes
begin

text \<open>
  \<open>sdk/js/src/alephium/serde.ts\<close>: the compact integer encodings of Alephium scripts. The two
  high bits of the first byte select the width (\<open>0x00\<close> one byte, \<open>0x40\<close> two, \<open>0x80\<close> four,
  \<open>0xc0\<close> a length in the low six bits and then the big-endian value).

  The specification is a decoder, \<open>decodeRaw\<close>, with its two readings: \<open>decodeUnsigned\<close> for
  \<open>encodeU32\<close> and \<open>encodeU256\<close>, and the two's complement \<open>decodeSigned\<close> for
  \<open>encodePositiveInt\<close>, whose thresholds are half as large so that no positive value is read as
  negative. The locale \<open>prefix_codec\<close> states what a reader of a byte stream needs of an
  encoder and decoder pair; the encoders of this theory are interpreted in it.
\<close>

section \<open>JavaScript numbers as bytes\<close>

text \<open>
  A \<open>number\<close> that may have a fraction (\<open>hex.length / 2\<close>) is a \<open>rat\<close>. Bitwise operators
  truncate towards zero and reduce to 32 bits (\<open>toInt32\<close>); storing into a \<open>Uint8Array\<close> truncates
  and reduces to 8 bits (\<open>u8\<close> after \<open>js_trunc\<close>).
\<close>

definition js_trunc :: "rat \<Rightarrow> int" where
  "js_trunc x = (if 0 \<le> x then \<lfloor>x\<rfloor> else \<lceil>x\<rceil>)"

definition toInt32 :: "rat \<Rightarrow> 32 word" where
  "toInt32 x = word_of_int (js_trunc x)"

definition u8 :: "int \<Rightarrow> byte" where
  "u8 n = word_of_int n"

text \<open>\<open>(num >> k) & 0xff\<close>: the shift keeps the sign, the mask leaves a value below 256.\<close>

definition shr_ff :: "nat \<Rightarrow> 32 word \<Rightarrow> int" where
  "shr_ff k w = uint (signed_drop_bit k w AND 0xff)"

section \<open>The encoders\<close>

definition oneByteBoundUnsigned :: int where "oneByteBoundUnsigned = 0x40"
definition twoByteBoundUnsigned :: int where "twoByteBoundUnsigned = push_bit 8 oneByteBoundUnsigned"
definition fourByteBoundUnsigned :: int where "fourByteBoundUnsigned = push_bit (8 * 3) oneByteBoundUnsigned"
definition oneByteBoundSigned :: int where "oneByteBoundSigned = 0x20"
definition twoByteBoundSigned :: int where "twoByteBoundSigned = push_bit 8 oneByteBoundSigned"
definition fourByteBoundSigned :: int where "fourByteBoundSigned = push_bit (8 * 3) oneByteBoundSigned"
definition oneBytePrefix :: int where "oneBytePrefix = 0x00"
definition twoBytePrefix :: int where "twoBytePrefix = 0x40"
definition fourBytePrefix :: int where "fourBytePrefix = 0x80"
definition multiBytePrefix :: int where "multiBytePrefix = 0xc0"

lemmas serde_consts =
  oneByteBoundUnsigned_def twoByteBoundUnsigned_def fourByteBoundUnsigned_def
  oneByteBoundSigned_def twoByteBoundSigned_def fourByteBoundSigned_def
  oneBytePrefix_def twoBytePrefix_def fourBytePrefix_def multiBytePrefix_def push_bit_eq_mult

text \<open>The message of the first branch starts with the number, in a decimal form of doubles that is left
  out here: only its end is kept.\<close>

definition encodePositiveInt :: "rat \<Rightarrow> bytes result" where
  "encodePositiveInt num =
     (let w = toInt32 num in
      if num < 0 then Inl (Error '' less than 0'')
      else if num < of_int oneByteBoundSigned then
        Inr [u8 (js_trunc (num + of_int oneBytePrefix))]
      else if num < of_int twoByteBoundSigned then
        Inr [u8 (shr_ff 8 w + twoBytePrefix), u8 (shr_ff 0 w)]
      else if num < of_int fourByteBoundSigned then
        Inr [u8 (shr_ff 24 w + fourBytePrefix), u8 (shr_ff 16 w), u8 (shr_ff 8 w), u8 (shr_ff 0 w)]
      else
        Inr [u8 multiBytePrefix, u8 (shr_ff 24 w), u8 (shr_ff 16 w), u8 (shr_ff 8 w), u8 (shr_ff 0 w)])"

definition encodeU32 :: "int \<Rightarrow> bytes" where
  "encodeU32 num =
     (let w = word_of_int num :: 32 word in
      if num < oneByteBoundUnsigned then [u8 (num + oneBytePrefix)]
      else if num < twoByteBoundUnsigned then
        [u8 (shr_ff 8 w + twoBytePrefix), u8 (shr_ff 0 w)]
      else
        [u8 (shr_ff 24 w + fourBytePrefix), u8 (shr_ff 16 w), u8 (shr_ff 8 w), u8 (shr_ff 0 w)])"

text \<open>
  \<open>parseInt(s, 16)\<close> on the digits that \<open>toString(16)\<close> produces: the longest prefix of digits,
  \<open>NaN\<close> (here \<open>None\<close>) if there is none. \<open>NaN\<close> stored into a \<open>Uint8Array\<close> is 0.
\<close>

definition parseInt16 :: "string \<Rightarrow> nat option" where
  "parseInt16 s = (let ds = takeWhile (\<lambda>c. hexval c \<noteq> None) s in
     if ds = [] then None else Some (hexnum ds))"

definition storeByte :: "nat option \<Rightarrow> byte" where
  "storeByte v = (case v of None \<Rightarrow> 0 | Some n \<Rightarrow> u8 (int n))"

text \<open>The \<open>while\<close> loop of \<open>encodeU256\<close>.\<close>

function fillBytes :: "string \<Rightarrow> nat \<Rightarrow> nat \<Rightarrow> bytes \<Rightarrow> bytes" where
  "fillBytes hex byteLength index bs =
     (if index < byteLength then
        (let offset = index * 2 in
         fillBytes hex byteLength (index + 1)
           (bs[index := storeByte (parseInt16 (js_slice hex offset (offset + 2)))]))
      else bs)"
  by pat_completeness auto
termination
  by (relation "measure (\<lambda>(hex, byteLength, index, bs). byteLength - index)") auto

declare fillBytes.simps [simp del]

definition encodeU256 :: "int \<Rightarrow> bytes result" where
  "encodeU256 num =
     (if num < 0 then Inl (Error (int_decimal num @ '' less than 0''))
      else if num < fourByteBoundUnsigned then Inr (encodeU32 num)
      else
        (let hex0 = nat_to_hex (nat num);
             hex = (if length hex0 mod 2 = 1 then CHR ''0'' # hex0 else hex0);
             byteLength = length hex div 2;
             bs = fillBytes hex byteLength 0 (replicate byteLength 0);
             header = (int byteLength - 4) + multiBytePrefix
         in Inr (u8 header # bs)))"

section \<open>The decoder\<close>

definition takeBytes :: "nat \<Rightarrow> bytes \<Rightarrow> (bytes \<times> bytes) option" where
  "takeBytes n bs = (if n \<le> length bs then Some (take n bs, drop n bs) else None)"

lemma takeBytes_append [simp]: "length xs = n \<Longrightarrow> takeBytes n (xs @ r) = Some (xs, r)"
  by (simp add: takeBytes_def)

text \<open>The value read, the number of bits it was stored in, and the unread rest.\<close>

definition decodeRaw :: "bytes \<Rightarrow> ((nat \<times> nat) \<times> bytes) option" where
  "decodeRaw bs =
     (case bs of
        [] \<Rightarrow> None
      | b # r \<Rightarrow>
          (let low = unat b mod 64; mode = unat b div 64 in
           if mode < 3 then
             (let w = (if mode = 0 then 0 else if mode = 1 then 1 else 3) in
              case takeBytes w r of
                None \<Rightarrow> None
              | Some (x, r') \<Rightarrow> Some ((low * 256 ^ w + be_nat x, 6 + 8 * w), r'))
           else
             (case takeBytes (low + 4) r of
                None \<Rightarrow> None
              | Some (x, r') \<Rightarrow> Some ((be_nat x, 8 * (low + 4)), r'))))"

definition decodeUnsigned :: "bytes \<Rightarrow> (nat \<times> bytes) option" where
  "decodeUnsigned bs = map_option (\<lambda>((v, n), r). (v, r)) (decodeRaw bs)"

definition decodeSigned :: "bytes \<Rightarrow> (int \<times> bytes) option" where
  "decodeSigned bs =
     map_option (\<lambda>((v, n), r). (if 2 * v < 2 ^ n then int v else int v - 2 ^ n, r)) (decodeRaw bs)"

section \<open>Codecs that a stream reader can chain\<close>

fun decode_n :: "('b list \<Rightarrow> ('a \<times> 'b list) option) \<Rightarrow> nat \<Rightarrow> 'b list \<Rightarrow> ('a list \<times> 'b list) option" where
  "decode_n dec 0 bs = Some ([], bs)"
| "decode_n dec (Suc n) bs =
     (case dec bs of
        None \<Rightarrow> None
      | Some (x, r) \<Rightarrow> map_option (\<lambda>(xs, r'). (x # xs, r')) (decode_n dec n r))"

locale prefix_codec =
  fixes enc :: "'a \<Rightarrow> 'b list"
    and dec :: "'b list \<Rightarrow> ('a \<times> 'b list) option"
    and valid :: "'a \<Rightarrow> bool"
  assumes dec_enc: "valid x \<Longrightarrow> dec (enc x @ r) = Some (x, r)"
begin

lemma prefix_free: "valid x \<Longrightarrow> valid y \<Longrightarrow> enc x @ r = enc y @ s \<Longrightarrow> x = y \<and> r = s"
  by (metis dec_enc option.inject prod.inject)

lemma enc_inject: "valid x \<Longrightarrow> valid y \<Longrightarrow> enc x = enc y \<longleftrightarrow> x = y"
  by (metis prefix_free)

lemma decode_many:
  "list_all valid xs \<Longrightarrow> decode_n dec (length xs) (concat (map enc xs) @ r) = Some (xs, r)"
  by (induction xs) (simp_all add: dec_enc)

end


section \<open>Facts about the encoders\<close>

lemma u8_add: "u8 (a + b) = u8 a + u8 b"
  by (simp add: u8_def)

lemma unat_u8: "0 \<le> n \<Longrightarrow> unat (u8 n) = nat n mod 256"
  by (simp add: u8_def unat_eq_nat_uint uint_word_of_int nat_mod_distrib)

lemma shr_ff_eq:
  assumes "k \<le> 24"
  shows "shr_ff k w = uint w div 2 ^ k mod 256"
proof -
  have "signed_drop_bit k w AND 0xff = take_bit 8 (drop_bit k w)"
  proof (rule bit_word_eqI)
    fix n assume "n < LENGTH(32)"
    have m: "(0xff :: 32 word) = mask 8" by (simp add: mask_eq_exp_minus_1)
    show "bit (signed_drop_bit k w AND 0xff) n = bit (take_bit 8 (drop_bit k w)) n"
      unfolding m using assms
      by (auto simp: bit_and_iff bit_mask_iff bit_take_bit_iff bit_drop_bit_eq
          bit_signed_drop_bit_iff add.commute)
  qed
  then have "shr_ff k w = take_bit 8 (drop_bit k (take_bit LENGTH(32) (uint w)))"
    by (simp only: shr_ff_def unsigned_take_bit_eq unsigned_drop_bit_eq)
  also have "take_bit LENGTH(32) (uint w) = uint w"
    using unsigned_less [of w] by (simp add: take_bit_int_eq_self_iff)
  finally show ?thesis by (simp add: take_bit_eq_mod drop_bit_eq_div)
qed

lemma toInt32_of_nat:
  assumes "0 \<le> x" "x < 2 ^ 32"
  shows "uint (toInt32 x) = \<lfloor>x\<rfloor>"
proof -
  have "\<lfloor>x\<rfloor> < 2 ^ 32" using assms(2) by (simp add: floor_less_iff)
  with assms show ?thesis
    by (simp add: toInt32_def js_trunc_def uint_word_of_int)
qed


text \<open>The bytes of a value below \<open>2 ^ 32\<close>, as the encoders write them.\<close>

definition byte_of :: "nat \<Rightarrow> nat \<Rightarrow> int" where
  "byte_of k m = int m div 2 ^ k mod 256"

lemma shr_ff_toInt32: "0 \<le> x \<Longrightarrow> x < 2 ^ 32 \<Longrightarrow> k \<le> 24 \<Longrightarrow> shr_ff k (toInt32 x) = byte_of k (nat \<lfloor>x\<rfloor>)"
  by (simp add: shr_ff_eq toInt32_of_nat byte_of_def)

lemma shr_ff_word_of_int:
  assumes "0 \<le> n" "n < 2 ^ 32" "k \<le> 24"
  shows "shr_ff k (word_of_int n) = byte_of k (nat n)"
  using assms by (simp add: shr_ff_eq uint_word_of_int byte_of_def)

lemma byte_of_nat: "byte_of k m = int (m div 2 ^ k mod 256)"
  by (simp add: byte_of_def zdiv_int zmod_int)

lemma unat_u8_byte_of:
  "m div 2 ^ k + p < 256 \<Longrightarrow> unat (u8 (byte_of k m + int p)) = m div 2 ^ k + p"
  unfolding byte_of_nat of_nat_add [symmetric] u8_def
  by (simp only: of_int_of_nat_eq unat_of_nat_byte) simp

lemma u8_byte_of: "u8 (byte_of k m) = of_nat (m div 2 ^ k)"
proof -
  have "unat (u8 (byte_of k m)) = unat (of_nat (m div 2 ^ k) :: byte)"
    by (simp only: byte_of_nat u8_def of_int_of_nat_eq unat_of_nat_byte mod_mod_trivial)
  then show ?thesis by (rule unsigned_word_eqI)
qed

lemma div_pow256:
  "m div 2 ^ 16 = m div 256 div 256" "m div 2 ^ 24 = m div 256 div 256 div (256::nat)"
proof -
  have "m div (256 * 256) = m div 256 div 256" by (simp only: div_mult2_eq)
  then show "m div 2 ^ 16 = m div 256 div 256" by simp
  have "m div (256 * 256 * 256) = m div 256 div 256 div 256" by (simp only: div_mult2_eq)
  then show "m div 2 ^ 24 = m div 256 div 256 div 256" by simp
qed

lemma be_nat_bytes3:
  "be_nat [u8 (byte_of 16 m), u8 (byte_of 8 m), u8 (byte_of 0 m)] = m mod 2 ^ 24"
proof -
  have "be_bytes (Suc (Suc (Suc 0))) m = [of_nat (m div 256 div 256), of_nat (m div 256), of_nat m]"
    by simp
  then have "[u8 (byte_of 16 m), u8 (byte_of 8 m), u8 (byte_of 0 m)] = be_bytes (Suc (Suc (Suc 0))) m"
    by (simp only: u8_byte_of div_pow256) simp
  then show ?thesis by (simp only: be_nat_be_bytes) simp
qed

lemma be_nat_bytes4:
  "be_nat [u8 (byte_of 24 m), u8 (byte_of 16 m), u8 (byte_of 8 m), u8 (byte_of 0 m)] = m mod 2 ^ 32"
proof -
  have "be_bytes (Suc (Suc (Suc (Suc 0)))) m =
      [of_nat (m div 256 div 256 div 256), of_nat (m div 256 div 256), of_nat (m div 256), of_nat m]"
    by simp
  then have "[u8 (byte_of 24 m), u8 (byte_of 16 m), u8 (byte_of 8 m), u8 (byte_of 0 m)] =
      be_bytes (Suc (Suc (Suc (Suc 0)))) m"
    by (simp only: u8_byte_of div_pow256) simp
  then show ?thesis by (simp only: be_nat_be_bytes) simp
qed

lemma header_split:
  assumes "d < (64::nat)"
  shows "(d + 64) mod 64 = d" "(d + 64) div 64 = 1" "(d + 128) mod 64 = d" "(d + 128) div 64 = 2"
    "(d + 192) mod 64 = d" "(d + 192) div 64 = 3"
proof -
  have m: "(d + k * 64) mod 64 = d" and q: "(d + k * 64) div 64 = k" for k
    using assms by simp_all
  show "(d + 64) mod 64 = d" "(d + 64) div 64 = 1" using m [of 1] q [of 1] by simp_all
  show "(d + 128) mod 64 = d" "(d + 128) div 64 = 2" using m [of 2] q [of 2] by simp_all
  show "(d + 192) mod 64 = d" "(d + 192) div 64 = 3" using m [of 3] q [of 3] by simp_all
qed

lemma decodeRaw_1:
  assumes "m < 64"
  shows "decodeRaw (u8 (int m) # r) = Some ((m, 6), r)"
  using assms by (simp add: decodeRaw_def u8_def unat_of_nat_byte takeBytes_def)

lemma decodeRaw_2:
  assumes "m < 2 ^ 14"
  shows "decodeRaw (u8 (byte_of 8 m + twoBytePrefix) # u8 (byte_of 0 m) # r) = Some ((m, 14), r)"
proof -
  have d: "m div 2 ^ 8 < 64" using assms by simp
  have "unat (u8 (byte_of 8 m + twoBytePrefix)) = m div 2 ^ 8 + 64"
    using unat_u8_byte_of [of m 8 64] d by (simp add: serde_consts)
  with d show ?thesis
    by (simp add: decodeRaw_def takeBytes_def header_split be_nat_def u8_byte_of unat_of_nat_byte)
qed

lemma decodeRaw_4:
  assumes "m < 2 ^ 30"
  shows "decodeRaw (u8 (byte_of 24 m + fourBytePrefix) # u8 (byte_of 16 m) # u8 (byte_of 8 m)
           # u8 (byte_of 0 m) # r) = Some ((m, 30), r)"
proof -
  have d: "m div 2 ^ 24 < 64" using assms by simp
  have "unat (u8 (byte_of 24 m + fourBytePrefix)) = m div 2 ^ 24 + 128"
    using unat_u8_byte_of [of m 24 128] d by (simp add: serde_consts)
  moreover have "m div 2 ^ 24 * 2 ^ 24 + m mod 2 ^ 24 = m" by (rule div_mult_mod_eq)
  ultimately show ?thesis
    using d by (simp add: decodeRaw_def takeBytes_def header_split be_nat_bytes3)
qed

lemma decodeRaw_multi:
  assumes "4 \<le> length bs" "length bs < 68"
  shows "decodeRaw (u8 ((int (length bs) - 4) + multiBytePrefix) # bs @ r)
           = Some ((be_nat bs, 8 * length bs), r)"
proof -
  let ?h = "u8 ((int (length bs) - 4) + multiBytePrefix)"
  from assms(1) obtain d where d: "length bs = d + 4" by (metis le_Suc_ex add.commute)
  with assms have "d < 64" by simp
  have "?h = u8 (int (d + 192))" by (simp add: d serde_consts)
  then have "unat ?h = d + 192" using \<open>d < 64\<close> by (simp only: u8_def of_int_of_nat_eq unat_of_nat_byte) simp
  with d \<open>d < 64\<close> show ?thesis by (simp add: decodeRaw_def header_split)
qed


section \<open>The byte loop of encodeU256\<close>

lemma is_hex_js_slice: "is_hex s \<Longrightarrow> is_hex (js_slice s a b)"
  by (auto simp: is_hex_def list_all_iff js_slice_def dest!: in_set_takeD in_set_dropD)

lemma parseInt16_hex: "is_hex s \<Longrightarrow> s \<noteq> [] \<Longrightarrow> parseInt16 s = Some (hexnum s)"
proof -
  assume "is_hex s" "s \<noteq> []"
  then have all: "takeWhile (\<lambda>c. hexval c \<noteq> None) s = s"
    by (simp add: takeWhile_eq_all_conv is_hex_def list_all_iff)
  show ?thesis unfolding parseInt16_def all using \<open>s \<noteq> []\<close> by simp
qed

lemma nth_fromHex:
  "hex_bytes s \<Longrightarrow> 2 * i + 1 < length s \<Longrightarrow> fromHex s ! i = of_nat (hexnum (js_slice s (2 * i) (2 * i + 2)))"
proof (induction s arbitrary: i rule: fromHex.induct)
  case (1 a b s)
  then obtain x y where "hexval a = Some x" "hexval b = Some y" "hex_bytes s"
    by (auto simp: hex_bytes_def)
  with 1 show ?case by (cases i) (simp_all add: js_slice_def hexnum_Cons)
qed simp_all

lemma fillBytes_eq:
  "hex_bytes hex \<Longrightarrow> length hex = 2 * n \<Longrightarrow> length bs = n \<Longrightarrow>
    fillBytes hex n i bs = take i bs @ drop i (fromHex hex)"
proof (induction hex n i bs rule: fillBytes.induct)
  case (1 hex n i bs)
  show ?case
  proof (cases "i < n")
    case False
    then show ?thesis using "1.prems"
      by (subst fillBytes.simps) (simp add: length_fromHex)
  next
    case True
    have "storeByte (parseInt16 (js_slice hex (i * 2) (i * 2 + 2))) = fromHex hex ! i"
      using True "1.prems"
      by (subst parseInt16_hex)
         (auto simp: is_hex_js_slice hex_bytes_def storeByte_def u8_def nth_fromHex mult.commute)
    with "1.IH" [OF True refl] "1.prems" True show ?thesis
      by (subst fillBytes.simps)
         (simp add: Let_def length_fromHex Cons_nth_drop_Suc take_Suc_conv_app_nth)
  qed
qed

text \<open>The padded hexadecimal digits of a number, and the bytes they are.\<close>

definition evenHex :: "nat \<Rightarrow> string" where
  "evenHex m = (let h = nat_to_hex m in if length h mod 2 = 1 then CHR ''0'' # h else h)"

lemma evenHex_hex_bytes [simp]: "hex_bytes (evenHex m)"
  by (auto simp: evenHex_def hex_bytes_def Let_def odd_iff_mod_2_eq_one)

lemma hexnum_evenHex [simp]: "hexnum (evenHex m) = m"
  by (simp add: evenHex_def Let_def hexnum_Cons)

definition numBytes :: "nat \<Rightarrow> bytes" where
  "numBytes m = fromHex (evenHex m)"

lemma be_nat_numBytes [simp]: "be_nat (numBytes m) = m"
  by (simp add: numBytes_def be_nat_fromHex)

lemma length_numBytes: "length (numBytes m) = (length (nat_to_hex m) + 1) div 2"
  by (simp add: numBytes_def length_fromHex) (simp add: evenHex_def Let_def; presburger)

lemma length_numBytes_le: "m < 256 ^ k \<Longrightarrow> 0 < k \<Longrightarrow> length (numBytes m) \<le> k"
proof -
  assume "m < 256 ^ k" "0 < k"
  moreover have "(256::nat) ^ k = 16 ^ (2 * k)" by (simp add: power_mult)
  ultimately have "length (nat_to_hex m) \<le> 2 * k" by (intro length_nat_to_hex_le) simp_all
  then show ?thesis by (simp add: length_numBytes)
qed

lemma length_numBytes_gt: "256 ^ k \<le> m \<Longrightarrow> k < length (numBytes m)"
proof -
  assume "256 ^ k \<le> m"
  moreover have "(256::nat) ^ k = 16 ^ (2 * k)" by (simp add: power_mult)
  ultimately have "2 * k < length (nat_to_hex m)" by (intro length_nat_to_hex_gt) simp
  then show ?thesis by (simp add: length_numBytes)
qed

lemma encodeU256_big:
  assumes "2 ^ 30 \<le> n"
  shows "encodeU256 n = Inr (u8 ((int (length (numBytes (nat n))) - 4) + multiBytePrefix) # numBytes (nat n))"
proof -
  let ?h = "evenHex (nat n)" let ?k = "length (evenHex (nat n)) div 2"
  have l: "length ?h = 2 * ?k" using evenHex_hex_bytes [of "nat n"] by (simp add: hex_bytes_def)
  then have "fillBytes ?h ?k 0 (replicate ?k 0) = numBytes (nat n)"
    by (subst fillBytes_eq) (simp_all add: numBytes_def)
  moreover have "length (numBytes (nat n)) = ?k" by (simp add: numBytes_def length_fromHex)
  ultimately show ?thesis using assms
    by (simp add: encodeU256_def serde_consts evenHex_def Let_def)
qed


section \<open>Round trips\<close>

lemma bound_values:
  "oneByteBoundUnsigned = 64" "twoByteBoundUnsigned = 2 ^ 14" "fourByteBoundUnsigned = 2 ^ 30"
  "oneByteBoundSigned = 32" "twoByteBoundSigned = 2 ^ 13" "fourByteBoundSigned = 2 ^ 29"
  "oneBytePrefix = 0"
  by (simp_all add: serde_consts)

lemma encodeU32_raw:
  assumes "m < 2 ^ 30"
  shows "\<exists>b. \<forall>rest. decodeRaw (encodeU32 (int m) @ rest) = Some ((m, b), rest)"
proof -
  let ?w = "word_of_int (int m) :: 32 word"
  have w: "shr_ff k ?w = byte_of k m" if "k \<le> 24" for k
    using assms that shr_ff_word_of_int [of "int m" k] by simp
  consider "m < 64" | "64 \<le> m" "m < 2 ^ 14" | "2 ^ 14 \<le> m" by (meson not_less)
  then show ?thesis
  proof cases
    case 1
    then have "encodeU32 (int m) = [u8 (int m)]" by (simp add: encodeU32_def bound_values)
    with decodeRaw_1 [OF 1] show ?thesis by simp
  next
    case 2
    then have "encodeU32 (int m) = [u8 (byte_of 8 m + twoBytePrefix), u8 (byte_of 0 m)]"
      using w by (simp add: encodeU32_def bound_values del: of_int_of_nat_eq)
    with decodeRaw_2 [OF 2(2)] show ?thesis by simp
  next
    case 3
    then have "encodeU32 (int m) = [u8 (byte_of 24 m + fourBytePrefix), u8 (byte_of 16 m),
        u8 (byte_of 8 m), u8 (byte_of 0 m)]"
      using w by (simp add: encodeU32_def bound_values del: of_int_of_nat_eq)
    with decodeRaw_4 [OF assms] show ?thesis by simp
  qed
qed

lemma encodeU256_raw:
  assumes "0 \<le> n" "n < 2 ^ 536"
  shows "\<exists>bs b. encodeU256 n = Inr bs \<and> (\<forall>rest. decodeRaw (bs @ rest) = Some ((nat n, b), rest))"
proof (cases "n < 2 ^ 30")
  case False
  let ?bs = "numBytes (nat n)"
  have "nat n < 2 ^ 536" using assms by (metis nat_less_iff of_nat_numeral of_nat_power)
  then have "nat n < 256 ^ 67" by simp
  then have hi: "length ?bs < 68" using length_numBytes_le [of "nat n" 67] by simp
  have "256 ^ 3 \<le> nat n" using False by simp
  then have lo: "4 \<le> length ?bs" using length_numBytes_gt [of 3 "nat n"] by simp
  show ?thesis
    using decodeRaw_multi [OF lo hi] encodeU256_big [of n] False by (auto simp del: be_nat_numBytes) simp
next
  case small: True
  let ?m = "nat n"
  have w: "shr_ff k (word_of_int n) = byte_of k ?m" if "k \<le> 24" for k
    using assms small that by (intro shr_ff_word_of_int) simp_all
  have "encodeU256 n = Inr (encodeU32 n)"
    using small assms by (simp add: encodeU256_def bound_values)
  moreover have "?m < 2 ^ 30" using small assms by simp
  then have "\<exists>b. \<forall>rest. decodeRaw (encodeU32 (int ?m) @ rest) = Some ((?m, b), rest)"
    by (rule encodeU32_raw)
  ultimately show ?thesis using assms by simp
qed

text \<open>C14: reading back what \<open>encodeU256\<close> wrote gives the number and leaves what follows it, for
  every number below \<open>2 ^ 536\<close> (which covers the 256-bit range the name promises).\<close>

theorem encodeU256_roundtrip:
  assumes "0 \<le> n" "n < 2 ^ 536"
  shows "\<exists>bs. encodeU256 n = Inr bs \<and> (\<forall>rest. decodeUnsigned (bs @ rest) = Some (nat n, rest))"
  using encodeU256_raw [OF assms] by (auto simp: decodeUnsigned_def)

theorem encodeU256_roundtrip_witness:
  "\<exists>bs. encodeU256 1000000000000 = Inr bs \<and> (\<forall>rest. decodeUnsigned (bs @ rest) = Some (1000000000000, rest))"
  using encodeU256_roundtrip [of 1000000000000] by simp


lemma sint_toInt32:
  assumes "0 \<le> x" "x < 2 ^ 31"
  shows "sint (toInt32 x) = \<lfloor>x\<rfloor>"
proof -
  have "\<lfloor>x\<rfloor> < 2 ^ 31" using assms(2) by (simp add: floor_less_iff)
  with assms show ?thesis
    by (simp add: toInt32_def js_trunc_def signed_of_int signed_take_bit_int_eq_self)
qed


lemma sint_uint32: "sint (w :: 32 word) = (if 2 * unat w < 2 ^ 32 then int (unat w) else int (unat w) - 2 ^ 32)"
proof -
  have lt: "uint w < 2 ^ 32" using unsigned_less [of w] by simp
  have "sint w = take_bit 32 (uint w + 2 ^ 31) - 2 ^ 31"
    by (simp add: sint_uint signed_take_bit_eq_take_bit_shift)
  moreover have "take_bit 32 (uint w + 2 ^ 31) = uint w + 2 ^ 31" if "uint w < 2 ^ 31"
    using that by (simp add: take_bit_int_eq_self)
  moreover have "take_bit 32 (uint w + 2 ^ 31) = uint w + 2 ^ 31 - 2 ^ 32" if "2 ^ 31 \<le> uint w"
  proof -
    have "take_bit 32 (uint w + 2 ^ 31) = take_bit 32 (uint w + 2 ^ 31 - 2 ^ 32)"
      using minus_mod_self2 [of "uint w + 2 ^ 31" "2 ^ 32"] by (simp add: take_bit_eq_mod)
    also have "\<dots> = uint w + 2 ^ 31 - 2 ^ 32"
      using that lt by (intro take_bit_int_eq_self) simp_all
    finally show ?thesis .
  qed
  moreover have "2 * unat w < 2 ^ 32 \<longleftrightarrow> uint w < 2 ^ 31"
    by (simp add: uint_nat [symmetric] flip: of_nat_less_iff [where 'a = int])
  ultimately show ?thesis by auto
qed

lemma shr_ff_unat: "k \<le> 24 \<Longrightarrow> shr_ff k w = byte_of k (unat w)"
  by (simp add: shr_ff_eq byte_of_def)

lemma encodePositiveInt_small:
  assumes "0 \<le> x" "x < 2 ^ 29"
  shows "\<exists>bs b. encodePositiveInt x = Inr bs \<and> 2 * nat \<lfloor>x\<rfloor> < 2 ^ b \<and>
    (\<forall>rest. decodeRaw (bs @ rest) = Some ((nat \<lfloor>x\<rfloor>, b), rest))"
proof -
  let ?m = "nat \<lfloor>x\<rfloor>"
  have w: "shr_ff k (toInt32 x) = byte_of k ?m" if "k \<le> 24" for k
    using assms that by (intro shr_ff_toInt32) simp_all
  consider "x < 32" | "32 \<le> x" "x < 2 ^ 13" | "2 ^ 13 \<le> x" by (meson not_less)
  then show ?thesis
  proof cases
    case 1
    then have lt: "?m < 32" using assms by (simp add: nat_less_iff floor_less_iff)
    have "encodePositiveInt x = Inr [u8 (int ?m)]"
      using 1 assms by (simp add: encodePositiveInt_def bound_values js_trunc_def)
    with decodeRaw_1 [of ?m] lt show ?thesis by simp
  next
    case 2
    then have lt: "?m < 2 ^ 13" using assms by (simp add: nat_less_iff floor_less_iff)
    have "encodePositiveInt x = Inr [u8 (byte_of 8 ?m + twoBytePrefix), u8 (byte_of 0 ?m)]"
      using 2 assms w by (simp add: encodePositiveInt_def bound_values)
    with decodeRaw_2 [of ?m] lt show ?thesis by simp
  next
    case 3
    then have lt: "?m < 2 ^ 29" using assms by (simp add: nat_less_iff floor_less_iff)
    have "encodePositiveInt x = Inr [u8 (byte_of 24 ?m + fourBytePrefix), u8 (byte_of 16 ?m),
        u8 (byte_of 8 ?m), u8 (byte_of 0 ?m)]"
      using 3 assms w by (simp add: encodePositiveInt_def bound_values)
    with decodeRaw_4 [of ?m] lt show ?thesis by simp
  qed
qed

lemma encodePositiveInt_large:
  assumes "2 ^ 29 \<le> x"
  shows "\<exists>bs. encodePositiveInt x = Inr bs \<and>
    (\<forall>rest. decodeRaw (bs @ rest) = Some ((unat (toInt32 x), 32), rest))"
proof -
  let ?m = "unat (toInt32 x)"
  let ?bs = "[u8 (byte_of 24 ?m), u8 (byte_of 16 ?m), u8 (byte_of 8 ?m), u8 (byte_of 0 ?m)]"
  have "encodePositiveInt x = Inr (u8 ((int (length ?bs) - 4) + multiBytePrefix) # ?bs)"
    using assms by (simp add: encodePositiveInt_def bound_values shr_ff_unat Let_def)
  moreover have "?m < 2 ^ 32" using unsigned_less [of "toInt32 x", where 'a = nat] by simp
  then have "be_nat ?bs = ?m" unfolding be_nat_bytes4 by simp
  ultimately show ?thesis using decodeRaw_multi [of ?bs] by simp
qed

lemma posint_reads:
  assumes "0 \<le> x"
  shows "\<exists>bs. encodePositiveInt x = Inr bs \<and>
    (\<forall>rest. decodeSigned (bs @ rest) = Some (sint (toInt32 x), rest))"
proof (cases "x < 2 ^ 29")
  case True
  then have "sint (toInt32 x) = int (nat \<lfloor>x\<rfloor>)" using assms by (simp add: sint_toInt32)
  with encodePositiveInt_small [OF assms True] show ?thesis by (force simp: decodeSigned_def)
next
  case False
  then show ?thesis using encodePositiveInt_large [of x] by (force simp: decodeSigned_def sint_uint32)
qed

text \<open>what \<open>encodePositiveInt\<close> wrote for a value that is not negative is read back, in two's
  complement, as the \<open>ToInt32\<close> of that value: fractions are dropped and the value is reduced
  modulo \<open>2 ^ 32\<close>, so it is exact below \<open>2 ^ 31\<close> (\<open>sint_toInt32\<close>).\<close>

theorem encodePositiveInt_reads_toInt32:
  assumes "0 \<le> x"
  shows "\<exists>bs. encodePositiveInt x = Inr bs \<and>
    (\<forall>rest. decodeSigned (bs @ rest) = Some (sint (toInt32 x), rest))"
  using assms by (rule posint_reads)

theorem encodePositiveInt_reads_toInt32_witness:
  "\<exists>bs. encodePositiveInt 70000 = Inr bs \<and>
    (\<forall>rest. decodeSigned (bs @ rest) = Some (sint (toInt32 70000), rest))"
  using encodePositiveInt_reads_toInt32 [of 70000] by simp


text \<open>\<open>encodeU256\<close> writes at most 33 bytes exactly for the values that fit in 256 bits. It
  accepts the larger ones too: the guard of the code only refuses negative numbers.\<close>

theorem encodeU256_size:
  assumes "0 \<le> n"
  shows "\<exists>bs. encodeU256 n = Inr bs \<and> (length bs \<le> 33 \<longleftrightarrow> n < 2 ^ 256)"
proof (cases "n < 2 ^ 30")
  case True
  then have "encodeU256 n = Inr (encodeU32 n)" "length (encodeU32 n) \<le> 4"
    using assms by (simp_all add: encodeU256_def bound_values encodeU32_def Let_def)
  moreover have "n < 2 ^ 256" using True by simp
  ultimately show ?thesis by auto
next
  case False
  let ?bs = "numBytes (nat n)"
  have p: "256 ^ 32 = (2::nat) ^ 256" by simp
  have "length ?bs \<le> 32 \<longleftrightarrow> nat n < 256 ^ 32"
    using length_numBytes_le [of "nat n" 32] length_numBytes_gt [of 32 "nat n"]
    by (meson not_le zero_less_numeral)
  also have "\<dots> \<longleftrightarrow> n < 2 ^ 256" unfolding p using assms by (simp add: nat_less_iff)
  finally show ?thesis using encodeU256_big [of n] False by simp
qed

theorem encodeU256_size_witness:
  "\<exists>bs. encodeU256 (2 ^ 256) = Inr bs \<and> (length bs \<le> 33 \<longleftrightarrow> (2 ^ 256 :: int) < 2 ^ 256)"
  using encodeU256_size [of "2 ^ 256"] by simp

section \<open>The encoders as codecs\<close>

definition writeU256 :: "nat \<Rightarrow> bytes" where
  "writeU256 n = projr (encodeU256 (int n))"

definition writePositiveInt :: "nat \<Rightarrow> bytes" where
  "writePositiveInt n = projr (encodePositiveInt (of_nat n))"

interpretation u256: prefix_codec writeU256 decodeUnsigned "\<lambda>n. n < 2 ^ 536"
proof
  fix n r assume "n < (2::nat) ^ 536"
  then have "int n < 2 ^ 536" by (metis of_nat_less_iff of_nat_numeral of_nat_power)
  then obtain bs b where "encodeU256 (int n) = Inr bs" "decodeRaw (bs @ r) = Some ((nat (int n), b), r)"
    using encodeU256_raw [of "int n"] by (metis of_nat_0_le_iff)
  then show "decodeUnsigned (writeU256 n @ r) = Some (n, r)"
    by (simp add: writeU256_def decodeUnsigned_def)
qed

definition readPositiveInt :: "bytes \<Rightarrow> (nat \<times> bytes) option" where
  "readPositiveInt bs = map_option (\<lambda>(v, r). (nat v, r)) (decodeSigned bs)"

interpretation posint: prefix_codec writePositiveInt readPositiveInt "\<lambda>n. n < 2 ^ 31"
proof
  fix n r assume "n < (2::nat) ^ 31"
  then have "(of_nat n :: rat) < 2 ^ 31" by (metis of_nat_less_iff of_nat_numeral of_nat_power)
  then have "sint (toInt32 (of_nat n)) = int n" by (simp add: sint_toInt32)
  moreover obtain bs where "encodePositiveInt (of_nat n) = Inr bs"
    "decodeSigned (bs @ r) = Some (sint (toInt32 (of_nat n)), r)"
    using posint_reads [of "of_nat n"] by auto
  ultimately show "readPositiveInt (writePositiveInt n @ r) = Some (n, r)"
    by (simp add: writePositiveInt_def readPositiveInt_def)
qed

end
