(* ===== verification/AlphScript.thy ===== *)
theory AlphScript
  imports Serde
begin

text \<open>
  \<open>sdk/js/src/alephium/token_bridge.ts\<close>: the generators of Alephium transaction scripts. Each
  concatenates the hex form of a header and of a list of instructions. Base58 decoding is the
  third-party package \<open>bs58\<close>: it is the argument \<open>b58\<close> of every definition that uses it.

  The specification is the instruction set the comments of the file name (\<open>instr\<close>), its
  assembler \<open>asm\<close> and a disassembler \<open>disScript\<close> that reads the header, then as many
  instructions as the header announces, and refuses anything left over. The properties say which
  script each generator writes; that the script's bytes determine its arguments; and that
  no local variable is read before it is stored or lies outside the announced frame.
\<close>

section \<open>The generators\<close>

type_synonym b58 = "string \<Rightarrow> bytes result"

definition approveAlph :: string where "approveAlph = ''a2''"
definition approveToken :: string where "approveToken = ''a3''"

definition encodeAddress :: "b58 \<Rightarrow> string \<Rightarrow> string result" where
  "encodeAddress b58 address = mapR (\<lambda>bs. ''15'' @ toHex bs) (b58 address)"

definition encodeContractId :: "b58 \<Rightarrow> string \<Rightarrow> string result" where
  "encodeContractId b58 tokenId =
     (let prefix = ''14'' @ ''4020'' in
      if length tokenId = 64 then Inr (prefix @ tokenId)
      else mapR (\<lambda>bs. prefix @ toHex (drop 1 bs)) (b58 tokenId))"

text \<open>\<open>index.toString(16).padStart(2, "0")\<close>\<close>

definition index_hex :: "nat \<Rightarrow> string" where
  "index_hex index = padStart 2 (CHR ''0'') (nat_to_hex index)"

definition storeLocal :: "nat \<Rightarrow> string result" where
  "storeLocal index =
     (if 255 < index then Inl (Error (''invalid variable index: '' @ decimal index))
      else Inr (''17'' @ index_hex index))"

definition loadLocal :: "nat \<Rightarrow> string result" where
  "loadLocal index =
     (if 255 < index then Inl (Error (''invalid variable index: '' @ decimal index))
      else Inr (''16'' @ index_hex index))"

definition u256 :: "int \<Rightarrow> string result" where
  "u256 num = mapR (\<lambda>bs. ''13'' @ toHex bs) (encodeU256 num)"

definition encodeBytes :: "string \<Rightarrow> string result" where
  "encodeBytes hex =
     mapR (\<lambda>bs. ''14'' @ toHex bs @ hex) (encodePositiveInt (of_nat (length hex) / 2))"

definition callExternal :: "nat \<Rightarrow> string result" where
  "callExternal index =
     (if 255 < index then Inl (Error (''invalid method index: '' @ decimal index))
      else Inr (''01'' @ index_hex index))"

text \<open>The consistency level is a \<open>number\<close>; the model takes it as an integer, as every caller
  passes it. (\<open>BigInt\<close> of a fraction would throw.)\<close>

definition encodeConsistencyLevel :: "int \<Rightarrow> string result" where
  "encodeConsistencyLevel num =
     (if num < 0 then Inl (Error ''invalid consistencyLevel'')
      else if num \<le> 5 then Inr (index_hex (nat (0x0c + num)))
      else mapR (\<lambda>bs. ''13'' @ toHex bs) (encodeU256 num))"

text \<open>\<open>+\<close> on strings, evaluated from left to right: the first operand that throws decides.\<close>

definition concatR :: "string \<Rightarrow> string result list \<Rightarrow> string result" where
  "concatR header parts = mapR (\<lambda>ps. header @ concat ps) (sequenceR parts)"

definition transferLocalTokenCode ::
  "b58 \<Rightarrow> string \<Rightarrow> string \<Rightarrow> string \<Rightarrow> string \<Rightarrow> int \<Rightarrow> int \<Rightarrow> int \<Rightarrow> string \<Rightarrow> int \<Rightarrow> string result" where
  "transferLocalTokenCode b58 tokenWrapperAddress sender tokenId toAddress tokenAmount messageFee
     arbiterFee nonce consistencyLevel =
     (if length toAddress \<noteq> 64 then Inl (Error (''invalid toAddress: '' @ toAddress))
      else if length nonce \<noteq> 8 then Inl (Error (''invalid nonce: '' @ nonce))
      else concatR (''010101000300'' @ ''15'')
        [encodeAddress b58 sender,
         storeLocal 0,
         u256 tokenAmount,
         storeLocal 1,
         loadLocal 0,
         u256 messageFee,
         Inr approveAlph,
         loadLocal 0,
         encodeContractId b58 tokenId,
         loadLocal 1,
         Inr approveToken,
         encodeContractId b58 tokenWrapperAddress,
         storeLocal 2,
         loadLocal 0,
         encodeBytes toAddress,
         loadLocal 1,
         u256 arbiterFee,
         encodeBytes nonce,
         encodeConsistencyLevel consistencyLevel,
         loadLocal 2,
         callExternal 2])"

definition completeTransfer :: "b58 \<Rightarrow> string \<Rightarrow> string \<Rightarrow> string \<Rightarrow> string result" where
  "completeTransfer b58 tokenWrapperAddress vaa arbiter =
     concatR (''010101000100'' @ ''06'')
       [encodeContractId b58 tokenWrapperAddress,
        storeLocal 0,
        encodeBytes vaa,
        encodeAddress b58 arbiter,
        loadLocal 0,
        callExternal 3]"

definition transferRemoteTokenCode ::
  "b58 \<Rightarrow> string \<Rightarrow> string \<Rightarrow> string \<Rightarrow> int \<Rightarrow> int \<Rightarrow> int \<Rightarrow> string \<Rightarrow> int \<Rightarrow> string result" where
  "transferRemoteTokenCode b58 tokenWrapperAddress sender toAddress tokenAmount messageFee
     arbiterFee nonce consistencyLevel =
     (if length toAddress \<noteq> 64 then Inl (Error (''invalid toAddress: '' @ toAddress))
      else if length nonce \<noteq> 8 then Inl (Error (''invalid nonce: '' @ nonce))
      else concatR (''010101000400'' @ ''17'')
        [encodeAddress b58 sender,
         storeLocal 0,
         u256 tokenAmount,
         storeLocal 1,
         encodeContractId b58 tokenWrapperAddress,
         storeLocal 2,
         loadLocal 0,
         u256 messageFee,
         Inr approveAlph,
         loadLocal 0,
         loadLocal 2,
         loadLocal 1,
         Inr approveToken,
         loadLocal 2,
         storeLocal 3,
         loadLocal 0,
         encodeBytes toAddress,
         loadLocal 1,
         u256 arbiterFee,
         encodeBytes nonce,
         encodeConsistencyLevel consistencyLevel,
         loadLocal 3,
         callExternal 2])"

definition attestTokenCode ::
  "b58 \<Rightarrow> string \<Rightarrow> string \<Rightarrow> string \<Rightarrow> int \<Rightarrow> string \<Rightarrow> int \<Rightarrow> string result" where
  "attestTokenCode b58 tokenBridgeAddress tokenId payer messageFee nonce consistencyLevel =
     (if length nonce \<noteq> 8 then Inl (Error (''invalid nonce: '' @ nonce))
      else concatR (''010101000200'' @ ''0d'')
        [encodeAddress b58 payer,
         storeLocal 0,
         loadLocal 0,
         u256 messageFee,
         Inr approveAlph,
         encodeContractId b58 tokenBridgeAddress,
         storeLocal 1,
         loadLocal 0,
         encodeContractId b58 tokenId,
         encodeBytes nonce,
         encodeConsistencyLevel consistencyLevel,
         loadLocal 1,
         callExternal 8])"

definition createLocalTokenWrapperCode ::
  "b58 \<Rightarrow> string \<Rightarrow> string \<Rightarrow> string \<Rightarrow> int \<Rightarrow> string result" where
  "createLocalTokenWrapperCode b58 tokenBridgeForChainAddress localTokenId payer alphAmount =
     concatR (''010101000300'' @ ''0e'')
       [encodeAddress b58 payer,
        storeLocal 0,
        u256 alphAmount,
        storeLocal 1,
        loadLocal 0,
        loadLocal 1,
        Inr approveAlph,
        encodeContractId b58 tokenBridgeForChainAddress,
        storeLocal 2,
        encodeContractId b58 localTokenId,
        loadLocal 0,
        loadLocal 1,
        loadLocal 2,
        callExternal 4]"

definition createRemoteTokenWrapperCode ::
  "b58 \<Rightarrow> string \<Rightarrow> string \<Rightarrow> string \<Rightarrow> int \<Rightarrow> string result" where
  "createRemoteTokenWrapperCode b58 tokenBridgeForChainAddress vaa payer alphAmount =
     concatR (''010101000300'' @ ''0e'')
       [encodeAddress b58 payer,
        storeLocal 0,
        u256 alphAmount,
        storeLocal 1,
        loadLocal 0,
        loadLocal 1,
        Inr approveAlph,
        encodeContractId b58 tokenBridgeForChainAddress,
        storeLocal 2,
        encodeBytes vaa,
        loadLocal 0,
        loadLocal 1,
        loadLocal 2,
        callExternal 5]"

section \<open>Instructions, assembler and disassembler\<close>

datatype instr =
    ConstAddress bytes
  | ConstBytes bytes
  | ConstU256 nat
  | SmallU256 nat
  | StoreLocal nat
  | LoadLocal nat
  | CallExternal nat
  | ApproveAlph
  | ApproveToken

fun asm :: "instr \<Rightarrow> bytes" where
  "asm (ConstAddress a) = 0x15 # a"
| "asm (ConstBytes bs) = 0x14 # writePositiveInt (length bs) @ bs"
| "asm (ConstU256 n) = 0x13 # writeU256 n"
| "asm (SmallU256 n) = [0x0c + of_nat n]"
| "asm (StoreLocal i) = [0x17, of_nat i]"
| "asm (LoadLocal i) = [0x16, of_nat i]"
| "asm (CallExternal i) = [0x01, of_nat i]"
| "asm ApproveAlph = [0xa2]"
| "asm ApproveToken = [0xa3]"

fun valid_instr :: "instr \<Rightarrow> bool" where
  "valid_instr (ConstAddress a) \<longleftrightarrow> length a = 33"
| "valid_instr (ConstBytes bs) \<longleftrightarrow> length bs < 2 ^ 31"
| "valid_instr (ConstU256 n) \<longleftrightarrow> n < 2 ^ 536"
| "valid_instr (SmallU256 n) \<longleftrightarrow> n \<le> 5"
| "valid_instr (StoreLocal i) \<longleftrightarrow> i \<le> 255"
| "valid_instr (LoadLocal i) \<longleftrightarrow> i \<le> 255"
| "valid_instr (CallExternal i) \<longleftrightarrow> i \<le> 255"
| "valid_instr ApproveAlph \<longleftrightarrow> True"
| "valid_instr ApproveToken \<longleftrightarrow> True"

definition dis_index :: "(nat \<Rightarrow> instr) \<Rightarrow> bytes \<Rightarrow> (instr \<times> bytes) option" where
  "dis_index f r = (case r of [] \<Rightarrow> None | b # r' \<Rightarrow> Some (f (unat b), r'))"

definition dis :: "bytes \<Rightarrow> (instr \<times> bytes) option" where
  "dis bs =
     (case bs of
        [] \<Rightarrow> None
      | b # r \<Rightarrow>
          if b = 0x15 then map_option (\<lambda>(a, r'). (ConstAddress a, r')) (takeBytes 33 r)
          else if b = 0x14 then
            (case readPositiveInt r of
               None \<Rightarrow> None
             | Some (n, r') \<Rightarrow> map_option (\<lambda>(xs, r''). (ConstBytes xs, r'')) (takeBytes n r'))
          else if b = 0x13 then map_option (\<lambda>(n, r'). (ConstU256 n, r')) (decodeUnsigned r)
          else if b = 0x17 then dis_index StoreLocal r
          else if b = 0x16 then dis_index LoadLocal r
          else if b = 0x01 then dis_index CallExternal r
          else if b = 0xa2 then Some (ApproveAlph, r)
          else if b = 0xa3 then Some (ApproveToken, r)
          else if 0x0c \<le> unat b \<and> unat b \<le> 0x11 then Some (SmallU256 (unat b - 0x0c), r)
          else None)"

record script =
  methodLength :: nat
  public :: nat
  payable :: nat
  argLen :: nat
  localVarLen :: nat
  returnLen :: nat
  body :: "instr list"

definition disScript :: "bytes \<Rightarrow> script option" where
  "disScript bs =
     (case decode_n readPositiveInt 7 bs of
        Some ([ml, pu, pa, al, lv, rl, il], r) \<Rightarrow>
          (case decode_n dis il r of
             Some (is, []) \<Rightarrow>
               Some \<lparr>methodLength = ml, public = pu, payable = pa, argLen = al, localVarLen = lv,
                 returnLen = rl, body = is\<rparr>
           | _ \<Rightarrow> None)
      | _ \<Rightarrow> None)"

text \<open>Every local variable lies in the frame and is stored before it is loaded.\<close>

fun locals_ok :: "nat \<Rightarrow> nat list \<Rightarrow> instr list \<Rightarrow> bool" where
  "locals_ok n stored [] = True"
| "locals_ok n stored (i # is) =
     (case i of
        StoreLocal k \<Rightarrow> k < n \<and> locals_ok n (k # stored) is
      | LoadLocal k \<Rightarrow> k \<in> set stored \<and> locals_ok n stored is
      | _ \<Rightarrow> locals_ok n stored is)"


section \<open>The assembler is a codec\<close>

lemma unat_index: "i \<le> 255 \<Longrightarrow> unat (of_nat i :: byte) = i"
  by (simp add: unat_of_nat_byte)

lemma nat_le5_cases: "n \<le> (5::nat) \<Longrightarrow> n = 0 \<or> n = 1 \<or> n = 2 \<or> n = 3 \<or> n = 4 \<or> n = 5"
  by presburger

interpretation instrs: prefix_codec asm dis valid_instr
proof
  fix i r assume v: "valid_instr i"
  show "dis (asm i @ r) = Some (i, r)"
  proof (cases i)
    case (ConstBytes bs)
    with v posint.dec_enc [of "length bs" "bs @ r"] show ?thesis by (simp add: dis_def)
  next
    case (ConstU256 n)
    with v u256.dec_enc [of n r] show ?thesis by (simp add: dis_def)
  next
    case (SmallU256 n)
    with v show ?thesis by (auto simp: dis_def dest!: nat_le5_cases)
  qed (use v in \<open>simp_all add: dis_def dis_index_def unat_index\<close>)
qed

section \<open>What each generator step emits\<close>

text \<open>A step emits an instruction when it returns its hex form.\<close>

definition emits :: "string result \<Rightarrow> instr \<Rightarrow> bool" where
  "emits m i \<longleftrightarrow> (\<exists>s. m = Inr s \<and> hex_bytes s \<and> fromHex s = asm i) \<and> valid_instr i"

lemma index_hex_byte: "i \<le> 255 \<Longrightarrow> index_hex i = byte_hex (of_nat i)"
  by (simp add: index_hex_def byte_hex_def unat_index)

lemma index_hex_bytes: "i \<le> 255 \<Longrightarrow> hex_bytes (index_hex i) \<and> fromHex (index_hex i) = [of_nat i]"
proof -
  assume i: "i \<le> 255"
  have "toHex [of_nat i] = index_hex i" by (simp add: index_hex_byte [OF i])
  then show ?thesis by (metis fromHex_toHex hex_bytes_toHex)
qed

lemma emits_storeLocal: "i \<le> 255 \<Longrightarrow> emits (storeLocal i) (StoreLocal i)"
  by (simp add: emits_def storeLocal_def index_hex_bytes)

lemma emits_loadLocal: "i \<le> 255 \<Longrightarrow> emits (loadLocal i) (LoadLocal i)"
  by (simp add: emits_def loadLocal_def index_hex_bytes)

lemma emits_callExternal: "i \<le> 255 \<Longrightarrow> emits (callExternal i) (CallExternal i)"
  by (simp add: emits_def callExternal_def index_hex_bytes)

lemma emits_approve: "emits (Inr approveAlph) ApproveAlph" "emits (Inr approveToken) ApproveToken"
  by (simp_all add: emits_def approveAlph_def approveToken_def)

lemma emits_encodeAddress:
  "b58 address = Inr a \<Longrightarrow> length a = 33 \<Longrightarrow> emits (encodeAddress b58 address) (ConstAddress a)"
  by (simp add: emits_def encodeAddress_def)

text \<open>The 32 bytes a contract id stands for: 64 hex digits, or a Base58 address whose first
  byte is the address type.\<close>

definition contractBytes :: "b58 \<Rightarrow> string \<Rightarrow> bytes option" where
  "contractBytes b58 s =
     (if length s = 64 then (if is_hex s then Some (fromHex s) else None)
      else (case b58 s of
              Inl _ \<Rightarrow> None
            | Inr bs \<Rightarrow> if length bs = 33 then Some (drop 1 bs) else None))"

lemma writePositiveInt_32: "writePositiveInt 32 = [0x40, 0x20]"
  by (simp add: writePositiveInt_def encodePositiveInt_def bound_values shr_ff_eq toInt32_def
      js_trunc_def u8_def serde_consts)

lemma emits_encodeContractId:
  assumes "contractBytes b58 s = Some c"
  shows "emits (encodeContractId b58 s) (ConstBytes c)"
proof -
  have "length c = 32" using assms
    by (auto simp: contractBytes_def length_fromHex hex_bytes_def split: if_splits sum.splits)
  with assms show ?thesis
    by (auto simp: emits_def encodeContractId_def contractBytes_def writePositiveInt_32
        hex_bytes_def split: if_splits sum.splits)
qed

lemma emits_u256:
  assumes "0 \<le> n" "n < 2 ^ 256"
  shows "emits (u256 n) (ConstU256 (nat n))"
proof -
  have "n < 2 ^ 536" using assms(2) by simp
  then have "nat n < 2 ^ 536" using assms(1) by (simp add: nat_less_iff)
  moreover obtain bs where "encodeU256 n = Inr bs" using encodeU256_raw [OF assms(1) \<open>n < 2 ^ 536\<close>] by blast
  ultimately show ?thesis using assms by (simp add: emits_def u256_def writeU256_def)
qed

text \<open>Hex digits pass through \<open>encodeBytes\<close> as the bytes they denote.\<close>

lemma emits_encodeBytes:
  assumes "hex_bytes hex" "length hex < 2 ^ 32"
  shows "emits (encodeBytes hex) (ConstBytes (fromHex hex))"
proof -
  obtain k where k: "length hex = 2 * k" using assms(1) by (auto simp: hex_bytes_def)
  then have "(of_nat (length hex) / 2 :: rat) = of_nat k" by simp
  moreover obtain bs where bs: "encodePositiveInt (of_nat k) = Inr bs"
    using posint_reads [of "of_nat k"] by auto
  ultimately have "encodeBytes hex = Inr (''14'' @ toHex bs @ hex)"
    by (simp add: encodeBytes_def)
  with k bs assms show ?thesis
    by (simp add: emits_def length_fromHex writePositiveInt_def hex_bytes_append)
qed

definition consistencyInstr :: "int \<Rightarrow> instr" where
  "consistencyInstr n = (if n \<le> 5 then SmallU256 (nat n) else ConstU256 (nat n))"

lemma emits_encodeConsistencyLevel:
  assumes "0 \<le> n" "n < 2 ^ 256"
  shows "emits (encodeConsistencyLevel n) (consistencyInstr n)"
proof (cases "n \<le> 5")
  case True
  with assms index_hex_bytes [of "nat (12 + n)"] show ?thesis
    by (simp add: emits_def encodeConsistencyLevel_def consistencyInstr_def)
next
  case False
  with emits_u256 [OF assms] assms show ?thesis
    by (simp add: emits_def encodeConsistencyLevel_def consistencyInstr_def u256_def)
qed


lemmas emits_intros =
  emits_storeLocal emits_loadLocal emits_callExternal emits_approve emits_encodeAddress
  emits_encodeContractId emits_u256 emits_encodeBytes emits_encodeConsistencyLevel

section \<open>Whole scripts\<close>

lemma sequenceR_emits:
  "list_all2 emits ms is \<Longrightarrow> \<exists>ss. sequenceR ms = Inr ss \<and> hex_bytes (concat ss) \<and>
     fromHex (concat ss) = concat (map asm is) \<and> list_all valid_instr is"
proof (induction rule: list_all2_induct)
  case (Cons m ms i "is")
  then obtain s ss where "m = Inr s" "hex_bytes s" "fromHex s = asm i" "valid_instr i"
    "sequenceR ms = Inr ss" "hex_bytes (concat ss)" "fromHex (concat ss) = concat (map asm is)"
    "list_all valid_instr is" by (auto simp: emits_def)
  then show ?case by (auto simp: hex_bytes_append)
qed simp

lemma readPositiveInt_small: "n < 32 \<Longrightarrow> readPositiveInt (of_nat n # r) = Some (n, r)"
  using decodeRaw_1 [of n r] by (simp add: readPositiveInt_def decodeSigned_def u8_def)

text \<open>\<open>writes_script m l is\<close>: the generator returned a hex string whose bytes disassemble to one
  public, payable method without arguments or results, with \<open>l\<close> local variables and the body
  \<open>is\<close>, and that body uses its local variables properly.\<close>

definition writes_script :: "string result \<Rightarrow> nat \<Rightarrow> instr list \<Rightarrow> bool" where
  "writes_script m l is \<longleftrightarrow>
     (\<exists>code. m = Inr code \<and> hex_bytes code \<and>
        disScript (fromHex code) = Some \<lparr>methodLength = 1, public = 1, payable = 1, argLen = 0,
          localVarLen = l, returnLen = 0, body = is\<rparr>) \<and>
     locals_ok l [] is"

lemma writes_script_unique: "writes_script m l is \<Longrightarrow> writes_script m l' is' \<Longrightarrow> l = l' \<and> is = is'"
  by (auto simp: writes_script_def)

text \<open>A header that announces the number of parts, and parts that emit.\<close>

lemma concatR_script:
  assumes parts: "list_all2 emits ms is"
    and h: "hex_bytes h" "fromHex h = [1, 1, 1, 0, of_nat l, 0, of_nat n]"
    and n: "l < 32" "n < 32" "length is = n"
    and ok: "locals_ok l [] is"
  shows "writes_script (concatR h ms) l is"
proof -
  obtain ss where ss: "sequenceR ms = Inr ss" "hex_bytes (concat ss)"
    "fromHex (concat ss) = concat (map asm is)" "list_all valid_instr is"
    using sequenceR_emits [OF parts] by blast
  have "decode_n dis n (concat (map asm is)) = Some (is, [])"
    using instrs.decode_many [OF ss(4), of "[]"] n(3) by simp
  moreover have seven: "(7::nat) = Suc (Suc (Suc (Suc (Suc (Suc (Suc 0))))))" by simp
  ultimately have "disScript (fromHex h @ concat (map asm is)) = Some \<lparr>methodLength = 1, public = 1,
      payable = 1, argLen = 0, localVarLen = l, returnLen = 0, body = is\<rparr>"
    using n(1,2) readPositiveInt_small [of 1] readPositiveInt_small [of 0]
    unfolding disScript_def seven by (simp add: h(2) readPositiveInt_small)
  with ss h(1) ok show ?thesis by (simp add: concatR_def writes_script_def hex_bytes_append)
qed

lemmas script_intros =
  concatR_script list_all2_Cons [THEN iffD2] list_all2_Nil [THEN iffD2] conjI TrueI emits_intros

text \<open>The arguments of a transfer that the generators encode: a 33-byte sender address, 32 hex
  bytes of recipient, 4 of nonce, and amounts of the 256-bit type.\<close>

definition valid_sender :: "b58 \<Rightarrow> string \<Rightarrow> bytes \<Rightarrow> bool" where
  "valid_sender b58 sender a \<longleftrightarrow> b58 sender = Inr a \<and> length a = 33"

definition valid_recipient :: "string \<Rightarrow> bool" where
  "valid_recipient s \<longleftrightarrow> length s = 64 \<and> is_hex s"

definition valid_nonce :: "string \<Rightarrow> bool" where
  "valid_nonce s \<longleftrightarrow> length s = 8 \<and> is_hex s"

definition is_u256 :: "int \<Rightarrow> bool" where
  "is_u256 n \<longleftrightarrow> 0 \<le> n \<and> n < 2 ^ 256"

lemmas valid_args = valid_sender_def valid_recipient_def valid_nonce_def is_u256_def

lemma transferLocal_writes:
  assumes "valid_sender b58 sender from"
    and "contractBytes b58 tokenId = Some token"
    and "contractBytes b58 tokenWrapperAddress = Some wrapper"
    and "valid_recipient toAddress" "valid_nonce nonce"
    and "is_u256 tokenAmount" "is_u256 messageFee" "is_u256 arbiterFee" "is_u256 consistencyLevel"
  shows "writes_script (transferLocalTokenCode b58 tokenWrapperAddress sender tokenId toAddress
      tokenAmount messageFee arbiterFee nonce consistencyLevel) 3
    [ConstAddress from, StoreLocal 0, ConstU256 (nat tokenAmount), StoreLocal 1,
     LoadLocal 0, ConstU256 (nat messageFee), ApproveAlph,
     LoadLocal 0, ConstBytes token, LoadLocal 1, ApproveToken,
     ConstBytes wrapper, StoreLocal 2,
     LoadLocal 0, ConstBytes (fromHex toAddress), LoadLocal 1, ConstU256 (nat arbiterFee),
     ConstBytes (fromHex nonce), consistencyInstr consistencyLevel, LoadLocal 2, CallExternal 2]"
  using assms unfolding transferLocalTokenCode_def valid_args
  by (simp only: simp_thms if_False)
     (intro script_intros; simp add: hex_bytes_def consistencyInstr_def)

section \<open>The properties\<close>

text \<open>C1: \<open>transferLocalTokenCode\<close> writes exactly this script: the header announces as many
  instructions as follow, no byte is left over, and every local variable is stored before it is
  loaded.\<close>

theorem transferLocalTokenCode_script:
  assumes "valid_sender b58 sender from"
    and "contractBytes b58 tokenId = Some token"
    and "contractBytes b58 tokenWrapperAddress = Some wrapper"
    and "valid_recipient toAddress" "valid_nonce nonce"
    and "is_u256 tokenAmount" "is_u256 messageFee" "is_u256 arbiterFee" "is_u256 consistencyLevel"
  shows "writes_script (transferLocalTokenCode b58 tokenWrapperAddress sender tokenId toAddress
      tokenAmount messageFee arbiterFee nonce consistencyLevel) 3
    [ConstAddress from, StoreLocal 0, ConstU256 (nat tokenAmount), StoreLocal 1,
     LoadLocal 0, ConstU256 (nat messageFee), ApproveAlph,
     LoadLocal 0, ConstBytes token, LoadLocal 1, ApproveToken,
     ConstBytes wrapper, StoreLocal 2,
     LoadLocal 0, ConstBytes (fromHex toAddress), LoadLocal 1, ConstU256 (nat arbiterFee),
     ConstBytes (fromHex nonce), consistencyInstr consistencyLevel, LoadLocal 2, CallExternal 2]"
  using assms by (rule transferLocal_writes)

definition demo_b58 :: b58 where
  "demo_b58 s = Inr (0 # replicate 32 (of_nat (length s)))"

lemma is_hex_replicate [simp]: "is_hex (replicate n c) \<longleftrightarrow> n = 0 \<or> hexval c \<noteq> None"
  by (auto simp: is_hex_def list_all_iff)

theorem transferLocalTokenCode_script_witness:
  "\<exists>body. writes_script (transferLocalTokenCode demo_b58 ''wrapper'' ''sender'' ''token''
     (replicate 64 (CHR ''7'')) 5 6 7 ''01020304'' 10) 3 body \<and> length body = 21"
  using transferLocalTokenCode_script [of demo_b58 "''sender''" _ "''token''" _ "''wrapper''" _
      "replicate 64 (CHR ''7'')" "''01020304''" 5 6 7 10]
  by (fastforce simp: valid_args contractBytes_def demo_b58_def)


text \<open>the bytes of a local transfer determine everything it was made from.\<close>

theorem transferLocalTokenCode_determines:
  assumes eq: "transferLocalTokenCode b58 wrap sender tok toAddr amount fee arb nonce cl =
      transferLocalTokenCode b58 wrap' sender' tok' toAddr' amount' fee' arb' nonce' cl'"
    and v: "valid_sender b58 sender from" "contractBytes b58 tok = Some token"
      "contractBytes b58 wrap = Some wrapper" "valid_recipient toAddr" "valid_nonce nonce"
      "is_u256 amount" "is_u256 fee" "is_u256 arb" "is_u256 cl"
    and v': "valid_sender b58 sender' from'" "contractBytes b58 tok' = Some token'"
      "contractBytes b58 wrap' = Some wrapper'" "valid_recipient toAddr'" "valid_nonce nonce'"
      "is_u256 amount'" "is_u256 fee'" "is_u256 arb'" "is_u256 cl'"
  shows "from = from' \<and> token = token' \<and> wrapper = wrapper' \<and> fromHex toAddr = fromHex toAddr' \<and>
    fromHex nonce = fromHex nonce' \<and> amount = amount' \<and> fee = fee' \<and> arb = arb' \<and> cl = cl'"
proof -
  have "consistencyInstr cl = consistencyInstr cl' \<longleftrightarrow> cl = cl'"
    using v(9) v'(9) by (auto simp: consistencyInstr_def is_u256_def nat_eq_iff)
  moreover have "nat a = nat b \<longleftrightarrow> a = b" if "is_u256 a" "is_u256 b" for a b
    using that by (auto simp: is_u256_def)
  ultimately show ?thesis
    using writes_script_unique [OF transferLocal_writes [OF v]
        transferLocal_writes [OF v', folded eq]] v(6-8) v'(6-8) by simp
qed

theorem transferLocalTokenCode_determines_witness:
  "transferLocalTokenCode demo_b58 ''w'' ''s'' ''t'' (replicate 64 (CHR ''7'')) 5 6 7 ''01020304'' 10 =
   transferLocalTokenCode demo_b58 ''v'' ''r'' ''u'' (replicate 64 (CHR ''7'')) 5 6 7 ''01020304'' 10 \<and>
   fromHex ''01020304'' = [1, 2, 3, 4]"
  using transferLocalTokenCode_determines [of demo_b58 "''w''" "''s''" "''t''" "replicate 64 (CHR ''7'')"
      5 6 7 "''01020304''" 10 "''v''" "''r''" "''u''" "replicate 64 (CHR ''7'')" 5 6 7 "''01020304''" 10
      "0 # replicate 32 1" "tl (0 # replicate 32 1)" "tl (0 # replicate 32 1)"
      "0 # replicate 32 1" "tl (0 # replicate 32 1)" "tl (0 # replicate 32 1)"]
  by (simp add: valid_args contractBytes_def demo_b58_def transferLocalTokenCode_def encodeAddress_def
      encodeContractId_def)

text \<open>\<open>transferRemoteTokenCode\<close> writes exactly this script.\<close>

theorem transferRemoteTokenCode_script:
  assumes "valid_sender b58 sender from"
    and "contractBytes b58 tokenWrapperAddress = Some wrapper"
    and "valid_recipient toAddress" "valid_nonce nonce"
    and "is_u256 tokenAmount" "is_u256 messageFee" "is_u256 arbiterFee" "is_u256 consistencyLevel"
  shows "writes_script (transferRemoteTokenCode b58 tokenWrapperAddress sender toAddress
      tokenAmount messageFee arbiterFee nonce consistencyLevel) 4
    [ConstAddress from, StoreLocal 0, ConstU256 (nat tokenAmount), StoreLocal 1,
     ConstBytes wrapper, StoreLocal 2,
     LoadLocal 0, ConstU256 (nat messageFee), ApproveAlph,
     LoadLocal 0, LoadLocal 2, LoadLocal 1, ApproveToken, LoadLocal 2, StoreLocal 3,
     LoadLocal 0, ConstBytes (fromHex toAddress), LoadLocal 1, ConstU256 (nat arbiterFee),
     ConstBytes (fromHex nonce), consistencyInstr consistencyLevel, LoadLocal 3, CallExternal 2]"
  using assms unfolding transferRemoteTokenCode_def valid_args
  by (simp only: simp_thms if_False)
     (intro script_intros; simp add: hex_bytes_def consistencyInstr_def)

theorem transferRemoteTokenCode_script_witness:
  "\<exists>body. writes_script (transferRemoteTokenCode demo_b58 ''wrapper'' ''sender''
     (replicate 64 (CHR ''7'')) 5 6 7 ''01020304'' 1) 4 body \<and> length body = 23"
  using transferRemoteTokenCode_script [of demo_b58 "''sender''" _ "''wrapper''" _
      "replicate 64 (CHR ''7'')" "''01020304''" 5 6 7 1]
  by (fastforce simp: valid_args contractBytes_def demo_b58_def)

text \<open>\<open>completeTransfer\<close> writes exactly this script for every VAA of fewer than
  \<open>2 ^ 31\<close> bytes.\<close>

theorem completeTransfer_script:
  assumes "contractBytes b58 tokenWrapperAddress = Some wrapper"
    and "hex_bytes vaa" "length vaa < 2 ^ 32"
    and "valid_sender b58 arbiter a"
  shows "writes_script (completeTransfer b58 tokenWrapperAddress vaa arbiter) 1
    [ConstBytes wrapper, StoreLocal 0, ConstBytes (fromHex vaa), ConstAddress a, LoadLocal 0,
     CallExternal 3]"
  using assms unfolding completeTransfer_def valid_args
  by (intro script_intros; simp)

theorem completeTransfer_script_witness:
  "\<exists>a w. writes_script (completeTransfer demo_b58 ''wrapper'' ''0100ff'' ''arbiter'') 1
    [ConstBytes w, StoreLocal 0, ConstBytes [1, 0, 255], ConstAddress a, LoadLocal 0, CallExternal 3]"
  using completeTransfer_script [of demo_b58 "''wrapper''" _ "''0100ff''" "''arbiter''"]
  by (fastforce simp: valid_args contractBytes_def demo_b58_def)

text \<open>\<open>attestTokenCode\<close> writes exactly this script.\<close>

theorem attestTokenCode_script:
  assumes "contractBytes b58 tokenBridgeAddress = Some bridge"
    and "contractBytes b58 tokenId = Some token"
    and "valid_sender b58 payer a" "valid_nonce nonce" "is_u256 messageFee" "is_u256 consistencyLevel"
  shows "writes_script (attestTokenCode b58 tokenBridgeAddress tokenId payer messageFee nonce
      consistencyLevel) 2
    [ConstAddress a, StoreLocal 0, LoadLocal 0, ConstU256 (nat messageFee), ApproveAlph,
     ConstBytes bridge, StoreLocal 1, LoadLocal 0, ConstBytes token, ConstBytes (fromHex nonce),
     consistencyInstr consistencyLevel, LoadLocal 1, CallExternal 8]"
  using assms unfolding attestTokenCode_def valid_args
  by (simp only: simp_thms if_False)
     (intro script_intros; simp add: hex_bytes_def consistencyInstr_def)

theorem attestTokenCode_script_witness:
  "\<exists>body. writes_script (attestTokenCode demo_b58 ''bridge'' ''token'' ''payer'' 100 ''00000001'' 5) 2 body
    \<and> length body = 13"
  using attestTokenCode_script [of demo_b58 "''bridge''" _ "''token''" _ "''payer''" _ "''00000001''" 100 5]
  by (fastforce simp: valid_args contractBytes_def demo_b58_def)

text \<open>the two wrapper generators write the same frame around the token id or the VAA, and
  differ in the method they call (4 for a local token, 5 for a remote one).\<close>

theorem createTokenWrapperCode_scripts:
  assumes "contractBytes b58 bridgeForChain = Some bridge" "valid_sender b58 payer a"
    and "is_u256 alphAmount" "contractBytes b58 localTokenId = Some token"
    and "hex_bytes vaa" "length vaa < 2 ^ 32"
  shows "writes_script (createLocalTokenWrapperCode b58 bridgeForChain localTokenId payer alphAmount) 3
      [ConstAddress a, StoreLocal 0, ConstU256 (nat alphAmount), StoreLocal 1, LoadLocal 0, LoadLocal 1,
       ApproveAlph, ConstBytes bridge, StoreLocal 2, ConstBytes token,
       LoadLocal 0, LoadLocal 1, LoadLocal 2, CallExternal 4] \<and>
    writes_script (createRemoteTokenWrapperCode b58 bridgeForChain vaa payer alphAmount) 3
      [ConstAddress a, StoreLocal 0, ConstU256 (nat alphAmount), StoreLocal 1, LoadLocal 0, LoadLocal 1,
       ApproveAlph, ConstBytes bridge, StoreLocal 2, ConstBytes (fromHex vaa),
       LoadLocal 0, LoadLocal 1, LoadLocal 2, CallExternal 5]"
  using assms unfolding createLocalTokenWrapperCode_def createRemoteTokenWrapperCode_def valid_args
  by (intro conjI [of "writes_script _ _ _"] script_intros; simp)

theorem createTokenWrapperCode_scripts_witness:
  "\<exists>is. writes_script (createLocalTokenWrapperCode demo_b58 ''chain'' ''token'' ''payer'' 9) 3 is
    \<and> length is = 14"
  using createTokenWrapperCode_scripts [of demo_b58 "''chain''" _ "''payer''" _ 9 "''token''" _ "''00''"]
  by (fastforce simp: valid_args contractBytes_def demo_b58_def)

text \<open>a transfer whose amounts or consistency level are negative, or whose recipient or
  nonce has the wrong length, is refused.\<close>

theorem transferCode_guards:
  assumes "transferLocalTokenCode b58 wrap sender tok toAddr amount fee arb nonce cl = Inr code \<or>
      transferRemoteTokenCode b58 wrap sender toAddr amount fee arb nonce cl = Inr code"
  shows "length toAddr = 64 \<and> length nonce = 8 \<and> 0 \<le> amount \<and> 0 \<le> fee \<and> 0 \<le> arb \<and> 0 \<le> cl"
proof -
  have "0 \<le> n" if "u256 n = Inr s" for n s
    using that by (auto simp: u256_def encodeU256_def split: if_splits)
  moreover have "0 \<le> n" if "encodeConsistencyLevel n = Inr s" for n s
    using that by (auto simp: encodeConsistencyLevel_def split: if_splits)
  ultimately show ?thesis
    using assms
    by (auto simp: transferLocalTokenCode_def transferRemoteTokenCode_def concatR_def split: if_splits)
qed

theorem transferCode_guards_witness:
  "\<exists>code. transferRemoteTokenCode demo_b58 ''w'' ''s'' (replicate 64 (CHR ''7'')) 0 0 0 ''01020304'' 0
     = Inr code \<and> (0::int) \<le> 0"
proof -
  obtain code where "transferRemoteTokenCode demo_b58 ''w'' ''s'' (replicate 64 (CHR ''7'')) 0 0 0
      ''01020304'' 0 = Inr code"
    by (simp add: transferRemoteTokenCode_def concatR_def encodeAddress_def encodeContractId_def
        demo_b58_def storeLocal_def loadLocal_def callExternal_def u256_def encodeU256_def bound_values
        encodeBytes_def encodePositiveInt_def encodeConsistencyLevel_def Let_def)
  with transferCode_guards [of demo_b58 "''w''" "''s''" undefined "replicate 64 (CHR ''7'')" 0 0 0
      "''01020304''" 0 code] show ?thesis by blast
qed

end
