(* ===== verification/Base64.thy ===== *)
theory Base64
  imports Bytes
begin

text \<open>
  Base64 as Node's buffers have it (\<open>toString("base64")\<close>, \<open>Buffer.from(s, "base64")\<close>), the random
  nonce of \<open>sdk/js/src/utils/createNonce.ts\<close>, and the little-endian reads of buffers.
\<close>

section \<open>Base64\<close>

definition b64_char :: "nat \<Rightarrow> char" where
  "b64_char n =
     (if n < 26 then char_of (n + 65)
      else if n < 52 then char_of (n + 71)
      else if n < 62 then char_of (n - 4)
      else if n = 62 then CHR ''+'' else CHR ''/'')"

text \<open>Decoding also takes the two characters of the URL-safe alphabet.\<close>

definition b64_index :: "char \<Rightarrow> nat option" where
  "b64_index c =
     (let n = of_char c :: nat in
      if 65 \<le> n \<and> n \<le> 90 then Some (n - 65)
      else if 97 \<le> n \<and> n \<le> 122 then Some (n - 71)
      else if 48 \<le> n \<and> n \<le> 57 then Some (n + 4)
      else if n = 43 \<or> n = 45 then Some 62
      else if n = 47 \<or> n = 95 then Some 63
      else None)"

fun base64 :: "bytes \<Rightarrow> string" where
  "base64 [] = []"
| "base64 [a] = [b64_char (unat a div 4), b64_char (unat a mod 4 * 16), CHR ''='', CHR ''='']"
| "base64 [a, b] = [b64_char (unat a div 4), b64_char (unat a mod 4 * 16 + unat b div 16),
     b64_char (unat b mod 16 * 4), CHR ''='']"
| "base64 (a # b # c # bs) = b64_char (unat a div 4) # b64_char (unat a mod 4 * 16 + unat b div 16) #
     b64_char (unat b mod 16 * 4 + unat c div 64) # b64_char (unat c mod 64) # base64 bs"

text \<open>Decoding stops at the first equals sign and skips characters that are not of the alphabet.\<close>

fun b64_sextets :: "string \<Rightarrow> nat list" where
  "b64_sextets [] = []"
| "b64_sextets (c # s) =
     (if c = CHR ''='' then []
      else case b64_index c of None \<Rightarrow> b64_sextets s | Some n \<Rightarrow> n # b64_sextets s)"

fun b64_join :: "nat list \<Rightarrow> bytes" where
  "b64_join (p # q # r # s # xs) =
     of_nat (p * 4 + q div 16) # of_nat (q mod 16 * 16 + r div 4) # of_nat (r mod 4 * 64 + s) # b64_join xs"
| "b64_join [p, q, r] = [of_nat (p * 4 + q div 16), of_nat (q mod 16 * 16 + r div 4)]"
| "b64_join [p, q] = [of_nat (p * 4 + q div 16)]"
| "b64_join _ = []"

definition base64Decode :: "string \<Rightarrow> bytes" where
  "base64Decode s = b64_join (b64_sextets s)"

lemma b64_index_char [simp]:
  assumes "n < 64"
  shows "b64_index (b64_char n) = Some n"
proof -
  consider "n < 26" | "26 \<le> n" "n < 52" | "52 \<le> n" "n < 62" | "n = 62" | "n = 63" using assms by linarith
  then show ?thesis by cases (simp_all add: b64_char_def b64_index_def Let_def, arith?)
qed

lemma b64_char_not_pad [simp]: "n < 64 \<Longrightarrow> b64_char n \<noteq> CHR ''=''"
proof
  assume "n < 64" "b64_char n = CHR ''=''"
  then have "b64_index (CHR ''='') = Some n" using b64_index_char by metis
  then show False by (simp add: b64_index_def)
qed

lemma byte_join:
  "of_nat (unat (a::byte) div k * k + unat a mod k) = a"
  by simp

lemma sextet_bounds [simp]:
  "unat (a::byte) div 4 < 64"
  "unat (a::byte) mod 4 * 16 < 64"
  "unat (a::byte) mod 4 * 16 + unat (b::byte) div 16 < 64"
  "unat (b::byte) mod 16 * 4 < 64"
  "unat (b::byte) mod 16 * 4 + unat (c::byte) div 64 < 64"
proof -
  have m: "unat a mod 4 < 4" "unat b mod 16 < 16" by simp_all
  have d: "unat a div 4 < 64" "unat b div 16 < 16" "unat c div 64 < 4" by (simp_all add: less_mult_imp_div_less)
  show "unat a div 4 < 64" by (rule d)
  show "unat a mod 4 * 16 < 64" "unat a mod 4 * 16 + unat b div 16 < 64" using m(1) d(2) by linarith+
  show "unat b mod 16 * 4 < 64" "unat b mod 16 * 4 + unat c div 64 < 64" using m(2) d(3) by linarith+
qed

lemma b64_join_first:
  "of_nat (unat (a::byte) div 4 * 4 + (unat a mod 4 * 16 + unat (b::byte) div 16) div 16) = a"
  "of_nat (unat (a::byte) div 4 * 4 + unat a mod 4 * 16 div 16) = a"
proof -
  have "unat b div 16 < 16" by (simp add: less_mult_imp_div_less)
  then have "(unat a mod 4 * 16 + unat b div 16) div 16 = unat a mod 4" by simp
  then show "of_nat (unat a div 4 * 4 + (unat a mod 4 * 16 + unat b div 16) div 16) = a" using byte_join [of a 4] by simp
  show "of_nat (unat a div 4 * 4 + unat a mod 4 * 16 div 16) = a" using byte_join [of a 4] by simp
qed

lemma b64_join_second:
  "of_nat ((unat (a::byte) mod 4 * 16 + unat (b::byte) div 16) mod 16 * 16 + (unat b mod 16 * 4 + unat (c::byte) div 64) div 4) = b"
  "of_nat ((unat (a::byte) mod 4 * 16 + unat (b::byte) div 16) mod 16 * 16 + unat b mod 16 * 4 div 4) = b"
proof -
  have "unat b div 16 < 16" "unat c div 64 < 4" by (simp_all add: less_mult_imp_div_less)
  then have "(unat a mod 4 * 16 + unat b div 16) mod 16 = unat b div 16"
    "(unat b mod 16 * 4 + unat c div 64) div 4 = unat b mod 16" by simp_all
  then show "of_nat ((unat a mod 4 * 16 + unat b div 16) mod 16 * 16 + (unat b mod 16 * 4 + unat c div 64) div 4) = b"
    "of_nat ((unat a mod 4 * 16 + unat b div 16) mod 16 * 16 + unat b mod 16 * 4 div 4) = b"
    using byte_join [of b 16] by simp_all
qed

lemma b64_join_third:
  "of_nat ((unat (b::byte) mod 16 * 4 + unat (c::byte) div 64) mod 4 * 64 + unat c mod 64) = c"
proof -
  have "unat c div 64 < 4" by (simp add: less_mult_imp_div_less)
  then have "(unat b mod 16 * 4 + unat c div 64) mod 4 = unat c div 64" by simp
  then show ?thesis using byte_join [of c 64] by simp
qed

lemma b64_sextets_char [simp]: "n < 64 \<Longrightarrow> b64_sextets (b64_char n # s) = n # b64_sextets s"
  by simp

lemma base64Decode_base64 [simp]: "base64Decode (base64 bs) = bs"
proof -
  have "b64_join (b64_sextets (base64 bs)) = bs"
  proof (induction bs rule: base64.induct)
    case 1
    show ?case by simp
  next
    case (2 a)
    have "b64_sextets (base64 [a]) = [unat a div 4, unat a mod 4 * 16]"
      by (simp del: b64_sextets.simps(2)) simp
    then show ?case by (simp only: b64_join.simps b64_join_first)
  next
    case (3 a b)
    have "b64_sextets (base64 [a, b]) = [unat a div 4, unat a mod 4 * 16 + unat b div 16, unat b mod 16 * 4]"
      by (simp del: b64_sextets.simps(2)) simp
    then show ?case by (simp only: b64_join.simps b64_join_first b64_join_second)
  next
    case (4 a b c bs)
    have "b64_sextets (base64 (a # b # c # bs)) = unat a div 4 # (unat a mod 4 * 16 + unat b div 16) #
        (unat b mod 16 * 4 + unat c div 64) # unat c mod 64 # b64_sextets (base64 bs)"
      by (simp del: b64_sextets.simps(2))
    then show ?case by (simp only: b64_join.simps b64_join_first b64_join_second b64_join_third 4)
  qed
  then show ?thesis by (simp add: base64Decode_def)
qed

section \<open>Nonces (\<open>utils/createNonce.ts\<close>)\<close>

text \<open>\<open>Math.random()\<close> is an argument \<open>r\<close> with \<open>0 \<le> r < 1\<close>. \<open>writeUInt32LE\<close> drops the fraction.\<close>

fun le_bytes :: "nat \<Rightarrow> nat \<Rightarrow> bytes" where
  "le_bytes 0 n = []"
| "le_bytes (Suc k) n = of_nat n # le_bytes k (n div 256)"

definition createNonce :: "rat \<Rightarrow> bytes" where
  "createNonce r = (let nonceConst = r * 100000 in le_bytes 4 (nat \<lfloor>nonceConst\<rfloor>))"

definition readUInt32LE :: "bytes \<Rightarrow> nat \<Rightarrow> nat result" where
  "readUInt32LE buf off =
     (if off + 4 \<le> length buf then Inr (be_nat (rev (js_slice buf off (off + 4))))
      else Inl (RangeError ''ERR_OUT_OF_RANGE''))"

lemma length_le_bytes [simp]: "length (le_bytes k n) = k"
  by (induction k arbitrary: n) auto

lemma be_nat_rev_le_bytes: "be_nat (rev (le_bytes k n)) = n mod 256 ^ k"
proof (induction k arbitrary: n)
  case (Suc k)
  have "be_nat (rev (le_bytes (Suc k) n)) = 256 * (n div 256 mod 256 ^ k) + n mod 256"
    using Suc by (simp add: unat_of_nat_byte)
  also have "\<dots> = n mod 256 ^ Suc k" by (simp add: mod_mult2_eq)
  finally show ?case .
qed simp

lemma createNonce_read:
  assumes "0 \<le> r" "r < 1"
  shows "length (createNonce r) = 4 \<and> readUInt32LE (createNonce r) 0 = Inr (nat \<lfloor>r * 100000\<rfloor>) \<and> nat \<lfloor>r * 100000\<rfloor> < 100000"
proof -
  have "\<lfloor>r * 100000\<rfloor> < 100000" using assms by (simp add: floor_less_iff)
  then have "nat \<lfloor>r * 100000\<rfloor> < 100000" by (simp only: nat_less_iff assms)
  then show ?thesis
    by (simp add: createNonce_def readUInt32LE_def js_slice_def be_nat_rev_le_bytes Let_def del: le_bytes.simps)
qed

end
