(* ===== verification/AlphBridge.thy ===== *)
theory AlphBridge
  imports AlphScript Base64
begin

text \<open>
  The Alephium entry points of the token bridge
  (\<open>sdk/js/src/token_bridge/{transfer,attest,createWrapped,redeem,utils}.ts\<close>): they fill in the nonce
  and the consistency level, assemble the script, and have a signer deploy and submit it. The signer
  and the compilation of a transaction (\<open>Script.transactionForDeployment\<close>) are parameters.
\<close>

record ('p, 'r) alph_signer =
  transactionForDeployment :: "string \<Rightarrow> 'p \<Rightarrow> (string \<times> string) result"
  submitTransaction :: "string \<Rightarrow> string \<Rightarrow> 'r result"

definition executeScript :: "('p, 'r) alph_signer \<Rightarrow> string \<Rightarrow> 'p \<Rightarrow> 'r result" where
  "executeScript signer bytecode params =
     bindR (transactionForDeployment signer bytecode params) (\<lambda>(unsignedTx, txId).
     submitTransaction signer unsignedTx txId)"

text \<open>\<open>nonce ? nonce : toHex(createNonce())\<close> and \<open>consistencyLevel ? consistencyLevel : 10\<close>: an empty
  string and 0 are falsy.\<close>

definition nonceOr :: "rat \<Rightarrow> string option \<Rightarrow> string" where
  "nonceOr rand nonce = orElse nonce (toHex (createNonce rand))"

definition levelOr10 :: "int option \<Rightarrow> int" where
  "levelOr10 consistencyLevel = (case consistencyLevel of None \<Rightarrow> 10 | Some n \<Rightarrow> if n = 0 then 10 else n)"

definition transferLocalTokenFromAlph ::
  "b58 \<Rightarrow> ('p, 'r) alph_signer \<Rightarrow> rat \<Rightarrow> string \<Rightarrow> string \<Rightarrow> string \<Rightarrow> string \<Rightarrow> int \<Rightarrow> int \<Rightarrow> int \<Rightarrow>
   string option \<Rightarrow> int option \<Rightarrow> 'p \<Rightarrow> 'r result" where
  "transferLocalTokenFromAlph b58 signer rand tokenWrapperAddress sender tokenId toAddress tokenAmount messageFee
     arbiterFee nonce consistencyLevel params =
     (let nonceHex = nonceOr rand nonce; cl = levelOr10 consistencyLevel in
      bindR (transferLocalTokenCode b58 tokenWrapperAddress sender tokenId toAddress tokenAmount messageFee arbiterFee
        nonceHex cl) (\<lambda>bytecode. executeScript signer bytecode params))"

definition transferRemoteTokenFromAlph ::
  "b58 \<Rightarrow> ('p, 'r) alph_signer \<Rightarrow> rat \<Rightarrow> string \<Rightarrow> string \<Rightarrow> string \<Rightarrow> int \<Rightarrow> int \<Rightarrow> int \<Rightarrow>
   string option \<Rightarrow> int option \<Rightarrow> 'p \<Rightarrow> 'r result" where
  "transferRemoteTokenFromAlph b58 signer rand tokenWrapperAddress sender toAddress tokenAmount messageFee
     arbiterFee nonce consistencyLevel params =
     (let nonceHex = nonceOr rand nonce; cl = levelOr10 consistencyLevel in
      bindR (transferRemoteTokenCode b58 tokenWrapperAddress sender toAddress tokenAmount messageFee arbiterFee
        nonceHex cl) (\<lambda>bytecode. executeScript signer bytecode params))"

definition attestFromAlph ::
  "b58 \<Rightarrow> ('p, 'r) alph_signer \<Rightarrow> rat \<Rightarrow> string \<Rightarrow> string \<Rightarrow> string \<Rightarrow> int \<Rightarrow> string option \<Rightarrow> int option \<Rightarrow>
   'p \<Rightarrow> 'r result" where
  "attestFromAlph b58 signer rand tokenBridgeAddress tokenId payer messageFee nonce consistencyLevel params =
     (let nonceHex = nonceOr rand nonce; cl = levelOr10 consistencyLevel in
      bindR (attestTokenCode b58 tokenBridgeAddress tokenId payer messageFee nonceHex cl) (\<lambda>bytecode.
      executeScript signer bytecode params))"

definition createRemoteTokenWrapperOnAlph ::
  "b58 \<Rightarrow> ('p, 'r) alph_signer \<Rightarrow> string \<Rightarrow> bytes \<Rightarrow> string \<Rightarrow> int \<Rightarrow> 'p \<Rightarrow> 'r result" where
  "createRemoteTokenWrapperOnAlph b58 signer tokenBridgeForChainAddress signedVAA payer alphAmount params =
     (let vaaHex = toHex signedVAA in
      bindR (createRemoteTokenWrapperCode b58 tokenBridgeForChainAddress vaaHex payer alphAmount) (\<lambda>bytecode.
      executeScript signer bytecode params))"

definition createLocalTokenWrapperOnAlph ::
  "b58 \<Rightarrow> ('p, 'r) alph_signer \<Rightarrow> string \<Rightarrow> string \<Rightarrow> string \<Rightarrow> int \<Rightarrow> 'p \<Rightarrow> 'r result" where
  "createLocalTokenWrapperOnAlph b58 signer tokenBridgeForChainAddress localTokenId payer alphAmount params =
     bindR (createLocalTokenWrapperCode b58 tokenBridgeForChainAddress localTokenId payer alphAmount) (\<lambda>bytecode.
     executeScript signer bytecode params)"

definition redeemOnAlph ::
  "b58 \<Rightarrow> ('p, 'r) alph_signer \<Rightarrow> string \<Rightarrow> bytes \<Rightarrow> string \<Rightarrow> 'p \<Rightarrow> 'r result" where
  "redeemOnAlph b58 signer tokenWrapperAddress signedVAA arbiterAddress params =
     (let vaaHex = toHex signedVAA in
      bindR (completeTransfer b58 tokenWrapperAddress vaaHex arbiterAddress) (\<lambda>bytecode.
      executeScript signer bytecode params))"

section \<open>Properties\<close>

lemma createNonce_valid: "0 \<le> r \<Longrightarrow> r < 1 \<Longrightarrow> valid_nonce (toHex (createNonce r))"
  using createNonce_read [of r] by (simp add: valid_nonce_def)

lemma writes_script_Inr: "writes_script m l is \<Longrightarrow> \<exists>code. m = Inr code \<and> writes_script (Inr code) l is"
  by (cases m) (auto simp: writes_script_def)

text \<open>\<open>transferLocalTokenFromAlph\<close> without a nonce and a consistency level submits the script of the
  transfer with a random nonce of 4 bytes below 100000 and the level 10; a level of 0 is taken as none.\<close>

theorem transferLocalTokenFromAlph_defaults:
  assumes args: "valid_sender b58 sender from" "contractBytes b58 tokenId = Some token"
      "contractBytes b58 wrapperAddress = Some wrapper" "valid_recipient toAddress"
      "is_u256 tokenAmount" "is_u256 messageFee" "is_u256 arbiterFee"
    and r: "0 \<le> r" "r < 1" and cl: "cl = None \<or> cl = Some 0"
  shows "\<exists>code nonce. transferLocalTokenFromAlph b58 signer r wrapperAddress sender tokenId toAddress tokenAmount
      messageFee arbiterFee None cl params = executeScript signer code params \<and>
    length nonce = 4 \<and> (\<exists>n. readUInt32LE nonce 0 = Inr n \<and> n < 100000) \<and>
    writes_script (Inr code) 3
      [ConstAddress from, StoreLocal 0, ConstU256 (nat tokenAmount), StoreLocal 1,
       LoadLocal 0, ConstU256 (nat messageFee), ApproveAlph,
       LoadLocal 0, ConstBytes token, LoadLocal 1, ApproveToken,
       ConstBytes wrapper, StoreLocal 2,
       LoadLocal 0, ConstBytes (fromHex toAddress), LoadLocal 1, ConstU256 (nat arbiterFee),
       ConstBytes nonce, consistencyInstr 10, LoadLocal 2, CallExternal 2]"
proof -
  have "is_u256 10" by (simp add: is_u256_def)
  note w = transferLocal_writes [OF args(1-4) createNonce_valid [OF r] args(5-7) this]
  from writes_script_Inr [OF w] obtain code where code:
    "transferLocalTokenCode b58 wrapperAddress sender tokenId toAddress tokenAmount messageFee arbiterFee
       (toHex (createNonce r)) 10 = Inr code"
    by blast
  have "levelOr10 cl = 10" using cl by (auto simp: levelOr10_def)
  then have "transferLocalTokenFromAlph b58 signer r wrapperAddress sender tokenId toAddress tokenAmount
      messageFee arbiterFee None cl params = executeScript signer code params"
    by (simp add: transferLocalTokenFromAlph_def nonceOr_def orElse_def code)
  then show ?thesis using w code createNonce_read [OF r] by (intro exI [of _ code] exI [of _ "createNonce r"]) simp
qed

definition demo_alph_signer :: "(unit, string) alph_signer" where
  "demo_alph_signer = \<lparr>transactionForDeployment = (\<lambda>code p. Inr (code, ''id'')), submitTransaction = (\<lambda>t i. Inr t)\<rparr>"

theorem transferLocalTokenFromAlph_defaults_witness:
  "\<exists>code. transferLocalTokenFromAlph demo_b58 demo_alph_signer 0 ''wrapper'' ''sender'' ''token''
     (replicate 64 (CHR ''7'')) 5 6 7 None (Some 0) () = Inr code"
  using transferLocalTokenFromAlph_defaults [of demo_b58 "''sender''" _ "''token''" _ "''wrapper''" _
      "replicate 64 (CHR ''7'')" 5 6 7 0 "Some 0" demo_alph_signer "()"]
  by (fastforce simp: valid_args contractBytes_def demo_b58_def executeScript_def demo_alph_signer_def)

end
