(* ===== verification/Addresses.thy ===== *)
theory Addresses
  imports Bytes
begin

text \<open>
  \<open>sdk/js/src/utils/consts.ts\<close>, \<open>utils/array.ts\<close>, \<open>terra/address.ts\<close> and
  \<open>bridge/getEmitterAddress.ts\<close>: chain ids, the conversions between the native form of an
  address and the 32-byte hex form that VAAs carry, and \<open>chunks\<close>.

  The packages \<open>ethers\<close>, \<open>bech32\<close> and \<open>@solana/web3.js\<close> are not part of the repository: what
  the code calls of them is the record \<open>libs\<close>, an argument of the definitions that use it. Facts
  about them are the named hypotheses \<open>ethers_laws\<close>, \<open>solana_laws\<close> and \<open>bech32_laws\<close>, which
  state the documented behaviour of those calls.
\<close>

section \<open>Chain ids\<close>

text \<open>A chain id is a \<open>number\<close>: values read from a VAA are cast to \<open>ChainId\<close> unchecked.\<close>

type_synonym ChainId = nat

definition CHAIN_ID_SOLANA :: ChainId where "CHAIN_ID_SOLANA = 1"
definition CHAIN_ID_ETH :: ChainId where "CHAIN_ID_ETH = 2"
definition CHAIN_ID_TERRA :: ChainId where "CHAIN_ID_TERRA = 3"
definition CHAIN_ID_BSC :: ChainId where "CHAIN_ID_BSC = 4"
definition CHAIN_ID_POLYGON :: ChainId where "CHAIN_ID_POLYGON = 5"
definition CHAIN_ID_AVAX :: ChainId where "CHAIN_ID_AVAX = 6"
definition CHAIN_ID_OASIS :: ChainId where "CHAIN_ID_OASIS = 7"
definition CHAIN_ID_ALGORAND :: ChainId where "CHAIN_ID_ALGORAND = 8"
definition CHAIN_ID_AURORA :: ChainId where "CHAIN_ID_AURORA = 9"
definition CHAIN_ID_FANTOM :: ChainId where "CHAIN_ID_FANTOM = 10"
definition CHAIN_ID_KARURA :: ChainId where "CHAIN_ID_KARURA = 11"
definition CHAIN_ID_ACALA :: ChainId where "CHAIN_ID_ACALA = 12"
definition CHAIN_ID_ALEPHIUM :: ChainId where "CHAIN_ID_ALEPHIUM = 13"
definition CHAIN_ID_ETHEREUM_ROPSTEN :: ChainId where "CHAIN_ID_ETHEREUM_ROPSTEN = 10001"

lemmas chain_ids =
  CHAIN_ID_SOLANA_def CHAIN_ID_ETH_def CHAIN_ID_TERRA_def CHAIN_ID_BSC_def CHAIN_ID_POLYGON_def
  CHAIN_ID_AVAX_def CHAIN_ID_OASIS_def CHAIN_ID_ALGORAND_def CHAIN_ID_AURORA_def CHAIN_ID_FANTOM_def
  CHAIN_ID_KARURA_def CHAIN_ID_ACALA_def CHAIN_ID_ALEPHIUM_def CHAIN_ID_ETHEREUM_ROPSTEN_def

definition isEVMChain :: "ChainId \<Rightarrow> bool" where
  "isEVMChain chainId \<longleftrightarrow>
     chainId = CHAIN_ID_ETH \<or>
     chainId = CHAIN_ID_BSC \<or>
     chainId = CHAIN_ID_ETHEREUM_ROPSTEN \<or>
     chainId = CHAIN_ID_AVAX \<or>
     chainId = CHAIN_ID_POLYGON \<or>
     chainId = CHAIN_ID_OASIS \<or>
     chainId = CHAIN_ID_AURORA \<or>
     chainId = CHAIN_ID_FANTOM \<or>
     chainId = CHAIN_ID_KARURA \<or>
     chainId = CHAIN_ID_ACALA"

lemma isEVMChain_distinct:
  "isEVMChain c \<Longrightarrow> c \<noteq> CHAIN_ID_SOLANA \<and> c \<noteq> CHAIN_ID_TERRA \<and> c \<noteq> 0"
  "\<not> isEVMChain CHAIN_ID_SOLANA" "\<not> isEVMChain CHAIN_ID_TERRA" "isEVMChain CHAIN_ID_ETH"
  "CHAIN_ID_SOLANA \<noteq> CHAIN_ID_TERRA" "CHAIN_ID_TERRA \<noteq> CHAIN_ID_SOLANA"
  "0 < CHAIN_ID_SOLANA" "0 < CHAIN_ID_TERRA"
  by (auto simp: isEVMChain_def chain_ids)

section \<open>Third-party calls\<close>

text \<open>
  \<open>pkToString bs\<close> is \<open>new PublicKey(bs).toString()\<close>, \<open>pkToBytes s\<close> is
  \<open>new PublicKey(s).toBytes()\<close>; the 5-bit words of \<open>bech32\<close> are numbers.
\<close>

record libs =
  zeroPad :: "bytes \<Rightarrow> nat \<Rightarrow> bytes result"
  arrayify :: "string \<Rightarrow> bytes result"
  stripZeros :: "bytes \<Rightarrow> bytes"
  hexValue :: "bytes \<Rightarrow> string result"
  hexZeroPad :: "string \<Rightarrow> nat \<Rightarrow> string result"
  pkToString :: "bytes \<Rightarrow> string result"
  pkToBytes :: "string \<Rightarrow> bytes result"
  bech32Decode :: "string \<Rightarrow> (string \<times> nat list) result"
  bech32Encode :: "string \<Rightarrow> nat list \<Rightarrow> string result"
  fromWords :: "nat list \<Rightarrow> bytes result"
  toWords :: "bytes \<Rightarrow> nat list"

section \<open>The conversions\<close>

definition uint8ArrayToHex :: "bytes \<Rightarrow> string" where
  "uint8ArrayToHex a = toHex a"

definition hexToUint8Array :: "string \<Rightarrow> bytes" where
  "hexToUint8Array h = fromHex h"

text \<open>\<open>terra/address.ts\<close>\<close>

definition canonicalAddress :: "libs \<Rightarrow> string \<Rightarrow> bytes result" where
  "canonicalAddress L a = bindR (bech32Decode L a) (\<lambda>(prefix, words). fromWords L words)"

definition humanAddress :: "libs \<Rightarrow> bytes \<Rightarrow> string result" where
  "humanAddress L bs = bech32Encode L ''terra'' (toWords L bs)"

definition startsWith :: "string \<Rightarrow> string \<Rightarrow> bool" where
  "startsWith s p \<longleftrightarrow> take (length p) s = p"

definition isNativeTerra :: "string \<Rightarrow> bool" where
  "isNativeTerra s \<longleftrightarrow> startsWith s ''u'' \<and> length s = 4"

definition isNativeDenom :: "string \<Rightarrow> bool" where
  "isNativeDenom s \<longleftrightarrow> isNativeTerra s \<or> s = ''uluna''"

text \<open>\<open>charCodeAt\<close> stored into a \<open>Uint8Array\<close>; also \<open>Buffer.from(_, "ascii")\<close>.\<close>

definition charCodes :: "string \<Rightarrow> bytes" where
  "charCodes s = map (\<lambda>c. of_nat (of_char c)) s"

definition buildNativeId :: "libs \<Rightarrow> string \<Rightarrow> bytes result" where
  "buildNativeId L denom = mapR (\<lambda>padded. padded[0 := 1]) (zeroPad L (charCodes denom) 32)"

text \<open>\<open>Buffer.toString("ascii")\<close> clears the high bit of every byte.\<close>

definition asciiString :: "bytes \<Rightarrow> string" where
  "asciiString bs = map (\<lambda>b. char_of (unat b mod 128)) bs"

definition isHexNativeTerra :: "string \<Rightarrow> bool" where
  "isHexNativeTerra h = startsWith h ''01''"

definition nativeTerraHexToDenom :: "libs \<Rightarrow> string \<Rightarrow> string" where
  "nativeTerraHexToDenom L h = asciiString (stripZeros L (hexToUint8Array (drop 2 h)))"

text \<open>\<open>undefined\<close> is \<open>None\<close>; the \<open>catch\<close> block turns every exception into it.\<close>

definition catchUndefined :: "'a result \<Rightarrow> 'a option" where
  "catchUndefined m = (case m of Inl e \<Rightarrow> None | Inr x \<Rightarrow> Some x)"

definition hexToNativeString :: "libs \<Rightarrow> string option \<Rightarrow> ChainId \<Rightarrow> string option" where
  "hexToNativeString L h c =
     (case h of
        None \<Rightarrow> None
      | Some h \<Rightarrow>
          if h = [] then None
          else if c = CHAIN_ID_SOLANA then catchUndefined (pkToString L (hexToUint8Array h))
          else if isEVMChain c then
            catchUndefined (bindR (hexValue L (hexToUint8Array h)) (\<lambda>v. hexZeroPad L v 20))
          else if c = CHAIN_ID_TERRA then
            (if isHexNativeTerra h then Some (nativeTerraHexToDenom L h)
             else catchUndefined (humanAddress L (hexToUint8Array (drop 24 h))))
          else Some h)"

text \<open>\<open>null\<close> is \<open>Inr None\<close>; exceptions leave the function.\<close>

definition nativeToHexString :: "libs \<Rightarrow> string option \<Rightarrow> ChainId \<Rightarrow> string option result" where
  "nativeToHexString L address chain =
     (case address of
        None \<Rightarrow> Inr None
      | Some address \<Rightarrow>
          if address = [] \<or> chain = 0 then Inr None
          else if isEVMChain chain then
            bindR (arrayify L address) (\<lambda>a. mapR (\<lambda>z. Some (uint8ArrayToHex z)) (zeroPad L a 32))
          else if chain = CHAIN_ID_SOLANA then
            bindR (pkToBytes L address) (\<lambda>a. mapR (\<lambda>z. Some (uint8ArrayToHex z)) (zeroPad L a 32))
          else if chain = CHAIN_ID_TERRA then
            (if isNativeDenom address then
               mapR (\<lambda>z. Some (''01'' @ uint8ArrayToHex z)) (zeroPad L (charCodes address) 31)
             else
               bindR (canonicalAddress L address)
                 (\<lambda>a. mapR (\<lambda>z. Some (uint8ArrayToHex z)) (zeroPad L a 32)))
          else Inr None)"

definition uint8ArrayToNative :: "libs \<Rightarrow> bytes \<Rightarrow> ChainId \<Rightarrow> string option" where
  "uint8ArrayToNative L a chainId = hexToNativeString L (Some (uint8ArrayToHex a)) chainId"

text \<open>\<open>bridge/getEmitterAddress.ts\<close>; \<open>emitter_address\<close> is the WebAssembly export.\<close>

definition getEmitterAddressEth :: "libs \<Rightarrow> string \<Rightarrow> string result" where
  "getEmitterAddressEth L contractAddress =
     bindR (arrayify L contractAddress) (\<lambda>a. mapR toHex (zeroPad L a 32))"

definition getEmitterAddressSolana ::
  "libs \<Rightarrow> (string \<Rightarrow> string result) \<Rightarrow> string \<Rightarrow> string result" where
  "getEmitterAddressSolana L emitter_address programAddress =
     bindR (emitter_address programAddress) (\<lambda>e.
     bindR (pkToBytes L e) (\<lambda>a. mapR toHex (zeroPad L a 32)))"

definition getEmitterAddressTerra :: "libs \<Rightarrow> string \<Rightarrow> string result" where
  "getEmitterAddressTerra L programAddress =
     bindR (bindR (bech32Decode L programAddress) (\<lambda>(prefix, words). fromWords L words)) (\<lambda>a. mapR toHex (zeroPad L a 32))"

text \<open>
  \<open>chunks\<close>: \<open>new Array(n)\<close> throws a \<open>RangeError\<close> for \<open>NaN\<close> and \<open>Infinity\<close>, which is what
  dividing by 0 gives.
\<close>

definition chunks :: "'a list \<Rightarrow> nat \<Rightarrow> 'a list list result" where
  "chunks array sz =
     (if sz = 0 then Inl (RangeError ''Invalid array length'')
      else Inr (map (\<lambda>index. js_slice array (index * sz) ((index + 1) * sz))
             [0..<nat \<lceil>(of_nat (length array) / of_nat sz :: rat)\<rceil>]))"

section \<open>Documented behaviour of the third-party calls\<close>

text \<open>
  \<open>zeroPad\<close> prepends zero bytes up to the length and throws when the value is longer;
  \<open>arrayify\<close> reads \<open>0x\<close> and an even number of digits; \<open>stripZeros\<close> removes leading zero
  bytes; \<open>hexValue\<close> is \<open>0x\<close> and the digits without leading zeros (one zero for 0);
  \<open>hexZeroPad\<close> pads the digits after \<open>0x\<close> and throws when there are too many.
\<close>

definition strip0 :: "string \<Rightarrow> string" where
  "strip0 s = dropWhile (\<lambda>c. c = CHR ''0'') s"

definition ethers_laws :: "libs \<Rightarrow> bool" where
  "ethers_laws L \<longleftrightarrow>
     (\<forall>bs n. if length bs \<le> n then zeroPad L bs n = Inr (replicate (n - length bs) 0 @ bs)
             else \<exists>e. zeroPad L bs n = Inl e) \<and>
     (\<forall>s. hex_bytes s \<longrightarrow> arrayify L (''0x'' @ s) = Inr (fromHex s)) \<and>
     (\<forall>bs. stripZeros L bs = dropWhile (\<lambda>b. b = 0) bs) \<and>
     (\<forall>bs. hexValue L bs = Inr (''0x'' @ (if strip0 (toHex bs) = [] then ''0'' else strip0 (toHex bs)))) \<and>
     (\<forall>s n. if length s \<le> 2 * n then hexZeroPad L (''0x'' @ s) n = Inr (''0x'' @ padStart (2 * n) (CHR ''0'') s)
            else \<exists>e. hexZeroPad L (''0x'' @ s) n = Inl e)"

text \<open>A public key prints to a string that parses to the same 32 bytes, and is not empty.\<close>

definition solana_laws :: "libs \<Rightarrow> bool" where
  "solana_laws L \<longleftrightarrow>
     (\<forall>s bs. pkToBytes L s = Inr bs \<longrightarrow> length bs = 32 \<and> pkToString L bs = Inr s)"

text \<open>Decoding a lower-case address and encoding the parts again gives the address back, and
  the 5-bit words of the bytes that words stand for are those words.\<close>

definition lower_case :: "string \<Rightarrow> bool" where
  "lower_case s \<longleftrightarrow> list_all (\<lambda>c. \<not> (65 \<le> (of_char c :: nat) \<and> (of_char c :: nat) \<le> 90)) s"

definition bech32_laws :: "libs \<Rightarrow> bool" where
  "bech32_laws L \<longleftrightarrow>
     (\<forall>a p ws. bech32Decode L a = Inr (p, ws) \<longrightarrow> lower_case a \<longrightarrow> bech32Encode L p ws = Inr a) \<and>
     (\<forall>ws bs. fromWords L ws = Inr bs \<longrightarrow> toWords L bs = ws)"

section \<open>Facts about the conversions\<close>

lemma ethers_zeroPad:
  "ethers_laws L \<Longrightarrow> length bs \<le> n \<Longrightarrow> zeroPad L bs n = Inr (replicate (n - length bs) 0 @ bs)"
  unfolding ethers_laws_def by metis

lemma ethers_zeroPad_err:
  "ethers_laws L \<Longrightarrow> n < length bs \<Longrightarrow> \<exists>e. zeroPad L bs n = Inl e"
  unfolding ethers_laws_def by (metis leD)

lemma ethers_arrayify: "ethers_laws L \<Longrightarrow> hex_bytes s \<Longrightarrow> arrayify L (''0x'' @ s) = Inr (fromHex s)"
  unfolding ethers_laws_def by blast

lemma ethers_stripZeros: "ethers_laws L \<Longrightarrow> stripZeros L bs = dropWhile (\<lambda>b. b = 0) bs"
  unfolding ethers_laws_def by blast

lemma ethers_hexValue:
  "ethers_laws L \<Longrightarrow>
    hexValue L bs = Inr (''0x'' @ (if strip0 (toHex bs) = [] then ''0'' else strip0 (toHex bs)))"
  unfolding ethers_laws_def by blast

lemma ethers_hexZeroPad:
  "ethers_laws L \<Longrightarrow> length s \<le> 2 * n \<Longrightarrow>
    hexZeroPad L (''0x'' @ s) n = Inr (''0x'' @ padStart (2 * n) (CHR ''0'') s)"
  unfolding ethers_laws_def by metis

lemma ethers_hexZeroPad_err:
  "ethers_laws L \<Longrightarrow> 2 * n < length s \<Longrightarrow> \<exists>e. hexZeroPad L (''0x'' @ s) n = Inl e"
  unfolding ethers_laws_def by (metis leD)

text \<open>Stripping the zeros of a digit string and padding it again.\<close>

lemma strip0_split: "s = replicate (length s - length (strip0 s)) (CHR ''0'') @ strip0 s"
proof (induction s)
  case (Cons c s)
  have "length (strip0 s) \<le> length s" by (simp add: strip0_def length_dropWhile_le)
  with Cons show ?case by (auto simp: strip0_def Suc_diff_le)
qed (simp add: strip0_def)

lemma strip0_replicate: "strip0 (replicate k (CHR ''0'') @ s) = strip0 s"
  by (induction k) (simp_all add: strip0_def)

lemma padStart_single: "padStart (Suc k) c [c] = padStart (Suc k) c []"
  by (simp add: padStart_def replicate_append_same)

lemma padStart_strip0:
  "length s \<le> k \<Longrightarrow> padStart k (CHR ''0'') (strip0 s) = padStart k (CHR ''0'') s"
proof -
  assume k: "length s \<le> k"
  have "length (strip0 s) \<le> length s" by (simp add: strip0_def length_dropWhile_le)
  then have "replicate (k - length (strip0 s)) (CHR ''0'') =
      replicate (k - length s) (CHR ''0'') @ replicate (length s - length (strip0 s)) (CHR ''0'')"
    using k by (simp flip: replicate_add)
  then show ?thesis unfolding padStart_def using strip0_split [of s] by (metis append_assoc)
qed

lemma byte_hex_0: "byte_hex 0 = ''00''"
  by (simp add: byte_hex_digits hex_digit_def)

lemma toHex_zeros: "toHex (replicate k 0) = replicate (2 * k) (CHR ''0'')"
  by (induction k) (simp_all add: byte_hex_0)

lemma startsWith_append [simp]: "startsWith (p @ s) p"
  by (simp add: startsWith_def)


section \<open>A concrete instance of the third-party calls\<close>

text \<open>Used by the witnesses: it satisfies every law above.\<close>

definition demo_libs :: libs where
  "demo_libs =
     \<lparr>zeroPad = (\<lambda>bs n. if length bs \<le> n then Inr (replicate (n - length bs) 0 @ bs)
                       else Inl (Foreign ''value out of range'')),
      arrayify = (\<lambda>s. if take 2 s = ''0x'' \<and> hex_bytes (drop 2 s) then Inr (fromHex (drop 2 s))
                     else Inl (Foreign ''invalid arrayify value'')),
      stripZeros = dropWhile (\<lambda>b. b = 0),
      hexValue = (\<lambda>bs. Inr (''0x'' @ (if strip0 (toHex bs) = [] then ''0'' else strip0 (toHex bs)))),
      hexZeroPad = (\<lambda>s n. if length (drop 2 s) \<le> 2 * n then Inr (''0x'' @ padStart (2 * n) (CHR ''0'') (drop 2 s))
                       else Inl (Foreign ''value out of range'')),
      pkToString = (\<lambda>bs. Inr (toHex bs)),
      pkToBytes = (\<lambda>s. if toHex (fromHex s) = s \<and> length (fromHex s) = 32 then Inr (fromHex s)
                      else Inl (Foreign ''Invalid public key input'')),
      bech32Decode = (\<lambda>a. if take 6 a = ''terra1'' then Inr (''terra'', map of_char (drop 6 a))
                         else Inl (Foreign ''Invalid prefix'')),
      bech32Encode = (\<lambda>p ws. Inr (p @ ''1'' @ map char_of ws)),
      fromWords = (\<lambda>ws. if list_all (\<lambda>w. w < 256) ws then Inr (map of_nat ws)
                       else Inl (Foreign ''Excess padding'')),
      toWords = map unat\<rparr>"

lemma demo_ethers: "ethers_laws demo_libs"
  by (simp add: ethers_laws_def demo_libs_def)

lemma demo_solana: "solana_laws demo_libs"
  by (simp add: solana_laws_def demo_libs_def)

lemma demo_bech32: "bech32_laws demo_libs"
proof -
  have "map unat (map of_nat ws :: bytes) = ws" if "list_all (\<lambda>w. w < 256) ws" for ws
    using that by (induction ws) (simp_all add: unat_of_nat_byte)
  moreover have "''terra1'' @ drop 6 a = a" if "take 6 a = ''terra1''" for a :: string
    using that by (metis append_take_drop_id)
  ultimately show ?thesis
    by (auto simp: bech32_laws_def demo_libs_def comp_def split: if_splits)
qed

section \<open>The properties\<close>

lemma toHex_take: "toHex (take n bs) = take (2 * n) (toHex bs)"
  by (induction bs arbitrary: n) (simp_all add: take_Cons' byte_hex_digits numeral_2_eq_2 take_Cons split: nat.split)

lemma strip0_long:
  assumes "length w = 32"
  shows "length (strip0 (toHex w)) \<le> 40 \<longleftrightarrow> take 12 w = replicate 12 0"
proof
  assume "take 12 w = replicate 12 0"
  then have "w = replicate 12 0 @ drop 12 w" by (metis append_take_drop_id)
  then have "strip0 (toHex w) = strip0 (toHex (drop 12 w))"
    by (metis toHex_simps(3) toHex_zeros strip0_replicate)
  also have "length \<dots> \<le> length (toHex (drop 12 w))"
    by (simp add: strip0_def length_dropWhile_le del: length_toHex)
  finally show "length (strip0 (toHex w)) \<le> 40" using assms by simp
next
  let ?k = "length (toHex w) - length (strip0 (toHex w))"
  assume "length (strip0 (toHex w)) \<le> 40"
  then have k: "24 \<le> ?k" using assms by simp
  have "take 24 (toHex w) = take 24 (replicate ?k (CHR ''0'') @ strip0 (toHex w))"
    using strip0_split [of "toHex w"] by simp
  also have "\<dots> = replicate 24 (CHR ''0'')" using k by (simp del: length_toHex)
  also have "\<dots> = toHex (replicate 12 0)" by (simp only: toHex_zeros) simp
  finally have "toHex (take 12 w) = toHex (replicate 12 0)" by (simp add: toHex_take)
  then show "take 12 w = replicate 12 0" by (simp only: toHex_inject)
qed

text \<open>a 32-byte hex address reads, on an EVM chain, as the last 20 bytes when the first 12
  are zero and as \<open>undefined\<close> otherwise; and the native form of 20 bytes is written as exactly
  those 32 bytes.\<close>

theorem evm_address_conversion:
  assumes L: "ethers_laws L" and c: "isEVMChain c" and "length w = 32" "length a = 20"
  shows "hexToNativeString L (Some (toHex w)) c =
      (if take 12 w = replicate 12 0 then Some (''0x'' @ toHex (drop 12 w)) else None) \<and>
    nativeToHexString L (Some (''0x'' @ toHex a)) c = Inr (Some (toHex (replicate 12 0 @ a)))"
proof
  let ?s = "if strip0 (toHex w) = [] then ''0'' else strip0 (toHex w)"
  have "toHex w \<noteq> []" using assms(3) by (metis length_toHex list.size(3) mult_is_0 zero_neq_numeral)
  then have h: "hexToNativeString L (Some (toHex w)) c = catchUndefined (hexZeroPad L (''0x'' @ ?s) 20)"
    using c isEVMChain_distinct
    by (simp add: hexToNativeString_def ethers_hexValue [OF L] hexToUint8Array_def del: append.simps)
  show "hexToNativeString L (Some (toHex w)) c =
      (if take 12 w = replicate 12 0 then Some (''0x'' @ toHex (drop 12 w)) else None)"
  proof (cases "take 12 w = replicate 12 0")
    case True
    then have "length ?s \<le> 40" using strip0_long [OF assms(3)] by simp
    moreover have "padStart 40 (CHR ''0'') ?s = padStart 40 (CHR ''0'') (strip0 (toHex w))"
      using padStart_single [of 39 "CHR ''0''"] by simp
    moreover have "strip0 (toHex w) = strip0 (toHex (drop 12 w))"
      using True by (metis append_take_drop_id toHex_simps(3) toHex_zeros strip0_replicate)
    moreover have "padStart 40 (CHR ''0'') (strip0 (toHex (drop 12 w))) = toHex (drop 12 w)"
      using assms(3) by (subst padStart_strip0) (simp_all add: padStart_def)
    ultimately show ?thesis using h True ethers_hexZeroPad [OF L, of ?s 20]
      by (simp add: catchUndefined_def)
  next
    case False
    then have "40 < length ?s" using strip0_long [OF assms(3)] by auto
    then show ?thesis using h False ethers_hexZeroPad_err [OF L, of 20 ?s]
      by (auto simp: catchUndefined_def)
  qed
  show "nativeToHexString L (Some (''0x'' @ toHex a)) c = Inr (Some (toHex (replicate 12 0 @ a)))"
    using c isEVMChain_distinct(1) [OF c] assms(4) ethers_arrayify [OF L, of "toHex a"]
    by (simp add: nativeToHexString_def ethers_zeroPad [OF L] uint8ArrayToHex_def)
qed

theorem evm_address_conversion_witness:
  "hexToNativeString demo_libs (Some (toHex (replicate 12 0 @ replicate 20 5))) CHAIN_ID_BSC =
     Some (''0x'' @ toHex (replicate 20 5)) \<and>
   hexToNativeString demo_libs (Some (toHex (replicate 32 1))) CHAIN_ID_BSC = None"
proof -
  have bsc: "isEVMChain CHAIN_ID_BSC" by (simp add: isEVMChain_def)
  have "replicate 12 (1 :: byte) \<noteq> replicate 12 0" by simp
  then show ?thesis
    using evm_address_conversion [OF demo_ethers bsc, of "replicate 12 0 @ replicate 20 5" "replicate 20 0"]
      evm_address_conversion [OF demo_ethers bsc, of "replicate 32 1" "replicate 20 0"]
    by simp
qed


text \<open>C16: Solana addresses, and Terra contract addresses of 20 bytes, survive the way through
  the hex form.\<close>

theorem solana_terra_address_roundtrip:
  assumes L: "ethers_laws L" "solana_laws L" "bech32_laws L"
    and s: "pkToBytes L s = Inr bs" "s \<noteq> []"
    and t: "bech32Decode L t = Inr (''terra'', ws)" "fromWords L ws = Inr cs" "length cs = 20"
      "lower_case t" "t \<noteq> []" "\<not> isNativeDenom t"
  shows "nativeToHexString L (Some s) CHAIN_ID_SOLANA = Inr (Some (toHex bs)) \<and>
    hexToNativeString L (Some (toHex bs)) CHAIN_ID_SOLANA = Some s \<and>
    nativeToHexString L (Some t) CHAIN_ID_TERRA = Inr (Some (toHex (replicate 12 0 @ cs))) \<and>
    hexToNativeString L (Some (toHex (replicate 12 0 @ cs))) CHAIN_ID_TERRA = Some t"
proof -
  have pk: "length bs = 32" "pkToString L bs = Inr s"
    using L(2) s(1) unfolding solana_laws_def by blast+
  then have "toHex bs \<noteq> []" by (metis length_toHex list.size(3) mult_is_0 zero_neq_numeral)
  moreover have "bech32Encode L ''terra'' (toWords L cs) = Inr t"
    using L(3) t(1,2,4) unfolding bech32_laws_def by metis
  moreover have "\<not> isHexNativeTerra (toHex (replicate 12 0 @ cs))"
    by (simp add: toHex_zeros isHexNativeTerra_def startsWith_def numeral_eq_Suc byte_hex_0)
  moreover have "drop 24 (toHex (replicate 12 0 @ cs)) = toHex cs"
    by (simp add: toHex_zeros)
  moreover have "toHex (replicate 12 0 @ cs) \<noteq> []" by (simp add: toHex_zeros)
  ultimately show ?thesis
    using s t pk isEVMChain_distinct
    by (simp add: nativeToHexString_def hexToNativeString_def ethers_zeroPad [OF L(1)] uint8ArrayToHex_def
        hexToUint8Array_def catchUndefined_def canonicalAddress_def humanAddress_def del: toHex_simps)
qed

theorem solana_terra_address_roundtrip_witness:
  "hexToNativeString demo_libs (Some (toHex (replicate 32 7))) CHAIN_ID_SOLANA = Some (toHex (replicate 32 7)) \<and>
   hexToNativeString demo_libs (Some (toHex (replicate 12 0 @ replicate 20 97))) CHAIN_ID_TERRA =
     Some (''terra1'' @ replicate 20 (CHR ''a''))"
proof -
  let ?s = "toHex (replicate 32 7)" and ?t = "''terra1'' @ replicate 20 (CHR ''a'')"
  have s: "pkToBytes demo_libs ?s = Inr (replicate 32 7)" "?s \<noteq> []"
    by (simp_all add: demo_libs_def)
  have "bech32Decode demo_libs ?t = Inr (''terra'', replicate 20 97)"
    "fromWords demo_libs (replicate 20 97) = Inr (replicate 20 97)" "length (replicate 20 (97 :: byte)) = 20"
    "lower_case ?t" "?t \<noteq> []" "\<not> isNativeDenom ?t"
    by (simp_all add: demo_libs_def lower_case_def list_all_iff isNativeDenom_def isNativeTerra_def)
  from solana_terra_address_roundtrip [OF demo_ethers demo_solana demo_bech32 s this] show ?thesis
    by blast
qed

text \<open>the hex form of a native Terra denomination is the one \<open>buildNativeId\<close> computes, and
  it reads back as the denomination.\<close>

theorem terra_denom_roundtrip:
  assumes L: "ethers_laws L" and d: "isNativeDenom d" "\<forall>c\<in>set d. (of_char c :: nat) < 128"
  shows "nativeToHexString L (Some d) CHAIN_ID_TERRA = mapR (\<lambda>bs. Some (toHex bs)) (buildNativeId L d) \<and>
    (\<exists>h. nativeToHexString L (Some d) CHAIN_ID_TERRA = Inr (Some h) \<and>
       hexToNativeString L (Some h) CHAIN_ID_TERRA = Some d)"
proof -
  obtain r where r: "d = CHR ''u'' # r" "length r \<le> 4"
    using d(1) by (cases d) (auto simp: isNativeDenom_def isNativeTerra_def startsWith_def)
  let ?n = "31 - length d"
  have len: "length (charCodes d) = length d" by (simp add: charCodes_def)
  have u: "charCodes d = 0x75 # charCodes r" by (simp add: charCodes_def r(1))
  have z: "zeroPad L (charCodes d) 31 = Inr (replicate ?n 0 @ charCodes d)"
    using ethers_zeroPad [OF L, of "charCodes d" 31] r len by simp
  have "32 - length d = Suc ?n" using r by simp
  then have b: "buildNativeId L d = Inr (1 # replicate ?n 0 @ charCodes d)"
    using ethers_zeroPad [OF L, of "charCodes d" 32] r len by (simp add: buildNativeId_def)
  have one: "byte_hex 1 = ''01''" by (simp add: byte_hex_digits hex_digit_def)
  have n: "nativeToHexString L (Some d) CHAIN_ID_TERRA = Inr (Some (toHex (1 # replicate ?n 0 @ charCodes d)))"
    using d r z isEVMChain_distinct by (simp add: nativeToHexString_def uint8ArrayToHex_def one)
  have "asciiString (charCodes d) = d"
    using d(2) by (simp add: asciiString_def charCodes_def unat_of_nat_byte map_idI comp_def)
  moreover have "dropWhile (\<lambda>b. b = 0) (replicate ?n 0 @ charCodes d) = charCodes d"
    by (simp add: dropWhile_append u)
  ultimately have "hexToNativeString L (Some (toHex (1 # replicate ?n 0 @ charCodes d))) CHAIN_ID_TERRA = Some d"
    using isEVMChain_distinct
    by (simp add: hexToNativeString_def isHexNativeTerra_def startsWith_def one nativeTerraHexToDenom_def
        hexToUint8Array_def ethers_stripZeros [OF L] flip: toHex_simps(3))
  with n b show ?thesis by simp
qed

theorem terra_denom_roundtrip_witness:
  "\<exists>h. nativeToHexString demo_libs (Some ''uusd'') CHAIN_ID_TERRA = Inr (Some h) \<and>
     hexToNativeString demo_libs (Some h) CHAIN_ID_TERRA = Some ''uusd''"
  by (rule terra_denom_roundtrip [OF demo_ethers, THEN conjunct2])
     (simp_all add: isNativeDenom_def isNativeTerra_def startsWith_def)

text \<open>the emitter addresses of EVM and Terra contracts are their hex forms.\<close>

theorem emitter_addresses_agree:
  assumes "a \<noteq> []"
  shows "nativeToHexString L (Some a) CHAIN_ID_ETH = mapR Some (getEmitterAddressEth L a) \<and>
    (isNativeDenom a \<or>
     nativeToHexString L (Some a) CHAIN_ID_TERRA = mapR Some (getEmitterAddressTerra L a))"
proof -
  have c: "mapR Some (bindR m (\<lambda>x. mapR f (g x))) = bindR m (\<lambda>x. mapR (\<lambda>z. Some (f z)) (g x))"
    for m :: "'a result" and f :: "'b \<Rightarrow> 'c" and g :: "'a \<Rightarrow> 'b result"
    by (auto simp: bindR_def mapR_def split: sum.splits)
  show ?thesis using assms isEVMChain_distinct
    by (simp add: nativeToHexString_def getEmitterAddressEth_def getEmitterAddressTerra_def c
        uint8ArrayToHex_def canonicalAddress_def) (simp add: CHAIN_ID_ETH_def)
qed

theorem emitter_addresses_agree_witness:
  "nativeToHexString demo_libs (Some ''0xff'') CHAIN_ID_ETH = mapR Some (getEmitterAddressEth demo_libs ''0xff'')"
  using emitter_addresses_agree [of "''0xff''" demo_libs] by simp


lemma ceil_div:
  assumes "0 < k"
  shows "nat \<lceil>(of_nat n / of_nat k :: rat)\<rceil> = (n + k - 1) div k"
proof -
  let ?q = "(n + k - 1) div k"
  have "?q * k \<le> n + k - 1" by (rule div_times_less_eq_dividend)
  then have "?q * k < n + k" using assms by linarith
  moreover have "n + k - 1 < (?q + 1) * k" using assms by (metis add.commute dividend_less_div_times plus_1_eq_Suc mult_Suc)
  then have "n \<le> ?q * k" by simp
  ultimately have "(of_nat n :: rat) \<le> of_nat (?q * k)" "(of_nat (?q * k) :: rat) < of_nat (n + k)"
    by (simp_all only: of_nat_le_iff of_nat_less_iff)
  then have "\<lceil>(of_nat n / of_nat k :: rat)\<rceil> = int ?q"
    using assms by (intro ceiling_unique) (simp_all add: field_simps)
  then show ?thesis by simp
qed

lemma concat_chunks: "concat (map (\<lambda>i. js_slice xs (i * k) ((i + 1) * k)) [0..<n]) = take (n * k) xs"
proof (induction n)
  case (Suc n)
  have "take (n * k) xs @ take k (drop (n * k) xs) = take (n * k + k) xs"
    by (simp add: take_add)
  with Suc show ?case by (simp add: js_slice_def add.commute)
qed simp

text \<open>\<open>chunks\<close> splits an array into consecutive pieces: joined they are the array, every
  piece but the last has the given size, and the last is not empty.\<close>

theorem chunks_partition:
  assumes "0 < k"
  shows "\<exists>cs. chunks xs k = Inr cs \<and> concat cs = xs \<and> length cs = (length xs + k - 1) div k \<and>
    (\<forall>i < length cs. cs ! i \<noteq> [] \<and> length (cs ! i) \<le> k \<and> (Suc i < length cs \<longrightarrow> length (cs ! i) = k))"
proof -
  let ?n = "(length xs + k - 1) div k"
  let ?cs = "map (\<lambda>i. js_slice xs (i * k) ((i + 1) * k)) [0..<?n]"
  have le: "length xs \<le> ?n * k"
    using dividend_less_div_times [of k "length xs + k - 1"] assms by simp
  have lt: "i * k < length xs" if "i < ?n" for i
  proof -
    have "i + 1 \<le> ?n" using that by simp
    then have "(i + 1) * k \<le> ?n * k" by (rule mult_le_mono1)
    also have "\<dots> \<le> length xs + k - 1" by (rule div_times_less_eq_dividend)
    finally show ?thesis using assms by simp
  qed
  have "chunks xs k = Inr ?cs" using assms by (simp add: chunks_def ceil_div)
  moreover have "concat ?cs = xs" using le by (simp only: concat_chunks) simp
  moreover have "?cs ! i \<noteq> []" "length (?cs ! i) \<le> k" "Suc i < ?n \<Longrightarrow> length (?cs ! i) = k" if "i < ?n" for i
    using that lt [of i] lt [of "Suc i"] assms by auto
  ultimately show ?thesis by (intro exI [of _ ?cs]) simp
qed

theorem chunks_partition_witness:
  "\<exists>cs. chunks [1::nat, 2, 3, 4, 5] 2 = Inr cs \<and> concat cs = [1, 2, 3, 4, 5] \<and> length cs = 3"
  using chunks_partition [of 2 "[1::nat, 2, 3, 4, 5]"] by fastforce

end
