(* ===== verification/Terra.thy ===== *)
theory Terra
  imports Base64 Addresses
begin

text \<open>
  The Terra side of the bridges in the SDK: the messages that
  \<open>token_bridge/{transfer,attest,redeem,createWrapped,updateWrapped}.ts\<close> and
  \<open>nft_bridge/{transfer,redeem}.ts\<close> build, and the queries of \<open>getForeignAsset.ts\<close>,
  \<open>getOriginalAsset.ts\<close> and \<open>getIsTransferCompleted.ts\<close> of both bridges.

  A message body is a JSON value. The LCD client and the HTTP client are parameters; \<open>fromUint8Array\<close>
  of the package js-base64 is one too, documented to be the Base64 encoding.
\<close>

section \<open>JSON and messages\<close>

datatype json = JNull | JStr string | JNum nat | JObj "(string \<times> json) list"

text \<open>Reading a property: undefined (\<open>None\<close>) when it is not there, an exception on null.\<close>

definition json_get :: "json \<Rightarrow> string \<Rightarrow> json option result" where
  "json_get j k = (case j of
      JObj kvs \<Rightarrow> Inr (map_of kvs k)
    | JNull \<Rightarrow> Inl (TypeError ''Cannot read properties of null'')
    | _ \<Rightarrow> Inr None)"

fun json_truthy :: "json \<Rightarrow> bool" where
  "json_truthy JNull = False"
| "json_truthy (JStr s) = (s \<noteq> '''')"
| "json_truthy (JNum n) = (n \<noteq> 0)"
| "json_truthy (JObj kvs) = True"

record terra_msg =
  sender :: string
  contract :: string
  execute_msg :: json
  coins :: "(string \<times> string) list"

text \<open>A value inside a message, by its path.\<close>

fun json_path :: "json \<Rightarrow> string list \<Rightarrow> json option" where
  "json_path j [] = Some j"
| "json_path (JObj kvs) (k # ks) = Option.bind (map_of kvs k) (\<lambda>j. json_path j ks)"
| "json_path _ (k # ks) = None"

text \<open>\<open>Math.round(Math.random() * 100000)\<close>\<close>

definition randomNonce :: "rat \<Rightarrow> nat" where
  "randomNonce r = nat \<lfloor>r * 100000 + 1 / 2\<rfloor>"

section \<open>Token bridge messages\<close>

definition transferFromTerra ::
  "rat \<Rightarrow> string \<Rightarrow> string \<Rightarrow> string \<Rightarrow> string \<Rightarrow> nat \<Rightarrow> bytes \<Rightarrow> string \<Rightarrow> terra_msg list" where
  "transferFromTerra r walletAddress tokenBridgeAddress tokenAddress amount recipientChain recipientAddress relayerFee =
     (let nonce = randomNonce r;
          isNativeAsset = isNativeDenom tokenAddress in
      if isNativeAsset
      then [\<lparr>sender = walletAddress, contract = tokenBridgeAddress,
             execute_msg = JObj [(''deposit_tokens'', JObj [])],
             coins = [(tokenAddress, amount)]\<rparr>,
            \<lparr>sender = walletAddress, contract = tokenBridgeAddress,
             execute_msg = JObj [(''initiate_transfer'', JObj [
               (''asset'', JObj [(''amount'', JStr amount),
                 (''info'', JObj [(''native_token'', JObj [(''denom'', JStr tokenAddress)])])]),
               (''recipient_chain'', JNum recipientChain),
               (''recipient'', JStr (base64 recipientAddress)),
               (''fee'', JStr relayerFee),
               (''nonce'', JNum nonce)])],
             coins = []\<rparr>]
      else [\<lparr>sender = walletAddress, contract = tokenAddress,
             execute_msg = JObj [(''increase_allowance'', JObj [
               (''spender'', JStr tokenBridgeAddress),
               (''amount'', JStr amount),
               (''expires'', JObj [(''never'', JObj [])])])],
             coins = []\<rparr>,
            \<lparr>sender = walletAddress, contract = tokenBridgeAddress,
             execute_msg = JObj [(''initiate_transfer'', JObj [
               (''asset'', JObj [(''amount'', JStr amount),
                 (''info'', JObj [(''token'', JObj [(''contract_addr'', JStr tokenAddress)])])]),
               (''recipient_chain'', JNum recipientChain),
               (''recipient'', JStr (base64 recipientAddress)),
               (''fee'', JStr relayerFee),
               (''nonce'', JNum nonce)])],
             coins = []\<rparr>])"

definition attestFromTerra :: "rat \<Rightarrow> string \<Rightarrow> string \<Rightarrow> string \<Rightarrow> terra_msg" where
  "attestFromTerra r tokenBridgeAddress walletAddress asset =
     (let nonce = randomNonce r;
          isNativeAsset = isNativeDenom asset in
      \<lparr>sender = walletAddress, contract = tokenBridgeAddress,
       execute_msg = JObj [(''create_asset_meta'', JObj [
         (''asset_info'',
            if isNativeAsset then JObj [(''native_token'', JObj [(''denom'', JStr asset)])]
            else JObj [(''token'', JObj [(''contract_addr'', JStr asset)])]),
         (''nonce'', JNum nonce)])],
       coins = []\<rparr>)"

definition redeemOnTerra :: "(bytes \<Rightarrow> string) \<Rightarrow> string \<Rightarrow> string \<Rightarrow> bytes \<Rightarrow> terra_msg" where
  "redeemOnTerra fromUint8Array tokenBridgeAddress walletAddress signedVAA =
     \<lparr>sender = walletAddress, contract = tokenBridgeAddress,
      execute_msg = JObj [(''submit_vaa'', JObj [(''data'', JStr (fromUint8Array signedVAA))])],
      coins = []\<rparr>"

definition createWrappedOnTerra :: "(bytes \<Rightarrow> string) \<Rightarrow> string \<Rightarrow> string \<Rightarrow> bytes \<Rightarrow> terra_msg" where
  "createWrappedOnTerra fromUint8Array tokenBridgeAddress walletAddress signedVAA =
     \<lparr>sender = walletAddress, contract = tokenBridgeAddress,
      execute_msg = JObj [(''submit_vaa'', JObj [(''data'', JStr (fromUint8Array signedVAA))])],
      coins = []\<rparr>"

definition updateWrappedOnTerra :: "(bytes \<Rightarrow> string) \<Rightarrow> string \<Rightarrow> string \<Rightarrow> bytes \<Rightarrow> terra_msg" where
  "updateWrappedOnTerra = createWrappedOnTerra"

section \<open>NFT bridge messages\<close>

definition nft_transferFromTerra ::
  "rat \<Rightarrow> string \<Rightarrow> string \<Rightarrow> string \<Rightarrow> string \<Rightarrow> nat \<Rightarrow> bytes \<Rightarrow> terra_msg list" where
  "nft_transferFromTerra r walletAddress tokenBridgeAddress tokenAddress tokenID recipientChain recipientAddress =
     (let nonce = randomNonce r in
      [\<lparr>sender = walletAddress, contract = tokenAddress,
        execute_msg = JObj [(''approve'', JObj [
          (''spender'', JStr tokenBridgeAddress),
          (''token_id'', JStr tokenID)])],
        coins = []\<rparr>,
       \<lparr>sender = walletAddress, contract = tokenBridgeAddress,
        execute_msg = JObj [(''initiate_transfer'', JObj [
          (''contract_addr'', JStr tokenAddress),
          (''token_id'', JStr tokenID),
          (''recipient_chain'', JNum recipientChain),
          (''recipient'', JStr (base64 recipientAddress)),
          (''nonce'', JNum nonce)])],
        coins = []\<rparr>])"

definition nft_redeemOnTerra :: "(bytes \<Rightarrow> string) \<Rightarrow> string \<Rightarrow> string \<Rightarrow> bytes \<Rightarrow> terra_msg" where
  "nft_redeemOnTerra fromUint8Array tokenBridgeAddress walletAddress signedVAA =
     \<lparr>sender = walletAddress, contract = tokenBridgeAddress,
      execute_msg = JObj [(''submit_vaa'', JObj [(''data'', JStr (fromUint8Array signedVAA))])],
      coins = []\<rparr>"

section \<open>Queries\<close>

type_synonym contract_query = "string \<Rightarrow> json \<Rightarrow> json result"

text \<open>A value or null: \<open>Inl ()\<close> is the null that a caught exception gives.\<close>

definition getForeignAssetTerra ::
  "(bytes \<Rightarrow> string) \<Rightarrow> contract_query \<Rightarrow> string \<Rightarrow> nat \<Rightarrow> bytes \<Rightarrow> unit + json option" where
  "getForeignAssetTerra fromUint8Array contractQuery tokenBridgeAddress originChain originAsset =
     (case bindR (contractQuery tokenBridgeAddress
         (JObj [(''wrapped_registry'', JObj [(''chain'', JNum originChain),
            (''address'', JStr (fromUint8Array originAsset))])]))
         (\<lambda>res. json_get res ''address'') of
        Inl e \<Rightarrow> Inl ()
      | Inr a \<Rightarrow> Inr a)"

definition SOLANA_NFT_BASE64 :: string where
  "SOLANA_NFT_BASE64 = ''AQEBAQEBAQEBAQEBAQEBAQEBAQEBAQEBAQEBAQEBAQE=''"

definition nft_getForeignAssetTerra ::
  "(bytes \<Rightarrow> string) \<Rightarrow> contract_query \<Rightarrow> string \<Rightarrow> nat \<Rightarrow> bytes \<Rightarrow> unit + json option" where
  "nft_getForeignAssetTerra fromUint8Array contractQuery tokenBridgeAddress originChain originAsset =
     (let address = (if originChain = CHAIN_ID_SOLANA then SOLANA_NFT_BASE64 else fromUint8Array originAsset) in
      case bindR (contractQuery tokenBridgeAddress
         (JObj [(''wrapped_registry'', JObj [(''chain'', JNum originChain), (''address'', JStr address)])]))
         (\<lambda>res. json_get res ''address'') of
        Inl e \<Rightarrow> Inl ()
      | Inr a \<Rightarrow> Inr a)"

record wrapped_asset =
  wa_isWrapped :: bool
  wa_chainId :: "json option"
  wa_assetAddress :: bytes

text \<open>\<open>Buffer.from(x, "base64")\<close> raises an exception unless \<open>x\<close> is a string.\<close>

definition bufferFromBase64 :: "json option \<Rightarrow> bytes result" where
  "bufferFromBase64 v = (case v of Some (JStr s) \<Rightarrow> Inr (base64Decode s)
     | _ \<Rightarrow> Inl (TypeError ''ERR_INVALID_ARG_TYPE''))"

text \<open>The query of both bridges: a falsy answer and every exception fall through to the last return.\<close>

definition queryWrappedAsset :: "contract_query \<Rightarrow> string \<Rightarrow> wrapped_asset option" where
  "queryWrappedAsset contractQuery wrappedAddress =
     (case contractQuery wrappedAddress (JObj [(''wrapped_asset_info'', JObj [])]) of
        Inl e \<Rightarrow> None
      | Inr res \<Rightarrow>
          if json_truthy res
          then case bindR (json_get res ''asset_chain'') (\<lambda>chain.
                    bindR (json_get res ''asset_address'') (\<lambda>a.
                    bindR (bufferFromBase64 a) (\<lambda>bs.
                    Inr \<lparr>wa_isWrapped = True, wa_chainId = chain, wa_assetAddress = bs\<rparr>))) of
                  Inl e \<Rightarrow> None
                | Inr info \<Rightarrow> Some info
          else None)"

definition getOriginalAssetTerra :: "libs \<Rightarrow> contract_query \<Rightarrow> string \<Rightarrow> wrapped_asset result" where
  "getOriginalAssetTerra L contractQuery wrappedAddress =
     (if isNativeDenom wrappedAddress
      then bindR (buildNativeId L wrappedAddress) (\<lambda>bs.
           Inr \<lparr>wa_isWrapped = False, wa_chainId = Some (JNum CHAIN_ID_TERRA), wa_assetAddress = bs\<rparr>)
      else case queryWrappedAsset contractQuery wrappedAddress of
          Some info \<Rightarrow> Inr info
        | None \<Rightarrow>
            bindR (canonicalAddress L wrappedAddress) (\<lambda>a.
            bindR (zeroPad L a 32) (\<lambda>bs.
            Inr \<lparr>wa_isWrapped = False, wa_chainId = Some (JNum CHAIN_ID_TERRA), wa_assetAddress = bs\<rparr>)))"

definition nft_getOriginalAssetTerra :: "libs \<Rightarrow> contract_query \<Rightarrow> string \<Rightarrow> wrapped_asset result" where
  "nft_getOriginalAssetTerra L contractQuery wrappedAddress =
     (case queryWrappedAsset contractQuery wrappedAddress of
        Some info \<Rightarrow> Inr info
      | None \<Rightarrow>
          bindR (canonicalAddress L wrappedAddress) (\<lambda>a.
          bindR (zeroPad L a 32) (\<lambda>bs.
          Inr \<lparr>wa_isWrapped = False, wa_chainId = Some (JNum CHAIN_ID_TERRA), wa_assetAddress = bs\<rparr>)))"

definition TERRA_REDEEMED_CHECK_WALLET_ADDRESS :: string where
  "TERRA_REDEEMED_CHECK_WALLET_ADDRESS = ''terra1x46rqay4d3cssq8gxxvqz8xt6nwlz4td20k38v''"

fun containsS :: "string \<Rightarrow> string \<Rightarrow> bool" where
  "containsS [] p = (p = [])"
| "containsS (c # s) p = (take (length p) (c # s) = p \<or> containsS s p)"

text \<open>
  The parameters: the gas prices, the account, and the fee estimation, which fails with the message
  of the response or, when there was no response, with none.
\<close>

record ('g, 'a) terra_node =
  axiosGet :: "string \<Rightarrow> 'g result"
  accountInfo :: "string \<Rightarrow> 'a result"
  estimateFee :: "'a \<Rightarrow> terra_msg list \<Rightarrow> string \<Rightarrow> string list \<Rightarrow> 'g \<Rightarrow> string option + unit"

definition getIsTransferCompletedTerra ::
  "(bytes \<Rightarrow> string) \<Rightarrow> ('g, 'a) terra_node \<Rightarrow> string \<Rightarrow> bytes \<Rightarrow> string \<Rightarrow> bool result" where
  "getIsTransferCompletedTerra fromUint8Array N tokenBridgeAddress signedVAA gasPriceUrl =
     (let msg = redeemOnTerra fromUint8Array tokenBridgeAddress TERRA_REDEEMED_CHECK_WALLET_ADDRESS signedVAA in
      bindR (axiosGet N gasPriceUrl) (\<lambda>gasPrices.
      bindR (accountInfo N TERRA_REDEEMED_CHECK_WALLET_ADDRESS) (\<lambda>account.
      case estimateFee N account [msg] ''already redeemed calculation'' [''uluna''] gasPrices of
        Inr _ \<Rightarrow> Inr False
      | Inl (Some message) \<Rightarrow> Inr (containsS message ''VaaAlreadyExecuted'')
      | Inl None \<Rightarrow> Inl (TypeError ''Cannot read properties of undefined''))))"

definition nft_getIsTransferCompletedTerra ::
  "(bytes \<Rightarrow> string) \<Rightarrow> ('g, 'a) terra_node \<Rightarrow> string \<Rightarrow> bytes \<Rightarrow> string \<Rightarrow> bool result" where
  "nft_getIsTransferCompletedTerra fromUint8Array N nftBridgeAddress signedVAA gasPriceUrl =
     (let msg = nft_redeemOnTerra fromUint8Array nftBridgeAddress TERRA_REDEEMED_CHECK_WALLET_ADDRESS signedVAA in
      bindR (axiosGet N gasPriceUrl) (\<lambda>gasPrices.
      bindR (accountInfo N TERRA_REDEEMED_CHECK_WALLET_ADDRESS) (\<lambda>account.
      case estimateFee N account [msg] ''already redeemed calculation'' [''uluna''] gasPrices of
        Inr _ \<Rightarrow> Inr False
      | Inl (Some message) \<Rightarrow> Inr (containsS message ''VaaAlreadyExecuted'')
      | Inl None \<Rightarrow> Inl (TypeError ''Cannot read properties of undefined''))))"

definition getIsWrappedAssetTerra :: "string \<Rightarrow> 'c \<Rightarrow> string \<Rightarrow> bool" where
  "getIsWrappedAssetTerra tokenBridgeAddress client assetAddress = False"

section \<open>Properties\<close>

lemma json_path_simps [simp]:
  "json_path (JObj ((k, j) # kvs)) (k' # ks) = (if k = k' then json_path j ks else json_path (JObj kvs) (k' # ks))"
  "json_path (JObj []) (k' # ks) = None"
  by simp_all

declare json_path.simps(2) [simp del]

text \<open>a token transfer from Terra is two messages of the wallet: the first deposits, or allows
  the bridge to take, exactly the amount that the second transfers, of the same token; the second
  goes to the bridge with the chain and, in Base64, the address of the recipient.\<close>

theorem transferFromTerra_consistent:
  "\<exists>m1 m2. transferFromTerra r wallet bridge token amt chain recipient fee = [m1, m2] \<and>
     sender m1 = wallet \<and> sender m2 = wallet \<and> contract m2 = bridge \<and> coins m2 = [] \<and>
     json_path (execute_msg m2) [''initiate_transfer'', ''asset'', ''amount''] = Some (JStr amt) \<and>
     json_path (execute_msg m2) [''initiate_transfer'', ''recipient_chain''] = Some (JNum chain) \<and>
     json_path (execute_msg m2) [''initiate_transfer'', ''fee''] = Some (JStr fee) \<and>
     (\<exists>s. json_path (execute_msg m2) [''initiate_transfer'', ''recipient''] = Some (JStr s) \<and> base64Decode s = recipient) \<and>
     (if isNativeDenom token
      then contract m1 = bridge \<and> coins m1 = [(token, amt)] \<and>
        json_path (execute_msg m1) [''deposit_tokens''] = Some (JObj []) \<and>
        json_path (execute_msg m2) [''initiate_transfer'', ''asset'', ''info'', ''native_token'', ''denom''] = Some (JStr token)
      else contract m1 = token \<and> coins m1 = [] \<and>
        json_path (execute_msg m1) [''increase_allowance'', ''spender''] = Some (JStr bridge) \<and>
        json_path (execute_msg m1) [''increase_allowance'', ''amount''] = Some (JStr amt) \<and>
        json_path (execute_msg m2) [''initiate_transfer'', ''asset'', ''info'', ''token'', ''contract_addr''] = Some (JStr token))"
  by (cases "isNativeDenom token") (simp_all add: transferFromTerra_def)

text \<open>an NFT transfer from Terra approves the token it then transfers, for the bridge alone.\<close>

theorem nft_transferFromTerra_consistent:
  "\<exists>m1 m2. nft_transferFromTerra r wallet bridge token tid chain recipient = [m1, m2] \<and>
     sender m1 = wallet \<and> sender m2 = wallet \<and> contract m1 = token \<and> contract m2 = bridge \<and>
     json_path (execute_msg m1) [''approve'', ''spender''] = Some (JStr bridge) \<and>
     json_path (execute_msg m1) [''approve'', ''token_id''] = Some (JStr tid) \<and>
     json_path (execute_msg m2) [''initiate_transfer'', ''token_id''] = Some (JStr tid) \<and>
     json_path (execute_msg m2) [''initiate_transfer'', ''contract_addr''] = Some (JStr token) \<and>
     json_path (execute_msg m2) [''initiate_transfer'', ''recipient_chain''] = Some (JNum chain) \<and>
     (\<exists>s. json_path (execute_msg m2) [''initiate_transfer'', ''recipient''] = Some (JStr s) \<and> base64Decode s = recipient)"
  by (simp add: nft_transferFromTerra_def)

text \<open>the asset address that \<open>getOriginalAssetTerra\<close> gives for a CW20 token that the bridge did
  not wrap is 32 bytes long and reads back, through \<open>hexToNativeString\<close>, as the address of the token.\<close>

theorem getOriginalAssetTerra_native:
  assumes L: "ethers_laws L" "bech32_laws L"
    and a: "bech32Decode L a = Inr (''terra'', ws)" "fromWords L ws = Inr cs" "length cs = 20"
      "lower_case a" "\<not> isNativeDenom a"
    and q: "queryWrappedAsset Q a = None"
  shows "\<exists>info. getOriginalAssetTerra L Q a = Inr info \<and> \<not> wa_isWrapped info \<and>
    wa_chainId info = Some (JNum CHAIN_ID_TERRA) \<and> length (wa_assetAddress info) = 32 \<and>
    hexToNativeString L (Some (toHex (wa_assetAddress info))) CHAIN_ID_TERRA = Some a"
proof -
  have enc: "bech32Encode L ''terra'' (toWords L cs) = Inr a"
    using L(2) a(1,2,4) unfolding bech32_laws_def by metis
  have nat: "\<not> isHexNativeTerra (toHex (replicate 12 0 @ cs))"
    by (simp add: toHex_zeros isHexNativeTerra_def startsWith_def numeral_eq_Suc byte_hex_0)
  have d: "drop 24 (toHex (replicate 12 0 @ cs)) = toHex cs" by (simp add: toHex_zeros)
  have "hexToNativeString L (Some (toHex (replicate 12 0 @ cs))) CHAIN_ID_TERRA = Some a"
    using isEVMChain_distinct nat d enc
    by (simp add: hexToNativeString_def hexToUint8Array_def catchUndefined_def humanAddress_def del: toHex_simps)
  moreover have "getOriginalAssetTerra L Q a = Inr \<lparr>wa_isWrapped = False, wa_chainId = Some (JNum CHAIN_ID_TERRA),
      wa_assetAddress = replicate 12 0 @ cs\<rparr>"
    using a q by (simp add: getOriginalAssetTerra_def canonicalAddress_def ethers_zeroPad [OF L(1)])
  ultimately show ?thesis using a(3) by simp
qed

theorem getOriginalAssetTerra_native_witness:
  "\<exists>info. getOriginalAssetTerra demo_libs (\<lambda>c q. Inl (Foreign ''not found'')) (''terra1'' @ replicate 20 (CHR ''a'')) = Inr info \<and>
     length (wa_assetAddress info) = 32"
proof -
  let ?t = "''terra1'' @ replicate 20 (CHR ''a'')"
  have t: "bech32Decode demo_libs ?t = Inr (''terra'', replicate 20 97)"
    "fromWords demo_libs (replicate 20 97) = Inr (replicate 20 97)" "length (replicate 20 (97 :: byte)) = 20"
    "lower_case ?t" "\<not> isNativeDenom ?t"
    by (simp_all add: demo_libs_def lower_case_def list_all_iff isNativeDenom_def isNativeTerra_def)
  have "queryWrappedAsset (\<lambda>c q. Inl (Foreign ''not found'')) ?t = None" by (simp add: queryWrappedAsset_def)
  from getOriginalAssetTerra_native [OF demo_ethers demo_bech32 t this] show ?thesis by blast
qed

lemma base64_ones: "base64 (replicate 32 1) = SOLANA_NFT_BASE64"
proof -
  have c: "b64_char 0 = CHR ''A''" "b64_char 16 = CHR ''Q''" "b64_char 4 = CHR ''E''" "b64_char 1 = CHR ''B''"
    "b64_char (Suc 0) = CHR ''B''"
    by code_simp+
  have g: "base64 (1 # 1 # 1 # bs) = ''AQEB'' @ base64 bs" for bs using c by simp
  have "replicate 32 (1::byte) = concat (replicate 10 [1, 1, 1]) @ [1, 1]" by code_simp
  moreover have "base64 (concat (replicate n [1, 1, 1]) @ [1, 1]) = concat (replicate n ''AQEB'') @ ''AQE=''" for n
    by (induction n) (simp_all add: g c)
  ultimately show ?thesis by (simp add: SOLANA_NFT_BASE64_def) code_simp
qed

text \<open>all Solana NFTs share one address on Terra: the constant in the query is the Base64 form of
  32 bytes of value 1, so asking for a Solana NFT is asking for that address, whatever the asset.\<close>

theorem nft_getForeignAssetTerra_solana:
  assumes "fromUint8Array = base64"
  shows "nft_getForeignAssetTerra fromUint8Array Q bridge CHAIN_ID_SOLANA asset =
      getForeignAssetTerra fromUint8Array Q bridge CHAIN_ID_SOLANA (replicate 32 1) \<and>
    (chain \<noteq> CHAIN_ID_SOLANA \<longrightarrow> nft_getForeignAssetTerra fromUint8Array Q bridge chain asset =
      getForeignAssetTerra fromUint8Array Q bridge chain asset)"
proof -
  show ?thesis using assms base64_ones by (simp add: nft_getForeignAssetTerra_def getForeignAssetTerra_def)
qed

theorem nft_getForeignAssetTerra_solana_witness:
  "nft_getForeignAssetTerra base64 (\<lambda>c q. Inr (JObj [(''address'', JStr c)])) ''bridge'' CHAIN_ID_SOLANA [1, 2] =
     Inr (Some (JStr ''bridge''))"
  by (subst conjunct1 [OF nft_getForeignAssetTerra_solana [OF refl, where chain = CHAIN_ID_ETH]])
    (simp add: getForeignAssetTerra_def json_get_def)

end
