(* ===== verification/Solana.thy ===== *)
theory Solana
  imports Bytes
begin

text \<open>
  The Solana side of the SDK: transactions and instructions as the library
  \<open>@solana/web3.js\<close> has them, the conversion of the instructions that the WebAssembly modules build
  (\<open>solana/rust.ts\<close>), the choice of those modules (\<open>solana/wasm.ts\<close>), sending and confirming with
  retries (\<open>utils/solana.ts\<close>), and posting a VAA (\<open>solana/postVaa.ts\<close>, \<open>solana/getBridgeFeeIx.ts\<close>).

  A key is a value of the type \<open>'k\<close>. The web3 library, the connection, the wallet and the
  WebAssembly modules are parameters. Every call that reaches the outside is appended to a
  history, and the reply may depend on the whole history before it: the theorems hold for every
  behaviour of the network and of the wallet.
\<close>

section \<open>Data of the web3 library\<close>

record 'k account_meta =
  pubkey :: 'k
  isSigner :: bool
  isWritable :: bool

record 'k instruction =
  programId :: 'k
  ix_data :: bytes
  ix_keys :: "'k account_meta list"

record 'k transaction =
  recentBlockhash :: "string option"
  feePayer :: "'k option"
  instructions :: "'k instruction list"
  signatures :: "bytes list"

text \<open>The calls to the connection and the wallet.\<close>

datatype 'k call =
    GetAccountInfo 'k
  | GetRecentBlockhash
  | SignTransaction "'k transaction"
  | SendRawTransaction bytes
  | ConfirmTransaction string

type_synonym 'k history = "'k call list"

record 'k connection =
  getAccountInfo :: "'k history \<Rightarrow> 'k \<Rightarrow> bytes option result"
  getRecentBlockhash :: "'k history \<Rightarrow> string result"
  sendRawTransaction :: "'k history \<Rightarrow> bytes \<Rightarrow> string result"
  confirmTransaction :: "'k history \<Rightarrow> string \<Rightarrow> string result"

record 'k keypair =
  publicKey :: 'k
  secretKey :: bytes

text \<open>The constructors and methods of the library: \<open>new PublicKey\<close> of a string and of bytes,
  \<open>toString\<close> of a key, \<open>new Transaction().add(...)\<close> (an argument may be undefined),
  \<open>partialSign\<close> and \<open>serialize\<close>.\<close>

record 'k web3 =
  publicKeyS :: "string \<Rightarrow> 'k result"
  publicKeyB :: "bytes \<Rightarrow> 'k result"
  keyString :: "'k \<Rightarrow> string"
  newTransaction :: "'k instruction option list \<Rightarrow> 'k transaction result"
  partialSign :: "'k transaction \<Rightarrow> 'k keypair \<Rightarrow> 'k transaction result"
  serialize :: "'k transaction \<Rightarrow> bytes result"

text \<open>What the theorems rely on: a new transaction holds the instructions it is given, and a partial
  signature does not change them.\<close>

definition web3_laws :: "'k web3 \<Rightarrow> bool" where
  "web3_laws W \<longleftrightarrow>
     (\<forall>ixs tx. newTransaction W ixs = Inr tx \<longrightarrow> map Some (instructions tx) = ixs) \<and>
     (\<forall>tx kp tx'. partialSign W tx kp = Inr tx' \<longrightarrow> instructions tx' = instructions tx)"

section \<open>Steps that extend the history\<close>

text \<open>A step returns the history after it and its result; an exception ends the sequence.\<close>

definition bindH :: "'h \<times> ('e + 'a) \<Rightarrow> ('h \<Rightarrow> 'a \<Rightarrow> 'h \<times> ('e + 'b)) \<Rightarrow> 'h \<times> ('e + 'b)" where
  "bindH m f = (case m of (h, Inl e) \<Rightarrow> (h, Inl e) | (h, Inr x) \<Rightarrow> f h x)"

lemma bindH_simps [simp]:
  "bindH (h, Inl e) f = (h, Inl e)"
  "bindH (h, Inr x) f = f h x"
  by (simp_all add: bindH_def)

lemma bindH_eq_Inr: "bindH m f = (h', Inr y) \<longleftrightarrow> (\<exists>h x. m = (h, Inr x) \<and> f h x = (h', Inr y))"
  by (auto simp: bindH_def split: prod.splits sum.splits)

section \<open>Instructions from Rust (\<open>solana/rust.ts\<close>)\<close>

record rust_meta =
  meta_pubkey :: bytes
  is_signer :: bool
  is_writable :: bool

record rust_ix =
  program_id :: bytes
  accounts :: "rust_meta list"
  rust_data :: bytes

definition accountMetaFromRust :: "'k web3 \<Rightarrow> rust_meta \<Rightarrow> 'k account_meta result" where
  "accountMetaFromRust W meta =
     bindR (publicKeyB W (meta_pubkey meta)) (\<lambda>k.
     Inr \<lparr>pubkey = k, isSigner = is_signer meta, isWritable = is_writable meta\<rparr>)"

definition ixFromRust :: "'k web3 \<Rightarrow> rust_ix \<Rightarrow> 'k instruction result" where
  "ixFromRust W data =
     bindR (sequenceR (map (accountMetaFromRust W) (accounts data))) (\<lambda>keys.
     bindR (publicKeyB W (program_id data)) (\<lambda>k.
     Inr \<lparr>programId = k, ix_data = rust_data data, ix_keys = keys\<rparr>))"

section \<open>The modules (\<open>solana/wasm.ts\<close>)\<close>

text \<open>Each of the four modules exists for bundlers and for Node; \<open>setDefaultWasm\<close> chooses for all
  four.\<close>

datatype wasm_type = Bundler | Node

record wasm_defaults =
  importDefaultCoreWasm :: wasm_type
  importDefaultMigrationWasm :: wasm_type
  importDefaultNftWasm :: wasm_type
  importDefaultTokenWasm :: wasm_type

definition initial_wasm :: wasm_defaults where
  "initial_wasm = \<lparr>importDefaultCoreWasm = Bundler, importDefaultMigrationWasm = Bundler,
     importDefaultNftWasm = Bundler, importDefaultTokenWasm = Bundler\<rparr>"

definition setDefaultWasm :: "wasm_type \<Rightarrow> wasm_defaults \<Rightarrow> wasm_defaults" where
  "setDefaultWasm ty d = d\<lparr>importDefaultCoreWasm := ty, importDefaultMigrationWasm := ty,
     importDefaultNftWasm := ty, importDefaultTokenWasm := ty\<rparr>"

text \<open>The state of the core bridge, as \<open>parse_state\<close> returns it.\<close>

record bridge_config =
  guardian_set_expiration_time :: nat
  fee :: nat

record bridge_state =
  guardian_set_index :: nat
  last_lamports :: nat
  config :: bridge_config

text \<open>The functions of the core module. A parsed guardian set is passed from one to another and is
  a value of the type \<open>'g\<close>.\<close>

record 'g core_wasm =
  state_address :: "string \<Rightarrow> bytes result"
  fee_collector_address :: "string \<Rightarrow> bytes result"
  guardian_set_address :: "string \<Rightarrow> nat \<Rightarrow> bytes result"
  parse_state :: "bytes \<Rightarrow> bridge_state result"
  parse_guardian_set :: "bytes \<Rightarrow> 'g result"
  verify_signatures_ix ::
    "string \<Rightarrow> string \<Rightarrow> nat \<Rightarrow> 'g \<Rightarrow> string \<Rightarrow> bytes \<Rightarrow> rust_ix list list result"
  post_vaa_ix :: "string \<Rightarrow> string \<Rightarrow> string \<Rightarrow> bytes \<Rightarrow> rust_ix result"

section \<open>Sending with retries (\<open>utils/solana.ts\<close>)\<close>

text \<open>
  Signing may change the transaction it is given, which is the object in the array of unsigned
  transactions: a signer returns the new history, the transaction after the call, and the signed
  transaction or what was thrown.
\<close>

type_synonym 'k signer = "'k history \<Rightarrow> 'k transaction \<Rightarrow> 'k history \<times> 'k transaction \<times> 'k transaction result"

record 'k send_state =
  currentRetries :: nat
  currentIndex :: nat
  transactionReceipts :: "string list"
  unsignedTxs :: "'k transaction list"
  hist :: "'k history"

definition retry :: "'k send_state \<Rightarrow> 'k send_state" where
  "retry st = st\<lparr>currentRetries := currentRetries st + 1\<rparr>"

text \<open>The first block of the loop body: blockhash and fee payer.\<close>

definition prepare :: "'k web3 \<Rightarrow> 'k connection \<Rightarrow> string \<Rightarrow> 'k history \<Rightarrow> 'k transaction \<Rightarrow>
    'k history \<times> 'k transaction \<times> unit result" where
  "prepare W C payer h tx =
     (let h' = h @ [GetRecentBlockhash] in
      case getRecentBlockhash C h of
        Inl e \<Rightarrow> (h', tx, Inl e)
      | Inr blockhash \<Rightarrow>
          (let tx = tx\<lparr>recentBlockhash := Some blockhash\<rparr> in
           case publicKeyS W payer of
             Inl e \<Rightarrow> (h', tx, Inl e)
           | Inr k \<Rightarrow> (h', tx\<lparr>feePayer := Some k\<rparr>, Inr ())))"

text \<open>The third block: serialise, send, confirm.\<close>

definition sendConfirm :: "'k web3 \<Rightarrow> 'k connection \<Rightarrow> 'k history \<Rightarrow> 'k transaction \<Rightarrow>
    'k history \<times> string result" where
  "sendConfirm W C h stx =
     (case serialize W stx of
        Inl e \<Rightarrow> (h, Inl e)
      | Inr raw \<Rightarrow>
          (let h1 = h @ [SendRawTransaction raw] in
           case sendRawTransaction C h raw of
             Inl e \<Rightarrow> (h1, Inl e)
           | Inr txid \<Rightarrow> (h1 @ [ConfirmTransaction txid], confirmTransaction C h1 txid)))"

text \<open>The loop body. The second component is the early return of a rejected promise.\<close>

definition sendAttempt :: "'k web3 \<Rightarrow> 'k connection \<Rightarrow> 'k signer \<Rightarrow> string \<Rightarrow> 'k send_state \<Rightarrow>
    'k send_state \<times> js_error option" where
  "sendAttempt W C sign payer st =
     (case prepare W C payer (hist st) (unsignedTxs st ! currentIndex st) of
        (h, tx, Inl e) \<Rightarrow>
          (retry (st\<lparr>hist := h, unsignedTxs := (unsignedTxs st)[currentIndex st := tx]\<rparr>), None)
      | (h, tx, Inr _) \<Rightarrow>
          (case sign h tx of
             (h, tx, Inl e) \<Rightarrow>
               (st\<lparr>hist := h, unsignedTxs := (unsignedTxs st)[currentIndex st := tx]\<rparr>,
                Some (Rejected ''Failed to sign transaction.''))
           | (h, tx, Inr stx) \<Rightarrow>
               (let (h, r) = sendConfirm W C h stx;
                    st = st\<lparr>hist := h, unsignedTxs := (unsignedTxs st)[currentIndex st := tx]\<rparr> in
                case r of
                  Inl e \<Rightarrow> (retry st, None)
                | Inr receipt \<Rightarrow>
                    (st\<lparr>transactionReceipts := transactionReceipts st @ [receipt],
                        currentIndex := currentIndex st + 1\<rparr>, None))))"

definition sendGuard :: "int \<Rightarrow> 'k send_state \<Rightarrow> bool" where
  "sendGuard maxRetries st \<longleftrightarrow>
     \<not> (currentIndex st \<ge> length (unsignedTxs st)) \<and> \<not> (int (currentRetries st) > maxRetries)"

lemma sendAttempt_measure:
  assumes "sendAttempt W C sign payer st = (st', None)"
  shows "length (unsignedTxs st') = length (unsignedTxs st) \<and>
    (currentIndex st' = Suc (currentIndex st) \<and> currentRetries st' = currentRetries st \<or>
     currentIndex st' = currentIndex st \<and> currentRetries st' = Suc (currentRetries st))"
  using assms
  by (auto simp: sendAttempt_def retry_def Let_def split: prod.splits sum.splits unit.splits)

function sendLoop :: "'k web3 \<Rightarrow> 'k connection \<Rightarrow> 'k signer \<Rightarrow> string \<Rightarrow> int \<Rightarrow> 'k send_state \<Rightarrow>
    string list result \<times> 'k send_state" where
  "sendLoop W C sign payer maxRetries st =
     (if sendGuard maxRetries st
      then case sendAttempt W C sign payer st of
          (st', Some e) \<Rightarrow> (Inl e, st')
        | (st', None) \<Rightarrow> sendLoop W C sign payer maxRetries st'
      else if int (currentRetries st) > maxRetries
      then (Inl (Rejected ''Reached the maximum number of retries.''), st)
      else (Inr (transactionReceipts st), st))"
  by pat_completeness auto
termination
proof (relation "measure (\<lambda>(W, C, sign, payer, m, st).
    length (unsignedTxs st) - currentIndex st + nat (m + 1 - int (currentRetries st)))", goal_cases)
  case (2 W C sign payer m st r st')
  then have "sendAttempt W C sign payer st = (r, None)" by simp
  from sendAttempt_measure [OF this] 2(1) show ?case by (auto simp: sendGuard_def)
qed simp

declare sendLoop.simps [simp del]

definition sendAndConfirmTransactionsWithRetry :: "'k web3 \<Rightarrow> 'k connection \<Rightarrow> 'k signer \<Rightarrow> string \<Rightarrow>
    'k transaction list \<Rightarrow> int \<Rightarrow> 'k history \<Rightarrow> 'k history \<times> string list result" where
  "sendAndConfirmTransactionsWithRetry W C sign payer unsignedTransactions maxRetries h =
     (if unsignedTransactions = [] then (h, Inl (Rejected ''No transactions provided to send.''))
      else case sendLoop W C sign payer maxRetries
            \<lparr>currentRetries = 0, currentIndex = 0, transactionReceipts = [],
             unsignedTxs = unsignedTransactions, hist = h\<rparr> of
          (r, st) \<Rightarrow> (hist st, r))"

text \<open>The argument \<open>signTransaction\<close>: it logs the call and asks the wallet.\<close>

definition walletSigner :: "('k history \<Rightarrow> 'k transaction \<Rightarrow> 'k transaction \<times> 'k transaction result) \<Rightarrow> 'k signer" where
  "walletSigner wallet h tx = (h @ [SignTransaction tx], wallet h tx)"

end
