(* ===== verification/SolanaSend.thy ===== *)
theory SolanaSend
  imports Solana
begin

text \<open>
  What \<open>sendAndConfirmTransactionsWithRetry\<close> promises, whatever the network and the wallet do. The
  specification is the relation \<open>sends\<close>: the histories in which transactions are confirmed one
  after the other, in the order of the array, with failed attempts in between, each attempt for the
  first transaction that is not confirmed yet. The loop refines it.
\<close>

section \<open>The specification\<close>

text \<open>An attempt that got as far as a signature: \<open>s\<close> is the signed transaction for the instructions
  \<open>ix\<close>, prepared with the blockhash of that moment, and \<open>h1\<close> the history after signing.\<close>

definition signs :: "'k web3 \<Rightarrow> 'k connection \<Rightarrow> 'k signer \<Rightarrow> string \<Rightarrow> 'k instruction list \<Rightarrow>
    'k history \<Rightarrow> 'k history \<Rightarrow> 'k transaction result \<Rightarrow> bool" where
  "signs W C sign payer ix h h1 s \<longleftrightarrow>
     (\<exists>bh k tx tx'. getRecentBlockhash C h = Inr bh \<and> publicKeyS W payer = Inr k \<and>
        recentBlockhash tx = Some bh \<and> feePayer tx = Some k \<and> instructions tx = ix \<and>
        sign (h @ [GetRecentBlockhash]) tx = (h1, tx', s))"

inductive sends :: "'k web3 \<Rightarrow> 'k connection \<Rightarrow> 'k signer \<Rightarrow> string \<Rightarrow> 'k instruction list list \<Rightarrow>
    'k history \<Rightarrow> string list \<Rightarrow> nat \<Rightarrow> 'k history \<Rightarrow> bool"
  for W :: "'k web3" and C :: "'k connection" and sign :: "'k signer" and payer :: string
    and T :: "'k instruction list list" and h0 :: "'k history" where
  start: "sends W C sign payer T h0 [] 0 h0"
| not_prepared: "sends W C sign payer T h0 rs n h \<Longrightarrow> length rs < length T \<Longrightarrow>
    sends W C sign payer T h0 rs (Suc n) (h @ [GetRecentBlockhash])"
| not_confirmed: "sends W C sign payer T h0 rs n h \<Longrightarrow> length rs < length T \<Longrightarrow>
    signs W C sign payer (T ! length rs) h h1 (Inr s) \<Longrightarrow> sendConfirm W C h1 s = (h2, Inl e) \<Longrightarrow>
    sends W C sign payer T h0 rs (Suc n) h2"
| confirmed: "sends W C sign payer T h0 rs n h \<Longrightarrow> length rs < length T \<Longrightarrow>
    signs W C sign payer (T ! length rs) h h1 (Inr s) \<Longrightarrow> sendConfirm W C h1 s = (h2, Inr r) \<Longrightarrow>
    sends W C sign payer T h0 (rs @ [r]) n h2"

inductive_cases sends_Suc [elim]: "sends W C sign payer T h0 rs (Suc n) h"

lemma sends_length: "sends W C sign payer T h0 rs n h \<Longrightarrow> length rs \<le> length T"
  by (induction rule: sends.induct) auto

text \<open>A signer may add signatures, but it leaves the instructions of the object alone.\<close>

definition keeps_instructions :: "'k signer \<Rightarrow> bool" where
  "keeps_instructions sign \<longleftrightarrow> (\<forall>h tx. instructions (fst (snd (sign h tx))) = instructions tx)"

lemma keeps_instructionsD: "keeps_instructions sign \<Longrightarrow> sign h tx = (h1, tx', r) \<Longrightarrow> instructions tx' = instructions tx"
  unfolding keeps_instructions_def by (metis fst_conv snd_conv)

section \<open>The loop keeps to it\<close>

definition send_inv :: "'k web3 \<Rightarrow> 'k connection \<Rightarrow> 'k signer \<Rightarrow> string \<Rightarrow> 'k instruction list list \<Rightarrow>
    'k history \<Rightarrow> 'k send_state \<Rightarrow> bool" where
  "send_inv W C sign payer T h0 st \<longleftrightarrow>
     sends W C sign payer T h0 (transactionReceipts st) (currentRetries st) (hist st) \<and>
     map instructions (unsignedTxs st) = T \<and> currentIndex st = length (transactionReceipts st)"

lemma prepare_Inl: "prepare W C payer h tx = (h1, tx1, Inl e) \<Longrightarrow> h1 = h @ [GetRecentBlockhash] \<and> instructions tx1 = instructions tx"
  by (auto simp: prepare_def Let_def split: sum.splits)

lemma prepare_Inr:
  "prepare W C payer h tx = (h1, tx1, Inr u) \<Longrightarrow> h1 = h @ [GetRecentBlockhash] \<and> instructions tx1 = instructions tx \<and>
     (\<exists>bh k. getRecentBlockhash C h = Inr bh \<and> publicKeyS W payer = Inr k \<and>
        recentBlockhash tx1 = Some bh \<and> feePayer tx1 = Some k)"
  by (auto simp: prepare_def Let_def split: sum.splits)

lemma map_update_same: "i < length xs \<Longrightarrow> f y = f (xs ! i) \<Longrightarrow> map f (xs[i := y]) = map f xs"
  by (metis list_update_id map_update)

text \<open>The three ways an attempt can go.\<close>

lemma sendAttempt_cases:
  assumes "sendAttempt W C sign payer st = (st', r)" "keeps_instructions sign" "currentIndex st < length (unsignedTxs st)"
  obtains (not_prepared) tx where "r = None"
      "st' = retry (st\<lparr>hist := hist st @ [GetRecentBlockhash], unsignedTxs := (unsignedTxs st)[currentIndex st := tx]\<rparr>)"
      "instructions tx = instructions (unsignedTxs st ! currentIndex st)"
  | (not_signed) tx h1 e where "r = Some (Rejected ''Failed to sign transaction.'')"
      "signs W C sign payer (instructions (unsignedTxs st ! currentIndex st)) (hist st) h1 (Inl e)"
      "st' = st\<lparr>hist := h1, unsignedTxs := (unsignedTxs st)[currentIndex st := tx]\<rparr>"
      "instructions tx = instructions (unsignedTxs st ! currentIndex st)"
  | (not_confirmed) tx h1 s h2 e where "r = None"
      "signs W C sign payer (instructions (unsignedTxs st ! currentIndex st)) (hist st) h1 (Inr s)"
      "sendConfirm W C h1 s = (h2, Inl e)"
      "st' = retry (st\<lparr>hist := h2, unsignedTxs := (unsignedTxs st)[currentIndex st := tx]\<rparr>)"
      "instructions tx = instructions (unsignedTxs st ! currentIndex st)"
  | (confirmed) tx h1 s h2 rc where "r = None"
      "signs W C sign payer (instructions (unsignedTxs st ! currentIndex st)) (hist st) h1 (Inr s)"
      "sendConfirm W C h1 s = (h2, Inr rc)"
      "st' = st\<lparr>hist := h2, unsignedTxs := (unsignedTxs st)[currentIndex st := tx],
         transactionReceipts := transactionReceipts st @ [rc], currentIndex := currentIndex st + 1\<rparr>"
      "instructions tx = instructions (unsignedTxs st ! currentIndex st)"
proof -
  let ?tx = "unsignedTxs st ! currentIndex st"
  obtain h tx1 p where p: "prepare W C payer (hist st) ?tx = (h, tx1, p)" by (metis prod_cases3)
  show thesis
  proof (cases p)
    case (Inl e)
    then show thesis using p assms(1) prepare_Inl [OF p [unfolded Inl]] not_prepared [of tx1]
      by (simp add: sendAttempt_def)
  next
    case (Inr u)
    obtain h1 tx2 s where s: "sign h tx1 = (h1, tx2, s)" by (metis prod_cases3)
    note pr = prepare_Inr [OF p [unfolded Inr]]
    have sg: "signs W C sign payer (instructions ?tx) (hist st) h1 s"
      using pr s unfolding signs_def by metis
    have ix: "instructions tx2 = instructions ?tx" using keeps_instructionsD [OF assms(2) s] pr by simp
    show thesis
    proof (cases s)
      case (Inl e)
      then show thesis using p s Inr assms(1) sg ix not_signed [of h1 e tx2] by (simp add: sendAttempt_def)
    next
      case s': (Inr s')
      obtain h2 rc where c: "sendConfirm W C h1 s' = (h2, rc)" by (metis surj_pair)
      show thesis
      proof (cases rc)
        case (Inl e)
        then show thesis using p s Inr s' assms(1) sg ix c not_confirmed [of h1 s' h2 e tx2]
          by (simp add: sendAttempt_def Let_def)
      next
        case r: (Inr r)
        then show thesis using p s Inr s' assms(1) sg ix c confirmed [of h1 s' h2 r tx2]
          by (simp add: sendAttempt_def Let_def)
      qed
    qed
  qed
qed

lemma sendAttempt_inv:
  assumes "send_inv W C sign payer T h0 st" "sendGuard m st" "keeps_instructions sign"
    "sendAttempt W C sign payer st = (st', None)"
  shows "send_inv W C sign payer T h0 st'"
proof -
  have st: "sends W C sign payer T h0 (transactionReceipts st) (currentRetries st) (hist st)"
    "map instructions (unsignedTxs st) = T" "currentIndex st = length (transactionReceipts st)"
    "currentIndex st < length (unsignedTxs st)"
    using assms(1,2) by (simp_all add: send_inv_def sendGuard_def)
  then have T: "instructions (unsignedTxs st ! currentIndex st) = T ! length (transactionReceipts st)"
    "length (transactionReceipts st) < length T" by auto
  from assms(4,3) st(4) show ?thesis
  proof (cases rule: sendAttempt_cases)
    case (not_prepared tx)
    with sends.not_prepared [OF st(1) T(2)] st show ?thesis
      by (simp add: send_inv_def retry_def map_update_same)
  next
    case (not_confirmed tx h1 s h2 e)
    with sends.not_confirmed [OF st(1) T(2), of h1 s h2 e] st T(1) show ?thesis
      by (simp add: send_inv_def retry_def map_update_same)
  next
    case (confirmed tx h1 s h2 rc)
    with sends.confirmed [OF st(1) T(2), of h1 s h2 rc] st T(1) show ?thesis
      by (simp add: send_inv_def map_update_same)
  qed simp
qed

lemma sendLoop_outcome:
  assumes "send_inv W C sign payer T h0 st" "keeps_instructions sign" "sendLoop W C sign payer m st = (r, st')"
    "currentRetries st \<le> nat (m + 1)"
  shows "\<exists>rs n h. sends W C sign payer T h0 rs n h \<and>
    (r = Inr rs \<and> length rs = length T \<and> int n \<le> m \<and> hist st' = h \<or>
     r = Inl (Rejected ''Reached the maximum number of retries.'') \<and> n = nat (m + 1) \<and> hist st' = h \<or>
     r = Inl (Rejected ''Failed to sign transaction.'') \<and> length rs < length T \<and> int n \<le> m \<and>
       (\<exists>e. signs W C sign payer (T ! length rs) h (hist st') (Inl e)))"
  using assms
proof (induction W C sign payer m st rule: sendLoop.induct)
  case (1 W C sign payer m st)
  note inv = 1(2) [unfolded send_inv_def]
  show ?case
  proof (cases "sendGuard m st")
    case True
    obtain st1 o1 where a: "sendAttempt W C sign payer st = (st1, o1)" by (cases "sendAttempt W C sign payer st")
    show ?thesis
    proof (cases o1)
      case None
      then show ?thesis
        using 1(1) [OF True a [symmetric] None] sendAttempt_inv [OF 1(2) True 1(3)] a 1(3,4) True
          sendAttempt_measure [of W C sign payer st st1]
        by (auto simp: sendLoop.simps [of W C sign payer m st] sendGuard_def)
    next
      case (Some e)
      have i: "currentIndex st < length (unsignedTxs st)" "int (currentRetries st) \<le> m" using True by (auto simp: sendGuard_def)
      from a 1(3) i(1) obtain e' where "signs W C sign payer (T ! length (transactionReceipts st)) (hist st) (hist st1) (Inl e')"
        "e = Rejected ''Failed to sign transaction.''"
        by (cases rule: sendAttempt_cases) (use Some inv i(1) in auto)
      moreover have "r = Inl e" "st' = st1"
        using 1(4) True a Some by (simp_all add: sendLoop.simps [of W C sign payer m st])
      moreover have "length (transactionReceipts st) < length T" using inv i(1) by auto
      ultimately show ?thesis using inv i(2) by blast
    qed
  next
    case False
    then have st': "sendLoop W C sign payer m st = (if m < int (currentRetries st)
        then (Inl (Rejected ''Reached the maximum number of retries.''), st) else (Inr (transactionReceipts st), st))"
      by (simp add: sendLoop.simps [of W C sign payer m st])
    show ?thesis
    proof (cases "m < int (currentRetries st)")
      case True
      then have "currentRetries st = nat (m + 1)" using 1(5) by linarith
      then show ?thesis using st' True 1(4) inv by auto
    next
      case le: False
      then have "length T \<le> length (transactionReceipts st)"
        using False inv by (auto simp: sendGuard_def)
      then have "length (transactionReceipts st) = length T"
        using inv sends_length le_antisym by blast
      then show ?thesis using st' le 1(4) inv by auto
    qed
  qed
qed

lemma sendAndConfirm_outcome_lemma:
  assumes "keeps_instructions sign" "txs \<noteq> []"
    "sendAndConfirmTransactionsWithRetry W C sign payer txs m h0 = (h', r)"
  shows "\<exists>rs n h. sends W C sign payer (map instructions txs) h0 rs n h \<and>
    (r = Inr rs \<and> length rs = length txs \<and> int n \<le> m \<and> h' = h \<or>
     r = Inl (Rejected ''Reached the maximum number of retries.'') \<and> n = nat (m + 1) \<and> h' = h \<or>
     r = Inl (Rejected ''Failed to sign transaction.'') \<and> length rs < length txs \<and> int n \<le> m \<and>
       (\<exists>e. signs W C sign payer (map instructions txs ! length rs) h h' (Inl e)))"
proof -
  let ?st = "\<lparr>currentRetries = 0, currentIndex = 0, transactionReceipts = [], unsignedTxs = txs, hist = h0\<rparr>"
  obtain st' where st': "sendLoop W C sign payer m ?st = (r, st')" "hist st' = h'"
    using assms(2,3) by (cases "sendLoop W C sign payer m ?st") (simp add: sendAndConfirmTransactionsWithRetry_def)
  have "send_inv W C sign payer (map instructions txs) h0 ?st"
    by (simp add: send_inv_def sends.start)
  from sendLoop_outcome [OF this assms(1) st'(1)] st'(2) show ?thesis by simp
qed

section \<open>A network and a wallet that fail sometimes\<close>

text \<open>Keys are strings. The connection of \<open>demo_connection\<close> does not confirm the first transaction
  that is sent.\<close>

definition demo_web3 :: "string web3" where
  "demo_web3 = \<lparr>publicKeyS = Inr, publicKeyB = (\<lambda>bs. Inr (toHex bs)), keyString = (\<lambda>k. k),
     newTransaction = (\<lambda>ixs. if None \<in> set ixs then Inl (TypeError ''undefined'') else
       Inr \<lparr>recentBlockhash = None, feePayer = None, instructions = map the ixs, signatures = []\<rparr>),
     partialSign = (\<lambda>tx kp. Inr (tx\<lparr>signatures := signatures tx @ [secretKey kp]\<rparr>)),
     serialize = (\<lambda>tx. Inr (concat (signatures tx)))\<rparr>"

lemma demo_web3_laws: "web3_laws demo_web3"
proof -
  have "map (Some \<circ> the) ixs = ixs" if "None \<notin> set ixs" for ixs :: "'a option list"
    using that by (induction ixs) auto
  then show ?thesis by (auto simp: web3_laws_def demo_web3_def split: if_splits)
qed

definition demo_connection :: "string connection" where
  "demo_connection = \<lparr>getAccountInfo = (\<lambda>h k. Inr (Some [0])), getRecentBlockhash = (\<lambda>h. Inr ''hash''),
     sendRawTransaction = (\<lambda>h raw. Inr ''txid''),
     confirmTransaction = (\<lambda>h txid. if ConfirmTransaction txid \<in> set h then Inr ''receipt'' else Inl (Foreign ''timeout''))\<rparr>"

definition demo_wallet :: "string history \<Rightarrow> string transaction \<Rightarrow> string transaction \<times> string transaction result" where
  "demo_wallet h tx = (tx, Inr (tx\<lparr>signatures := signatures tx @ [[7]]\<rparr>))"

definition demo_tx :: "bytes \<Rightarrow> string transaction" where
  "demo_tx d = \<lparr>recentBlockhash = None, feePayer = None,
     instructions = [\<lparr>programId = ''bridge'', ix_data = d, ix_keys = []\<rparr>], signatures = []\<rparr>"

lemma demo_wallet_keeps: "keeps_instructions (walletSigner demo_wallet)"
  by (simp add: keeps_instructions_def walletSigner_def demo_wallet_def)

section \<open>Properties\<close>

text \<open>C3: whatever the network and the wallet do, the loop returns; when it resolves, every
  transaction was prepared, signed, sent and confirmed in the order of the array, one after the
  other, with at most \<open>maxRetries\<close> failed attempts in between; it gives up exactly after more than
  \<open>maxRetries\<close> failed attempts, and a refused signature ends it at once.\<close>

theorem sendAndConfirm_outcome:
  assumes "keeps_instructions sign" "sendAndConfirmTransactionsWithRetry W C sign payer txs m h0 = (h', r)"
  shows "txs = [] \<and> r = Inl (Rejected ''No transactions provided to send.'') \<and> h' = h0 \<or>
    (\<exists>rs n h. sends W C sign payer (map instructions txs) h0 rs n h \<and>
      (r = Inr rs \<and> length rs = length txs \<and> int n \<le> m \<and> h' = h \<or>
       r = Inl (Rejected ''Reached the maximum number of retries.'') \<and> n = nat (m + 1) \<and> h' = h \<or>
       r = Inl (Rejected ''Failed to sign transaction.'') \<and> length rs < length txs \<and> int n \<le> m \<and>
         (\<exists>e. signs W C sign payer (map instructions txs ! length rs) h h' (Inl e))))"
  using sendAndConfirm_outcome_lemma [OF assms(1) _ assms(2)] assms(2)
  by (cases "txs = []") (auto simp: sendAndConfirmTransactionsWithRetry_def)

definition demo_history :: "string history" where
  "demo_history = (let t = \<lambda>d. (demo_tx d)\<lparr>recentBlockhash := Some ''hash'', feePayer := Some ''payer''\<rparr>;
     a = \<lambda>d. [GetRecentBlockhash, SignTransaction (t d), SendRawTransaction [7], ConfirmTransaction ''txid''] in
     a [1] @ a [1] @ a [2])"

lemma demo_run:
  "sendAndConfirmTransactionsWithRetry demo_web3 demo_connection (walletSigner demo_wallet) ''payer''
     [demo_tx [1], demo_tx [2]] 1 [] = (demo_history, Inr [''receipt'', ''receipt''])"
  by (simp add: sendAndConfirmTransactionsWithRetry_def sendLoop.simps sendGuard_def sendAttempt_def prepare_def
      sendConfirm_def retry_def walletSigner_def demo_wallet_def demo_web3_def demo_connection_def demo_tx_def
      demo_history_def)

theorem sendAndConfirm_outcome_witness:
  "\<exists>n h. sends demo_web3 demo_connection (walletSigner demo_wallet) ''payer''
     (map instructions [demo_tx [1], demo_tx [2]]) [] [''receipt'', ''receipt''] n h \<and> n \<le> 1"
  using sendAndConfirm_outcome [OF demo_wallet_keeps demo_run] by force

text \<open>How often the wallet is asked to sign, and the network to send.\<close>

definition count_calls :: "('k call \<Rightarrow> bool) \<Rightarrow> 'k history \<Rightarrow> nat" where
  "count_calls P h = length (filter P h)"

definition isSign :: "'k call \<Rightarrow> bool" where
  "isSign c = (case c of SignTransaction _ \<Rightarrow> True | _ \<Rightarrow> False)"

definition isSend :: "'k call \<Rightarrow> bool" where
  "isSend c = (case c of SendRawTransaction _ \<Rightarrow> True | _ \<Rightarrow> False)"

lemmas count_defs = count_calls_def isSign_def isSend_def

definition signs_once :: "'k signer \<Rightarrow> bool" where
  "signs_once sign \<longleftrightarrow> (\<forall>h tx. count_calls isSign (fst (sign h tx)) \<le> Suc (count_calls isSign h) \<and>
     count_calls isSend (fst (sign h tx)) = count_calls isSend h)"

lemma count_calls_append [simp]: "count_calls P (h @ h') = count_calls P h + count_calls P h'"
  by (simp add: count_calls_def)

lemma walletSigner_once: "signs_once (walletSigner wallet)"
  by (simp add: signs_once_def walletSigner_def count_defs)

lemma sendConfirm_counts:
  "sendConfirm W C h s = (h', r) \<Longrightarrow> count_calls isSign h' = count_calls isSign h \<and>
     count_calls isSend h' \<le> Suc (count_calls isSend h)"
  by (auto simp: sendConfirm_def Let_def count_defs split: sum.splits)

lemma signs_counts:
  "signs_once sign \<Longrightarrow> signs W C sign payer ix h h1 r \<Longrightarrow>
   count_calls isSign h1 \<le> Suc (count_calls isSign h) \<and> count_calls isSend h1 = count_calls isSend h"
  by (clarsimp simp: signs_def signs_once_def)
    (metis (no_types, lifting) add.right_neutral call.simps count_calls_append count_defs(1) count_defs(2)
      count_defs(3) filter.simps fst_conv length_0_conv)

lemma sends_counts:
  assumes "sends W C sign payer T h0 rs n h" "signs_once sign"
  shows "count_calls isSign h \<le> count_calls isSign h0 + length rs + n \<and>
    count_calls isSend h \<le> count_calls isSend h0 + length rs + n"
  using assms(1)
proof induction
  case (not_prepared rs n h)
  then show ?case by (simp add: count_defs)
next
  case (not_confirmed rs n h h1 s h2 e)
  then show ?case using signs_counts [OF assms(2)] sendConfirm_counts by fastforce
next
  case (confirmed rs n h h1 s h2 r)
  then show ?case using signs_counts [OF assms(2)] sendConfirm_counts by fastforce
qed simp

text \<open>a wallet is asked to sign, and the network to send, at most once per transaction and once
  more per allowed retry, and once more for the attempt that exceeds the allowance.\<close>

theorem sendAndConfirm_bounded:
  assumes keeps: "keeps_instructions sign" and once: "signs_once sign"
    and run: "sendAndConfirmTransactionsWithRetry W C sign payer txs m h0 = (h', r)"
  shows "count_calls isSign h' \<le> count_calls isSign h0 + length txs + nat (m + 1) \<and>
    count_calls isSend h' \<le> count_calls isSend h0 + length txs + nat (m + 1)"
proof (cases "txs = []")
  case True
  then show ?thesis using run by (simp add: sendAndConfirmTransactionsWithRetry_def)
next
  case False
  obtain rs n h where s: "sends W C sign payer (map instructions txs) h0 rs n h" "n \<le> nat (m + 1)"
    "h' = h \<or> length rs < length txs \<and> int n \<le> m \<and>
       (\<exists>e. signs W C sign payer (map instructions txs ! length rs) h h' (Inl e))"
    using sendAndConfirm_outcome_lemma [OF keeps False run] by force
  have "length rs \<le> length txs" using sends_length [OF s(1)] by simp
  moreover note sends_counts [OF s(1) once]
  moreover have "n < nat (m + 1) \<and> count_calls isSign h' \<le> Suc (count_calls isSign h) \<and>
      count_calls isSend h' = count_calls isSend h" if "h' \<noteq> h"
    using that s(3) signs_counts [OF once] by fastforce
  ultimately show ?thesis using s(2) by fastforce
qed

theorem sendAndConfirm_bounded_witness:
  "count_calls isSend demo_history \<le> 2 + nat (1 + 1) \<and> count_calls isSend demo_history = 3"
  using sendAndConfirm_bounded [OF demo_wallet_keeps walletSigner_once demo_run]
  by (simp add: demo_history_def count_defs)

end
