(* ===== verification/SolanaPost.thy ===== *)
theory SolanaPost
  imports SolanaSend Addresses
begin

text \<open>
  Posting a VAA to Solana (\<open>sdk/js/src/solana/postVaa.ts\<close>, \<open>solana/getBridgeFeeIx.ts\<close>): reading the
  bridge state, the instructions that verify the signatures, the transactions they are batched
  into, and the final transaction. The key pair that \<open>Keypair.generate()\<close> returns is an argument.
\<close>

section \<open>Reading the bridge state\<close>

definition getBridgeState :: "'k web3 \<Rightarrow> 'k connection \<Rightarrow> 'g core_wasm \<Rightarrow> string \<Rightarrow> 'k history \<Rightarrow>
    'k history \<times> bridge_state result" where
  "getBridgeState W C K bridge_id h =
     bindH (h, bindR (state_address K bridge_id) (publicKeyB W)) (\<lambda>h bridge_state.
     bindH (h @ [GetAccountInfo bridge_state], getAccountInfo C h bridge_state) (\<lambda>h acc.
     case acc of
       None \<Rightarrow> (h, Inl (Error ''bridge state not found''))
     | Some data \<Rightarrow> (h, parse_state K data)))"

text \<open>\<open>SystemProgram.transfer\<close> is a parameter of \<open>getBridgeFeeIx\<close>.\<close>

definition getBridgeFeeIx :: "'k web3 \<Rightarrow> 'k connection \<Rightarrow> 'g core_wasm \<Rightarrow>
    ('k \<Rightarrow> 'k \<Rightarrow> nat \<Rightarrow> 'k instruction result) \<Rightarrow> string \<Rightarrow> string \<Rightarrow> 'k history \<Rightarrow>
    'k history \<times> 'k instruction result" where
  "getBridgeFeeIx W C K systemTransfer bridgeAddress payerAddress h =
     bindH (h, fee_collector_address K bridgeAddress) (\<lambda>h feeAccount.
     bindH (h, bindR (state_address K bridgeAddress) (publicKeyB W)) (\<lambda>h bridgeStatePK.
     bindH (h @ [GetAccountInfo bridgeStatePK], getAccountInfo C h bridgeStatePK) (\<lambda>h info.
     case info of
       None \<Rightarrow> (h, Inl (Error ''bridge state not found''))
     | Some data \<Rightarrow>
         (h, bindR (parse_state K data) (\<lambda>bridgeState.
             bindR (publicKeyS W payerAddress) (\<lambda>fromPubkey.
             bindR (publicKeyB W feeAccount) (\<lambda>toPubkey.
             systemTransfer fromPubkey toPubkey (fee (config bridgeState)))))))))"

section \<open>Instructions\<close>

text \<open>The loop pushes the first two instructions of each group; one that is not there is pushed as
  undefined.\<close>

fun pushVerifyIxs :: "'k web3 \<Rightarrow> rust_ix list list \<Rightarrow> 'k instruction option list \<Rightarrow>
    'k instruction option list result" where
  "pushVerifyIxs W [] output = Inr output"
| "pushVerifyIxs W (tx # txs) output =
     bindR (sequenceR (map (ixFromRust W) tx)) (\<lambda>ixs.
     pushVerifyIxs W txs (output @ [js_index ixs 0, js_index ixs 1]))"

definition createVerifySignaturesInstructions :: "'k web3 \<Rightarrow> 'k connection \<Rightarrow> 'g core_wasm \<Rightarrow> string \<Rightarrow> string \<Rightarrow>
    bytes \<Rightarrow> 'k keypair \<Rightarrow> 'k history \<Rightarrow> 'k history \<times> 'k instruction option list result" where
  "createVerifySignaturesInstructions W C K bridge_id payer vaa signature_set h =
     bindH (getBridgeState W C K bridge_id h) (\<lambda>h bridge_state.
     bindH (h, bindR (guardian_set_address K bridge_id (guardian_set_index bridge_state)) (publicKeyB W))
       (\<lambda>h guardian_addr.
     bindH (h @ [GetAccountInfo guardian_addr], getAccountInfo C h guardian_addr) (\<lambda>h acc.
     case acc of
       None \<Rightarrow> (h, Inr [])
     | Some data \<Rightarrow>
         (h, bindR (parse_guardian_set K data) (\<lambda>guardian_data.
             bindR (verify_signatures_ix K bridge_id payer (guardian_set_index bridge_state) guardian_data
               (keyString W (publicKey signature_set)) vaa) (\<lambda>txs.
             pushVerifyIxs W txs []))))))"

definition createPostVaaInstruction :: "'k web3 \<Rightarrow> 'g core_wasm \<Rightarrow> string \<Rightarrow> string \<Rightarrow> bytes \<Rightarrow> 'k keypair \<Rightarrow>
    'k instruction result" where
  "createPostVaaInstruction W K bridge_id payer vaa signatureSetKeypair =
     bindR (post_vaa_ix K bridge_id payer (keyString W (publicKey signatureSetKeypair)) vaa) (ixFromRust W)"

section \<open>Posting\<close>

text \<open>A group of one instruction or of two becomes a transaction.\<close>

definition batchTransaction :: "'k web3 \<Rightarrow> 'k instruction option list \<Rightarrow> 'k transaction result" where
  "batchTransaction W chunk =
     (if length chunk = 1 then newTransaction W [Option.bind (js_index chunk 0) (\<lambda>x. x)]
      else newTransaction W [Option.bind (js_index chunk 0) (\<lambda>x. x), Option.bind (js_index chunk 1) (\<lambda>x. x)])"

definition partialSignWrapper :: "'k web3 \<Rightarrow> 'k keypair \<Rightarrow> 'k signer \<Rightarrow> 'k signer" where
  "partialSignWrapper W signature_set signTransaction h transaction =
     (case partialSign W transaction signature_set of
        Inl e \<Rightarrow> (h, transaction, Inl e)
      | Inr tx \<Rightarrow> signTransaction h tx)"

text \<open>The test for a falsy instruction never succeeds: \<open>createPostVaaInstruction\<close> returns an object or
  throws.\<close>

definition postVaaWithRetry :: "'k web3 \<Rightarrow> 'k connection \<Rightarrow> 'g core_wasm \<Rightarrow> 'k signer \<Rightarrow> string \<Rightarrow> string \<Rightarrow> bytes \<Rightarrow>
    int \<Rightarrow> 'k keypair \<Rightarrow> 'k history \<Rightarrow> 'k history \<times> unit result" where
  "postVaaWithRetry W C K signTransaction bridge_id payer vaa maxRetries signature_set h =
     bindH (createVerifySignaturesInstructions W C K bridge_id payer vaa signature_set h) (\<lambda>h instrs.
     bindH (h, createPostVaaInstruction W K bridge_id payer vaa signature_set) (\<lambda>h finalInstruction.
     bindH (h, bindR (chunks instrs 2) (\<lambda>cs. sequenceR (map (batchTransaction W) cs))) (\<lambda>h unsignedTransactions.
     bindH (h, newTransaction W [Some finalInstruction]) (\<lambda>h finalTransaction.
     bindH (sendAndConfirmTransactionsWithRetry W C (partialSignWrapper W signature_set signTransaction) payer
       unsignedTransactions maxRetries h) (\<lambda>h _.
     bindH (sendAndConfirmTransactionsWithRetry W C signTransaction payer [finalTransaction] maxRetries h) (\<lambda>h _.
     (h, Inr ())))))))"

text \<open>The older \<open>postVaa\<close> sends each transaction once. Its loop body and its end prepare, sign, send
  and confirm a transaction in the same way.\<close>

definition sendOnce :: "'k web3 \<Rightarrow> 'k connection \<Rightarrow> 'k signer \<Rightarrow> string \<Rightarrow> 'k transaction \<Rightarrow> 'k history \<Rightarrow>
    'k history \<times> unit result" where
  "sendOnce W C sign payer tx h =
     (case prepare W C payer h tx of
        (h, tx, Inl e) \<Rightarrow> (h, Inl e)
      | (h, tx, Inr _) \<Rightarrow>
          (case sign h tx of
             (h, tx, Inl e) \<Rightarrow> (h, Inl e)
           | (h, tx, Inr stx) \<Rightarrow> bindH (sendConfirm W C h stx) (\<lambda>h _. (h, Inr ()))))"

fun postVerifyTxs :: "'k web3 \<Rightarrow> 'k connection \<Rightarrow> 'k signer \<Rightarrow> string \<Rightarrow> 'k keypair \<Rightarrow> rust_ix list list \<Rightarrow>
    'k history \<Rightarrow> 'k history \<times> unit result" where
  "postVerifyTxs W C signTransaction payer signature_set [] h = (h, Inr ())"
| "postVerifyTxs W C signTransaction payer signature_set (tx # txs) h =
     bindH (h, sequenceR (map (ixFromRust W) tx)) (\<lambda>h ixs.
     bindH (h, newTransaction W [js_index ixs 0, js_index ixs 1]) (\<lambda>h transaction.
     bindH (sendOnce W C (partialSignWrapper W signature_set signTransaction) payer transaction h) (\<lambda>h _.
     postVerifyTxs W C signTransaction payer signature_set txs h)))"

definition postVaa :: "'k web3 \<Rightarrow> 'k connection \<Rightarrow> 'g core_wasm \<Rightarrow> 'k signer \<Rightarrow> string \<Rightarrow> string \<Rightarrow> bytes \<Rightarrow>
    'k keypair \<Rightarrow> 'k history \<Rightarrow> 'k history \<times> unit result" where
  "postVaa W C K signTransaction bridge_id payer vaa signature_set h =
     bindH (getBridgeState W C K bridge_id h) (\<lambda>h bridge_state.
     bindH (h, bindR (guardian_set_address K bridge_id (guardian_set_index bridge_state)) (publicKeyB W))
       (\<lambda>h guardian_addr.
     bindH (h @ [GetAccountInfo guardian_addr], getAccountInfo C h guardian_addr) (\<lambda>h acc.
     case acc of
       None \<Rightarrow> (h, Inr ())
     | Some data \<Rightarrow>
         bindH (h, bindR (parse_guardian_set K data) (\<lambda>guardian_data.
             verify_signatures_ix K bridge_id payer (guardian_set_index bridge_state) guardian_data
               (keyString W (publicKey signature_set)) vaa)) (\<lambda>h txs.
         bindH (postVerifyTxs W C signTransaction payer signature_set txs h) (\<lambda>h _.
         bindH (h, bindR (post_vaa_ix K bridge_id payer (keyString W (publicKey signature_set)) vaa)
           (ixFromRust W)) (\<lambda>h ix.
         bindH (h, newTransaction W [Some ix]) (\<lambda>h transaction.
         sendOnce W C signTransaction payer transaction h)))))))"

section \<open>Without retries\<close>

text \<open>Sending each transaction once, the first error ending it.\<close>

fun sendEach :: "'k web3 \<Rightarrow> 'k connection \<Rightarrow> 'k signer \<Rightarrow> string \<Rightarrow> 'k transaction list \<Rightarrow> 'k history \<Rightarrow>
    'k history \<times> unit result" where
  "sendEach W C sign payer [] h = (h, Inr ())"
| "sendEach W C sign payer (tx # txs) h =
     bindH (sendOnce W C sign payer tx h) (\<lambda>h _. sendEach W C sign payer txs h)"

lemma sendAttempt_sendOnce:
  assumes "sendAttempt W C sign payer st = (st', None)" "currentRetries st' = currentRetries st"
  shows "sendOnce W C sign payer (unsignedTxs st ! currentIndex st) (hist st) = (hist st', Inr ()) \<and>
    currentIndex st' = Suc (currentIndex st) \<and>
    drop (Suc (currentIndex st)) (unsignedTxs st') = drop (Suc (currentIndex st)) (unsignedTxs st)"
  using assms
  by (auto simp: sendAttempt_def sendOnce_def retry_def Let_def split: prod.splits sum.splits)

lemma sendLoop_retries_le:
  assumes "sendLoop W C sign payer m st = (Inr rs, st')"
  shows "int (currentRetries st) \<le> m"
  using assms
proof (induction W C sign payer m st rule: sendLoop.induct)
  case (1 W C sign payer m st)
  then show ?case
    by (cases "sendGuard m st") (auto simp: sendLoop.simps [of W C sign payer m st] sendGuard_def split: if_splits)
qed

lemma sendLoop_sendEach:
  assumes "sendLoop W C sign payer m st = (Inr rs, st')" "m = 0"
  shows "sendEach W C sign payer (drop (currentIndex st) (unsignedTxs st)) (hist st) = (hist st', Inr ())"
  using assms
proof (induction W C sign payer m st rule: sendLoop.induct)
  case (1 W C sign payer m st)
  have r0: "currentRetries st = 0" using sendLoop_retries_le [OF 1(2)] 1(3) by simp
  show ?case
  proof (cases "sendGuard m st")
    case True
    obtain st1 o1 where a: "sendAttempt W C sign payer st = (st1, o1)" by (cases "sendAttempt W C sign payer st")
    then have o1: "o1 = None" and run: "sendLoop W C sign payer m st1 = (Inr rs, st')"
      using 1(2) True by (auto simp: sendLoop.simps [of W C sign payer m st] split: option.splits)
    have "currentRetries st1 = currentRetries st"
      using sendLoop_retries_le [OF run] 1(3) r0 by simp
    note once = sendAttempt_sendOnce [OF a [unfolded o1] this]
    have "drop (currentIndex st) (unsignedTxs st) =
        unsignedTxs st ! currentIndex st # drop (Suc (currentIndex st)) (unsignedTxs st)"
      using True by (simp add: sendGuard_def Cons_nth_drop_Suc)
    then show ?thesis using 1(1) [OF True a [symmetric] o1 run 1(3)] once by simp
  next
    case False
    then have "st' = st" using r0 1(2,3) by (simp add: sendLoop.simps [of W C sign payer 0 st])
    then show ?thesis using False r0 1(3) by (simp add: sendGuard_def)
  qed
qed

lemma sendAndConfirm_sendEach:
  assumes "sendAndConfirmTransactionsWithRetry W C sign payer txs 0 h = (h', Inr rs)"
  shows "sendEach W C sign payer txs h = (h', Inr ())"
proof -
  obtain st' where "sendLoop W C sign payer 0 \<lparr>currentRetries = 0, currentIndex = 0, transactionReceipts = [],
      unsignedTxs = txs, hist = h\<rparr> = (Inr rs, st')" "hist st' = h'"
    using assms by (auto simp: sendAndConfirmTransactionsWithRetry_def split: if_splits prod.splits)
  then show ?thesis using sendLoop_sendEach by fastforce
qed

section \<open>Batches\<close>

lemma js_slice_pairs:
  "(\<And>p. p \<in> set ps \<Longrightarrow> length p = k) \<Longrightarrow> i < length ps \<Longrightarrow>
   js_slice (concat ps) (i * k) ((i + 1) * k) = ps ! i"
proof (induction ps arbitrary: i)
  case (Cons p ps)
  then show ?case
    using js_slice_all [of p] by (cases i) (auto simp: js_slice_append_right algebra_simps)
qed simp

lemma chunks_concat:
  assumes "\<And>p. p \<in> set ps \<Longrightarrow> length p = k" "0 < k"
  shows "chunks (concat ps) k = Inr ps"
proof -
  have "length (concat ps) = length ps * k" using assms(1) by (induction ps) auto
  then have "(length (concat ps) + k - 1) div k = length ps"
    using assms(2) by (intro div_nat_eqI) (simp_all add: mult.commute)
  then have "chunks (concat ps) k = Inr (map (\<lambda>i. js_slice (concat ps) (i * k) ((i + 1) * k)) [0..<length ps])"
    using assms(2) by (simp add: chunks_def ceil_div)
  also have "\<dots> = Inr (map ((!) ps) [0..<length ps])"
    using js_slice_pairs [of ps k] assms(1) by simp
  finally show ?thesis by (simp add: map_nth)
qed

lemma pushVerifyIxs_pairs:
  "pushVerifyIxs W txs out = Inr out' \<Longrightarrow>
   \<exists>groups. list_all2 (\<lambda>tx ixs. sequenceR (map (ixFromRust W) tx) = Inr ixs) txs groups \<and>
     out' = out @ concat (map (\<lambda>ixs. [js_index ixs 0, js_index ixs 1]) groups)"
proof (induction txs arbitrary: out)
  case (Cons tx txs)
  then obtain ixs where ixs: "sequenceR (map (ixFromRust W) tx) = Inr ixs"
    "pushVerifyIxs W txs (out @ [js_index ixs 0, js_index ixs 1]) = Inr out'" by auto
  from Cons.IH [OF ixs(2)] obtain groups where
    "list_all2 (\<lambda>tx ixs. sequenceR (map (ixFromRust W) tx) = Inr ixs) txs groups"
    "out' = (out @ [js_index ixs 0, js_index ixs 1]) @ concat (map (\<lambda>ixs. [js_index ixs 0, js_index ixs 1]) groups)"
    by blast
  with ixs(1) show ?case by (intro exI [of _ "ixs # groups"]) simp
qed simp

lemma batchTransaction_pair [simp]: "batchTransaction W [a, b] = newTransaction W [a, b]"
  by (simp add: batchTransaction_def)

lemma postVerifyTxs_sendEach:
  assumes "list_all2 (\<lambda>tx ixs. sequenceR (map (ixFromRust W) tx) = Inr ixs) txs groups"
    and "map (\<lambda>ixs. newTransaction W [js_index ixs 0, js_index ixs 1]) groups = map Inr ts"
  shows "postVerifyTxs W C sign payer ss txs h = sendEach W C (partialSignWrapper W ss sign) payer ts h"
  using assms
proof (induction txs arbitrary: groups ts h)
  case Nil
  then show ?case by simp
next
  case (Cons tx txs)
  then obtain ixs gs t ts' where e: "groups = ixs # gs" "ts = t # ts'" by (auto simp: list_all2_Cons1)
  have "postVerifyTxs W C sign payer ss txs h = sendEach W C (partialSignWrapper W ss sign) payer ts' h" for h
    using Cons.prems e by (intro Cons.IH [of gs]) simp_all
  with Cons.prems e show ?case by simp
qed

lemma verify_batches:
  assumes "pushVerifyIxs W txs [] = Inr out"
    and "bindR (chunks out 2) (\<lambda>cs. sequenceR (map (batchTransaction W) cs)) = Inr ts"
  shows "postVerifyTxs W C sign payer ss txs h = sendEach W C (partialSignWrapper W ss sign) payer ts h"
proof -
  obtain groups where g: "list_all2 (\<lambda>tx ixs. sequenceR (map (ixFromRust W) tx) = Inr ixs) txs groups"
    and out: "out = concat (map (\<lambda>ixs. [js_index ixs 0, js_index ixs 1]) groups)"
    using pushVerifyIxs_pairs [OF assms(1)] by auto
  have "chunks out 2 = Inr (map (\<lambda>ixs. [js_index ixs 0, js_index ixs 1]) groups)"
    unfolding out by (rule chunks_concat) auto
  then have "map (\<lambda>ixs. newTransaction W [js_index ixs 0, js_index ixs 1]) groups = map Inr ts"
    using assms(2) by (simp add: sequenceR_eq_Inr comp_def)
  with g show ?thesis by (rule postVerifyTxs_sendEach)
qed

lemma partialSignWrapper_keeps:
  "web3_laws W \<Longrightarrow> keeps_instructions sign \<Longrightarrow> keeps_instructions (partialSignWrapper W ss sign)"
  by (auto simp: keeps_instructions_def partialSignWrapper_def web3_laws_def split: sum.splits)

text \<open>The steps of a call that resolves.\<close>

lemma postVaaWithRetry_steps:
  assumes "postVaaWithRetry W C K sign bid payer vaa m ss h = (h', Inr ())"
  obtains h1 out ix ts t h2 rs1 rs2 where
    "createVerifySignaturesInstructions W C K bid payer vaa ss h = (h1, Inr out)"
    "createPostVaaInstruction W K bid payer vaa ss = Inr ix"
    "bindR (chunks out 2) (\<lambda>cs. sequenceR (map (batchTransaction W) cs)) = Inr ts"
    "newTransaction W [Some ix] = Inr t"
    "sendAndConfirmTransactionsWithRetry W C (partialSignWrapper W ss sign) payer ts m h1 = (h2, Inr rs1)"
    "sendAndConfirmTransactionsWithRetry W C sign payer [t] m h2 = (h', Inr rs2)"
  using assms unfolding postVaaWithRetry_def
  by (auto simp: bindH_eq_Inr simp del: bindR_eq_Inr)

lemma createVerify_steps:
  assumes "createVerifySignaturesInstructions W C K bid payer vaa ss h = (h1, Inr out)"
  obtains h0 st g where "getBridgeState W C K bid h = (h0, Inr st)"
    "bindR (guardian_set_address K bid (guardian_set_index st)) (publicKeyB W) = Inr g"
    "h1 = h0 @ [GetAccountInfo g]" "getAccountInfo C h0 g = Inr None" "out = []"
  | h0 st g d gd txs where "getBridgeState W C K bid h = (h0, Inr st)"
    "bindR (guardian_set_address K bid (guardian_set_index st)) (publicKeyB W) = Inr g"
    "h1 = h0 @ [GetAccountInfo g]" "getAccountInfo C h0 g = Inr (Some d)"
    "parse_guardian_set K d = Inr gd"
    "verify_signatures_ix K bid payer (guardian_set_index st) gd (keyString W (publicKey ss)) vaa = Inr txs"
    "pushVerifyIxs W txs [] = Inr out"
proof -
  obtain h0 st g acc where s: "getBridgeState W C K bid h = (h0, Inr st)"
    "bindR (guardian_set_address K bid (guardian_set_index st)) (publicKeyB W) = Inr g"
    "getAccountInfo C h0 g = Inr acc"
    and r: "(case acc of
       None \<Rightarrow> (h0 @ [GetAccountInfo g], Inr [])
     | Some data \<Rightarrow>
         (h0 @ [GetAccountInfo g], bindR (parse_guardian_set K data) (\<lambda>guardian_data.
             bindR (verify_signatures_ix K bid payer (guardian_set_index st) guardian_data
               (keyString W (publicKey ss)) vaa) (\<lambda>txs. pushVerifyIxs W txs [])))) = (h1, Inr out)"
    using assms unfolding createVerifySignaturesInstructions_def
    by (auto simp: bindH_eq_Inr simp del: bindR_eq_Inr)
  show thesis
  proof (cases acc)
    case None
    then show thesis using s r that(1) [of h0 st g] by simp
  next
    case (Some d)
    then obtain gd txs where "parse_guardian_set K d = Inr gd"
      "verify_signatures_ix K bid payer (guardian_set_index st) gd (keyString W (publicKey ss)) vaa = Inr txs"
      "pushVerifyIxs W txs [] = Inr out" "h1 = h0 @ [GetAccountInfo g]"
      using r by auto
    then show thesis using s Some that(2) [of h0 st g d gd txs] by simp
  qed
qed

section \<open>A run\<close>

definition demo_ix :: "byte \<Rightarrow> rust_ix" where
  "demo_ix b = \<lparr>program_id = [1], accounts = [\<lparr>meta_pubkey = [b], is_signer = True, is_writable = False\<rparr>],
     rust_data = [b]\<rparr>"

definition demo_core :: "unit core_wasm" where
  "demo_core = \<lparr>state_address = (\<lambda>b. Inr [1]), fee_collector_address = (\<lambda>b. Inr [3]),
     guardian_set_address = (\<lambda>b n. Inr [2]),
     parse_state = (\<lambda>d. Inr \<lparr>guardian_set_index = 0, last_lamports = 0,
       config = \<lparr>guardian_set_expiration_time = 86400, fee = 100\<rparr>\<rparr>),
     parse_guardian_set = (\<lambda>d. Inr ()),
     verify_signatures_ix = (\<lambda>b p i g s v. Inr [[demo_ix 4, demo_ix 5]]),
     post_vaa_ix = (\<lambda>b p s v. Inr (demo_ix 6))\<rparr>"

definition demo_signature_set :: "string keypair" where
  "demo_signature_set = \<lparr>publicKey = ''set'', secretKey = [9]\<rparr>"

definition good_connection :: "string connection" where
  "good_connection = demo_connection\<lparr>confirmTransaction := (\<lambda>h txid. Inr ''receipt'')\<rparr>"

lemma chunks_pair: "chunks [a, b] 2 = Inr [[a, b]]"
  using chunks_concat [of "[[a, b]]" 2] by simp

lemma demo_sels:
  "publicKeyS demo_web3 = Inr" "publicKeyB demo_web3 = (\<lambda>bs. Inr (toHex bs))" "keyString demo_web3 = (\<lambda>k. k)"
  "newTransaction demo_web3 [Some a] =
     Inr \<lparr>recentBlockhash = None, feePayer = None, instructions = [a], signatures = []\<rparr>"
  "newTransaction demo_web3 [Some a, Some b] =
     Inr \<lparr>recentBlockhash = None, feePayer = None, instructions = [a, b], signatures = []\<rparr>"
  "partialSign demo_web3 tx kp = Inr (tx\<lparr>signatures := signatures tx @ [secretKey kp]\<rparr>)"
  "serialize demo_web3 tx = Inr (concat (signatures tx))"
  "getAccountInfo good_connection h k = Inr (Some [0])" "getRecentBlockhash good_connection h = Inr ''hash''"
  "sendRawTransaction good_connection h raw = Inr ''txid''" "confirmTransaction good_connection h t = Inr ''receipt''"
  "demo_wallet h tx = (tx, Inr (tx\<lparr>signatures := signatures tx @ [[7]]\<rparr>))"
  "ixFromRust demo_web3 (demo_ix c) = Inr \<lparr>programId = toHex [1], ix_data = [c],
     ix_keys = [\<lparr>pubkey = toHex [c], isSigner = True, isWritable = False\<rparr>]\<rparr>"
  by (simp_all add: demo_web3_def good_connection_def demo_connection_def demo_wallet_def ixFromRust_def
      accountMetaFromRust_def demo_ix_def del: toHex_simps)

lemma demo_verify:
  "\<exists>a b. createVerifySignaturesInstructions demo_web3 good_connection demo_core ''bridge'' ''payer'' [1]
     demo_signature_set [] = ([GetAccountInfo (toHex [1]), GetAccountInfo (toHex [2])], Inr [Some a, Some b])"
  by (simp add: createVerifySignaturesInstructions_def getBridgeState_def demo_core_def demo_sels del: toHex_simps)

lemma demo_send:
  assumes "\<And>h tx. \<exists>h1 tx1 s. sign h tx = (h1, tx1, Inr s)"
  shows "\<exists>h' r. sendAndConfirmTransactionsWithRetry demo_web3 good_connection sign ''payer'' [t] 0 h = (h', Inr r)"
proof -
  obtain h1 t1 s where "sign (h @ [GetRecentBlockhash]) (t\<lparr>recentBlockhash := Some ''hash'', feePayer := Some ''payer''\<rparr>)
      = (h1, t1, Inr s)" using assms by blast
  then show ?thesis
    by (simp add: sendAndConfirmTransactionsWithRetry_def sendLoop.simps sendGuard_def sendAttempt_def prepare_def
        sendConfirm_def demo_sels)
qed

lemma demo_post:
  "\<exists>h. postVaaWithRetry demo_web3 good_connection demo_core (walletSigner demo_wallet) ''bridge'' ''payer'' [1] 0
     demo_signature_set [] = (h, Inr ())"
proof -
  let ?w = "walletSigner demo_wallet"
  have w: "\<exists>h1 tx1 s. ?w h tx = (h1, tx1, Inr s)"
    "\<exists>h1 tx1 s. partialSignWrapper demo_web3 demo_signature_set ?w h tx = (h1, tx1, Inr s)" for h tx
    by (simp_all add: walletSigner_def demo_sels partialSignWrapper_def)
  obtain a b h0 where v: "createVerifySignaturesInstructions demo_web3 good_connection demo_core ''bridge'' ''payer'' [1]
     demo_signature_set [] = (h0, Inr [Some a, Some b])"
    using demo_verify by blast
  obtain ix where ix: "createPostVaaInstruction demo_web3 demo_core ''bridge'' ''payer'' [1] demo_signature_set = Inr ix"
    by (simp add: createPostVaaInstruction_def demo_core_def demo_sels)
  obtain h1 r1 where s1: "sendAndConfirmTransactionsWithRetry demo_web3 good_connection
      (partialSignWrapper demo_web3 demo_signature_set ?w) ''payer''
      [\<lparr>recentBlockhash = None, feePayer = None, instructions = [a, b], signatures = []\<rparr>] 0 h0 = (h1, Inr r1)"
    using demo_send w(2) by blast
  obtain h2 r2 where s2: "sendAndConfirmTransactionsWithRetry demo_web3 good_connection ?w ''payer''
      [\<lparr>recentBlockhash = None, feePayer = None, instructions = [ix], signatures = []\<rparr>] 0 h1 = (h2, Inr r2)"
    using demo_send w(1) by blast
  show ?thesis by (simp add: postVaaWithRetry_def v ix chunks_pair demo_sels s1 s2)
qed

lemma createPost_eq:
  "createPostVaaInstruction W K bid payer vaa ss =
     bindR (post_vaa_ix K bid payer (keyString W (publicKey ss)) vaa) (ixFromRust W)"
  by (simp add: createPostVaaInstruction_def)

lemma sendEach_single: "sendEach W C sign payer [t] h = (h', Inr ()) \<longleftrightarrow> sendOnce W C sign payer t h = (h', Inr ())"
  by (auto simp: bindH_eq_Inr)

lemma chunks_Nil [simp]: "chunks [] 2 = Inr []"
  using chunks_concat [of "[]" 2] by simp

lemma newTransaction_ixs: "web3_laws W \<Longrightarrow> newTransaction W ixs = Inr t \<Longrightarrow> map Some (instructions t) = ixs"
  by (auto simp: web3_laws_def)

lemma batches_cover:
  assumes "createVerifySignaturesInstructions W C K bid payer vaa ss h = (h1, Inr out)"
    and ts: "bindR (chunks out 2) (\<lambda>cs. sequenceR (map (batchTransaction W) cs)) = Inr ts" and W: "web3_laws W"
  shows "map Some (concat (map instructions ts)) = out \<and> (\<forall>i\<in>set (map instructions ts). length i \<le> 2)"
proof -
  obtain ps where ps: "out = concat ps" "\<And>p. p \<in> set ps \<Longrightarrow> \<exists>a b. p = [a, b]"
    using assms(1)
  proof (cases rule: createVerify_steps)
    case 1
    then show ?thesis using that [of "[]"] by simp
  next
    case (2 h0 st g d gd txs)
    from pushVerifyIxs_pairs [OF 2(7)] show ?thesis using that by fastforce
  qed
  have "chunks out 2 = Inr ps" unfolding ps(1) using ps(2) by (intro chunks_concat) fastforce+
  then have "map (batchTransaction W) ps = map Inr ts" using ts by (simp add: sequenceR_eq_Inr)
  with ps(2) have "map Some (concat (map instructions ts)) = concat ps \<and> (\<forall>i\<in>set (map instructions ts). length i \<le> 2)"
  proof (induction ps arbitrary: ts)
    case (Cons p ps)
    then obtain a b t ts' where e: "p = [a, b]" "ts = t # ts'" "newTransaction W [a, b] = Inr t"
      by (cases ts) (force+)
    note i = newTransaction_ixs [OF W e(3)]
    then have "length (instructions t) = 2" by (metis length_map length_Cons list.size(3) numeral_2_eq_2)
    moreover have "map Some (concat (map instructions ts')) = concat ps \<and> (\<forall>i\<in>set (map instructions ts'). length i \<le> 2)"
      using Cons.prems e by (intro Cons.IH) auto
    ultimately show ?case using i e by simp
  qed simp
  then show ?thesis using ps(1) by simp
qed

section \<open>Properties\<close>

text \<open>the comment on \<open>postVaa\<close> says that it is equivalent to \<open>postVaaWithRetry\<close> with no retries.
  Whenever the latter resolves, the former does, and makes the same calls in the same order with the
  same transactions.\<close>

theorem postVaa_as_without_retries:
  assumes "postVaaWithRetry W C K sign bid payer vaa 0 ss h = (h', Inr ())"
  shows "postVaa W C K sign bid payer vaa ss h = (h', Inr ())"
proof -
  obtain h1 out ix ts t h2 rs1 rs2 where
    v: "createVerifySignaturesInstructions W C K bid payer vaa ss h = (h1, Inr out)" and
    ix: "createPostVaaInstruction W K bid payer vaa ss = Inr ix" and
    ts: "bindR (chunks out 2) (\<lambda>cs. sequenceR (map (batchTransaction W) cs)) = Inr ts" and
    t: "newTransaction W [Some ix] = Inr t" and
    s1: "sendAndConfirmTransactionsWithRetry W C (partialSignWrapper W ss sign) payer ts 0 h1 = (h2, Inr rs1)" and
    s2: "sendAndConfirmTransactionsWithRetry W C sign payer [t] 0 h2 = (h', Inr rs2)"
    using assms by (rule postVaaWithRetry_steps)
  note e1 = sendAndConfirm_sendEach [OF s1]
  note e2 = sendAndConfirm_sendEach [OF s2, unfolded sendEach_single]
  from v show ?thesis
  proof (cases rule: createVerify_steps)
    case (1 h0 st g)
    then have "ts = []" using ts by simp
    then show ?thesis using s1 by (simp add: sendAndConfirmTransactionsWithRetry_def)
  next
    case (2 h0 st g d gd txs)
    then show ?thesis
      using e1 e2 ix t verify_batches [OF 2(7) ts]
      by (simp add: postVaa_def createPost_eq del: bindR_eq_Inr)
  qed
qed

theorem postVaa_as_without_retries_witness:
  "\<exists>h. postVaa demo_web3 good_connection demo_core (walletSigner demo_wallet) ''bridge'' ''payer'' [1]
     demo_signature_set [] = (h, Inr ())"
  using demo_post postVaa_as_without_retries by blast

text \<open>C13: when \<open>postVaaWithRetry\<close> resolves, transactions of at most two instructions that hold the
  verification instructions in order were all confirmed before the posting transaction was sent, and
  that one was confirmed too. Nothing else was sent.\<close>

theorem postVaaWithRetry_order:
  assumes "web3_laws W" "keeps_instructions sign"
    and "postVaaWithRetry W C K sign bid payer vaa m ss h = (h', Inr ())"
  shows "\<exists>h1 out ix T rs1 n1 h2 r n2.
    createVerifySignaturesInstructions W C K bid payer vaa ss h = (h1, Inr out) \<and>
    createPostVaaInstruction W K bid payer vaa ss = Inr ix \<and>
    T \<noteq> [] \<and> map Some (concat T) = out \<and> (\<forall>t\<in>set T. length t \<le> 2) \<and>
    sends W C (partialSignWrapper W ss sign) payer T h1 rs1 n1 h2 \<and> length rs1 = length T \<and> int n1 \<le> m \<and>
    sends W C sign payer [[ix]] h2 [r] n2 h' \<and> int n2 \<le> m"
proof -
  obtain h1 out ix ts t h2 rs1 rs2 where
    v: "createVerifySignaturesInstructions W C K bid payer vaa ss h = (h1, Inr out)" and
    ix: "createPostVaaInstruction W K bid payer vaa ss = Inr ix" and
    ts: "bindR (chunks out 2) (\<lambda>cs. sequenceR (map (batchTransaction W) cs)) = Inr ts" and
    t: "newTransaction W [Some ix] = Inr t" and
    s1: "sendAndConfirmTransactionsWithRetry W C (partialSignWrapper W ss sign) payer ts m h1 = (h2, Inr rs1)" and
    s2: "sendAndConfirmTransactionsWithRetry W C sign payer [t] m h2 = (h', Inr rs2)"
    using assms(3) by (rule postVaaWithRetry_steps)
  have "ts \<noteq> []" using s1 by (auto simp: sendAndConfirmTransactionsWithRetry_def)
  obtain n1 where n1: "sends W C (partialSignWrapper W ss sign) payer (map instructions ts) h1 rs1 n1 h2"
    "length rs1 = length ts" "int n1 \<le> m"
    using sendAndConfirm_outcome_lemma [OF partialSignWrapper_keeps [OF assms(1,2)] \<open>ts \<noteq> []\<close> s1] by auto
  obtain n2 where n2: "sends W C sign payer [instructions t] h2 rs2 n2 h'" "length rs2 = 1" "int n2 \<le> m"
    using sendAndConfirm_outcome_lemma [OF assms(2) _ s2] by auto
  have "instructions t = [ix]" using assms(1) t by (auto simp: web3_laws_def)
  moreover obtain r where r: "rs2 = [r]" using n2(2) by (auto simp: length_Suc_conv)
  ultimately have "sends W C sign payer [[ix]] h2 [r] n2 h'" using n2(1) by simp
  moreover have "map Some (concat (map instructions ts)) = out \<and> (\<forall>i\<in>set (map instructions ts). length i \<le> 2)"
    using v ts assms(1) by (rule batches_cover)
  moreover have "map instructions ts \<noteq> []" "length rs1 = length (map instructions ts)"
    using \<open>ts \<noteq> []\<close> n1(2) by simp_all
  ultimately show ?thesis using v ix n1(1,3) n2(3) by blast
qed

theorem postVaaWithRetry_order_witness:
  "\<exists>h1 h2 T rs n h r m. sends demo_web3 good_connection
      (partialSignWrapper demo_web3 demo_signature_set (walletSigner demo_wallet)) ''payer'' T h1 rs n h2 \<and> T \<noteq> [] \<and>
    sends demo_web3 good_connection (walletSigner demo_wallet) ''payer''
      [[\<lparr>programId = toHex [1], ix_data = [6],
         ix_keys = [\<lparr>pubkey = toHex [6], isSigner = True, isWritable = False\<rparr>]\<rparr>]] h2 [r] m h"
proof -
  obtain h where "postVaaWithRetry demo_web3 good_connection demo_core (walletSigner demo_wallet) ''bridge''
      ''payer'' [1] 0 demo_signature_set [] = (h, Inr ())" using demo_post by blast
  from postVaaWithRetry_order [OF demo_web3_laws demo_wallet_keeps this] show ?thesis
    by (auto simp: createPost_eq demo_core_def demo_sels simp del: toHex_simps) blast
qed

text \<open>when the guardian set account of the bridge does not exist, \<open>postVaaWithRetry\<close> rejects
  without sending anything, whatever the number of retries, while \<open>postVaa\<close> returns as if it had
  succeeded: there the two are not equivalent.\<close>

theorem postVaa_missing_guardian_set:
  assumes "getBridgeState W C K bid h = (h0, Inr st)"
    and "bindR (guardian_set_address K bid (guardian_set_index st)) (publicKeyB W) = Inr g"
    and "getAccountInfo C h0 g = Inr None"
    and "createPostVaaInstruction W K bid payer vaa ss = Inr ix" "newTransaction W [Some ix] = Inr t"
  shows "postVaaWithRetry W C K sign bid payer vaa m ss h =
      (h0 @ [GetAccountInfo g], Inl (Rejected ''No transactions provided to send.'')) \<and>
    postVaa W C K sign bid payer vaa ss h = (h0 @ [GetAccountInfo g], Inr ())"
proof -
  have "createVerifySignaturesInstructions W C K bid payer vaa ss h = (h0 @ [GetAccountInfo g], Inr [])"
    using assms(1-3) by (simp add: createVerifySignaturesInstructions_def del: bindR_eq_Inr)
  then show ?thesis
    using assms by (simp add: postVaaWithRetry_def postVaa_def sendAndConfirmTransactionsWithRetry_def
        del: bindR_eq_Inr)
qed

theorem postVaa_missing_guardian_set_witness:
  "snd (postVaaWithRetry demo_web3 (good_connection\<lparr>getAccountInfo :=
       (\<lambda>h k. Inr (if h = [] then Some [0] else None))\<rparr>) demo_core (walletSigner demo_wallet) ''bridge'' ''payer'' [1] 5
     demo_signature_set []) = Inl (Rejected ''No transactions provided to send.'')"
proof -
  let ?C = "good_connection\<lparr>getAccountInfo := (\<lambda>h k. Inr (if h = [] then Some [0] else None))\<rparr>"
  have "getBridgeState demo_web3 ?C demo_core ''bridge'' [] = ([GetAccountInfo (toHex [1])],
     Inr \<lparr>guardian_set_index = 0, last_lamports = 0, config = \<lparr>guardian_set_expiration_time = 86400, fee = 100\<rparr>\<rparr>)"
    by (simp add: getBridgeState_def demo_core_def demo_sels del: toHex_simps)
  from postVaa_missing_guardian_set [OF this] show ?thesis
    by (simp add: demo_core_def demo_sels createPost_eq del: toHex_simps)
qed

end
