(* ===== verification/Payloads.thy ===== *)
theory Payloads
  imports Bytes
begin

text \<open>
  \<open>sdk/js/src/utils/parseVaa.ts\<close>: the parsers for the payloads of NFT and token transfer messages.
  \<open>Buffer.toString("utf8")\<close> is modelled as Node does it: text is a list of Unicode code points, and
  each maximal ill-formed piece of the input becomes one U+FFFD. \<open>BigNumber.from\<close> belongs to the
  ethers library and is a parameter; the theorems rely on its value on non-empty byte arrays only.

  \<open>encodeNFT\<close> and \<open>encodeTransfer\<close> are specifications: they write the layouts that the comments of
  the file give. The theorems show that the parsers invert them, that they accept exactly the
  buffers that are long enough, and what they do not read.
\<close>

section \<open>UTF-8\<close>

type_synonym text_cp = "nat list"

text \<open>The lead byte of a sequence: how many bytes follow, the range of the first of them, and the
  bits the lead contributes.\<close>

definition utf8_lead :: "byte \<Rightarrow> (nat \<times> nat \<times> nat \<times> nat) option" where
  "utf8_lead w = (let b = unat w in
     if b < 194 then None
     else if b < 224 then Some (1, 128, 191, b - 192)
     else if b = 224 then Some (2, 160, 191, 0)
     else if b = 237 then Some (2, 128, 159, 13)
     else if b < 240 then Some (2, 128, 191, b - 224)
     else if b = 240 then Some (3, 144, 191, 0)
     else if b < 244 then Some (3, 128, 191, b - 240)
     else if b = 244 then Some (3, 128, 143, 4)
     else None)"

fun utf8_tail :: "nat \<Rightarrow> nat \<Rightarrow> nat \<Rightarrow> nat \<Rightarrow> bytes \<Rightarrow> nat option \<times> bytes" where
  "utf8_tail 0 lo hi v bs = (Some v, bs)"
| "utf8_tail (Suc n) lo hi v [] = (None, [])"
| "utf8_tail (Suc n) lo hi v (b # bs) =
     (if lo \<le> unat b \<and> unat b \<le> hi then utf8_tail n 128 191 (64 * v + (unat b - 128)) bs
      else (None, b # bs))"

lemma utf8_tail_shorter: "length (snd (utf8_tail n lo hi v bs)) \<le> length bs"
  by (induction n lo hi v bs rule: utf8_tail.induct) auto

function utf8_decode :: "bytes \<Rightarrow> text_cp" where
  "utf8_decode [] = []"
| "utf8_decode (b # bs) =
     (if unat b < 128 then unat b # utf8_decode bs
      else case utf8_lead b of
          None \<Rightarrow> 65533 # utf8_decode bs
        | Some (n, lo, hi, v) \<Rightarrow>
            (case fst (utf8_tail n lo hi v bs) of None \<Rightarrow> 65533 | Some cp \<Rightarrow> cp)
              # utf8_decode (snd (utf8_tail n lo hi v bs)))"
  by pat_completeness auto
termination
  by (relation "measure length") (auto simp: less_Suc_eq_le utf8_tail_shorter)

text \<open>The encoding of one scalar value, and of a text.\<close>

definition is_scalar :: "nat \<Rightarrow> bool" where
  "is_scalar cp \<longleftrightarrow> cp < 55296 \<or> 57343 < cp \<and> cp < 1114112"

definition utf8_encode1 :: "nat \<Rightarrow> bytes" where
  "utf8_encode1 cp = map of_nat
     (if cp < 128 then [cp]
      else if cp < 2048 then [192 + cp div 64, 128 + cp mod 64]
      else if cp < 65536 then [224 + cp div 4096, 128 + cp div 64 mod 64, 128 + cp mod 64]
      else [240 + cp div 262144, 128 + cp div 4096 mod 64, 128 + cp div 64 mod 64, 128 + cp mod 64])"

definition utf8_encode :: "text_cp \<Rightarrow> bytes" where
  "utf8_encode cps = concat (map utf8_encode1 cps)"

lemma cp_digits2: "64 * (cp div 64) + cp mod 64 = (cp::nat)"
  by simp

lemma cp_digits3: "64 * (64 * (cp div 4096) + cp div 64 mod 64) + cp mod 64 = (cp::nat)"
proof -
  have "cp div 4096 = cp div 64 div 64" by (simp add: div_mult2_eq [symmetric])
  then have "64 * (cp div 4096) + cp div 64 mod 64 = cp div 64" by simp
  then show ?thesis by simp
qed

lemma cp_digits4:
  "64 * (64 * (64 * (cp div 262144) + cp div 4096 mod 64) + cp div 64 mod 64) + cp mod 64 = (cp::nat)"
proof -
  have "cp div 262144 = cp div 4096 div 64" by (simp add: div_mult2_eq [symmetric])
  then have "64 * (cp div 262144) + cp div 4096 mod 64 = cp div 4096" by simp
  then show ?thesis using cp_digits3 [of cp] by simp
qed

lemma unat_small_byte: "n < 256 \<Longrightarrow> unat (of_nat n :: byte) = n"
  by (simp add: unat_of_nat_byte)

lemma utf8_tail_cont:
  assumes "lo \<le> 128 + d mod 64" "128 + d mod 64 \<le> hi"
  shows "utf8_tail (Suc n) lo hi v (of_nat (128 + d mod 64) # bs) = utf8_tail n 128 191 (64 * v + d mod 64) bs"
proof -
  have "d mod 64 < 64" by simp
  then have "unat (of_nat (128 + d mod 64) :: byte) = 128 + d mod 64"
    by (intro unat_small_byte) linarith
  then show ?thesis using assms by simp
qed

lemma cont_range: "128 \<le> 128 + d mod (64::nat)" "128 + d mod 64 \<le> (191::nat)"
proof -
  have "d mod 64 < 64" by simp
  then show "128 + d mod 64 \<le> (191::nat)" by linarith
qed simp

lemma utf8_decode_seq:
  assumes "b < 256" "128 \<le> b" "utf8_lead (of_nat b) = Some (n, lo, hi, v)"
    and "utf8_tail n lo hi v (cs @ bs) = (Some cp, bs)"
  shows "utf8_decode (of_nat b # cs @ bs) = cp # utf8_decode bs"
  using assms by (simp add: unat_small_byte)

lemma utf8_decode_1 [simp]: "unat b < 128 \<Longrightarrow> utf8_decode (b # bs) = unat b # utf8_decode bs"
  by simp

declare utf8_tail.simps(3) [simp del]
declare utf8_decode.simps(2) [simp del]
declare of_nat_add [simp del]

lemma utf8_decode_2:
  assumes "128 \<le> cp" "cp < 2048"
  shows "utf8_decode (of_nat (192 + cp div 64) # of_nat (128 + cp mod 64) # bs) = cp # utf8_decode bs"
proof -
  have q: "2 \<le> cp div 64" "cp div 64 < 32" using assms by (simp_all add: less_mult_imp_div_less)
  then have "utf8_lead (of_nat (192 + cp div 64)) = Some (1, 128, 191, cp div 64)"
    by (simp add: utf8_lead_def unat_small_byte)
  moreover have "utf8_tail 1 128 191 (cp div 64) ([of_nat (128 + cp mod 64)] @ bs) = (Some cp, bs)"
    using utf8_tail_cont [OF cont_range, of 0 "cp div 64" cp bs] by simp
  ultimately show ?thesis using q utf8_decode_seq [of "192 + cp div 64" _ _ _ _ "[of_nat (128 + cp mod 64)]" bs cp]
    by simp
qed

lemma utf8_decode_3:
  assumes "2048 \<le> cp" "cp < 65536" "is_scalar cp"
  shows "utf8_decode (of_nat (224 + cp div 4096) # of_nat (128 + cp div 64 mod 64) #
    of_nat (128 + cp mod 64) # bs) = cp # utf8_decode bs"
proof -
  let ?q = "cp div 4096" and ?e = "cp div 64 mod 64"
  have q: "?q < 16" using assms by (simp add: less_mult_imp_div_less)
  have e: "64 * ?q + ?e = cp div 64" using div_mult2_eq [of cp 64 64] by simp
  have e0: "32 \<le> ?e" if "?q = 0" using assms e that div_le_mono [of 2048 cp 64] by simp
  have e13: "?e < 32" if "?q = 13"
  proof -
    have "cp div 4096 < 14" using that by simp
    then have "cp < 57344" by (simp add: div_less_iff_less_mult)
    then have "cp div 64 < 864" using assms(3) by (simp add: is_scalar_def less_mult_imp_div_less)
    then show ?thesis using e that by linarith
  qed
  obtain lo hi where l: "utf8_lead (of_nat (224 + ?q)) = Some (2, lo, hi, ?q)" "lo \<le> 128 + ?e" "128 + ?e \<le> hi"
  proof -
    consider "?q = 0" | "?q = 13" | "?q \<noteq> 0" "?q \<noteq> 13" by blast
    then show ?thesis
      using that [of 160 191] that [of 128 159] that [of 128 191] e0 e13 cont_range [of "cp div 64"] q
      by cases (simp_all add: utf8_lead_def unat_small_byte)
  qed
  have "utf8_tail 2 lo hi ?q ([of_nat (128 + ?e), of_nat (128 + cp mod 64)] @ bs) = (Some cp, bs)"
    using utf8_tail_cont [OF l(2,3), of 1 ?q "of_nat (128 + cp mod 64) # bs"]
      utf8_tail_cont [OF cont_range, of 0 "64 * ?q + ?e" cp bs] cp_digits3 [of cp]
    by (simp add: numeral_2_eq_2)
  then show ?thesis
    using q l(1) utf8_decode_seq [of "224 + ?q" _ _ _ _ "[of_nat (128 + ?e), of_nat (128 + cp mod 64)]" bs cp]
    by simp
qed

lemma utf8_decode_4:
  assumes "65536 \<le> cp" "cp < 1114112"
  shows "utf8_decode (of_nat (240 + cp div 262144) # of_nat (128 + cp div 4096 mod 64) #
    of_nat (128 + cp div 64 mod 64) # of_nat (128 + cp mod 64) # bs) = cp # utf8_decode bs"
proof -
  let ?q = "cp div 262144" and ?e = "cp div 4096 mod 64" and ?f = "cp div 64 mod 64"
  have q: "?q < 5" using assms by (simp add: less_mult_imp_div_less)
  have e: "64 * ?q + ?e = cp div 4096" using div_mult2_eq [of cp 4096 64] by simp
  have e0: "16 \<le> ?e" if "?q = 0" using assms e that div_le_mono [of 65536 cp 4096] by simp
  have e4: "?e < 16" if "?q = 4"
  proof -
    have "cp div 4096 < 272" using assms by (simp add: less_mult_imp_div_less)
    then show ?thesis using e that by linarith
  qed
  obtain lo hi where l: "utf8_lead (of_nat (240 + ?q)) = Some (3, lo, hi, ?q)" "lo \<le> 128 + ?e" "128 + ?e \<le> hi"
  proof -
    consider "?q = 0" | "?q = 4" | "?q \<noteq> 0" "?q \<noteq> 4" by blast
    then show ?thesis
      using that [of 144 191] that [of 128 143] that [of 128 191] e0 e4 cont_range [of "cp div 4096"] q
      by cases (simp_all add: utf8_lead_def unat_small_byte)
  qed
  have "utf8_tail 3 lo hi ?q ([of_nat (128 + ?e), of_nat (128 + ?f), of_nat (128 + cp mod 64)] @ bs) = (Some cp, bs)"
    using utf8_tail_cont [OF l(2,3), of 2 ?q "of_nat (128 + ?f) # of_nat (128 + cp mod 64) # bs"]
      utf8_tail_cont [OF cont_range, of 1 "64 * ?q + ?e" "cp div 64" "of_nat (128 + cp mod 64) # bs"]
      utf8_tail_cont [OF cont_range, of 0 "64 * (64 * ?q + ?e) + ?f" cp bs] cp_digits4 [of cp]
    by (simp add: numeral_2_eq_2 numeral_3_eq_3)
  then show ?thesis
    using q l(1) utf8_decode_seq [of "240 + ?q" _ _ _ _
        "[of_nat (128 + ?e), of_nat (128 + ?f), of_nat (128 + cp mod 64)]" bs cp]
    by simp
qed

lemma utf8_decode_encode1:
  assumes "is_scalar cp"
  shows "utf8_decode (utf8_encode1 cp @ bs) = cp # utf8_decode bs"
proof -
  consider "cp < 128" | "128 \<le> cp" "cp < 2048" | "2048 \<le> cp" "cp < 65536" | "65536 \<le> cp" "cp < 1114112"
    using assms unfolding is_scalar_def by linarith
  then show ?thesis
    using assms by cases
      (simp_all add: utf8_encode1_def unat_small_byte utf8_decode_2 utf8_decode_3 utf8_decode_4)
qed

lemma utf8_decode_encode [simp]:
  "list_all is_scalar cps \<Longrightarrow> utf8_decode (utf8_encode cps @ bs) = cps @ utf8_decode bs"
  by (induction cps) (simp_all add: utf8_encode_def utf8_decode_encode1)

lemma utf8_decode_zeros [simp]: "utf8_decode (replicate k 0) = replicate k 0"
  by (induction k) simp_all

section \<open>The parsers\<close>

text \<open>\<open>METADATA_REPLACE\<close> is the pattern of the character U+0000, with the flag "g".\<close>

definition METADATA_REPLACE :: nat where
  "METADATA_REPLACE = 0"

definition metadataText :: "bytes \<Rightarrow> text_cp" where
  "metadataText bs = filter (\<lambda>cp. cp \<noteq> METADATA_REPLACE) (utf8_decode bs)"

record nft_payload =
  nftOriginAddress :: string
  nftOriginChain :: nat
  nftSymbol :: text_cp
  nftName :: text_cp
  nftTokenId :: nat
  nftUri :: text_cp
  nftTargetAddress :: string
  nftTargetChain :: nat

definition parseNFTPayload :: "(bytes \<Rightarrow> nat result) \<Rightarrow> bytes \<Rightarrow> nft_payload result" where
  "parseNFTPayload bigNumberFrom arr =
     (let originAddress = toHex (js_slice arr 1 (1 + 32)) in
      bindR (readUInt16BE arr 33) (\<lambda>originChain.
      let symbol = metadataText (js_slice arr 35 (35 + 32)) in
      let name = metadataText (js_slice arr 67 (67 + 32)) in
      bindR (bigNumberFrom (js_slice arr 99 (99 + 32))) (\<lambda>tokenId.
      bindR (readUInt8 arr 131) (\<lambda>uri_len.
      let uri = metadataText (js_slice arr 132 (132 + uri_len)) in
      let target_offset = 132 + uri_len in
      let targetAddress = toHex (js_slice arr target_offset (target_offset + 32)) in
      bindR (readUInt16BE arr (target_offset + 32)) (\<lambda>targetChain.
      Inr \<lparr>nftOriginAddress = originAddress, nftOriginChain = originChain, nftSymbol = symbol,
           nftName = name, nftTokenId = tokenId, nftUri = uri,
           nftTargetAddress = targetAddress, nftTargetChain = targetChain\<rparr>)))))"

record transfer_payload =
  amount :: nat
  originAddress :: string
  originChain :: nat
  targetAddress :: string
  targetChain :: nat

definition parseTransferPayload :: "(bytes \<Rightarrow> nat result) \<Rightarrow> bytes \<Rightarrow> transfer_payload result" where
  "parseTransferPayload bigNumberFrom arr =
     bindR (bigNumberFrom (js_slice arr 1 (1 + 32))) (\<lambda>amount.
     let originAddress = toHex (js_slice arr 33 (33 + 32)) in
     bindR (readUInt16BE arr 65) (\<lambda>originChain.
     let targetAddress = toHex (js_slice arr 67 (67 + 32)) in
     bindR (readUInt16BE arr 99) (\<lambda>targetChain.
     Inr \<lparr>amount = amount, originAddress = originAddress, originChain = originChain,
          targetAddress = targetAddress, targetChain = targetChain\<rparr>)))"

section \<open>Laws of the parameter, and the layouts\<close>

text \<open>\<open>BigNumber.from\<close> reads a byte array as a big-endian number. On an empty array the library
  raises an exception; nothing is assumed about that case.\<close>

definition big_number_laws :: "(bytes \<Rightarrow> nat result) \<Rightarrow> bool" where
  "big_number_laws bigNumberFrom \<longleftrightarrow> (\<forall>bs. bs \<noteq> [] \<longrightarrow> bigNumberFrom bs = Inr (be_nat bs))"

definition demo_bigNumberFrom :: "bytes \<Rightarrow> nat result" where
  "demo_bigNumberFrom bs = (if bs = [] then Inl (Foreign ''invalid BigNumber string'') else Inr (be_nat bs))"

lemma demo_big_number: "big_number_laws demo_bigNumberFrom"
  by (simp add: big_number_laws_def demo_bigNumberFrom_def)

text \<open>The layouts of the comments. A text field of 32 bytes is padded with NULs.\<close>

definition text32 :: "text_cp \<Rightarrow> bytes" where
  "text32 cps = utf8_encode cps @ replicate (32 - length (utf8_encode cps)) 0"

definition encodeNFT ::
  "byte \<Rightarrow> bytes \<Rightarrow> nat \<Rightarrow> text_cp \<Rightarrow> text_cp \<Rightarrow> nat \<Rightarrow> text_cp \<Rightarrow> bytes \<Rightarrow> nat \<Rightarrow> bytes" where
  "encodeNFT ty token_address token_chain symbol name tokenId uri recipient recipient_chain =
     [ty] @ token_address @ be_bytes 2 token_chain @ text32 symbol @ text32 name @ be_bytes 32 tokenId @
     be_bytes 1 (length (utf8_encode uri)) @ utf8_encode uri @ recipient @ be_bytes 2 recipient_chain"

definition encodeTransfer :: "byte \<Rightarrow> nat \<Rightarrow> bytes \<Rightarrow> nat \<Rightarrow> bytes \<Rightarrow> nat \<Rightarrow> nat \<Rightarrow> bytes" where
  "encodeTransfer ty amt token_address token_chain recipient recipient_chain fee =
     [ty] @ be_bytes 32 amt @ token_address @ be_bytes 2 token_chain @ recipient @
     be_bytes 2 recipient_chain @ be_bytes 32 fee"

definition clean_text :: "text_cp \<Rightarrow> bool" where
  "clean_text cps \<longleftrightarrow> list_all (\<lambda>cp. is_scalar cp \<and> cp \<noteq> 0) cps"

lemma metadataText_encode [simp]:
  assumes "clean_text cps"
  shows "metadataText (utf8_encode cps @ replicate k 0) = cps"
proof -
  have "list_all is_scalar cps" "filter (\<lambda>cp. cp \<noteq> 0) cps = cps"
    using assms by (auto simp: clean_text_def list_all_iff)
  then show ?thesis by (simp add: metadataText_def METADATA_REPLACE_def)
qed

lemma metadataText_encode0 [simp]: "clean_text cps \<Longrightarrow> metadataText (utf8_encode cps) = cps"
  using metadataText_encode [of cps 0] by simp

lemma length_text32: "length (utf8_encode cps) \<le> 32 \<Longrightarrow> length (text32 cps) = 32"
  by (simp add: text32_def)

lemma js_slice_mid:
  "n = length a \<Longrightarrow> m = length a + length b \<Longrightarrow> js_slice (a @ b @ c) n m = b"
  by (simp add: js_slice_def)

lemma readUIntBE_mid:
  "n = length a \<Longrightarrow> length b = w \<Longrightarrow> readUIntBE w (a @ b @ c) n = Inr (be_nat b)"
  by (simp add: readUIntBE_def js_slice_mid)

section \<open>Properties\<close>

lemma metadataText_text32 [simp]: "clean_text cps \<Longrightarrow> metadataText (text32 cps) = cps"
  by (simp add: text32_def)

text \<open>C2: \<open>parseNFTPayload\<close> inverts the layout of NFT messages: every field is read back, the
  texts without their padding, whatever the lengths of symbol, name and URI within their bounds
  and whatever Unicode characters they hold.\<close>

theorem parseNFTPayload_layout:
  assumes B: "big_number_laws B"
    and lens: "length addr = 32" "length rcpt = 32" "length (utf8_encode symb) \<le> 32"
      "length (utf8_encode nam) \<le> 32" "length (utf8_encode uri) < 256"
    and nums: "c < 65536" "tid < 256 ^ 32" "rc < 65536"
    and clean: "clean_text symb" "clean_text nam" "clean_text uri"
  shows "parseNFTPayload B (encodeNFT ty addr c symb nam tid uri rcpt rc) =
    Inr \<lparr>nftOriginAddress = toHex addr, nftOriginChain = c, nftSymbol = symb, nftName = nam,
         nftTokenId = tid, nftUri = uri, nftTargetAddress = toHex rcpt, nftTargetChain = rc\<rparr>"
proof -
  let ?u = "utf8_encode uri" and ?m = "encodeNFT ty addr c symb nam tid uri rcpt rc"
  let ?pre = "[ty] @ addr @ be_bytes 2 c @ text32 symb @ text32 nam @ be_bytes 32 tid @ be_bytes 1 (length ?u) @ ?u"
  note L = lens length_text32 [OF lens(3)] length_text32 [OF lens(4)]
  have "js_slice ?m 1 33 = addr" "readUInt16BE ?m 33 = Inr c" "js_slice ?m 35 67 = text32 symb"
    "js_slice ?m 67 99 = text32 nam" "js_slice ?m 99 131 = be_bytes 32 tid"
    "readUInt8 ?m 131 = Inr (length ?u)" "js_slice ?m 132 (132 + length ?u) = ?u"
    using L nums unfolding encodeNFT_def readUInt16BE_def readUInt8_def readUIntBE_def
    by (simp_all add: js_slice_def del: be_bytes.simps)
  moreover have m: "?m = ?pre @ rcpt @ be_bytes 2 rc" by (simp add: encodeNFT_def)
  have pre: "length ?pre = 132 + length ?u" using L by simp
  have "js_slice ?m (132 + length ?u) (132 + length ?u + 32) = rcpt"
    unfolding m using pre lens(2) by (intro js_slice_mid) simp_all
  moreover have "readUInt16BE ?m (132 + length ?u + 32) = Inr rc"
    using readUIntBE_mid [of "132 + length ?u + 32" "?pre @ rcpt" "be_bytes 2 rc" 2 "[]"] pre lens(2) nums(3)
    unfolding m readUInt16BE_def by (simp del: be_bytes.simps)
  ultimately show ?thesis
    using B clean nums by (simp add: parseNFTPayload_def Let_def big_number_laws_def del: be_bytes.simps)
qed

text \<open>A message with a symbol outside the ASCII range.\<close>

theorem parseNFTPayload_layout_witness:
  "mapR (\<lambda>p. (nftSymbol p, nftTokenId p, nftUri p, nftTargetChain p))
     (parseNFTPayload demo_bigNumberFrom
       (encodeNFT 1 (replicate 32 7) 2 [66, 8383] [67] 5 [104, 116] (replicate 32 9) 13)) =
   Inr ([66, 8383], 5, [104, 116], 13)"
proof -
  have "clean_text [66, 8383]" "clean_text [67]" "clean_text [104, 116]"
    "length (utf8_encode [66, 8383]) \<le> 32" "length (utf8_encode [67]) \<le> 32"
    "length (utf8_encode [104, 116]) < 256"
    by (simp_all add: clean_text_def is_scalar_def utf8_encode_def utf8_encode1_def)
  then show ?thesis
    using parseNFTPayload_layout [OF demo_big_number, of "replicate 32 7" "replicate 32 9" "[66, 8383]" "[67]"
        "[104, 116]" 2 5 13 1]
    by simp
qed

text \<open>\<open>parseNFTPayload\<close> succeeds on exactly the buffers that hold a whole message for the URI
  length they declare; every truncated message is an error.\<close>

theorem parseNFTPayload_total:
  assumes B: "big_number_laws B"
  shows "(\<exists>p. parseNFTPayload B arr = Inr p) \<longleftrightarrow>
    132 \<le> length arr \<and> 166 + unat (arr ! 131) \<le> length arr"
proof (cases "132 \<le> length arr")
  case True
  then have "js_slice arr 131 132 = [arr ! 131]"
    by (simp add: js_slice_def take_Suc_conv_app_nth)
  then have u: "readUInt8 arr 131 = Inr (unat (arr ! 131))"
    using True by (simp add: readUInt8_def readUIntBE_def be_nat_Cons)
  have "js_slice arr 99 131 \<noteq> []" using True by simp
  then show ?thesis
    using True u B
    by (auto simp: parseNFTPayload_def Let_def big_number_laws_def readUInt16BE_def readUIntBE_def add.commute)
next
  case False
  then have "readUInt8 arr 131 = Inl (RangeError ''ERR_OUT_OF_RANGE'')"
    by (simp add: readUInt8_def readUIntBE_def)
  then show ?thesis using False by (simp add: parseNFTPayload_def Let_def)
qed

theorem parseNFTPayload_total_witness:
  "\<not> (\<exists>p. parseNFTPayload demo_bigNumberFrom (replicate 165 0) = Inr p) \<and>
   (\<exists>p. parseNFTPayload demo_bigNumberFrom (replicate 166 0) = Inr p)"
  using parseNFTPayload_total [OF demo_big_number, of "replicate 165 0"]
    parseNFTPayload_total [OF demo_big_number, of "replicate 166 0"] by simp

lemma parseTransferPayload_reads:
  assumes B: "big_number_laws B" and lens: "length addr = 32" "length rcpt = 32"
    and nums: "amt < 256 ^ 32" "c < 65536" "rc < 65536"
  shows "parseTransferPayload B (encodeTransfer ty amt addr c rcpt rc fee @ rest) =
      Inr \<lparr>amount = amt, originAddress = toHex addr, originChain = c,
           targetAddress = toHex rcpt, targetChain = rc\<rparr>"
proof -
  let ?m = "encodeTransfer ty amt addr c rcpt rc fee @ rest"
  have "js_slice ?m 1 33 = be_bytes 32 amt" "js_slice ?m 33 65 = addr" "readUInt16BE ?m 65 = Inr c"
    "js_slice ?m 67 99 = rcpt" "readUInt16BE ?m 99 = Inr rc"
    using lens nums unfolding encodeTransfer_def readUInt16BE_def readUIntBE_def
    by (simp_all add: js_slice_def del: be_bytes.simps)
  then show ?thesis
    using B nums by (simp add: parseTransferPayload_def Let_def big_number_laws_def del: be_bytes.simps)
qed

text \<open>\<open>parseTransferPayload\<close> inverts the layout of transfer messages and does not depend on
  the fee, nor on anything after the recipient chain.\<close>

theorem parseTransferPayload_layout:
  assumes B: "big_number_laws B" and lens: "length addr = 32" "length rcpt = 32"
    and nums: "amt < 256 ^ 32" "c < 65536" "rc < 65536"
  shows "parseTransferPayload B (encodeTransfer ty amt addr c rcpt rc fee @ rest) =
      Inr \<lparr>amount = amt, originAddress = toHex addr, originChain = c,
           targetAddress = toHex rcpt, targetChain = rc\<rparr>"
  using assms by (rule parseTransferPayload_reads)

theorem parseTransferPayload_layout_witness:
  "mapR amount (parseTransferPayload demo_bigNumberFrom
      (encodeTransfer 1 1000 (replicate 32 7) 2 (replicate 32 9) 13 77 @ [])) = Inr 1000"
  by (subst parseTransferPayload_layout [OF demo_big_number]) simp_all

end
