(* ===== verification/SolanaBridge.thy ===== *)
theory SolanaBridge
  imports SolanaPost Payloads Base64
begin

text \<open>
  The Solana side of the bridges in the SDK: the transactions that
  \<open>token_bridge/{transfer,attest,redeem,createWrapped,updateWrapped}.ts\<close> and
  \<open>nft_bridge/{transfer,redeem}.ts\<close> build, and the queries of \<open>getForeignAsset.ts\<close>,
  \<open>getOriginalAsset.ts\<close>, \<open>getIsWrappedAsset.ts\<close> and \<open>getIsTransferCompleted.ts\<close>.

  An instruction of the system or the token program, or of a bridge module, is described by a value
  of a datatype with the arguments of the call; the functions that build it are parameters. Adding
  defined instructions to a transaction is \<open>newTransaction\<close> on the whole list.
\<close>

section \<open>Instructions that others build\<close>

text \<open>\<open>SystemProgram.createAccount\<close> and \<open>transfer\<close>, and the \<open>Token.create...Instruction\<close> functions. The arguments:
  payer, new account and lamports; from, to and lamports; mint, account and owner; account, delegate,
  owner and amount; source, destination, owner and amount; account, destination and owner.\<close>

datatype 'k spl_ix =
    CreateAccount 'k 'k nat
  | SystemTransfer 'k 'k nat
  | InitAccount 'k 'k 'k
  | Approve 'k 'k 'k nat
  | TokenTransfer 'k 'k 'k nat
  | CloseAccount 'k 'k 'k

text \<open>The instructions of the token and NFT bridge modules, with the arguments in the order of the
  calls. The first three of each are the token bridge, the core bridge and the payer.\<close>

datatype bridge_ix =
    TransferNativeIx string string string string string string nat nat nat bytes nat
  | TransferWrappedIx string string string string string string nat bytes nat nat nat bytes nat
  | AttestIx string string string string string nat
  | CreateWrappedIx string string string bytes
  | CompleteTransferNativeIx string string string bytes
  | CompleteTransferWrappedIx string string string bytes
  | NftTransferNativeIx string string string string string string nat bytes nat
  | NftTransferWrappedIx string string string string string string nat "bytes option" "bytes option" nat bytes nat
  | NftCompleteTransferNativeIx string string string string bytes
  | NftCompleteTransferWrappedIx string string string string bytes
  | NftCompleteTransferWrappedMetaIx string string string bytes

record parsed_vaa =
  vaa_timestamp :: nat
  vaa_nonce :: nat
  vaa_emitter_chain :: nat
  vaa_emitter_address :: bytes
  vaa_sequence :: nat
  vaa_consistency_level :: nat
  vaa_payload :: bytes

text \<open>\<open>parse_wrapped_meta\<close>: the token bridge has no token id; the NFT bridge gives it as four 64-bit
  limbs, the lowest first.\<close>

record wrapped_meta =
  wm_chain :: nat
  wm_token_address :: bytes
  wm_token_id :: "nat list"

record bridge_wasm =
  build_ix :: "bridge_ix \<Rightarrow> rust_ix result"
  approval_authority_address :: "string \<Rightarrow> bytes result"
  wrapped_meta_address :: "string \<Rightarrow> bytes \<Rightarrow> bytes result"
  parse_wrapped_meta :: "bytes \<Rightarrow> wrapped_meta result"
  wrapped_address :: "string \<Rightarrow> bytes \<Rightarrow> nat \<Rightarrow> bytes option \<Rightarrow> bytes result"
  parse_vaa :: "bytes \<Rightarrow> parsed_vaa result"
  claim_address :: "string \<Rightarrow> bytes \<Rightarrow> bytes result"

definition bridgeIx :: "'k web3 \<Rightarrow> bridge_wasm \<Rightarrow> bridge_ix \<Rightarrow> 'k instruction result" where
  "bridgeIx W B i = bindR (build_ix B i) (ixFromRust W)"

section \<open>The end of every builder\<close>

text \<open>The new transaction gets its instructions, a recent blockhash, the fee payer, and the signatures
  of the key pairs made for it.\<close>

fun partialSigns :: "'k web3 \<Rightarrow> 'k keypair list \<Rightarrow> 'k transaction \<Rightarrow> 'k transaction result" where
  "partialSigns W [] tx = Inr tx"
| "partialSigns W (kp # kps) tx = bindR (partialSign W tx kp) (partialSigns W kps)"

definition finishTransaction :: "'k web3 \<Rightarrow> 'k connection \<Rightarrow> string \<Rightarrow> 'k instruction list \<Rightarrow> 'k keypair list \<Rightarrow>
    'k history \<Rightarrow> 'k history \<times> 'k transaction result" where
  "finishTransaction W C payerAddress ixs signers h =
     bindH (h, newTransaction W (map Some ixs)) (\<lambda>h transaction.
     bindH (h @ [GetRecentBlockhash], getRecentBlockhash C h) (\<lambda>h blockhash.
     bindH (h, publicKeyS W payerAddress) (\<lambda>h payer.
     (h, partialSigns W signers (transaction\<lparr>recentBlockhash := Some blockhash, feePayer := Some payer\<rparr>)))))"

section \<open>Token bridge\<close>

definition WSOL_ADDRESS :: string where
  "WSOL_ADDRESS = ''So11111111111111111111111111111111111111112''"

definition WSOL_DECIMALS :: nat where
  "WSOL_DECIMALS = 9"

definition MAX_VAA_DECIMALS :: nat where
  "MAX_VAA_DECIMALS = 8"

text \<open>\<open>Number(n)\<close> of a bigint: the nearest double, ties to even (for values below \<open>2 ^ 1023\<close>).\<close>

fun bit_length :: "nat \<Rightarrow> nat" where
  "bit_length n = (if n = 0 then 0 else Suc (bit_length (n div 2)))"

declare bit_length.simps [simp del]

definition js_Number :: "nat \<Rightarrow> nat" where
  "js_Number n =
     (let k = bit_length n - 53 in
      if k = 0 then n
      else let q = n div 2 ^ k; r = n mod 2 ^ k; half = 2 ^ (k - 1) in
        (if half < r \<or> r = half \<and> odd q then q + 1 else q) * 2 ^ k)"

definition transferNativeSol ::
  "'k web3 \<Rightarrow> 'k connection \<Rightarrow> 'g core_wasm \<Rightarrow> ('k spl_ix \<Rightarrow> 'k instruction result) \<Rightarrow> bridge_wasm \<Rightarrow>
   ('k history \<Rightarrow> nat result) \<Rightarrow> rat \<Rightarrow> 'k keypair \<Rightarrow> 'k keypair \<Rightarrow>
   string \<Rightarrow> string \<Rightarrow> string \<Rightarrow> nat \<Rightarrow> bytes \<Rightarrow> nat \<Rightarrow> nat \<Rightarrow> 'k history \<Rightarrow> 'k history \<times> 'k transaction result" where
  "transferNativeSol W C K spl B minRent rand ancillaryKeypair messageKey
     bridgeAddress tokenBridgeAddress payerAddress amt target chain relayerFee h =
     bindH (h, minRent h) (\<lambda>h rentBalance.
     bindH (h, publicKeyS W WSOL_ADDRESS) (\<lambda>h mintPublicKey.
     bindH (h, publicKeyS W payerAddress) (\<lambda>h payerPublicKey.
     let ancillary = publicKey ancillaryKeypair in
     bindH (h, spl (CreateAccount payerPublicKey ancillary rentBalance)) (\<lambda>h createAncillaryAccountIx.
     bindH (h, spl (SystemTransfer payerPublicKey ancillary (js_Number amt))) (\<lambda>h initialBalanceTransferIx.
     bindH (h, spl (InitAccount mintPublicKey ancillary payerPublicKey)) (\<lambda>h initAccountIx.
     bindH (h, readUInt32LE (createNonce rand) 0) (\<lambda>h nonce.
     bindH (getBridgeFeeIx W C K (\<lambda>f t n. spl (SystemTransfer f t n)) bridgeAddress payerAddress h) (\<lambda>h transferIx.
     bindH (h, bindR (bindR (approval_authority_address B tokenBridgeAddress) (publicKeyB W)) (\<lambda>delegate.
       spl (Approve ancillary delegate payerPublicKey amt))) (\<lambda>h approvalIx.
     bindH (h, bridgeIx W B (TransferNativeIx tokenBridgeAddress bridgeAddress payerAddress
       (keyString W (publicKey messageKey)) (keyString W ancillary) WSOL_ADDRESS nonce amt relayerFee target chain)) (\<lambda>h ix.
     bindH (h, spl (CloseAccount ancillary payerPublicKey payerPublicKey)) (\<lambda>h closeAccountIx.
     finishTransaction W C payerAddress
       [createAncillaryAccountIx, initialBalanceTransferIx, initAccountIx, transferIx, approvalIx, ix, closeAccountIx]
       [messageKey, ancillaryKeypair] h)))))))))))"

definition transferFromSolana ::
  "'k web3 \<Rightarrow> 'k connection \<Rightarrow> 'g core_wasm \<Rightarrow> ('k spl_ix \<Rightarrow> 'k instruction result) \<Rightarrow> bridge_wasm \<Rightarrow>
   rat \<Rightarrow> 'k keypair \<Rightarrow> string \<Rightarrow> string \<Rightarrow> string \<Rightarrow> string \<Rightarrow> string \<Rightarrow> nat \<Rightarrow> bytes \<Rightarrow> nat \<Rightarrow>
   bytes option \<Rightarrow> nat option \<Rightarrow> string option \<Rightarrow> nat \<Rightarrow> 'k history \<Rightarrow> 'k history \<times> 'k transaction result" where
  "transferFromSolana W C K spl B rand messageKey bridgeAddress tokenBridgeAddress payerAddress fromAddress mintAddress
     amt target chain originAddr originCh fromOwnerAddress relayerFee h =
     bindH (h, readUInt32LE (createNonce rand) 0) (\<lambda>h nonce.
     bindH (getBridgeFeeIx W C K (\<lambda>f t n. spl (SystemTransfer f t n)) bridgeAddress payerAddress h) (\<lambda>h transferIx.
     bindH (h, bindR (publicKeyS W fromAddress) (\<lambda>account.
       bindR (bindR (approval_authority_address B tokenBridgeAddress) (publicKeyB W)) (\<lambda>delegate.
       bindR (publicKeyS W (orElse fromOwnerAddress payerAddress)) (\<lambda>owner.
       spl (Approve account delegate owner amt))))) (\<lambda>h approvalIx.
     let isSolanaNative = (originCh = None \<or> originCh = Some CHAIN_ID_SOLANA) in
     if \<not> isSolanaNative \<and> originAddr = None
     then (h, Inl (Error ''originAddress is required when specifying originChain''))
     else
     bindH (h, bridgeIx W B
       (if isSolanaNative
        then TransferNativeIx tokenBridgeAddress bridgeAddress payerAddress (keyString W (publicKey messageKey))
               fromAddress mintAddress nonce amt relayerFee target chain
        else TransferWrappedIx tokenBridgeAddress bridgeAddress payerAddress (keyString W (publicKey messageKey))
               fromAddress (orElse fromOwnerAddress payerAddress) (the originCh) (the originAddr) nonce amt relayerFee
               target chain)) (\<lambda>h ix.
     finishTransaction W C payerAddress [transferIx, approvalIx, ix] [messageKey] h))))"

definition attestFromSolana ::
  "'k web3 \<Rightarrow> 'k connection \<Rightarrow> 'g core_wasm \<Rightarrow> ('k spl_ix \<Rightarrow> 'k instruction result) \<Rightarrow> bridge_wasm \<Rightarrow>
   rat \<Rightarrow> 'k keypair \<Rightarrow> string \<Rightarrow> string \<Rightarrow> string \<Rightarrow> string \<Rightarrow> 'k history \<Rightarrow> 'k history \<times> 'k transaction result" where
  "attestFromSolana W C K spl B rand messageKey bridgeAddress tokenBridgeAddress payerAddress mintAddress h =
     bindH (h, readUInt32LE (createNonce rand) 0) (\<lambda>h nonce.
     bindH (getBridgeFeeIx W C K (\<lambda>f t n. spl (SystemTransfer f t n)) bridgeAddress payerAddress h) (\<lambda>h transferIx.
     bindH (h, bridgeIx W B (AttestIx tokenBridgeAddress bridgeAddress payerAddress
       (keyString W (publicKey messageKey)) mintAddress nonce)) (\<lambda>h ix.
     finishTransaction W C payerAddress [transferIx, ix] [messageKey] h)))"

definition createWrappedOnSolana ::
  "'k web3 \<Rightarrow> 'k connection \<Rightarrow> bridge_wasm \<Rightarrow> string \<Rightarrow> string \<Rightarrow> string \<Rightarrow> bytes \<Rightarrow> 'k history \<Rightarrow>
   'k history \<times> 'k transaction result" where
  "createWrappedOnSolana W C B bridgeAddress tokenBridgeAddress payerAddress signedVAA h =
     bindH (h, bridgeIx W B (CreateWrappedIx tokenBridgeAddress bridgeAddress payerAddress signedVAA)) (\<lambda>h ix.
     finishTransaction W C payerAddress [ix] [] h)"

definition updateWrappedOnSolana ::
  "'k web3 \<Rightarrow> 'k connection \<Rightarrow> bridge_wasm \<Rightarrow> string \<Rightarrow> string \<Rightarrow> string \<Rightarrow> bytes \<Rightarrow> 'k history \<Rightarrow>
   'k history \<times> 'k transaction result" where
  "updateWrappedOnSolana = createWrappedOnSolana"

definition redeemAndUnwrapOnSolana ::
  "'k web3 \<Rightarrow> 'k connection \<Rightarrow> ('k spl_ix \<Rightarrow> 'k instruction result) \<Rightarrow> bridge_wasm \<Rightarrow> libs \<Rightarrow>
   (bytes \<Rightarrow> nat result) \<Rightarrow> ('k history \<Rightarrow> nat result) \<Rightarrow> 'k keypair \<Rightarrow>
   string \<Rightarrow> string \<Rightarrow> string \<Rightarrow> bytes \<Rightarrow> 'k history \<Rightarrow> 'k history \<times> 'k transaction result" where
  "redeemAndUnwrapOnSolana W C spl B L bigNumberFrom minRent ancillaryKeypair
     bridgeAddress tokenBridgeAddress payerAddress signedVAA h =
     bindH (h, parse_vaa B signedVAA) (\<lambda>h parsedVAA.
     bindH (h, parseTransferPayload bigNumberFrom (vaa_payload parsedVAA)) (\<lambda>h parsedPayload.
     case hexToNativeString L (Some (targetAddress parsedPayload)) CHAIN_ID_SOLANA of
       None \<Rightarrow> (h, Inl (Error ''Failed to read the target address.''))
     | Some targetAddr \<Rightarrow>
       if targetAddr = '''' then (h, Inl (Error ''Failed to read the target address.''))
       else
       bindH (h, publicKeyS W targetAddr) (\<lambda>h targetPublicKey.
       let targetAmount = amount parsedPayload * (WSOL_DECIMALS - MAX_VAA_DECIMALS) * 10 in
       bindH (h, minRent h) (\<lambda>h rentBalance.
       bindH (h, publicKeyS W WSOL_ADDRESS) (\<lambda>h mintPublicKey.
       bindH (h, publicKeyS W payerAddress) (\<lambda>h payerPublicKey.
       let ancillary = publicKey ancillaryKeypair in
       bindH (h, bridgeIx W B (CompleteTransferNativeIx tokenBridgeAddress bridgeAddress payerAddress signedVAA))
         (\<lambda>h completeTransferIx.
       bindH (h, spl (CreateAccount payerPublicKey ancillary rentBalance)) (\<lambda>h createAncillaryAccountIx.
       bindH (h, spl (InitAccount mintPublicKey ancillary payerPublicKey)) (\<lambda>h initAccountIx.
       bindH (h, spl (TokenTransfer targetPublicKey ancillary payerPublicKey targetAmount)) (\<lambda>h balanceTransferIx.
       bindH (h, spl (CloseAccount ancillary payerPublicKey payerPublicKey)) (\<lambda>h closeAccountIx.
       finishTransaction W C payerAddress
         [completeTransferIx, createAncillaryAccountIx, initAccountIx, balanceTransferIx, closeAccountIx]
         [ancillaryKeypair] h)))))))))))"

definition redeemOnSolana ::
  "'k web3 \<Rightarrow> 'k connection \<Rightarrow> bridge_wasm \<Rightarrow> string \<Rightarrow> string \<Rightarrow> string \<Rightarrow> bytes \<Rightarrow> 'k history \<Rightarrow>
   'k history \<times> 'k transaction result" where
  "redeemOnSolana W C B bridgeAddress tokenBridgeAddress payerAddress signedVAA h =
     bindH (h, parse_vaa B signedVAA) (\<lambda>h parsedVAA.
     bindH (h, readUInt16BE (vaa_payload parsedVAA) 65) (\<lambda>h originCh.
     let isSolanaNative = (originCh = CHAIN_ID_SOLANA) in
     bindH (h, if isSolanaNative
         then bridgeIx W B (CompleteTransferNativeIx tokenBridgeAddress bridgeAddress payerAddress signedVAA)
         else bridgeIx W B (CompleteTransferWrappedIx tokenBridgeAddress bridgeAddress payerAddress signedVAA)) (\<lambda>h ix.
     finishTransaction W C payerAddress [ix] [] h)))"

section \<open>NFT bridge\<close>

definition nft_transferFromSolana ::
  "'k web3 \<Rightarrow> 'k connection \<Rightarrow> 'g core_wasm \<Rightarrow> ('k spl_ix \<Rightarrow> 'k instruction result) \<Rightarrow> bridge_wasm \<Rightarrow>
   rat \<Rightarrow> 'k keypair \<Rightarrow> string \<Rightarrow> string \<Rightarrow> string \<Rightarrow> string \<Rightarrow> string \<Rightarrow> bytes \<Rightarrow> nat \<Rightarrow>
   bytes option \<Rightarrow> nat option \<Rightarrow> bytes option \<Rightarrow> 'k history \<Rightarrow> 'k history \<times> 'k transaction result" where
  "nft_transferFromSolana W C K spl B rand messageKey bridgeAddress tokenBridgeAddress payerAddress fromAddress
     mintAddress target chain originAddr originCh originTokenId h =
     bindH (h, readUInt32LE (createNonce rand) 0) (\<lambda>h nonce.
     bindH (getBridgeFeeIx W C K (\<lambda>f t n. spl (SystemTransfer f t n)) bridgeAddress payerAddress h) (\<lambda>h transferIx.
     bindH (h, bindR (publicKeyS W fromAddress) (\<lambda>account.
       bindR (bindR (approval_authority_address B tokenBridgeAddress) (publicKeyB W)) (\<lambda>delegate.
       bindR (publicKeyS W payerAddress) (\<lambda>owner.
       spl (Approve account delegate owner 1))))) (\<lambda>h approvalIx.
     let isSolanaNative = (originCh = None \<or> originCh = Some CHAIN_ID_SOLANA) in
     if \<not> isSolanaNative \<and> originAddr = None \<and> originTokenId = None
     then (h, Inl (Error ''originAddress and originTokenId are required when specifying originChain''))
     else
     bindH (h, bridgeIx W B
       (if isSolanaNative
        then NftTransferNativeIx tokenBridgeAddress bridgeAddress payerAddress (keyString W (publicKey messageKey))
               fromAddress mintAddress nonce target chain
        else NftTransferWrappedIx tokenBridgeAddress bridgeAddress payerAddress (keyString W (publicKey messageKey))
               fromAddress payerAddress (the originCh) originAddr originTokenId nonce target chain)) (\<lambda>h ix.
     finishTransaction W C payerAddress [transferIx, approvalIx, ix] [messageKey] h))))"

definition isNFTVAASolanaNative :: "bridge_wasm \<Rightarrow> bytes \<Rightarrow> bool result" where
  "isNFTVAASolanaNative B signedVAA =
     bindR (parse_vaa B signedVAA) (\<lambda>parsedVAA.
     bindR (readUInt16BE (vaa_payload parsedVAA) 33) (\<lambda>c.
     Inr (c = CHAIN_ID_SOLANA)))"

definition nft_redeemOnSolana ::
  "'k web3 \<Rightarrow> 'k connection \<Rightarrow> bridge_wasm \<Rightarrow> string \<Rightarrow> string \<Rightarrow> string \<Rightarrow> bytes \<Rightarrow> 'k history \<Rightarrow>
   'k history \<times> 'k transaction result" where
  "nft_redeemOnSolana W C B bridgeAddress tokenBridgeAddress payerAddress signedVAA h =
     bindH (h, isNFTVAASolanaNative B signedVAA) (\<lambda>h isSolanaNative.
     bindH (h, if isSolanaNative
         then bridgeIx W B (NftCompleteTransferNativeIx tokenBridgeAddress bridgeAddress payerAddress payerAddress signedVAA)
         else bridgeIx W B (NftCompleteTransferWrappedIx tokenBridgeAddress bridgeAddress payerAddress payerAddress signedVAA))
       (\<lambda>h ix.
     finishTransaction W C payerAddress [ix] [] h))"

definition createMetaOnSolana ::
  "'k web3 \<Rightarrow> 'k connection \<Rightarrow> bridge_wasm \<Rightarrow> string \<Rightarrow> string \<Rightarrow> string \<Rightarrow> bytes \<Rightarrow> 'k history \<Rightarrow>
   'k history \<times> 'k transaction result" where
  "createMetaOnSolana W C B bridgeAddress tokenBridgeAddress payerAddress signedVAA h =
     bindH (h, bridgeIx W B (NftCompleteTransferWrappedMetaIx tokenBridgeAddress bridgeAddress payerAddress signedVAA))
       (\<lambda>h ix. finishTransaction W C payerAddress [ix] [] h)"

section \<open>Queries\<close>

text \<open>The account of the metadata of a wrapped mint: the prefix that four functions share.\<close>

definition wrappedMetaAccount :: "'k web3 \<Rightarrow> 'k connection \<Rightarrow> bridge_wasm \<Rightarrow> libs \<Rightarrow> string \<Rightarrow> string \<Rightarrow> 'k history \<Rightarrow>
    'k history \<times> bytes option result" where
  "wrappedMetaAccount W C B L tokenBridgeAddress mintAddress h =
     bindH (h, bindR (pkToBytes L mintAddress) (wrapped_meta_address B tokenBridgeAddress)) (\<lambda>h wrappedMetaAddress.
     bindH (h, publicKeyB W wrappedMetaAddress) (\<lambda>h k.
     (h @ [GetAccountInfo k], getAccountInfo C h k)))"

definition getIsWrappedAssetSol :: "'k web3 \<Rightarrow> 'k connection \<Rightarrow> bridge_wasm \<Rightarrow> libs \<Rightarrow> string \<Rightarrow> string \<Rightarrow> 'k history \<Rightarrow>
    'k history \<times> bool result" where
  "getIsWrappedAssetSol W C B L tokenBridgeAddress mintAddress h =
     (if mintAddress = '''' then (h, Inr False)
      else bindH (wrappedMetaAccount W C B L tokenBridgeAddress mintAddress h) (\<lambda>h info. (h, Inr (info \<noteq> None))))"

record wrapped_info_sol =
  ws_isWrapped :: bool
  ws_chainId :: nat
  ws_assetAddress :: bytes
  ws_tokenId :: "nat option"

definition nativeAssetSol :: "libs \<Rightarrow> string \<Rightarrow> wrapped_info_sol" where
  "nativeAssetSol L mintAddress =
     \<lparr>ws_isWrapped = False, ws_chainId = CHAIN_ID_SOLANA,
      ws_assetAddress = (case pkToBytes L mintAddress of Inr bs \<Rightarrow> bs | Inl e \<Rightarrow> replicate 32 0),
      ws_tokenId = None\<rparr>"

definition getOriginalAssetSol :: "'k web3 \<Rightarrow> 'k connection \<Rightarrow> bridge_wasm \<Rightarrow> libs \<Rightarrow> string \<Rightarrow> string \<Rightarrow> 'k history \<Rightarrow>
    'k history \<times> wrapped_info_sol result" where
  "getOriginalAssetSol W C B L tokenBridgeAddress mintAddress h =
     (if mintAddress = '''' then (h, Inr (nativeAssetSol L mintAddress))
      else bindH (wrappedMetaAccount W C B L tokenBridgeAddress mintAddress h) (\<lambda>h info.
        case info of
          None \<Rightarrow> (h, Inr (nativeAssetSol L mintAddress))
        | Some d \<Rightarrow> bindH (h, parse_wrapped_meta B d) (\<lambda>h parsed.
            (h, Inr \<lparr>ws_isWrapped = True, ws_chainId = wm_chain parsed,
                    ws_assetAddress = wm_token_address parsed, ws_tokenId = None\<rparr>))))"

text \<open>\<open>bigToUint8Array\<close> of \<open>nft_bridge/getOriginalAsset.ts\<close>. \<open>big.toString(2).length\<close> counts the sign.\<close>

definition bigToUint8Array :: "int \<Rightarrow> bytes" where
  "bigToUint8Array big =
     (let big = (if big < 0
                 then let bits = ((1 + bit_length (nat (- big))) div 8 + 1) * 8; prefix1 = 2 ^ bits in big + prefix1
                 else big);
          hex = nat_to_hex (nat big);
          hex = (if odd (length hex) then ''0'' @ hex
                 else if hex ! 0 = CHR ''8'' then ''00'' @ hex else hex) in
      fromHex hex)"

definition tokenIdOfLimbs :: "(bytes \<Rightarrow> nat result) \<Rightarrow> nat list \<Rightarrow> nat result" where
  "tokenIdOfLimbs bigNumberFrom token_id_arr =
     (let token_id_bytes = concat (map (\<lambda>elem. bigToUint8Array (int elem)) (rev token_id_arr)) in
      bigNumberFrom token_id_bytes)"

definition nft_getOriginalAssetSol :: "'k web3 \<Rightarrow> 'k connection \<Rightarrow> bridge_wasm \<Rightarrow> libs \<Rightarrow> (bytes \<Rightarrow> nat result) \<Rightarrow>
    string \<Rightarrow> string \<Rightarrow> 'k history \<Rightarrow> 'k history \<times> wrapped_info_sol result" where
  "nft_getOriginalAssetSol W C B L bigNumberFrom tokenBridgeAddress mintAddress h =
     (if mintAddress = '''' then (h, Inr (nativeAssetSol L mintAddress))
      else bindH (wrappedMetaAccount W C B L tokenBridgeAddress mintAddress h) (\<lambda>h info.
        case info of
          None \<Rightarrow> (h, Inr (nativeAssetSol L mintAddress))
        | Some d \<Rightarrow> bindH (h, parse_wrapped_meta B d) (\<lambda>h parsed.
            bindH (h, tokenIdOfLimbs bigNumberFrom (wm_token_id parsed)) (\<lambda>h token_id.
            (h, Inr \<lparr>ws_isWrapped = True, ws_chainId = wm_chain parsed,
                    ws_assetAddress = wm_token_address parsed, ws_tokenId = Some token_id\<rparr>)))))"

definition getForeignAssetSolana :: "'k web3 \<Rightarrow> 'k connection \<Rightarrow> bridge_wasm \<Rightarrow> string \<Rightarrow> nat \<Rightarrow> bytes \<Rightarrow> 'k history \<Rightarrow>
    'k history \<times> string option result" where
  "getForeignAssetSolana W C B tokenBridgeAddress originCh originAsset h =
     bindH (h, bindR (wrapped_address B tokenBridgeAddress originAsset originCh None) (publicKeyB W)) (\<lambda>h k.
     bindH (h @ [GetAccountInfo k], getAccountInfo C h k) (\<lambda>h info.
     (h, Inr (if info \<noteq> None then Some (keyString W k) else None))))"

definition nft_getForeignAssetSol :: "'k web3 \<Rightarrow> bridge_wasm \<Rightarrow> string \<Rightarrow> nat \<Rightarrow> bytes \<Rightarrow> bytes \<Rightarrow> string result" where
  "nft_getForeignAssetSol W B tokenBridgeAddress originCh originAsset tokenId =
     bindR (bindR (wrapped_address B tokenBridgeAddress originAsset originCh (Some tokenId)) (publicKeyB W)) (\<lambda>k.
     Inr (keyString W k))"

definition getClaimAddressSolana :: "'k web3 \<Rightarrow> bridge_wasm \<Rightarrow> string \<Rightarrow> bytes \<Rightarrow> 'k result" where
  "getClaimAddressSolana W B programAddress signedVAA =
     bindR (claim_address B programAddress signedVAA) (publicKeyB W)"

definition getIsTransferCompletedSolana :: "'k web3 \<Rightarrow> 'k connection \<Rightarrow> bridge_wasm \<Rightarrow> string \<Rightarrow> bytes \<Rightarrow> 'k history \<Rightarrow>
    'k history \<times> bool result" where
  "getIsTransferCompletedSolana W C B tokenBridgeAddress signedVAA h =
     bindH (h, claim_address B tokenBridgeAddress signedVAA) (\<lambda>h claimAddress.
     bindH (h, publicKeyB W claimAddress) (\<lambda>h k.
     bindH (h @ [GetAccountInfo k], getAccountInfo C h k) (\<lambda>h claimInfo.
     (h, Inr (claimInfo \<noteq> None)))))"

text \<open>The NFT bridge's copies of two queries use its own module and are otherwise the same.\<close>

definition nft_getIsWrappedAssetSol :: "'k web3 \<Rightarrow> 'k connection \<Rightarrow> bridge_wasm \<Rightarrow> libs \<Rightarrow> string \<Rightarrow> string \<Rightarrow> 'k history \<Rightarrow>
    'k history \<times> bool result" where
  "nft_getIsWrappedAssetSol W C B L tokenBridgeAddress mintAddress h =
     (if mintAddress = '''' then (h, Inr False)
      else bindH (wrappedMetaAccount W C B L tokenBridgeAddress mintAddress h) (\<lambda>h info. (h, Inr (info \<noteq> None))))"

definition nft_getIsTransferCompletedSolana :: "'k web3 \<Rightarrow> 'k connection \<Rightarrow> bridge_wasm \<Rightarrow> string \<Rightarrow> bytes \<Rightarrow> 'k history \<Rightarrow>
    'k history \<times> bool result" where
  "nft_getIsTransferCompletedSolana W C B nftBridgeAddress signedVAA h =
     bindH (h, claim_address B nftBridgeAddress signedVAA) (\<lambda>h claimAddress.
     bindH (h, publicKeyB W claimAddress) (\<lambda>h k.
     bindH (h @ [GetAccountInfo k], getAccountInfo C h k) (\<lambda>h claimInfo.
     (h, Inr (claimInfo \<noteq> None)))))"

section \<open>Facts\<close>

lemma partialSigns_instructions:
  "web3_laws W \<Longrightarrow> partialSigns W kps tx = Inr tx' \<Longrightarrow> instructions tx' = instructions tx"
  by (induction kps arbitrary: tx) (auto simp: web3_laws_def)

lemma finishTransaction_instructions:
  assumes "finishTransaction W C payer ixs kps h = (h', Inr tx)" "web3_laws W"
  shows "instructions tx = ixs \<and> h' = h @ [GetRecentBlockhash]"
proof -
  obtain t bh k where t: "newTransaction W (map Some ixs) = Inr t" "h' = h @ [GetRecentBlockhash]"
    "partialSigns W kps (t\<lparr>recentBlockhash := Some bh, feePayer := Some k\<rparr>) = Inr tx"
    using assms(1) by (auto simp: finishTransaction_def bindH_eq_Inr)
  have "map Some (instructions t) = map Some ixs" using t(1) assms(2) by (rule newTransaction_ixs [rotated])
  then have "instructions t = ixs" by (metis inj_Some inj_map_eq_map)
  then show ?thesis using t partialSigns_instructions [OF assms(2) t(3)] by simp
qed

lemma fee_of_bridgeFeeIx:
  assumes "getBridgeFeeIx W C K (\<lambda>f t n. spl (SystemTransfer f t n)) bridge payer h = (h1, Inr feeIx)"
  shows "\<exists>f t n. spl (SystemTransfer f t n) = Inr feeIx"
  using assms by (auto simp: getBridgeFeeIx_def bindH_eq_Inr split: option.splits) blast

lemma js_Number_exact:
  assumes "n < 2 ^ 53"
  shows "js_Number n = n"
proof -
  have "n < 2 ^ k \<Longrightarrow> bit_length n \<le> k" for k
  proof (induction k arbitrary: n)
    case 0
    then show ?case by (simp add: bit_length.simps)
  next
    case (Suc k)
    then have "n div 2 < 2 ^ k" by (simp add: less_mult_imp_div_less)
    then show ?case using Suc.IH [of "n div 2"] by (simp add: bit_length.simps [of n])
  qed
  then have "bit_length n - 53 = 0" using assms by simp
  then show ?thesis by (simp add: js_Number_def)
qed

text \<open>A value that takes 54 bits and is odd lies between two doubles.\<close>

lemma js_Number_inexact: "js_Number (2 ^ 53 + 1) = 2 ^ 53"
proof -
  have "bit_length (2 ^ k + r) = Suc k" if "r < 2 ^ k" for k r
    using that
  proof (induction k arbitrary: r)
    case 0
    then show ?case by (simp add: bit_length.simps)
  next
    case (Suc k)
    then have "r div 2 < 2 ^ k" by (simp add: less_mult_imp_div_less)
    moreover have "(2 ^ Suc k + r) div 2 = 2 ^ k + r div 2" by simp
    ultimately show ?case
      using Suc.IH [of "r div 2"] bit_length.simps [of "2 ^ Suc k + r"] by simp
  qed
  from this [of 1 53] have "bit_length (2 ^ 53 + 1) = 54" by simp
  then show ?thesis by (simp add: js_Number_def Let_def)
qed

section \<open>Properties\<close>


definition demo_spl :: "string spl_ix \<Rightarrow> string instruction result" where
  "demo_spl i = Inr \<lparr>programId = ''spl'', ix_data = [], ix_keys = []\<rparr>"

definition demo_bridge :: bridge_wasm where
  "demo_bridge = \<lparr>build_ix = (\<lambda>i. Inr (demo_ix 7)), approval_authority_address = (\<lambda>tb. Inr [8]),
     wrapped_meta_address = (\<lambda>tb m. Inr [9]),
     parse_wrapped_meta = (\<lambda>d. Inr \<lparr>wm_chain = 2, wm_token_address = [1], wm_token_id = [1, 1, 0, 0]\<rparr>),
     wrapped_address = (\<lambda>tb a c t. Inr [10]),
     parse_vaa = (\<lambda>v. Inr \<lparr>vaa_timestamp = 0, vaa_nonce = 0, vaa_emitter_chain = 2, vaa_emitter_address = [],
       vaa_sequence = 0, vaa_consistency_level = 0, vaa_payload = v\<rparr>),
     claim_address = (\<lambda>p v. Inr [11])\<rparr>"

lemma demo_nonce: "readUInt32LE (createNonce 0) 0 = Inr 0"
  using createNonce_read [of 0] by simp

definition demo_done :: "string instruction list \<Rightarrow> string keypair list \<Rightarrow> string transaction" where
  "demo_done ixs kps = \<lparr>recentBlockhash = Some ''hash'', feePayer = Some ''payer'', instructions = ixs,
     signatures = map secretKey kps\<rparr>"

lemma demo_finish:
  "finishTransaction demo_web3 good_connection ''payer'' ixs kps h = (h @ [GetRecentBlockhash], Inr (demo_done ixs kps))"
proof -
  have "partialSigns demo_web3 kps tx = Inr (tx\<lparr>signatures := signatures tx @ map secretKey kps\<rparr>)" for tx
    by (induction kps arbitrary: tx) (simp_all add: demo_sels)
  moreover have "newTransaction demo_web3 (map Some ixs) =
      Inr \<lparr>recentBlockhash = None, feePayer = None, instructions = ixs, signatures = []\<rparr>"
    by (auto simp: demo_web3_def comp_def)
  ultimately show ?thesis by (simp add: finishTransaction_def demo_sels demo_done_def)
qed

lemmas demo_run_defs = demo_sels demo_spl_def demo_bridge_def bridgeIx_def getBridgeFeeIx_def
  demo_core_def demo_nonce demo_finish

lemma demo_transfer:
  "\<exists>h tx. transferFromSolana demo_web3 good_connection demo_core demo_spl demo_bridge 0 demo_signature_set
     ''bridge'' ''tb'' ''payer'' ''source'' ''mint'' 5 [1] 2 None None None 0 [] = (h, Inr tx)"
  by (simp add: transferFromSolana_def demo_run_defs del: toHex_simps)


text \<open>C25: sending native SOL: a temporary account is created, funded, used and closed in the same
  transaction, with the remainder going back to the payer. Below \<open>2 ^ 53\<close> lamports the amounts funded,
  approved and transferred are equal; above, the conversion to a double may fund less than what is
  approved and transferred.\<close>

theorem transferNativeSol_consistent:
  assumes W: "web3_laws W"
    and run: "transferNativeSol W C K spl B minRent rand anc mk bridge tb payer amt tgt chain rf h = (h', Inr tx)"
  shows "\<exists>createIx fundIx initIx feeIx approveIx ix closeIx p wsol delegate rent funded nonce.
    instructions tx = [createIx, fundIx, initIx, feeIx, approveIx, ix, closeIx] \<and>
    publicKeyS W payer = Inr p \<and> publicKeyS W WSOL_ADDRESS = Inr wsol \<and>
    spl (CreateAccount p (publicKey anc) rent) = Inr createIx \<and>
    spl (SystemTransfer p (publicKey anc) funded) = Inr fundIx \<and>
    spl (InitAccount wsol (publicKey anc) p) = Inr initIx \<and>
    spl (Approve (publicKey anc) delegate p amt) = Inr approveIx \<and>
    bridgeIx W B (TransferNativeIx tb bridge payer (keyString W (publicKey mk)) (keyString W (publicKey anc))
      WSOL_ADDRESS nonce amt rf tgt chain) = Inr ix \<and>
    spl (CloseAccount (publicKey anc) p p) = Inr closeIx \<and>
    (amt < 2 ^ 53 \<longrightarrow> funded = amt) \<and> (amt = 2 ^ 53 + 1 \<longrightarrow> funded < amt)"
proof -
  obtain rent wsol p createIx fundIx initIx nonce h1 feeIx delegate approveIx ix closeIx where s:
    "publicKeyS W WSOL_ADDRESS = Inr wsol" "publicKeyS W payer = Inr p"
    "spl (CreateAccount p (publicKey anc) rent) = Inr createIx"
    "spl (SystemTransfer p (publicKey anc) (js_Number amt)) = Inr fundIx"
    "spl (InitAccount wsol (publicKey anc) p) = Inr initIx"
    "spl (Approve (publicKey anc) delegate p amt) = Inr approveIx"
    "bridgeIx W B (TransferNativeIx tb bridge payer (keyString W (publicKey mk)) (keyString W (publicKey anc))
      WSOL_ADDRESS nonce amt rf tgt chain) = Inr ix"
    "spl (CloseAccount (publicKey anc) p p) = Inr closeIx"
    "finishTransaction W C payer [createIx, fundIx, initIx, feeIx, approveIx, ix, closeIx] [mk, anc] h1 = (h', Inr tx)"
    using run unfolding transferNativeSol_def Let_def by (auto simp: bindH_eq_Inr)
  have "amt < 2 ^ 53 \<longrightarrow> js_Number amt = amt" "amt = 2 ^ 53 + 1 \<longrightarrow> js_Number amt < amt"
    using js_Number_exact js_Number_inexact by auto
  then show ?thesis using s finishTransaction_instructions [OF s(9) W] by blast
qed

theorem transferNativeSol_consistent_witness:
  "\<exists>h tx. transferNativeSol demo_web3 good_connection demo_core demo_spl demo_bridge (\<lambda>h. Inr 2039280) 0 demo_signature_set
     demo_signature_set ''bridge'' ''tb'' ''payer'' 5 [1] 2 0 [] = (h, Inr tx) \<and> length (instructions tx) = 7"
proof -
  have "\<exists>h tx. transferNativeSol demo_web3 good_connection demo_core demo_spl demo_bridge (\<lambda>h. Inr 2039280) 0
     demo_signature_set demo_signature_set ''bridge'' ''tb'' ''payer'' 5 [1] 2 0 [] = (h, Inr tx)"
    by (simp add: transferNativeSol_def Let_def demo_run_defs del: toHex_simps)
  then obtain h tx where run: "transferNativeSol demo_web3 good_connection demo_core demo_spl demo_bridge (\<lambda>h. Inr 2039280) 0
     demo_signature_set demo_signature_set ''bridge'' ''tb'' ''payer'' 5 [1] 2 0 [] = (h, Inr tx)" by blast
  from transferNativeSol_consistent [OF demo_web3_laws this] have "length (instructions tx) = 7" by fastforce
  with run show ?thesis by blast
qed

text \<open>redeeming native SOL moves the amount of the VAA, rescaled from its 8 decimals to the 9 of
  SOL, from the account of the payload's target address into a temporary account, which is closed to
  the payer in the same transaction.\<close>

theorem redeemAndUnwrapOnSolana_amount:
  assumes W: "web3_laws W"
    and run: "redeemAndUnwrapOnSolana W C spl B L N minRent anc bridge tb payer vaa h = (h', Inr tx)"
  shows "\<exists>parsed payload target t p wsol rent completeIx createIx initIx moveIx closeIx.
    parse_vaa B vaa = Inr parsed \<and> parseTransferPayload N (vaa_payload parsed) = Inr payload \<and>
    hexToNativeString L (Some (targetAddress payload)) CHAIN_ID_SOLANA = Some target \<and> publicKeyS W target = Inr t \<and>
    publicKeyS W payer = Inr p \<and> publicKeyS W WSOL_ADDRESS = Inr wsol \<and>
    instructions tx = [completeIx, createIx, initIx, moveIx, closeIx] \<and>
    bridgeIx W B (CompleteTransferNativeIx tb bridge payer vaa) = Inr completeIx \<and>
    spl (CreateAccount p (publicKey anc) rent) = Inr createIx \<and> spl (InitAccount wsol (publicKey anc) p) = Inr initIx \<and>
    spl (TokenTransfer t (publicKey anc) p (amount payload * 10 ^ (WSOL_DECIMALS - MAX_VAA_DECIMALS))) = Inr moveIx \<and>
    spl (CloseAccount (publicKey anc) p p) = Inr closeIx"
proof -
  have amt: "n * (WSOL_DECIMALS - MAX_VAA_DECIMALS) * 10 = n * 10 ^ (WSOL_DECIMALS - MAX_VAA_DECIMALS)" for n
    by (simp add: WSOL_DECIMALS_def MAX_VAA_DECIMALS_def)
  obtain parsed payload target t p wsol rent completeIx createIx initIx moveIx closeIx h1 where
    "parse_vaa B vaa = Inr parsed" "parseTransferPayload N (vaa_payload parsed) = Inr payload"
    "hexToNativeString L (Some (targetAddress payload)) CHAIN_ID_SOLANA = Some target" "publicKeyS W target = Inr t"
    "publicKeyS W payer = Inr p" "publicKeyS W WSOL_ADDRESS = Inr wsol"
    "bridgeIx W B (CompleteTransferNativeIx tb bridge payer vaa) = Inr completeIx"
    "spl (CreateAccount p (publicKey anc) rent) = Inr createIx" "spl (InitAccount wsol (publicKey anc) p) = Inr initIx"
    "spl (TokenTransfer t (publicKey anc) p (amount payload * 10 ^ (WSOL_DECIMALS - MAX_VAA_DECIMALS))) = Inr moveIx"
    "spl (CloseAccount (publicKey anc) p p) = Inr closeIx"
    and f: "finishTransaction W C payer [completeIx, createIx, initIx, moveIx, closeIx] [anc] h1 = (h', Inr tx)"
    using run unfolding redeemAndUnwrapOnSolana_def Let_def amt
    by (auto simp: bindH_eq_Inr split: option.splits if_splits)
  then show ?thesis using finishTransaction_instructions [OF f W] by blast
qed

lemma be_nat_bigToUint8Array: "be_nat (bigToUint8Array (int n)) = n"
proof -
  have "hex_bytes (''0'' @ nat_to_hex n)" if "odd (length (nat_to_hex n))"
    using that by (simp add: hex_bytes_def)
  moreover have "hex_bytes (nat_to_hex n)" "hex_bytes (''00'' @ nat_to_hex n)" if "even (length (nat_to_hex n))"
    using that by (simp_all add: hex_bytes_def)
  moreover have "hexnum (''0'' @ nat_to_hex n) = n" "hexnum (''00'' @ nat_to_hex n) = n"
    using hexnum_zeros [of 1 "nat_to_hex n"] hexnum_zeros [of 2 "nat_to_hex n"] by (simp_all add: numeral_2_eq_2)
  ultimately show ?thesis by (auto simp: bigToUint8Array_def Let_def be_nat_fromHex simp del: append.simps)
qed

text \<open>the token id that \<open>nft_bridge/getOriginalAsset.ts\<close> computes from the four limbs is right
  for ids below \<open>2 ^ 64\<close>; it is not in general: the limbs are joined without padding, so the id
  \<open>2 ^ 64 + 1\<close> becomes 257.\<close>

theorem tokenIdOfLimbs_small:
  assumes "big_number_laws N"
  shows "tokenIdOfLimbs N [x, 0, 0, 0] = Inr x \<and> tokenIdOfLimbs N [1, 1, 0, 0] = Inr 257"
proof -
  have small: "bigToUint8Array 0 = [0]" "bigToUint8Array 1 = [1]"
    by (simp_all add: bigToUint8Array_def nat_to_hex_small hex_digit_def)
  have ne: "bigToUint8Array 0 @ bs \<noteq> []" for bs by (simp add: small)
  have "be_nat (bigToUint8Array 0 @ bigToUint8Array 0 @ bigToUint8Array 0 @ bigToUint8Array (int x)) = x"
    by (simp add: small be_nat_Cons be_nat_bigToUint8Array)
  then show ?thesis using assms by (simp add: tokenIdOfLimbs_def big_number_laws_def small be_nat_Cons)
qed

definition demo_vaa :: bytes where
  "demo_vaa = encodeTransfer 1 1000 (replicate 32 7) 2 (replicate 32 9) 1 0 @ []"

theorem redeemAndUnwrapOnSolana_amount_witness:
  "\<exists>h tx. redeemAndUnwrapOnSolana demo_web3 good_connection demo_spl demo_bridge demo_libs demo_bigNumberFrom
     (\<lambda>h. Inr 2039280) demo_signature_set ''bridge'' ''tb'' ''payer''
     demo_vaa [] = (h, Inr tx) \<and> length (instructions tx) = 5"
proof -
  have p: "parseTransferPayload demo_bigNumberFrom demo_vaa = Inr \<lparr>amount = 1000, originAddress = toHex (replicate 32 7),
      originChain = 2, targetAddress = toHex (replicate 32 9), targetChain = 1\<rparr>"
    unfolding demo_vaa_def by (rule parseTransferPayload_reads [OF demo_big_number]) simp_all
  have v: "parse_vaa demo_bridge v = Inr \<lparr>vaa_timestamp = 0, vaa_nonce = 0, vaa_emitter_chain = 2, vaa_emitter_address = [],
       vaa_sequence = 0, vaa_consistency_level = 0, vaa_payload = v\<rparr>" for v
    by (simp add: demo_bridge_def)
  have t: "hexToNativeString demo_libs (Some (toHex (replicate 32 9))) CHAIN_ID_SOLANA = Some (toHex (replicate 32 9))"
    by (simp add: hexToNativeString_def hexToUint8Array_def catchUndefined_def demo_libs_def)
  have b: "build_ix demo_bridge i = Inr (demo_ix 7)" for i by (simp add: demo_bridge_def)
  have "\<exists>h tx. redeemAndUnwrapOnSolana demo_web3 good_connection demo_spl demo_bridge demo_libs demo_bigNumberFrom
     (\<lambda>h. Inr 2039280) demo_signature_set ''bridge'' ''tb'' ''payer'' demo_vaa [] = (h, Inr tx)"
    by (simp add: redeemAndUnwrapOnSolana_def v p t b Let_def demo_sels demo_spl_def bridgeIx_def demo_finish
        del: toHex_simps)
  then obtain h tx where run: "redeemAndUnwrapOnSolana demo_web3 good_connection demo_spl demo_bridge demo_libs
     demo_bigNumberFrom (\<lambda>h. Inr 2039280) demo_signature_set ''bridge'' ''tb'' ''payer'' demo_vaa [] = (h, Inr tx)" by blast
  from redeemAndUnwrapOnSolana_amount [OF demo_web3_laws this] have "length (instructions tx) = 5" by fastforce
  with run show ?thesis by blast
qed

theorem tokenIdOfLimbs_small_witness: "tokenIdOfLimbs demo_bigNumberFrom [5, 0, 0, 0] = Inr 5"
  using tokenIdOfLimbs_small [OF demo_big_number] by blast

text \<open>an NFT transfer from Solana pays the bridge fee, approves one token of the given account, and
  transfers it, in this order. The guard before the last instruction is weaker than its message: an
  origin other than Solana goes through with only one of the origin address and the token id.\<close>

theorem nft_transferFromSolana_consistent:
  assumes W: "web3_laws W"
    and run: "nft_transferFromSolana W C K spl B rand mk bridge tb payer source mint tgt chain oa oc ot h = (h', Inr tx)"
  shows "\<exists>feeIx approveIx ix account delegate owner nonce.
    instructions tx = [feeIx, approveIx, ix] \<and> (\<exists>f t n. spl (SystemTransfer f t n) = Inr feeIx) \<and>
    publicKeyS W source = Inr account \<and> publicKeyS W payer = Inr owner \<and>
    bindR (approval_authority_address B tb) (publicKeyB W) = Inr delegate \<and>
    spl (Approve account delegate owner 1) = Inr approveIx \<and>
    bridgeIx W B (if oc = None \<or> oc = Some CHAIN_ID_SOLANA
      then NftTransferNativeIx tb bridge payer (keyString W (publicKey mk)) source mint nonce tgt chain
      else NftTransferWrappedIx tb bridge payer (keyString W (publicKey mk)) source payer (the oc) oa ot nonce tgt chain) = Inr ix \<and>
    (oc = None \<or> oc = Some CHAIN_ID_SOLANA \<or> oa \<noteq> None \<or> ot \<noteq> None)"
proof -
  define native where "native \<longleftrightarrow> oc = None \<or> oc = Some CHAIN_ID_SOLANA"
  define args where "args nonce = (if native
      then NftTransferNativeIx tb bridge payer (keyString W (publicKey mk)) source mint nonce tgt chain
      else NftTransferWrappedIx tb bridge payer (keyString W (publicKey mk)) source payer (the oc) oa ot nonce tgt chain)" for nonce
  obtain nonce h1 feeIx approveIx account delegate owner ix where s:
    "getBridgeFeeIx W C K (\<lambda>f t n. spl (SystemTransfer f t n)) bridge payer h = (h1, Inr feeIx)"
    "publicKeyS W source = Inr account" "bindR (approval_authority_address B tb) (publicKeyB W) = Inr delegate"
    "publicKeyS W payer = Inr owner" "spl (Approve account delegate owner 1) = Inr approveIx"
    "native \<or> oa \<noteq> None \<or> ot \<noteq> None" "bridgeIx W B (args nonce) = Inr ix"
    "finishTransaction W C payer [feeIx, approveIx, ix] [mk] h1 = (h', Inr tx)"
    using run unfolding nft_transferFromSolana_def Let_def native_def [symmetric] args_def [symmetric]
    by (auto simp: bindH_eq_Inr split: if_splits)
  then show ?thesis using fee_of_bridgeFeeIx [OF s(1)] finishTransaction_instructions [OF s(8) W]
    unfolding args_def native_def by blast
qed

text \<open>A transfer of an NFT of chain 2 without its origin address succeeds.\<close>

theorem nft_transferFromSolana_consistent_witness:
  "\<exists>h tx. nft_transferFromSolana demo_web3 good_connection demo_core demo_spl demo_bridge 0 demo_signature_set
     ''bridge'' ''tb'' ''payer'' ''source'' ''mint'' [1] 2 None (Some 2) (Some [5]) [] = (h, Inr tx) \<and> length (instructions tx) = 3"
proof -
  have "\<exists>h tx. nft_transferFromSolana demo_web3 good_connection demo_core demo_spl demo_bridge 0 demo_signature_set
     ''bridge'' ''tb'' ''payer'' ''source'' ''mint'' [1] 2 None (Some 2) (Some [5]) [] = (h, Inr tx)"
    by (simp add: nft_transferFromSolana_def demo_run_defs CHAIN_ID_SOLANA_def del: toHex_simps)
  then obtain h tx where run: "nft_transferFromSolana demo_web3 good_connection demo_core demo_spl demo_bridge 0 demo_signature_set
     ''bridge'' ''tb'' ''payer'' ''source'' ''mint'' [1] 2 None (Some 2) (Some [5]) [] = (h, Inr tx)" by blast
  from nft_transferFromSolana_consistent [OF demo_web3_laws this] have "length (instructions tx) = 3" by fastforce
  with run show ?thesis by blast
qed

end
