(* ===== verification/Logs.thy ===== *)
theory Logs
  imports Bytes
begin

text \<open>
  \<open>sdk/js/src/bridge/parseSequenceFromLog.ts\<close>: finding the sequence number of a message in the
  log of the transaction that emitted it, on Ethereum, Terra and Solana.

  \<open>parseLog\<close> (the ethers interface of the core bridge, which decodes one log entry and raises an
  exception when it cannot, or when it is given none) and \<open>JSON.parse\<close> followed by the reading of
  rows, events and attributes are parameters. An attribute without a value is \<open>None\<close>.
\<close>

section \<open>Strings\<close>

text \<open>\<open>startsWith\<close>, and \<open>replace\<close> with a string pattern and the
  empty replacement, which removes the first occurrence.\<close>

definition startsWithS :: "string \<Rightarrow> string \<Rightarrow> bool" where
  "startsWithS s p \<longleftrightarrow> take (length p) s = p"

fun removeFirst :: "string \<Rightarrow> string \<Rightarrow> string" where
  "removeFirst p [] = []"
| "removeFirst p (c # s) = (if startsWithS (c # s) p then drop (length p) (c # s) else c # removeFirst p s)"

lemma removeFirst_prefix: "startsWithS s p \<Longrightarrow> p @ removeFirst p s = s"
  by (cases s) (auto simp: startsWithS_def, metis append_take_drop_id)

section \<open>Ethereum\<close>

record ('topics) eth_log =
  log_address :: string
  log_topics :: 'topics

definition bridgeLogs :: "'t eth_log list \<Rightarrow> string \<Rightarrow> 't eth_log list" where
  "bridgeLogs logs bridgeAddress = filter (\<lambda>l. log_address l = bridgeAddress) logs"

text \<open>\<open>[0]\<close> of an empty array is undefined (\<open>None\<close>).\<close>

definition first :: "'a list \<Rightarrow> 'a option" where
  "first xs = (case xs of [] \<Rightarrow> None | x # _ \<Rightarrow> Some x)"

definition parseSequenceFromLogEth ::
  "('t eth_log option \<Rightarrow> nat result) \<Rightarrow> 't eth_log list \<Rightarrow> string \<Rightarrow> string result" where
  "parseSequenceFromLogEth parseLog logs bridgeAddress =
     (let bridgeLog = first (bridgeLogs logs bridgeAddress) in
      bindR (parseLog bridgeLog) (\<lambda>sequence. Inr (decimal sequence)))"

definition parseSequencesFromLogEth ::
  "('t eth_log option \<Rightarrow> nat result) \<Rightarrow> 't eth_log list \<Rightarrow> string \<Rightarrow> string list result" where
  "parseSequencesFromLogEth parseLog logs bridgeAddress =
     sequenceR (map (\<lambda>bridgeLog. bindR (parseLog (Some bridgeLog)) (\<lambda>sequence. Inr (decimal sequence)))
       (bridgeLogs logs bridgeAddress))"

section \<open>Terra\<close>

record terra_attribute =
  attr_key :: string
  attr_value :: "string option"

text \<open>A row is a list of events, an event a list of attributes.\<close>

type_synonym terra_rows = "terra_attribute list list list"

definition toStringR :: "string option \<Rightarrow> string result" where
  "toStringR v = (case v of None \<Rightarrow> Inl (TypeError ''Cannot read properties of undefined'') | Some s \<Rightarrow> Inr s)"

text \<open>The nested \<open>map\<close>s visit the attributes in order; the assignment in the innermost one
  overwrites.\<close>

definition parseSequenceFromLogTerra :: "(string \<Rightarrow> terra_rows result) \<Rightarrow> string \<Rightarrow> string result" where
  "parseSequenceFromLogTerra parseJson raw_log =
     bindR (parseJson raw_log) (\<lambda>jsonLog.
     let sequence =
       fold (\<lambda>row. fold (\<lambda>event. fold (\<lambda>attribute seq.
         if attr_key attribute = ''message.sequence'' then attr_value attribute else seq) event) row)
       jsonLog (Some '''') in
     toStringR sequence)"

text \<open>Here the value is converted inside the loop, so the first missing one ends it.\<close>

definition pushSequence :: "terra_attribute \<Rightarrow> string list result \<Rightarrow> string list result" where
  "pushSequence attribute acc =
     bindR acc (\<lambda>sequences.
     if attr_key attribute = ''message.sequence''
     then bindR (toStringR (attr_value attribute)) (\<lambda>v. Inr (sequences @ [v]))
     else Inr sequences)"

definition parseSequencesFromLogTerra :: "(string \<Rightarrow> terra_rows result) \<Rightarrow> string \<Rightarrow> string list result" where
  "parseSequencesFromLogTerra parseJson raw_log =
     bindR (parseJson raw_log) (\<lambda>jsonLog.
     fold (\<lambda>row. fold (\<lambda>event. fold pushSequence event) row) jsonLog (Inr []))"

section \<open>Solana\<close>

definition SOLANA_SEQ_LOG :: string where
  "SOLANA_SEQ_LOG = ''Program log: Sequence: ''"

text \<open>The argument is \<open>info.meta?.logMessages\<close>.\<close>

definition parseSequenceFromLogSolana :: "string list option \<Rightarrow> string result" where
  "parseSequenceFromLogSolana logMessages =
     (let sequence = Option.bind logMessages (\<lambda>msgs.
        map_option (removeFirst SOLANA_SEQ_LOG)
          (first (filter (\<lambda>msg. startsWithS msg SOLANA_SEQ_LOG) msgs))) in
      case sequence of
        None \<Rightarrow> Inl (Error ''sequence not found'')
      | Some s \<Rightarrow> if s = [] then Inl (Error ''sequence not found'') else Inr s)"

definition parseSequencesFromLogSolana :: "string list option \<Rightarrow> string list option" where
  "parseSequencesFromLogSolana logMessages =
     map_option (\<lambda>msgs. map (removeFirst SOLANA_SEQ_LOG)
       (filter (\<lambda>msg. startsWithS msg SOLANA_SEQ_LOG) msgs)) logMessages"

section \<open>Properties\<close>

lemma first_map: "first (map f xs) = map_option f (first xs)"
  by (cases xs) (simp_all add: first_def)

text \<open>on Ethereum the sequence is the first of the list of sequences; when no log entry is the
  bridge's, the list is empty and the single parser throws.\<close>

theorem parseSequenceFromLogEth_first:
  assumes undef: "\<exists>e. parseLog None = Inl e"
    and all: "parseSequencesFromLogEth parseLog logs addr = Inr seqs"
  shows "(case seqs of
      [] \<Rightarrow> \<exists>e. parseSequenceFromLogEth parseLog logs addr = Inl e
    | s # _ \<Rightarrow> parseSequenceFromLogEth parseLog logs addr = Inr s) \<and>
    length seqs = length (filter (\<lambda>l. log_address l = addr) logs)"
proof -
  have "length seqs = length (bridgeLogs logs addr)"
    using all sequenceR_length unfolding parseSequencesFromLogEth_def by fastforce
  moreover have "bridgeLogs logs addr = filter (\<lambda>l. log_address l = addr) logs" by (simp add: bridgeLogs_def)
  moreover have "case seqs of
      [] \<Rightarrow> \<exists>e. parseSequenceFromLogEth parseLog logs addr = Inl e
    | s # _ \<Rightarrow> parseSequenceFromLogEth parseLog logs addr = Inr s"
    using undef all
    by (cases "bridgeLogs logs addr")
      (auto simp: parseSequencesFromLogEth_def parseSequenceFromLogEth_def first_def)
  ultimately show ?thesis by simp
qed

theorem parseSequenceFromLogEth_first_witness:
  "parseSequenceFromLogEth (\<lambda>l. case l of None \<Rightarrow> Inl (TypeError ''topics'') | Some x \<Rightarrow> Inr (log_topics x))
     [\<lparr>log_address = ''0xb'', log_topics = 7\<rparr>, \<lparr>log_address = ''0xa'', log_topics = 42\<rparr>,
      \<lparr>log_address = ''0xa'', log_topics = 43\<rparr>] ''0xa'' = Inr ''42''"
proof -
  let ?p = "\<lambda>l :: nat eth_log option. case l of None \<Rightarrow> Inl (TypeError ''topics'') | Some x \<Rightarrow> Inr (log_topics x)"
  let ?logs = "[\<lparr>log_address = ''0xb'', log_topics = 7\<rparr>, \<lparr>log_address = ''0xa'', log_topics = 42\<rparr>,
      \<lparr>log_address = ''0xa'', log_topics = 43\<rparr>]"
  have "parseSequencesFromLogEth ?p ?logs ''0xa'' = Inr [''42'', ''43'']"
    by (simp add: parseSequencesFromLogEth_def bridgeLogs_def decimal.simps)
  from parseSequenceFromLogEth_first [OF _ this] show ?thesis by simp
qed

lemma fold_last:
  "fold (\<lambda>a seq. if P a then f a else seq) xs s0 = (if filter P xs = [] then s0 else f (last (filter P xs)))"
  by (induction xs arbitrary: s0) auto

lemma fold_concat3: "fold (\<lambda>row. fold (\<lambda>event. fold g event) row) rows s = fold g (concat (concat rows)) s"
proof -
  have "fold (\<lambda>event. fold g event) row s = fold g (concat row) s" for row s
    by (induction row arbitrary: s) auto
  then show ?thesis by (induction rows arbitrary: s) auto
qed

lemma pushSequence_simps [simp]:
  "pushSequence a (Inl e) = Inl e"
  "attr_key a \<noteq> ''message.sequence'' \<Longrightarrow> pushSequence a (Inr acc) = Inr acc"
  "attr_key a = ''message.sequence'' \<Longrightarrow> pushSequence a (Inr acc) =
     (case attr_value a of None \<Rightarrow> Inl (TypeError ''Cannot read properties of undefined'') | Some v \<Rightarrow> Inr (acc @ [v]))"
  by (simp_all add: pushSequence_def toStringR_def split: option.split)

lemma fold_pushSequence_Inl [simp]: "fold pushSequence xs (Inl e) = Inl e"
  by (induction xs) simp_all

lemma fold_pushSequence:
  "fold pushSequence xs (Inr acc) = Inr seqs \<Longrightarrow>
   map Some seqs = map Some acc @ map attr_value (filter (\<lambda>a. attr_key a = ''message.sequence'') xs)"
proof (induction xs arbitrary: acc)
  case (Cons a xs)
  show ?case
  proof (cases "attr_key a = ''message.sequence''")
    case True
    then obtain v where v: "attr_value a = Some v" "fold pushSequence xs (Inr (acc @ [v])) = Inr seqs"
      using Cons.prems by (cases "attr_value a") auto
    then show ?thesis using Cons.IH [OF v(2)] True by simp
  next
    case False
    then show ?thesis using Cons by simp
  qed
qed simp

text \<open>on Terra the sequence is the last of the list of sequences, the empty string when there
  is none; the single parser does not report that no sequence was found.\<close>

theorem parseSequenceFromLogTerra_last:
  assumes "parseSequencesFromLogTerra parseJson raw = Inr seqs"
  shows "parseSequenceFromLogTerra parseJson raw = Inr (if seqs = [] then '''' else last seqs)"
proof -
  obtain rows where rows: "parseJson raw = Inr rows"
    and f: "fold pushSequence (concat (concat rows)) (Inr []) = Inr seqs"
    using assms by (auto simp: parseSequencesFromLogTerra_def fold_concat3)
  let ?as = "filter (\<lambda>a. attr_key a = ''message.sequence'') (concat (concat rows))"
  have vs: "map attr_value ?as = map Some seqs"
    using fold_pushSequence [OF f] by simp
  then have e: "?as = [] \<longleftrightarrow> seqs = []" by (metis map_is_Nil_conv)
  have l: "attr_value (last ?as) = Some (last seqs)" if "seqs \<noteq> []"
  proof -
    have "?as \<noteq> []" using e that by blast
    then show ?thesis using vs that last_map [of ?as] last_map [of seqs] by (metis that)
  qed
  have "fold (\<lambda>row. fold (\<lambda>event. fold (\<lambda>attribute seq.
      if attr_key attribute = ''message.sequence'' then attr_value attribute else seq) event) row)
      rows (Some '''') = (if seqs = [] then Some '''' else Some (last seqs))"
    unfolding fold_concat3 fold_last using e l by auto
  then show ?thesis
    using rows by (simp add: parseSequenceFromLogTerra_def toStringR_def)
qed

theorem parseSequenceFromLogTerra_last_witness:
  "parseSequenceFromLogTerra (\<lambda>_. Inr [[[\<lparr>attr_key = ''message.sequence'', attr_value = Some ''1''\<rparr>],
      [\<lparr>attr_key = ''message.sequence'', attr_value = Some ''2''\<rparr>]]]) '''' = Inr ''2''"
  by (subst parseSequenceFromLogTerra_last [where seqs = "[''1'', ''2'']"])
    (simp_all add: parseSequencesFromLogTerra_def pushSequence_def toStringR_def)

text \<open>on Solana the sequence is the first of the list of sequences, and the single parser
  throws when there is none or it is empty; a reported sequence is what follows the log prefix
  in the first message that has it.\<close>

theorem parseSequenceFromLogSolana_first:
  "parseSequenceFromLogSolana logs =
     (case parseSequencesFromLogSolana logs of
        Some ((c # s) # _) \<Rightarrow> Inr (c # s)
      | _ \<Rightarrow> Inl (Error ''sequence not found'')) \<and>
   (\<forall>seqs. parseSequencesFromLogSolana logs = Some seqs \<longrightarrow>
      map (\<lambda>s. SOLANA_SEQ_LOG @ s) seqs = filter (\<lambda>msg. startsWithS msg SOLANA_SEQ_LOG) (the logs))"
proof
  show "parseSequenceFromLogSolana logs =
     (case parseSequencesFromLogSolana logs of
        Some ((c # s) # _) \<Rightarrow> Inr (c # s)
      | _ \<Rightarrow> Inl (Error ''sequence not found''))"
    by (auto simp: parseSequenceFromLogSolana_def parseSequencesFromLogSolana_def first_def
        split: option.split list.split)
  have "map (\<lambda>s. SOLANA_SEQ_LOG @ s) (map (removeFirst SOLANA_SEQ_LOG) (filter (\<lambda>m. startsWithS m SOLANA_SEQ_LOG) ms))
      = filter (\<lambda>m. startsWithS m SOLANA_SEQ_LOG) ms" for ms
    by (induction ms) (simp_all add: removeFirst_prefix)
  then show "\<forall>seqs. parseSequencesFromLogSolana logs = Some seqs \<longrightarrow>
      map (\<lambda>s. SOLANA_SEQ_LOG @ s) seqs = filter (\<lambda>msg. startsWithS msg SOLANA_SEQ_LOG) (the logs)"
    by (auto simp: parseSequencesFromLogSolana_def)
qed

theorem parseSequenceFromLogSolana_first_witness:
  "parseSequenceFromLogSolana (Some [''x'', ''Program log: Sequence: 5'', ''Program log: Sequence: 6'']) = Inr ''5''"
  by (subst conjunct1 [OF parseSequenceFromLogSolana_first])
    (simp add: parseSequencesFromLogSolana_def startsWithS_def SOLANA_SEQ_LOG_def)

end
