(* ===== verification/Ethereum.thy ===== *)
theory Ethereum
  imports SolanaBridge Logs
begin

text \<open>
  The Ethereum side of the bridges in the SDK
  (\<open>token_bridge/{transfer,attest,redeem,createWrapped,updateWrapped}.ts\<close>,
  \<open>nft_bridge/{transfer,redeem}.ts\<close>), the queries of \<open>getForeignAsset.ts\<close>, \<open>getOriginalAsset.ts\<close>,
  \<open>getIsWrappedAsset.ts\<close> and \<open>getIsTransferCompleted.ts\<close>, the hash of a VAA
  (\<open>bridge/getSignedVAAHash.ts\<close>).

  A transaction to a contract is a value of \<open>eth_call\<close>, in the order of the arguments of the source;
  sending it and waiting for its receipt are calls to the outside, logged as in \<open>Solana\<close>. Views of
  contracts are parameters.
\<close>

section \<open>Contract calls\<close>

text \<open>The overrides of a call: the entries of the object, by name.\<close>

type_synonym overrides = "string \<rightharpoonup> nat"

datatype eth_op =
    OpApprove string nat
  | OpTransferTokens string nat nat bytes nat bytes
  | OpWrapAndTransferETH nat bytes nat bytes
  | OpCompleteTransfer bytes
  | OpCompleteTransferAndUnwrapETH bytes
  | OpAttestToken string bytes
  | OpCreateWrapped bytes
  | OpUpdateWrapped bytes
  | OpTransferNFT string nat nat bytes bytes

text \<open>A transaction: the contract, the method with its arguments, the overrides; and waiting for it.\<close>

datatype eth_call = SendTx string eth_op overrides | WaitTx string

type_synonym eth_history = "eth_call list"

record 'r eth_signer =
  sendTx :: "eth_history \<Rightarrow> string \<Rightarrow> eth_op \<Rightarrow> overrides \<Rightarrow> string result"
  waitTx :: "eth_history \<Rightarrow> string \<Rightarrow> 'r result"

definition sendAndWait :: "'r eth_signer \<Rightarrow> string \<Rightarrow> eth_op \<Rightarrow> overrides \<Rightarrow> eth_history \<Rightarrow> eth_history \<times> 'r result" where
  "sendAndWait S addr op ov h =
     bindH (h @ [SendTx addr op ov], sendTx S h addr op ov) (\<lambda>h v.
     (h @ [WaitTx v], waitTx S h v))"

section \<open>Token bridge\<close>

definition approveEth :: "'r eth_signer \<Rightarrow> string \<Rightarrow> string \<Rightarrow> nat \<Rightarrow> overrides \<Rightarrow> eth_history \<Rightarrow> eth_history \<times> 'r result" where
  "approveEth S tokenBridgeAddress tokenAddress amt ov h =
     sendAndWait S tokenAddress (OpApprove tokenBridgeAddress amt) ov h"

definition transferFromEth :: "'r eth_signer \<Rightarrow> rat \<Rightarrow> string \<Rightarrow> string \<Rightarrow> nat \<Rightarrow> nat \<Rightarrow> bytes \<Rightarrow> nat \<Rightarrow> overrides \<Rightarrow>
    eth_history \<Rightarrow> eth_history \<times> 'r result" where
  "transferFromEth S rand tokenBridgeAddress tokenAddress amt recipientChain recipientAddress relayerFee ov h =
     sendAndWait S tokenBridgeAddress
       (OpTransferTokens tokenAddress amt recipientChain recipientAddress relayerFee (createNonce rand)) ov h"

definition transferFromEthNative :: "'r eth_signer \<Rightarrow> rat \<Rightarrow> string \<Rightarrow> nat \<Rightarrow> nat \<Rightarrow> bytes \<Rightarrow> nat \<Rightarrow> overrides \<Rightarrow>
    eth_history \<Rightarrow> eth_history \<times> 'r result" where
  "transferFromEthNative S rand tokenBridgeAddress amt recipientChain recipientAddress relayerFee ov h =
     sendAndWait S tokenBridgeAddress
       (OpWrapAndTransferETH recipientChain recipientAddress relayerFee (createNonce rand))
       (ov(''value'' \<mapsto> amt)) h"

definition redeemOnEth :: "'r eth_signer \<Rightarrow> string \<Rightarrow> bytes \<Rightarrow> overrides \<Rightarrow> eth_history \<Rightarrow> eth_history \<times> 'r result" where
  "redeemOnEth S tokenBridgeAddress signedVAA ov h =
     sendAndWait S tokenBridgeAddress (OpCompleteTransfer signedVAA) ov h"

definition redeemOnEthNative :: "'r eth_signer \<Rightarrow> string \<Rightarrow> bytes \<Rightarrow> overrides \<Rightarrow> eth_history \<Rightarrow> eth_history \<times> 'r result" where
  "redeemOnEthNative S tokenBridgeAddress signedVAA ov h =
     sendAndWait S tokenBridgeAddress (OpCompleteTransferAndUnwrapETH signedVAA) ov h"

definition attestFromEth :: "'r eth_signer \<Rightarrow> rat \<Rightarrow> string \<Rightarrow> string \<Rightarrow> overrides \<Rightarrow> eth_history \<Rightarrow> eth_history \<times> 'r result" where
  "attestFromEth S rand tokenBridgeAddress tokenAddress ov h =
     sendAndWait S tokenBridgeAddress (OpAttestToken tokenAddress (createNonce rand)) ov h"

definition createWrappedOnEth :: "'r eth_signer \<Rightarrow> string \<Rightarrow> bytes \<Rightarrow> overrides \<Rightarrow> eth_history \<Rightarrow> eth_history \<times> 'r result" where
  "createWrappedOnEth S tokenBridgeAddress signedVAA ov h =
     sendAndWait S tokenBridgeAddress (OpCreateWrapped signedVAA) ov h"

definition updateWrappedOnEth :: "'r eth_signer \<Rightarrow> string \<Rightarrow> bytes \<Rightarrow> overrides \<Rightarrow> eth_history \<Rightarrow> eth_history \<times> 'r result" where
  "updateWrappedOnEth S tokenBridgeAddress signedVAA ov h =
     sendAndWait S tokenBridgeAddress (OpUpdateWrapped signedVAA) ov h"

section \<open>NFT bridge\<close>

definition nft_transferFromEth :: "'r eth_signer \<Rightarrow> rat \<Rightarrow> string \<Rightarrow> string \<Rightarrow> nat \<Rightarrow> nat \<Rightarrow> bytes \<Rightarrow> overrides \<Rightarrow>
    eth_history \<Rightarrow> eth_history \<times> 'r result" where
  "nft_transferFromEth S rand tokenBridgeAddress tokenAddress tokenID recipientChain recipientAddress ov h =
     bindH (sendAndWait S tokenAddress (OpApprove tokenBridgeAddress tokenID) ov h) (\<lambda>h _.
     sendAndWait S tokenBridgeAddress
       (OpTransferNFT tokenAddress tokenID recipientChain recipientAddress (createNonce rand)) ov h)"

definition nft_redeemOnEth :: "'r eth_signer \<Rightarrow> string \<Rightarrow> bytes \<Rightarrow> overrides \<Rightarrow> eth_history \<Rightarrow> eth_history \<times> 'r result" where
  "nft_redeemOnEth S tokenBridgeAddress signedVAA ov h =
     sendAndWait S tokenBridgeAddress (OpCompleteTransfer signedVAA) ov h"

section \<open>The hash of a VAA\<close>

text \<open>\<open>defaultAbiCoder.encode\<close> for an unsigned integer of some width and for \<open>bytes32\<close>, and
  \<open>solidityKeccak256(["bytes"], [.])\<close>, are parameters.\<close>

record abi =
  encodeUint :: "nat \<Rightarrow> nat \<Rightarrow> string result"
  encodeBytes32 :: "bytes \<Rightarrow> string result"
  solidityKeccak256 :: "string \<Rightarrow> string result"

definition getSignedVAAHash :: "abi \<Rightarrow> bridge_wasm \<Rightarrow> bytes \<Rightarrow> string result" where
  "getSignedVAAHash A B signedVAA =
     bindR (parse_vaa B signedVAA) (\<lambda>parsedVAA.
     bindR (sequenceR [
       mapR (drop (2 + (64 - 8))) (encodeUint A 32 (vaa_timestamp parsedVAA)),
       mapR (drop (2 + (64 - 8))) (encodeUint A 32 (vaa_nonce parsedVAA)),
       mapR (drop (2 + (64 - 4))) (encodeUint A 16 (vaa_emitter_chain parsedVAA)),
       mapR (drop 2) (encodeBytes32 A (vaa_emitter_address parsedVAA)),
       mapR (drop (2 + (64 - 16))) (encodeUint A 64 (vaa_sequence parsedVAA)),
       mapR (drop (2 + (64 - 2))) (encodeUint A 8 (vaa_consistency_level parsedVAA)),
       Inr (uint8ArrayToHex (vaa_payload parsedVAA))]) (\<lambda>body.
     bindR (solidityKeccak256 A (''0x'' @ concat body)) (\<lambda>h1.
     solidityKeccak256 A h1)))"

definition abi_laws :: "abi \<Rightarrow> bool" where
  "abi_laws A \<longleftrightarrow>
     (\<forall>w n. n < 2 ^ w \<longrightarrow> w \<le> 256 \<longrightarrow> encodeUint A w n = Inr (''0x'' @ toHex (be_bytes 32 n))) \<and>
     (\<forall>bs. length bs = 32 \<longrightarrow> encodeBytes32 A bs = Inr (''0x'' @ toHex bs))"

text \<open>The body of a VAA, as the guardians sign it.\<close>

definition vaa_body :: "parsed_vaa \<Rightarrow> bytes" where
  "vaa_body v = be_bytes 4 (vaa_timestamp v) @ be_bytes 4 (vaa_nonce v) @ be_bytes 2 (vaa_emitter_chain v) @
     vaa_emitter_address v @ be_bytes 8 (vaa_sequence v) @ be_bytes 1 (vaa_consistency_level v) @ vaa_payload v"

definition vaa_ok :: "parsed_vaa \<Rightarrow> bool" where
  "vaa_ok v \<longleftrightarrow> vaa_timestamp v < 2 ^ 32 \<and> vaa_nonce v < 2 ^ 32 \<and> vaa_emitter_chain v < 2 ^ 16 \<and>
     length (vaa_emitter_address v) = 32 \<and> vaa_sequence v < 2 ^ 64 \<and> vaa_consistency_level v < 2 ^ 8"

section \<open>Queries\<close>

text \<open>The views of the bridge and token contracts.\<close>

record eth_views =
  v_allowance :: "string \<Rightarrow> string \<Rightarrow> string \<Rightarrow> nat result"
  v_isWrappedAsset :: "string \<Rightarrow> string \<Rightarrow> bool result"
  v_chainId :: "string \<Rightarrow> nat result"
  v_nativeContract :: "string \<Rightarrow> string result"
  v_wrappedAsset :: "string \<Rightarrow> nat \<Rightarrow> string + bytes \<Rightarrow> string result"
  v_isTransferCompleted :: "string \<Rightarrow> string \<Rightarrow> bool result"

definition getAllowanceEth :: "eth_views \<Rightarrow> string result \<Rightarrow> string \<Rightarrow> string \<Rightarrow> nat result" where
  "getAllowanceEth V getAddress tokenBridgeAddress tokenAddress =
     bindR getAddress (\<lambda>signerAddress. v_allowance V tokenAddress signerAddress tokenBridgeAddress)"

definition getIsWrappedAssetEth :: "eth_views \<Rightarrow> string \<Rightarrow> string \<Rightarrow> bool result" where
  "getIsWrappedAssetEth V tokenBridgeAddress assetAddress =
     (if assetAddress = '''' then Inr False else v_isWrappedAsset V tokenBridgeAddress assetAddress)"

record wrapped_info_eth =
  we_isWrapped :: bool
  we_chainId :: nat
  we_assetAddress :: bytes
  we_tokenId :: "string option"

definition getOriginalAssetEth :: "eth_views \<Rightarrow> libs \<Rightarrow> string \<Rightarrow> string \<Rightarrow> nat \<Rightarrow> wrapped_info_eth result" where
  "getOriginalAssetEth V L tokenBridgeAddress wrappedAddress lookupChainId =
     bindR (getIsWrappedAssetEth V tokenBridgeAddress wrappedAddress) (\<lambda>isWrapped.
     if isWrapped
     then bindR (v_chainId V wrappedAddress) (\<lambda>chainId.
          bindR (v_nativeContract V wrappedAddress) (\<lambda>assetAddress.
          bindR (arrayify L assetAddress) (\<lambda>bs.
          Inr \<lparr>we_isWrapped = True, we_chainId = chainId, we_assetAddress = bs, we_tokenId = None\<rparr>)))
     else bindR (arrayify L wrappedAddress) (\<lambda>a.
          bindR (zeroPad L a 32) (\<lambda>bs.
          Inr \<lparr>we_isWrapped = False, we_chainId = lookupChainId, we_assetAddress = bs, we_tokenId = None\<rparr>)))"

text \<open>\<open>arrayify(BigNumber.from(tokenId))\<close> is a parameter of the NFT bridge's version.\<close>

definition nft_getOriginalAssetEth ::
  "eth_views \<Rightarrow> libs \<Rightarrow> (string \<Rightarrow> bytes result) \<Rightarrow> string \<Rightarrow> string \<Rightarrow> string \<Rightarrow> nat \<Rightarrow> wrapped_info_eth result" where
  "nft_getOriginalAssetEth V L arrayifyNumber tokenBridgeAddress wrappedAddress tokenId lookupChainId =
     bindR (getIsWrappedAssetEth V tokenBridgeAddress wrappedAddress) (\<lambda>isWrapped.
     if isWrapped
     then bindR (v_chainId V wrappedAddress) (\<lambda>chainId.
          bindR (v_nativeContract V wrappedAddress) (\<lambda>assetAddress.
          bindR (if chainId = CHAIN_ID_SOLANA then arrayifyNumber tokenId else arrayify L assetAddress) (\<lambda>bs.
          Inr \<lparr>we_isWrapped = True, we_chainId = chainId, we_assetAddress = bs, we_tokenId = Some tokenId\<rparr>)))
     else bindR (arrayify L wrappedAddress) (\<lambda>a.
          bindR (zeroPad L a 32) (\<lambda>bs.
          Inr \<lparr>we_isWrapped = False, we_chainId = lookupChainId, we_assetAddress = bs, we_tokenId = Some tokenId\<rparr>)))"

text \<open>Null (\<open>None\<close>) for every exception.\<close>

definition caughtNull :: "'a result \<Rightarrow> 'a option" where
  "caughtNull r = (case r of Inl e \<Rightarrow> None | Inr x \<Rightarrow> Some x)"

definition getForeignAssetEth :: "eth_views \<Rightarrow> string \<Rightarrow> nat \<Rightarrow> bytes \<Rightarrow> string option" where
  "getForeignAssetEth V tokenBridgeAddress originCh originAsset =
     caughtNull (v_wrappedAsset V tokenBridgeAddress originCh (Inr originAsset))"

definition SOLANA_NFT_HEX :: string where
  "SOLANA_NFT_HEX = ''0x0101010101010101010101010101010101010101010101010101010101010101''"

definition nft_getForeignAssetEth :: "eth_views \<Rightarrow> string \<Rightarrow> nat \<Rightarrow> bytes \<Rightarrow> string option" where
  "nft_getForeignAssetEth V tokenBridgeAddress originCh originAsset =
     caughtNull (if originCh = CHAIN_ID_SOLANA
       then v_wrappedAsset V tokenBridgeAddress originCh (Inl SOLANA_NFT_HEX)
       else v_wrappedAsset V tokenBridgeAddress originCh (Inr originAsset))"

definition getIsTransferCompletedEth :: "eth_views \<Rightarrow> abi \<Rightarrow> bridge_wasm \<Rightarrow> string \<Rightarrow> bytes \<Rightarrow> bool result" where
  "getIsTransferCompletedEth V A B tokenBridgeAddress signedVAA =
     bindR (getSignedVAAHash A B signedVAA) (\<lambda>signedVAAHash.
     v_isTransferCompleted V tokenBridgeAddress signedVAAHash)"

definition nft_getIsTransferCompletedEth :: "eth_views \<Rightarrow> abi \<Rightarrow> bridge_wasm \<Rightarrow> string \<Rightarrow> bytes \<Rightarrow> bool result" where
  "nft_getIsTransferCompletedEth V A B nftBridgeAddress signedVAA =
     bindR (getSignedVAAHash A B signedVAA) (\<lambda>signedVAAHash.
     v_isTransferCompleted V nftBridgeAddress signedVAAHash)"

section \<open>Properties\<close>

lemma be_bytes_split: "be_bytes (j + k) n = be_bytes j (n div 256 ^ k) @ be_bytes k n"
  by (induction k arbitrary: n) (simp_all add: div_mult2_eq)

lemma be_bytes_zero: "be_bytes j 0 = replicate j 0"
  by (induction j) (simp_all add: replicate_append_same)

lemma be_bytes_pad: "n < 256 ^ k \<Longrightarrow> be_bytes (j + k) n = replicate j 0 @ be_bytes k n"
  by (simp add: be_bytes_split be_bytes_zero)

lemma encodeUint_part:
  assumes "abi_laws A" "n < 256 ^ k" "8 * k \<le> 256"
  shows "mapR (drop (2 + (64 - 2 * k))) (encodeUint A (8 * k) n) = Inr (toHex (be_bytes k n))"
proof -
  have "n < 2 ^ (8 * k)" using assms(2) by (simp add: power_mult)
  then have "encodeUint A (8 * k) n = Inr (''0x'' @ toHex (be_bytes 32 n))"
    using assms(1,3) unfolding abi_laws_def by blast
  moreover have "be_bytes 32 n = replicate (32 - k) 0 @ be_bytes k n"
    using be_bytes_pad [OF assms(2), of "32 - k"] assms(3) by simp
  moreover have "64 - 2 * k = 2 * (32 - k)" by simp
  ultimately show ?thesis by (simp add: drop_toHex del: toHex_simps be_bytes.simps)
qed

text \<open>C17: the hash that tells whether a transfer was redeemed is the double Keccak hash of the body
  of the VAA, with every field at its width, big-endian.\<close>

theorem getSignedVAAHash_body:
  assumes A: "abi_laws A" and v: "parse_vaa B vaa = Inr v" "vaa_ok v"
  shows "getSignedVAAHash A B vaa =
    bindR (solidityKeccak256 A (''0x'' @ toHex (vaa_body v))) (solidityKeccak256 A)"
proof -
  note p = encodeUint_part [OF A]
  have parts: "mapR (drop 58) (encodeUint A 32 (vaa_timestamp v)) = Inr (toHex (be_bytes 4 (vaa_timestamp v)))"
    "mapR (drop 58) (encodeUint A 32 (vaa_nonce v)) = Inr (toHex (be_bytes 4 (vaa_nonce v)))"
    "mapR (drop 62) (encodeUint A 16 (vaa_emitter_chain v)) = Inr (toHex (be_bytes 2 (vaa_emitter_chain v)))"
    "mapR (drop 50) (encodeUint A 64 (vaa_sequence v)) = Inr (toHex (be_bytes 8 (vaa_sequence v)))"
    "mapR (drop 64) (encodeUint A 8 (vaa_consistency_level v)) = Inr (toHex (be_bytes 1 (vaa_consistency_level v)))"
    using p [of "vaa_timestamp v" 4] p [of "vaa_nonce v" 4] p [of "vaa_emitter_chain v" 2] p [of "vaa_sequence v" 8]
      p [of "vaa_consistency_level v" 1] v(2) by (simp_all add: vaa_ok_def del: mapR_eq_Inr be_bytes.simps toHex_simps)
  have addr: "mapR (drop 2) (encodeBytes32 A (vaa_emitter_address v)) = Inr (toHex (vaa_emitter_address v))"
    using A v(2) by (simp add: abi_laws_def vaa_ok_def)
  have "toHex (a @ b) = toHex a @ toHex b" for a b by (rule toHex_simps(3))
  then show ?thesis
    using v(1) by (simp add: parts addr getSignedVAAHash_def vaa_body_def uint8ArrayToHex_def
        del: be_bytes.simps toHex_simps mapR_eq_Inr)
qed

definition demo_abi :: abi where
  "demo_abi = \<lparr>encodeUint = (\<lambda>w n. Inr (''0x'' @ toHex (be_bytes 32 n))), encodeBytes32 = (\<lambda>bs. Inr (''0x'' @ toHex bs)),
     solidityKeccak256 = (\<lambda>s. Inr (drop 2 s))\<rparr>"

lemma demo_abi_laws: "abi_laws demo_abi"
  by (simp add: abi_laws_def demo_abi_def)

theorem getSignedVAAHash_body_witness:
  "\<exists>s. getSignedVAAHash demo_abi (demo_bridge\<lparr>parse_vaa := (\<lambda>v. Inr \<lparr>vaa_timestamp = 1, vaa_nonce = 2,
     vaa_emitter_chain = 3, vaa_emitter_address = replicate 32 4, vaa_sequence = 5, vaa_consistency_level = 6,
     vaa_payload = v\<rparr>)\<rparr>) [7] = Inr s"
  by (subst getSignedVAAHash_body [OF demo_abi_laws, where v = "\<lparr>vaa_timestamp = 1, vaa_nonce = 2,
     vaa_emitter_chain = 3, vaa_emitter_address = replicate 32 4, vaa_sequence = 5, vaa_consistency_level = 6,
     vaa_payload = [7]\<rparr>"]) (simp_all add: vaa_ok_def, simp add: demo_abi_def)

text \<open>an NFT transfer from Ethereum sends the transfer only after the approval of the same token
  for the bridge has a receipt; a failure on the way ends it. Sending native ETH attaches exactly the
  amount as value, whatever value the caller's overrides carry.\<close>

theorem ethTransfers_order:
  "(\<exists>v1 v2. fst (nft_transferFromEth S rand bridge token tid chain rcpt ov h) \<in>
      {h @ [SendTx token (OpApprove bridge tid) ov],
       h @ [SendTx token (OpApprove bridge tid) ov, WaitTx v1],
       h @ [SendTx token (OpApprove bridge tid) ov, WaitTx v1,
            SendTx bridge (OpTransferNFT token tid chain rcpt (createNonce rand)) ov],
       h @ [SendTx token (OpApprove bridge tid) ov, WaitTx v1,
            SendTx bridge (OpTransferNFT token tid chain rcpt (createNonce rand)) ov, WaitTx v2]}) \<and>
   (\<forall>h' rc. nft_transferFromEth S rand bridge token tid chain rcpt ov h = (h', Inr rc) \<longrightarrow>
      (\<exists>v1 r1. waitTx S (h @ [SendTx token (OpApprove bridge tid) ov]) v1 = Inr r1 \<and>
         SendTx bridge (OpTransferNFT token tid chain rcpt (createNonce rand)) ov \<in> set h')) \<and>
   (\<exists>ov'. SendTx bridge (OpWrapAndTransferETH chain rcpt fee' (createNonce rand)) ov' \<in>
        set (fst (transferFromEthNative S rand bridge amt chain rcpt fee' ov h)) \<and> ov' ''value'' = Some amt \<and>
      (\<forall>k. k \<noteq> ''value'' \<longrightarrow> ov' k = ov k))"
proof (intro conjI)
  let ?a = "SendTx token (OpApprove bridge tid) ov"
  let ?t = "SendTx bridge (OpTransferNFT token tid chain rcpt (createNonce rand)) ov"
  show "\<exists>v1 v2. fst (nft_transferFromEth S rand bridge token tid chain rcpt ov h) \<in>
      {h @ [?a], h @ [?a, WaitTx v1], h @ [?a, WaitTx v1, ?t], h @ [?a, WaitTx v1, ?t, WaitTx v2]}"
    by (auto simp: nft_transferFromEth_def sendAndWait_def bindH_def split: sum.splits prod.splits)
  show "\<forall>h' rc. nft_transferFromEth S rand bridge token tid chain rcpt ov h = (h', Inr rc) \<longrightarrow>
      (\<exists>v1 r1. waitTx S (h @ [?a]) v1 = Inr r1 \<and> ?t \<in> set h')"
    by (auto simp: nft_transferFromEth_def sendAndWait_def bindH_eq_Inr)
  show "\<exists>ov'. SendTx bridge (OpWrapAndTransferETH chain rcpt fee' (createNonce rand)) ov' \<in>
        set (fst (transferFromEthNative S rand bridge amt chain rcpt fee' ov h)) \<and> ov' ''value'' = Some amt \<and>
      (\<forall>k. k \<noteq> ''value'' \<longrightarrow> ov' k = ov k)"
    by (intro exI [of _ "ov(''value'' \<mapsto> amt)"])
      (auto simp: transferFromEthNative_def sendAndWait_def bindH_def split: sum.splits)
qed

text \<open>A signer whose node accepts everything: the transaction hash counts the calls made so far.\<close>

definition demo_eth_signer :: "nat eth_signer" where
  "demo_eth_signer = \<lparr>sendTx = (\<lambda>h a op ov. Inr (decimal (length h))), waitTx = (\<lambda>h v. Inr (length h))\<rparr>"

theorem ethTransfers_order_witness:
  "SendTx ''0xb'' (OpTransferNFT ''0xa'' 7 1 [1] (createNonce 0)) Map.empty
     \<in> set (fst (nft_transferFromEth demo_eth_signer 0 ''0xb'' ''0xa'' 7 1 [1] Map.empty []))"
proof -
  obtain h' rc where "nft_transferFromEth demo_eth_signer 0 ''0xb'' ''0xa'' 7 1 [1] Map.empty [] = (h', Inr rc)"
    by (simp add: nft_transferFromEth_def sendAndWait_def bindH_def demo_eth_signer_def)
  then show ?thesis
    using ethTransfers_order [where S = demo_eth_signer and rand = 0 and bridge = "''0xb''" and token = "''0xa''" and tid = 7
        and chain = 1 and rcpt = "[1]" and ov = Map.empty and h = "[]"] by auto
qed

text \<open>What \<open>arrayify(BigNumber.from(s))\<close> of ethers does: the bytes of the number without leading zeros.\<close>

definition number_laws :: "(string \<Rightarrow> bytes result) \<Rightarrow> bool" where
  "number_laws arrayifyNumber \<longleftrightarrow>
     (\<forall>n. 0 < n \<longrightarrow> n < 256 ^ 32 \<longrightarrow>
        arrayifyNumber (decimal n) = Inr (dropWhile (\<lambda>b. b = 0) (be_bytes 32 n)))"

text \<open>for an NFT that came from Solana the asset address is computed from the token id as a
  number, without padding: it is the public key exactly when that has no leading zero byte.\<close>

theorem nft_getOriginalAssetEth_solana:
  assumes N: "number_laws N" and pk: "length pk = 32" "0 < be_nat pk"
    and v: "w \<noteq> ''''" "v_isWrappedAsset V bridge w = Inr True" "v_chainId V w = Inr CHAIN_ID_SOLANA"
      "v_nativeContract V w = Inr c"
  shows "\<exists>info. nft_getOriginalAssetEth V L N bridge w (decimal (be_nat pk)) chain = Inr info \<and>
    we_isWrapped info \<and> we_chainId info = CHAIN_ID_SOLANA \<and>
    (we_assetAddress info = pk \<longleftrightarrow> hd pk \<noteq> 0) \<and> be_nat (we_assetAddress info) = be_nat pk"
proof -
  have "be_nat pk < 256 ^ 32" using be_nat_bound [of pk] pk(1) by simp
  then have "N (decimal (be_nat pk)) = Inr (dropWhile (\<lambda>b. b = 0) (be_bytes 32 (be_nat pk)))"
    using N pk(2) unfolding number_laws_def by blast
  moreover have "be_bytes 32 (be_nat pk) = pk" using be_bytes_be_nat [of pk] pk(1) by simp
  ultimately have "N (decimal (be_nat pk)) = Inr (dropWhile (\<lambda>b. b = 0) pk)" by simp
  then have r: "nft_getOriginalAssetEth V L N bridge w (decimal (be_nat pk)) chain =
      Inr \<lparr>we_isWrapped = True, we_chainId = CHAIN_ID_SOLANA, we_assetAddress = dropWhile (\<lambda>b. b = 0) pk,
           we_tokenId = Some (decimal (be_nat pk))\<rparr>"
    using v by (simp add: nft_getOriginalAssetEth_def getIsWrappedAssetEth_def)
  have "dropWhile (\<lambda>b. b = 0) pk = pk \<longleftrightarrow> hd pk \<noteq> 0"
  proof (cases pk)
    case (Cons a as)
    have "length (dropWhile (\<lambda>b. b = 0) as) < length (a # as)" by (simp add: le_imp_less_Suc length_dropWhile_le)
    then have "dropWhile (\<lambda>b. b = 0) as \<noteq> a # as" by auto
    then show ?thesis using Cons by auto
  qed (use pk(1) in simp)
  moreover have "be_nat (dropWhile (\<lambda>b. b = 0) bs) = be_nat bs" for bs
    by (induction bs) (auto simp: be_nat_Cons)
  ultimately show ?thesis using r by simp
qed

definition undecimal :: "string \<Rightarrow> nat" where
  "undecimal s = foldl (\<lambda>a c. 10 * a + (of_char c - 48)) 0 s"

lemma undecimal_decimal: "undecimal (decimal n) = n"
proof (induction n rule: decimal.induct)
  case (1 n)
  have d: "(of_char (''0123456789'' ! k) :: nat) - 48 = k" if "k < 10" for k
  proof -
    have "k = 0 \<or> k = 1 \<or> k = 2 \<or> k = 3 \<or> k = 4 \<or> k = 5 \<or> k = 6 \<or> k = 7 \<or> k = 8 \<or> k = 9"
      using that by presburger
    then show ?thesis by (elim disjE) simp_all
  qed
  show ?case
  proof (cases "n < 10")
    case True
    then show ?thesis using d [OF True] by (simp add: decimal.simps [of n] undecimal_def)
  next
    case False
    have "undecimal (decimal n) = 10 * undecimal (decimal (n div 10)) + ((of_char (''0123456789'' ! (n mod 10)) :: nat) - 48)"
      using False by (simp add: decimal.simps [of n] undecimal_def)
    then show ?thesis using 1 [OF False] d [of "n mod 10"] by simp
  qed
qed

definition demo_arrayifyNumber :: "string \<Rightarrow> bytes result" where
  "demo_arrayifyNumber s = Inr (dropWhile (\<lambda>b. b = 0) (be_bytes 32 (undecimal s)))"

lemma demo_number: "number_laws demo_arrayifyNumber"
  by (simp add: number_laws_def demo_arrayifyNumber_def undecimal_decimal del: be_bytes.simps)

definition demo_views :: eth_views where
  "demo_views = \<lparr>v_allowance = (\<lambda>t a b. Inr 0), v_isWrappedAsset = (\<lambda>b a. Inr True), v_chainId = (\<lambda>t. Inr CHAIN_ID_SOLANA),
     v_nativeContract = (\<lambda>t. Inr ''0x01''), v_wrappedAsset = (\<lambda>b c a. Inr ''0x02''), v_isTransferCompleted = (\<lambda>b h. Inr False)\<rparr>"

theorem nft_getOriginalAssetEth_solana_witness:
  "\<exists>info. nft_getOriginalAssetEth demo_views demo_libs demo_arrayifyNumber ''0xb'' ''0xa''
     (decimal (be_nat (0 # replicate 31 1))) 2 = Inr info \<and> we_assetAddress info \<noteq> 0 # replicate 31 1"
proof -
  have "replicate 31 1 = (1::byte) # replicate 30 1" using replicate_Suc [of 30 "1::byte"] by simp
  then have "0 < be_nat (0 # replicate 31 1)" by (simp only: be_nat_Cons) simp
  from nft_getOriginalAssetEth_solana [OF demo_number _ this, where w = "''0xa''" and V = demo_views and L = demo_libs
      and bridge = "''0xb''" and c = "''0x01''" and chain = 2]
  show ?thesis by (force simp: demo_views_def)
qed

end
