(* ===== verification/SignedVAA.thy ===== *)
theory SignedVAA
  imports Prelude
begin

text \<open>
  Asking the guardians' RPC hosts for a signed VAA until one of them has it:
  \<open>sdk/js/src/rpc/getSignedVAAWithRetry.ts\<close> and \<open>bridge_ui/src/utils/getSignedVAAWithRetry.ts\<close>. The
  loops need not end, so they are partial functions: \<open>None\<close> is a promise that never settles.

  The request is a parameter \<open>api\<close>: the outcome of the request number \<open>n\<close> of the loop to a host,
  where \<open>None\<close> as a result is a falsy value. A host is undefined (\<open>None\<close>) when there are no hosts.
\<close>

section \<open>Repeated attempts\<close>

text \<open>
  The interface of such a loop: \<open>body a\<close> is the outcome when \<open>a\<close> attempts have failed, if it settles
  the promise; the loop unfolds to its body, and it settles with nothing that no attempt yields.
\<close>

locale attempt_loop =
  fixes body :: "nat \<Rightarrow> 'b option"
    and loop :: "nat \<Rightarrow> 'b option"
  assumes unfold_loop: "loop a = (case body a of Some r \<Rightarrow> Some r | None \<Rightarrow> loop (Suc a))"
    and settles: "loop a = Some r \<Longrightarrow> \<exists>k\<ge>a. body k = Some r"
begin

lemma loop_skip: "a \<le> k \<Longrightarrow> (\<And>j. a \<le> j \<Longrightarrow> j < k \<Longrightarrow> body j = None) \<Longrightarrow> loop a = loop k"
proof (induction k rule: dec_induct)
  case (step n)
  then have "loop a = loop n" "body n = None" by simp_all
  then show ?case using unfold_loop [of n] by simp
qed simp

lemma loop_first:
  assumes "a \<le> k" "body k = Some r" "\<And>j. a \<le> j \<Longrightarrow> j < k \<Longrightarrow> body j = None"
  shows "loop a = Some r"
proof -
  have "loop a = loop k" using assms(1,3) by (rule loop_skip)
  then show ?thesis using assms(2) unfold_loop [of k] by simp
qed

lemma loop_diverges: "(\<And>k. a \<le> k \<Longrightarrow> body k = None) \<Longrightarrow> loop a = None"
  by (metis not_None_eq option.distinct(1) settles)

lemma loop_returns:
  assumes "a \<le> k" "body k \<noteq> None"
  shows "\<exists>r. loop a = Some r"
proof -
  define k0 where "k0 = (LEAST j. a \<le> j \<and> body j \<noteq> None)"
  have k0: "a \<le> k0" "body k0 \<noteq> None" using LeastI [of "\<lambda>j. a \<le> j \<and> body j \<noteq> None" k] assms unfolding k0_def by auto
  then obtain r where "body k0 = Some r" by auto
  moreover have "body j = None" if "a \<le> j" "j < k0" for j using not_less_Least [of j] that unfolding k0_def by blast
  ultimately show ?thesis using loop_first k0(1) by blast
qed

lemma loop_returns_iff: "(\<exists>r. loop a = Some r) \<longleftrightarrow> (\<exists>k\<ge>a. body k \<noteq> None)"
  using loop_returns settles by fastforce

end

section \<open>The SDK\<close>

type_synonym 'r api = "nat \<Rightarrow> string option \<Rightarrow> 'r option result"

definition nextHost :: "string list \<Rightarrow> int \<Rightarrow> string option" where
  "nextHost hosts cur = (if hosts = [] then None else Some (hosts ! nat (cur mod int (length hosts))))"

definition exhausted :: "int option \<Rightarrow> nat \<Rightarrow> bool" where
  "exhausted retryAttempts attempts = (case retryAttempts of None \<Rightarrow> False | Some m \<Rightarrow> int attempts > m)"

partial_function (option) sdkLoop :: "'r api \<Rightarrow> string list \<Rightarrow> int option \<Rightarrow> nat \<Rightarrow> int \<Rightarrow> 'r result option" where
  "sdkLoop api hosts retryAttempts attempts cur =
     (case api (attempts + 1) (nextHost hosts (cur + 1)) of
        Inr (Some result) \<Rightarrow> Some (Inr result)
      | Inr None \<Rightarrow> sdkLoop api hosts retryAttempts (attempts + 1) (cur + 1)
      | Inl e \<Rightarrow> if exhausted retryAttempts (attempts + 1) then Some (Inl e)
                else sdkLoop api hosts retryAttempts (attempts + 1) (cur + 1))"

definition getSignedVAAWithRetry :: "'r api \<Rightarrow> string list \<Rightarrow> int option \<Rightarrow> 'r result option" where
  "getSignedVAAWithRetry api hosts retryAttempts = sdkLoop api hosts retryAttempts 0 (- 1)"

section \<open>The bridge UI\<close>

text \<open>The counter is a variable of the module, so each call goes on with the host after the last one
  asked. The result carries its new value.\<close>

partial_function (option) uiLoop :: "'r api \<Rightarrow> string list \<Rightarrow> int option \<Rightarrow> nat \<Rightarrow> int \<Rightarrow> ('r result \<times> int) option" where
  "uiLoop api hosts retryAttempts attempts CURRENT_WORMHOLE_RPC_HOST =
     (let CURRENT_WORMHOLE_RPC_HOST = CURRENT_WORMHOLE_RPC_HOST + 1 in
      case api (attempts + 1) (nextHost hosts CURRENT_WORMHOLE_RPC_HOST) of
        Inr (Some result) \<Rightarrow> Some (Inr result, CURRENT_WORMHOLE_RPC_HOST)
      | Inr None \<Rightarrow> uiLoop api hosts retryAttempts (attempts + 1) CURRENT_WORMHOLE_RPC_HOST
      | Inl e \<Rightarrow> if exhausted retryAttempts (attempts + 1) then Some (Inl e, CURRENT_WORMHOLE_RPC_HOST)
                else uiLoop api hosts retryAttempts (attempts + 1) CURRENT_WORMHOLE_RPC_HOST)"

definition uiGetSignedVAAWithRetry :: "'r api \<Rightarrow> string list \<Rightarrow> int option \<Rightarrow> int \<Rightarrow> ('r result \<times> int) option" where
  "uiGetSignedVAAWithRetry api hosts retryAttempts cur = uiLoop api hosts retryAttempts 0 cur"

section \<open>Both loops are loops of attempts\<close>

definition attempt :: "'r api \<Rightarrow> string list \<Rightarrow> int option \<Rightarrow> int \<Rightarrow> nat \<Rightarrow> 'r result option" where
  "attempt api hosts retryAttempts cur a =
     (case api (Suc a) (nextHost hosts (cur + int a + 1)) of
        Inr (Some result) \<Rightarrow> Some (Inr result)
      | Inr None \<Rightarrow> None
      | Inl e \<Rightarrow> if exhausted retryAttempts (Suc a) then Some (Inl e) else None)"

lemma sdkLoop_settles:
  assumes "sdkLoop api hosts m a (cur + int a) = Some r"
  shows "\<exists>k\<ge>a. attempt api hosts m cur k = Some r"
proof -
  have "\<forall>cur'. cur + int a = cur' + int a \<longrightarrow> (\<exists>k\<ge>a. attempt api hosts m cur' k = Some r)"
  proof (rule sdkLoop.raw_induct [where P = "\<lambda>api hosts m a c r. \<forall>cur. c = cur + int a \<longrightarrow>
      (\<exists>k\<ge>a. attempt api hosts m cur k = Some r)", OF _ assms], intro allI impI)
    fix loop api hosts m a c r cur
    assume IH: "\<And>api hosts m a c r. loop api hosts m a c = Some r \<Longrightarrow>
        \<forall>cur. c = cur + int a \<longrightarrow> (\<exists>k\<ge>a. attempt api hosts m cur k = Some r)"
      and run: "(case api (a + 1) (nextHost hosts (c + 1)) of
          Inl e \<Rightarrow> if exhausted m (a + 1) then Some (Inl e) else loop api hosts m (a + 1) (c + 1)
        | Inr None \<Rightarrow> loop api hosts m (a + 1) (c + 1)
        | Inr (Some result) \<Rightarrow> Some (Inr result)) = Some r"
      and c: "c = cur + int a"
    show "\<exists>k\<ge>a. attempt api hosts m cur k = Some r"
    proof (cases "attempt api hosts m cur a")
      case None
      then have "loop api hosts m (Suc a) (c + 1) = Some r"
        using run c by (auto simp: attempt_def Let_def split: sum.splits option.splits if_splits)
      moreover have "c + 1 = cur + int (Suc a)" using c by simp
      ultimately have "\<exists>k\<ge>Suc a. attempt api hosts m cur k = Some r" using IH by blast
      then show ?thesis using Suc_leD by blast
    next
      case (Some r')
      then have "r' = r" using run c by (auto simp: attempt_def Let_def split: sum.splits option.splits if_splits)
      then show ?thesis using Some by auto
    qed
  qed
  then show ?thesis by simp
qed

interpretation sdk: attempt_loop "attempt api hosts m cur" "\<lambda>a. sdkLoop api hosts m a (cur + int a)"
  for api :: "'r api" and hosts m cur
proof
  fix a
  show "sdkLoop api hosts m a (cur + int a) = (case attempt api hosts m cur a of Some r \<Rightarrow> Some r
      | None \<Rightarrow> sdkLoop api hosts m (Suc a) (cur + int (Suc a)))"
    by (subst sdkLoop.simps) (simp add: attempt_def ac_simps split: sum.split option.split)
qed (rule sdkLoop_settles)

text \<open>The loop of the bridge UI also returns the counter.\<close>

definition uiAttempt :: "'r api \<Rightarrow> string list \<Rightarrow> int option \<Rightarrow> int \<Rightarrow> nat \<Rightarrow> ('r result \<times> int) option" where
  "uiAttempt api hosts retryAttempts cur a =
     map_option (\<lambda>r. (r, cur + int a + 1)) (attempt api hosts retryAttempts cur a)"

lemma uiLoop_settles:
  assumes "uiLoop api hosts m a (cur + int a) = Some r"
  shows "\<exists>k\<ge>a. uiAttempt api hosts m cur k = Some r"
proof -
  have "\<forall>cur'. cur + int a = cur' + int a \<longrightarrow> (\<exists>k\<ge>a. uiAttempt api hosts m cur' k = Some r)"
  proof (rule uiLoop.raw_induct [where P = "\<lambda>api hosts m a c r. \<forall>cur. c = cur + int a \<longrightarrow>
      (\<exists>k\<ge>a. uiAttempt api hosts m cur k = Some r)", OF _ assms], intro allI impI)
    fix loop api hosts m a c r cur
    assume IH: "\<And>api hosts m a c r. loop api hosts m a c = Some r \<Longrightarrow>
        \<forall>cur. c = cur + int a \<longrightarrow> (\<exists>k\<ge>a. uiAttempt api hosts m cur k = Some r)"
      and run: "(let c = c + 1 in case api (a + 1) (nextHost hosts c) of
          Inl e \<Rightarrow> if exhausted m (a + 1) then Some (Inl e, c) else loop api hosts m (a + 1) c
        | Inr None \<Rightarrow> loop api hosts m (a + 1) c
        | Inr (Some result) \<Rightarrow> Some (Inr result, c)) = Some r"
      and c: "c = cur + int a"
    show "\<exists>k\<ge>a. uiAttempt api hosts m cur k = Some r"
    proof (cases "attempt api hosts m cur a")
      case None
      then have "loop api hosts m (Suc a) (c + 1) = Some r"
        using run c by (auto simp: attempt_def Let_def split: sum.splits option.splits if_splits)
      moreover have "c + 1 = cur + int (Suc a)" using c by simp
      ultimately have "\<exists>k\<ge>Suc a. uiAttempt api hosts m cur k = Some r" using IH by blast
      then show ?thesis using Suc_leD by blast
    next
      case (Some r')
      then have "(r', c + 1) = r" using run c by (auto simp: attempt_def Let_def split: sum.splits option.splits if_splits)
      then show ?thesis using Some c by (intro exI [of _ a]) (simp add: uiAttempt_def)
    qed
  qed
  then show ?thesis by simp
qed

interpretation ui: attempt_loop "uiAttempt api hosts m cur" "\<lambda>a. uiLoop api hosts m a (cur + int a)"
  for api :: "'r api" and hosts m cur
proof
  fix a
  show "uiLoop api hosts m a (cur + int a) = (case uiAttempt api hosts m cur a of Some r \<Rightarrow> Some r
      | None \<Rightarrow> uiLoop api hosts m (Suc a) (cur + int (Suc a)))"
    by (subst uiLoop.simps) (simp add: uiAttempt_def attempt_def Let_def ac_simps split: sum.split option.split)
qed (rule uiLoop_settles)

section \<open>Properties\<close>

text \<open>What the request number \<open>k + 1\<close> of a call of the SDK function yields.\<close>

definition reply :: "'r api \<Rightarrow> string list \<Rightarrow> nat \<Rightarrow> 'r option result" where
  "reply api hosts k = api (Suc k) (nextHost hosts (int k))"

lemma attempt_reply:
  "attempt api hosts m (- 1) k = (case reply api hosts k of
      Inr (Some r) \<Rightarrow> Some (Inr r) | Inr None \<Rightarrow> None
    | Inl e \<Rightarrow> if exhausted m (Suc k) then Some (Inl e) else None)"
  by (simp add: attempt_def reply_def)

lemma sdk_first:
  assumes "attempt api hosts m (- 1) k = Some r" "\<And>j. j < k \<Longrightarrow> attempt api hosts m (- 1) j = None"
  shows "getSignedVAAWithRetry api hosts m = Some r"
  using sdk.loop_first [of 0 k api hosts m "- 1" r] assms by (simp add: getSignedVAAWithRetry_def)

text \<open>C15: with a bound \<open>m\<close> on the retries, and hosts that answer with a VAA or fail, the function
  returns: the first VAA that one of the first \<open>m + 1\<close> requests yields, or else the error of the
  last of them.\<close>

theorem getSignedVAAWithRetry_bounded:
  assumes "\<And>k. reply api hosts k \<noteq> Inr None"
  shows "\<exists>k\<le>nat m. (\<forall>j<k. \<exists>e. reply api hosts j = Inl e) \<and>
    (case reply api hosts k of
       Inr r \<Rightarrow> getSignedVAAWithRetry api hosts (Some m) = Some (Inr (the r))
     | Inl e \<Rightarrow> k = nat m \<and> getSignedVAAWithRetry api hosts (Some m) = Some (Inl e))"
proof (cases "\<exists>k\<le>nat m. \<exists>r. reply api hosts k = Inr r")
  case True
  then obtain k where k: "k \<le> nat m" "\<exists>r. reply api hosts k = Inr r"
    "\<And>j. j < k \<Longrightarrow> \<not> (\<exists>r. reply api hosts j = Inr r)"
    using exists_least_iff [of "\<lambda>k. k \<le> nat m \<and> (\<exists>r. reply api hosts k = Inr r)"] by auto
  then obtain r where r: "reply api hosts k = Inr (Some r)" using assms by (metis not_None_eq)
  have e: "\<exists>e. reply api hosts j = Inl e" if "j < k" for j using k(3) that by (meson sum.exhaust)
  moreover have "attempt api hosts (Some m) (- 1) j = None" if "j < k" for j
    using e [OF that] that k(1) by (auto simp: attempt_reply exhausted_def)
  then have "getSignedVAAWithRetry api hosts (Some m) = Some (Inr r)"
    using r by (intro sdk_first [of _ _ _ k]) (simp_all add: attempt_reply)
  ultimately show ?thesis using k(1) r by (intro exI [of _ k]) simp
next
  case False
  then have e: "\<exists>e. reply api hosts j = Inl e" if "j \<le> nat m" for j using that by (meson sum.exhaust)
  then obtain e0 where e0: "reply api hosts (nat m) = Inl e0" by blast
  have "attempt api hosts (Some m) (- 1) j = None" if "j < nat m" for j
    using e [of j] that by (auto simp: attempt_reply exhausted_def)
  then have "getSignedVAAWithRetry api hosts (Some m) = Some (Inl e0)"
    using e0 by (intro sdk_first [of _ _ _ "nat m"]) (simp_all add: attempt_reply exhausted_def)
  then show ?thesis using e e0 by (intro exI [of _ "nat m"]) simp
qed

theorem getSignedVAAWithRetry_bounded_witness:
  "getSignedVAAWithRetry (\<lambda>n h. Inl (Error ''not found'')) [''a'', ''b''] (Some 3) =
     Some (Inl (Error ''not found'') :: nat result)"
  using getSignedVAAWithRetry_bounded [of "\<lambda>n h. Inl (Error ''not found'') :: nat option result" "[''a'', ''b'']" 3]
  by (simp add: reply_def)

text \<open>without a bound the function returns exactly when some request yields a VAA, and then
  the first one; it never reports an error.\<close>

theorem getSignedVAAWithRetry_unbounded:
  "(case getSignedVAAWithRetry api hosts None of
      None \<Rightarrow> \<forall>k r. reply api hosts k \<noteq> Inr (Some r)
    | Some (Inl e) \<Rightarrow> False
    | Some (Inr r) \<Rightarrow> \<exists>k. reply api hosts k = Inr (Some r) \<and> (\<forall>j<k. \<forall>r'. reply api hosts j \<noteq> Inr (Some r')))"
proof (cases "\<exists>k r. reply api hosts k = Inr (Some r)")
  case True
  then obtain k r where k: "reply api hosts k = Inr (Some r)" "\<And>j. j < k \<Longrightarrow> \<not> (\<exists>r. reply api hosts j = Inr (Some r))"
    using exists_least_iff [of "\<lambda>k. \<exists>r. reply api hosts k = Inr (Some r)"] by auto
  have "attempt api hosts None (- 1) j = None" if "j < k" for j
    using k(2) [OF that] by (auto simp: attempt_reply exhausted_def split: sum.split option.split)
  then have "getSignedVAAWithRetry api hosts None = Some (Inr r)"
    using k(1) by (intro sdk_first [of _ _ _ k]) (simp_all add: attempt_reply)
  then show ?thesis using k by auto
next
  case False
  then have "attempt api hosts None (- 1) j = None" for j
    by (auto simp: attempt_reply exhausted_def split: sum.split option.split)
  then have "getSignedVAAWithRetry api hosts None = None"
    using sdk.loop_diverges [of 0 api hosts None "- 1"] by (simp add: getSignedVAAWithRetry_def)
  then show ?thesis using False by simp
qed

theorem getSignedVAAWithRetry_unbounded_witness:
  "\<not> (\<exists>e. getSignedVAAWithRetry (\<lambda>n h. if h = Some ''b'' then Inr (Some n) else Inl (Error ''not found''))
     [''a'', ''b''] None = Some (Inl e))"
  using getSignedVAAWithRetry_unbounded
    [of "\<lambda>n h. if h = Some ''b'' then Inr (Some n) else Inl (Error ''not found'')" "[''a'', ''b'']"]
  by (auto split: option.splits)

lemma nextHost_mod: "hosts \<noteq> [] \<Longrightarrow> nextHost hosts (int k) = Some (hosts ! (k mod length hosts))"
  by (simp add: nextHost_def nat_mod_distrib flip: zmod_int)

lemma hosts_covered:
  assumes "host \<in> set hosts"
  shows "\<exists>j<length hosts. nextHost hosts (int c + int j) = Some host"
proof -
  obtain i where i: "i < length hosts" "hosts ! i = host" using assms by (auto simp: in_set_conv_nth)
  let ?n = "length hosts"
  let ?j = "(i + (?n - c mod ?n)) mod ?n"
  have n: "0 < ?n" using i by linarith
  have "(c + ?j) mod ?n = (c mod ?n + (i + (?n - c mod ?n))) mod ?n" by (simp add: mod_simps)
  also have "c mod ?n + (i + (?n - c mod ?n)) = i + ?n"
    using mod_less_divisor [OF n, of c] by linarith
  finally have "(c + ?j) mod ?n = i" using i(1) by simp
  then have "nextHost hosts (int (c + ?j)) = Some host" using i n by (subst nextHost_mod) auto
  moreover have "?j < ?n" using n by simp
  ultimately show ?thesis by (intro exI [of _ ?j]) simp
qed

lemma ui_sdk:
  "map_option fst (uiLoop api hosts m 0 cur) = sdkLoop api hosts m 0 cur"
proof (cases "\<exists>k. attempt api hosts m cur k \<noteq> None")
  case True
  then obtain k r where k: "attempt api hosts m cur k = Some r" "\<And>j. j < k \<Longrightarrow> attempt api hosts m cur j = None"
    using exists_least_iff [of "\<lambda>k. attempt api hosts m cur k \<noteq> None"] by auto
  then have "sdkLoop api hosts m 0 cur = Some r" using sdk.loop_first [of 0 k api hosts m cur r] by simp
  moreover have "uiLoop api hosts m 0 cur = Some (r, cur + int k + 1)"
    using ui.loop_first [of 0 k api hosts m cur "(r, cur + int k + 1)"] k by (simp add: uiAttempt_def)
  ultimately show ?thesis by simp
next
  case False
  then have "sdkLoop api hosts m 0 cur = None" "uiLoop api hosts m 0 cur = None"
    using sdk.loop_diverges [of 0 api hosts m cur] ui.loop_diverges [of 0 api hosts m cur] by (simp_all add: uiAttempt_def)
  then show ?thesis by simp
qed

text \<open>the bridge UI's function gives the result of the SDK's when its counter is fresh, and
  leaves the counter at the number of requests made less one; and whatever the counter, each host is
  asked within as many requests as there are hosts.\<close>

theorem uiGetSignedVAAWithRetry_rotates:
  "map_option fst (uiGetSignedVAAWithRetry api hosts m (- 1)) = getSignedVAAWithRetry api hosts m \<and>
   (\<forall>r c. uiGetSignedVAAWithRetry api hosts m (- 1) = Some (r, c) \<longrightarrow>
      (\<exists>k. c = int k \<and> attempt api hosts m (- 1) k = Some r)) \<and>
   (\<forall>c. \<forall>host\<in>set hosts. \<exists>j<length hosts. nextHost hosts (int c + int j) = Some host)"
proof (intro conjI allI impI ballI)
  show "map_option fst (uiGetSignedVAAWithRetry api hosts m (- 1)) = getSignedVAAWithRetry api hosts m"
    by (simp add: uiGetSignedVAAWithRetry_def getSignedVAAWithRetry_def ui_sdk)
  fix r c assume "uiGetSignedVAAWithRetry api hosts m (- 1) = Some (r, c)"
  then obtain k where "uiAttempt api hosts m (- 1) k = Some (r, c)"
    using ui.settles [of api hosts m 0 "- 1" "(r, c)"] by (auto simp: uiGetSignedVAAWithRetry_def)
  then show "\<exists>k. c = int k \<and> attempt api hosts m (- 1) k = Some r" by (auto simp: uiAttempt_def)
qed (rule hosts_covered)

theorem uiGetSignedVAAWithRetry_rotates_witness:
  "\<exists>j<3. nextHost [''a'', ''b'', ''c''] (int 7 + int j) = Some ''a''"
proof -
  have "\<exists>j<length [''a'', ''b'', ''c'']. nextHost [''a'', ''b'', ''c''] (int 7 + int j) = Some ''a''"
    using uiGetSignedVAAWithRetry_rotates [of "\<lambda>n h. Inr (Some ())" "[''a'', ''b'', ''c'']" None]
    by (meson list.set_intros(1))
  then show ?thesis by (simp add: numeral_3_eq_3)
qed

end
