(* ===== verification/Store.thy ===== *)
theory Store
  imports Addresses
begin

text \<open>
  What the slices of the bridge UI's store share (\<open>bridge_ui/src/store/\<close>): the data wrappers of
  \<open>helpers.ts\<close>, the types of \<open>transferSlice.ts\<close> that the others import, the interface of a slice
  with its reachable states, and the two small slices \<open>tokenSlice.ts\<close> and \<open>feeSlice.ts\<close>.

  A reducer that mutates its draft is a function from states to states. A field that may be
  undefined or null is an option. The time stamp \<open>new Date().toISOString()\<close> is a parameter \<open>now\<close>.
  The type \<open>Steps\<close> is a natural number; that the payloads of its type are at most 3 is a condition
  on actions.
\<close>

section \<open>Data wrappers (\<open>helpers.ts\<close>)\<close>

record 'a data_wrapper =
  data :: "'a option"
  dw_error :: "string option"
  isFetching :: bool
  receivedAt :: "string option"

definition getEmptyDataWrapper :: "'a data_wrapper" where
  "getEmptyDataWrapper = \<lparr>data = None, dw_error = None, isFetching = False, receivedAt = None\<rparr>"

definition receiveDataWrapper :: "string \<Rightarrow> 'a \<Rightarrow> 'a data_wrapper" where
  "receiveDataWrapper now d = \<lparr>data = Some d, dw_error = None, isFetching = False, receivedAt = Some now\<rparr>"

definition errorDataWrapper :: "string \<Rightarrow> 'a data_wrapper" where
  "errorDataWrapper err = \<lparr>data = None, dw_error = Some err, isFetching = False, receivedAt = None\<rparr>"

definition fetchDataWrapper :: "'a data_wrapper" where
  "fetchDataWrapper = \<lparr>data = None, dw_error = None, isFetching = True, receivedAt = None\<rparr>"

text \<open>A wrapper is in one of four phases.\<close>

definition wrapper_ok :: "'a data_wrapper \<Rightarrow> bool" where
  "wrapper_ok w \<longleftrightarrow>
     (data w = None \<or> dw_error w = None) \<and> (isFetching w \<longrightarrow> data w = None \<and> dw_error w = None) \<and>
     (receivedAt w = None \<longleftrightarrow> data w = None)"

named_theorems store_defs

lemmas wrapper_defs [store_defs] =
  getEmptyDataWrapper_def receiveDataWrapper_def errorDataWrapper_def fetchDataWrapper_def

lemma wrapper_ok_simps [simp]:
  "wrapper_ok getEmptyDataWrapper" "wrapper_ok (receiveDataWrapper now d)"
  "wrapper_ok (errorDataWrapper e)" "wrapper_ok fetchDataWrapper"
  by (simp_all add: wrapper_ok_def wrapper_defs)

section \<open>Shared types\<close>

record parsed_token_account =
  publicKey :: string
  mintKey :: string
  acc_amount :: string
  decimals :: nat
  uiAmount :: rat
  uiAmountString :: string
  acc_symbol :: "string option"
  acc_name :: "string option"
  logo :: "string option"
  isNativeAsset :: "bool option"

record transaction_ref =
  tx_id :: string
  tx_block :: nat

record foreign_asset_info =
  doesExist :: bool
  fa_address :: "string option"

record wrapped_info =
  isWrapped :: bool
  wi_chainId :: nat
  assetAddress :: string
  wi_tokenId :: "string option"

definition LAST_STEP :: nat where
  "LAST_STEP = 3"

definition unknown_error :: string where
  "unknown_error = ''An unknown error occurred.''"

section \<open>Slices\<close>

text \<open>The states a slice can be in: its initial state, and what its reducer makes of a reachable
  state and an action that has the types it declares.\<close>

inductive reachable :: "'s \<Rightarrow> ('s \<Rightarrow> 'a \<Rightarrow> 's) \<Rightarrow> ('a \<Rightarrow> bool) \<Rightarrow> 's \<Rightarrow> bool"
  for init :: 's and reduce :: "'s \<Rightarrow> 'a \<Rightarrow> 's" and typed :: "'a \<Rightarrow> bool" where
  initial: "reachable init reduce typed init"
| dispatch: "reachable init reduce typed s \<Longrightarrow> typed a \<Longrightarrow> reachable init reduce typed (reduce s a)"

inductive_cases reachableE: "reachable init reduce typed s"

lemma reachable_foldl: "reachable init reduce typed s \<Longrightarrow> list_all typed as \<Longrightarrow> reachable init reduce typed (foldl reduce s as)"
  by (induction as arbitrary: s) (auto intro: reachable.dispatch)

lemma reachable_iff: "reachable init reduce typed s \<longleftrightarrow> (\<exists>as. list_all typed as \<and> s = foldl reduce init as)"
proof
  show "reachable init reduce typed s \<Longrightarrow> \<exists>as. list_all typed as \<and> s = foldl reduce init as"
  proof (induction rule: reachable.induct)
    case initial
    show ?case by (intro exI [of _ "[]"]) simp
  next
    case (dispatch s a)
    then obtain as where "list_all typed as" "s = foldl reduce init as" by blast
    then show ?case using dispatch(2) by (intro exI [of _ "as @ [a]"]) simp
  qed
next
  show "\<exists>as. list_all typed as \<and> s = foldl reduce init as \<Longrightarrow> reachable init reduce typed s"
    by (auto intro: reachable_foldl reachable.initial)
qed

text \<open>
  The contract of a slice: an invariant that the initial state has and every typed action keeps,
  and a relation (\<open>guarantee\<close>) between a state and the next that every action respects.
\<close>

locale slice =
  fixes init :: 's and reduce :: "'s \<Rightarrow> 'a \<Rightarrow> 's" and typed :: "'a \<Rightarrow> bool"
    and inv :: "'s \<Rightarrow> bool" and guarantee :: "'s \<Rightarrow> 's \<Rightarrow> bool"
  assumes init_inv: "inv init"
    and step_inv: "inv s \<Longrightarrow> typed a \<Longrightarrow> inv (reduce s a)"
    and step_guarantee: "inv s \<Longrightarrow> guarantee s (reduce s a)"
begin

lemma reachable_inv: "reachable init reduce typed s \<Longrightarrow> inv s"
  by (induction rule: reachable.induct) (auto intro: init_inv step_inv)

lemma reachable_guarantee: "reachable init reduce typed s \<Longrightarrow> guarantee s (reduce s a)"
  by (rule step_guarantee [OF reachable_inv])

lemma steps_inv: "inv s \<Longrightarrow> list_all typed as \<Longrightarrow> inv (foldl reduce s as)"
  by (induction as arbitrary: s) (auto intro: step_inv)

lemma run_inv: "list_all typed as \<Longrightarrow> inv (foldl reduce init as)"
  by (rule reachable_inv) (rule reachable_foldl [OF reachable.initial])

end

section \<open>\<open>tokenSlice.ts\<close>\<close>

text \<open>The three maps are opaque data.\<close>

record ('a, 'b, 'c) token_metadata_state =
  solanaTokenMap :: "'a data_wrapper"
  terraTokenMap :: "'b data_wrapper"
  marketsMap :: "'c data_wrapper"

datatype ('a, 'b, 'c) token_action =
    ReceiveSolanaTokenMap 'a | FetchSolanaTokenMap | ErrorSolanaTokenMap string
  | ReceiveTerraTokenMap 'b | FetchTerraTokenMap | ErrorTerraTokenMap string
  | ReceiveMarketsMap 'c | FetchMarketsMap | ErrorMarketsMap string
  | ResetTokens

definition token_initialState :: "('a, 'b, 'c) token_metadata_state" where
  "token_initialState = \<lparr>solanaTokenMap = getEmptyDataWrapper, terraTokenMap = getEmptyDataWrapper,
     marketsMap = getEmptyDataWrapper\<rparr>"

fun tokenReducer :: "string \<Rightarrow> ('a, 'b, 'c) token_metadata_state \<Rightarrow> ('a, 'b, 'c) token_action \<Rightarrow>
    ('a, 'b, 'c) token_metadata_state" where
  "tokenReducer now s (ReceiveSolanaTokenMap m) = s\<lparr>solanaTokenMap := receiveDataWrapper now m\<rparr>"
| "tokenReducer now s FetchSolanaTokenMap = s\<lparr>solanaTokenMap := fetchDataWrapper\<rparr>"
| "tokenReducer now s (ErrorSolanaTokenMap e) = s\<lparr>solanaTokenMap := errorDataWrapper e\<rparr>"
| "tokenReducer now s (ReceiveTerraTokenMap m) = s\<lparr>terraTokenMap := receiveDataWrapper now m\<rparr>"
| "tokenReducer now s FetchTerraTokenMap = s\<lparr>terraTokenMap := fetchDataWrapper\<rparr>"
| "tokenReducer now s (ErrorTerraTokenMap e) = s\<lparr>terraTokenMap := errorDataWrapper e\<rparr>"
| "tokenReducer now s (ReceiveMarketsMap m) = s\<lparr>marketsMap := receiveDataWrapper now m\<rparr>"
| "tokenReducer now s FetchMarketsMap = s\<lparr>marketsMap := fetchDataWrapper\<rparr>"
| "tokenReducer now s (ErrorMarketsMap e) = s\<lparr>marketsMap := errorDataWrapper e\<rparr>"
| "tokenReducer now s ResetTokens = token_initialState"

definition token_inv :: "('a, 'b, 'c) token_metadata_state \<Rightarrow> bool" where
  "token_inv s \<longleftrightarrow> wrapper_ok (solanaTokenMap s) \<and> wrapper_ok (terraTokenMap s) \<and> wrapper_ok (marketsMap s)"

text \<open>An action touches one map, unless it is the reset.\<close>

definition token_guarantee :: "('a, 'b, 'c) token_metadata_state \<Rightarrow> ('a, 'b, 'c) token_metadata_state \<Rightarrow> bool" where
  "token_guarantee s s' \<longleftrightarrow> s' = token_initialState \<or>
     (solanaTokenMap s' = solanaTokenMap s \<or> terraTokenMap s' = terraTokenMap s) \<and>
     (solanaTokenMap s' = solanaTokenMap s \<or> marketsMap s' = marketsMap s) \<and>
     (terraTokenMap s' = terraTokenMap s \<or> marketsMap s' = marketsMap s)"

interpretation tokens: slice token_initialState "tokenReducer now" "\<lambda>_. True" token_inv token_guarantee
  for now
proof
  show "token_inv token_initialState" by (simp add: token_inv_def token_initialState_def)
  fix s :: "('a, 'b, 'c) token_metadata_state" and a
  assume "token_inv s"
  then show "token_inv (tokenReducer now s a)"
    by (cases a) (simp_all add: token_inv_def token_initialState_def)
  show "token_guarantee s (tokenReducer now s a)"
    by (cases a) (simp_all add: token_guarantee_def)
qed

section \<open>\<open>feeSlice.ts\<close>\<close>

record fee_slice_state =
  terraFeeDenom :: string

definition SUPPORTED_TERRA_TOKENS :: "string list" where
  "SUPPORTED_TERRA_TOKENS = [''uluna'', ''uusd'']"

definition TERRA_DEFAULT_FEE_DENOM :: string where
  "TERRA_DEFAULT_FEE_DENOM = SUPPORTED_TERRA_TOKENS ! 0"

datatype fee_action = SetTerraFeeDenom string | ResetFee

fun feeReducer :: "fee_slice_state \<Rightarrow> fee_action \<Rightarrow> fee_slice_state" where
  "feeReducer s (SetTerraFeeDenom d) = s\<lparr>terraFeeDenom := d\<rparr>"
| "feeReducer s ResetFee = \<lparr>terraFeeDenom = TERRA_DEFAULT_FEE_DENOM\<rparr>"

end
