(* ===== verification/TransferSlice.thy ===== *)
theory TransferSlice
  imports Store
begin

text \<open>
  \<open>bridge_ui/src/store/transferSlice.ts\<close>: the state of the token transfer page and its reducers, one
  definition each, with the fields and the order of assignments of the source. The lemmas at the
  end give the slice its invariant (two different chains, a step of the page, well-formed data
  wrappers) and its guarantee (no stale data about the target), and interpret the interface of
  slices with them.
\<close>

section \<open>State\<close>

record transfer_state =
  activeStep :: nat
  sourceChain :: nat
  isSourceAssetWormholeWrapped :: "bool option"
  originChain :: "nat option"
  originAsset :: "string option"
  sourceWalletAddress :: "string option"
  sourceParsedTokenAccount :: "parsed_token_account option"
  sourceParsedTokenAccounts :: "parsed_token_account list data_wrapper"
  amount :: string
  targetChain :: nat
  targetAddressHex :: "string option"
  targetAsset :: "foreign_asset_info data_wrapper"
  targetParsedTokenAccount :: "parsed_token_account option"
  transferTx :: "transaction_ref option"
  signedVAAHex :: "string option"
  isSending :: bool
  isRedeeming :: bool
  redeemTx :: "transaction_ref option"
  isApproving :: bool
  isRecovery :: bool

definition transfer_initialState :: transfer_state where
  "transfer_initialState =
     \<lparr>activeStep = 0, sourceChain = CHAIN_ID_SOLANA, isSourceAssetWormholeWrapped = Some False,
      originChain = None, originAsset = None, sourceWalletAddress = None,
      sourceParsedTokenAccount = None, sourceParsedTokenAccounts = getEmptyDataWrapper,
      amount = '''', targetChain = CHAIN_ID_ETH, targetAddressHex = None,
      targetAsset = getEmptyDataWrapper, targetParsedTokenAccount = None, transferTx = None,
      signedVAAHex = None, isSending = False, isRedeeming = False, redeemTx = None,
      isApproving = False, isRecovery = False\<rparr>"

text \<open>The payload of \<open>setRecoveryVaa\<close>.\<close>

record recovery_payload =
  rp_vaa :: string
  rp_targetChain :: nat
  rp_targetAddress :: string
  rp_originChain :: nat
  rp_originAddress :: string
  rp_amount :: string

section \<open>Reducers\<close>

definition transfer_incrementStep :: "transfer_state \<Rightarrow> transfer_state" where
  "transfer_incrementStep s =
     (if activeStep s < LAST_STEP then s\<lparr>activeStep := activeStep s + 1\<rparr> else s)"

definition transfer_decrementStep :: "transfer_state \<Rightarrow> transfer_state" where
  "transfer_decrementStep s =
     (if activeStep s > 0 then s\<lparr>activeStep := activeStep s - 1\<rparr> else s)"

definition transfer_setStep :: "transfer_state \<Rightarrow> nat \<Rightarrow> transfer_state" where
  "transfer_setStep s payload =
     s\<lparr>activeStep := payload\<rparr>"

definition transfer_setSourceChain :: "transfer_state \<Rightarrow> nat \<Rightarrow> transfer_state" where
  "transfer_setSourceChain s payload =
     (let prevSourceChain = sourceChain s;
          s = s\<lparr>sourceChain := payload,
            sourceParsedTokenAccount := None,
            sourceParsedTokenAccounts := getEmptyDataWrapper,
            targetAsset := getEmptyDataWrapper,
            targetParsedTokenAccount := None,
            targetAddressHex := None,
            isSourceAssetWormholeWrapped := None,
            originChain := None,
            originAsset := None\<rparr> in
      if targetChain s = payload then s\<lparr>targetChain := prevSourceChain\<rparr> else s)"

definition transfer_setSourceWormholeWrappedInfo :: "transfer_state \<Rightarrow> wrapped_info \<Rightarrow> transfer_state" where
  "transfer_setSourceWormholeWrappedInfo s payload =
     s\<lparr>isSourceAssetWormholeWrapped := Some (isWrapped payload),
       originChain := Some (wi_chainId payload),
       originAsset := Some (assetAddress payload)\<rparr>"

definition transfer_setSourceWalletAddress :: "transfer_state \<Rightarrow> string option \<Rightarrow> transfer_state" where
  "transfer_setSourceWalletAddress s payload =
     s\<lparr>sourceWalletAddress := payload\<rparr>"

definition transfer_setSourceParsedTokenAccount :: "transfer_state \<Rightarrow> parsed_token_account option \<Rightarrow> transfer_state" where
  "transfer_setSourceParsedTokenAccount s payload =
     s\<lparr>sourceParsedTokenAccount := payload,
       targetAsset := getEmptyDataWrapper,
       targetParsedTokenAccount := None,
       targetAddressHex := None,
       isSourceAssetWormholeWrapped := None,
       originChain := None,
       originAsset := None\<rparr>"

definition transfer_setSourceParsedTokenAccounts :: "string \<Rightarrow> transfer_state \<Rightarrow> parsed_token_account list option \<Rightarrow> transfer_state" where
  "transfer_setSourceParsedTokenAccounts now s payload =
     s\<lparr>sourceParsedTokenAccounts :=
       (case payload of Some accounts \<Rightarrow> receiveDataWrapper now accounts | None \<Rightarrow> getEmptyDataWrapper)\<rparr>"

definition transfer_fetchSourceParsedTokenAccounts :: "transfer_state \<Rightarrow> transfer_state" where
  "transfer_fetchSourceParsedTokenAccounts s =
     s\<lparr>sourceParsedTokenAccounts := fetchDataWrapper\<rparr>"

definition transfer_errorSourceParsedTokenAccounts :: "transfer_state \<Rightarrow> string option \<Rightarrow> transfer_state" where
  "transfer_errorSourceParsedTokenAccounts s payload =
     s\<lparr>sourceParsedTokenAccounts := errorDataWrapper (orElse payload unknown_error)\<rparr>"

definition transfer_receiveSourceParsedTokenAccounts :: "string \<Rightarrow> transfer_state \<Rightarrow> parsed_token_account list \<Rightarrow> transfer_state" where
  "transfer_receiveSourceParsedTokenAccounts now s payload =
     s\<lparr>sourceParsedTokenAccounts := receiveDataWrapper now payload\<rparr>"

definition transfer_setAmount :: "transfer_state \<Rightarrow> string \<Rightarrow> transfer_state" where
  "transfer_setAmount s payload =
     s\<lparr>amount := payload\<rparr>"

definition transfer_setTargetChain :: "transfer_state \<Rightarrow> nat \<Rightarrow> transfer_state" where
  "transfer_setTargetChain s payload =
     (let prevTargetChain = targetChain s;
          s = s\<lparr>targetChain := payload,
            targetAddressHex := None,
            targetAsset := getEmptyDataWrapper,
            targetParsedTokenAccount := None\<rparr> in
      if sourceChain s = payload
      then s\<lparr>sourceChain := prevTargetChain,
        activeStep := 0,
        sourceParsedTokenAccount := None,
        isSourceAssetWormholeWrapped := None,
        originChain := None,
        originAsset := None,
        sourceParsedTokenAccounts := getEmptyDataWrapper\<rparr>
      else s)"

definition transfer_setTargetAddressHex :: "transfer_state \<Rightarrow> string option \<Rightarrow> transfer_state" where
  "transfer_setTargetAddressHex s payload =
     s\<lparr>targetAddressHex := payload\<rparr>"

definition transfer_setTargetAsset :: "transfer_state \<Rightarrow> foreign_asset_info data_wrapper \<Rightarrow> transfer_state" where
  "transfer_setTargetAsset s payload =
     s\<lparr>targetAsset := payload, targetParsedTokenAccount := None\<rparr>"

definition transfer_setTargetParsedTokenAccount :: "transfer_state \<Rightarrow> parsed_token_account option \<Rightarrow> transfer_state" where
  "transfer_setTargetParsedTokenAccount s payload =
     s\<lparr>targetParsedTokenAccount := payload\<rparr>"

definition transfer_setTransferTx :: "transfer_state \<Rightarrow> transaction_ref \<Rightarrow> transfer_state" where
  "transfer_setTransferTx s payload =
     s\<lparr>transferTx := Some payload\<rparr>"

definition transfer_setSignedVAAHex :: "transfer_state \<Rightarrow> string \<Rightarrow> transfer_state" where
  "transfer_setSignedVAAHex s payload =
     s\<lparr>signedVAAHex := Some payload, isSending := False, activeStep := 3\<rparr>"

definition transfer_setIsSending :: "transfer_state \<Rightarrow> bool \<Rightarrow> transfer_state" where
  "transfer_setIsSending s payload =
     s\<lparr>isSending := payload\<rparr>"

definition transfer_setIsRedeeming :: "transfer_state \<Rightarrow> bool \<Rightarrow> transfer_state" where
  "transfer_setIsRedeeming s payload =
     s\<lparr>isRedeeming := payload\<rparr>"

definition transfer_setRedeemTx :: "transfer_state \<Rightarrow> transaction_ref \<Rightarrow> transfer_state" where
  "transfer_setRedeemTx s payload =
     s\<lparr>redeemTx := Some payload, isRedeeming := False\<rparr>"

definition transfer_setIsApproving :: "transfer_state \<Rightarrow> bool \<Rightarrow> transfer_state" where
  "transfer_setIsApproving s payload =
     s\<lparr>isApproving := payload\<rparr>"

definition transfer_reset :: "transfer_state \<Rightarrow> transfer_state" where
  "transfer_reset s =
     transfer_initialState\<lparr>sourceChain := sourceChain s, targetChain := targetChain s\<rparr>"

definition transfer_setRecoveryVaa :: "transfer_state \<Rightarrow> recovery_payload \<Rightarrow> transfer_state" where
  "transfer_setRecoveryVaa s payload =
     (let prevTargetChain = targetChain s;
          s = s\<lparr>signedVAAHex := Some (rp_vaa payload), targetChain := rp_targetChain payload\<rparr>;
          s = (if sourceChain s = rp_targetChain payload then s\<lparr>sourceChain := prevTargetChain\<rparr> else s) in
      s\<lparr>sourceParsedTokenAccount := None,
        sourceParsedTokenAccounts := getEmptyDataWrapper,
        targetAsset := getEmptyDataWrapper,
        targetParsedTokenAccount := None,
        isSourceAssetWormholeWrapped := None,
        targetAddressHex := Some (rp_targetAddress payload),
        originChain := Some (rp_originChain payload),
        originAsset := Some (rp_originAddress payload),
        amount := rp_amount payload,
        activeStep := 3,
        isRecovery := True\<rparr>)"

section \<open>The slice\<close>

datatype transfer_action =
    IncrementStep
  | DecrementStep
  | SetStep nat
  | SetSourceChain nat
  | SetSourceWormholeWrappedInfo wrapped_info
  | SetSourceWalletAddress "string option"
  | SetSourceParsedTokenAccount "parsed_token_account option"
  | SetSourceParsedTokenAccounts "parsed_token_account list option"
  | FetchSourceParsedTokenAccounts
  | ErrorSourceParsedTokenAccounts "string option"
  | ReceiveSourceParsedTokenAccounts "parsed_token_account list"
  | SetAmount string
  | SetTargetChain nat
  | SetTargetAddressHex "string option"
  | SetTargetAsset "foreign_asset_info data_wrapper"
  | SetTargetParsedTokenAccount "parsed_token_account option"
  | SetTransferTx transaction_ref
  | SetSignedVAAHex string
  | SetIsSending bool
  | SetIsRedeeming bool
  | SetRedeemTx transaction_ref
  | SetIsApproving bool
  | Reset
  | SetRecoveryVaa recovery_payload

fun transferReducer :: "string \<Rightarrow> transfer_state \<Rightarrow> transfer_action \<Rightarrow> transfer_state" where
  "transferReducer now s IncrementStep = transfer_incrementStep s"
| "transferReducer now s DecrementStep = transfer_decrementStep s"
| "transferReducer now s (SetStep payload) = transfer_setStep s payload"
| "transferReducer now s (SetSourceChain payload) = transfer_setSourceChain s payload"
| "transferReducer now s (SetSourceWormholeWrappedInfo payload) = transfer_setSourceWormholeWrappedInfo s payload"
| "transferReducer now s (SetSourceWalletAddress payload) = transfer_setSourceWalletAddress s payload"
| "transferReducer now s (SetSourceParsedTokenAccount payload) = transfer_setSourceParsedTokenAccount s payload"
| "transferReducer now s (SetSourceParsedTokenAccounts payload) = transfer_setSourceParsedTokenAccounts now s payload"
| "transferReducer now s FetchSourceParsedTokenAccounts = transfer_fetchSourceParsedTokenAccounts s"
| "transferReducer now s (ErrorSourceParsedTokenAccounts payload) = transfer_errorSourceParsedTokenAccounts s payload"
| "transferReducer now s (ReceiveSourceParsedTokenAccounts payload) = transfer_receiveSourceParsedTokenAccounts now s payload"
| "transferReducer now s (SetAmount payload) = transfer_setAmount s payload"
| "transferReducer now s (SetTargetChain payload) = transfer_setTargetChain s payload"
| "transferReducer now s (SetTargetAddressHex payload) = transfer_setTargetAddressHex s payload"
| "transferReducer now s (SetTargetAsset payload) = transfer_setTargetAsset s payload"
| "transferReducer now s (SetTargetParsedTokenAccount payload) = transfer_setTargetParsedTokenAccount s payload"
| "transferReducer now s (SetTransferTx payload) = transfer_setTransferTx s payload"
| "transferReducer now s (SetSignedVAAHex payload) = transfer_setSignedVAAHex s payload"
| "transferReducer now s (SetIsSending payload) = transfer_setIsSending s payload"
| "transferReducer now s (SetIsRedeeming payload) = transfer_setIsRedeeming s payload"
| "transferReducer now s (SetRedeemTx payload) = transfer_setRedeemTx s payload"
| "transferReducer now s (SetIsApproving payload) = transfer_setIsApproving s payload"
| "transferReducer now s Reset = transfer_reset s"
| "transferReducer now s (SetRecoveryVaa payload) = transfer_setRecoveryVaa s payload"

lemmas transfer_reducer_defs =
  transfer_incrementStep_def transfer_decrementStep_def transfer_setStep_def
  transfer_setSourceChain_def transfer_setSourceWormholeWrappedInfo_def transfer_setSourceWalletAddress_def
  transfer_setSourceParsedTokenAccount_def transfer_setSourceParsedTokenAccounts_def transfer_fetchSourceParsedTokenAccounts_def
  transfer_errorSourceParsedTokenAccounts_def transfer_receiveSourceParsedTokenAccounts_def transfer_setAmount_def
  transfer_setTargetChain_def transfer_setTargetAddressHex_def transfer_setTargetAsset_def
  transfer_setTargetParsedTokenAccount_def transfer_setTransferTx_def transfer_setSignedVAAHex_def
  transfer_setIsSending_def transfer_setIsRedeeming_def transfer_setRedeemTx_def
  transfer_setIsApproving_def transfer_reset_def transfer_setRecoveryVaa_def

text \<open>The payloads of the type \<open>Steps\<close> are at most 3, and a data wrapper that is passed in is one of
  those that \<open>helpers.ts\<close> makes.\<close>

fun transfer_typed :: "transfer_action \<Rightarrow> bool" where
  "transfer_typed (SetStep n) \<longleftrightarrow> n \<le> LAST_STEP"
| "transfer_typed (SetTargetAsset w) \<longleftrightarrow> wrapper_ok w"
| "transfer_typed _ \<longleftrightarrow> True"

definition transfer_inv :: "transfer_state \<Rightarrow> bool" where
  "transfer_inv s \<longleftrightarrow> sourceChain s \<noteq> targetChain s \<and> activeStep s \<le> LAST_STEP \<and>
     wrapper_ok (sourceParsedTokenAccounts s) \<and> wrapper_ok (targetAsset s)"

text \<open>An action that changes the source chain, the source token or the target chain leaves no data
  about a target asset behind; one that changes the source chain leaves no source token.\<close>

definition transfer_guarantee :: "transfer_state \<Rightarrow> transfer_state \<Rightarrow> bool" where
  "transfer_guarantee s s' \<longleftrightarrow>
     (sourceChain s' \<noteq> sourceChain s \<or> sourceParsedTokenAccount s' \<noteq> sourceParsedTokenAccount s \<or>
      targetChain s' \<noteq> targetChain s \<longrightarrow>
        targetAsset s' = getEmptyDataWrapper \<and> targetParsedTokenAccount s' = None) \<and>
     (sourceChain s' \<noteq> sourceChain s \<longrightarrow>
        sourceParsedTokenAccount s' = None \<and> sourceParsedTokenAccounts s' = getEmptyDataWrapper)"

lemma transfer_inv_initial: "transfer_inv transfer_initialState"
  by (simp add: transfer_inv_def transfer_initialState_def CHAIN_ID_SOLANA_def CHAIN_ID_ETH_def)

lemma transfer_inv_step:
  assumes "transfer_inv s" "transfer_typed a"
  shows "transfer_inv (transferReducer now s a)"
  using assms
  by (cases a)
    (auto simp: transfer_reducer_defs transfer_inv_def transfer_initialState_def LAST_STEP_def Let_def split: option.split)

lemma transfer_guarantee_step: "transfer_guarantee s (transferReducer now s a)"
  by (cases a) (auto simp: transfer_reducer_defs transfer_guarantee_def transfer_initialState_def Let_def)

interpretation transfer: slice transfer_initialState "transferReducer now" transfer_typed transfer_inv transfer_guarantee
  for now
  by unfold_locales (simp_all add: transfer_inv_initial transfer_inv_step transfer_guarantee_step)

section \<open>Properties\<close>

text \<open>C10: in every reachable state of the transfer page the source and target chains differ, the
  step is one of the page, and the data wrappers are well formed; and no action whatsoever leaves
  stale data about the target behind when it changes the source chain, the source token or the
  target chain.\<close>

theorem transfer_slice_safe:
  assumes "reachable transfer_initialState (transferReducer now) transfer_typed s"
  shows "sourceChain s \<noteq> targetChain s \<and> activeStep s \<le> 3 \<and>
    wrapper_ok (sourceParsedTokenAccounts s) \<and> wrapper_ok (targetAsset s) \<and>
    (let s' = transferReducer now s a in
      (sourceChain s' \<noteq> sourceChain s \<or> sourceParsedTokenAccount s' \<noteq> sourceParsedTokenAccount s \<or>
       targetChain s' \<noteq> targetChain s \<longrightarrow> data (targetAsset s') = None \<and> targetParsedTokenAccount s' = None) \<and>
      (sourceChain s' \<noteq> sourceChain s \<longrightarrow>
         sourceParsedTokenAccount s' = None \<and> data (sourceParsedTokenAccounts s') = None))"
  using transfer.reachable_inv [OF assms] transfer.reachable_guarantee [OF assms, of a]
  by (auto simp: transfer_inv_def transfer_guarantee_def LAST_STEP_def Let_def getEmptyDataWrapper_def)

theorem transfer_slice_safe_witness:
  "let s = foldl (transferReducer ''now'') transfer_initialState [SetTargetChain CHAIN_ID_SOLANA, SetStep 2] in
     sourceChain s \<noteq> targetChain s \<and> activeStep s = 2 \<and> sourceChain s = CHAIN_ID_ETH"
proof -
  let ?s = "foldl (transferReducer ''now'') transfer_initialState [SetTargetChain CHAIN_ID_SOLANA, SetStep 2]"
  have "reachable transfer_initialState (transferReducer ''now'') transfer_typed ?s"
    by (rule reachable_foldl [OF reachable.initial]) (simp add: LAST_STEP_def)
  from transfer_slice_safe [OF this] show ?thesis
    by (simp add: transfer_reducer_defs transfer_initialState_def)
qed

text \<open>a signed VAA, once there, stays until the page is reset: no other action removes it, and
  only receiving or recovering a VAA replaces it. A recovery takes the user to the last step with the
  data of the VAA, but keeps the redeem transaction of the transfer before it.\<close>

theorem transfer_vaa_kept:
  "(signedVAAHex s \<noteq> None \<and> a \<noteq> Reset \<longrightarrow> signedVAAHex (transferReducer now s a) \<noteq> None) \<and>
   (signedVAAHex (transferReducer now s a) \<noteq> signedVAAHex s \<longrightarrow>
      a = Reset \<or> (\<exists>v. a = SetSignedVAAHex v) \<or> (\<exists>p. a = SetRecoveryVaa p)) \<and>
   (let s' = transferReducer now s (SetRecoveryVaa p) in
      activeStep s' = 3 \<and> isRecovery s' \<and> signedVAAHex s' = Some (rp_vaa p) \<and> targetChain s' = rp_targetChain p \<and>
      targetAddressHex s' = Some (rp_targetAddress p) \<and> originAsset s' = Some (rp_originAddress p) \<and>
      amount s' = rp_amount p \<and> redeemTx s' = redeemTx s)"
  by (cases a) (auto simp: transfer_reducer_defs Let_def)

theorem transfer_vaa_kept_witness:
  "signedVAAHex (transferReducer ''now'' (transfer_initialState\<lparr>signedVAAHex := Some ''01''\<rparr>)
     (SetSourceChain CHAIN_ID_TERRA)) \<noteq> None"
  using transfer_vaa_kept [of "transfer_initialState\<lparr>signedVAAHex := Some ''01''\<rparr>" "SetSourceChain CHAIN_ID_TERRA" "''now''"]
  by simp

end
