(* ===== verification/NftSlice.thy ===== *)
theory NftSlice
  imports Store
begin

text \<open>
  \<open>bridge_ui/src/store/nftSlice.ts\<close>: the state of the NFT transfer page and its reducers, one
  definition each, with the fields and the order of assignments of the source. The lemmas at the
  end give the slice its invariant (two different chains, a step of the page, well-formed data
  wrappers) and its guarantee (no stale data about the target), and interpret the interface of
  slices with them.
\<close>

section \<open>State\<close>

record nft_account = parsed_token_account +
  tokenId :: "string option"
  uri :: "string option"
  animation_url :: "string option"
  external_url :: "string option"
  image :: "string option"
  image_256 :: "string option"
  nftName :: "string option"
  description :: "string option"

record nft_state =
  n_activeStep :: nat
  n_sourceChain :: nat
  n_isSourceAssetWormholeWrapped :: "bool option"
  n_originChain :: "nat option"
  n_originAsset :: "string option"
  n_originTokenId :: "string option"
  n_sourceWalletAddress :: "string option"
  n_sourceParsedTokenAccount :: "nft_account option"
  n_sourceParsedTokenAccounts :: "nft_account list data_wrapper"
  n_targetChain :: nat
  n_targetAddressHex :: "string option"
  n_targetAsset :: "foreign_asset_info data_wrapper"
  n_transferTx :: "transaction_ref option"
  n_signedVAAHex :: "string option"
  n_isSending :: bool
  n_isRedeeming :: bool
  n_redeemTx :: "transaction_ref option"
  n_isRecovery :: bool

definition nft_initialState :: nft_state where
  "nft_initialState =
     \<lparr>n_activeStep = 0, n_sourceChain = CHAIN_ID_SOLANA, n_isSourceAssetWormholeWrapped = Some False,
      n_originChain = None, n_originAsset = None, n_originTokenId = None,
      n_sourceWalletAddress = None, n_sourceParsedTokenAccount = None,
      n_sourceParsedTokenAccounts = getEmptyDataWrapper, n_targetChain = CHAIN_ID_ETH,
      n_targetAddressHex = None, n_targetAsset = getEmptyDataWrapper, n_transferTx = None,
      n_signedVAAHex = None, n_isSending = False, n_isRedeeming = False, n_redeemTx = None,
      n_isRecovery = False\<rparr>"

text \<open>The payload of \<open>setRecoveryVaa\<close>.\<close>

record nft_recovery_payload =
  nrp_vaa :: string
  nrp_targetChain :: nat
  nrp_targetAddress :: string
  nrp_originChain :: nat
  nrp_originAddress :: string

section \<open>Reducers\<close>

definition nft_incrementStep :: "nft_state \<Rightarrow> nft_state" where
  "nft_incrementStep s =
     (if n_activeStep s < LAST_STEP then s\<lparr>n_activeStep := n_activeStep s + 1\<rparr> else s)"

definition nft_decrementStep :: "nft_state \<Rightarrow> nft_state" where
  "nft_decrementStep s =
     (if n_activeStep s > 0 then s\<lparr>n_activeStep := n_activeStep s - 1\<rparr> else s)"

definition nft_setStep :: "nft_state \<Rightarrow> nat \<Rightarrow> nft_state" where
  "nft_setStep s payload =
     s\<lparr>n_activeStep := payload\<rparr>"

definition nft_setSourceChain :: "nft_state \<Rightarrow> nat \<Rightarrow> nft_state" where
  "nft_setSourceChain s payload =
     (let prevSourceChain = n_sourceChain s;
          s = s\<lparr>n_sourceChain := payload,
            n_sourceParsedTokenAccount := None,
            n_sourceParsedTokenAccounts := getEmptyDataWrapper,
            n_targetAsset := getEmptyDataWrapper,
            n_targetAddressHex := None,
            n_isSourceAssetWormholeWrapped := None,
            n_originChain := None,
            n_originAsset := None,
            n_originTokenId := None\<rparr> in
      if n_targetChain s = payload then s\<lparr>n_targetChain := prevSourceChain\<rparr> else s)"

definition nft_setSourceWormholeWrappedInfo :: "nft_state \<Rightarrow> wrapped_info \<Rightarrow> nft_state" where
  "nft_setSourceWormholeWrappedInfo s payload =
     s\<lparr>n_isSourceAssetWormholeWrapped := Some (isWrapped payload),
       n_originChain := Some (wi_chainId payload),
       n_originAsset := Some (assetAddress payload),
       n_originTokenId := wi_tokenId payload\<rparr>"

definition nft_setSourceWalletAddress :: "nft_state \<Rightarrow> string option \<Rightarrow> nft_state" where
  "nft_setSourceWalletAddress s payload =
     s\<lparr>n_sourceWalletAddress := payload\<rparr>"

definition nft_setSourceParsedTokenAccount :: "nft_state \<Rightarrow> nft_account option \<Rightarrow> nft_state" where
  "nft_setSourceParsedTokenAccount s payload =
     s\<lparr>n_sourceParsedTokenAccount := payload,
       n_targetAsset := getEmptyDataWrapper,
       n_targetAddressHex := None,
       n_isSourceAssetWormholeWrapped := None,
       n_originChain := None,
       n_originAsset := None,
       n_originTokenId := None\<rparr>"

definition nft_setSourceParsedTokenAccounts :: "string \<Rightarrow> nft_state \<Rightarrow> nft_account list option \<Rightarrow> nft_state" where
  "nft_setSourceParsedTokenAccounts now s payload =
     s\<lparr>n_sourceParsedTokenAccounts :=
       (case payload of Some accounts \<Rightarrow> receiveDataWrapper now accounts | None \<Rightarrow> getEmptyDataWrapper)\<rparr>"

definition nft_fetchSourceParsedTokenAccounts :: "nft_state \<Rightarrow> nft_state" where
  "nft_fetchSourceParsedTokenAccounts s =
     s\<lparr>n_sourceParsedTokenAccounts := fetchDataWrapper\<rparr>"

definition nft_errorSourceParsedTokenAccounts :: "nft_state \<Rightarrow> string option \<Rightarrow> nft_state" where
  "nft_errorSourceParsedTokenAccounts s payload =
     s\<lparr>n_sourceParsedTokenAccounts := errorDataWrapper (orElse payload unknown_error)\<rparr>"

definition nft_receiveSourceParsedTokenAccounts :: "string \<Rightarrow> nft_state \<Rightarrow> nft_account list \<Rightarrow> nft_state" where
  "nft_receiveSourceParsedTokenAccounts now s payload =
     s\<lparr>n_sourceParsedTokenAccounts := receiveDataWrapper now payload\<rparr>"

definition nft_setTargetChain :: "nft_state \<Rightarrow> nat \<Rightarrow> nft_state" where
  "nft_setTargetChain s payload =
     (let prevTargetChain = n_targetChain s;
          s = s\<lparr>n_targetChain := payload,
            n_targetAddressHex := None,
            n_targetAsset := getEmptyDataWrapper\<rparr> in
      if n_sourceChain s = payload
      then s\<lparr>n_sourceChain := prevTargetChain,
        n_activeStep := 0,
        n_sourceParsedTokenAccount := None,
        n_isSourceAssetWormholeWrapped := None,
        n_originChain := None,
        n_originAsset := None,
        n_originTokenId := None,
        n_sourceParsedTokenAccounts := getEmptyDataWrapper\<rparr>
      else s)"

definition nft_setTargetAddressHex :: "nft_state \<Rightarrow> string option \<Rightarrow> nft_state" where
  "nft_setTargetAddressHex s payload =
     s\<lparr>n_targetAddressHex := payload\<rparr>"

definition nft_setTargetAsset :: "nft_state \<Rightarrow> foreign_asset_info data_wrapper \<Rightarrow> nft_state" where
  "nft_setTargetAsset s payload =
     s\<lparr>n_targetAsset := payload\<rparr>"

definition nft_setTransferTx :: "nft_state \<Rightarrow> transaction_ref \<Rightarrow> nft_state" where
  "nft_setTransferTx s payload =
     s\<lparr>n_transferTx := Some payload\<rparr>"

definition nft_setSignedVAAHex :: "nft_state \<Rightarrow> string \<Rightarrow> nft_state" where
  "nft_setSignedVAAHex s payload =
     s\<lparr>n_signedVAAHex := Some payload, n_isSending := False, n_activeStep := 3\<rparr>"

definition nft_setIsSending :: "nft_state \<Rightarrow> bool \<Rightarrow> nft_state" where
  "nft_setIsSending s payload =
     s\<lparr>n_isSending := payload\<rparr>"

definition nft_setIsRedeeming :: "nft_state \<Rightarrow> bool \<Rightarrow> nft_state" where
  "nft_setIsRedeeming s payload =
     s\<lparr>n_isRedeeming := payload\<rparr>"

definition nft_setRedeemTx :: "nft_state \<Rightarrow> transaction_ref \<Rightarrow> nft_state" where
  "nft_setRedeemTx s payload =
     s\<lparr>n_redeemTx := Some payload, n_isRedeeming := False\<rparr>"

definition nft_reset :: "nft_state \<Rightarrow> nft_state" where
  "nft_reset s =
     nft_initialState\<lparr>n_sourceChain := n_sourceChain s, n_targetChain := n_targetChain s\<rparr>"

definition nft_setRecoveryVaa :: "nft_state \<Rightarrow> nft_recovery_payload \<Rightarrow> nft_state" where
  "nft_setRecoveryVaa s payload =
     (let prevTargetChain = n_targetChain s;
          s = s\<lparr>n_signedVAAHex := Some (nrp_vaa payload), n_targetChain := nrp_targetChain payload\<rparr>;
          s = (if n_sourceChain s = nrp_targetChain payload then s\<lparr>n_sourceChain := prevTargetChain\<rparr> else s) in
      s\<lparr>n_sourceParsedTokenAccount := None,
        n_sourceParsedTokenAccounts := getEmptyDataWrapper,
        n_targetAsset := getEmptyDataWrapper,
        n_isSourceAssetWormholeWrapped := None,
        n_targetAddressHex := Some (nrp_targetAddress payload),
        n_originChain := Some (nrp_originChain payload),
        n_originAsset := Some (nrp_originAddress payload),
        n_originTokenId := None,
        n_activeStep := 3,
        n_isRecovery := True\<rparr>)"

section \<open>The slice\<close>

datatype nft_action =
    NftIncrementStep
  | NftDecrementStep
  | NftSetStep nat
  | NftSetSourceChain nat
  | NftSetSourceWormholeWrappedInfo wrapped_info
  | NftSetSourceWalletAddress "string option"
  | NftSetSourceParsedTokenAccount "nft_account option"
  | NftSetSourceParsedTokenAccounts "nft_account list option"
  | NftFetchSourceParsedTokenAccounts
  | NftErrorSourceParsedTokenAccounts "string option"
  | NftReceiveSourceParsedTokenAccounts "nft_account list"
  | NftSetTargetChain nat
  | NftSetTargetAddressHex "string option"
  | NftSetTargetAsset "foreign_asset_info data_wrapper"
  | NftSetTransferTx transaction_ref
  | NftSetSignedVAAHex string
  | NftSetIsSending bool
  | NftSetIsRedeeming bool
  | NftSetRedeemTx transaction_ref
  | NftReset
  | NftSetRecoveryVaa nft_recovery_payload

fun nftReducer :: "string \<Rightarrow> nft_state \<Rightarrow> nft_action \<Rightarrow> nft_state" where
  "nftReducer now s NftIncrementStep = nft_incrementStep s"
| "nftReducer now s NftDecrementStep = nft_decrementStep s"
| "nftReducer now s (NftSetStep payload) = nft_setStep s payload"
| "nftReducer now s (NftSetSourceChain payload) = nft_setSourceChain s payload"
| "nftReducer now s (NftSetSourceWormholeWrappedInfo payload) = nft_setSourceWormholeWrappedInfo s payload"
| "nftReducer now s (NftSetSourceWalletAddress payload) = nft_setSourceWalletAddress s payload"
| "nftReducer now s (NftSetSourceParsedTokenAccount payload) = nft_setSourceParsedTokenAccount s payload"
| "nftReducer now s (NftSetSourceParsedTokenAccounts payload) = nft_setSourceParsedTokenAccounts now s payload"
| "nftReducer now s NftFetchSourceParsedTokenAccounts = nft_fetchSourceParsedTokenAccounts s"
| "nftReducer now s (NftErrorSourceParsedTokenAccounts payload) = nft_errorSourceParsedTokenAccounts s payload"
| "nftReducer now s (NftReceiveSourceParsedTokenAccounts payload) = nft_receiveSourceParsedTokenAccounts now s payload"
| "nftReducer now s (NftSetTargetChain payload) = nft_setTargetChain s payload"
| "nftReducer now s (NftSetTargetAddressHex payload) = nft_setTargetAddressHex s payload"
| "nftReducer now s (NftSetTargetAsset payload) = nft_setTargetAsset s payload"
| "nftReducer now s (NftSetTransferTx payload) = nft_setTransferTx s payload"
| "nftReducer now s (NftSetSignedVAAHex payload) = nft_setSignedVAAHex s payload"
| "nftReducer now s (NftSetIsSending payload) = nft_setIsSending s payload"
| "nftReducer now s (NftSetIsRedeeming payload) = nft_setIsRedeeming s payload"
| "nftReducer now s (NftSetRedeemTx payload) = nft_setRedeemTx s payload"
| "nftReducer now s NftReset = nft_reset s"
| "nftReducer now s (NftSetRecoveryVaa payload) = nft_setRecoveryVaa s payload"

lemmas nft_reducer_defs =
  nft_incrementStep_def nft_decrementStep_def nft_setStep_def
  nft_setSourceChain_def nft_setSourceWormholeWrappedInfo_def nft_setSourceWalletAddress_def
  nft_setSourceParsedTokenAccount_def nft_setSourceParsedTokenAccounts_def nft_fetchSourceParsedTokenAccounts_def
  nft_errorSourceParsedTokenAccounts_def nft_receiveSourceParsedTokenAccounts_def nft_setTargetChain_def
  nft_setTargetAddressHex_def nft_setTargetAsset_def nft_setTransferTx_def
  nft_setSignedVAAHex_def nft_setIsSending_def nft_setIsRedeeming_def
  nft_setRedeemTx_def nft_reset_def nft_setRecoveryVaa_def

text \<open>The payloads of the type \<open>Steps\<close> are at most 3, and a data wrapper that is passed in is one of
  those that \<open>helpers.ts\<close> makes.\<close>

fun nft_typed :: "nft_action \<Rightarrow> bool" where
  "nft_typed (NftSetStep n) \<longleftrightarrow> n \<le> LAST_STEP"
| "nft_typed (NftSetTargetAsset w) \<longleftrightarrow> wrapper_ok w"
| "nft_typed _ \<longleftrightarrow> True"

definition nft_inv :: "nft_state \<Rightarrow> bool" where
  "nft_inv s \<longleftrightarrow> n_sourceChain s \<noteq> n_targetChain s \<and> n_activeStep s \<le> LAST_STEP \<and>
     wrapper_ok (n_sourceParsedTokenAccounts s) \<and> wrapper_ok (n_targetAsset s)"

text \<open>An action that changes the source chain, the source token or the target chain leaves no data
  about a target asset behind; one that changes the source chain leaves no source token.\<close>

definition nft_guarantee :: "nft_state \<Rightarrow> nft_state \<Rightarrow> bool" where
  "nft_guarantee s s' \<longleftrightarrow>
     (n_sourceChain s' \<noteq> n_sourceChain s \<or> n_sourceParsedTokenAccount s' \<noteq> n_sourceParsedTokenAccount s \<or>
      n_targetChain s' \<noteq> n_targetChain s \<longrightarrow>
        n_targetAsset s' = getEmptyDataWrapper) \<and>
     (n_sourceChain s' \<noteq> n_sourceChain s \<longrightarrow>
        n_sourceParsedTokenAccount s' = None \<and> n_sourceParsedTokenAccounts s' = getEmptyDataWrapper)"

lemma nft_inv_initial: "nft_inv nft_initialState"
  by (simp add: nft_inv_def nft_initialState_def CHAIN_ID_SOLANA_def CHAIN_ID_ETH_def)

lemma nft_inv_step:
  assumes "nft_inv s" "nft_typed a"
  shows "nft_inv (nftReducer now s a)"
  using assms
  by (cases a)
    (auto simp: nft_reducer_defs nft_inv_def nft_initialState_def LAST_STEP_def Let_def split: option.split)

lemma nft_guarantee_step: "nft_guarantee s (nftReducer now s a)"
  by (cases a) (auto simp: nft_reducer_defs nft_guarantee_def nft_initialState_def Let_def)

interpretation nft: slice nft_initialState "nftReducer now" nft_typed nft_inv nft_guarantee
  for now
  by unfold_locales (simp_all add: nft_inv_initial nft_inv_step nft_guarantee_step)

section \<open>Properties\<close>

text \<open>the NFT page keeps the same invariant: two different chains, a step of the page, and no
  stale data about the target asset when the source or the target changes; the token id of the
  origin asset goes with the origin asset.\<close>

theorem nft_slice_safe:
  assumes "reachable nft_initialState (nftReducer now) nft_typed s"
  shows "n_sourceChain s \<noteq> n_targetChain s \<and> n_activeStep s \<le> 3 \<and>
    wrapper_ok (n_sourceParsedTokenAccounts s) \<and> wrapper_ok (n_targetAsset s) \<and>
    (let s' = nftReducer now s a in
      (n_sourceChain s' \<noteq> n_sourceChain s \<or> n_sourceParsedTokenAccount s' \<noteq> n_sourceParsedTokenAccount s \<or>
       n_targetChain s' \<noteq> n_targetChain s \<longrightarrow> data (n_targetAsset s') = None) \<and>
      (n_originAsset s' = None \<and> n_originAsset s \<noteq> None \<longrightarrow> n_originTokenId s' = None))"
proof -
  have "n_originAsset (nftReducer now s a) = None \<and> n_originAsset s \<noteq> None \<longrightarrow> n_originTokenId (nftReducer now s a) = None"
    by (cases a) (auto simp: nft_reducer_defs nft_initialState_def Let_def)
  then show ?thesis
    using nft.reachable_inv [OF assms] nft.reachable_guarantee [OF assms, of a]
    by (auto simp: nft_inv_def nft_guarantee_def LAST_STEP_def Let_def getEmptyDataWrapper_def)
qed

theorem nft_slice_safe_witness:
  "let s = foldl (nftReducer ''now'') nft_initialState [NftSetSourceChain CHAIN_ID_ETH, NftIncrementStep] in
     n_sourceChain s \<noteq> n_targetChain s \<and> n_targetChain s = CHAIN_ID_SOLANA"
proof -
  let ?s = "foldl (nftReducer ''now'') nft_initialState [NftSetSourceChain CHAIN_ID_ETH, NftIncrementStep]"
  have "reachable nft_initialState (nftReducer ''now'') nft_typed ?s"
    by (rule reachable_foldl [OF reachable.initial]) simp
  from nft_slice_safe [OF this] show ?thesis
    by (simp add: nft_reducer_defs nft_initialState_def)
qed

end
