(* ===== verification/AttestSlice.thy ===== *)
theory AttestSlice
  imports Store
begin

text \<open>
  \<open>bridge_ui/src/store/attestSlice.ts\<close>: the state of the token attestation page and its reducers.
\<close>

record attest_state =
  a_activeStep :: nat
  a_sourceChain :: nat
  a_sourceAsset :: string
  a_targetChain :: nat
  a_attestTx :: "transaction_ref option"
  a_signedVAAHex :: "string option"
  a_isSending :: bool
  a_isCreating :: bool
  a_createTx :: "transaction_ref option"

definition attest_initialState :: attest_state where
  "attest_initialState =
     \<lparr>a_activeStep = 0, a_sourceChain = CHAIN_ID_SOLANA, a_sourceAsset = '''', a_targetChain = CHAIN_ID_ETH,
      a_attestTx = None, a_signedVAAHex = None, a_isSending = False, a_isCreating = False, a_createTx = None\<rparr>"

datatype attest_action =
    AttestIncrementStep
  | AttestDecrementStep
  | AttestSetStep nat
  | AttestSetSourceChain nat
  | AttestSetSourceAsset string
  | AttestSetTargetChain nat
  | AttestSetAttestTx transaction_ref
  | AttestSetSignedVAAHex string
  | AttestSetIsSending bool
  | AttestSetIsCreating bool
  | AttestSetCreateTx transaction_ref
  | AttestReset

definition attest_setSourceChain :: "attest_state \<Rightarrow> nat \<Rightarrow> attest_state" where
  "attest_setSourceChain s payload =
     (let prevSourceChain = a_sourceChain s;
          s = s\<lparr>a_sourceChain := payload, a_sourceAsset := ''''\<rparr> in
      if a_targetChain s = payload then s\<lparr>a_targetChain := prevSourceChain\<rparr> else s)"

definition attest_setTargetChain :: "attest_state \<Rightarrow> nat \<Rightarrow> attest_state" where
  "attest_setTargetChain s payload =
     (let prevTargetChain = a_targetChain s;
          s = s\<lparr>a_targetChain := payload\<rparr> in
      if a_sourceChain s = payload
      then s\<lparr>a_sourceChain := prevTargetChain, a_activeStep := 0, a_sourceAsset := ''''\<rparr>
      else s)"

fun attestReducer :: "attest_state \<Rightarrow> attest_action \<Rightarrow> attest_state" where
  "attestReducer s AttestIncrementStep =
     (if a_activeStep s < LAST_STEP then s\<lparr>a_activeStep := a_activeStep s + 1\<rparr> else s)"
| "attestReducer s AttestDecrementStep =
     (if a_activeStep s > 0 then s\<lparr>a_activeStep := a_activeStep s - 1\<rparr> else s)"
| "attestReducer s (AttestSetStep payload) = s\<lparr>a_activeStep := payload\<rparr>"
| "attestReducer s (AttestSetSourceChain payload) = attest_setSourceChain s payload"
| "attestReducer s (AttestSetSourceAsset payload) = s\<lparr>a_sourceAsset := payload\<rparr>"
| "attestReducer s (AttestSetTargetChain payload) = attest_setTargetChain s payload"
| "attestReducer s (AttestSetAttestTx payload) = s\<lparr>a_attestTx := Some payload\<rparr>"
| "attestReducer s (AttestSetSignedVAAHex payload) =
     s\<lparr>a_signedVAAHex := Some payload, a_isSending := False, a_activeStep := 3\<rparr>"
| "attestReducer s (AttestSetIsSending payload) = s\<lparr>a_isSending := payload\<rparr>"
| "attestReducer s (AttestSetIsCreating payload) = s\<lparr>a_isCreating := payload\<rparr>"
| "attestReducer s (AttestSetCreateTx payload) = s\<lparr>a_createTx := Some payload, a_isCreating := False\<rparr>"
| "attestReducer s AttestReset =
     attest_initialState\<lparr>a_sourceChain := a_sourceChain s, a_targetChain := a_targetChain s\<rparr>"

fun attest_typed :: "attest_action \<Rightarrow> bool" where
  "attest_typed (AttestSetStep n) \<longleftrightarrow> n \<le> LAST_STEP"
| "attest_typed _ \<longleftrightarrow> True"

definition attest_inv :: "attest_state \<Rightarrow> bool" where
  "attest_inv s \<longleftrightarrow> a_sourceChain s \<noteq> a_targetChain s \<and> a_activeStep s \<le> LAST_STEP"

text \<open>The source asset does not survive a change of the source chain.\<close>

definition attest_guarantee :: "attest_state \<Rightarrow> attest_state \<Rightarrow> bool" where
  "attest_guarantee s s' \<longleftrightarrow> (a_sourceChain s' \<noteq> a_sourceChain s \<longrightarrow> a_sourceAsset s' = '''')"

lemmas attest_reducer_defs = attest_setSourceChain_def attest_setTargetChain_def attest_initialState_def

interpretation attest: slice attest_initialState attestReducer attest_typed attest_inv attest_guarantee
proof
  show "attest_inv attest_initialState"
    by (simp add: attest_inv_def attest_initialState_def CHAIN_ID_SOLANA_def CHAIN_ID_ETH_def)
  fix s a
  assume inv: "attest_inv s"
  show "attest_guarantee s (attestReducer s a)"
    by (cases a) (auto simp: attest_reducer_defs attest_guarantee_def Let_def)
  assume "attest_typed a"
  with inv show "attest_inv (attestReducer s a)"
    by (cases a) (auto simp: attest_reducer_defs attest_inv_def LAST_STEP_def Let_def)
qed

end
