(* ===== verification/Selectors.thy ===== *)
theory Selectors
  imports TransferSlice NftSlice AttestSlice
begin

text \<open>
  \<open>bridge_ui/src/store/selectors.ts\<close> and \<open>store/index.ts\<close>: the root state and the selectors that
  decide whether a page may go on: the first error in the source and in the target of a transfer, and
  what is complete or locked. \<open>parseUnits\<close> of the ethers library is a parameter. An error selector
  returns undefined (\<open>None\<close>) when there is no error; an empty message is falsy, so it counts as none.
\<close>

section \<open>The root state\<close>

record ('a, 'b, 'c) root_state =
  attest :: attest_state
  nft :: nft_state
  transfer :: transfer_state
  tokens :: "('a, 'b, 'c) token_metadata_state"
  fee_state :: fee_slice_state

datatype ('a, 'b, 'c) root_action =
    AttestAction attest_action
  | NftAction nft_action
  | TransferAction transfer_action
  | TokenAction "('a, 'b, 'c) token_action"
  | FeeAction fee_action

fun rootReducer :: "string \<Rightarrow> ('a, 'b, 'c) root_state \<Rightarrow> ('a, 'b, 'c) root_action \<Rightarrow> ('a, 'b, 'c) root_state" where
  "rootReducer now s (AttestAction a) = s\<lparr>attest := attestReducer (attest s) a\<rparr>"
| "rootReducer now s (NftAction a) = s\<lparr>nft := nftReducer now (nft s) a\<rparr>"
| "rootReducer now s (TransferAction a) = s\<lparr>transfer := transferReducer now (transfer s) a\<rparr>"
| "rootReducer now s (TokenAction a) = s\<lparr>tokens := tokenReducer now (tokens s) a\<rparr>"
| "rootReducer now s (FeeAction a) = s\<lparr>fee_state := feeReducer (fee_state s) a\<rparr>"

definition store_initial :: "('a, 'b, 'c) root_state" where
  "store_initial = \<lparr>attest = attest_initialState, nft = nft_initialState, transfer = transfer_initialState,
     tokens = token_initialState, fee_state = \<lparr>terraFeeDenom = TERRA_DEFAULT_FEE_DENOM\<rparr>\<rparr>"

fun root_typed :: "('a, 'b, 'c) root_action \<Rightarrow> bool" where
  "root_typed (AttestAction a) \<longleftrightarrow> attest_typed a"
| "root_typed (NftAction a) \<longleftrightarrow> nft_typed a"
| "root_typed (TransferAction a) \<longleftrightarrow> transfer_typed a"
| "root_typed _ \<longleftrightarrow> True"

text \<open>The invariant of the store is that of its slices, so the store is a slice too.\<close>

definition root_inv :: "('a, 'b, 'c) root_state \<Rightarrow> bool" where
  "root_inv s \<longleftrightarrow> attest_inv (attest s) \<and> nft_inv (nft s) \<and> transfer_inv (transfer s) \<and> token_inv (tokens s)"

definition root_guarantee :: "('a, 'b, 'c) root_state \<Rightarrow> ('a, 'b, 'c) root_state \<Rightarrow> bool" where
  "root_guarantee s s' \<longleftrightarrow>
     (attest s' = attest s \<or> attest_guarantee (attest s) (attest s')) \<and>
     (nft s' = nft s \<or> nft_guarantee (nft s) (nft s')) \<and>
     (transfer s' = transfer s \<or> transfer_guarantee (transfer s) (transfer s'))"

interpretation store: slice store_initial "rootReducer now" root_typed root_inv root_guarantee for now
proof
  show "root_inv store_initial"
    by (simp add: root_inv_def store_initial_def attest.init_inv nft.init_inv transfer.init_inv tokens.init_inv)
  fix s :: "('a, 'b, 'c) root_state" and a
  assume inv: "root_inv s"
  show "root_guarantee s (rootReducer now s a)"
    using inv by (cases a)
      (simp_all add: root_guarantee_def root_inv_def attest.step_guarantee nft.step_guarantee transfer.step_guarantee)
  assume "root_typed a"
  with inv show "root_inv (rootReducer now s a)"
    by (cases a) (simp_all add: root_inv_def attest.step_inv nft.step_inv transfer.step_inv tokens.step_inv)
qed

section \<open>Exceptions and truthiness\<close>

text \<open>\<open>e?.message\<close>: a thrown string has no message.\<close>

fun js_message :: "js_error \<Rightarrow> string" where
  "js_message (Error m) = m"
| "js_message (RangeError m) = m"
| "js_message (TypeError m) = m"
| "js_message (Rejected m) = ''''"
| "js_message (Foreign m) = m"

text \<open>\<open>m.substring(0, m.indexOf("("))\<close>: the index is \<open>-1\<close> when there is no parenthesis, and the
  substring is empty then.\<close>

definition beforeParen :: "string \<Rightarrow> string" where
  "beforeParen m = (if CHR ''('' \<in> set m then takeWhile (\<lambda>c. c \<noteq> CHR ''('') m else '''')"

definition caught :: "js_error \<Rightarrow> string option" where
  "caught e = (if js_message e \<noteq> '''' then Some (beforeParen (js_message e)) else Some ''Invalid amount'')"

definition truthy :: "string option \<Rightarrow> bool" where
  "truthy v = (case v of None \<Rightarrow> False | Some s \<Rightarrow> s \<noteq> '''')"

lemma truthy_simps [simp]: "\<not> truthy None" "truthy (Some s) \<longleftrightarrow> s \<noteq> []"
  by (simp_all add: truthy_def)

definition UNREGISTERED_ERROR_MESSAGE :: string where
  "UNREGISTERED_ERROR_MESSAGE = ''Target asset unavailable. Is the token registered?''"

definition AddressZero :: string where
  "AddressZero = ''0x'' @ replicate 40 (CHR ''0'')"

type_synonym parse_units = "string \<Rightarrow> nat \<Rightarrow> int result"

section \<open>Attest\<close>

definition selectAttestIsSourceComplete :: "('a, 'b, 'c) root_state \<Rightarrow> bool" where
  "selectAttestIsSourceComplete s \<longleftrightarrow> a_sourceChain (attest s) \<noteq> 0 \<and> a_sourceAsset (attest s) \<noteq> ''''"

definition selectAttestIsTargetComplete :: "('a, 'b, 'c) root_state \<Rightarrow> bool" where
  "selectAttestIsTargetComplete s \<longleftrightarrow> selectAttestIsSourceComplete s \<and> a_targetChain (attest s) \<noteq> 0"

definition selectAttestIsSendComplete :: "('a, 'b, 'c) root_state \<Rightarrow> bool" where
  "selectAttestIsSendComplete s \<longleftrightarrow> truthy (a_signedVAAHex (attest s))"

definition selectAttestIsCreateComplete :: "('a, 'b, 'c) root_state \<Rightarrow> bool" where
  "selectAttestIsCreateComplete s \<longleftrightarrow> a_createTx (attest s) \<noteq> None"

definition selectAttestShouldLockFields :: "('a, 'b, 'c) root_state \<Rightarrow> bool" where
  "selectAttestShouldLockFields s \<longleftrightarrow> a_isSending (attest s) \<or> selectAttestIsSendComplete s"

section \<open>NFT\<close>

definition selectNFTTargetAsset :: "('a, 'b, 'c) root_state \<Rightarrow> string option" where
  "selectNFTTargetAsset s = Option.bind (data (n_targetAsset (nft s))) fa_address"

definition selectNFTSourceError :: "parse_units \<Rightarrow> ('a, 'b, 'c) root_state \<Rightarrow> string option" where
  "selectNFTSourceError parseUnits s =
     (if n_sourceChain (nft s) = 0 then Some ''Select a source chain''
      else case n_sourceParsedTokenAccount (nft s) of
        None \<Rightarrow> Some ''Select an NFT''
      | Some acc \<Rightarrow>
          if n_sourceChain (nft s) = CHAIN_ID_SOLANA \<and> publicKey acc = '''' then Some ''Token account unavailable''
          else if uiAmountString acc = '''' then Some ''Token amount unavailable''
          else if decimals acc \<noteq> 0 then Some ''For non-NFTs, use the Transfer flow''
          else case uri acc of
            None \<Rightarrow> Some ''Failed to load NFT Metadata.''
          | Some u \<Rightarrow>
              if u \<noteq> '''' \<and> length u > 200
              then Some ''This NFT has a URL longer than the maximum supported length of 200.''
              else case parseUnits (uiAmountString acc) (decimals acc) of
                Inl e \<Rightarrow> caught e
              | Inr n \<Rightarrow> if n \<le> 0 then Some ''Balance must be greater than zero'' else None)"

definition selectNFTIsSourceComplete :: "parse_units \<Rightarrow> ('a, 'b, 'c) root_state \<Rightarrow> bool" where
  "selectNFTIsSourceComplete parseUnits s \<longleftrightarrow> \<not> truthy (selectNFTSourceError parseUnits s)"

definition selectNFTTargetError :: "parse_units \<Rightarrow> ('a, 'b, 'c) root_state \<Rightarrow> string option" where
  "selectNFTTargetError parseUnits s =
     (let sourceError = selectNFTSourceError parseUnits s in
      if truthy sourceError then Some (''Error in source: '' @ the sourceError)
      else if n_targetChain (nft s) = 0 then Some ''Select a target chain''
      else if n_sourceChain (nft s) = n_targetChain (nft s) then Some ''Select a different target and source''
      else if n_targetChain (nft s) = CHAIN_ID_SOLANA \<and> \<not> truthy (selectNFTTargetAsset s)
      then Some UNREGISTERED_ERROR_MESSAGE
      else if \<not> truthy (n_targetAddressHex (nft s)) then Some ''Target account unavailable''
      else None)"

definition selectNFTIsTargetComplete :: "parse_units \<Rightarrow> ('a, 'b, 'c) root_state \<Rightarrow> bool" where
  "selectNFTIsTargetComplete parseUnits s \<longleftrightarrow> \<not> truthy (selectNFTTargetError parseUnits s)"

definition selectNFTIsSendComplete :: "('a, 'b, 'c) root_state \<Rightarrow> bool" where
  "selectNFTIsSendComplete s \<longleftrightarrow> truthy (n_signedVAAHex (nft s))"

definition selectNFTIsRedeemComplete :: "('a, 'b, 'c) root_state \<Rightarrow> bool" where
  "selectNFTIsRedeemComplete s \<longleftrightarrow> n_redeemTx (nft s) \<noteq> None"

definition selectNFTShouldLockFields :: "('a, 'b, 'c) root_state \<Rightarrow> bool" where
  "selectNFTShouldLockFields s \<longleftrightarrow> n_isSending (nft s) \<or> selectNFTIsSendComplete s"

section \<open>Transfer\<close>

definition selectTransferTargetAsset :: "('a, 'b, 'c) root_state \<Rightarrow> string option" where
  "selectTransferTargetAsset s = Option.bind (data (targetAsset (transfer s))) fa_address"

definition selectTransferSourceError :: "parse_units \<Rightarrow> ('a, 'b, 'c) root_state \<Rightarrow> string option" where
  "selectTransferSourceError parseUnits s =
     (if sourceChain (transfer s) = 0 then Some ''Select a source chain''
      else case sourceParsedTokenAccount (transfer s) of
        None \<Rightarrow> Some ''Select a token''
      | Some acc \<Rightarrow>
          if amount (transfer s) = '''' then Some ''Enter an amount''
          else if sourceChain (transfer s) = CHAIN_ID_SOLANA \<and> publicKey acc = ''''
          then Some ''Token account unavailable''
          else if uiAmountString acc = '''' then Some ''Token amount unavailable''
          else case parseUnits (amount (transfer s)) (decimals acc) of
            Inl e \<Rightarrow> caught e
          | Inr n \<Rightarrow>
              if n \<le> 0 then Some ''Amount must be greater than zero''
              else case parseUnits (uiAmountString acc) (decimals acc) of
                Inl e \<Rightarrow> caught e
              | Inr balance \<Rightarrow>
                  if n > balance then Some ''Amount may not be greater than balance'' else None)"

definition selectTransferIsSourceComplete :: "parse_units \<Rightarrow> ('a, 'b, 'c) root_state \<Rightarrow> bool" where
  "selectTransferIsSourceComplete parseUnits s \<longleftrightarrow> \<not> truthy (selectTransferSourceError parseUnits s)"

definition selectTransferTargetError :: "parse_units \<Rightarrow> ('a, 'b, 'c) root_state \<Rightarrow> string option" where
  "selectTransferTargetError parseUnits s =
     (let sourceError = selectTransferSourceError parseUnits s in
      if truthy sourceError then Some (''Error in source: '' @ the sourceError)
      else if targetChain (transfer s) = 0 then Some ''Select a target chain''
      else if sourceChain (transfer s) = targetChain (transfer s) then Some ''Select a different target and source''
      else if \<not> truthy (selectTransferTargetAsset s) then Some UNREGISTERED_ERROR_MESSAGE
      else if isEVMChain (targetChain (transfer s)) \<and> selectTransferTargetAsset s = Some AddressZero
      then Some UNREGISTERED_ERROR_MESSAGE
      else if \<not> truthy (targetAddressHex (transfer s)) then Some ''Target account unavailable''
      else None)"

definition selectTransferIsTargetComplete :: "parse_units \<Rightarrow> ('a, 'b, 'c) root_state \<Rightarrow> bool" where
  "selectTransferIsTargetComplete parseUnits s \<longleftrightarrow> \<not> truthy (selectTransferTargetError parseUnits s)"

definition selectTransferIsSendComplete :: "('a, 'b, 'c) root_state \<Rightarrow> bool" where
  "selectTransferIsSendComplete s \<longleftrightarrow> truthy (signedVAAHex (transfer s))"

definition selectTransferIsRedeemComplete :: "('a, 'b, 'c) root_state \<Rightarrow> bool" where
  "selectTransferIsRedeemComplete s \<longleftrightarrow> redeemTx (transfer s) \<noteq> None"

definition selectTransferShouldLockFields :: "('a, 'b, 'c) root_state \<Rightarrow> bool" where
  "selectTransferShouldLockFields s \<longleftrightarrow> isSending (transfer s) \<or> selectTransferIsSendComplete s"

section \<open>Properties\<close>

text \<open>The messages of \<open>parseUnits\<close>: "text (details)", as the ethers logger writes them, or none. Only
  that there is text before the first parenthesis matters.\<close>

definition parse_units_messages :: "parse_units \<Rightarrow> bool" where
  "parse_units_messages parseUnits \<longleftrightarrow>
     (\<forall>s d e. parseUnits s d = Inl e \<longrightarrow> js_message e = '''' \<or> beforeParen (js_message e) \<noteq> '''')"

lemma truthy_caught: "parse_units_messages P \<Longrightarrow> P s d = Inl e \<Longrightarrow> truthy (caught e)"
  by (auto simp: parse_units_messages_def caught_def)

text \<open>the transfer page calls the source complete exactly when a chain, a token with an
  account and an amount are chosen and the amount parses to a positive number not above the balance
  of the account.\<close>

theorem selectTransferIsSourceComplete_iff:
  assumes "parse_units_messages P"
  shows "selectTransferIsSourceComplete P s \<longleftrightarrow>
    (\<exists>acc n b. sourceParsedTokenAccount (transfer s) = Some acc \<and> sourceChain (transfer s) \<noteq> 0 \<and>
       amount (transfer s) \<noteq> '''' \<and> uiAmountString acc \<noteq> '''' \<and>
       (sourceChain (transfer s) = CHAIN_ID_SOLANA \<longrightarrow> publicKey acc \<noteq> '''') \<and>
       P (amount (transfer s)) (decimals acc) = Inr n \<and> P (uiAmountString acc) (decimals acc) = Inr b \<and> 0 < n \<and> n \<le> b)"
  using truthy_caught [OF assms]
  by (auto simp: selectTransferIsSourceComplete_def selectTransferSourceError_def split: option.splits sum.splits)

text \<open>An instance of \<open>parseUnits\<close> that reads unary numbers.\<close>

definition demo_parseUnits :: parse_units where
  "demo_parseUnits s d =
     (if set s \<subseteq> {CHR ''1''} then Inr (int (length s) * 10 ^ d) else Inl (Foreign ''invalid decimal value (argument=value)''))"

lemma demo_parseUnits_messages: "parse_units_messages demo_parseUnits"
  by (auto simp: parse_units_messages_def demo_parseUnits_def beforeParen_def)

definition demo_account :: parsed_token_account where
  "demo_account = \<lparr>publicKey = ''key'', mintKey = ''mint'', acc_amount = ''3'', decimals = 0, uiAmount = 3,
     uiAmountString = ''111'', acc_symbol = None, acc_name = None, logo = None, isNativeAsset = None\<rparr>"

definition demo_store :: "string \<Rightarrow> (unit, unit, unit) root_state" where
  "demo_store amt = foldl (rootReducer ''now'') store_initial
     (map TransferAction [SetSourceParsedTokenAccount (Some demo_account), SetAmount amt])"

lemma demo_store_sels:
  "sourceParsedTokenAccount (transfer (demo_store amt)) = Some demo_account"
  "sourceChain (transfer (demo_store amt)) = CHAIN_ID_SOLANA" "amount (transfer (demo_store amt)) = amt"
  by (simp_all add: demo_store_def store_initial_def transfer_reducer_defs transfer_initialState_def)

theorem selectTransferIsSourceComplete_iff_witness:
  "selectTransferIsSourceComplete demo_parseUnits (demo_store ''11'') \<and>
   \<not> selectTransferIsSourceComplete demo_parseUnits (demo_store ''1111'')"
  by (simp add: selectTransferIsSourceComplete_iff [OF demo_parseUnits_messages] demo_store_sels demo_account_def
      demo_parseUnits_def CHAIN_ID_SOLANA_def)

text \<open>in a reachable store the transfer's target is complete exactly when its source is, the
  target chain is known, the foreign asset exists (not the zero address on an EVM chain) and a target
  address is set. That source and target differ need not be checked there: the reducers see to it.\<close>

theorem selectTransferIsTargetComplete_iff:
  assumes "reachable store_initial (rootReducer now) root_typed s"
  shows "selectTransferIsTargetComplete P s \<longleftrightarrow>
    selectTransferIsSourceComplete P s \<and> targetChain (transfer s) \<noteq> 0 \<and>
    (\<exists>a. selectTransferTargetAsset s = Some a \<and> a \<noteq> '''' \<and>
       (isEVMChain (targetChain (transfer s)) \<longrightarrow> a \<noteq> AddressZero)) \<and>
    (\<exists>h. targetAddressHex (transfer s) = Some h \<and> h \<noteq> '''')"
proof -
  have "sourceChain (transfer s) \<noteq> targetChain (transfer s)"
    using store.reachable_inv [OF assms] by (simp add: root_inv_def transfer_inv_def)
  then show ?thesis
    by (cases "selectTransferTargetAsset s"; cases "targetAddressHex (transfer s)")
      (simp_all add: selectTransferIsTargetComplete_def selectTransferTargetError_def selectTransferIsSourceComplete_def
        Let_def UNREGISTERED_ERROR_MESSAGE_def)
qed

theorem selectTransferIsTargetComplete_iff_witness:
  "\<not> selectTransferIsTargetComplete demo_parseUnits (demo_store ''11'')"
proof -
  have "reachable store_initial (rootReducer ''now'') root_typed (demo_store ''11'')"
    unfolding demo_store_def by (rule reachable_foldl [OF reachable.initial]) simp
  moreover have "data (targetAsset (transfer (demo_store ''11''))) = None"
    by (simp add: demo_store_def transfer_reducer_defs getEmptyDataWrapper_def)
  ultimately show ?thesis
    using selectTransferIsTargetComplete_iff by (fastforce simp: selectTransferTargetAsset_def)
qed

text \<open>the NFT page calls its source complete exactly when the token chosen is an NFT (no
  decimals) with an account, a known URI of at most 200 characters and a positive balance.\<close>

theorem selectNFTIsSourceComplete_iff:
  assumes "parse_units_messages P"
  shows "selectNFTIsSourceComplete P s \<longleftrightarrow>
    (\<exists>acc u n. n_sourceParsedTokenAccount (nft s) = Some acc \<and> n_sourceChain (nft s) \<noteq> 0 \<and>
       (n_sourceChain (nft s) = CHAIN_ID_SOLANA \<longrightarrow> publicKey acc \<noteq> '''') \<and>
       uiAmountString acc \<noteq> '''' \<and> decimals acc = 0 \<and> uri acc = Some u \<and> length u \<le> 200 \<and>
       P (uiAmountString acc) 0 = Inr n \<and> 0 < n)"
  using truthy_caught [OF assms]
  by (auto simp: selectNFTIsSourceComplete_def selectNFTSourceError_def split: option.splits sum.splits)

theorem selectNFTIsSourceComplete_iff_witness:
  "\<not> selectNFTIsSourceComplete demo_parseUnits (store_initial :: (unit, unit, unit) root_state)"
  by (simp add: selectNFTIsSourceComplete_iff [OF demo_parseUnits_messages] store_initial_def nft_initialState_def)

text \<open>the way the selectors shorten a message loses errors: when \<open>parseUnits\<close> throws one
  without a parenthesis, the message becomes empty and the source counts as complete although the
  amount does not parse.\<close>

theorem selectTransferSourceError_swallows:
  assumes "sourceParsedTokenAccount (transfer s) = Some acc" "sourceChain (transfer s) \<noteq> 0"
    and "amount (transfer s) \<noteq> ''''" "uiAmountString acc \<noteq> ''''" "publicKey acc \<noteq> ''''"
    and "P (amount (transfer s)) (decimals acc) = Inl e" "js_message e \<noteq> ''''" "CHR ''('' \<notin> set (js_message e)"
  shows "selectTransferIsSourceComplete P s"
  using assms by (simp add: selectTransferIsSourceComplete_def selectTransferSourceError_def caught_def beforeParen_def)

theorem selectTransferSourceError_swallows_witness:
  "selectTransferIsSourceComplete (\<lambda>s d. Inl (Foreign ''underflow'')) (demo_store ''x'')"
  by (rule selectTransferSourceError_swallows [where acc = demo_account and e = "Foreign ''underflow''"])
    (simp_all add: demo_store_sels demo_account_def CHAIN_ID_SOLANA_def)

end
