(* ===== verification/Migration.thy ===== *)
theory Migration
  imports SolanaBridge
begin

text \<open>
  The client of the Solana migration program, \<open>sdk/js/src/migration/*.ts\<close>: five functions that build
  a transaction (create a pool, add and remove liquidity, migrate tokens, claim shares) and six that
  ask the migration module for an address or for the contents of a pool. The module is third-party
  code in WebAssembly, the record \<open>migration_wasm\<close>; a transaction is completed as in
  \<open>SolanaBridge.finishTransaction\<close>.
\<close>

section \<open>The migration module\<close>

text \<open>Its instructions, with the arguments in the order of the calls: the program, the payer (only for a new
  pool), the two mints, and then the accounts and the amount.\<close>

datatype migration_ix =
    CreatePoolIx string string string string
  | AddLiquidityIx string string string string string nat
  | RemoveLiquidityIx string string string string string nat
  | MigrateTokensIx string string string string string nat
  | ClaimSharesIx string string string string string nat

record 'pool migration_wasm =
  build_migration_ix :: "migration_ix \<Rightarrow> rust_ix result"
  authority_address :: "string \<Rightarrow> bytes result"
  pool_address :: "string \<Rightarrow> string \<Rightarrow> string \<Rightarrow> bytes result"
  from_custody_address :: "string \<Rightarrow> string \<Rightarrow> bytes result"
  to_custody_address :: "string \<Rightarrow> string \<Rightarrow> bytes result"
  share_mint_address :: "string \<Rightarrow> string \<Rightarrow> bytes result"
  parse_pool :: "bytes \<Rightarrow> 'pool result"

definition migrationIx :: "'k web3 \<Rightarrow> 'pool migration_wasm \<Rightarrow> migration_ix \<Rightarrow> 'k instruction result" where
  "migrationIx W G i = bindR (build_migration_ix G i) (ixFromRust W)"

section \<open>The transactions\<close>

text \<open>The approval that four of the functions begin with: the program's authority may take the amount
  from an account of the payer.\<close>

definition approveAuthority ::
  "'k web3 \<Rightarrow> ('k spl_ix \<Rightarrow> 'k instruction result) \<Rightarrow> 'pool migration_wasm \<Rightarrow> string \<Rightarrow> string \<Rightarrow> string \<Rightarrow> nat \<Rightarrow>
   'k instruction result" where
  "approveAuthority W spl G program_address tokenAccount payerAddress amt =
     bindR (publicKeyS W tokenAccount) (\<lambda>account.
     bindR (bindR (authority_address G program_address) (publicKeyB W)) (\<lambda>delegate.
     bindR (publicKeyS W payerAddress) (\<lambda>owner.
     spl (Approve account delegate owner amt))))"

definition createPool ::
  "'k web3 \<Rightarrow> 'k connection \<Rightarrow> 'pool migration_wasm \<Rightarrow> string \<Rightarrow> string \<Rightarrow> string \<Rightarrow> string \<Rightarrow> string \<Rightarrow>
   'k history \<Rightarrow> 'k history \<times> 'k transaction result" where
  "createPool W C G payerAddress program_address payer from_mint to_mint h =
     bindH (h, migrationIx W G (CreatePoolIx program_address payer from_mint to_mint)) (\<lambda>h ix.
     finishTransaction W C payerAddress [ix] [] h)"

definition addLiquidity ::
  "'k web3 \<Rightarrow> 'k connection \<Rightarrow> ('k spl_ix \<Rightarrow> 'k instruction result) \<Rightarrow> 'pool migration_wasm \<Rightarrow>
   string \<Rightarrow> string \<Rightarrow> string \<Rightarrow> string \<Rightarrow> string \<Rightarrow> string \<Rightarrow> nat \<Rightarrow> 'k history \<Rightarrow> 'k history \<times> 'k transaction result" where
  "addLiquidity W C spl G payerAddress program_address from_mint to_mint liquidity_token_account lp_share_token_account amt h =
     bindH (h, approveAuthority W spl G program_address liquidity_token_account payerAddress amt) (\<lambda>h approvalIx.
     bindH (h, migrationIx W G (AddLiquidityIx program_address from_mint to_mint liquidity_token_account
       lp_share_token_account amt)) (\<lambda>h ix.
     finishTransaction W C payerAddress [approvalIx, ix] [] h))"

definition removeLiquidity ::
  "'k web3 \<Rightarrow> 'k connection \<Rightarrow> ('k spl_ix \<Rightarrow> 'k instruction result) \<Rightarrow> 'pool migration_wasm \<Rightarrow>
   string \<Rightarrow> string \<Rightarrow> string \<Rightarrow> string \<Rightarrow> string \<Rightarrow> string \<Rightarrow> nat \<Rightarrow> 'k history \<Rightarrow> 'k history \<times> 'k transaction result" where
  "removeLiquidity W C spl G payerAddress program_address from_mint to_mint liquidity_token_account lp_share_token_account amt h =
     bindH (h, approveAuthority W spl G program_address lp_share_token_account payerAddress amt) (\<lambda>h approvalIx.
     bindH (h, migrationIx W G (RemoveLiquidityIx program_address from_mint to_mint liquidity_token_account
       lp_share_token_account amt)) (\<lambda>h ix.
     finishTransaction W C payerAddress [approvalIx, ix] [] h))"

definition migrateTokens ::
  "'k web3 \<Rightarrow> 'k connection \<Rightarrow> ('k spl_ix \<Rightarrow> 'k instruction result) \<Rightarrow> 'pool migration_wasm \<Rightarrow>
   string \<Rightarrow> string \<Rightarrow> string \<Rightarrow> string \<Rightarrow> string \<Rightarrow> string \<Rightarrow> nat \<Rightarrow> 'k history \<Rightarrow> 'k history \<times> 'k transaction result" where
  "migrateTokens W C spl G payerAddress program_address from_mint to_mint input_token_account output_token_account amt h =
     bindH (h, approveAuthority W spl G program_address input_token_account payerAddress amt) (\<lambda>h approvalIx.
     bindH (h, migrationIx W G (MigrateTokensIx program_address from_mint to_mint input_token_account
       output_token_account amt)) (\<lambda>h ix.
     finishTransaction W C payerAddress [approvalIx, ix] [] h))"

definition claimShares ::
  "'k web3 \<Rightarrow> 'k connection \<Rightarrow> ('k spl_ix \<Rightarrow> 'k instruction result) \<Rightarrow> 'pool migration_wasm \<Rightarrow>
   string \<Rightarrow> string \<Rightarrow> string \<Rightarrow> string \<Rightarrow> string \<Rightarrow> string \<Rightarrow> nat \<Rightarrow> 'k history \<Rightarrow> 'k history \<times> 'k transaction result" where
  "claimShares W C spl G payerAddress program_address from_mint to_mint output_token_account lp_share_token_account amt h =
     bindH (h, approveAuthority W spl G program_address lp_share_token_account payerAddress amt) (\<lambda>h approvalIx.
     bindH (h, migrationIx W G (ClaimSharesIx program_address from_mint to_mint output_token_account
       lp_share_token_account amt)) (\<lambda>h ix.
     finishTransaction W C payerAddress [approvalIx, ix] [] h))"

section \<open>The queries\<close>

definition authorityAddress :: "'pool migration_wasm \<Rightarrow> string \<Rightarrow> bytes result" where
  "authorityAddress G program_address = authority_address G program_address"

definition poolAddress :: "'pool migration_wasm \<Rightarrow> string \<Rightarrow> string \<Rightarrow> string \<Rightarrow> bytes result" where
  "poolAddress G program_address from_mint to_mint = pool_address G program_address from_mint to_mint"

definition fromCustodyAddress :: "'pool migration_wasm \<Rightarrow> string \<Rightarrow> string \<Rightarrow> bytes result" where
  "fromCustodyAddress G program_address pool = from_custody_address G program_address pool"

definition toCustodyAddress :: "'pool migration_wasm \<Rightarrow> string \<Rightarrow> string \<Rightarrow> bytes result" where
  "toCustodyAddress G program_address pool = to_custody_address G program_address pool"

definition shareMintAddress :: "'pool migration_wasm \<Rightarrow> string \<Rightarrow> string \<Rightarrow> bytes result" where
  "shareMintAddress G program_address pool = share_mint_address G program_address pool"

definition parsePool :: "'pool migration_wasm \<Rightarrow> bytes \<Rightarrow> 'pool result" where
  "parsePool G bs = parse_pool G bs"

section \<open>What the transactions do\<close>

text \<open>A request is an instruction of the module; this is the function that makes its transaction.\<close>

fun request ::
  "'k web3 \<Rightarrow> 'k connection \<Rightarrow> ('k spl_ix \<Rightarrow> 'k instruction result) \<Rightarrow> 'pool migration_wasm \<Rightarrow> string \<Rightarrow> migration_ix \<Rightarrow>
   'k history \<Rightarrow> 'k history \<times> 'k transaction result" where
  "request W C spl G payer (CreatePoolIx p q f t) = createPool W C G payer p q f t"
| "request W C spl G payer (AddLiquidityIx p f t a b n) = addLiquidity W C spl G payer p f t a b n"
| "request W C spl G payer (RemoveLiquidityIx p f t a b n) = removeLiquidity W C spl G payer p f t a b n"
| "request W C spl G payer (MigrateTokensIx p f t a b n) = migrateTokens W C spl G payer p f t a b n"
| "request W C spl G payer (ClaimSharesIx p f t a b n) = claimShares W C spl G payer p f t a b n"

text \<open>What an instruction takes from the payer: the program, the account and the amount. Liquidity comes out of the
  liquidity account, migrated tokens out of the input account; to remove liquidity or to claim is to burn
  shares.\<close>

fun debits :: "migration_ix \<Rightarrow> (string \<times> string \<times> nat) option" where
  "debits (CreatePoolIx p q f t) = None"
| "debits (AddLiquidityIx p f t liquidity shares n) = Some (p, liquidity, n)"
| "debits (RemoveLiquidityIx p f t liquidity shares n) = Some (p, shares, n)"
| "debits (MigrateTokensIx p f t inp out n) = Some (p, inp, n)"
| "debits (ClaimSharesIx p f t out shares n) = Some (p, shares, n)"

text \<open>C27: a migration transaction is the instruction asked for, after the approval of exactly what that
  instruction debits: its amount, from the account it takes it from, for the authority of its program, given by
  the payer. Creating a pool approves nothing. The network is asked for a blockhash only.\<close>

theorem migration_approves_debit:
  assumes W: "web3_laws W" and run: "request W C spl G payer i h = (h', Inr tx)"
  shows "h' = h @ [GetRecentBlockhash] \<and>
    (\<exists>ix. migrationIx W G i = Inr ix \<and>
      (case debits i of
         None \<Rightarrow> instructions tx = [ix]
       | Some (p, source, n) \<Rightarrow> \<exists>approveIx account delegate owner.
           instructions tx = [approveIx, ix] \<and> publicKeyS W source = Inr account \<and>
           bindR (authority_address G p) (publicKeyB W) = Inr delegate \<and> publicKeyS W payer = Inr owner \<and>
           spl (Approve account delegate owner n) = Inr approveIx))"
proof -
  have a: "\<exists>account delegate owner. publicKeyS W source = Inr account \<and>
      bindR (authority_address G p) (publicKeyB W) = Inr delegate \<and> publicKeyS W payer = Inr owner \<and>
      spl (Approve account delegate owner n) = Inr approveIx"
    if "approveAuthority W spl G p source payer n = Inr approveIx" for p source n approveIx
    using that by (auto simp: approveAuthority_def)
  show ?thesis
  proof (cases i)
    case (CreatePoolIx p q f t)
    then obtain ix where "migrationIx W G i = Inr ix" "finishTransaction W C payer [ix] [] h = (h', Inr tx)"
      using run by (auto simp: createPool_def bindH_eq_Inr)
    then show ?thesis using finishTransaction_instructions [OF _ W] CreatePoolIx by fastforce
  next
    case (AddLiquidityIx p f t b c n)
    then obtain ap ix where s: "approveAuthority W spl G p b payer n = Inr ap" "migrationIx W G i = Inr ix"
      "finishTransaction W C payer [ap, ix] [] h = (h', Inr tx)"
      using run by (auto simp: addLiquidity_def bindH_eq_Inr)
    then show ?thesis using finishTransaction_instructions [OF s(3) W] a [OF s(1)] AddLiquidityIx by auto
  next
    case (RemoveLiquidityIx p f t b c n)
    then obtain ap ix where s: "approveAuthority W spl G p c payer n = Inr ap" "migrationIx W G i = Inr ix"
      "finishTransaction W C payer [ap, ix] [] h = (h', Inr tx)"
      using run by (auto simp: removeLiquidity_def bindH_eq_Inr)
    then show ?thesis using finishTransaction_instructions [OF s(3) W] a [OF s(1)] RemoveLiquidityIx by auto
  next
    case (MigrateTokensIx p f t b c n)
    then obtain ap ix where s: "approveAuthority W spl G p b payer n = Inr ap" "migrationIx W G i = Inr ix"
      "finishTransaction W C payer [ap, ix] [] h = (h', Inr tx)"
      using run by (auto simp: migrateTokens_def bindH_eq_Inr)
    then show ?thesis using finishTransaction_instructions [OF s(3) W] a [OF s(1)] MigrateTokensIx by auto
  next
    case (ClaimSharesIx p f t b c n)
    then obtain ap ix where s: "approveAuthority W spl G p c payer n = Inr ap" "migrationIx W G i = Inr ix"
      "finishTransaction W C payer [ap, ix] [] h = (h', Inr tx)"
      using run by (auto simp: claimShares_def bindH_eq_Inr)
    then show ?thesis using finishTransaction_instructions [OF s(3) W] a [OF s(1)] ClaimSharesIx by auto
  qed
qed

definition demo_migration :: "nat migration_wasm" where
  "demo_migration = \<lparr>build_migration_ix = (\<lambda>i. Inr (demo_ix 7)), authority_address = (\<lambda>p. Inr [8]),
     pool_address = (\<lambda>p f t. Inr [9]), from_custody_address = (\<lambda>p q. Inr [10]), to_custody_address = (\<lambda>p q. Inr [11]),
     share_mint_address = (\<lambda>p q. Inr [12]), parse_pool = (\<lambda>bs. Inr (length bs))\<rparr>"

theorem migration_approves_debit_witness:
  "\<exists>h tx. request demo_web3 good_connection demo_spl demo_migration ''payer''
     (AddLiquidityIx ''prog'' ''from'' ''to'' ''liq'' ''share'' 5) [] = (h, Inr tx) \<and> length (instructions tx) = 2"
proof -
  have "\<exists>h tx. request demo_web3 good_connection demo_spl demo_migration ''payer''
     (AddLiquidityIx ''prog'' ''from'' ''to'' ''liq'' ''share'' 5) [] = (h, Inr tx)"
    by (simp add: addLiquidity_def approveAuthority_def migrationIx_def demo_migration_def demo_run_defs del: toHex_simps)
  then obtain h tx where run: "request demo_web3 good_connection demo_spl demo_migration ''payer''
     (AddLiquidityIx ''prog'' ''from'' ''to'' ''liq'' ''share'' 5) [] = (h, Inr tx)" by blast
  from migration_approves_debit [OF demo_web3_laws this] have "length (instructions tx) = 2" by auto
  with run show ?thesis by blast
qed

end
