(* ===== verification/Config.thy ===== *)
theory Config
  imports Addresses
begin

text \<open>
  \<open>bridge_ui/src/utils/consts.ts\<close>: what the bridge UI is configured with. The file is evaluated once, for the cluster
  that the build names, so every constant that depends on it is a function of the cluster. \<open>getAddress\<close> of ethers,
  which gives an address the capitals of its checksum, is the parameter \<open>G\<close>.
\<close>

datatype cluster = Mainnet | Testnet | Devnet

definition CLUSTER :: "string option \<Rightarrow> cluster" where
  "CLUSTER REACT_APP_CLUSTER =
     (if REACT_APP_CLUSTER = Some ''mainnet'' then Mainnet
      else if REACT_APP_CLUSTER = Some ''testnet'' then Testnet
      else Devnet)"

text \<open>The form of every choice: \<open>CLUSTER === "mainnet" ? m : CLUSTER === "testnet" ? t : d\<close>.\<close>

definition byCluster :: "cluster \<Rightarrow> 'a \<Rightarrow> 'a \<Rightarrow> 'a \<Rightarrow> 'a" where
  "byCluster c m t d = (if c = Mainnet then m else if c = Testnet then t else d)"

lemma byCluster_simps [simp]:
  "byCluster Mainnet m t d = m" "byCluster Testnet m t d = t" "byCluster Devnet m t d = d"
  by (simp_all add: byCluster_def)

text \<open>A logo is the name of the image it is imported from.\<close>

record chain_info =
  ci_id :: ChainId
  ci_name :: string
  ci_logo :: string

section \<open>Chains, addresses and networks\<close>

definition CHAINS :: "cluster \<Rightarrow> chain_info list" where
  "CHAINS c = byCluster c
       [\<lparr>ci_id = CHAIN_ID_AVAX, ci_name = ''Avalanche'', ci_logo = ''avaxIcon''\<rparr>,
        \<lparr>ci_id = CHAIN_ID_BSC, ci_name = ''Binance Smart Chain'', ci_logo = ''bscIcon''\<rparr>,
        \<lparr>ci_id = CHAIN_ID_ETH, ci_name = ''Ethereum'', ci_logo = ''ethIcon''\<rparr>,
        \<lparr>ci_id = CHAIN_ID_FANTOM, ci_name = ''Fantom'', ci_logo = ''fantomIcon''\<rparr>,
        \<lparr>ci_id = CHAIN_ID_OASIS, ci_name = ''Oasis'', ci_logo = ''oasisIcon''\<rparr>,
        \<lparr>ci_id = CHAIN_ID_POLYGON, ci_name = ''Polygon'', ci_logo = ''polygonIcon''\<rparr>,
        \<lparr>ci_id = CHAIN_ID_SOLANA, ci_name = ''Solana'', ci_logo = ''solanaIcon''\<rparr>,
        \<lparr>ci_id = CHAIN_ID_TERRA, ci_name = ''Terra'', ci_logo = ''terraIcon''\<rparr>]
       [\<lparr>ci_id = CHAIN_ID_AVAX, ci_name = ''Avalanche'', ci_logo = ''avaxIcon''\<rparr>,
        \<lparr>ci_id = CHAIN_ID_BSC, ci_name = ''Binance Smart Chain'', ci_logo = ''bscIcon''\<rparr>,
        \<lparr>ci_id = CHAIN_ID_ETH, ci_name = ''Ethereum (Goerli)'', ci_logo = ''ethIcon''\<rparr>,
        \<lparr>ci_id = CHAIN_ID_ETHEREUM_ROPSTEN, ci_name = ''Ethereum (Ropsten)'', ci_logo = ''ethIcon''\<rparr>,
        \<lparr>ci_id = CHAIN_ID_FANTOM, ci_name = ''Fantom'', ci_logo = ''fantomIcon''\<rparr>,
        \<lparr>ci_id = CHAIN_ID_OASIS, ci_name = ''Oasis'', ci_logo = ''oasisIcon''\<rparr>,
        \<lparr>ci_id = CHAIN_ID_POLYGON, ci_name = ''Polygon'', ci_logo = ''polygonIcon''\<rparr>,
        \<lparr>ci_id = CHAIN_ID_SOLANA, ci_name = ''Solana'', ci_logo = ''solanaIcon''\<rparr>,
        \<lparr>ci_id = CHAIN_ID_TERRA, ci_name = ''Terra'', ci_logo = ''terraIcon''\<rparr>]
       [\<lparr>ci_id = CHAIN_ID_BSC, ci_name = ''Binance Smart Chain'', ci_logo = ''bscIcon''\<rparr>,
        \<lparr>ci_id = CHAIN_ID_ETH, ci_name = ''Ethereum'', ci_logo = ''ethIcon''\<rparr>,
        \<lparr>ci_id = CHAIN_ID_SOLANA, ci_name = ''Solana'', ci_logo = ''solanaIcon''\<rparr>,
        \<lparr>ci_id = CHAIN_ID_TERRA, ci_name = ''Terra'', ci_logo = ''terraIcon''\<rparr>]"

definition CHAINS_WITH_NFT_SUPPORT :: "cluster \<Rightarrow> chain_info list" where
  "CHAINS_WITH_NFT_SUPPORT c = filter (\<lambda>i.
     ci_id i = CHAIN_ID_AVAX \<or>
     ci_id i = CHAIN_ID_BSC \<or>
     ci_id i = CHAIN_ID_ETH \<or>
     ci_id i = CHAIN_ID_ETHEREUM_ROPSTEN \<or>
     ci_id i = CHAIN_ID_POLYGON \<or>
     ci_id i = CHAIN_ID_OASIS \<or>
     ci_id i = CHAIN_ID_SOLANA \<or>
     ci_id i = CHAIN_ID_FANTOM) (CHAINS c)"

text \<open>The object is built in order: of two entries with the same id the later one stays.\<close>

definition CHAINS_BY_ID :: "cluster \<Rightarrow> ChainId \<rightharpoonup> chain_info" where
  "CHAINS_BY_ID c = foldl (\<lambda>obj chain. obj(ci_id chain \<mapsto> chain)) Map.empty (CHAINS c)"

definition getDefaultNativeCurrencySymbol :: "cluster \<Rightarrow> ChainId \<Rightarrow> string" where
  "getDefaultNativeCurrencySymbol c chainId =
     (if chainId = CHAIN_ID_SOLANA then ''SOL''
      else if chainId = CHAIN_ID_ETH \<or> chainId = CHAIN_ID_ETHEREUM_ROPSTEN then ''ETH''
      else if chainId = CHAIN_ID_BSC then ''BNB''
      else if chainId = CHAIN_ID_TERRA then ''LUNA''
      else if chainId = CHAIN_ID_POLYGON then ''MATIC''
      else if chainId = CHAIN_ID_AVAX then ''AVAX''
      else if chainId = CHAIN_ID_OASIS then ''ROSE''
      else if chainId = CHAIN_ID_FANTOM then ''FTM''
      else '''')"

definition getExplorerName :: "cluster \<Rightarrow> ChainId \<Rightarrow> string" where
  "getExplorerName c chainId =
     (if chainId = CHAIN_ID_ETH \<or> chainId = CHAIN_ID_ETHEREUM_ROPSTEN then ''Etherscan''
      else if chainId = CHAIN_ID_BSC then ''BscScan''
      else if chainId = CHAIN_ID_TERRA then ''Finder''
      else if chainId = CHAIN_ID_POLYGON then ''Polygonscan''
      else if chainId = CHAIN_ID_AVAX then ''Snowtrace''
      else if chainId = CHAIN_ID_FANTOM then ''FTMScan''
      else ''Explorer'')"

definition WORMHOLE_RPC_HOSTS :: "cluster \<Rightarrow> string list" where
  "WORMHOLE_RPC_HOSTS c = byCluster c
     [''https://wormhole-v2-mainnet-api.certus.one'',
      ''https://wormhole.inotel.ro'',
      ''https://wormhole-v2-mainnet-api.mcf.rocks'',
      ''https://wormhole-v2-mainnet-api.chainlayer.network'',
      ''https://wormhole-v2-mainnet-api.staking.fund'',
      ''https://wormhole-v2-mainnet.01node.com'']
     [''https://wormhole-v2-testnet-api.certus.one'']
     [''http://localhost:7071'']"

definition ETH_NETWORK_CHAIN_ID :: "cluster \<Rightarrow> nat" where
  "ETH_NETWORK_CHAIN_ID c = byCluster c 1 5 1337"

definition ROPSTEN_ETH_NETWORK_CHAIN_ID :: "cluster \<Rightarrow> nat" where
  "ROPSTEN_ETH_NETWORK_CHAIN_ID c = byCluster c 1 3 1337"

definition BSC_NETWORK_CHAIN_ID :: "cluster \<Rightarrow> nat" where
  "BSC_NETWORK_CHAIN_ID c = byCluster c 56 97 1397"

definition POLYGON_NETWORK_CHAIN_ID :: "cluster \<Rightarrow> nat" where
  "POLYGON_NETWORK_CHAIN_ID c = byCluster c 137 80001 1381"

definition AVAX_NETWORK_CHAIN_ID :: "cluster \<Rightarrow> nat" where
  "AVAX_NETWORK_CHAIN_ID c = byCluster c 43114 43113 1381"

definition OASIS_NETWORK_CHAIN_ID :: "cluster \<Rightarrow> nat" where
  "OASIS_NETWORK_CHAIN_ID c = byCluster c 42262 42261 1381"

definition FANTOM_NETWORK_CHAIN_ID :: "cluster \<Rightarrow> nat" where
  "FANTOM_NETWORK_CHAIN_ID c = byCluster c 250 4002 1381"

definition getEvmChainId :: "cluster \<Rightarrow> ChainId \<Rightarrow> nat option" where
  "getEvmChainId c chainId =
     (if chainId = CHAIN_ID_ETH then Some (ETH_NETWORK_CHAIN_ID c)
      else if chainId = CHAIN_ID_ETHEREUM_ROPSTEN then Some (ROPSTEN_ETH_NETWORK_CHAIN_ID c)
      else if chainId = CHAIN_ID_BSC then Some (BSC_NETWORK_CHAIN_ID c)
      else if chainId = CHAIN_ID_POLYGON then Some (POLYGON_NETWORK_CHAIN_ID c)
      else if chainId = CHAIN_ID_AVAX then Some (AVAX_NETWORK_CHAIN_ID c)
      else if chainId = CHAIN_ID_OASIS then Some (OASIS_NETWORK_CHAIN_ID c)
      else if chainId = CHAIN_ID_FANTOM then Some (FANTOM_NETWORK_CHAIN_ID c)
      else None)"

definition ETH_BRIDGE_ADDRESS :: "(string \<Rightarrow> string) \<Rightarrow> cluster \<Rightarrow> string" where
  "ETH_BRIDGE_ADDRESS G c = G (byCluster c ''0x98f3c9e6E3fAce36bAAd05FE09d375Ef1464288B''
     ''0x706abc4E45D419950511e474C7B9Ed348A4a716c'' ''0xC89Ce4735882C9F0f0FE26686c53074E09B0D550'')"

definition ETH_NFT_BRIDGE_ADDRESS :: "(string \<Rightarrow> string) \<Rightarrow> cluster \<Rightarrow> string" where
  "ETH_NFT_BRIDGE_ADDRESS G c = G (byCluster c ''0x6FFd7EdE62328b3Af38FCD61461Bbfc52F5651fE''
     ''0xD8E4C2DbDd2e2bd8F1336EA691dBFF6952B1a6eB'' ''0x26b4afb60d6c903165150c6f0aa14f8016be4aec'')"

definition ETH_TOKEN_BRIDGE_ADDRESS :: "(string \<Rightarrow> string) \<Rightarrow> cluster \<Rightarrow> string" where
  "ETH_TOKEN_BRIDGE_ADDRESS G c = G (byCluster c ''0x3ee18B2214AFF97000D974cf647E7C347E8fa585''
     ''0xF890982f9310df57d00f659cf4fd87e65adEd8d7'' ''0x0290FB167208Af455bB137780163b7B7a9a10C16'')"

definition BSC_BRIDGE_ADDRESS :: "(string \<Rightarrow> string) \<Rightarrow> cluster \<Rightarrow> string" where
  "BSC_BRIDGE_ADDRESS G c = G (byCluster c ''0x98f3c9e6E3fAce36bAAd05FE09d375Ef1464288B''
     ''0x68605AD7b15c732a30b1BbC62BE8F2A509D74b4D'' ''0xC89Ce4735882C9F0f0FE26686c53074E09B0D550'')"

definition BSC_NFT_BRIDGE_ADDRESS :: "(string \<Rightarrow> string) \<Rightarrow> cluster \<Rightarrow> string" where
  "BSC_NFT_BRIDGE_ADDRESS G c = G (byCluster c ''0x5a58505a96D1dbf8dF91cB21B54419FC36e93fdE''
     ''0xcD16E5613EF35599dc82B24Cb45B5A93D779f1EE'' ''0x26b4afb60d6c903165150c6f0aa14f8016be4aec'')"

definition BSC_TOKEN_BRIDGE_ADDRESS :: "(string \<Rightarrow> string) \<Rightarrow> cluster \<Rightarrow> string" where
  "BSC_TOKEN_BRIDGE_ADDRESS G c = G (byCluster c ''0xB6F6D86a8f9879A9c87f643768d9efc38c1Da6E7''
     ''0x9dcF9D205C9De35334D646BeE44b2D2859712A09'' ''0x0290FB167208Af455bB137780163b7B7a9a10C16'')"

definition POLYGON_BRIDGE_ADDRESS :: "(string \<Rightarrow> string) \<Rightarrow> cluster \<Rightarrow> string" where
  "POLYGON_BRIDGE_ADDRESS G c = G (byCluster c ''0x7A4B5a56256163F07b2C80A7cA55aBE66c4ec4d7''
     ''0x0CBE91CF822c73C2315FB05100C2F714765d5c20'' ''0xC89Ce4735882C9F0f0FE26686c53074E09B0D550'')"

definition POLYGON_NFT_BRIDGE_ADDRESS :: "(string \<Rightarrow> string) \<Rightarrow> cluster \<Rightarrow> string" where
  "POLYGON_NFT_BRIDGE_ADDRESS G c = G (byCluster c ''0x90BBd86a6Fe93D3bc3ed6335935447E75fAb7fCf''
     ''0x51a02d0dcb5e52F5b92bdAA38FA013C91c7309A9'' ''0x26b4afb60d6c903165150c6f0aa14f8016be4aec'')"

definition POLYGON_TOKEN_BRIDGE_ADDRESS :: "(string \<Rightarrow> string) \<Rightarrow> cluster \<Rightarrow> string" where
  "POLYGON_TOKEN_BRIDGE_ADDRESS G c = G (byCluster c ''0x5a58505a96D1dbf8dF91cB21B54419FC36e93fdE''
     ''0x377D55a7928c046E18eEbb61977e714d2a76472a'' ''0x0290FB167208Af455bB137780163b7B7a9a10C16'')"

definition AVAX_BRIDGE_ADDRESS :: "(string \<Rightarrow> string) \<Rightarrow> cluster \<Rightarrow> string" where
  "AVAX_BRIDGE_ADDRESS G c = G (byCluster c ''0x54a8e5f9c4CbA08F9943965859F6c34eAF03E26c''
     ''0x7bbcE28e64B3F8b84d876Ab298393c38ad7aac4C'' ''0xC89Ce4735882C9F0f0FE26686c53074E09B0D550'')"

definition AVAX_NFT_BRIDGE_ADDRESS :: "(string \<Rightarrow> string) \<Rightarrow> cluster \<Rightarrow> string" where
  "AVAX_NFT_BRIDGE_ADDRESS G c = G (byCluster c ''0xf7B6737Ca9c4e08aE573F75A97B73D7a813f5De5''
     ''0xD601BAf2EEE3C028344471684F6b27E789D9075D'' ''0x26b4afb60d6c903165150c6f0aa14f8016be4aec'')"

definition AVAX_TOKEN_BRIDGE_ADDRESS :: "(string \<Rightarrow> string) \<Rightarrow> cluster \<Rightarrow> string" where
  "AVAX_TOKEN_BRIDGE_ADDRESS G c = G (byCluster c ''0x0e082F06FF657D94310cB8cE8B0D9a04541d8052''
     ''0x61E44E506Ca5659E6c0bba9b678586fA2d729756'' ''0x0290FB167208Af455bB137780163b7B7a9a10C16'')"

definition OASIS_BRIDGE_ADDRESS :: "(string \<Rightarrow> string) \<Rightarrow> cluster \<Rightarrow> string" where
  "OASIS_BRIDGE_ADDRESS G c = G (byCluster c ''0xfE8cD454b4A1CA468B57D79c0cc77Ef5B6f64585''
     ''0xc1C338397ffA53a2Eb12A7038b4eeb34791F8aCb'' ''0xC89Ce4735882C9F0f0FE26686c53074E09B0D550'')"

definition OASIS_NFT_BRIDGE_ADDRESS :: "(string \<Rightarrow> string) \<Rightarrow> cluster \<Rightarrow> string" where
  "OASIS_NFT_BRIDGE_ADDRESS G c = G (byCluster c ''0x04952D522Ff217f40B5Ef3cbF659EcA7b952a6c1''
     ''0xC5c25B41AB0b797571620F5204Afa116A44c0ebA'' ''0x26b4afb60d6c903165150c6f0aa14f8016be4aec'')"

definition OASIS_TOKEN_BRIDGE_ADDRESS :: "(string \<Rightarrow> string) \<Rightarrow> cluster \<Rightarrow> string" where
  "OASIS_TOKEN_BRIDGE_ADDRESS G c = G (byCluster c ''0x5848C791e09901b40A9Ef749f2a6735b418d7564''
     ''0x88d8004A9BdbfD9D28090A02010C19897a29605c'' ''0x0290FB167208Af455bB137780163b7B7a9a10C16'')"

definition FANTOM_BRIDGE_ADDRESS :: "(string \<Rightarrow> string) \<Rightarrow> cluster \<Rightarrow> string" where
  "FANTOM_BRIDGE_ADDRESS G c = G (byCluster c ''0x126783A6Cb203a3E35344528B26ca3a0489a1485''
     ''0x1BB3B4119b7BA9dfad76B0545fb3F531383c3bB7'' ''0xC89Ce4735882C9F0f0FE26686c53074E09B0D550'')"

definition FANTOM_NFT_BRIDGE_ADDRESS :: "(string \<Rightarrow> string) \<Rightarrow> cluster \<Rightarrow> string" where
  "FANTOM_NFT_BRIDGE_ADDRESS G c = G (byCluster c ''0xA9c7119aBDa80d4a4E0C06C8F4d8cF5893234535''
     ''0x63eD9318628D26BdCB15df58B53BB27231D1B227'' ''0x26b4afb60d6c903165150c6f0aa14f8016be4aec'')"

definition FANTOM_TOKEN_BRIDGE_ADDRESS :: "(string \<Rightarrow> string) \<Rightarrow> cluster \<Rightarrow> string" where
  "FANTOM_TOKEN_BRIDGE_ADDRESS G c = G (byCluster c ''0x7C9Fc5741288cDFdD83CeB07f3ea7e22618D79D2''
     ''0x599CEa2204B4FaECd584Ab1F2b6aCA137a0afbE8'' ''0x0290FB167208Af455bB137780163b7B7a9a10C16'')"

definition SOL_BRIDGE_ADDRESS :: "cluster \<Rightarrow> string" where
  "SOL_BRIDGE_ADDRESS c = byCluster c ''worm2ZoG2kUd4vFXhvjh93UUH596ayRfgQ2MgjNMTth''
     ''3u8hJUVTA4jH1wYAyUur7FFZVQ8H635K3tSHHF4ssjQ5'' ''Bridge1p5gheXUvJ6jGWGeCsgPKgnE3YgdGKRVCMY9o''"

definition SOL_NFT_BRIDGE_ADDRESS :: "cluster \<Rightarrow> string" where
  "SOL_NFT_BRIDGE_ADDRESS c = byCluster c ''WnFt12ZrnzZrFZkt2xsNsaNWoQribnuQ5B5FrDbwDhD''
     ''2rHhojZ7hpu1zA91nvZmT8TqWWvMcKmmNBCr2mKTtMq4'' ''NFTWqJR8YnRVqPDvTJrYuLrQDitTG5AScqbeghi4zSA''"

definition SOL_TOKEN_BRIDGE_ADDRESS :: "cluster \<Rightarrow> string" where
  "SOL_TOKEN_BRIDGE_ADDRESS c = byCluster c ''wormDTUJ6AWPNvk59vGQbDvGJmqbDTdgWgAqcLBCgUb''
     ''DZnkkTmCiFWfYTfT41X3Rd1kDgozqzxWaHqsw6W4x2oe'' ''B6RHG3mfcckmrYN1UhmJzyS1XX3fZKbkeUcpJe9Sy3FE''"

definition ROPSTEN_ETH_BRIDGE_ADDRESS :: "(string \<Rightarrow> string) \<Rightarrow> cluster \<Rightarrow> string" where
  "ROPSTEN_ETH_BRIDGE_ADDRESS G c = G (byCluster c ''0x98f3c9e6E3fAce36bAAd05FE09d375Ef1464288B''
     ''0x210c5F5e2AF958B4defFe715Dc621b7a3BA888c5'' ''0xC89Ce4735882C9F0f0FE26686c53074E09B0D550'')"

definition ROPSTEN_ETH_NFT_BRIDGE_ADDRESS :: "(string \<Rightarrow> string) \<Rightarrow> cluster \<Rightarrow> string" where
  "ROPSTEN_ETH_NFT_BRIDGE_ADDRESS G c = G (byCluster c ''0x6FFd7EdE62328b3Af38FCD61461Bbfc52F5651fE''
     ''0x2b048Da40f69c8dc386a56705915f8E966fe1eba'' ''0x26b4afb60d6c903165150c6f0aa14f8016be4aec'')"

definition ROPSTEN_ETH_TOKEN_BRIDGE_ADDRESS :: "(string \<Rightarrow> string) \<Rightarrow> cluster \<Rightarrow> string" where
  "ROPSTEN_ETH_TOKEN_BRIDGE_ADDRESS G c = G (byCluster c ''0x3ee18B2214AFF97000D974cf647E7C347E8fa585''
     ''0xF174F9A837536C449321df1Ca093Bb96948D5386'' ''0x0290FB167208Af455bB137780163b7B7a9a10C16'')"

definition TERRA_BRIDGE_ADDRESS :: "cluster \<Rightarrow> string" where
  "TERRA_BRIDGE_ADDRESS c = byCluster c ''terra1dq03ugtd40zu9hcgdzrsq6z2z4hwhc9tqk2uy5''
     ''terra1pd65m0q9tl3v8znnz5f5ltsfegyzah7g42cx5v'' ''terra18vd8fpwxzck93qlwghaj6arh4p7c5n896xzem5''"

definition TERRA_TOKEN_BRIDGE_ADDRESS :: "cluster \<Rightarrow> string" where
  "TERRA_TOKEN_BRIDGE_ADDRESS c = byCluster c ''terra10nmmwe8r3g99a9newtqa7a75xfgs2e8z87r2sf''
     ''terra1pseddrv0yfsn76u4zxrjmtf45kdlmalswdv39a'' ''terra10pyejy66429refv3g35g2t7am0was7ya7kz2a4''"

definition SOL_CUSTODY_ADDRESS :: string where
  "SOL_CUSTODY_ADDRESS = ''GugU1tP7doLeTw9hQP51xRJyS8Da1fWxuiy2rVrnMD2m''"

definition SOL_NFT_CUSTODY_ADDRESS :: string where
  "SOL_NFT_CUSTODY_ADDRESS = ''D63bhHo634eXSj4Jq3xgu2fjB5XKc8DFHzDY9iZk7fv1''"

definition TERRA_TEST_TOKEN_ADDRESS :: string where
  "TERRA_TEST_TOKEN_ADDRESS = ''terra13nkgqrfymug724h8pprpexqj9h629sa3ncw7sh''"

definition getBridgeAddressForChain :: "(string \<Rightarrow> string) \<Rightarrow> cluster \<Rightarrow> ChainId \<Rightarrow> string" where
  "getBridgeAddressForChain G c chainId =
     (if chainId = CHAIN_ID_SOLANA then SOL_BRIDGE_ADDRESS c
      else if chainId = CHAIN_ID_ETH then ETH_BRIDGE_ADDRESS G c
      else if chainId = CHAIN_ID_BSC then BSC_BRIDGE_ADDRESS G c
      else if chainId = CHAIN_ID_TERRA then TERRA_BRIDGE_ADDRESS c
      else if chainId = CHAIN_ID_POLYGON then POLYGON_BRIDGE_ADDRESS G c
      else if chainId = CHAIN_ID_ETHEREUM_ROPSTEN then ROPSTEN_ETH_BRIDGE_ADDRESS G c
      else if chainId = CHAIN_ID_AVAX then AVAX_BRIDGE_ADDRESS G c
      else if chainId = CHAIN_ID_OASIS then OASIS_BRIDGE_ADDRESS G c
      else if chainId = CHAIN_ID_FANTOM then FANTOM_BRIDGE_ADDRESS G c
      else '''')"

definition getNFTBridgeAddressForChain :: "(string \<Rightarrow> string) \<Rightarrow> cluster \<Rightarrow> ChainId \<Rightarrow> string" where
  "getNFTBridgeAddressForChain G c chainId =
     (if chainId = CHAIN_ID_SOLANA then SOL_NFT_BRIDGE_ADDRESS c
      else if chainId = CHAIN_ID_ETH then ETH_NFT_BRIDGE_ADDRESS G c
      else if chainId = CHAIN_ID_BSC then BSC_NFT_BRIDGE_ADDRESS G c
      else if chainId = CHAIN_ID_POLYGON then POLYGON_NFT_BRIDGE_ADDRESS G c
      else if chainId = CHAIN_ID_ETHEREUM_ROPSTEN then ROPSTEN_ETH_NFT_BRIDGE_ADDRESS G c
      else if chainId = CHAIN_ID_AVAX then AVAX_NFT_BRIDGE_ADDRESS G c
      else if chainId = CHAIN_ID_OASIS then OASIS_NFT_BRIDGE_ADDRESS G c
      else if chainId = CHAIN_ID_FANTOM then FANTOM_NFT_BRIDGE_ADDRESS G c
      else '''')"

definition getTokenBridgeAddressForChain :: "(string \<Rightarrow> string) \<Rightarrow> cluster \<Rightarrow> ChainId \<Rightarrow> string" where
  "getTokenBridgeAddressForChain G c chainId =
     (if chainId = CHAIN_ID_SOLANA then SOL_TOKEN_BRIDGE_ADDRESS c
      else if chainId = CHAIN_ID_ETH then ETH_TOKEN_BRIDGE_ADDRESS G c
      else if chainId = CHAIN_ID_BSC then BSC_TOKEN_BRIDGE_ADDRESS G c
      else if chainId = CHAIN_ID_TERRA then TERRA_TOKEN_BRIDGE_ADDRESS c
      else if chainId = CHAIN_ID_POLYGON then POLYGON_TOKEN_BRIDGE_ADDRESS G c
      else if chainId = CHAIN_ID_ETHEREUM_ROPSTEN then ROPSTEN_ETH_TOKEN_BRIDGE_ADDRESS G c
      else if chainId = CHAIN_ID_AVAX then AVAX_TOKEN_BRIDGE_ADDRESS G c
      else if chainId = CHAIN_ID_OASIS then OASIS_TOKEN_BRIDGE_ADDRESS G c
      else if chainId = CHAIN_ID_FANTOM then FANTOM_TOKEN_BRIDGE_ADDRESS G c
      else '''')"

definition COVALENT_ETHEREUM :: nat where
  "COVALENT_ETHEREUM = 1"

definition COVALENT_BSC :: "cluster \<Rightarrow> nat" where
  "COVALENT_BSC c = (if c = Devnet then 56 else BSC_NETWORK_CHAIN_ID c)"

definition COVALENT_POLYGON :: "cluster \<Rightarrow> nat" where
  "COVALENT_POLYGON c = (if c = Devnet then 137 else POLYGON_NETWORK_CHAIN_ID c)"

definition COVALENT_AVAX :: "cluster \<Rightarrow> nat" where
  "COVALENT_AVAX c = (if c = Devnet then 137 else AVAX_NETWORK_CHAIN_ID c)"

definition COVALENT_FANTOM :: "cluster \<Rightarrow> nat" where
  "COVALENT_FANTOM c = (if c = Devnet then 250 else FANTOM_NETWORK_CHAIN_ID c)"

definition COVALENT_OASIS :: "cluster \<Rightarrow> nat option" where
  "COVALENT_OASIS c = None"

text \<open>In the template string null prints as \<open>null\<close>. The API key is a variable of the environment, empty when it is not
  set.\<close>

definition COVALENT_GET_TOKENS_URL :: "string \<Rightarrow> cluster \<Rightarrow> ChainId \<Rightarrow> string \<Rightarrow> bool \<Rightarrow> bool \<Rightarrow> string" where
  "COVALENT_GET_TOKENS_URL COVALENT_API_KEY c chainId walletAddress nft noNftMetadata =
     (let chainNum =
        (if chainId = CHAIN_ID_ETH \<or> chainId = CHAIN_ID_ETHEREUM_ROPSTEN then decimal COVALENT_ETHEREUM
         else if chainId = CHAIN_ID_BSC then decimal (COVALENT_BSC c)
         else if chainId = CHAIN_ID_POLYGON then decimal (COVALENT_POLYGON c)
         else if chainId = CHAIN_ID_AVAX then decimal (COVALENT_AVAX c)
         else if chainId = CHAIN_ID_OASIS then (case COVALENT_OASIS c of None \<Rightarrow> ''null'' | Some n \<Rightarrow> decimal n)
         else if chainId = CHAIN_ID_FANTOM then decimal (COVALENT_FANTOM c)
         else []) in
      ''https://api.covalenthq.com/v1/'' @ chainNum @ ''/address/'' @ walletAddress @ ''/balances_v2/?key='' @
        COVALENT_API_KEY @ (if nft then ''&nft=true'' else []) @ (if noNftMetadata then ''&no-nft-fetch=true'' else []))"

definition WETH_ADDRESS :: "cluster \<Rightarrow> string" where
  "WETH_ADDRESS c = byCluster c ''0xc02aaa39b223fe8d0a0e5c4f27ead9083c756cc2''
     ''0xb4fbf271143f4fbf7b91a5ded31805e42b2208d6'' ''0xDDb64fE46a91D46ee29420539FC25FD07c5FEa3E''"

definition WBNB_ADDRESS :: "cluster \<Rightarrow> string" where
  "WBNB_ADDRESS c = byCluster c ''0xbb4CdB9CBd36B01bD1cBaEBF2De08d9173bc095c''
     ''0xae13d989dac2f0debff460ac112a837c89baa7cd'' ''0xDDb64fE46a91D46ee29420539FC25FD07c5FEa3E''"

definition WMATIC_ADDRESS :: "cluster \<Rightarrow> string" where
  "WMATIC_ADDRESS c = byCluster c ''0x0d500b1d8e8ef31e21c99d1db9a6444d3adf1270''
     ''0x9c3c9283d3e44854697cd22d3faa240cfb032889'' ''0xDDb64fE46a91D46ee29420539FC25FD07c5FEa3E''"

definition ROPSTEN_WETH_ADDRESS :: "cluster \<Rightarrow> string" where
  "ROPSTEN_WETH_ADDRESS c = byCluster c ''0xc02aaa39b223fe8d0a0e5c4f27ead9083c756cc2''
     ''0xc778417e063141139fce010982780140aa0cd5ab'' ''0xDDb64fE46a91D46ee29420539FC25FD07c5FEa3E''"

definition WAVAX_ADDRESS :: "cluster \<Rightarrow> string" where
  "WAVAX_ADDRESS c = byCluster c ''0xb31f66aa3c1e785363f0875a1b74e27b85fd66c7''
     ''0xd00ae08403b9bbb9124bb305c09058e32c39a48c'' ''0xDDb64fE46a91D46ee29420539FC25FD07c5FEa3E''"

definition WROSE_ADDRESS :: "cluster \<Rightarrow> string" where
  "WROSE_ADDRESS c = byCluster c ''0x21C718C22D52d0F3a789b752D4c2fD5908a8A733''
     ''0x792296e2a15e6Ceb5f5039DecaE7A1f25b00B0B0'' ''0xDDb64fE46a91D46ee29420539FC25FD07c5FEa3E''"

definition WFTM_ADDRESS :: "cluster \<Rightarrow> string" where
  "WFTM_ADDRESS c = byCluster c ''0x21be370D5312f44cB42ce377BC9b8a0cEF1A4C83''
     ''0xf1277d1Ed8AD466beddF92ef448A132661956621'' ''0xDDb64fE46a91D46ee29420539FC25FD07c5FEa3E''"

definition WORMHOLE_V1_ETH_ADDRESS :: "cluster \<Rightarrow> string" where
  "WORMHOLE_V1_ETH_ADDRESS c = byCluster c ''0xf92cD566Ea4864356C5491c177A430C222d7e678''
     ''0xdae0Cba01eFc4bfEc1F7Fece73Fe8b8d2Eda65B0'' ''0xf92cD566Ea4864356C5491c177A430C222d7e678''"

definition WORMHOLE_V1_SOLANA_ADDRESS :: "cluster \<Rightarrow> string" where
  "WORMHOLE_V1_SOLANA_ADDRESS c = byCluster c ''WormT3McKhFJ2RkiGpdw9GKvNCrB2aB54gb2uV9MfQC''
     ''BrdgiFmZN3BKkcY3danbPYyxPKwb8RhQzpM2VY5L97ED'' ''''"

definition WORMHOLE_V1_MINT_AUTHORITY :: "cluster \<Rightarrow> string" where
  "WORMHOLE_V1_MINT_AUTHORITY c = byCluster c ''9zyPU1mjgzaVyQsYwKJJ7AhVz5bgx5uc1NPABvAcUXsT''
     ''BJa7dq3bRP216zaTdw4cdcV71WkPc1HXvmnGeFVDi5DC'' ''''"

definition WETH_DECIMALS :: nat where
  "WETH_DECIMALS = 18"

definition WBNB_DECIMALS :: nat where
  "WBNB_DECIMALS = 18"

definition WMATIC_DECIMALS :: nat where
  "WMATIC_DECIMALS = 18"

definition ROPSTEN_WETH_DECIMALS :: nat where
  "ROPSTEN_WETH_DECIMALS = 18"

definition WAVAX_DECIMALS :: nat where
  "WAVAX_DECIMALS = 18"

definition WROSE_DECIMALS :: nat where
  "WROSE_DECIMALS = 18"

definition WFTM_DECIMALS :: nat where
  "WFTM_DECIMALS = 18"

definition MIGRATION_PROGRAM_ADDRESS :: "cluster \<Rightarrow> string" where
  "MIGRATION_PROGRAM_ADDRESS c = byCluster c ''whmRZnmyxdr2TkHXcZoFdtvNYRLQ5Jtbkf6ZbGkJjdk'' ''''
     ''Ex9bCdVMSfx7EzB3pgSi2R4UHwJAXvTw18rBQm5YQ8gK''"

text \<open>The entries that the maps are made of, in order.\<close>

definition MIGRATION_ASSET_MAP :: "cluster \<Rightarrow> (string \<times> string) list" where
  "MIGRATION_ASSET_MAP c = byCluster c
       [(''BybpSTBoZHsmKnfxYG47GDhVPKrnEKX31CScShbrzUhX'', ''7VQo3HFLNH5QqGtM8eC3XQbPkJUu7nS9LeGWjerRh5Sw''),
        (''AJ1W9A9N9dEMdVyoDiam2rV44gnBm2csrPDP7xqcapgX'', ''33fsBLA8djQm82RpHmE3SuVrPGtZBWNYExsEUeKX1HXX''),
        (''8pBc4v9GAwCBNWPB5XKA93APexMGAS4qMr37vNke9Ref'', ''7dVH61ChzgmN9BwG4PkzwRP8PbYwPJ7ZPNF2vamKT2H8''),
        (''FYpdBuyAHSbdaAyD1sKkxyLWbAP8uUW9h6uvdhK74ij1'', ''EjmyN6qEC1Tf1JxiG1ae7UTJhUxSwk1TCWNWqxWV4J6o''),
        (''8L8pDf3jutdpdr4m3np68CL9ZroLActrqwxi6s9Ah5xU'', ''FR87nWEUxVgerFGhZM8Y4AggKGLnaXswr1Pd8wZ4kZcp''),
        (''2kycGCD8tJbrjJJqWN2Qz5ysN9iB4Bth3Uic4mSB7uak'', ''43m2ewFV5nDepieFjT9EmAQnc1HRtAF247RBpLGFem5F''),
        (''CXLBjMMcwkc17GfJtBos6rQCo1ypeH6eDbB82Kby4MRm'', ''9vMJfxuKxXBoEa7rM12mYLMwTacLMLDJqHozw96WQL8i''),
        (''2Xf2yAXJfg82sWwdLUo2x9mZXy6JCdszdMZkcF1Hf4KV'', ''F6v4wfAdJB8D8p77bMXZgYt8TDKsYxLYxH5AFhUkYx9W''),
        (''GbBWwtYTMPis4VHb8MrBbdibPhn28TSrLB53KvUmb7Gi'', ''EzfgjvkSwthhgHaceR3LnKXUoRkP6NUhfghdaHAj1tUv''),
        (''2jXy799YnEcRXneFo2GEAB6SDRsAa767HpWmktRr1DaP'', ''xnorPhAzWXUczCP3KjU5yDxmKKZi5cSbxytQ1LgE3kG''),
        (''AGFEad2et2ZJif9jaGpdMixQqvW5i81aBdvKe7PHNfz3'', ''EzfgjvkSwthhgHaceR3LnKXUoRkP6NUhfghdaHAj1tUv''),
        (''2FPyTwcZLUg1MDrwsyoP4D6s1tM7hAkHYRjkNb5w6Pxk'', ''7vfCXTUXx5WJV5JADk17DUJ4ksgau7utNKj4b963voxs''),
        (''DEhAasscXF4kEGxFgJ3bq4PpVGp5wyUxMRvn6TzGVHaw'', ''8FU95xFJhUUkyyCLU13HSzDLs7oC4QZdXQHL6SCeab36''),
        (''DJafV9qemGp7mLMEn5wrfqaFwxsbLgUsGVS16zKRk9kc'', ''HxhWkVpk5NS4Ltg5nij2G671CKXFRKPK8vy271Ub4uEK''),
        (''CsZ5LZkDS7h9TDKjrbL7VAwQZ9nsRu8vJLhRYfmGaN8K'', ''3UCMiSnkcnkPE1pgQ5ggPCBv6dXgVUy16TmMUe1WpG9x''),
        (''GXMvfY2jpQctDqZ9RoU3oWPhufKiCcFEfchvYumtX7jd'', ''46AiRdka3HYGkhV6r9gyS6Teo9cojfGXfK8oniALYMZx'')]
       [(''orcarKHSqC5CDDsGbho8GKvwExejWHxTqGzXgcewB9L'', ''orcarKHSqC5CDDsGbho8GKvwExejWHxTqGzXgcewB9L'')]
       []"

definition ETH_MIGRATION_ASSET_MAP :: "(string \<Rightarrow> string) \<Rightarrow> cluster \<Rightarrow> (string \<times> string) list" where
  "ETH_MIGRATION_ASSET_MAP G c = byCluster c
       [(G ''0xd2877702675e6cEb975b4A1dFf9fb7BAF4C91ea9'', G ''0xe76820F1DB773B1d62a3D22F47259705cC5fA4E6''),
        (G ''0xa47c8bf37f92aBed4A126BDA807A7b7498661acD'', G ''0xF39C29d8f6851d87c40c83b61078EB7384f7Cb51'')]
       []
       []"

definition BSC_MIGRATION_ASSET_MAP :: "(string \<Rightarrow> string) \<Rightarrow> cluster \<Rightarrow> (string \<times> string) list" where
  "BSC_MIGRATION_ASSET_MAP G c = byCluster c
       [(G ''0xECCF35F941Ab67FfcAA9A1265C2fF88865caA005'', G ''0x355A116ef1Cf566B12Ef3a8e409A64e303c53740''),
        (G ''0x23396cF899Ca06c4472205fC903bDB4de249D6fC'', G ''0x0F98AB919D04a291838B3b075c57181057D4CF75''),
        (G ''0x5530ec23f4ee1521182bd158c09f4ca7efec1ef0'', G ''0x084fa354e65b521e6fb9d1602549cf8693cdb4f8'')]
       []
       []"

text \<open>A map keeps the last value set for a key.\<close>

definition mapOf :: "(string \<times> string) list \<Rightarrow> string \<rightharpoonup> string" where
  "mapOf entries = foldl (\<lambda>m (k, v). m(k \<mapsto> v)) Map.empty entries"

definition getMigrationAssetMap :: "(string \<Rightarrow> string) \<Rightarrow> cluster \<Rightarrow> ChainId \<Rightarrow> string \<rightharpoonup> string" where
  "getMigrationAssetMap G c chainId =
     (if chainId = CHAIN_ID_BSC then mapOf (BSC_MIGRATION_ASSET_MAP G c)
      else if chainId = CHAIN_ID_ETH then mapOf (ETH_MIGRATION_ASSET_MAP G c)
      else if chainId = CHAIN_ID_SOLANA then mapOf (MIGRATION_ASSET_MAP c)
      else Map.empty)"

definition TERRA_FCD_BASE :: "cluster \<Rightarrow> string" where
  "TERRA_FCD_BASE c = byCluster c ''https://fcd.terra.dev'' ''https://bombay-fcd.terra.dev''
     ''http://localhost:3060''"

definition TERRA_GAS_PRICES_URL :: "cluster \<Rightarrow> string" where
  "TERRA_GAS_PRICES_URL c = TERRA_FCD_BASE c @ ''/v1/txs/gas_prices''"

text \<open>Each entry prints the chain, a colon and the address.\<close>

definition emitter_entry :: "ChainId \<times> string \<Rightarrow> string" where
  "emitter_entry = (\<lambda>(chain, emitter). decimal chain @ '':'' @ emitter)"

definition emitters :: "(ChainId \<times> string) list" where
  "emitters =
    [(CHAIN_ID_SOLANA, ''ec7372995d5cc8732397fb0ad35c0121e0eaa90d26f828a534cab54391b3a4f5''),
     (CHAIN_ID_SOLANA, ''0def15a24423e1edd1a5ab16f557b9060303ddbab8c803d2ee48f4b78a1cfd6b''),
     (CHAIN_ID_ETH, ''0000000000000000000000003ee18b2214aff97000d974cf647e7c347e8fa585''),
     (CHAIN_ID_ETH, ''0000000000000000000000006ffd7ede62328b3af38fcd61461bbfc52f5651fe''),
     (CHAIN_ID_TERRA, ''0000000000000000000000007cf7b764e38a0a5e967972c1df77d432510564e2''),
     (CHAIN_ID_BSC, ''000000000000000000000000b6f6d86a8f9879a9c87f643768d9efc38c1da6e7''),
     (CHAIN_ID_BSC, ''0000000000000000000000005a58505a96d1dbf8df91cb21b54419fc36e93fde''),
     (CHAIN_ID_POLYGON, ''0000000000000000000000005a58505a96d1dbf8df91cb21b54419fc36e93fde''),
     (CHAIN_ID_POLYGON, ''00000000000000000000000090bbd86a6fe93d3bc3ed6335935447e75fab7fcf''),
     (CHAIN_ID_AVAX, ''0000000000000000000000000e082f06ff657d94310cb8ce8b0d9a04541d8052''),
     (CHAIN_ID_AVAX, ''000000000000000000000000f7b6737ca9c4e08ae573f75a97b73d7a813f5de5''),
     (CHAIN_ID_OASIS, ''0000000000000000000000005848c791e09901b40a9ef749f2a6735b418d7564''),
     (CHAIN_ID_OASIS, ''00000000000000000000000004952D522Ff217f40B5Ef3cbF659EcA7b952a6c1''),
     (CHAIN_ID_FANTOM, ''0000000000000000000000007C9Fc5741288cDFdD83CeB07f3ea7e22618D79D2''),
     (CHAIN_ID_FANTOM, ''000000000000000000000000A9c7119aBDa80d4a4E0C06C8F4d8cF5893234535'')]"

definition VAA_EMITTER_ADDRESSES :: "string list" where
  "VAA_EMITTER_ADDRESSES = map emitter_entry emitters"

definition SOLANA_SYSTEM_PROGRAM_ADDRESS :: string where
  "SOLANA_SYSTEM_PROGRAM_ADDRESS = ''11111111111111111111111111111111''"

definition MAX_VAA_UPLOAD_RETRIES_SOLANA :: nat where
  "MAX_VAA_UPLOAD_RETRIES_SOLANA = 5"

section \<open>Counting transactions (\<open>hooks/useTransactionCount.ts\<close>)\<close>

text \<open>The answers of the two services: the counts of all time by emitter entry, and of each day, in order.\<close>

record tx_totals =
  TotalCount :: "(string \<rightharpoonup> nat) option"
  DailyTotals :: "(string \<rightharpoonup> nat) list option"

record transaction_count =
  totalAllTime :: nat
  total48h :: nat

definition countOf :: "(string \<rightharpoonup> nat) \<Rightarrow> string \<Rightarrow> nat" where
  "countOf m k = (case m k of None \<Rightarrow> 0 | Some n \<Rightarrow> n)"

definition mergeResults :: "tx_totals option \<Rightarrow> transaction_count" where
  "mergeResults totals =
     (let lastDays = (case Option.bind totals DailyTotals of None \<Rightarrow> [] | Some ds \<Rightarrow> ds);
          lastTwoDays = drop (length lastDays - 2) lastDays;
          totalAll = (\<lambda>address. case Option.bind totals TotalCount of None \<Rightarrow> 0 | Some m \<Rightarrow> countOf m address);
          total48 = (\<lambda>address. if length lastTwoDays = 2
            then countOf (lastTwoDays ! 0) address + countOf (lastTwoDays ! 1) address else 0) in
      foldl (\<lambda>t address. t\<lparr>totalAllTime := totalAllTime t + totalAll address, total48h := total48h t + total48 address\<rparr>)
        \<lparr>totalAllTime = 0, total48h = 0\<rparr> VAA_EMITTER_ADDRESSES)"

section \<open>Facts\<close>

lemmas bridge_address_fns = getBridgeAddressForChain_def getTokenBridgeAddressForChain_def getNFTBridgeAddressForChain_def

lemmas bridge_address_consts =
  ETH_BRIDGE_ADDRESS_def ETH_NFT_BRIDGE_ADDRESS_def ETH_TOKEN_BRIDGE_ADDRESS_def
  BSC_BRIDGE_ADDRESS_def BSC_NFT_BRIDGE_ADDRESS_def BSC_TOKEN_BRIDGE_ADDRESS_def
  POLYGON_BRIDGE_ADDRESS_def POLYGON_NFT_BRIDGE_ADDRESS_def POLYGON_TOKEN_BRIDGE_ADDRESS_def
  AVAX_BRIDGE_ADDRESS_def AVAX_NFT_BRIDGE_ADDRESS_def AVAX_TOKEN_BRIDGE_ADDRESS_def
  OASIS_BRIDGE_ADDRESS_def OASIS_NFT_BRIDGE_ADDRESS_def OASIS_TOKEN_BRIDGE_ADDRESS_def
  FANTOM_BRIDGE_ADDRESS_def FANTOM_NFT_BRIDGE_ADDRESS_def FANTOM_TOKEN_BRIDGE_ADDRESS_def
  SOL_BRIDGE_ADDRESS_def SOL_NFT_BRIDGE_ADDRESS_def SOL_TOKEN_BRIDGE_ADDRESS_def
  ROPSTEN_ETH_BRIDGE_ADDRESS_def ROPSTEN_ETH_NFT_BRIDGE_ADDRESS_def ROPSTEN_ETH_TOKEN_BRIDGE_ADDRESS_def
  TERRA_BRIDGE_ADDRESS_def TERRA_TOKEN_BRIDGE_ADDRESS_def

lemmas network_chain_ids =
  ETH_NETWORK_CHAIN_ID_def ROPSTEN_ETH_NETWORK_CHAIN_ID_def BSC_NETWORK_CHAIN_ID_def POLYGON_NETWORK_CHAIN_ID_def
  AVAX_NETWORK_CHAIN_ID_def OASIS_NETWORK_CHAIN_ID_def FANTOM_NETWORK_CHAIN_ID_def

lemma chain_ids_of_cluster:
  "map ci_id (CHAINS Mainnet) = [CHAIN_ID_AVAX, CHAIN_ID_BSC, CHAIN_ID_ETH, CHAIN_ID_FANTOM, CHAIN_ID_OASIS,
     CHAIN_ID_POLYGON, CHAIN_ID_SOLANA, CHAIN_ID_TERRA]"
  "map ci_id (CHAINS Testnet) = [CHAIN_ID_AVAX, CHAIN_ID_BSC, CHAIN_ID_ETH, CHAIN_ID_ETHEREUM_ROPSTEN, CHAIN_ID_FANTOM,
     CHAIN_ID_OASIS, CHAIN_ID_POLYGON, CHAIN_ID_SOLANA, CHAIN_ID_TERRA]"
  "map ci_id (CHAINS Devnet) = [CHAIN_ID_BSC, CHAIN_ID_ETH, CHAIN_ID_SOLANA, CHAIN_ID_TERRA]"
  by (simp_all add: CHAINS_def)

lemma distinct_chain_ids: "distinct (map ci_id (CHAINS c))"
  by (cases c) (simp_all add: chain_ids_of_cluster chain_ids)

lemma foldl_update_other:
  "a \<notin> k ` set xs \<Longrightarrow> foldl (\<lambda>m y. m(k y \<mapsto> y)) m xs a = m a"
  by (induction xs arbitrary: m) auto

lemma foldl_update_distinct:
  "distinct (map k xs) \<Longrightarrow> x \<in> set xs \<Longrightarrow> foldl (\<lambda>m y. m(k y \<mapsto> y)) m xs (k x) = Some x"
proof (induction xs arbitrary: m)
  case (Cons y ys)
  show ?case
  proof (cases "x = y")
    case True
    then have "k x \<notin> k ` set ys" using Cons.prems(1) by simp
    then show ?thesis using foldl_update_other [of "k x" k ys "m(k y \<mapsto> y)"] True by (simp del: fun_upd_apply) simp
  next
    case False
    then show ?thesis using Cons.IH [of "m(k y \<mapsto> y)"] Cons.prems by (simp del: fun_upd_apply)
  qed
qed simp

lemma CHAINS_BY_ID_entry: "i \<in> set (CHAINS c) \<Longrightarrow> CHAINS_BY_ID c (ci_id i) = Some i"
  unfolding CHAINS_BY_ID_def by (rule foldl_update_distinct [OF distinct_chain_ids])

lemma bridges_configured:
  assumes "\<And>s. s \<noteq> '''' \<Longrightarrow> G s \<noteq> ''''" "n \<in> set (map ci_id (CHAINS c))"
  shows "getBridgeAddressForChain G c n \<noteq> '''' \<and> getTokenBridgeAddressForChain G c n \<noteq> '''' \<and>
    (n \<noteq> CHAIN_ID_TERRA \<longrightarrow> getNFTBridgeAddressForChain G c n \<noteq> '''') \<and> (isEVMChain n \<longleftrightarrow> getEvmChainId c n \<noteq> None)"
  using assms
  by (cases c)
    (auto simp: chain_ids_of_cluster bridge_address_fns bridge_address_consts chain_ids isEVMChain_def getEvmChainId_def)

lemma evm_networks_distinct:
  "inj_on (getEvmChainId c) (set (filter isEVMChain (map ci_id (CHAINS c))))"
  by (cases c)
    (simp_all add: chain_ids_of_cluster getEvmChainId_def network_chain_ids chain_ids isEVMChain_def)

section \<open>Properties\<close>

text \<open>every chain that the UI offers is configured, whatever the cluster: it is found under its id, has a core and
  a token bridge, an NFT bridge if it is offered for NFTs, and a network id exactly if it is an EVM chain; two EVM
  chains of a cluster have different networks.\<close>

theorem chains_configured:
  assumes "\<And>s. s \<noteq> '''' \<Longrightarrow> G s \<noteq> ''''" "i \<in> set (CHAINS c)"
  shows "CHAINS_BY_ID c (ci_id i) = Some i \<and>
    getBridgeAddressForChain G c (ci_id i) \<noteq> '''' \<and> getTokenBridgeAddressForChain G c (ci_id i) \<noteq> '''' \<and>
    (i \<in> set (CHAINS_WITH_NFT_SUPPORT c) \<longrightarrow> getNFTBridgeAddressForChain G c (ci_id i) \<noteq> '''') \<and>
    (isEVMChain (ci_id i) \<longleftrightarrow> getEvmChainId c (ci_id i) \<noteq> None) \<and>
    (\<forall>j\<in>set (CHAINS c). isEVMChain (ci_id i) \<and> getEvmChainId c (ci_id j) = getEvmChainId c (ci_id i) \<longrightarrow> j = i)"
proof -
  have n: "ci_id i \<in> set (map ci_id (CHAINS c))" using assms(2) by simp
  note b = bridges_configured [OF assms(1) n]
  have "ci_id i \<noteq> CHAIN_ID_TERRA" if "i \<in> set (CHAINS_WITH_NFT_SUPPORT c)"
    using that by (auto simp: CHAINS_WITH_NFT_SUPPORT_def chain_ids)
  moreover have "j = i"
    if "j \<in> set (CHAINS c)" "isEVMChain (ci_id i)" "getEvmChainId c (ci_id j) = getEvmChainId c (ci_id i)" for j
  proof -
    have "ci_id j \<in> set (map ci_id (CHAINS c))" using that(1) by simp
    note bj = bridges_configured [OF assms(1) this]
    then have "isEVMChain (ci_id j)" using that(2,3) b by simp
    then have "ci_id j = ci_id i" using inj_onD [OF evm_networks_distinct that(3)] that(1,2) assms(2) by auto
    then have "Some j = Some i" using CHAINS_BY_ID_entry [OF that(1)] CHAINS_BY_ID_entry [OF assms(2)] by metis
    then show ?thesis by simp
  qed
  ultimately show ?thesis using b CHAINS_BY_ID_entry [OF assms(2)] by simp
qed

theorem chains_configured_witness:
  "CHAINS_BY_ID Devnet CHAIN_ID_SOLANA = Some \<lparr>ci_id = CHAIN_ID_SOLANA, ci_name = ''Solana'', ci_logo = ''solanaIcon''\<rparr>"
proof -
  have "\<lparr>ci_id = CHAIN_ID_SOLANA, ci_name = ''Solana'', ci_logo = ''solanaIcon''\<rparr> \<in> set (CHAINS Devnet)"
    by (simp add: CHAINS_def)
  from chains_configured [OF _ this, of "\<lambda>s. s"] show ?thesis by simp
qed

text \<open>\<open>getAddress\<close> only changes the case of the digits.\<close>

definition getAddress_laws :: "(string \<Rightarrow> string) \<Rightarrow> bool" where
  "getAddress_laws G \<longleftrightarrow> (\<forall>h. \<exists>h'. G (''0x'' @ h) = ''0x'' @ h' \<and> fromHex h' = fromHex h)"

definition emitterBytes :: "string \<Rightarrow> bytes" where
  "emitterBytes a = replicate 12 0 @ fromHex (drop 2 a)"

lemma emitterBytes_getAddress:
  assumes "getAddress_laws G"
  shows "emitterBytes (G (CHR ''0'' # CHR ''x'' # h)) = emitterBytes (CHR ''0'' # CHR ''x'' # h)"
proof -
  obtain h' where "G (''0x'' @ h) = ''0x'' @ h'" "fromHex h' = fromHex h"
    using assms unfolding getAddress_laws_def by blast
  then show ?thesis by (simp add: emitterBytes_def)
qed


text \<open>The digits of an address in lower case.\<close>

definition hexLower :: "char \<Rightarrow> char" where
  "hexLower c = (case hexval c of None \<Rightarrow> c | Some n \<Rightarrow> hex_digit n)"

lemma hexval_hexLower [simp]: "hexval (hexLower c) = hexval c"
  by (auto simp: hexLower_def hexval_lt16 split: option.split)

lemma fromHex_hexLower: "fromHex (map hexLower s) = fromHex s"
  by (induction s rule: fromHex.induct) (auto split: option.split)

lemma byte_hex_of_digits:
  assumes "x < 16" "y < 16"
  shows "byte_hex (of_nat (16 * x + y)) = [hex_digit x, hex_digit y]"
proof -
  have "16 * x + y < 256" using assms by simp
  then have "unat (of_nat (16 * x + y) :: byte) = 16 * x + y" by (simp add: unsigned_of_nat take_bit_nat_eq_self del: of_nat_add of_nat_mult)
  then show ?thesis using assms(2) by (simp add: byte_hex_digits)
qed

lemma toHex_fromHex: "hex_bytes s \<Longrightarrow> toHex (fromHex s) = map hexLower s"
proof (induction s rule: fromHex.induct)
  case (1 a b s)
  then obtain x y where v: "hexval a = Some x" "hexval b = Some y" by auto
  then show ?case
    using 1 byte_hex_of_digits [OF hexval_lt16 [OF v(1)] hexval_lt16 [OF v(2)]] by (simp add: hexLower_def)
qed (auto simp: hex_bytes_def)

lemma hexLower_digits [simp]:
  "hexLower (CHR ''0'') = CHR ''0''" "hexLower (CHR ''1'') = CHR ''1''" "hexLower (CHR ''2'') = CHR ''2''" "hexLower (CHR ''3'') = CHR ''3''"
  "hexLower (CHR ''4'') = CHR ''4''" "hexLower (CHR ''5'') = CHR ''5''" "hexLower (CHR ''6'') = CHR ''6''" "hexLower (CHR ''7'') = CHR ''7''"
  "hexLower (CHR ''8'') = CHR ''8''" "hexLower (CHR ''9'') = CHR ''9''" "hexLower (CHR ''a'') = CHR ''a''" "hexLower (CHR ''b'') = CHR ''b''"
  "hexLower (CHR ''c'') = CHR ''c''" "hexLower (CHR ''d'') = CHR ''d''" "hexLower (CHR ''e'') = CHR ''e''" "hexLower (CHR ''f'') = CHR ''f''"
  "hexLower (CHR ''A'') = CHR ''a''" "hexLower (CHR ''B'') = CHR ''b''" "hexLower (CHR ''C'') = CHR ''c''" "hexLower (CHR ''D'') = CHR ''d''"
  "hexLower (CHR ''E'') = CHR ''e''" "hexLower (CHR ''F'') = CHR ''f''"
  by code_simp+

lemma hexval_capitals [simp]:
  "hexval (CHR ''A'') = Some 10" "hexval (CHR ''B'') = Some 11" "hexval (CHR ''C'') = Some 12"
  "hexval (CHR ''D'') = Some 13" "hexval (CHR ''E'') = Some 14" "hexval (CHR ''F'') = Some 15"
  by code_simp+

lemma zeros24: "replicate 24 (CHR ''0'') = ''000000000000000000000000''"
  by (simp add: numeral_eq_Suc)

lemma emitters_hex: "list_all (\<lambda>(ch, a). hex_bytes a) emitters"
  by (simp add: emitters_def)

lemma emitters_not_lower:
  "filter (\<lambda>(ch, a). map hexLower a \<noteq> a) emitters =
     [(CHAIN_ID_OASIS, ''00000000000000000000000004952D522Ff217f40B5Ef3cbF659EcA7b952a6c1''),
      (CHAIN_ID_FANTOM, ''0000000000000000000000007C9Fc5741288cDFdD83CeB07f3ea7e22618D79D2''),
      (CHAIN_ID_FANTOM, ''000000000000000000000000A9c7119aBDa80d4a4E0C06C8F4d8cF5893234535'')]"
  by (simp add: emitters_def)

definition emitterLower :: "string \<Rightarrow> string" where
  "emitterLower a = replicate 24 (CHR ''0'') @ map hexLower (drop 2 a)"

lemma emitters_match_lower:
  "map (\<lambda>(ch, a). (ch, map hexLower a)) (filter (\<lambda>(ch, a). isEVMChain ch) emitters) =
     concat (map (\<lambda>ch. [(ch, emitterLower (getTokenBridgeAddressForChain (\<lambda>a. a) Mainnet ch)),
         (ch, emitterLower (getNFTBridgeAddressForChain (\<lambda>a. a) Mainnet ch))])
       [CHAIN_ID_ETH, CHAIN_ID_BSC, CHAIN_ID_POLYGON, CHAIN_ID_AVAX, CHAIN_ID_OASIS, CHAIN_ID_FANTOM])"
  by (simp add: emitters_def emitterLower_def zeros24 bridge_address_fns bridge_address_consts chain_ids isEVMChain_def)

lemma digit_char: "k < 10 \<Longrightarrow> ''0123456789'' ! k \<in> set ''0123456789''"
  by (rule nth_mem) simp

lemma decimal_digits: "set (decimal n) \<subseteq> set ''0123456789''"
proof (induction n rule: decimal.induct)
  case (1 n)
  show ?case
  proof (cases "n < 10")
    case True
    then show ?thesis using digit_char [OF True] by (subst decimal.simps) simp
  next
    case False
    have "''0123456789'' ! (n mod 10) \<in> set ''0123456789''" by (rule digit_char) simp
    then show ?thesis using 1 [OF False] False by (subst decimal.simps) simp
  qed
qed

lemma colon_not_decimal: "CHR '':'' \<notin> set (decimal n)"
proof
  assume "CHR '':'' \<in> set (decimal n)"
  then have "CHR '':'' \<in> set ''0123456789''" using decimal_digits [of n] by (rule rev_subsetD)
  then show False by simp
qed

lemma dropWhile_to_colon: "CHR '':'' \<notin> set xs \<Longrightarrow> dropWhile (\<lambda>x. x \<noteq> CHR '':'') (xs @ CHR '':'' # s) = CHR '':'' # s"
  by (induction xs) auto

lemma emitter_entry_inject: "emitter_entry (ch, a) = emitter_entry (ch', b) \<Longrightarrow> a = b"
proof -
  assume e: "emitter_entry (ch, a) = emitter_entry (ch', b)"
  have "dropWhile (\<lambda>x. x \<noteq> CHR '':'') (emitter_entry (c, s)) = CHR '':'' # s" for c s
    using dropWhile_to_colon [OF colon_not_decimal [of c]] by (simp add: emitter_entry_def)
  from this [of ch a] this [of ch' b] e show "a = b" by simp
qed

lemma toHex_lower: "map hexLower (toHex bs) = toHex bs"
  using toHex_fromHex [of "toHex bs"] by simp

lemma totalAllTime_fold:
  "totalAllTime (foldl (\<lambda>t a. t\<lparr>totalAllTime := totalAllTime t + f a, total48h := total48h t + g a\<rparr>) t as) =
     totalAllTime t + sum_list (map f as)"
  by (induction as arbitrary: t) simp_all

lemma mergeResults_sums:
  "totalAllTime (mergeResults (Some \<lparr>TotalCount = Some m, DailyTotals = ds\<rparr>)) =
     sum_list (map (countOf m) VAA_EMITTER_ADDRESSES)"
  unfolding mergeResults_def Let_def totalAllTime_fold by simp

text \<open>the emitters whose transactions the UI counts are, in bytes, the token and NFT bridges it is configured with on
  the EVM chains of mainnet. But three are written with capitals: in a table whose keys are written in lower case, as
  the guardians print addresses, the transactions of the Oasis NFT bridge and of both Fantom bridges are not counted.\<close>

theorem emitters_counted:
  assumes G: "getAddress_laws G" and keys: "\<And>k. m k \<noteq> None \<Longrightarrow> \<exists>ch bs. k = emitter_entry (ch, toHex bs)"
  shows "map (\<lambda>(ch, a). (ch, fromHex a)) (filter (\<lambda>(ch, a). isEVMChain ch) emitters) =
     concat (map (\<lambda>ch. [(ch, emitterBytes (getTokenBridgeAddressForChain G Mainnet ch)),
         (ch, emitterBytes (getNFTBridgeAddressForChain G Mainnet ch))])
       [CHAIN_ID_ETH, CHAIN_ID_BSC, CHAIN_ID_POLYGON, CHAIN_ID_AVAX, CHAIN_ID_OASIS, CHAIN_ID_FANTOM]) \<and>
   map fst (filter (\<lambda>(ch, a). map hexLower a \<noteq> a) emitters) = [CHAIN_ID_OASIS, CHAIN_ID_FANTOM, CHAIN_ID_FANTOM] \<and>
   totalAllTime (mergeResults (Some \<lparr>TotalCount = Some m, DailyTotals = ds\<rparr>)) =
     sum_list (map (countOf m \<circ> emitter_entry) (filter (\<lambda>(ch, a). map hexLower a = a) emitters))"
proof (intro conjI)
  let ?chains = "[CHAIN_ID_ETH, CHAIN_ID_BSC, CHAIN_ID_POLYGON, CHAIN_ID_AVAX, CHAIN_ID_OASIS, CHAIN_ID_FANTOM]"
  have z: "fromHex (emitterLower (CHR ''0'' # CHR ''x'' # h)) = emitterBytes (CHR ''0'' # CHR ''x'' # h)" for h
  proof -
    have "fromHex (''000000000000000000000000'' @ s) = replicate 12 0 @ fromHex s" for s
      by (simp add: numeral_eq_Suc)
    then show ?thesis by (simp add: emitterLower_def emitterBytes_def zeros24 fromHex_hexLower)
  qed
  have "map (\<lambda>(ch, a). (ch, fromHex a)) (filter (\<lambda>(ch, a). isEVMChain ch) emitters) =
      map (\<lambda>(ch, a). (ch, fromHex a)) (map (\<lambda>(ch, a). (ch, map hexLower a)) (filter (\<lambda>(ch, a). isEVMChain ch) emitters))"
    by (simp add: fromHex_hexLower case_prod_beta' comp_def)
  also have "\<dots> = concat (map (\<lambda>ch. [(ch, fromHex (emitterLower (getTokenBridgeAddressForChain (\<lambda>a. a) Mainnet ch))),
         (ch, fromHex (emitterLower (getNFTBridgeAddressForChain (\<lambda>a. a) Mainnet ch)))]) ?chains)"
    unfolding emitters_match_lower by simp
  also have "\<dots> = concat (map (\<lambda>ch. [(ch, emitterBytes (getTokenBridgeAddressForChain G Mainnet ch)),
         (ch, emitterBytes (getNFTBridgeAddressForChain G Mainnet ch))]) ?chains)"
    by (simp add: bridge_address_fns bridge_address_consts chain_ids emitterBytes_getAddress [OF G] z)
  finally show "map (\<lambda>(ch, a). (ch, fromHex a)) (filter (\<lambda>(ch, a). isEVMChain ch) emitters) =
    concat (map (\<lambda>ch. [(ch, emitterBytes (getTokenBridgeAddressForChain G Mainnet ch)),
         (ch, emitterBytes (getNFTBridgeAddressForChain G Mainnet ch))]) ?chains)" .
  show "map fst (filter (\<lambda>(ch, a). map hexLower a \<noteq> a) emitters) = [CHAIN_ID_OASIS, CHAIN_ID_FANTOM, CHAIN_ID_FANTOM]"
    unfolding emitters_not_lower by simp
  have "countOf m (emitter_entry (ch, a)) = 0" if "map hexLower a \<noteq> a" for ch a
  proof -
    have "m (emitter_entry (ch, a)) = None"
      using keys [of "emitter_entry (ch, a)"] emitter_entry_inject toHex_lower that by metis
    then show ?thesis by (simp add: countOf_def)
  qed
  then have "sum_list (map (countOf m \<circ> emitter_entry) es) =
      sum_list (map (countOf m \<circ> emitter_entry) (filter (\<lambda>(ch, a). map hexLower a = a) es))" for es
    by (induction es) auto
  then show "totalAllTime (mergeResults (Some \<lparr>TotalCount = Some m, DailyTotals = ds\<rparr>)) =
     sum_list (map (countOf m \<circ> emitter_entry) (filter (\<lambda>(ch, a). map hexLower a = a) emitters))"
    by (simp only: mergeResults_sums VAA_EMITTER_ADDRESSES_def map_map)
qed

text \<open>A table with five transactions of the token bridge of Fantom, under its lower-case name.\<close>

theorem emitters_counted_witness:
  "\<exists>k. totalAllTime (mergeResults (Some \<lparr>TotalCount = Some [k \<mapsto> 5], DailyTotals = None\<rparr>)) = 0"
proof -
  obtain bs where bs: "bs = fromHex ''0000000000000000000000007C9Fc5741288cDFdD83CeB07f3ea7e22618D79D2''" by blast
  let ?k = "emitter_entry (CHAIN_ID_FANTOM, toHex bs)"
  have l: "getAddress_laws (\<lambda>a. a)" by (simp add: getAddress_laws_def)
  have "\<exists>ch bs'. k = emitter_entry (ch, toHex bs')" if "[?k \<mapsto> 5::nat] k \<noteq> None" for k
    using that by (auto split: if_splits)
  note t = emitters_counted [where ds = None and m = "[?k \<mapsto> 5::nat]", OF l this, THEN conjunct2, THEN conjunct2]
  have "toHex bs = ''0000000000000000000000007c9fc5741288cdfdd83ceb07f3ea7e22618d79d2''"
    unfolding bs by (subst toHex_fromHex) simp_all
  then have "map (countOf [?k \<mapsto> 5] \<circ> emitter_entry) (filter (\<lambda>(ch, a). map hexLower a = a) emitters) = replicate 12 0"
    by (simp add: emitters_def countOf_def emitter_entry_def numeral_eq_Suc)
  then show ?thesis using t by (intro exI [of _ ?k]) (simp only: sum_list_replicate, simp)
qed

end
