(* ===== verification/UiTask.thy ===== *)
theory UiTask
  imports Config Ethereum Terra SignedVAA Selectors
begin

text \<open>
  The asynchronous functions of the bridge UI: what they do to the outside is a trace of events, and
  what becomes of their promise is an outcome. This theory holds the tasks and how they are sequenced,
  the errors as the UI shows them (\<open>utils/parseError.ts\<close>), what the handlers share of
  \<open>utils/solana.ts\<close> and \<open>utils/terra.ts\<close>, and the promise that a page makes to the user about its
  busy flag, its transaction and its VAA (the interfaces \<open>send_page\<close> and \<open>redeem_page\<close>).
\<close>

section \<open>Events\<close>

datatype severity = SevSuccess | SevInfo | SevError

text \<open>What the Terra client sends: the gas prices and the fee are passed on as they were received.\<close>

record terra_post =
  post_msgs :: "terra_msg list"
  post_memo :: string
  post_feeDenoms :: "string list"
  post_gasPrices :: string
  post_fee :: string

datatype terra_call =
    AxiosGet string
  | AuthAccountInfo string
  | EstimateFee "terra_msg list" string "string list" string
  | PostTx terra_post

text \<open>The events of a page whose actions are of the type \<open>'a\<close>: an action for its slice, a message to the
  user, a call to a chain, and the request of a VAA by chain, emitter and sequence number.\<close>

datatype ('a, 'k) ui_event =
    Dispatch 'a
  | Snackbar severity string
  | EthEvent eth_call
  | SolEvent "'k call"
  | GetTransaction string
  | TerraEvent terra_call
  | FetchSignedVAA nat string string

type_synonym ('a, 'k) trace = "('a, 'k) ui_event list"

definition dispatched :: "('a, 'k) trace \<Rightarrow> 'a list" where
  "dispatched tr = concat (map (\<lambda>e. case e of Dispatch a \<Rightarrow> [a] | _ \<Rightarrow> []) tr)"

definition ethOf :: "('a, 'k) trace \<Rightarrow> eth_history" where
  "ethOf tr = concat (map (\<lambda>e. case e of EthEvent c \<Rightarrow> [c] | _ \<Rightarrow> []) tr)"

definition solOf :: "('a, 'k) trace \<Rightarrow> 'k history" where
  "solOf tr = concat (map (\<lambda>e. case e of SolEvent c \<Rightarrow> [c] | _ \<Rightarrow> []) tr)"

definition terraOf :: "('a, 'k) trace \<Rightarrow> terra_call list" where
  "terraOf tr = concat (map (\<lambda>e. case e of TerraEvent c \<Rightarrow> [c] | _ \<Rightarrow> []) tr)"

definition vaaRequests :: "('a, 'k) trace \<Rightarrow> (nat \<times> string \<times> string) list" where
  "vaaRequests tr = concat (map (\<lambda>e. case e of FetchSignedVAA c a s \<Rightarrow> [(c, a, s)] | _ \<Rightarrow> []) tr)"

lemmas trace_defs = dispatched_def ethOf_def solOf_def terraOf_def vaaRequests_def

lemma concat_Nil_map: "concat (map (\<lambda>x. []) xs) = []"
  by (induction xs) simp_all

lemma concat_single_map: "concat (map (\<lambda>x. [f x]) xs) = map f xs"
  by (induction xs) simp_all

lemma trace_append [simp]:
  "dispatched (tr @ tr') = dispatched tr @ dispatched tr'"
  "ethOf (tr @ tr') = ethOf tr @ ethOf tr'"
  "solOf (tr @ tr') = solOf tr @ solOf tr'"
  "terraOf (tr @ tr') = terraOf tr @ terraOf tr'"
  "vaaRequests (tr @ tr') = vaaRequests tr @ vaaRequests tr'"
  by (simp_all add: trace_defs)

lemma trace_simps [simp]:
  "dispatched [] = []" "dispatched (Dispatch a # tr) = a # dispatched tr" "dispatched (Snackbar s m # tr) = dispatched tr"
  "dispatched (EthEvent c # tr) = dispatched tr" "dispatched (SolEvent k # tr) = dispatched tr"
  "dispatched (GetTransaction t # tr) = dispatched tr" "dispatched (TerraEvent d # tr) = dispatched tr"
  "dispatched (FetchSignedVAA n x y # tr) = dispatched tr"
  "dispatched (map EthEvent cs) = []" "dispatched (map SolEvent ks) = []" "dispatched (map TerraEvent ds) = []"
  by (simp_all add: trace_defs concat_Nil_map comp_def)

lemma ethOf_simps [simp]:
  "ethOf [] = []" "ethOf (Dispatch a # tr) = ethOf tr" "ethOf (Snackbar s m # tr) = ethOf tr"
  "ethOf (EthEvent c # tr) = c # ethOf tr" "ethOf (SolEvent k # tr) = ethOf tr" "ethOf (GetTransaction t # tr) = ethOf tr"
  "ethOf (TerraEvent d # tr) = ethOf tr" "ethOf (FetchSignedVAA n x y # tr) = ethOf tr"
  "ethOf (map EthEvent cs) = cs" "ethOf (map SolEvent ks) = []" "ethOf (map TerraEvent ds) = []"
  by (simp_all add: trace_defs concat_Nil_map concat_single_map comp_def)

lemma vaaRequests_simps [simp]:
  "vaaRequests [] = []" "vaaRequests (Dispatch a # tr) = vaaRequests tr" "vaaRequests (Snackbar s m # tr) = vaaRequests tr"
  "vaaRequests (EthEvent c # tr) = vaaRequests tr" "vaaRequests (SolEvent k # tr) = vaaRequests tr"
  "vaaRequests (GetTransaction t # tr) = vaaRequests tr" "vaaRequests (TerraEvent d # tr) = vaaRequests tr"
  "vaaRequests (FetchSignedVAA n x y # tr) = (n, x, y) # vaaRequests tr"
  "vaaRequests (map EthEvent cs) = []" "vaaRequests (map SolEvent ks) = []" "vaaRequests (map TerraEvent ds) = []"
  by (simp_all add: trace_defs concat_Nil_map comp_def)

lemma solOf_simps [simp]:
  "solOf [] = []" "solOf (Dispatch a # tr) = solOf tr" "solOf (Snackbar s m # tr) = solOf tr"
  "solOf (EthEvent c # tr) = solOf tr" "solOf (SolEvent k # tr) = k # solOf tr" "solOf (GetTransaction t # tr) = solOf tr"
  "solOf (TerraEvent d # tr) = solOf tr" "solOf (FetchSignedVAA n x y # tr) = solOf tr"
  "solOf (map EthEvent cs) = []" "solOf (map SolEvent ks) = ks" "solOf (map TerraEvent ds) = []"
  by (simp_all add: trace_defs concat_Nil_map concat_single_map comp_def)

section \<open>Tasks\<close>

text \<open>A task takes the trace so far; its outcome is \<open>None\<close> when its promise never settles, and the
  trace then ends with the last event before that.\<close>

type_synonym ('a, 'k, 'x) task = "('a, 'k) trace \<Rightarrow> ('a, 'k) trace \<times> 'x result option"

definition pureT :: "'x result option \<Rightarrow> ('a, 'k, 'x) task" where
  "pureT r tr = (tr, r)"

definition liftT :: "'x result \<Rightarrow> ('a, 'k, 'x) task" where
  "liftT r = pureT (Some r)"

definition emitT :: "('a, 'k) ui_event \<Rightarrow> ('a, 'k, unit) task" where
  "emitT e tr = (tr @ [e], Some (Inr ()))"

definition bindT :: "('a, 'k, 'x) task \<Rightarrow> ('x \<Rightarrow> ('a, 'k, 'y) task) \<Rightarrow> ('a, 'k, 'y) task" where
  "bindT m f tr = (case m tr of
      (tr', Some (Inr x)) \<Rightarrow> f x tr'
    | (tr', Some (Inl e)) \<Rightarrow> (tr', Some (Inl e))
    | (tr', None) \<Rightarrow> (tr', None))"

definition thenT :: "('a, 'k, 'x) task \<Rightarrow> ('a, 'k, 'y) task \<Rightarrow> ('a, 'k, 'y) task" where
  "thenT m n = bindT m (\<lambda>_. n)"

definition catchT :: "('a, 'k, 'x) task \<Rightarrow> (js_error \<Rightarrow> ('a, 'k, 'x) task) \<Rightarrow> ('a, 'k, 'x) task" where
  "catchT m f tr = (case m tr of (tr', Some (Inl e)) \<Rightarrow> f e tr' | r \<Rightarrow> r)"

text \<open>A function of the SDK that calls a chain adds the calls it makes.\<close>

definition ethT :: "(eth_history \<Rightarrow> eth_history \<times> 'x result) \<Rightarrow> ('a, 'k, 'x) task" where
  "ethT f tr = (case f (ethOf tr) of (h, r) \<Rightarrow> (tr @ map EthEvent (drop (length (ethOf tr)) h), Some r))"

definition solT :: "('k history \<Rightarrow> 'k history \<times> 'x result) \<Rightarrow> ('a, 'k, 'x) task" where
  "solT f tr = (case f (solOf tr) of (h, r) \<Rightarrow> (tr @ map SolEvent (drop (length (solOf tr)) h), Some r))"

definition terraT :: "(terra_call list \<Rightarrow> terra_call list \<times> 'x result) \<Rightarrow> ('a, 'k, 'x) task" where
  "terraT f tr = (case f (terraOf tr) of (h, r) \<Rightarrow> (tr @ map TerraEvent (drop (length (terraOf tr)) h), Some r))"

section \<open>Errors (\<open>utils/parseError.ts\<close>)\<close>

text \<open>The properties of a thrown value that are read: \<open>e.data.message\<close>, \<open>e.response.data.error\<close> and
  \<open>e.message\<close>. A promise rejected with a string has none of them; an exception of a package may have
  any, which is the parameter \<open>foreign\<close>.\<close>

record thrown =
  th_data_message :: "string option"
  th_response_error :: "string option"
  th_message :: "string option"

fun thrownOf :: "(string \<Rightarrow> thrown) \<Rightarrow> js_error \<Rightarrow> thrown" where
  "thrownOf foreign (Error m) = \<lparr>th_data_message = None, th_response_error = None, th_message = Some m\<rparr>"
| "thrownOf foreign (RangeError m) = \<lparr>th_data_message = None, th_response_error = None, th_message = Some m\<rparr>"
| "thrownOf foreign (TypeError m) = \<lparr>th_data_message = None, th_response_error = None, th_message = Some m\<rparr>"
| "thrownOf foreign (Rejected m) = \<lparr>th_data_message = None, th_response_error = None, th_message = None\<rparr>"
| "thrownOf foreign (Foreign m) = foreign m"

definition MM_ERR_WITH_INFO_START :: string where
  "MM_ERR_WITH_INFO_START = ''VM Exception while processing transaction: revert ''"

definition parseError :: "thrown \<Rightarrow> string" where
  "parseError e =
     (if case th_data_message e of None \<Rightarrow> False | Some m \<Rightarrow> startsWithS m MM_ERR_WITH_INFO_START
      then removeFirst MM_ERR_WITH_INFO_START (the (th_data_message e))
      else if truthy (th_response_error e) then the (th_response_error e)
      else if truthy (th_message e) then the (th_message e)
      else ''An unknown error occurred'')"

lemma parseError_simps [simp]:
  "parseError \<lparr>th_data_message = None, th_response_error = None, th_message = None\<rparr> = ''An unknown error occurred''"
  "parseError \<lparr>th_data_message = None, th_response_error = None, th_message = Some m\<rparr> =
     (if m = '''' then ''An unknown error occurred'' else m)"
  "parseError \<lparr>th_data_message = Some d, th_response_error = x, th_message = y\<rparr> =
     (if startsWithS d MM_ERR_WITH_INFO_START then removeFirst MM_ERR_WITH_INFO_START d
      else parseError \<lparr>th_data_message = None, th_response_error = x, th_message = y\<rparr>)"
  by (simp_all add: parseError_def)

section \<open>What is outside\<close>

text \<open>Receipts, transaction infos and results, with the fields that are read.\<close>

record 't eth_receipt =
  transactionHash :: string
  blockNumber :: nat
  rc_logs :: "'t eth_log list"

record sol_info =
  si_slot :: nat
  si_logMessages :: "string list option"

record terra_result =
  res_txhash :: string
  res_height :: nat

record terra_info =
  ti_txhash :: string
  ti_height :: nat
  ti_code :: "nat option"
  ti_raw_log :: string

text \<open>The wallets. \<open>signTransaction\<close> of a Solana wallet may be undefined.\<close>

record 'k sol_wallet =
  sw_publicKey :: "'k option"
  sw_signTransaction :: "('k history \<Rightarrow> 'k transaction \<Rightarrow> 'k transaction \<times> 'k transaction result) option"

record terra_wallet =
  terraAddress :: string
  walletAddress :: string
  tw_post :: "terra_call list \<Rightarrow> terra_post \<Rightarrow> terra_result result"

text \<open>The Terra client, whose answers may depend on the calls before; an account is what is passed on of it
  (its sequence number and public key).\<close>

record terra_net =
  tn_get :: "terra_call list \<Rightarrow> string \<Rightarrow> string result"
  tn_accountInfo :: "terra_call list \<Rightarrow> string \<Rightarrow> string result"
  tn_estimateFee :: "terra_call list \<Rightarrow> string \<Rightarrow> terra_msg list \<Rightarrow> string \<Rightarrow> string list \<Rightarrow> string \<Rightarrow> string result"
  tn_txInfo :: "nat \<Rightarrow> string \<Rightarrow> terra_info option result"
  tn_isTxError :: "terra_info \<Rightarrow> bool"

text \<open>
  Everything outside the handlers: the configuration, the packages, the networks and the guardians,
  as in the theories before. \<open>o_parseUnits\<close> is for amounts without a sign, the only ones that the
  page lets through. \<open>o_host\<close> is the value of the counter of RPC hosts.
\<close>

record ('k, 'g, 't) outside =
  o_cluster :: cluster
  o_getAddress :: "string \<Rightarrow> string"
  o_libs :: libs
  o_foreign :: "string \<Rightarrow> thrown"
  o_parseUnits :: "string \<Rightarrow> nat \<Rightarrow> nat result"
  o_random :: rat
  o_base64 :: "bytes \<Rightarrow> string"
  o_bigNumberFrom :: "bytes \<Rightarrow> nat result"
  o_tokenNumber :: "string \<Rightarrow> nat result"
  o_arrayifyNumber :: "string \<Rightarrow> bytes result"
  o_parseLog :: "'t eth_log option \<Rightarrow> nat result"
  o_parseJson :: "string \<Rightarrow> terra_rows result"
  o_web3 :: "'k web3"
  o_connection :: "'k connection"
  o_core :: "'g core_wasm"
  o_spl :: "'k spl_ix \<Rightarrow> 'k instruction result"
  o_bridge :: bridge_wasm
  o_nftBridge :: bridge_wasm
  o_emitter_address :: "string \<Rightarrow> string result"
  o_minRent :: "'k history \<Rightarrow> nat result"
  o_messageKey :: "'k keypair"
  o_ancillaryKey :: "'k keypair"
  o_signatureSet :: "'k keypair"
  o_getTransaction :: "'k history \<Rightarrow> string \<Rightarrow> sol_info option result"
  o_findProgramAddress :: "bytes list \<Rightarrow> 'k \<Rightarrow> 'k result"
  o_terra :: terra_net
  o_vaaApi :: "nat \<Rightarrow> string \<Rightarrow> string \<Rightarrow> bytes api"
  o_host :: int

section \<open>What the handlers share\<close>

text \<open>\<open>utils/solana.ts\<close>\<close>

definition signSendAndConfirm :: "'k web3 \<Rightarrow> 'k connection \<Rightarrow> 'k sol_wallet \<Rightarrow> 'k transaction \<Rightarrow>
    'k history \<Rightarrow> 'k history \<times> string result" where
  "signSendAndConfirm W C wallet tx h =
     (case sw_signTransaction wallet of
        None \<Rightarrow> (h, Inl (Error ''wallet.signTransaction is undefined''))
      | Some sign \<Rightarrow>
          bindH (h @ [SignTransaction tx], snd (sign h tx)) (\<lambda>h signed.
          bindH (h, serialize W signed) (\<lambda>h raw.
          bindH (h @ [SendRawTransaction raw], sendRawTransaction C h raw) (\<lambda>h txid.
          bindH (h @ [ConfirmTransaction txid], confirmTransaction C h txid) (\<lambda>h _.
          (h, Inr txid))))))"

text \<open>\<open>utils/terra.ts\<close>\<close>

definition postWithFees :: "cluster \<Rightarrow> terra_net \<Rightarrow> terra_wallet \<Rightarrow> terra_msg list \<Rightarrow> string \<Rightarrow> string list \<Rightarrow>
    terra_call list \<Rightarrow> terra_call list \<times> terra_result result" where
  "postWithFees c N wallet msgs memo feeDenoms h =
     bindH (h @ [AxiosGet (TERRA_GAS_PRICES_URL c)], tn_get N h (TERRA_GAS_PRICES_URL c)) (\<lambda>h gasPrices.
     bindH (h @ [AuthAccountInfo (walletAddress wallet)], tn_accountInfo N h (walletAddress wallet)) (\<lambda>h account.
     bindH (h @ [EstimateFee msgs memo feeDenoms gasPrices], tn_estimateFee N h account msgs memo feeDenoms gasPrices)
       (\<lambda>h feeEstimate.
     let post = \<lparr>post_msgs = msgs, post_memo = memo, post_feeDenoms = feeDenoms, post_gasPrices = gasPrices,
       post_fee = feeEstimate\<rparr> in
     (h @ [PostTx post], tw_post wallet h post))))"

text \<open>The requests of the waiting loop are numbered; an exception and a falsy answer both lead to the next.\<close>

partial_function (option) waitLoop :: "(nat \<Rightarrow> string \<Rightarrow> terra_info option result) \<Rightarrow> string \<Rightarrow> nat \<Rightarrow> terra_info option" where
  "waitLoop txInfo txhash n =
     (case txInfo n txhash of
        Inr (Some info) \<Rightarrow> Some info
      | Inr None \<Rightarrow> waitLoop txInfo txhash (Suc n)
      | Inl e \<Rightarrow> waitLoop txInfo txhash (Suc n))"

definition waitForTerraExecution :: "terra_net \<Rightarrow> terra_result \<Rightarrow> terra_info result option" where
  "waitForTerraExecution N result =
     map_option (\<lambda>info.
       if tn_isTxError N info
       then Inl (Error (''Tx '' @ res_txhash result @ '': error code '' @
         (case ti_code info of None \<Rightarrow> ''undefined'' | Some n \<Rightarrow> decimal n) @ '': '' @ ti_raw_log info))
       else Inr info)
     (waitLoop (tn_txInfo N) (res_txhash result) 0)"

text \<open>A click on a page: it is marked busy, and whatever is thrown is shown and ends it.\<close>

definition withErrors :: "('k, 'g, 't) outside \<Rightarrow> (bool \<Rightarrow> 'a) \<Rightarrow> ('a, 'k, unit) task \<Rightarrow> ('a, 'k, unit) task" where
  "withErrors E busy body =
     thenT (emitT (Dispatch (busy True)))
       (catchT body (\<lambda>e.
          thenT (emitT (Snackbar SevError (parseError (thrownOf (o_foreign E) e))))
            (emitT (Dispatch (busy False)))))"

text \<open>The VAA is asked for without a limit of attempts.\<close>

definition fetchVAA :: "('k, 'g, 't) outside \<Rightarrow> nat \<Rightarrow> string \<Rightarrow> string \<Rightarrow> bytes result option" where
  "fetchVAA E chain emitter sequence =
     map_option fst (uiGetSignedVAAWithRetry (o_vaaApi E chain emitter sequence) (WORMHOLE_RPC_HOSTS (o_cluster E)) None (o_host E))"

definition fetchT :: "('k, 'g, 't) outside \<Rightarrow> nat \<Rightarrow> string \<Rightarrow> string \<Rightarrow> ('a, 'k, bytes) task" where
  "fetchT E chain emitter sequence =
     thenT (emitT (FetchSignedVAA chain emitter sequence)) (pureT (fetchVAA E chain emitter sequence))"

definition getTransactionT :: "('k, 'g, 't) outside \<Rightarrow> string \<Rightarrow> ('a, 'k, sol_info option) task" where
  "getTransactionT E txid tr = (tr @ [GetTransaction txid], Some (o_getTransaction E (solOf tr) txid))"

text \<open>From the receipt of a transaction that an EVM chain has confirmed to its VAA: the bridge that emits it is
  the contract that was called.\<close>

definition afterReceipt :: "('k, 'g, 't) outside \<Rightarrow> (transaction_ref \<Rightarrow> 'a) \<Rightarrow> (string \<Rightarrow> 'a) \<Rightarrow> string \<Rightarrow> nat \<Rightarrow>
    't eth_receipt \<Rightarrow> ('a, 'k, unit) task" where
  "afterReceipt E setTx setVAA emitterContract chainId receipt =
     thenT (emitT (Dispatch (setTx \<lparr>tx_id = transactionHash receipt, tx_block = blockNumber receipt\<rparr>)))
     (thenT (emitT (Snackbar SevSuccess ''Transaction confirmed''))
     (bindT (liftT (parseSequenceFromLogEth (o_parseLog E) (rc_logs receipt)
        (getBridgeAddressForChain (o_getAddress E) (o_cluster E) chainId))) (\<lambda>sequence.
     bindT (liftT (getEmitterAddressEth (o_libs E) emitterContract)) (\<lambda>emitterAddress.
     thenT (emitT (Snackbar SevInfo ''Fetching VAA''))
     (bindT (fetchT E chainId emitterAddress sequence) (\<lambda>vaaBytes.
     thenT (emitT (Dispatch (setVAA (uint8ArrayToHex vaaBytes))))
       (emitT (Snackbar SevSuccess ''Fetched Signed VAA''))))))))"

text \<open>From a Solana transaction to its VAA.\<close>

definition sendSolana :: "('k, 'g, 't) outside \<Rightarrow> (transaction_ref \<Rightarrow> 'a) \<Rightarrow> (string \<Rightarrow> 'a) \<Rightarrow> string \<Rightarrow> 'k sol_wallet \<Rightarrow>
    'k transaction \<Rightarrow> ('a, 'k, unit) task" where
  "sendSolana E setTx setVAA emitterProgram wallet tx =
     bindT (solT (signSendAndConfirm (o_web3 E) (o_connection E) wallet tx)) (\<lambda>txid.
     thenT (emitT (Snackbar SevSuccess ''Transaction confirmed''))
     (bindT (getTransactionT E txid) (\<lambda>info.
     case info of
       None \<Rightarrow> liftT (Inl (Error ''An error occurred while fetching the transaction info''))
     | Some i \<Rightarrow>
         thenT (emitT (Dispatch (setTx \<lparr>tx_id = txid, tx_block = si_slot i\<rparr>)))
         (bindT (liftT (parseSequenceFromLogSolana (si_logMessages i))) (\<lambda>sequence.
         bindT (liftT (getEmitterAddressSolana (o_libs E) (o_emitter_address E) emitterProgram)) (\<lambda>emitterAddress.
         thenT (emitT (Snackbar SevInfo ''Fetching VAA''))
         (bindT (fetchT E CHAIN_ID_SOLANA emitterAddress sequence) (\<lambda>vaaBytes.
         thenT (emitT (Dispatch (setVAA (uint8ArrayToHex vaaBytes))))
           (emitT (Snackbar SevSuccess ''Fetched Signed VAA''))))))))))"

text \<open>From Terra messages to the VAA of their transaction.\<close>

definition sendTerra :: "('k, 'g, 't) outside \<Rightarrow> (transaction_ref \<Rightarrow> 'a) \<Rightarrow> terra_wallet \<Rightarrow> terra_msg list \<Rightarrow> string \<Rightarrow>
    string \<Rightarrow> ('a, 'k, bytes) task" where
  "sendTerra E setTx wallet msgs memo feeDenom =
     bindT (terraT (postWithFees (o_cluster E) (o_terra E) wallet msgs memo [feeDenom])) (\<lambda>result.
     bindT (pureT (waitForTerraExecution (o_terra E) result)) (\<lambda>info.
     thenT (emitT (Dispatch (setTx \<lparr>tx_id = ti_txhash info, tx_block = ti_height info\<rparr>)))
     (thenT (emitT (Snackbar SevSuccess ''Transaction confirmed''))
     (bindT (liftT (parseSequenceFromLogTerra (o_parseJson E) (ti_raw_log info))) (\<lambda>sequence.
     if sequence = '''' then liftT (Inl (Error ''Sequence not found''))
     else
     bindT (liftT (getEmitterAddressTerra (o_libs E) (TERRA_TOKEN_BRIDGE_ADDRESS (o_cluster E)))) (\<lambda>emitterAddress.
     thenT (emitT (Snackbar SevInfo ''Fetching VAA''))
       (fetchT E CHAIN_ID_TERRA emitterAddress sequence)))))))"

text \<open>What every page's redeem handlers end with.\<close>

definition confirmed :: "(transaction_ref \<Rightarrow> 'a) \<Rightarrow> transaction_ref \<Rightarrow> ('a, 'k, unit) task" where
  "confirmed setTx t = thenT (emitT (Dispatch (setTx t))) (emitT (Snackbar SevSuccess ''Transaction confirmed''))"

section \<open>Waiting for a Terra transaction\<close>

definition waitBody :: "(nat \<Rightarrow> string \<Rightarrow> terra_info option result) \<Rightarrow> string \<Rightarrow> nat \<Rightarrow> terra_info option" where
  "waitBody txInfo txhash n = (case txInfo n txhash of Inr (Some info) \<Rightarrow> Some info | _ \<Rightarrow> None)"

lemma waitLoop_settles:
  assumes "waitLoop txInfo txhash a = Some r"
  shows "\<exists>k\<ge>a. waitBody txInfo txhash k = Some r"
  proof (rule waitLoop.raw_induct [where P = "\<lambda>t x a r. \<exists>k\<ge>a. waitBody t x k = Some r", OF _ assms])
  fix loop txInfo txhash n r
  assume IH: "\<And>t x a r. loop t x a = Some r \<Longrightarrow> \<exists>k\<ge>a. waitBody t x k = Some r"
    and run: "(case txInfo n txhash of Inl e \<Rightarrow> loop txInfo txhash (Suc n)
      | Inr None \<Rightarrow> loop txInfo txhash (Suc n) | Inr (Some info) \<Rightarrow> Some info) = Some r"
  show "\<exists>k\<ge>n. waitBody txInfo txhash k = Some r"
  proof (cases "waitBody txInfo txhash n")
    case None
    then have "loop txInfo txhash (Suc n) = Some r"
      using run by (auto simp: waitBody_def split: sum.splits option.splits)
    from IH [OF this] show ?thesis using Suc_leD by blast
  next
    case (Some i)
    then have "i = r" using run by (auto simp: waitBody_def split: sum.splits option.splits)
    then show ?thesis using Some by blast
  qed
qed

interpretation terra_wait: attempt_loop "waitBody txInfo txhash" "waitLoop txInfo txhash" for txInfo txhash
proof
  show "waitLoop txInfo txhash a = (case waitBody txInfo txhash a of Some r \<Rightarrow> Some r | None \<Rightarrow> waitLoop txInfo txhash (Suc a))"
    for a
    by (subst waitLoop.simps) (simp add: waitBody_def split: sum.split option.split)
qed (rule waitLoop_settles)

lemma waitBody_not_None: "waitBody txInfo txhash k \<noteq> None \<longleftrightarrow> (\<exists>info. txInfo k txhash = Inr (Some info))"
  by (simp add: waitBody_def split: sum.split option.split)

lemma waitForTerraExecution_eq_Some:
  "(\<exists>r. waitForTerraExecution N result = Some r) \<longleftrightarrow> (\<exists>k info. tn_txInfo N k (res_txhash result) = Inr (Some info))"
proof -
  have "(\<exists>r. waitForTerraExecution N result = Some r) \<longleftrightarrow> (\<exists>r. waitLoop (tn_txInfo N) (res_txhash result) 0 = Some r)"
    by (simp add: waitForTerraExecution_def)
  also have "\<dots> \<longleftrightarrow> (\<exists>k\<ge>0. waitBody (tn_txInfo N) (res_txhash result) k \<noteq> None)"
    by (rule terra_wait.loop_returns_iff)
  finally show ?thesis by (simp only: waitBody_not_None) simp
qed

lemma option_result_cases [case_names pending threw gave]:
  "(r = None \<Longrightarrow> P) \<Longrightarrow> (\<And>e. r = Some (Inl e) \<Longrightarrow> P) \<Longrightarrow> (\<And>x. r = Some (Inr x) \<Longrightarrow> P) \<Longrightarrow> P"
  by (cases r; cases "the r") auto

section \<open>What a task dispatches\<close>

text \<open>The actions a task dispatches, together with its outcome, satisfy \<open>Q\<close>.\<close>

definition does :: "('a, 'k, 'x) task \<Rightarrow> ('a list \<Rightarrow> 'x result option \<Rightarrow> bool) \<Rightarrow> bool" where
  "does m Q \<longleftrightarrow> (\<forall>tr. \<exists>ds. dispatched (fst (m tr)) = dispatched tr @ ds \<and> Q ds (snd (m tr)))"

definition quiet :: "('a, 'k, 'x) task \<Rightarrow> bool" where
  "quiet m \<longleftrightarrow> (\<forall>tr. dispatched (fst (m tr)) = dispatched tr)"

named_theorems quiet

lemma quiet_steps [quiet]:
  "quiet (pureT r)" "quiet (liftT v)" "quiet (ethT f)" "quiet (solT g)" "quiet (terraT k)"
  "quiet (emitT (Snackbar s m))" "quiet (emitT (FetchSignedVAA n x y))" "quiet (getTransactionT E t)"
  by (simp_all add: quiet_def pureT_def liftT_def ethT_def solT_def terraT_def emitT_def getTransactionT_def
    split: prod.split)

lemma quiet_bindT [quiet]:
  assumes "quiet m" "\<And>x. quiet (f x)"
  shows "quiet (bindT m f)"
  unfolding quiet_def
proof
  fix tr
  obtain tr' r where m: "m tr = (tr', r)" by (cases "m tr")
  then have "dispatched tr' = dispatched tr" using assms(1) unfolding quiet_def by (metis fst_conv)
  then show "dispatched (fst (bindT m f tr)) = dispatched tr"
    using assms(2) m unfolding quiet_def by (simp add: bindT_def split: option.split sum.split)
qed

lemma quiet_thenT [quiet]: "quiet m \<Longrightarrow> quiet n \<Longrightarrow> quiet (thenT m n)"
  unfolding thenT_def by (rule quiet_bindT)

lemma quiet_fetchT [quiet]: "quiet (fetchT E c a s)"
  unfolding fetchT_def by (intro quiet)

lemma doesD: "does m Q \<Longrightarrow> m tr = (tr', r) \<Longrightarrow> \<exists>ds. dispatched tr' = dispatched tr @ ds \<and> Q ds r"
  unfolding does_def by (metis fst_conv snd_conv)

lemma does_quiet: "quiet m \<Longrightarrow> (\<And>r. Q [] r) \<Longrightarrow> does m Q"
  by (simp add: does_def quiet_def)

text \<open>After a quiet step the rest decides; if the step fails or never settles, nothing is dispatched.\<close>

lemma does_bind_quiet:
  assumes "quiet m" "\<And>x. does (f x) Q" "\<And>e. Q [] (Some (Inl e))" "Q [] None"
  shows "does (bindT m f) Q"
  unfolding does_def
proof
  fix tr
  obtain tr' r where m: "m tr = (tr', r)" by (cases "m tr")
  then have q: "dispatched tr' = dispatched tr" using assms(1) unfolding quiet_def by (metis fst_conv)
  show "\<exists>ds. dispatched (fst (bindT m f tr)) = dispatched tr @ ds \<and> Q ds (snd (bindT m f tr))"
  proof (cases "\<exists>x. r = Some (Inr x)")
    case True
    then obtain x where "bindT m f tr = f x tr'" using m by (auto simp: bindT_def)
    then show ?thesis using assms(2) [of x, unfolded does_def, rule_format, of tr'] q by simp
  next
    case False
    then have "bindT m f tr = (tr', map_option (\<lambda>v. Inl (projl v)) r)"
      using m by (auto simp: bindT_def split: option.splits sum.splits)
    then show ?thesis using assms(3,4) q by (cases r) simp_all
  qed
qed

lemma does_then_quiet:
  "quiet m \<Longrightarrow> does n Q \<Longrightarrow> (\<And>e. Q [] (Some (Inl e))) \<Longrightarrow> Q [] None \<Longrightarrow> does (thenT m n) Q"
  unfolding thenT_def by (rule does_bind_quiet)

lemma does_then_dispatch: "does n (\<lambda>ds. Q (a # ds)) \<Longrightarrow> does (thenT (emitT (Dispatch a)) n) Q"
  unfolding does_def thenT_def
proof
  fix tr
  assume "\<forall>tr. \<exists>ds. dispatched (fst (n tr)) = dispatched tr @ ds \<and> Q (a # ds) (snd (n tr))"
  then obtain ds where "dispatched (fst (n (tr @ [Dispatch a]))) = dispatched (tr @ [Dispatch a]) @ ds"
    "Q (a # ds) (snd (n (tr @ [Dispatch a])))" by blast
  then show "\<exists>ds. dispatched (fst (bindT (emitT (Dispatch a)) (\<lambda>_. n) tr)) = dispatched tr @ ds \<and>
      Q ds (snd (bindT (emitT (Dispatch a)) (\<lambda>_. n) tr))"
    by (simp add: bindT_def emitT_def)
qed

lemma does_dispatch: "Q [a] (Some (Inr ())) \<Longrightarrow> does (emitT (Dispatch a)) Q"
  by (simp add: does_def emitT_def)

lemma does_then_snackbar: "does n Q \<Longrightarrow> (\<And>e. Q [] (Some (Inl e))) \<Longrightarrow> Q [] None \<Longrightarrow> does (thenT (emitT (Snackbar s m)) n) Q"
  by (rule does_then_quiet [OF quiet_steps(6)])

lemma does_then_fetch: "does n Q \<Longrightarrow> (\<And>e. Q [] (Some (Inl e))) \<Longrightarrow> Q [] None \<Longrightarrow>
    does (thenT (emitT (FetchSignedVAA c x y)) n) Q"
  by (rule does_then_quiet [OF quiet_steps(7)])

lemma does_snackbar: "Q [] (Some (Inr ())) \<Longrightarrow> does (emitT (Snackbar s m)) Q"
  by (simp add: does_def emitT_def)

lemma does_liftT: "Q [] (Some r) \<Longrightarrow> does (liftT r) Q"
  by (simp add: does_def liftT_def pureT_def)

lemma does_option: "does n Q \<Longrightarrow> (\<And>x. does (f x) Q) \<Longrightarrow> does (case v of None \<Rightarrow> n | Some x \<Rightarrow> f x) Q"
  by (cases v) simp_all

lemma does_if: "does m Q \<Longrightarrow> does n Q \<Longrightarrow> does (if b then m else n) Q"
  by simp

lemmas does_rules = does_then_dispatch does_then_snackbar does_then_fetch does_bind_quiet does_dispatch does_snackbar does_liftT does_option

lemma does_mono: "does m P \<Longrightarrow> (\<And>ds r. P ds r \<Longrightarrow> Q ds r) \<Longrightarrow> does m Q"
  unfolding does_def by meson

lemma bindT_assoc: "bindT (bindT m f) g = bindT m (\<lambda>x. bindT (f x) g)"
  by (rule ext) (simp add: bindT_def split: prod.split option.split sum.split)

lemma bindT_thenT: "bindT (thenT m n) g = thenT m (bindT n g)"
  by (simp add: thenT_def bindT_assoc)

lemma bindT_if: "bindT (if b then m else n) g = (if b then bindT m g else bindT n g)"
  by simp

lemma bindT_throw: "bindT (liftT (Inl e)) g = liftT (Inl e)"
  by (rule ext) (simp add: bindT_def liftT_def pureT_def)

lemmas bindT_norm = bindT_assoc bindT_thenT bindT_if bindT_throw

text \<open>A run of a sequence is a run of its first part, which ends it or is continued.\<close>

lemma bindT_run:
  "bindT m f tr = (tr', r) \<longleftrightarrow>
     (\<exists>tr1 x. m tr = (tr1, Some (Inr x)) \<and> f x tr1 = (tr', r)) \<or>
     (\<exists>e. m tr = (tr', Some (Inl e)) \<and> r = Some (Inl e)) \<or>
     (m tr = (tr', None) \<and> r = None)"
  by (cases "m tr") (auto simp: bindT_def split: option.splits sum.splits)

lemma bindT_known: "m tr = (tr', Some (Inr x)) \<Longrightarrow> bindT m f tr = f x tr'"
  by (simp add: bindT_def)

lemma thenT_emit: "thenT (emitT e) m tr = m (tr @ [e])"
  by (simp add: thenT_def bindT_def emitT_def)

lemma bindT_liftT: "bindT (liftT v) f tr = (case v of Inl e \<Rightarrow> (tr, Some (Inl e)) | Inr x \<Rightarrow> f x tr)"
  by (simp add: bindT_def liftT_def pureT_def split: sum.split)

lemma bindT_fetchT:
  "bindT (fetchT E c a s) f tr = (case fetchVAA E c a s of
      None \<Rightarrow> (tr @ [FetchSignedVAA c a s], None)
    | Some (Inl e) \<Rightarrow> (tr @ [FetchSignedVAA c a s], Some (Inl e))
    | Some (Inr x) \<Rightarrow> f x (tr @ [FetchSignedVAA c a s]))"
  by (simp add: bindT_def fetchT_def thenT_emit pureT_def split: sum.split option.split)

lemma liftT_run: "liftT v tr = (tr', r) \<longleftrightarrow> tr' = tr \<and> r = Some v"
  by (auto simp: liftT_def pureT_def)

lemma withErrors_run:
  "withErrors E busy body tr =
     (case body (tr @ [Dispatch (busy True)]) of
        (tr', Some (Inl e)) \<Rightarrow>
          (tr' @ [Snackbar SevError (parseError (thrownOf (o_foreign E) e)), Dispatch (busy False)], Some (Inr ()))
      | (tr', r) \<Rightarrow> (tr', r))"
  by (simp add: withErrors_def thenT_emit catchT_def emitT_def split: prod.split option.split sum.split)

lemma does_withErrors:
  assumes "does body P"
    and "\<And>ds. P ds None \<Longrightarrow> Q (busy True # ds) None"
    and "\<And>ds. P ds (Some (Inr ())) \<Longrightarrow> Q (busy True # ds) (Some (Inr ()))"
    and "\<And>ds e. P ds (Some (Inl e)) \<Longrightarrow> Q (busy True # ds @ [busy False]) (Some (Inr ()))"
  shows "does (withErrors E busy body) Q"
  unfolding withErrors_def
proof (rule does_then_dispatch)
  show "does (catchT body (\<lambda>e. thenT (emitT (Snackbar SevError (parseError (thrownOf (o_foreign E) e))))
      (emitT (Dispatch (busy False))))) (\<lambda>ds. Q (busy True # ds))"
    unfolding does_def
  proof
    fix tr
    obtain tr' r where b: "body tr = (tr', r)" by (cases "body tr")
    from doesD [OF assms(1) this] obtain ds where ds: "dispatched tr' = dispatched tr @ ds" "P ds r" by blast
    have "catchT body f tr = (case r of Some (Inl e) \<Rightarrow> f e tr' | _ \<Rightarrow> (tr', r))" for f
      using b by (simp add: catchT_def split: option.split sum.split)
    then show "\<exists>ds. dispatched (fst (catchT body (\<lambda>e. thenT (emitT (Snackbar SevError (parseError (thrownOf (o_foreign E) e))))
        (emitT (Dispatch (busy False)))) tr)) = dispatched tr @ ds \<and>
        Q (busy True # ds) (snd (catchT body (\<lambda>e. thenT (emitT (Snackbar SevError (parseError (thrownOf (o_foreign E) e))))
        (emitT (Dispatch (busy False)))) tr))"
      using ds assms(2-4) [of ds] by (auto simp: thenT_def bindT_def emitT_def split: option.split sum.split)
  qed
qed

end
