(* ===== verification/Pages.thy ===== *)
theory Pages
  imports UiTask
begin

text \<open>
  What a click promises about the page. A click to send marks the page as sending, may record the
  transaction, and ends with the signed VAA or with an error; a click to redeem ends with the
  transaction or with an error. Those are the relations \<open>send_run\<close> and \<open>redeem_run\<close> between the actions
  that a click dispatches and its outcome, and the rules that the bodies of the handlers follow. The
  interface \<open>busy_page\<close> is what a slice must do with such actions for its busy flag to mean what it
  says; it is interpreted on the reducers of the three pages, for sending and for redeeming.
\<close>

section \<open>Sending\<close>

inductive send_body :: "(transaction_ref \<Rightarrow> 'a) \<Rightarrow> (string \<Rightarrow> 'a) \<Rightarrow> 'a list \<Rightarrow> unit result option \<Rightarrow> bool"
  for setTx :: "transaction_ref \<Rightarrow> 'a" and setVAA :: "string \<Rightarrow> 'a" where
  nothing_yet: "send_body setTx setVAA [] None"
| nothing_failed: "send_body setTx setVAA [] (Some (Inl e))"
| sent_yet: "send_body setTx setVAA [setTx t] None"
| sent_failed: "send_body setTx setVAA [setTx t] (Some (Inl e))"
| sent_fetched: "send_body setTx setVAA [setTx t, setVAA v] (Some (Inr ()))"

inductive send_run :: "(bool \<Rightarrow> 'a) \<Rightarrow> (transaction_ref \<Rightarrow> 'a) \<Rightarrow> (string \<Rightarrow> 'a) \<Rightarrow> 'a list \<Rightarrow> unit result option \<Rightarrow> bool"
  for busy :: "bool \<Rightarrow> 'a" and setTx :: "transaction_ref \<Rightarrow> 'a" and setVAA :: "string \<Rightarrow> 'a" where
  waiting: "send_run busy setTx setVAA [busy True] None"
| rejected: "send_run busy setTx setVAA [busy True, busy False] (Some (Inr ()))"
| tx_waiting: "send_run busy setTx setVAA [busy True, setTx t] None"
| tx_failed: "send_run busy setTx setVAA [busy True, setTx t, busy False] (Some (Inr ()))"
| fetched: "send_run busy setTx setVAA [busy True, setTx t, setVAA v] (Some (Inr ()))"

inductive_cases send_bodyE: "send_body setTx setVAA ds r"
inductive_cases send_run_pendingE: "send_run busy setTx setVAA ds None"
inductive_cases send_run_settledE: "send_run busy setTx setVAA ds (Some r)"

lemma does_send:
  assumes "does body (send_body setTx setVAA)"
  shows "does (withErrors E busy body) (send_run busy setTx setVAA)"
  by (rule does_withErrors [OF assms]) (auto elim!: send_bodyE intro: send_run.intros)

lemma does_afterReceipt: "does (afterReceipt E setTx setVAA ec ch receipt) (send_body setTx setVAA)"
  unfolding afterReceipt_def
  by (intro does_rules quiet send_body.intros)

lemma does_sendSolana: "does (sendSolana E setTx setVAA ep wallet tx) (send_body setTx setVAA)"
  unfolding sendSolana_def
  by (intro does_rules quiet send_body.intros)

lemma does_bind_sendTerra:
  assumes "\<And>v t. does (f v) (\<lambda>ds. send_body setTx setVAA (setTx t # ds))"
  shows "does (bindT (sendTerra E setTx wallet msgs memo feeDenom) f) (send_body setTx setVAA)"
  unfolding sendTerra_def bindT_norm fetchT_def
  by (intro does_rules does_if quiet send_body.intros assms)

text \<open>What the receipt leads to: the transaction is recorded; the page gets a VAA exactly if the number of its first
  message, the emitter and the guardians' answer are there, and it is that answer.\<close>

lemma afterReceipt_run:
  assumes "afterReceipt E setTx setVAA ec ch receipt tr = (tr', r)"
  shows "\<exists>new. tr' = tr @ new \<and> ethOf new = [] \<and>
    (if r = Some (Inr ())
     then \<exists>sequence emitter bs.
       parseSequenceFromLogEth (o_parseLog E) (rc_logs receipt)
         (getBridgeAddressForChain (o_getAddress E) (o_cluster E) ch) = Inr sequence \<and>
       getEmitterAddressEth (o_libs E) ec = Inr emitter \<and> fetchVAA E ch emitter sequence = Some (Inr bs) \<and>
       dispatched new = [setTx \<lparr>tx_id = transactionHash receipt, tx_block = blockNumber receipt\<rparr>, setVAA (toHex bs)]
     else dispatched new = [setTx \<lparr>tx_id = transactionHash receipt, tx_block = blockNumber receipt\<rparr>])"
proof (cases "parseSequenceFromLogEth (o_parseLog E) (rc_logs receipt)
    (getBridgeAddressForChain (o_getAddress E) (o_cluster E) ch)")
  case (Inl e)
  then show ?thesis using assms by (auto simp: afterReceipt_def thenT_emit bindT_liftT)
next
  case seq: (Inr sequence)
  show ?thesis
  proof (cases "getEmitterAddressEth (o_libs E) ec")
    case (Inl e)
    then show ?thesis using assms seq by (auto simp: afterReceipt_def thenT_emit bindT_liftT)
  next
    case em: (Inr emitter)
    show ?thesis
      using assms seq em
      by (cases "fetchVAA E ch emitter sequence" rule: option_result_cases)
        (auto simp: afterReceipt_def thenT_emit bindT_liftT bindT_fetchT emitT_def uint8ArrayToHex_def)
  qed
qed

section \<open>Redeeming\<close>

inductive redeem_body :: "(transaction_ref \<Rightarrow> 'a) \<Rightarrow> 'a list \<Rightarrow> unit result option \<Rightarrow> bool"
  for setTx :: "transaction_ref \<Rightarrow> 'a" where
  redeem_yet: "redeem_body setTx [] None"
| redeem_failed: "redeem_body setTx [] (Some (Inl e))"
| redeem_done: "redeem_body setTx [setTx t] (Some (Inr ()))"

inductive redeem_run :: "(bool \<Rightarrow> 'a) \<Rightarrow> (transaction_ref \<Rightarrow> 'a) \<Rightarrow> 'a list \<Rightarrow> unit result option \<Rightarrow> bool"
  for busy :: "bool \<Rightarrow> 'a" and setTx :: "transaction_ref \<Rightarrow> 'a" where
  redeem_waiting: "redeem_run busy setTx [busy True] None"
| redeem_rejected: "redeem_run busy setTx [busy True, busy False] (Some (Inr ()))"
| redeemed: "redeem_run busy setTx [busy True, setTx t] (Some (Inr ()))"

inductive_cases redeem_bodyE: "redeem_body setTx ds r"
inductive_cases redeem_run_pendingE: "redeem_run busy setTx ds None"
inductive_cases redeem_run_settledE: "redeem_run busy setTx ds (Some r)"

lemma does_redeem:
  assumes "does body (redeem_body setTx)"
  shows "does (withErrors E busy body) (redeem_run busy setTx)"
  by (rule does_withErrors [OF assms]) (auto elim!: redeem_bodyE intro: redeem_run.intros)

text \<open>A click on a page that lacks a wallet or a field does nothing.\<close>

definition clicked :: "('a list \<Rightarrow> unit result option \<Rightarrow> bool) \<Rightarrow> 'a list \<Rightarrow> unit result option \<Rightarrow> bool" where
  "clicked run ds r \<longleftrightarrow> ds = [] \<and> r = Some (Inr ()) \<or> run ds r"

lemma does_clicked: "does m Q \<Longrightarrow> does m (clicked Q)"
  by (erule does_mono) (simp add: clicked_def)

lemma does_nothing: "does (liftT (Inr ())) (clicked Q)"
  by (simp add: does_def liftT_def pureT_def clicked_def)

lemma does_confirmed: "does (confirmed setTx t) (redeem_body setTx)"
  unfolding confirmed_def by (intro does_rules redeem_body.intros)

section \<open>The interface of a page\<close>

text \<open>
  A flag of a slice that an action sets and clears. \<open>finishing\<close> are the actions that clear it as well;
  nothing but the action that sets it makes it true. Then the flag is true while a promise is pending
  and stays false after the last action of a run that has settled, whatever other actions were
  dispatched in between.
\<close>

locale busy_page =
  fixes step :: "'s \<Rightarrow> 'a \<Rightarrow> 's"
    and busy :: "'s \<Rightarrow> bool"
    and setBusy :: "bool \<Rightarrow> 'a"
    and finishing :: "'a \<Rightarrow> bool"
  assumes set_busy: "busy (step s (setBusy b)) \<longleftrightarrow> b"
    and finishes: "finishing a \<Longrightarrow> \<not> busy (step s a)"
    and stays_idle: "\<not> busy s \<Longrightarrow> a \<noteq> setBusy True \<Longrightarrow> \<not> busy (step s a)"
begin

lemma idle_until_set: "\<not> busy s \<Longrightarrow> setBusy True \<notin> set as \<Longrightarrow> \<not> busy (foldl step s as)"
proof (induction as arbitrary: s)
  case (Cons a as)
  then have "\<not> busy (step s a)" using stays_idle [of s a] by auto
  then show ?case using Cons.IH [of "step s a"] Cons.prems(2) by simp
qed simp

lemma idle_after:
  assumes "finishing a \<or> a = setBusy False" "setBusy True \<notin> set bs"
  shows "\<not> busy (foldl step s (as @ a # bs))"
proof -
  have "\<not> busy (step (foldl step s as) a)" using assms(1) finishes set_busy by auto
  then show ?thesis using idle_until_set [OF _ assms(2)] by simp
qed

lemma send_run_idle:
  assumes "send_run setBusy setTx setVAA ds (Some r)" "\<And>v. finishing (setVAA v)" "setBusy True \<notin> set bs"
  shows "r = Inr () \<and> \<not> busy (foldl step s (as @ last ds # bs))"
  using assms(1)
proof (cases rule: send_run.cases)
  case (fetched t v)
  then show ?thesis using idle_after [OF _ assms(3)] assms(2) [of v] by simp
qed (use idle_after [OF _ assms(3)] in simp_all)

lemma redeem_run_idle:
  assumes "redeem_run setBusy setTx ds (Some r)" "\<And>t. finishing (setTx t)" "setBusy True \<notin> set bs"
  shows "r = Inr () \<and> \<not> busy (foldl step s (as @ last ds # bs))"
  using assms(1)
proof (cases rule: redeem_run.cases)
  case (redeemed t)
  then show ?thesis using idle_after [OF _ assms(3)] assms(2) [of t] by simp
qed (use idle_after [OF _ assms(3)] in simp_all)

end

text \<open>A page that sends also keeps the transaction and the VAA.\<close>

locale send_page = busy_page step busy setBusy finishing
  for step :: "'s \<Rightarrow> 'a \<Rightarrow> 's" and busy and setBusy and finishing +
  fixes tx :: "'s \<Rightarrow> transaction_ref option" and vaa :: "'s \<Rightarrow> string option"
    and setTx :: "transaction_ref \<Rightarrow> 'a" and setVAA :: "string \<Rightarrow> 'a"
  assumes vaa_finishes: "finishing (setVAA v)"
    and fields_setBusy: "tx (step s (setBusy b)) = tx s" "vaa (step s (setBusy b)) = vaa s"
    and fields_setTx: "tx (step s (setTx t)) = Some t" "vaa (step s (setTx t)) = vaa s" "busy (step s (setTx t)) = busy s"
    and fields_setVAA: "tx (step s (setVAA v)) = tx s" "vaa (step s (setVAA v)) = Some v"
begin

text \<open>What the page shows after a run: while the promise is pending it is busy; a new VAA comes with its
  transaction; and without a VAA the page is as ready to send as before, even if a transaction was
  recorded.\<close>

lemma send_run_page:
  assumes "send_run setBusy setTx setVAA ds r"
  shows "(busy (foldl step s ds) \<longleftrightarrow> r = None) \<and>
    (vaa (foldl step s ds) = vaa s \<or>
     (\<exists>t v. setTx t \<in> set ds \<and> last ds = setVAA v \<and> tx (foldl step s ds) = Some t \<and> vaa (foldl step s ds) = Some v))"
  using assms
  by (cases rule: send_run.cases)
    (auto simp: set_busy fields_setBusy fields_setTx fields_setVAA finishes [OF vaa_finishes])

lemma send_run_settled:
  "send_run setBusy setTx setVAA ds (Some r) \<Longrightarrow> setBusy True \<notin> set bs \<Longrightarrow> \<not> busy (foldl step s (as @ last ds # bs))"
  using send_run_idle [where setTx = setTx and setVAA = setVAA] vaa_finishes by blast

end

section \<open>The pages\<close>

definition transfer_sent :: "transfer_action \<Rightarrow> bool" where
  "transfer_sent a \<longleftrightarrow> (\<exists>v. a = SetSignedVAAHex v)"

definition transfer_redeemed :: "transfer_action \<Rightarrow> bool" where
  "transfer_redeemed a \<longleftrightarrow> (\<exists>t. a = SetRedeemTx t)"

definition nft_sent :: "nft_action \<Rightarrow> bool" where
  "nft_sent a \<longleftrightarrow> (\<exists>v. a = NftSetSignedVAAHex v)"

definition nft_redeemed :: "nft_action \<Rightarrow> bool" where
  "nft_redeemed a \<longleftrightarrow> (\<exists>t. a = NftSetRedeemTx t)"

definition attest_sent :: "attest_action \<Rightarrow> bool" where
  "attest_sent a \<longleftrightarrow> (\<exists>v. a = AttestSetSignedVAAHex v)"

definition attest_created :: "attest_action \<Rightarrow> bool" where
  "attest_created a \<longleftrightarrow> (\<exists>t. a = AttestSetCreateTx t)"

lemma busy_reducers:
  "\<not> isSending s \<Longrightarrow> a \<noteq> SetIsSending True \<Longrightarrow> \<not> isSending (transferReducer now s a)"
  "\<not> isRedeeming s \<Longrightarrow> a \<noteq> SetIsRedeeming True \<Longrightarrow> \<not> isRedeeming (transferReducer now s a)"
  "\<not> n_isSending n \<Longrightarrow> b \<noteq> NftSetIsSending True \<Longrightarrow> \<not> n_isSending (nftReducer now n b)"
  "\<not> n_isRedeeming n \<Longrightarrow> b \<noteq> NftSetIsRedeeming True \<Longrightarrow> \<not> n_isRedeeming (nftReducer now n b)"
  "\<not> a_isSending t \<Longrightarrow> c \<noteq> AttestSetIsSending True \<Longrightarrow> \<not> a_isSending (attestReducer t c)"
  "\<not> a_isCreating t \<Longrightarrow> c \<noteq> AttestSetIsCreating True \<Longrightarrow> \<not> a_isCreating (attestReducer t c)"
proof -
  show "\<not> isSending s \<Longrightarrow> a \<noteq> SetIsSending True \<Longrightarrow> \<not> isSending (transferReducer now s a)"
    "\<not> isRedeeming s \<Longrightarrow> a \<noteq> SetIsRedeeming True \<Longrightarrow> \<not> isRedeeming (transferReducer now s a)"
    by (cases a; simp add: transfer_reducer_defs transfer_initialState_def Let_def)+
  show "\<not> n_isSending n \<Longrightarrow> b \<noteq> NftSetIsSending True \<Longrightarrow> \<not> n_isSending (nftReducer now n b)"
    "\<not> n_isRedeeming n \<Longrightarrow> b \<noteq> NftSetIsRedeeming True \<Longrightarrow> \<not> n_isRedeeming (nftReducer now n b)"
    by (cases b; simp add: nft_reducer_defs nft_initialState_def Let_def)+
  show "\<not> a_isSending t \<Longrightarrow> c \<noteq> AttestSetIsSending True \<Longrightarrow> \<not> a_isSending (attestReducer t c)"
    "\<not> a_isCreating t \<Longrightarrow> c \<noteq> AttestSetIsCreating True \<Longrightarrow> \<not> a_isCreating (attestReducer t c)"
    by (cases c; simp add: attest_reducer_defs Let_def)+
qed

interpretation transfer_send: send_page "transferReducer now" isSending SetIsSending transfer_sent
    transferTx signedVAAHex SetTransferTx SetSignedVAAHex for now
  by unfold_locales (auto simp: transfer_sent_def transfer_reducer_defs busy_reducers)

interpretation transfer_redeem: busy_page "transferReducer now" isRedeeming SetIsRedeeming transfer_redeemed for now
  by unfold_locales (auto simp: transfer_redeemed_def transfer_reducer_defs busy_reducers)

interpretation nft_send: send_page "nftReducer now" n_isSending NftSetIsSending nft_sent
    n_transferTx n_signedVAAHex NftSetTransferTx NftSetSignedVAAHex for now
  by unfold_locales (auto simp: nft_sent_def nft_reducer_defs busy_reducers)

interpretation nft_redeem: busy_page "nftReducer now" n_isRedeeming NftSetIsRedeeming nft_redeemed for now
  by unfold_locales (auto simp: nft_redeemed_def nft_reducer_defs busy_reducers)

interpretation attest_send: send_page attestReducer a_isSending AttestSetIsSending attest_sent
    a_attestTx a_signedVAAHex AttestSetAttestTx AttestSetSignedVAAHex
  by unfold_locales (auto simp: attest_sent_def busy_reducers)

interpretation attest_create: busy_page attestReducer a_isCreating AttestSetIsCreating attest_created
  by unfold_locales (auto simp: attest_created_def busy_reducers)

section \<open>A world to try the handlers in\<close>

text \<open>Every call succeeds; an EVM receipt carries one log of the core bridge of its chain, with sequence number 4,
  and the guardians have signed everything.\<close>

definition demo_terra :: terra_net where
  "demo_terra = \<lparr>tn_get = (\<lambda>h u. Inr ''prices''), tn_accountInfo = (\<lambda>h a. Inr ''account''),
     tn_estimateFee = (\<lambda>h a ms m fs g. Inr ''fee''),
     tn_txInfo = (\<lambda>n t. if n < 2 then Inl (Foreign ''not found'')
        else Inr (Some \<lparr>ti_txhash = t, ti_height = 5, ti_code = None, ti_raw_log = ''log''\<rparr>)),
     tn_isTxError = (\<lambda>i. ti_code i \<noteq> None)\<rparr>"

definition demo_outside :: "(string, unit, unit) outside" where
  "demo_outside =
     \<lparr>o_cluster = Devnet, o_getAddress = (\<lambda>a. a), o_libs = demo_libs\<lparr>arrayify := (\<lambda>s. Inr [1])\<rparr>,
      o_foreign = (\<lambda>m. \<lparr>th_data_message = None, th_response_error = None, th_message = Some m\<rparr>),
      o_parseUnits = (\<lambda>s d. Inr (length s * 10 ^ d)), o_random = 0, o_base64 = toHex,
      o_bigNumberFrom = demo_bigNumberFrom, o_tokenNumber = (\<lambda>s. Inr (length s)),
      o_arrayifyNumber = demo_arrayifyNumber,
      o_parseLog = (\<lambda>l. case l of None \<Rightarrow> Inl (TypeError ''undefined'') | Some _ \<Rightarrow> Inr 4),
      o_parseJson = (\<lambda>s. Inr [[[\<lparr>attr_key = ''message.sequence'', attr_value = Some ''4''\<rparr>]]]),
      o_web3 = demo_web3, o_connection = good_connection, o_core = demo_core, o_spl = demo_spl, o_bridge = demo_bridge,
      o_nftBridge = demo_bridge,
      o_emitter_address = Inr, o_minRent = (\<lambda>h. Inr 2039280), o_messageKey = demo_signature_set,
      o_ancillaryKey = demo_signature_set, o_signatureSet = demo_signature_set,
      o_getTransaction = (\<lambda>h t. Inr (Some \<lparr>si_slot = 9, si_logMessages = Some [''Program log: Sequence: 4'']\<rparr>)),
      o_findProgramAddress = (\<lambda>seeds p. Inr p), o_terra = demo_terra, o_vaaApi = (\<lambda>c e s n host. Inr (Some [1, 2])), o_host = - 1\<rparr>"

definition demo_receipt :: "nat \<Rightarrow> unit eth_receipt" where
  "demo_receipt ch = \<lparr>transactionHash = ''hash'', blockNumber = 7,
     rc_logs = [\<lparr>log_address = getBridgeAddressForChain (\<lambda>a. a) Devnet ch, log_topics = ()\<rparr>]\<rparr>"

definition demo_signer :: "nat \<Rightarrow> unit eth_receipt eth_signer" where
  "demo_signer ch = \<lparr>sendTx = (\<lambda>h a op ov. Inr ''hash''), waitTx = (\<lambda>h v. Inr (demo_receipt ch))\<rparr>"

definition demo_terra_wallet :: terra_wallet where
  "demo_terra_wallet = \<lparr>terraAddress = ''terra1me'', walletAddress = ''terra1me'',
     tw_post = (\<lambda>h p. Inr \<lparr>res_txhash = ''hash'', res_height = 5\<rparr>)\<rparr>"

lemma demo_fetch: "fetchVAA demo_outside c e s = Some (Inr [1, 2])"
  by (simp add: fetchVAA_def uiGetSignedVAAWithRetry_def demo_outside_def) (subst uiLoop.simps, simp)

lemma demo_outside_sels:
  "o_cluster demo_outside = Devnet" "o_getAddress demo_outside = (\<lambda>a. a)" "o_random demo_outside = 0"
  "o_parseUnits demo_outside x d = Inr (length x * 10 ^ d)" "o_terra demo_outside = demo_terra"
  "o_base64 demo_outside = toHex" "o_arrayifyNumber demo_outside = demo_arrayifyNumber"
  "getEmitterAddressEth (o_libs demo_outside) a = Inr (toHex (replicate 31 0 @ [1]))"
  "parseSequenceFromLogEth (o_parseLog demo_outside) (rc_logs (demo_receipt ch)) (getBridgeAddressForChain (\<lambda>a. a) Devnet ch) =
     Inr (decimal 4)"
  "transactionHash (demo_receipt ch) = ''hash''" "blockNumber (demo_receipt ch) = 7"
  by (simp_all add: demo_outside_def getEmitterAddressEth_def demo_libs_def parseSequenceFromLogEth_def bridgeLogs_def
    first_def demo_receipt_def)

lemma demo_signer_call:
  "ethT (sendAndWait (demo_signer ch) a op ov) tr =
     (tr @ [EthEvent (SendTx a op ov), EthEvent (WaitTx ''hash'')], Some (Inr (demo_receipt ch)))"
  by (simp add: ethT_def sendAndWait_def demo_signer_def)

lemma demo_afterReceipt:
  "afterReceipt demo_outside setTx setVAA ec ch (demo_receipt ch) tr =
     (tr @ [Dispatch (setTx \<lparr>tx_id = ''hash'', tx_block = 7\<rparr>), Snackbar SevSuccess ''Transaction confirmed'',
        Snackbar SevInfo ''Fetching VAA'', FetchSignedVAA ch (toHex (replicate 31 0 @ [1])) (decimal 4),
        Dispatch (setVAA (toHex [1, 2])), Snackbar SevSuccess ''Fetched Signed VAA''], Some (Inr ()))"
  by (simp add: afterReceipt_def thenT_emit bindT_liftT bindT_fetchT emitT_def demo_fetch demo_outside_sels uint8ArrayToHex_def)

end
