(* ===== verification/HandleTransfer.thy ===== *)
theory HandleTransfer
  imports Pages
begin

text \<open>
  The token transfer page's buttons: \<open>hooks/useHandleTransfer.tsx\<close> and \<open>hooks/useHandleRedeem.tsx\<close>, with
  the small hooks they read the store through. Each handler is the composition of the SDK's functions
  for its chain, of the steps of \<open>UiTask\<close> and of the actions for the slice, in the order of the source.
  The SDK's defaults (no relayer fee, no overrides, no other owner) are written out.
\<close>

section \<open>Hooks\<close>

definition useTransferTargetAddressHex :: "transfer_state \<Rightarrow> bytes option" where
  "useTransferTargetAddressHex s =
     (if truthy (targetAddressHex s) then Some (hexToUint8Array (the (targetAddressHex s))) else None)"

definition useTransferSignedVAA :: "transfer_state \<Rightarrow> bytes option" where
  "useTransferSignedVAA s =
     (if truthy (signedVAAHex s) then Some (hexToUint8Array (the (signedVAAHex s))) else None)"

section \<open>Sending\<close>

definition transfer_evm :: "('k, 'g, 't) outside \<Rightarrow> 't eth_receipt eth_signer \<Rightarrow> string \<Rightarrow> nat \<Rightarrow> string \<Rightarrow> nat \<Rightarrow>
    bytes \<Rightarrow> bool \<Rightarrow> nat \<Rightarrow> (transfer_action, 'k, unit) task" where
  "transfer_evm E signer tokenAddress decs amt recipientChain recipientAddress isNative chainId =
     (let bridge = getTokenBridgeAddressForChain (o_getAddress E) (o_cluster E) chainId in
      withErrors E SetIsSending (
        bindT (liftT (o_parseUnits E amt decs)) (\<lambda>amountParsed.
        bindT (ethT (if isNative
            then transferFromEthNative signer (o_random E) bridge amountParsed recipientChain recipientAddress 0 Map.empty
            else transferFromEth signer (o_random E) bridge tokenAddress amountParsed recipientChain recipientAddress 0 Map.empty))
          (afterReceipt E SetTransferTx SetSignedVAAHex bridge chainId))))"

definition transfer_solana :: "('k, 'g, 't) outside \<Rightarrow> 'k sol_wallet \<Rightarrow> string \<Rightarrow> string \<Rightarrow> string \<Rightarrow> string \<Rightarrow> nat \<Rightarrow> nat \<Rightarrow>
    bytes \<Rightarrow> bool \<Rightarrow> string option \<Rightarrow> nat option \<Rightarrow> (transfer_action, 'k, unit) task" where
  "transfer_solana E wallet payerAddress fromAddress mintAddress amt decs target targetAddr isNative originAddressStr originCh =
     withErrors E SetIsSending (
       bindT (liftT (o_parseUnits E amt decs)) (\<lambda>amountParsed.
       bindT (liftT (if truthy originAddressStr
           then mapR Some (zeroPad (o_libs E) (hexToUint8Array (the originAddressStr)) 32) else Inr None)) (\<lambda>originAddr.
       bindT (solT (if isNative
           then transferNativeSol (o_web3 E) (o_connection E) (o_core E) (o_spl E) (o_bridge E) (o_minRent E) (o_random E)
             (o_ancillaryKey E) (o_messageKey E) (SOL_BRIDGE_ADDRESS (o_cluster E)) (SOL_TOKEN_BRIDGE_ADDRESS (o_cluster E))
             payerAddress amountParsed targetAddr target 0
           else transferFromSolana (o_web3 E) (o_connection E) (o_core E) (o_spl E) (o_bridge E) (o_random E)
             (o_messageKey E) (SOL_BRIDGE_ADDRESS (o_cluster E)) (SOL_TOKEN_BRIDGE_ADDRESS (o_cluster E))
             payerAddress fromAddress mintAddress amountParsed targetAddr target originAddr originCh None 0))
         (sendSolana E SetTransferTx SetSignedVAAHex (SOL_TOKEN_BRIDGE_ADDRESS (o_cluster E)) wallet))))"

definition transfer_terra :: "('k, 'g, 't) outside \<Rightarrow> terra_wallet \<Rightarrow> string \<Rightarrow> string \<Rightarrow> nat \<Rightarrow> nat \<Rightarrow> bytes \<Rightarrow> string \<Rightarrow>
    (transfer_action, 'k, unit) task" where
  "transfer_terra E wallet asset amt decs target targetAddr feeDenom =
     withErrors E SetIsSending (
       bindT (liftT (o_parseUnits E amt decs)) (\<lambda>amountParsed.
       bindT (sendTerra E SetTransferTx wallet
           (transferFromTerra (o_random E) (terraAddress wallet) (TERRA_TOKEN_BRIDGE_ADDRESS (o_cluster E)) asset
             (decimal amountParsed) target targetAddr ''0'')
           ''Wormhole - Initiate Transfer'' feeDenom) (\<lambda>vaaBytes.
       thenT (emitT (Snackbar SevSuccess ''Fetched Signed VAA''))
         (emitT (Dispatch (SetSignedVAAHex (uint8ArrayToHex vaaBytes)))))))"

text \<open>The click: the chain decides, and each chain needs its wallet, the token account that was chosen and
  a target address.\<close>

definition handleTransferClick :: "('k, 'g, 't) outside \<Rightarrow> transfer_state \<Rightarrow> string \<Rightarrow> 't eth_receipt eth_signer option \<Rightarrow>
    'k sol_wallet option \<Rightarrow> terra_wallet option \<Rightarrow> (transfer_action, 'k, unit) task" where
  "handleTransferClick E s feeDenom signer solanaWallet terraWallet =
     (case (sourceParsedTokenAccount s, useTransferTargetAddressHex s) of
        (Some acct, Some target) \<Rightarrow>
          (let sourceAsset = mintKey acct; isNative = (isNativeAsset acct = Some True) in
           if isEVMChain (sourceChain s) \<and> signer \<noteq> None \<and> sourceAsset \<noteq> ''''
           then transfer_evm E (the signer) sourceAsset (decimals acct) (amount s) (targetChain s) target isNative (sourceChain s)
           else if sourceChain s = CHAIN_ID_SOLANA \<and> Option.bind solanaWallet sw_publicKey \<noteq> None \<and> sourceAsset \<noteq> '''' \<and>
             parsed_token_account.publicKey acct \<noteq> ''''
           then transfer_solana E (the solanaWallet) (keyString (o_web3 E) (the (Option.bind solanaWallet sw_publicKey)))
             (parsed_token_account.publicKey acct) sourceAsset (amount s) (decimals acct) (targetChain s) target isNative
             (originAsset s) (originChain s)
           else if sourceChain s = CHAIN_ID_TERRA \<and> terraWallet \<noteq> None \<and> sourceAsset \<noteq> ''''
           then transfer_terra E (the terraWallet) sourceAsset (amount s) (decimals acct) (targetChain s) target feeDenom
           else liftT (Inr ()))
      | _ \<Rightarrow> liftT (Inr ()))"

definition transfer_sendDisabled :: "parse_units \<Rightarrow> ('a, 'b, 'c) root_state \<Rightarrow> bool" where
  "transfer_sendDisabled parseUnits s \<longleftrightarrow>
     \<not> selectTransferIsTargetComplete parseUnits s \<or> isSending (transfer s) \<or> selectTransferIsSendComplete s"

section \<open>Redeeming\<close>

definition redeem_evm :: "('k, 'g, 't) outside \<Rightarrow> 't eth_receipt eth_signer \<Rightarrow> bytes \<Rightarrow> bool \<Rightarrow> nat \<Rightarrow>
    (transfer_action, 'k, unit) task" where
  "redeem_evm E signer signedVAA isNative chainId =
     (let bridge = getTokenBridgeAddressForChain (o_getAddress E) (o_cluster E) chainId in
      withErrors E SetIsRedeeming (
        bindT (ethT (if isNative then redeemOnEthNative signer bridge signedVAA Map.empty
            else redeemOnEth signer bridge signedVAA Map.empty)) (\<lambda>receipt.
        confirmed SetRedeemTx \<lparr>tx_id = transactionHash receipt, tx_block = blockNumber receipt\<rparr>)))"

definition redeem_solana :: "('k, 'g, 't) outside \<Rightarrow> 'k sol_wallet \<Rightarrow> string \<Rightarrow> bytes \<Rightarrow> bool \<Rightarrow>
    (transfer_action, 'k, unit) task" where
  "redeem_solana E wallet payerAddress signedVAA isNative =
     withErrors E SetIsRedeeming (
       case sw_signTransaction wallet of
         None \<Rightarrow> liftT (Inl (Error ''wallet.signTransaction is undefined''))
       | Some sign \<Rightarrow>
           bindT (solT (postVaaWithRetry (o_web3 E) (o_connection E) (o_core E) (walletSigner sign)
             (SOL_BRIDGE_ADDRESS (o_cluster E)) payerAddress signedVAA (int MAX_VAA_UPLOAD_RETRIES_SOLANA)
             (o_signatureSet E))) (\<lambda>_.
           bindT (solT (if isNative
               then redeemAndUnwrapOnSolana (o_web3 E) (o_connection E) (o_spl E) (o_bridge E) (o_libs E) (o_bigNumberFrom E)
                 (o_minRent E) (o_ancillaryKey E) (SOL_BRIDGE_ADDRESS (o_cluster E)) (SOL_TOKEN_BRIDGE_ADDRESS (o_cluster E))
                 payerAddress signedVAA
               else redeemOnSolana (o_web3 E) (o_connection E) (o_bridge E) (SOL_BRIDGE_ADDRESS (o_cluster E))
                 (SOL_TOKEN_BRIDGE_ADDRESS (o_cluster E)) payerAddress signedVAA)) (\<lambda>tx.
           bindT (solT (signSendAndConfirm (o_web3 E) (o_connection E) wallet tx)) (\<lambda>txid.
           confirmed SetRedeemTx \<lparr>tx_id = txid, tx_block = 1\<rparr>))))"

definition redeem_terra :: "('k, 'g, 't) outside \<Rightarrow> terra_wallet \<Rightarrow> bytes \<Rightarrow> string \<Rightarrow> (transfer_action, 'k, unit) task" where
  "redeem_terra E wallet signedVAA feeDenom =
     withErrors E SetIsRedeeming (
       bindT (terraT (postWithFees (o_cluster E) (o_terra E) wallet
         [redeemOnTerra (o_base64 E) (TERRA_TOKEN_BRIDGE_ADDRESS (o_cluster E)) (terraAddress wallet) signedVAA]
         ''Wormhole - Complete Transfer'' [feeDenom])) (\<lambda>result.
       confirmed SetRedeemTx \<lparr>tx_id = res_txhash result, tx_block = res_height result\<rparr>))"

text \<open>The two buttons, to redeem the token or the native currency, differ in one argument, which Terra
  ignores.\<close>

definition redeemClick :: "('k, 'g, 't) outside \<Rightarrow> transfer_state \<Rightarrow> string \<Rightarrow> 't eth_receipt eth_signer option \<Rightarrow>
    'k sol_wallet option \<Rightarrow> terra_wallet option \<Rightarrow> bool \<Rightarrow> (transfer_action, 'k, unit) task" where
  "redeemClick E s feeDenom signer solanaWallet terraWallet isNative =
     (case useTransferSignedVAA s of
        None \<Rightarrow> liftT (Inr ())
      | Some signedVAA \<Rightarrow>
          if isEVMChain (targetChain s) \<and> signer \<noteq> None
          then redeem_evm E (the signer) signedVAA isNative (targetChain s)
          else if targetChain s = CHAIN_ID_SOLANA \<and> Option.bind solanaWallet sw_publicKey \<noteq> None
          then redeem_solana E (the solanaWallet) (keyString (o_web3 E) (the (Option.bind solanaWallet sw_publicKey)))
            signedVAA isNative
          else if targetChain s = CHAIN_ID_TERRA \<and> terraWallet \<noteq> None
          then redeem_terra E (the terraWallet) signedVAA feeDenom
          else liftT (Inr ()))"

definition handleRedeemClick :: "('k, 'g, 't) outside \<Rightarrow> transfer_state \<Rightarrow> string \<Rightarrow> 't eth_receipt eth_signer option \<Rightarrow>
    'k sol_wallet option \<Rightarrow> terra_wallet option \<Rightarrow> (transfer_action, 'k, unit) task" where
  "handleRedeemClick E s feeDenom signer solanaWallet terraWallet =
     redeemClick E s feeDenom signer solanaWallet terraWallet False"

definition handleRedeemNativeClick :: "('k, 'g, 't) outside \<Rightarrow> transfer_state \<Rightarrow> string \<Rightarrow> 't eth_receipt eth_signer option \<Rightarrow>
    'k sol_wallet option \<Rightarrow> terra_wallet option \<Rightarrow> (transfer_action, 'k, unit) task" where
  "handleRedeemNativeClick E s feeDenom signer solanaWallet terraWallet =
     redeemClick E s feeDenom signer solanaWallet terraWallet True"

section \<open>What the handlers dispatch\<close>

lemma does_transfer:
  "does (transfer_evm E signer a d n rc ra native ch) (send_run SetIsSending SetTransferTx SetSignedVAAHex)"
  "does (transfer_solana E sw p fa ma n d t ta native oa oc) (send_run SetIsSending SetTransferTx SetSignedVAAHex)"
  "does (transfer_terra E tw a n d t ta fd) (send_run SetIsSending SetTransferTx SetSignedVAAHex)"
  unfolding transfer_evm_def transfer_solana_def transfer_terra_def Let_def
  by (rule does_send, (intro does_rules does_afterReceipt does_sendSolana does_bind_sendTerra quiet send_body.intros; fail))+

lemma does_redeem_handlers:
  "does (redeem_evm E signer v native ch) (redeem_run SetIsRedeeming SetRedeemTx)"
  "does (redeem_solana E sw p v native) (redeem_run SetIsRedeeming SetRedeemTx)"
  "does (redeem_terra E tw v fd) (redeem_run SetIsRedeeming SetRedeemTx)"
  unfolding redeem_evm_def redeem_solana_def redeem_terra_def Let_def
  by (rule does_redeem, (intro does_rules does_confirmed quiet redeem_body.intros; fail))+

lemma does_handleTransferClick:
  "does (handleTransferClick E s fd signer sw tw) (clicked (send_run SetIsSending SetTransferTx SetSignedVAAHex))"
  by (simp add: handleTransferClick_def Let_def does_nothing does_clicked does_transfer split: prod.split option.split)

lemma does_redeemClick:
  "does (redeemClick E s fd signer sw tw native) (clicked (redeem_run SetIsRedeeming SetRedeemTx))"
  by (simp add: redeemClick_def does_nothing does_clicked does_redeem_handlers split: option.split)

lemma transfer_calls:
  "transferFromEth S rand bridge token n rc ra rf ov =
     sendAndWait S bridge (OpTransferTokens token n rc ra rf (createNonce rand)) ov"
  "transferFromEthNative S rand bridge n rc ra rf ov =
     sendAndWait S bridge (OpWrapAndTransferETH rc ra rf (createNonce rand)) (ov(''value'' \<mapsto> n))"
  by (rule ext, simp add: transferFromEth_def transferFromEthNative_def)+

text \<open>A call of a contract that succeeds: one transaction, and its receipt.\<close>

lemma ethT_sendAndWait:
  assumes "ethT (sendAndWait S addr op ov) tr = (tr', Some (Inr receipt))"
  shows "\<exists>h. tr' = tr @ [EthEvent (SendTx addr op ov), EthEvent (WaitTx h)] \<and>
    waitTx S (ethOf tr @ [SendTx addr op ov]) h = Inr receipt"
  using assms
  by (cases "sendTx S (ethOf tr) addr op ov") (auto simp: ethT_def sendAndWait_def split: prod.splits)

text \<open>A call of a contract from which the handler goes on to the VAA: if the page gets one, then from a call that
  succeeded.\<close>

lemma ethT_afterReceipt:
  assumes run: "withErrors E busy (bindT (ethT (sendAndWait S addr op ov)) (afterReceipt E setTx setVAA ec ch)) tr = (tr', r)"
    and vaa: "setVAA v \<in> set (drop (length (dispatched tr)) (dispatched tr'))"
    and actions: "\<And>b t. setVAA v \<noteq> busy b" "\<And>t. setVAA v \<noteq> setTx t" "inj setVAA"
  shows "\<exists>h receipt sequence emitter bs.
    ethOf tr' = ethOf tr @ [SendTx addr op ov, WaitTx h] \<and> waitTx S (ethOf tr @ [SendTx addr op ov]) h = Inr receipt \<and>
    parseSequenceFromLogEth (o_parseLog E) (rc_logs receipt)
      (getBridgeAddressForChain (o_getAddress E) (o_cluster E) ch) = Inr sequence \<and>
    getEmitterAddressEth (o_libs E) ec = Inr emitter \<and> fetchVAA E ch emitter sequence = Some (Inr bs) \<and> v = toHex bs"
proof -
  let ?tr0 = "tr @ [Dispatch (busy True)]"
  obtain tr1 r1 where body: "bindT (ethT (sendAndWait S addr op ov)) (afterReceipt E setTx setVAA ec ch) ?tr0 = (tr1, r1)"
    by (cases "bindT (ethT (sendAndWait S addr op ov)) (afterReceipt E setTx setVAA ec ch) ?tr0")
  have in1: "setVAA v \<in> set (drop (length (dispatched ?tr0)) (dispatched tr1))"
    and eth1: "ethOf tr' = ethOf tr1"
  proof -
    obtain ds where ds: "dispatched tr1 = dispatched ?tr0 @ ds"
      using doesD [OF does_bind_quiet [OF quiet_steps(3) does_afterReceipt] body] send_body.intros by metis
    show "setVAA v \<in> set (drop (length (dispatched ?tr0)) (dispatched tr1))" "ethOf tr' = ethOf tr1"
      using run body vaa ds actions(1) by (auto simp: withErrors_run split: option.splits sum.splits)
  qed
  have quiet: "dispatched tr2 = dispatched ?tr0" if "ethT (sendAndWait S addr op ov) ?tr0 = (tr2, o2)" for tr2 o2
    using quiet_steps(3) [of "sendAndWait S addr op ov"] that unfolding quiet_def by (metis fst_conv)
  from body obtain tr2 receipt where call: "ethT (sendAndWait S addr op ov) ?tr0 = (tr2, Some (Inr receipt))"
      and after: "afterReceipt E setTx setVAA ec ch receipt tr2 = (tr1, r1)"
    using quiet in1 unfolding bindT_run by (metis append_self_conv drop_all empty_iff empty_set le_refl)
  note q = quiet [OF call] and c = ethT_sendAndWait [OF call] and a = afterReceipt_run [OF after]
  show ?thesis
  proof (cases "r1 = Some (Inr ())")
    case True
    then show ?thesis using a c in1 eth1 q actions by (auto dest: injD)
  next
    case False
    then show ?thesis using a q in1 actions by auto
  qed
qed

section \<open>Properties\<close>


text \<open>the same for the two redeem buttons: the page is redeeming exactly until the promise settles, and a
  transaction is recorded only at the end of a run that was not rejected.\<close>

theorem redeemClick_page:
  assumes "redeemClick E s feeDenom signer solanaWallet terraWallet isNative tr = (tr', r)"
  shows "\<exists>ds. dispatched tr' = dispatched tr @ ds \<and> r \<in> {None, Some (Inr ())} \<and>
    (ds = [] \<and> r = Some (Inr ()) \<or>
     (isRedeeming (foldl (transferReducer now) s ds) \<longleftrightarrow> r = None) \<and>
     (\<forall>t. SetRedeemTx t \<in> set ds \<longrightarrow> r = Some (Inr ()) \<and> last ds = SetRedeemTx t) \<and>
     (r \<noteq> None \<longrightarrow> (\<forall>s0 as bs. SetIsRedeeming True \<notin> set bs \<longrightarrow>
        \<not> isRedeeming (foldl (transferReducer now) s0 (as @ last ds # bs)))))"
proof -
  obtain ds where ds: "dispatched tr' = dispatched tr @ ds" "clicked (redeem_run SetIsRedeeming SetRedeemTx) ds r"
    using doesD [OF does_redeemClick assms] by blast
  show ?thesis
  proof (cases "ds = [] \<and> r = Some (Inr ())")
    case True
    then show ?thesis using ds(1) by (intro exI [of _ ds]) simp
  next
    case False
    then have run: "redeem_run SetIsRedeeming SetRedeemTx ds r" using ds(2) unfolding clicked_def by blast
    have "r \<in> {None, Some (Inr ())} \<and> (isRedeeming (foldl (transferReducer now) s ds) \<longleftrightarrow> r = None) \<and>
        (\<forall>t. SetRedeemTx t \<in> set ds \<longrightarrow> r = Some (Inr ()) \<and> last ds = SetRedeemTx t)"
      using run by (cases rule: redeem_run.cases) (auto simp: transfer_reducer_defs)
    moreover have "\<not> isRedeeming (foldl (transferReducer now) s0 (as @ last ds # bs))"
      if "r \<noteq> None" "SetIsRedeeming True \<notin> set bs" for s0 as bs
      using transfer_redeem.redeem_run_idle [OF _ _ that(2)] run that(1) by (auto simp: transfer_redeemed_def)
    ultimately show ?thesis using ds(1) by (intro exI [of _ ds]) blast
  qed
qed

text \<open>C4: a VAA that the page gets for a transfer from an EVM chain is the guardians' answer for this transfer: one
  transaction was sent, to the token bridge of the chain, for the amount entered in the token's units and for the
  recipient; it has a receipt; and the answer is for the message that the core bridge of the chain logged first in it,
  emitted by that token bridge.\<close>

theorem transfer_evm_vaa:
  assumes run: "transfer_evm E signer tokenAddress decs amt recipientChain recipientAddress isNative chainId tr = (tr', r)"
    and vaa: "SetSignedVAAHex v \<in> set (drop (length (dispatched tr)) (dispatched tr'))"
  shows "\<exists>n h op ov receipt sequence emitter bs.
    o_parseUnits E amt decs = Inr n \<and>
    (op, ov) = (if isNative
      then (OpWrapAndTransferETH recipientChain recipientAddress 0 (createNonce (o_random E)), [''value'' \<mapsto> n])
      else (OpTransferTokens tokenAddress n recipientChain recipientAddress 0 (createNonce (o_random E)), Map.empty)) \<and>
    ethOf tr' = ethOf tr @ [SendTx (getTokenBridgeAddressForChain (o_getAddress E) (o_cluster E) chainId) op ov, WaitTx h] \<and>
    waitTx signer (ethOf tr @ [SendTx (getTokenBridgeAddressForChain (o_getAddress E) (o_cluster E) chainId) op ov]) h = Inr receipt \<and>
    parseSequenceFromLogEth (o_parseLog E) (rc_logs receipt)
      (getBridgeAddressForChain (o_getAddress E) (o_cluster E) chainId) = Inr sequence \<and>
    getEmitterAddressEth (o_libs E) (getTokenBridgeAddressForChain (o_getAddress E) (o_cluster E) chainId) = Inr emitter \<and>
    fetchVAA E chainId emitter sequence = Some (Inr bs) \<and> v = toHex bs"
proof -
  let ?bridge = "getTokenBridgeAddressForChain (o_getAddress E) (o_cluster E) chainId"
  show ?thesis
  proof (cases "o_parseUnits E amt decs")
    case (Inl e)
    then show ?thesis using run vaa by (auto simp: transfer_evm_def Let_def withErrors_run bindT_liftT)
  next
    case (Inr n)
    obtain op ov where op: "(op, ov) = (if isNative
        then (OpWrapAndTransferETH recipientChain recipientAddress 0 (createNonce (o_random E)), [''value'' \<mapsto> n])
        else (OpTransferTokens tokenAddress n recipientChain recipientAddress 0 (createNonce (o_random E)), Map.empty))"
      by (metis surj_pair)
    then have "withErrors E SetIsSending (bindT (ethT (sendAndWait signer ?bridge op ov))
        (afterReceipt E SetTransferTx SetSignedVAAHex ?bridge chainId)) tr = (tr', r)"
      using run Inr
      by (cases isNative) (simp_all add: transfer_evm_def Let_def withErrors_run bindT_liftT transfer_calls)
    from ethT_afterReceipt [OF this vaa] op Inr show ?thesis by (auto simp: inj_def)
  qed
qed

lemma demo_transfer_evm:
  "transfer_evm demo_outside (demo_signer 2) ''0xa'' 2 ''11'' 1 [9] False 2 [] =
     ([Dispatch (SetIsSending True),
       EthEvent (SendTx (getTokenBridgeAddressForChain (\<lambda>a. a) Devnet 2) (OpTransferTokens ''0xa'' 200 1 [9] 0 (createNonce 0)) Map.empty),
       EthEvent (WaitTx ''hash''),
       Dispatch (SetTransferTx \<lparr>tx_id = ''hash'', tx_block = 7\<rparr>), Snackbar SevSuccess ''Transaction confirmed'',
       Snackbar SevInfo ''Fetching VAA'', FetchSignedVAA 2 (toHex (replicate 31 0 @ [1])) (decimal 4),
       Dispatch (SetSignedVAAHex (toHex [1, 2])), Snackbar SevSuccess ''Fetched Signed VAA''], Some (Inr ()))"
  by (simp add: transfer_evm_def Let_def withErrors_run bindT_liftT transfer_calls demo_outside_sels bindT_known [OF demo_signer_call]
    demo_afterReceipt del: toHex_simps)

theorem transfer_evm_vaa_witness:
  "\<exists>sequence emitter bs. fetchVAA demo_outside 2 emitter sequence = Some (Inr bs) \<and> toHex [1, 2] = toHex bs"
proof -
  have "SetSignedVAAHex (toHex [1, 2]) \<in> set (drop (length (dispatched ([] :: (transfer_action, string) trace)))
      (dispatched (fst (transfer_evm demo_outside (demo_signer 2) ''0xa'' 2 ''11'' 1 [9] False 2 []))))"
    unfolding demo_transfer_evm by (simp del: toHex_simps)
  from transfer_evm_vaa [OF prod.collapse [symmetric] this] show ?thesis by blast
qed

definition demo_page :: transfer_state where
  "demo_page = transfer_initialState\<lparr>sourceChain := 2, targetChain := 1, targetAddressHex := Some ''09'',
     sourceParsedTokenAccount := Some \<lparr>publicKey = ''0xme'', mintKey = ''0xa'', acc_amount = ''300'', decimals = 2, uiAmount = 3,
       uiAmountString = ''111'', acc_symbol = None, acc_name = None, logo = None, isNativeAsset = None\<rparr>,
     amount := ''11'',
     targetAsset := receiveDataWrapper ''now'' \<lparr>doesExist = True, fa_address = Some ''asset''\<rparr>\<rparr>"


text \<open>The button reads the page through the selectors; the handler's actions leave the source and the target alone.\<close>

lemma target_complete_cong:
  assumes "sourceChain (transfer x) = sourceChain (transfer y)" "targetChain (transfer x) = targetChain (transfer y)"
    "sourceParsedTokenAccount (transfer x) = sourceParsedTokenAccount (transfer y)" "amount (transfer x) = amount (transfer y)"
    "targetAsset (transfer x) = targetAsset (transfer y)" "targetAddressHex (transfer x) = targetAddressHex (transfer y)"
  shows "selectTransferIsTargetComplete P x = selectTransferIsTargetComplete P y"
  unfolding selectTransferIsTargetComplete_def selectTransferTargetError_def selectTransferSourceError_def
    selectTransferTargetAsset_def assms ..

lemma target_complete_kept:
  assumes "a = SetIsSending b \<or> a = SetTransferTx t \<or> a = SetSignedVAAHex v"
  shows "selectTransferIsTargetComplete P (rootReducer now rs (TransferAction a)) = selectTransferIsTargetComplete P rs"
  by (rule target_complete_cong) (use assms in \<open>auto simp: transfer_reducer_defs\<close>)


text \<open>A confirmed transaction whose receipt has no log of the core bridge: the button is enabled again.\<close>

definition demo_signer_no_log :: "unit eth_receipt eth_signer" where
  "demo_signer_no_log = (demo_signer 2)\<lparr>waitTx := (\<lambda>h v. Inr ((demo_receipt 2)\<lparr>rc_logs := []\<rparr>))\<rparr>"

definition demo_root :: "(unit, unit, unit) root_state" where
  "demo_root = store_initial\<lparr>transfer := demo_page\<rparr>"

lemma demo_root_enabled: "\<not> transfer_sendDisabled demo_parseUnits demo_root"
proof -
  have "transfer demo_root = demo_page" by (simp add: demo_root_def)
  then show ?thesis
    by (simp add: transfer_sendDisabled_def selectTransferIsTargetComplete_def selectTransferTargetError_def
      selectTransferSourceError_def selectTransferTargetAsset_def selectTransferIsSendComplete_def demo_parseUnits_def
      demo_page_def transfer_initialState_def receiveDataWrapper_def isEVMChain_def chain_ids)
qed


theorem redeemClick_page_witness:
  "\<exists>ds. dispatched (fst (redeemClick demo_outside (demo_page\<lparr>targetChain := 2, signedVAAHex := Some ''01''\<rparr>) ''uluna''
       (Some (demo_signer 2)) None None True [])) = ds \<and> last ds = SetRedeemTx \<lparr>tx_id = ''hash'', tx_block = 7\<rparr> \<and>
     \<not> isRedeeming (foldl (transferReducer ''now'') demo_page (ds @ [SetAmount ''1'']))"
proof -
  let ?s = "demo_page\<lparr>targetChain := 2, signedVAAHex := Some ''01''\<rparr>"
  let ?click = "redeemClick demo_outside ?s ''uluna'' (Some (demo_signer 2)) None None True []"
  have call: "redeemOnEthNative S b v ov = sendAndWait S b (OpCompleteTransferAndUnwrapETH v) ov" for S :: "unit eth_receipt eth_signer" and b v ov
    by (rule ext) (simp add: redeemOnEthNative_def)
  have run: "?click = redeem_evm demo_outside (demo_signer 2) (hexToUint8Array ''01'') True 2 []"
    by (simp add: redeemClick_def demo_page_def useTransferSignedVAA_def isEVMChain_def chain_ids)
  have ds: "dispatched (fst ?click) = [SetIsRedeeming True, SetRedeemTx \<lparr>tx_id = ''hash'', tx_block = 7\<rparr>]"
    and r: "snd ?click = Some (Inr ())"
    unfolding run
    by (simp_all add: redeem_evm_def Let_def withErrors_run call bindT_known [OF demo_signer_call] confirmed_def thenT_emit
      emitT_def demo_outside_sels)
  have all: "\<forall>s0 as bs. SetIsRedeeming True \<notin> set bs \<longrightarrow>
      \<not> isRedeeming (foldl (transferReducer ''now'') s0 (as @ last (dispatched (fst ?click)) # bs))"
    using redeemClick_page [OF prod.collapse [symmetric], of demo_outside ?s "''uluna''" "Some (demo_signer 2)" None None True "[]" "''now''"]
      ds r by auto
  have "\<not> isRedeeming (foldl (transferReducer ''now'') demo_page ([SetIsRedeeming True] @ last (dispatched (fst ?click)) # [SetAmount ''1'']))"
    by (rule all [rule_format]) simp
  with ds show ?thesis by simp
qed

text \<open>The sending loop only rejects with strings.\<close>

lemma sendLoop_rejects: "sendLoop W C sign payer m st = (Inl e, st') \<Longrightarrow> \<exists>msg. e = Rejected msg"
proof (induction W C sign payer m st rule: sendLoop.induct)
  case (1 W C sign payer m st)
  show ?case
  proof (cases "sendGuard m st")
    case True
    obtain st1 o1 where a: "sendAttempt W C sign payer st = (st1, o1)" by (cases "sendAttempt W C sign payer st")
    show ?thesis
    proof (cases o1)
      case None
      then show ?thesis using 1(1) [OF True a [symmetric]] 1(2) True a by (simp add: sendLoop.simps [of W C sign payer m st])
    next
      case (Some x)
      then have "e = x" using 1(2) True a by (simp add: sendLoop.simps [of W C sign payer m st])
      then show ?thesis using a Some by (auto simp: sendAttempt_def Let_def split: prod.splits sum.splits)
    qed
  next
    case False
    then show ?thesis using 1(2) by (auto simp: sendLoop.simps [of W C sign payer m st] split: if_splits)
  qed
qed

lemma sendAndConfirm_rejects:
  "sendAndConfirmTransactionsWithRetry W C sign payer txs m h = (h', Inl e) \<Longrightarrow> \<exists>msg. e = Rejected msg"
  by (auto simp: sendAndConfirmTransactionsWithRetry_def split: if_splits prod.splits dest: sendLoop_rejects)

text \<open>C24: whatever goes wrong while the transactions that post a VAA to Solana are signed and sent (the user refuses
  to sign, the retries are exhausted, the guardian set is missing), the page only says that an unknown error
  occurred: the SDK rejects with a string, and the page looks for a message in an object. Nothing is redeemed, and the
  page can be used again.\<close>

theorem redeem_solana_unknown_error:
  assumes "sw_signTransaction wallet = Some sign"
    and "createVerifySignaturesInstructions (o_web3 E) (o_connection E) (o_core E) (SOL_BRIDGE_ADDRESS (o_cluster E)) payer vaa
      (o_signatureSet E) (solOf tr) = (h1, Inr instrs)"
    and "createPostVaaInstruction (o_web3 E) (o_core E) (SOL_BRIDGE_ADDRESS (o_cluster E)) payer vaa (o_signatureSet E) = Inr ix"
    and "bindR (chunks instrs 2) (\<lambda>cs. sequenceR (map (batchTransaction (o_web3 E)) cs)) = Inr txs"
    and "newTransaction (o_web3 E) [Some ix] = Inr tx"
    and "postVaaWithRetry (o_web3 E) (o_connection E) (o_core E) (walletSigner sign) (SOL_BRIDGE_ADDRESS (o_cluster E)) payer vaa
      (int MAX_VAA_UPLOAD_RETRIES_SOLANA) (o_signatureSet E) (solOf tr) = (h, Inl e)"
  shows "redeem_solana E wallet payer vaa isNative tr =
    (tr @ Dispatch (SetIsRedeeming True) # map SolEvent (drop (length (solOf tr)) h) @
       [Snackbar SevError ''An unknown error occurred'', Dispatch (SetIsRedeeming False)], Some (Inr ()))"
proof -
  obtain msg where "e = Rejected msg"
  proof -
    have "bindH (sendAndConfirmTransactionsWithRetry (o_web3 E) (o_connection E)
          (partialSignWrapper (o_web3 E) (o_signatureSet E) (walletSigner sign)) payer txs (int MAX_VAA_UPLOAD_RETRIES_SOLANA) h1)
        (\<lambda>h _. bindH (sendAndConfirmTransactionsWithRetry (o_web3 E) (o_connection E) (walletSigner sign) payer [tx]
          (int MAX_VAA_UPLOAD_RETRIES_SOLANA) h) (\<lambda>h _. (h, Inr ()))) = (h, Inl e)"
      using assms(2-6) by (simp add: postVaaWithRetry_def del: bindR_eq_Inr)
    then show thesis
      using that by (auto simp: bindH_def split: prod.splits sum.splits dest: sendAndConfirm_rejects)
  qed
  then show ?thesis
    using assms(1,6) by (simp add: redeem_solana_def withErrors_run bindT_def solT_def)
qed

lemma sendAndConfirm_refused:
  assumes "sendAttempt W C sign payer \<lparr>currentRetries = 0, currentIndex = 0, transactionReceipts = [], unsignedTxs = t # ts, hist = h\<rparr>
      = (st, Some e)" "0 \<le> m"
  shows "sendAndConfirmTransactionsWithRetry W C sign payer (t # ts) m h = (hist st, Inl e)"
  using assms by (simp add: sendAndConfirmTransactionsWithRetry_def sendGuard_def) (subst sendLoop.simps, simp add: sendGuard_def)

definition demo_refusing :: "string sol_wallet" where
  "demo_refusing = \<lparr>sw_publicKey = Some ''payer'',
     sw_signTransaction = Some (\<lambda>h tx. (tx, Inl (Foreign ''User rejected the request.'')))\<rparr>"

theorem redeem_solana_unknown_error_witness:
  "\<exists>tr. redeem_solana demo_outside demo_refusing ''payer'' [1] False [] = (tr, Some (Inr ())) \<and>
     Snackbar SevError ''An unknown error occurred'' \<in> set tr"
proof -
  let ?refuse = "walletSigner (\<lambda>h tx. (tx, Inl (Foreign ''User rejected the request.'')))"
  let ?b = "SOL_BRIDGE_ADDRESS Devnet"
  have o: "o_web3 demo_outside = demo_web3" "o_connection demo_outside = good_connection" "o_core demo_outside = demo_core"
    "o_signatureSet demo_outside = demo_signature_set"
    by (simp_all add: demo_outside_def)
  have s: "sw_signTransaction demo_refusing = Some (\<lambda>h tx. (tx, Inl (Foreign ''User rejected the request.'')))"
    by (simp add: demo_refusing_def)
  obtain a b h1 where v: "createVerifySignaturesInstructions demo_web3 good_connection demo_core ?b ''payer'' [1] demo_signature_set
      (solOf ([] :: (transfer_action, string) trace)) = (h1, Inr [Some a, Some b])"
    by (simp add: createVerifySignaturesInstructions_def getBridgeState_def demo_core_def demo_sels del: toHex_simps)
  obtain ix where ix: "createPostVaaInstruction demo_web3 demo_core ?b ''payer'' [1] demo_signature_set = Inr ix"
    by (simp add: createPostVaaInstruction_def demo_core_def demo_sels del: toHex_simps)
  obtain t where t: "bindR (chunks [Some a, Some b] 2) (\<lambda>cs. sequenceR (map (batchTransaction demo_web3) cs)) = Inr [t]"
    by (simp add: chunks_pair batchTransaction_def demo_sels)
  obtain tx where tx: "newTransaction demo_web3 [Some ix] = Inr tx" by (simp add: demo_sels)
  have "\<exists>st. sendAttempt demo_web3 good_connection (partialSignWrapper demo_web3 demo_signature_set ?refuse) ''payer''
      \<lparr>currentRetries = 0, currentIndex = 0, transactionReceipts = [], unsignedTxs = [t], hist = h1\<rparr> =
      (st, Some (Rejected ''Failed to sign transaction.''))"
    by (simp add: sendAttempt_def prepare_def partialSignWrapper_def walletSigner_def demo_sels)
  then obtain st where st: "sendAttempt demo_web3 good_connection (partialSignWrapper demo_web3 demo_signature_set ?refuse) ''payer''
      \<lparr>currentRetries = 0, currentIndex = 0, transactionReceipts = [], unsignedTxs = [t], hist = h1\<rparr> =
      (st, Some (Rejected ''Failed to sign transaction.''))" by blast
  have p: "postVaaWithRetry demo_web3 good_connection demo_core ?refuse ?b ''payer'' [1]
      (int MAX_VAA_UPLOAD_RETRIES_SOLANA) demo_signature_set (solOf ([] :: (transfer_action, string) trace)) =
      (hist st, Inl (Rejected ''Failed to sign transaction.''))"
    using v ix t tx sendAndConfirm_refused [OF st] by (simp add: postVaaWithRetry_def del: bindR_eq_Inr)
  from redeem_solana_unknown_error [where E = demo_outside, OF s, unfolded o demo_outside_sels, OF v ix t tx p] show ?thesis by auto
qed

end
