(* ===== verification/HandleNft.thy ===== *)
theory HandleNft
  imports Pages
begin

text \<open>
  The NFT page's buttons: \<open>hooks/useHandleNFTTransfer.tsx\<close> and \<open>hooks/useHandleNFTRedeem.tsx\<close>, the address of an
  NFT's metadata account (\<open>getMetadataAddress\<close> of \<open>utils/metaplex.ts\<close>), and the page's small hooks. Redeeming on
  Solana first asks whether the VAA has been claimed, and creates the metadata of a wrapped NFT that has none.
\<close>

section \<open>Hooks\<close>

definition useNFTTargetAddressHex :: "nft_state \<Rightarrow> bytes option" where
  "useNFTTargetAddressHex s =
     (if truthy (n_targetAddressHex s) then Some (hexToUint8Array (the (n_targetAddressHex s))) else None)"

definition useNFTSignedVAA :: "nft_state \<Rightarrow> bytes option" where
  "useNFTSignedVAA s =
     (if truthy (n_signedVAAHex s) then Some (hexToUint8Array (the (n_signedVAAHex s))) else None)"

section \<open>Sending\<close>

definition nft_send_evm :: "('k, 'g, 't) outside \<Rightarrow> 't eth_receipt eth_signer \<Rightarrow> string \<Rightarrow> string \<Rightarrow> nat \<Rightarrow> bytes \<Rightarrow> nat \<Rightarrow>
    (nft_action, 'k, unit) task" where
  "nft_send_evm E signer tokenAddress tokenID recipientChain recipientAddress chainId =
     (let bridge = getNFTBridgeAddressForChain (o_getAddress E) (o_cluster E) chainId in
      withErrors E NftSetIsSending (
        bindT (liftT (o_tokenNumber E tokenID)) (\<lambda>tokenNumber.
        bindT (ethT (nft_transferFromEth signer (o_random E) bridge tokenAddress tokenNumber recipientChain recipientAddress
            Map.empty))
          (afterReceipt E NftSetTransferTx NftSetSignedVAAHex bridge chainId))))"

definition nft_send_solana :: "('k, 'g, 't) outside \<Rightarrow> 'k sol_wallet \<Rightarrow> string \<Rightarrow> string \<Rightarrow> string \<Rightarrow> nat \<Rightarrow> bytes \<Rightarrow>
    string option \<Rightarrow> nat option \<Rightarrow> string option \<Rightarrow> (nft_action, 'k, unit) task" where
  "nft_send_solana E wallet payerAddress fromAddress mintAddress target targetAddr originAddressStr originCh originTokenId =
     withErrors E NftSetIsSending (
       bindT (liftT (if truthy originAddressStr
           then mapR Some (zeroPad (o_libs E) (hexToUint8Array (the originAddressStr)) 32) else Inr None)) (\<lambda>originAddr.
       bindT (liftT (o_arrayifyNumber E (orElse originTokenId ''0''))) (\<lambda>tokenBytes.
       bindT (solT (nft_transferFromSolana (o_web3 E) (o_connection E) (o_core E) (o_spl E) (o_nftBridge E) (o_random E)
           (o_messageKey E) (SOL_BRIDGE_ADDRESS (o_cluster E)) (SOL_NFT_BRIDGE_ADDRESS (o_cluster E)) payerAddress fromAddress
           mintAddress targetAddr target originAddr originCh (Some tokenBytes)))
         (sendSolana E NftSetTransferTx NftSetSignedVAAHex (SOL_NFT_BRIDGE_ADDRESS (o_cluster E)) wallet))))"

definition nft_handleTransferClick :: "('k, 'g, 't) outside \<Rightarrow> nft_state \<Rightarrow> 't eth_receipt eth_signer option \<Rightarrow>
    'k sol_wallet option \<Rightarrow> (nft_action, 'k, unit) task" where
  "nft_handleTransferClick E s signer solanaWallet =
     (case (n_sourceParsedTokenAccount s, useNFTTargetAddressHex s) of
        (Some acct, Some target) \<Rightarrow>
          (let sourceAsset = mintKey acct; sourceTokenId = orElse (tokenId acct) '''' in
           if isEVMChain (n_sourceChain s) \<and> signer \<noteq> None \<and> sourceAsset \<noteq> '''' \<and> sourceTokenId \<noteq> ''''
           then nft_send_evm E (the signer) sourceAsset sourceTokenId (n_targetChain s) target (n_sourceChain s)
           else if n_sourceChain s = CHAIN_ID_SOLANA \<and> Option.bind solanaWallet sw_publicKey \<noteq> None \<and> sourceAsset \<noteq> '''' \<and>
             parsed_token_account.publicKey acct \<noteq> ''''
           then nft_send_solana E (the solanaWallet) (keyString (o_web3 E) (the (Option.bind solanaWallet sw_publicKey)))
             (parsed_token_account.publicKey acct) sourceAsset (n_targetChain s) target (n_originAsset s) (n_originChain s)
             (n_originTokenId s)
           else liftT (Inr ()))
      | _ \<Rightarrow> liftT (Inr ()))"

definition nft_sendDisabled :: "parse_units \<Rightarrow> ('a, 'b, 'c) root_state \<Rightarrow> bool" where
  "nft_sendDisabled parseUnits s \<longleftrightarrow>
     \<not> selectNFTIsTargetComplete parseUnits s \<or> n_isSending (nft s) \<or> selectNFTIsSendComplete s"

section \<open>Redeeming\<close>

definition nft_redeem_evm :: "('k, 'g, 't) outside \<Rightarrow> 't eth_receipt eth_signer \<Rightarrow> bytes \<Rightarrow> nat \<Rightarrow> (nft_action, 'k, unit) task" where
  "nft_redeem_evm E signer signedVAA chainId =
     (let bridge = getNFTBridgeAddressForChain (o_getAddress E) (o_cluster E) chainId in
      withErrors E NftSetIsRedeeming (
        bindT (ethT (nft_redeemOnEth signer bridge signedVAA Map.empty)) (\<lambda>receipt.
        confirmed NftSetRedeemTx \<lparr>tx_id = transactionHash receipt, tx_block = blockNumber receipt\<rparr>)))"

definition METADATA_PROGRAM_ID :: string where
  "METADATA_PROGRAM_ID = ''metaqbxxUerdq28cj1RbAWkYQm3ybzjb6a8bt518x1s''"

definition getMetadataAddress :: "('k, 'g, 't) outside \<Rightarrow> string \<Rightarrow> 'k result" where
  "getMetadataAddress E mintAddress =
     bindR (pkToBytes (o_libs E) METADATA_PROGRAM_ID) (\<lambda>program.
     bindR (pkToBytes (o_libs E) mintAddress) (\<lambda>mint.
     bindR (publicKeyS (o_web3 E) METADATA_PROGRAM_ID) (\<lambda>k.
     o_findProgramAddress E [charCodes ''metadata'', program, mint] k)))"

definition accountInfoT :: "('k, 'g, 't) outside \<Rightarrow> 'k \<Rightarrow> ('a, 'k, bytes option) task" where
  "accountInfoT E k = solT (\<lambda>h. (h @ [GetAccountInfo k], getAccountInfo (o_connection E) h k))"

text \<open>Posting and redeeming, unless the VAA has been claimed; the id of the transaction.\<close>

definition nft_claim :: "('k, 'g, 't) outside \<Rightarrow> ('k history \<Rightarrow> 'k transaction \<Rightarrow> 'k transaction \<times> 'k transaction result) \<Rightarrow>
    'k sol_wallet \<Rightarrow> string \<Rightarrow> bytes \<Rightarrow> ('a, 'k, string option) task" where
  "nft_claim E sign wallet payerAddress signedVAA =
     bindT (liftT (getClaimAddressSolana (o_web3 E) (o_nftBridge E) (SOL_NFT_BRIDGE_ADDRESS (o_cluster E)) signedVAA)) (\<lambda>claimAddress.
     bindT (accountInfoT E claimAddress) (\<lambda>claimInfo.
     if claimInfo = None
     then
       bindT (solT (postVaaWithRetry (o_web3 E) (o_connection E) (o_core E) (walletSigner sign)
         (SOL_BRIDGE_ADDRESS (o_cluster E)) payerAddress signedVAA (int MAX_VAA_UPLOAD_RETRIES_SOLANA) (o_signatureSet E))) (\<lambda>_.
       bindT (solT (nft_redeemOnSolana (o_web3 E) (o_connection E) (o_nftBridge E) (SOL_BRIDGE_ADDRESS (o_cluster E))
         (SOL_NFT_BRIDGE_ADDRESS (o_cluster E)) payerAddress signedVAA)) (\<lambda>tx.
       bindT (solT (signSendAndConfirm (o_web3 E) (o_connection E) wallet tx)) (\<lambda>txid.
       liftT (Inr (Some txid)))))
     else liftT (Inr None)))"

text \<open>The metadata of a wrapped NFT, unless it is there.\<close>

definition nft_metadata :: "('k, 'g, 't) outside \<Rightarrow> 'k sol_wallet \<Rightarrow> string \<Rightarrow> bytes \<Rightarrow> string option \<Rightarrow>
    ('a, 'k, string option) task" where
  "nft_metadata E wallet payerAddress signedVAA txid =
     bindT (liftT (isNFTVAASolanaNative (o_nftBridge E) signedVAA)) (\<lambda>isNative.
     if isNative then liftT (Inr txid)
     else
       bindT (liftT (bindR (parse_vaa (o_bridge E) signedVAA) (\<lambda>parsedVAA.
         bindR (parseNFTPayload (o_bigNumberFrom E) (vaa_payload parsedVAA)) (\<lambda>payload.
         bindR (o_arrayifyNumber E (decimal (nftTokenId payload))) (\<lambda>tokenBytes.
         nft_getForeignAssetSol (o_web3 E) (o_nftBridge E) (SOL_NFT_BRIDGE_ADDRESS (o_cluster E)) (nftOriginChain payload)
           (hexToUint8Array (nftOriginAddress payload)) tokenBytes))))) (\<lambda>mintAddress.
       bindT (liftT (getMetadataAddress E mintAddress)) (\<lambda>metadataAddress.
       bindT (accountInfoT E metadataAddress) (\<lambda>metadata.
       if metadata = None
       then
         bindT (solT (createMetaOnSolana (o_web3 E) (o_connection E) (o_nftBridge E) (SOL_BRIDGE_ADDRESS (o_cluster E))
           (SOL_NFT_BRIDGE_ADDRESS (o_cluster E)) payerAddress signedVAA)) (\<lambda>tx.
         bindT (solT (signSendAndConfirm (o_web3 E) (o_connection E) wallet tx)) (\<lambda>txid.
         liftT (Inr (Some txid))))
       else liftT (Inr txid)))))"

definition nft_redeem_solana :: "('k, 'g, 't) outside \<Rightarrow> 'k sol_wallet \<Rightarrow> string \<Rightarrow> bytes \<Rightarrow> (nft_action, 'k, unit) task" where
  "nft_redeem_solana E wallet payerAddress signedVAA =
     withErrors E NftSetIsRedeeming (
       case sw_signTransaction wallet of
         None \<Rightarrow> liftT (Inl (Error ''wallet.signTransaction is undefined''))
       | Some sign \<Rightarrow>
           bindT (nft_claim E sign wallet payerAddress signedVAA) (\<lambda>txid.
           bindT (nft_metadata E wallet payerAddress signedVAA txid) (\<lambda>txid.
           confirmed NftSetRedeemTx \<lparr>tx_id = orElse txid '''', tx_block = 1\<rparr>)))"

definition nft_handleRedeemClick :: "('k, 'g, 't) outside \<Rightarrow> nft_state \<Rightarrow> 't eth_receipt eth_signer option \<Rightarrow>
    'k sol_wallet option \<Rightarrow> (nft_action, 'k, unit) task" where
  "nft_handleRedeemClick E s signer solanaWallet =
     (case useNFTSignedVAA s of
        None \<Rightarrow> liftT (Inr ())
      | Some signedVAA \<Rightarrow>
          if isEVMChain (n_targetChain s) \<and> signer \<noteq> None
          then nft_redeem_evm E (the signer) signedVAA (n_targetChain s)
          else if n_targetChain s = CHAIN_ID_SOLANA \<and> Option.bind solanaWallet sw_publicKey \<noteq> None
          then nft_redeem_solana E (the solanaWallet) (keyString (o_web3 E) (the (Option.bind solanaWallet sw_publicKey)))
            signedVAA
          else liftT (Inr ()))"

section \<open>What the handlers dispatch\<close>

lemma quiet_if [quiet]: "quiet m \<Longrightarrow> quiet n \<Longrightarrow> quiet (if b then m else n)"
  by simp

lemma quiet_nft_redeem [quiet]: "quiet (nft_claim E sign w p v)" "quiet (nft_metadata E w p v txid)"
  unfolding nft_claim_def nft_metadata_def accountInfoT_def by (intro quiet)+

lemma does_nft_send:
  "does (nft_send_evm E signer a tid rc ra ch) (send_run NftSetIsSending NftSetTransferTx NftSetSignedVAAHex)"
  "does (nft_send_solana E sw p fa ma t ta oa oc ot) (send_run NftSetIsSending NftSetTransferTx NftSetSignedVAAHex)"
  unfolding nft_send_evm_def nft_send_solana_def Let_def
  by (rule does_send, (intro does_rules does_afterReceipt does_sendSolana quiet send_body.intros; fail))+

lemma does_nft_redeem:
  "does (nft_redeem_evm E signer v ch) (redeem_run NftSetIsRedeeming NftSetRedeemTx)"
  "does (nft_redeem_solana E sw p v) (redeem_run NftSetIsRedeeming NftSetRedeemTx)"
  unfolding nft_redeem_evm_def nft_redeem_solana_def Let_def
  by (rule does_redeem, (intro does_rules does_confirmed quiet redeem_body.intros; fail))+

lemma does_nft_handleTransferClick:
  "does (nft_handleTransferClick E s signer sw) (clicked (send_run NftSetIsSending NftSetTransferTx NftSetSignedVAAHex))"
  by (simp add: nft_handleTransferClick_def Let_def does_nothing does_clicked does_nft_send split: prod.split option.split)

lemma does_nft_handleRedeemClick:
  "does (nft_handleRedeemClick E s signer sw) (clicked (redeem_run NftSetIsRedeeming NftSetRedeemTx))"
  by (simp add: nft_handleRedeemClick_def does_nothing does_clicked does_nft_redeem split: option.split)

section \<open>Properties\<close>

lemma finishTransaction_history:
  "finishTransaction W C p ixs ks h = (h', r) \<Longrightarrow> h' = h \<or> h' = h @ [GetRecentBlockhash]"
  by (auto simp: finishTransaction_def bindH_def split: sum.splits prod.splits)

lemma createMetaOnSolana_history:
  "createMetaOnSolana W C B b tb p v h = (h', r) \<Longrightarrow> h' = h \<or> h' = h @ [GetRecentBlockhash]"
  by (auto simp: createMetaOnSolana_def bindH_def split: sum.splits dest: finishTransaction_history)

lemma signSendAndConfirm_history:
  assumes "signSendAndConfirm W C wallet tx h = (h', r)"
  shows "\<exists>cs. h' = h @ cs \<and> (\<forall>t. SignTransaction t \<in> set cs \<longrightarrow> t = tx)"
  using assms by (auto simp: signSendAndConfirm_def bindH_def split: option.splits sum.splits)

text \<open>The transactions signed in what a task adds to the trace.\<close>

definition signed_in :: "('a, 'k) trace \<Rightarrow> 'k transaction set" where
  "signed_in tr = {t. SolEvent (SignTransaction t) \<in> set tr}"

lemma signed_in_append [simp]: "signed_in (tr @ tr') = signed_in tr \<union> signed_in tr'"
  by (auto simp: signed_in_def)

lemma signed_in_simps [simp]:
  "signed_in [] = {}" "signed_in (map SolEvent cs) = {t. SignTransaction t \<in> set cs}"
  "signed_in (Dispatch a # tr) = signed_in tr" "signed_in (Snackbar s m # tr) = signed_in tr"
  "signed_in (SolEvent (GetAccountInfo k) # tr) = signed_in tr"
  by (auto simp: signed_in_def)

text \<open>A task that only adds to the trace and only has transactions of \<open>S\<close> signed.\<close>

definition signs_only :: "('a, 'k, 'x) task \<Rightarrow> 'k transaction set \<Rightarrow> bool" where
  "signs_only m S \<longleftrightarrow> (\<forall>tr. \<exists>new. fst (m tr) = tr @ new \<and> signed_in new \<subseteq> S)"

lemma signs_only_run: "signs_only m S \<Longrightarrow> m tr = (tr', r) \<Longrightarrow> \<exists>new. tr' = tr @ new \<and> signed_in new \<subseteq> S"
  unfolding signs_only_def by (metis fst_conv)

lemma signs_only_steps:
  "signs_only (liftT v) S" "signs_only (accountInfoT E k) S" "signs_only (emitT (Dispatch a)) S"
  "signs_only (emitT (Snackbar sv msg)) S"
  by (simp_all add: signs_only_def liftT_def pureT_def accountInfoT_def solT_def emitT_def)

lemma signs_only_solT:
  assumes "\<And>h h' r. f h = (h', r) \<Longrightarrow> \<exists>cs. h' = h @ cs \<and> (\<forall>t. SignTransaction t \<in> set cs \<longrightarrow> t \<in> S)"
  shows "signs_only (solT f) S"
  unfolding signs_only_def
proof
  fix tr
  obtain h' r where f: "f (solOf tr) = (h', r)" by (cases "f (solOf tr)")
  with assms [OF this] show "\<exists>new. fst (solT f tr) = tr @ new \<and> signed_in new \<subseteq> S"
    by (auto simp: solT_def intro!: exI [of _ "map SolEvent (drop (length (solOf tr)) h')"])
qed

lemma signs_only_bindT:
  assumes "signs_only m S" "\<And>tr tr' x. m tr = (tr', Some (Inr x)) \<Longrightarrow> signs_only (f x) S"
  shows "signs_only (bindT m f) S"
  unfolding signs_only_def
proof
  fix tr
  obtain tr1 r1 where m: "m tr = (tr1, r1)" by (cases "m tr")
  obtain new where new: "tr1 = tr @ new" "signed_in new \<subseteq> S" using signs_only_run [OF assms(1) m] by blast
  show "\<exists>new. fst (bindT m f tr) = tr @ new \<and> signed_in new \<subseteq> S"
  proof (cases r1 rule: option_result_cases)
    case (gave x)
    obtain tr2 r2 where f: "f x tr1 = (tr2, r2)" by (cases "f x tr1")
    from signs_only_run [OF assms(2) [OF m [unfolded gave]] f] obtain new2 where "tr2 = tr1 @ new2" "signed_in new2 \<subseteq> S" by blast
    then show ?thesis using f m gave new by (intro exI [of _ "new @ new2"]) (simp add: bindT_def)
  qed (use m new in \<open>auto simp: bindT_def\<close>)
qed

lemma signs_only_thenT: "signs_only m S \<Longrightarrow> signs_only n S \<Longrightarrow> signs_only (thenT m n) S"
  unfolding thenT_def by (rule signs_only_bindT)

lemma signs_only_if: "(b \<Longrightarrow> signs_only m S) \<Longrightarrow> (\<not> b \<Longrightarrow> signs_only n S) \<Longrightarrow> signs_only (if b then m else n) S"
  by simp

lemma nft_metadata_signs:
  "signs_only (nft_metadata E wallet payer vaa txid)
     {t. \<exists>h h'. createMetaOnSolana (o_web3 E) (o_connection E) (o_nftBridge E)
        (SOL_BRIDGE_ADDRESS (o_cluster E)) (SOL_NFT_BRIDGE_ADDRESS (o_cluster E)) payer vaa h = (h', Inr t)}"
  (is "signs_only _ ?S")
proof -
  let ?meta = "createMetaOnSolana (o_web3 E) (o_connection E) (o_nftBridge E)
     (SOL_BRIDGE_ADDRESS (o_cluster E)) (SOL_NFT_BRIDGE_ADDRESS (o_cluster E)) payer vaa"
  have meta: "signs_only (solT ?meta) ?S"
    by (rule signs_only_solT) (drule createMetaOnSolana_history, auto)
  have send: "signs_only (solT (signSendAndConfirm (o_web3 E) (o_connection E) wallet t)) ?S"
    if "solT ?meta tr = (tr', Some (Inr t))" for tr tr' t
  proof (rule signs_only_solT)
    have t: "t \<in> ?S" using that by (auto simp: solT_def split: prod.splits)
    fix h h' r
    assume "signSendAndConfirm (o_web3 E) (o_connection E) wallet t h = (h', r)"
    from signSendAndConfirm_history [OF this] obtain cs where cs: "h' = h @ cs" "\<forall>t'. SignTransaction t' \<in> set cs \<longrightarrow> t' = t"
      by blast
    have "\<forall>t'. SignTransaction t' \<in> set cs \<longrightarrow> t' \<in> ?S" using cs(2) t by (intro allI impI) (simp only:)
    with cs(1) show "\<exists>cs. h' = h @ cs \<and> (\<forall>t. SignTransaction t \<in> set cs \<longrightarrow> t \<in> ?S)" by (intro exI [of _ cs] conjI)
  qed
  show ?thesis
    unfolding nft_metadata_def by (intro signs_only_bindT signs_only_if signs_only_steps meta send)
qed

text \<open>C19: on Solana an NFT whose VAA has been claimed is not redeemed again: nothing is posted, and the only
  transaction that the wallet is asked to sign is the one that creates the metadata of a wrapped NFT. If the NFT is native
  there is none, and the page is marked as redeemed with an empty transaction id.\<close>

theorem nft_redeem_claimed:
  assumes claim: "getClaimAddressSolana (o_web3 E) (o_nftBridge E) (SOL_NFT_BRIDGE_ADDRESS (o_cluster E)) vaa = Inr k"
      "getAccountInfo (o_connection E) (solOf tr) k = Inr (Some info)"
    and wallet: "sw_signTransaction wallet \<noteq> None"
    and run: "nft_redeem_solana E wallet payer vaa tr = (tr', r)"
  shows "(\<exists>new. tr' = tr @ new \<and> (\<forall>t\<in>signed_in new. \<exists>h h'. createMetaOnSolana (o_web3 E) (o_connection E) (o_nftBridge E)
      (SOL_BRIDGE_ADDRESS (o_cluster E)) (SOL_NFT_BRIDGE_ADDRESS (o_cluster E)) payer vaa h = (h', Inr t))) \<and>
    (isNFTVAASolanaNative (o_nftBridge E) vaa = Inr True \<longrightarrow>
      tr' = tr @ [Dispatch (NftSetIsRedeeming True), SolEvent (GetAccountInfo k),
        Dispatch (NftSetRedeemTx \<lparr>tx_id = [], tx_block = 1\<rparr>), Snackbar SevSuccess ''Transaction confirmed''])"
proof -
  let ?S = "{t. \<exists>h h'. createMetaOnSolana (o_web3 E) (o_connection E) (o_nftBridge E)
        (SOL_BRIDGE_ADDRESS (o_cluster E)) (SOL_NFT_BRIDGE_ADDRESS (o_cluster E)) payer vaa h = (h', Inr t)}"
  let ?tr0 = "tr @ [Dispatch (NftSetIsRedeeming True)]" and ?acc = "[SolEvent (GetAccountInfo k)]"
  let ?rest = "\<lambda>txid. bindT (nft_metadata E wallet payer vaa txid) (\<lambda>txid. confirmed NftSetRedeemTx \<lparr>tx_id = orElse txid [], tx_block = 1\<rparr>)"
  obtain sign where sign: "sw_signTransaction wallet = Some sign" using wallet by blast
  have "accountInfoT E k ?tr0 = (?tr0 @ ?acc, Some (Inr (Some info)))"
    using claim(2) by (simp add: accountInfoT_def solT_def)
  then have "nft_claim E sign wallet payer vaa ?tr0 = (?tr0 @ ?acc, Some (Inr None))"
    using claim(1) by (simp add: nft_claim_def bindT_liftT bindT_known liftT_run)
  then have body: "bindT (nft_claim E sign wallet payer vaa) ?rest ?tr0 = ?rest None (?tr0 @ ?acc)" by (simp add: bindT_known)
  obtain tr2 r2 where rest: "?rest None (?tr0 @ ?acc) = (tr2, r2)" by (cases "?rest None (?tr0 @ ?acc)")
  have "signs_only (?rest None) ?S"
    unfolding confirmed_def by (intro signs_only_bindT signs_only_thenT signs_only_steps nft_metadata_signs)
  from signs_only_run [OF this rest] obtain new where new: "tr2 = (?tr0 @ ?acc) @ new" "signed_in new \<subseteq> ?S" by blast
  have tr': "tr' = tr2 \<or> (\<exists>msg b. tr' = tr2 @ [Snackbar SevError msg, Dispatch b])"
    using run sign rest body by (auto simp: nft_redeem_solana_def withErrors_run split: option.splits sum.splits)
  then have "\<exists>new. tr' = tr @ new \<and> signed_in new \<subseteq> ?S"
  proof
    assume "tr' = tr2"
    with new show ?thesis by (intro exI [of _ "Dispatch (NftSetIsRedeeming True) # ?acc @ new"]) simp
  next
    assume "\<exists>msg b. tr' = tr2 @ [Snackbar SevError msg, Dispatch b]"
    then obtain msg b where "tr' = tr2 @ [Snackbar SevError msg, Dispatch b]" by blast
    with new show ?thesis
      by (intro exI [of _ "Dispatch (NftSetIsRedeeming True) # ?acc @ new @ [Snackbar SevError msg, Dispatch b]"]) simp
  qed
  moreover have "tr' = ?tr0 @ ?acc @ [Dispatch (NftSetRedeemTx \<lparr>tx_id = [], tx_block = 1\<rparr>), Snackbar SevSuccess ''Transaction confirmed'']"
    if "isNFTVAASolanaNative (o_nftBridge E) vaa = Inr True"
  proof -
    have "nft_metadata E wallet payer vaa None (?tr0 @ ?acc) = (?tr0 @ ?acc, Some (Inr None))"
      using that by (simp add: nft_metadata_def bindT_liftT liftT_run)
    then show ?thesis
      using run sign body
      by (simp add: nft_redeem_solana_def withErrors_run bindT_known confirmed_def thenT_emit emitT_def orElse_def)
  qed
  ultimately show ?thesis by auto
qed

definition demo_nft_vaa :: bytes where
  "demo_nft_vaa = replicate 33 0 @ [0, 1]"

theorem nft_redeem_claimed_witness:
  "\<exists>k. fst (nft_redeem_solana demo_outside \<lparr>sw_publicKey = Some ''payer'', sw_signTransaction = Some demo_wallet\<rparr> ''payer'' demo_nft_vaa []) =
     [Dispatch (NftSetIsRedeeming True), SolEvent (GetAccountInfo k),
      Dispatch (NftSetRedeemTx \<lparr>tx_id = [], tx_block = 1\<rparr>), Snackbar SevSuccess ''Transaction confirmed'']"
proof -
  let ?w = "\<lparr>sw_publicKey = Some ''payer'', sw_signTransaction = Some demo_wallet\<rparr>"
  have o: "o_web3 demo_outside = demo_web3" "o_connection demo_outside = good_connection" "o_nftBridge demo_outside = demo_bridge"
    by (simp_all add: demo_outside_def)
  obtain k where k: "getClaimAddressSolana (o_web3 demo_outside) (o_nftBridge demo_outside)
      (SOL_NFT_BRIDGE_ADDRESS (o_cluster demo_outside)) demo_nft_vaa = Inr k"
    unfolding o by (simp add: getClaimAddressSolana_def demo_bridge_def demo_sels del: toHex_simps)
  have a: "getAccountInfo (o_connection demo_outside) (solOf ([] :: (nft_action, string) trace)) k = Inr (Some [0])"
    unfolding o by (simp add: demo_sels)
  have n: "isNFTVAASolanaNative (o_nftBridge demo_outside) demo_nft_vaa = Inr True"
    unfolding o by (simp add: isNFTVAASolanaNative_def demo_bridge_def demo_nft_vaa_def readUInt16BE_def
      readUIntBE_def js_slice_def be_nat_Cons CHAIN_ID_SOLANA_def)
  from nft_redeem_claimed [OF k a _ prod.collapse [symmetric], of ?w "''payer''"] n show ?thesis by auto
qed

end
