(* ===== verification/HandleAttest.thy ===== *)
theory HandleAttest
  imports Pages
begin

text \<open>
  The attestation page's buttons: \<open>hooks/useHandleAttest.tsx\<close> (attest a token on its chain) and
  \<open>hooks/useHandleCreateWrapped.tsx\<close> (create or update its wrapped form on the target chain), with the
  page's small hook.
\<close>

definition useAttestSignedVAA :: "attest_state \<Rightarrow> bytes option" where
  "useAttestSignedVAA s =
     (if truthy (a_signedVAAHex s) then Some (hexToUint8Array (the (a_signedVAAHex s))) else None)"

section \<open>Attesting\<close>

definition attest_evm :: "('k, 'g, 't) outside \<Rightarrow> 't eth_receipt eth_signer \<Rightarrow> string \<Rightarrow> nat \<Rightarrow> (attest_action, 'k, unit) task" where
  "attest_evm E signer asset chainId =
     (let bridge = getTokenBridgeAddressForChain (o_getAddress E) (o_cluster E) chainId in
      withErrors E AttestSetIsSending (
        bindT (ethT (attestFromEth signer (o_random E) bridge asset Map.empty))
          (afterReceipt E AttestSetAttestTx AttestSetSignedVAAHex bridge chainId)))"

definition attest_solana :: "('k, 'g, 't) outside \<Rightarrow> 'k \<Rightarrow> string \<Rightarrow> 'k sol_wallet \<Rightarrow> (attest_action, 'k, unit) task" where
  "attest_solana E solPK asset wallet =
     withErrors E AttestSetIsSending (
       bindT (solT (attestFromSolana (o_web3 E) (o_connection E) (o_core E) (o_spl E) (o_bridge E) (o_random E) (o_messageKey E)
           (SOL_BRIDGE_ADDRESS (o_cluster E)) (SOL_TOKEN_BRIDGE_ADDRESS (o_cluster E)) (keyString (o_web3 E) solPK) asset))
         (sendSolana E AttestSetAttestTx AttestSetSignedVAAHex (SOL_TOKEN_BRIDGE_ADDRESS (o_cluster E)) wallet))"

definition attest_terra :: "('k, 'g, 't) outside \<Rightarrow> terra_wallet \<Rightarrow> string \<Rightarrow> string \<Rightarrow> (attest_action, 'k, unit) task" where
  "attest_terra E wallet asset feeDenom =
     withErrors E AttestSetIsSending (
       bindT (sendTerra E AttestSetAttestTx wallet
           [attestFromTerra (o_random E) (TERRA_TOKEN_BRIDGE_ADDRESS (o_cluster E)) (terraAddress wallet) asset]
           ''Create Wrapped'' feeDenom) (\<lambda>vaaBytes.
       thenT (emitT (Dispatch (AttestSetSignedVAAHex (uint8ArrayToHex vaaBytes))))
         (emitT (Snackbar SevSuccess ''Fetched Signed VAA''))))"

definition handleAttestClick :: "('k, 'g, 't) outside \<Rightarrow> attest_state \<Rightarrow> string \<Rightarrow> 't eth_receipt eth_signer option \<Rightarrow>
    'k sol_wallet option \<Rightarrow> terra_wallet option \<Rightarrow> (attest_action, 'k, unit) task" where
  "handleAttestClick E s feeDenom signer solanaWallet terraWallet =
     (if isEVMChain (a_sourceChain s) \<and> signer \<noteq> None
      then attest_evm E (the signer) (a_sourceAsset s) (a_sourceChain s)
      else if a_sourceChain s = CHAIN_ID_SOLANA \<and> Option.bind solanaWallet sw_publicKey \<noteq> None
      then attest_solana E (the (Option.bind solanaWallet sw_publicKey)) (a_sourceAsset s) (the solanaWallet)
      else if a_sourceChain s = CHAIN_ID_TERRA \<and> terraWallet \<noteq> None
      then attest_terra E (the terraWallet) (a_sourceAsset s) feeDenom
      else liftT (Inr ()))"

definition attest_sendDisabled :: "('a, 'b, 'c) root_state \<Rightarrow> bool" where
  "attest_sendDisabled s \<longleftrightarrow>
     \<not> selectAttestIsTargetComplete s \<or> a_isSending (attest s) \<or> selectAttestIsSendComplete s"

section \<open>Creating the wrapped token\<close>

definition create_evm :: "('k, 'g, 't) outside \<Rightarrow> 't eth_receipt eth_signer \<Rightarrow> bytes \<Rightarrow> nat \<Rightarrow> bool \<Rightarrow>
    (attest_action, 'k, unit) task" where
  "create_evm E signer signedVAA chainId shouldUpdate =
     (let bridge = getTokenBridgeAddressForChain (o_getAddress E) (o_cluster E) chainId in
      withErrors E AttestSetIsCreating (
        bindT (ethT (if shouldUpdate then updateWrappedOnEth signer bridge signedVAA Map.empty
            else createWrappedOnEth signer bridge signedVAA Map.empty)) (\<lambda>receipt.
        confirmed AttestSetCreateTx \<lparr>tx_id = transactionHash receipt, tx_block = blockNumber receipt\<rparr>)))"

definition create_solana :: "('k, 'g, 't) outside \<Rightarrow> 'k sol_wallet \<Rightarrow> string \<Rightarrow> bytes \<Rightarrow> bool \<Rightarrow>
    (attest_action, 'k, unit) task" where
  "create_solana E wallet payerAddress signedVAA shouldUpdate =
     withErrors E AttestSetIsCreating (
       case sw_signTransaction wallet of
         None \<Rightarrow> liftT (Inl (Error ''wallet.signTransaction is undefined''))
       | Some sign \<Rightarrow>
           bindT (solT (postVaaWithRetry (o_web3 E) (o_connection E) (o_core E) (walletSigner sign)
             (SOL_BRIDGE_ADDRESS (o_cluster E)) payerAddress signedVAA (int MAX_VAA_UPLOAD_RETRIES_SOLANA)
             (o_signatureSet E))) (\<lambda>_.
           bindT (solT (if shouldUpdate
               then updateWrappedOnSolana (o_web3 E) (o_connection E) (o_bridge E) (SOL_BRIDGE_ADDRESS (o_cluster E))
                 (SOL_TOKEN_BRIDGE_ADDRESS (o_cluster E)) payerAddress signedVAA
               else createWrappedOnSolana (o_web3 E) (o_connection E) (o_bridge E) (SOL_BRIDGE_ADDRESS (o_cluster E))
                 (SOL_TOKEN_BRIDGE_ADDRESS (o_cluster E)) payerAddress signedVAA)) (\<lambda>tx.
           bindT (solT (signSendAndConfirm (o_web3 E) (o_connection E) wallet tx)) (\<lambda>txid.
           confirmed AttestSetCreateTx \<lparr>tx_id = txid, tx_block = 1\<rparr>))))"

definition create_terra :: "('k, 'g, 't) outside \<Rightarrow> terra_wallet \<Rightarrow> bytes \<Rightarrow> bool \<Rightarrow> string \<Rightarrow> (attest_action, 'k, unit) task" where
  "create_terra E wallet signedVAA shouldUpdate feeDenom =
     withErrors E AttestSetIsCreating (
       bindT (terraT (postWithFees (o_cluster E) (o_terra E) wallet
         [if shouldUpdate
          then updateWrappedOnTerra (o_base64 E) (TERRA_TOKEN_BRIDGE_ADDRESS (o_cluster E)) (terraAddress wallet) signedVAA
          else createWrappedOnTerra (o_base64 E) (TERRA_TOKEN_BRIDGE_ADDRESS (o_cluster E)) (terraAddress wallet) signedVAA]
         ''Wormhole - Create Wrapped'' [feeDenom])) (\<lambda>result.
       confirmed AttestSetCreateTx \<lparr>tx_id = res_txhash result, tx_block = res_height result\<rparr>))"

definition handleCreateClick :: "('k, 'g, 't) outside \<Rightarrow> attest_state \<Rightarrow> string \<Rightarrow> 't eth_receipt eth_signer option \<Rightarrow>
    'k sol_wallet option \<Rightarrow> terra_wallet option \<Rightarrow> bool \<Rightarrow> (attest_action, 'k, unit) task" where
  "handleCreateClick E s feeDenom signer solanaWallet terraWallet shouldUpdate =
     (case useAttestSignedVAA s of
        None \<Rightarrow> liftT (Inr ())
      | Some signedVAA \<Rightarrow>
          if isEVMChain (a_targetChain s) \<and> signer \<noteq> None
          then create_evm E (the signer) signedVAA (a_targetChain s) shouldUpdate
          else if a_targetChain s = CHAIN_ID_SOLANA \<and> Option.bind solanaWallet sw_publicKey \<noteq> None
          then create_solana E (the solanaWallet) (keyString (o_web3 E) (the (Option.bind solanaWallet sw_publicKey)))
            signedVAA shouldUpdate
          else if a_targetChain s = CHAIN_ID_TERRA \<and> terraWallet \<noteq> None
          then create_terra E (the terraWallet) signedVAA shouldUpdate feeDenom
          else liftT (Inr ()))"

section \<open>What the handlers dispatch\<close>

lemma does_attest:
  "does (attest_evm E signer a ch) (send_run AttestSetIsSending AttestSetAttestTx AttestSetSignedVAAHex)"
  "does (attest_solana E pk a sw) (send_run AttestSetIsSending AttestSetAttestTx AttestSetSignedVAAHex)"
  "does (attest_terra E tw a fd) (send_run AttestSetIsSending AttestSetAttestTx AttestSetSignedVAAHex)"
  unfolding attest_evm_def attest_solana_def attest_terra_def Let_def
  by (rule does_send, (intro does_rules does_afterReceipt does_sendSolana does_bind_sendTerra quiet send_body.intros; fail))+

lemma does_create:
  "does (create_evm E signer v ch u) (redeem_run AttestSetIsCreating AttestSetCreateTx)"
  "does (create_solana E sw p v u) (redeem_run AttestSetIsCreating AttestSetCreateTx)"
  "does (create_terra E tw v u fd) (redeem_run AttestSetIsCreating AttestSetCreateTx)"
  unfolding create_evm_def create_solana_def create_terra_def Let_def
  by (rule does_redeem, (intro does_rules does_confirmed quiet redeem_body.intros; fail))+

lemma does_handleAttestClick:
  "does (handleAttestClick E s fd signer sw tw) (clicked (send_run AttestSetIsSending AttestSetAttestTx AttestSetSignedVAAHex))"
  by (simp add: handleAttestClick_def does_nothing does_clicked does_attest)

lemma does_handleCreateClick:
  "does (handleCreateClick E s fd signer sw tw u) (clicked (redeem_run AttestSetIsCreating AttestSetCreateTx))"
  by (simp add: handleCreateClick_def does_nothing does_clicked does_create split: option.split)

end
