(* ===== verification/Effects.thy ===== *)
theory Effects
  imports UiTask
begin

text \<open>
  Effects of React hooks that ask a network and wait for its answer, as \<open>bridge_ui/src/hooks/\<close> writes
  them: the body of \<open>useEffect\<close> dispatches at once, may leave a promise pending whose continuation
  dispatches later, and may return a cleanup function that sets the variable \<open>cancelled\<close> of its run.
  React runs the body when the values it depends on have changed since its last run, after the cleanup
  of that run; when it does so and when a promise settles is not in the hand of the hook, so the
  steps of a mounted hook are a list of events in any order. The interface \<open>cancelling\<close> is that of a body whose
  pending promise always has a cleanup; its lemma is that only the answer to the last question is heard.
\<close>

section \<open>A run of an effect\<close>

text \<open>What a run does at once, what it does with the answer of the networks (of the type \<open>'e\<close>) unless it has been
  cancelled, and whether it returns a cleanup function. An exception that leaves the body is \<open>Inl\<close>.\<close>

record ('e, 'a) effect_run =
  atOnce :: "'a list"
  whenAnswered :: "('e \<Rightarrow> 'a list) option"
  cleansUp :: bool

type_synonym ('d, 'e, 'a) effect = "'d \<Rightarrow> ('e, 'a) effect_run result"

definition noEffect :: "('e, 'a) effect_run" where
  "noEffect = \<lparr>atOnce = [], whenAnswered = None, cleansUp = False\<rparr>"

section \<open>A mounted hook\<close>

text \<open>A pending promise knows the run that started it and the values that this run depended on.\<close>

record ('d, 'e, 'a) waiting =
  startedBy :: nat
  startedFor :: 'd
  cancelled :: bool
  continue_with :: "'e \<Rightarrow> 'a list"

record ('d, 'e, 'a) mounted =
  runs :: nat
  lastDeps :: "'d option"
  hasCleanup :: bool
  pending :: "('d, 'e, 'a) waiting list"
  gone :: bool

definition mount :: "('d, 'e, 'a) mounted" where
  "mount = \<lparr>runs = 0, lastDeps = None, hasCleanup = False, pending = [], gone = False\<rparr>"

definition cancelRun :: "nat \<Rightarrow> ('d, 'e, 'a) waiting \<Rightarrow> ('d, 'e, 'a) waiting" where
  "cancelRun n p = (if startedBy p = n then p\<lparr>cancelled := True\<rparr> else p)"

definition cleanup :: "('d, 'e, 'a) mounted \<Rightarrow> ('d, 'e, 'a) mounted" where
  "cleanup m = (if hasCleanup m then m\<lparr>pending := map (cancelRun (runs m)) (pending m), hasCleanup := False\<rparr> else m)"

text \<open>When a component goes, its cleanup runs and no effect of it runs any more. A promise that no cleanup has cancelled
  goes on: what it sets in the component's own state nobody sees, but what it dispatches reaches the store.\<close>

definition unmount :: "('d, 'e, 'a) mounted \<Rightarrow> ('d, 'e, 'a) mounted" where
  "unmount m = m\<lparr>hasCleanup := False, gone := True\<rparr>"

text \<open>React runs the effect when its dependencies differ from those of the last run. An exception in the body unmounts
  the component.\<close>

definition flush :: "('d, 'e, 'a) effect \<Rightarrow> 'd \<Rightarrow> ('d, 'e, 'a) mounted \<Rightarrow> ('d, 'e, 'a) mounted \<times> 'a list" where
  "flush eff d m =
     (if gone m \<or> lastDeps m = Some d then (m, [])
      else let m = cleanup m in
        case eff d of
          Inl e \<Rightarrow> (unmount m, [])
        | Inr r \<Rightarrow>
            (m\<lparr>runs := Suc (runs m), lastDeps := Some d, hasCleanup := cleansUp r,
               pending := pending m @ (case whenAnswered r of None \<Rightarrow> []
                 | Some f \<Rightarrow> [\<lparr>startedBy = Suc (runs m), startedFor = d, cancelled = False, continue_with = f\<rparr>])\<rparr>,
             atOnce r))"

text \<open>The \<open>k\<close>-th pending promise is answered by the networks as they are then.\<close>

definition settle :: "nat \<Rightarrow> 'e \<Rightarrow> ('d, 'e, 'a) mounted \<Rightarrow> ('d, 'e, 'a) mounted \<times> 'a list" where
  "settle k e m =
     (if k < length (pending m)
      then (m\<lparr>pending := take k (pending m) @ drop (Suc k) (pending m)\<rparr>,
            if cancelled (pending m ! k) then [] else continue_with (pending m ! k) e)
      else (m, []))"

section \<open>Events\<close>

text \<open>The store and the wallets change from outside, React flushes the effects, a promise settles, the component is
  unmounted.\<close>

datatype ('s, 'e) hook_event =
    Outside "'s \<Rightarrow> 's"
  | Flush
  | Settle nat 'e
  | Unmount

fun hookStep :: "('d, 'e, 'a) effect \<Rightarrow> ('s \<Rightarrow> 'd) \<Rightarrow> ('s \<Rightarrow> 'a \<Rightarrow> 's) \<Rightarrow> 's \<times> ('d, 'e, 'a) mounted \<Rightarrow> ('s, 'e) hook_event \<Rightarrow>
    's \<times> ('d, 'e, 'a) mounted" where
  "hookStep eff deps reduce (s, m) (Outside f) = (f s, m)"
| "hookStep eff deps reduce (s, m) Flush = (case flush eff (deps s) m of (m', as) \<Rightarrow> (foldl reduce s as, m'))"
| "hookStep eff deps reduce (s, m) (Settle k e) = (case settle k e m of (m', as) \<Rightarrow> (foldl reduce s as, m'))"
| "hookStep eff deps reduce (s, m) Unmount = (s, unmount (cleanup m))"

definition hookRun :: "('d, 'e, 'a) effect \<Rightarrow> ('s \<Rightarrow> 'd) \<Rightarrow> ('s \<Rightarrow> 'a \<Rightarrow> 's) \<Rightarrow> ('s, 'e) hook_event list \<Rightarrow> 's \<Rightarrow>
    's \<times> ('d, 'e, 'a) mounted" where
  "hookRun eff deps reduce evs s = foldl (hookStep eff deps reduce) (s, mount) evs"

lemmas hook_defs = hookRun_def mount_def flush_def settle_def cleanup_def unmount_def cancelRun_def

lemma cancelRun_simps [simp]:
  "startedBy (cancelRun n p) = startedBy p" "startedFor (cancelRun n p) = startedFor p"
  "continue_with (cancelRun n p) = continue_with p"
  "cancelled (cancelRun n p) \<longleftrightarrow> cancelled p \<or> startedBy p = n"
  by (simp_all add: cancelRun_def)

lemma cleanup_simps [simp]:
  "runs (cleanup m) = runs m" "lastDeps (cleanup m) = lastDeps m" "gone (cleanup m) = gone m" "\<not> hasCleanup (cleanup m)"
  by (simp_all add: cleanup_def)

lemma set_pending_cleanup:
  "set (pending (cleanup m)) = (if hasCleanup m then cancelRun (runs m) ` set (pending m) else set (pending m))"
  by (simp add: cleanup_def)

text \<open>What is pending was asked for values that the hook depended on at some time.\<close>

lemma step_asked:
  assumes "\<forall>p\<in>set (pending (snd sm)). startedFor p \<in> range deps"
  shows "\<forall>p\<in>set (pending (snd (hookStep eff deps reduce sm ev))). startedFor p \<in> range deps"
proof -
  obtain s m where sm: "sm = (s, m)" by (cases sm)
  have c: "\<forall>p\<in>set (pending (cleanup m)). startedFor p \<in> range deps"
    using assms sm by (auto simp: set_pending_cleanup)
  show ?thesis
  proof (cases ev)
    case (Settle k e)
    have "set (pending (fst (settle k e m))) \<subseteq> set (pending m)"
      by (auto simp: settle_def dest: in_set_takeD in_set_dropD)
    then show ?thesis using assms sm Settle by (cases "settle k e m") auto
  qed (use assms sm c in \<open>auto simp: flush_def unmount_def Let_def split: sum.split option.splits\<close>)
qed

lemma run_asked:
  assumes "hookRun eff deps reduce evs s0 = (s, m)" "p \<in> set (pending m)"
  shows "startedFor p \<in> range deps"
proof -
  have "\<forall>p\<in>set (pending (snd (foldl (hookStep eff deps reduce) sm evs))). startedFor p \<in> range deps"
    if "\<forall>p\<in>set (pending (snd sm)). startedFor p \<in> range deps" for sm
    using that
  proof (induction evs arbitrary: sm)
    case (Cons ev evs)
    show ?case using Cons.IH [OF step_asked [OF Cons.prems]] by simp
  qed simp
  from this [of "(s0, mount)"] show ?thesis using assms by (simp add: hookRun_def mount_def)
qed

section \<open>Bodies with a cleanup\<close>

text \<open>A promise that is heard belongs to the last run, which ran for the values that are the last dependencies.\<close>

definition heard_is_last :: "('d, 'e, 'a) effect \<Rightarrow> ('d, 'e, 'a) mounted \<Rightarrow> bool" where
  "heard_is_last eff m \<longleftrightarrow> (\<forall>p \<in> set (pending m). \<not> cancelled p \<longrightarrow>
     startedBy p = runs m \<and> lastDeps m = Some (startedFor p) \<and> hasCleanup m \<and>
     (\<exists>r. eff (startedFor p) = Inr r \<and> whenAnswered r = Some (continue_with p)))"

lemma heard_is_lastD:
  "heard_is_last eff m \<Longrightarrow> p \<in> set (pending m) \<Longrightarrow> \<not> cancelled p \<Longrightarrow>
     startedBy p = runs m \<and> lastDeps m = Some (startedFor p) \<and> hasCleanup m \<and>
     (\<exists>r. eff (startedFor p) = Inr r \<and> whenAnswered r = Some (continue_with p))"
  unfolding heard_is_last_def by blast

lemma heard_is_lastI:
  "(\<And>p. p \<in> set (pending m) \<Longrightarrow> \<not> cancelled p \<Longrightarrow>
     startedBy p = runs m \<and> lastDeps m = Some (startedFor p) \<and> hasCleanup m \<and>
     (\<exists>r. eff (startedFor p) = Inr r \<and> whenAnswered r = Some (continue_with p))) \<Longrightarrow> heard_is_last eff m"
  unfolding heard_is_last_def by blast

text \<open>Nothing is pending that would be heard, so \<open>holds\<close> is true of the last dependencies.\<close>

definition settled_for :: "('s \<Rightarrow> 'd \<Rightarrow> bool) \<Rightarrow> 's \<times> ('d, 'e, 'a) mounted \<Rightarrow> bool" where
  "settled_for holds sm \<longleftrightarrow>
     \<not> gone (snd sm) \<longrightarrow> (\<forall>p\<in>set (pending (snd sm)). cancelled p) \<longrightarrow>
     (\<forall>d. lastDeps (snd sm) = Some d \<longrightarrow> holds (fst sm) d)"

locale cancelling =
  fixes eff :: "('d, 'e, 'a) effect"
  assumes pending_cleans_up: "eff d = Inr r \<Longrightarrow> whenAnswered r \<noteq> None \<Longrightarrow> cleansUp r"
begin

lemma mount_heard: "heard_is_last eff mount"
  by (rule heard_is_lastI) (simp add: mount_def)

lemma cleanup_silences:
  assumes "heard_is_last eff m" "p \<in> set (pending (cleanup m))"
  shows "cancelled p"
proof (cases "hasCleanup m")
  case True
  then obtain q where "q \<in> set (pending m)" "p = cancelRun (runs m) q"
    using assms(2) by (auto simp: set_pending_cleanup)
  then show ?thesis using heard_is_lastD [OF assms(1)] by (cases "cancelled q") simp_all
next
  case False
  then show ?thesis using assms(2) heard_is_lastD [OF assms(1)] by (auto simp: set_pending_cleanup)
qed

lemma unmount_heard: "heard_is_last eff m \<Longrightarrow> heard_is_last eff (unmount (cleanup m))"
  by (rule heard_is_lastI) (use cleanup_silences in \<open>auto simp: unmount_def\<close>)

lemma flush_heard:
  assumes inv: "heard_is_last eff m" and m': "flush eff d m = (m', as)"
  shows "heard_is_last eff m'"
proof (cases "gone m \<or> lastDeps m = Some d")
  case True
  then show ?thesis using inv m' by (auto simp: flush_def)
next
  case False
  show ?thesis
  proof (cases "eff d")
    case (Inl e)
    then have "m' = unmount (cleanup m)" using False m' by (simp add: flush_def Let_def)
    then show ?thesis using inv by (simp add: unmount_heard)
  next
    case (Inr r)
    then have "m' = (cleanup m)\<lparr>runs := Suc (runs m), lastDeps := Some d, hasCleanup := cleansUp r,
        pending := pending (cleanup m) @ (case whenAnswered r of None \<Rightarrow> []
          | Some f \<Rightarrow> [\<lparr>startedBy = Suc (runs m), startedFor = d, cancelled = False, continue_with = f\<rparr>])\<rparr>"
      using False m' by (auto cong: option.case_cong simp: flush_def Let_def)
    then show ?thesis
      using cleanup_silences [OF inv] pending_cleans_up [OF Inr] Inr
      by (intro heard_is_lastI) (auto split: option.splits)
  qed
qed

lemma settle_heard:
  assumes inv: "heard_is_last eff m" and m': "settle k e m = (m', as)"
  shows "heard_is_last eff m'"
proof (rule heard_is_lastI)
  fix p
  assume "p \<in> set (pending m')" "\<not> cancelled p"
  moreover from this have "p \<in> set (pending m)"
    using m' by (auto simp: settle_def split: if_splits dest: in_set_takeD in_set_dropD)
  moreover have "runs m' = runs m" "lastDeps m' = lastDeps m" "hasCleanup m' = hasCleanup m"
    using m' by (auto simp: settle_def split: if_splits)
  ultimately show "startedBy p = runs m' \<and> lastDeps m' = Some (startedFor p) \<and> hasCleanup m' \<and>
      (\<exists>r. eff (startedFor p) = Inr r \<and> whenAnswered r = Some (continue_with p))"
    using heard_is_lastD [OF inv] by simp
qed

lemma step_heard: "heard_is_last eff (snd sm) \<Longrightarrow> heard_is_last eff (snd (hookStep eff deps reduce sm ev))"
  by (cases sm; cases ev)
    (auto split: prod.splits intro: flush_heard settle_heard unmount_heard)

lemma run_heard: "heard_is_last eff (snd (hookRun eff deps reduce evs s))"
proof -
  have "heard_is_last eff (snd sm) \<Longrightarrow> heard_is_last eff (snd (foldl (hookStep eff deps reduce) sm evs))" for sm
    by (induction evs arbitrary: sm) (simp_all only: foldl.simps step_heard)
  then show ?thesis by (simp add: hookRun_def mount_heard)
qed

text \<open>Whatever happened before, what an answer dispatches is what the run for the last dependencies makes of it.\<close>

lemma answer_is_last:
  assumes "hookRun eff deps reduce evs s = (s', m)" "settle k e m = (m', as)" "as \<noteq> []"
  obtains d r f where "lastDeps m = Some d" "eff d = Inr r" "whenAnswered r = Some f" "as = f e"
proof -
  have inv: "heard_is_last eff m" using run_heard [of deps reduce evs s] assms(1) by simp
  have k: "k < length (pending m)" "\<not> cancelled (pending m ! k)" "as = continue_with (pending m ! k) e"
    using assms(2,3) by (auto simp: settle_def split: if_splits)
  show ?thesis using heard_is_lastD [OF inv nth_mem [OF k(1)] k(2)] k(3) that by blast
qed

text \<open>
  If every run, at once or when it is answered, makes \<open>holds\<close> true of its dependencies, and what comes from outside
  keeps it, then it is true whenever nothing is pending that would be heard.
\<close>

lemma step_settled:
  assumes now: "\<And>s d r. eff d = Inr r \<Longrightarrow> whenAnswered r = None \<Longrightarrow> holds (foldl reduce s (atOnce r)) d"
    and later: "\<And>s d r f e. eff d = Inr r \<Longrightarrow> whenAnswered r = Some f \<Longrightarrow> holds (foldl reduce s (f e)) d"
    and outside: "\<And>f s d. ev = Outside f \<Longrightarrow> holds s d \<Longrightarrow> holds (f s) d"
    and heard: "heard_is_last eff m" and inv: "settled_for holds (s, m)"
  shows "settled_for holds (hookStep eff deps reduce (s, m) ev)"
proof (cases ev)
  case (Outside f)
  then show ?thesis using inv outside by (auto simp: settled_for_def)
next
  case Unmount
  then show ?thesis by (simp add: settled_for_def unmount_def)
next
  case Flush
  show ?thesis
  proof (cases "gone m \<or> lastDeps m = Some (deps s)")
    case True
    then show ?thesis using Flush inv by (simp add: flush_def)
  next
    case False
    show ?thesis
    proof (cases "eff (deps s)")
      case (Inl e)
      then show ?thesis using Flush False by (simp add: flush_def Let_def settled_for_def unmount_def)
    next
      case (Inr r)
      show ?thesis
      proof (cases "whenAnswered r")
        case None
        then show ?thesis using Flush False Inr now [OF Inr None] by (simp add: flush_def Let_def settled_for_def)
      next
        case (Some f)
        then show ?thesis using Flush False Inr by (simp add: flush_def Let_def settled_for_def)
      qed
    qed
  qed
next
  case (Settle k e)
  show ?thesis
  proof (cases "k < length (pending m)")
    case False
    then show ?thesis using Settle inv by (simp add: settle_def)
  next
    case True
    let ?p = "pending m ! k" and ?rest = "take k (pending m) @ drop (Suc k) (pending m)"
    have p: "?p \<in> set (pending m)" using True by simp
    show ?thesis
    proof (cases "cancelled ?p")
      case c: True
      have "cancelled q" if "\<forall>q\<in>set ?rest. cancelled q" "q \<in> set (pending m)" for q
      proof -
        have "set (pending m) = insert ?p (set ?rest)"
          using arg_cong [OF id_take_nth_drop [OF True], of set] by simp
        then show ?thesis using that c by auto
      qed
      then show ?thesis using Settle inv c True by (auto simp: settle_def settled_for_def)
    next
      case c: False
      then obtain r where "lastDeps m = Some (startedFor ?p)" "eff (startedFor ?p) = Inr r"
        "whenAnswered r = Some (continue_with ?p)"
        using heard_is_lastD [OF heard p] by blast
      then show ?thesis using Settle c True later by (simp add: settle_def settled_for_def)
    qed
  qed
qed

lemma run_settled:
  fixes evs :: "('s, 'e) hook_event list" and deps :: "'s \<Rightarrow> 'd" and reduce :: "'s \<Rightarrow> 'a \<Rightarrow> 's"
  assumes now: "\<And>s d r. eff d = Inr r \<Longrightarrow> whenAnswered r = None \<Longrightarrow> holds (foldl reduce s (atOnce r)) d"
    and later: "\<And>s d r f e. eff d = Inr r \<Longrightarrow> whenAnswered r = Some f \<Longrightarrow> holds (foldl reduce s (f e)) d"
    and outside: "\<And>f s d. Outside f \<in> set evs \<Longrightarrow> holds s d \<Longrightarrow> holds (f s) d"
    and run: "hookRun eff deps reduce evs s0 = (s, m)"
    and quiet: "\<not> gone m" "\<forall>p\<in>set (pending m). cancelled p" "lastDeps m = Some d"
  shows "holds s d"
proof -
  have "settled_for holds (foldl (hookStep eff deps reduce) sm evs')"
    if "set evs' \<subseteq> set evs" "heard_is_last eff (snd sm)" "settled_for holds sm" for sm evs'
    using that
  proof (induction evs' arbitrary: sm)
    case (Cons ev evs')
    obtain s m where sm: "sm = (s, m)" by (cases sm)
    have "settled_for holds (hookStep eff deps reduce (s, m) ev)"
      by (rule step_settled [where holds = holds and reduce = reduce]) (use now later Cons.prems outside sm in auto)
    then show ?case
      using Cons.IH [of "hookStep eff deps reduce sm ev"] Cons.prems step_heard [OF Cons.prems(2)] sm by simp
  qed simp
  from this [of evs "(s0, mount)"] have "settled_for holds (s, m)"
    using run mount_heard by (simp add: hookRun_def settled_for_def mount_def)
  then show ?thesis using quiet by (simp add: settled_for_def)
qed

end

section \<open>Bodies without a cleanup\<close>

text \<open>Nothing is ever cancelled: the answers to all questions are heard, in the order in which they come.\<close>

definition all_heard :: "('d, 'e, 'a) effect \<Rightarrow> ('d, 'e, 'a) mounted \<Rightarrow> bool" where
  "all_heard eff m \<longleftrightarrow> \<not> hasCleanup m \<and> (\<forall>p\<in>set (pending m). \<not> cancelled p \<and>
     (\<exists>r. eff (startedFor p) = Inr r \<and> whenAnswered r = Some (continue_with p)))"

locale lasting =
  fixes eff :: "('d, 'e, 'a) effect"
  assumes no_cleanup: "eff d = Inr r \<Longrightarrow> \<not> cleansUp r"
begin

lemma mount_all_heard: "all_heard eff mount"
  by (simp add: mount_def all_heard_def)

lemma unmount_all_heard: "all_heard eff m \<Longrightarrow> all_heard eff (unmount m)"
  by (simp add: unmount_def all_heard_def)

lemma cleanup_none: "all_heard eff m \<Longrightarrow> cleanup m = m"
  by (simp add: all_heard_def cleanup_def)

lemma flush_all_heard:
  assumes inv: "all_heard eff m" and m': "flush eff d m = (m', as)"
  shows "all_heard eff m'"
proof (cases "gone m \<or> lastDeps m = Some d")
  case True
  then show ?thesis using inv m' by (auto simp: flush_def)
next
  case False
  note [simp] = cleanup_none [OF inv]
  show ?thesis
  proof (cases "eff d")
    case (Inl e)
    then have "m' = unmount m" using False m' by (simp add: flush_def)
    then show ?thesis using inv by (simp add: unmount_all_heard)
  next
    case (Inr r)
    then show ?thesis
      using False m' inv no_cleanup [OF Inr]
      by (cases "whenAnswered r") (auto simp: flush_def Let_def all_heard_def)
  qed
qed

lemma settle_all_heard:
  assumes inv: "all_heard eff m" and m': "settle k e m = (m', as)"
  shows "all_heard eff m'"
proof -
  have "set (pending m') \<subseteq> set (pending m)" "hasCleanup m' = hasCleanup m"
    using m' by (auto simp: settle_def split: if_splits dest: in_set_takeD in_set_dropD)
  then show ?thesis using inv unfolding all_heard_def by blast
qed

lemma step_all_heard: "all_heard eff (snd sm) \<Longrightarrow> all_heard eff (snd (hookStep eff deps reduce sm ev))"
  by (cases sm; cases ev)
    (auto split: prod.splits simp: cleanup_none intro: flush_all_heard settle_all_heard unmount_all_heard)

lemma run_all_heard: "all_heard eff (snd (hookRun eff deps reduce evs s))"
proof -
  have "all_heard eff (snd (foldl (hookStep eff deps reduce) sm evs))" if "all_heard eff (snd sm)" for sm
    using that
  proof (induction evs arbitrary: sm)
    case (Cons ev evs)
    show ?case using Cons.IH [OF step_all_heard [OF Cons.prems]] by simp
  qed simp
  from this [of "(s, mount)"] show ?thesis by (simp add: hookRun_def mount_all_heard)
qed

lemma every_answer_heard:
  assumes "hookRun eff deps reduce evs s0 = (s, m)" "k < length (pending m)"
  obtains s1 r f where "eff (deps s1) = Inr r" "whenAnswered r = Some f" "snd (settle k e m) = f e"
proof -
  have "all_heard eff m" using run_all_heard [of deps reduce evs s0] assms(1) by simp
  then obtain r where r: "\<not> cancelled (pending m ! k)" "eff (startedFor (pending m ! k)) = Inr r"
      "whenAnswered r = Some (continue_with (pending m ! k))"
    using nth_mem [OF assms(2)] unfolding all_heard_def by blast
  have "snd (settle k e m) = continue_with (pending m ! k) e" using assms(2) r(1) by (simp add: settle_def)
  moreover obtain s1 where "startedFor (pending m ! k) = deps s1"
    using run_asked [OF assms(1) nth_mem [OF assms(2)]] by blast
  ultimately show ?thesis using that r(2,3) by metis
qed

end

end
