(* ===== verification/WalletHooks.thy ===== *)
theory WalletHooks
  imports Effects Pages
begin

text \<open>
  Hooks of \<open>bridge_ui/src/hooks/\<close> that look at the wallets: which of them is ready for a chain
  (\<open>useIsWalletReady.ts\<close>), the address on the target chain (\<open>useSyncTargetAddress.ts\<close>), and the allowance
  of the token bridge with the click that approves more (\<open>useAllowance.ts\<close>).
\<close>

section \<open>The wallets\<close>

text \<open>What the contexts of the wallets give; the objects of the Ethereum provider and signer are compared by identity, a
  number. The Terra wallet is its address.\<close>

record 'k wallets =
  ew_provider :: "nat option"
  ew_chainId :: "nat option"
  ew_signer :: "nat option"
  ew_signerAddress :: "string option"
  solPK :: "'k option"
  terraWalletAddress :: "string option"

text \<open>The networks and guardians at the moment when a question is answered, and the time.\<close>

record ('k, 'g, 'a) networks =
  nw_now :: string
  nw_views :: eth_views
  nw_connection :: "'k connection"
  nw_query :: contract_query
  nw_node :: "('g, 'a) terra_node"

section \<open>\<open>useIsWalletReady\<close>\<close>

record wallet_status =
  isReady :: bool
  statusMessage :: string
  ws_walletAddress :: "string option"

definition createWalletStatus :: "bool \<Rightarrow> string option \<Rightarrow> string option \<Rightarrow> wallet_status" where
  "createWalletStatus ready msg address =
     \<lparr>isReady = ready, statusMessage = (case msg of None \<Rightarrow> '''' | Some m \<Rightarrow> m), ws_walletAddress = address\<rparr>"

definition clusterName :: "cluster \<Rightarrow> string" where
  "clusterName c = byCluster c ''mainnet'' ''testnet'' ''devnet''"

definition templateNumber :: "nat option \<Rightarrow> string" where
  "templateNumber v = (case v of None \<Rightarrow> ''undefined'' | Some n \<Rightarrow> decimal n)"

text \<open>The requests to switch networks that are sent to the provider are the chain ids asked for; an id of 0 or an
  undefined one is falsy.\<close>

definition forceNetworkSwitch :: "cluster \<Rightarrow> 'k wallets \<Rightarrow> ChainId \<Rightarrow> nat list" where
  "forceNetworkSwitch c w chainId =
     (case getEvmChainId c chainId of
        Some n \<Rightarrow> if ew_provider w \<noteq> None \<and> n \<noteq> 0 \<and> isEVMChain chainId then [n] else []
      | None \<Rightarrow> [])"

definition useIsWalletReady :: "cluster \<Rightarrow> ('k \<Rightarrow> string) \<Rightarrow> bool \<Rightarrow> ChainId \<Rightarrow> 'k wallets \<Rightarrow> wallet_status \<times> nat list" where
  "useIsWalletReady c toString autoSwitch chainId w =
     (let correctEvmNetwork = getEvmChainId c chainId;
          notConnected = (createWalletStatus False (Some ''Wallet not connected'') None, []) in
      if chainId = CHAIN_ID_TERRA \<and> truthy (terraWalletAddress w)
      then (createWalletStatus True None (terraWalletAddress w), [])
      else if chainId = CHAIN_ID_SOLANA \<and> solPK w \<noteq> None
      then (createWalletStatus True None (Some (toString (the (solPK w)))), [])
      else
          if isEVMChain chainId \<and> ew_provider w \<noteq> None \<and> truthy (ew_signerAddress w)
          then if ew_chainId w = correctEvmNetwork
               then (createWalletStatus True None (ew_signerAddress w), [])
               else (createWalletStatus False
                       (Some (''Wallet is not connected to '' @ clusterName c @ ''. Expected Chain ID: '' @ templateNumber correctEvmNetwork))
                       None,
                     if autoSwitch then forceNetworkSwitch c w chainId else [])
          else notConnected)"

section \<open>\<open>useSyncTargetAddress\<close>\<close>

record 'k sync_deps =
  sy_shouldFire :: bool
  sy_targetChain :: ChainId
  sy_signerAddress :: "string option"
  sy_solPK :: "'k option"
  sy_targetAsset :: "string option"
  sy_tokenAccount :: "string option"
  sy_terraWallet :: "string option"
  sy_nft :: bool

text \<open>The values it depends on: of the page, of the wallets. The parsed token account is that of the transfer page also
  for NFTs.\<close>

definition sync_deps_of :: "bool \<Rightarrow> bool \<Rightarrow> ('a, 'b, 'c) root_state \<Rightarrow> 'k wallets \<Rightarrow> 'k sync_deps" where
  "sync_deps_of shouldFire isNft rs w =
     \<lparr>sy_shouldFire = shouldFire,
      sy_targetChain = (if isNft then n_targetChain (nft rs) else targetChain (transfer rs)),
      sy_signerAddress = ew_signerAddress w, sy_solPK = solPK w,
      sy_targetAsset = (if isNft then selectNFTTargetAsset rs else selectTransferTargetAsset rs),
      sy_tokenAccount = map_option parsed_token_account.publicKey (targetParsedTokenAccount (transfer rs)),
      sy_terraWallet = terraWalletAddress w, sy_nft = isNft\<rparr>"

text \<open>An action sets the address of the page. \<open>getAssociatedTokenAddress\<close> of spl-token is a parameter: the bytes of the
  account of a mint and an owner. Where the code of the effect itself throws, the result is \<open>Inl\<close>.\<close>

definition padHex :: "libs \<Rightarrow> bytes result \<Rightarrow> string result" where
  "padHex L m = bindR m (\<lambda>bs. mapR uint8ArrayToHex (zeroPad L bs 32))"

definition setNow :: "string result \<Rightarrow> ('e, string option) effect_run result" where
  "setNow m = mapR (\<lambda>h. \<lparr>atOnce = [Some h], whenAnswered = None, cleansUp = True\<rparr>) m"

definition useSyncTargetAddress :: "libs \<Rightarrow> ('k \<Rightarrow> string) \<Rightarrow> (string \<Rightarrow> 'k \<Rightarrow> bytes result) \<Rightarrow>
    ('k sync_deps, 'e, string option) effect" where
  "useSyncTargetAddress L toString getAssociatedTokenAddress d =
     (if \<not> sy_shouldFire d then Inr noEffect
      else if isEVMChain (sy_targetChain d) \<and> truthy (sy_signerAddress d)
      then setNow (padHex L (arrayify L (the (sy_signerAddress d))))
      else if \<not> sy_nft d \<and> sy_targetChain d = CHAIN_ID_SOLANA \<and> truthy (sy_tokenAccount d)
      then setNow (padHex L (pkToBytes L (the (sy_tokenAccount d))))
      else if sy_targetChain d = CHAIN_ID_SOLANA \<and> sy_solPK d \<noteq> None \<and> truthy (sy_targetAsset d)
      then Inr (case pkToBytes L (the (sy_targetAsset d)) of
             Inl e \<Rightarrow> \<lparr>atOnce = [None], whenAnswered = None, cleansUp = True\<rparr>
           | Inr mint \<Rightarrow>
               \<lparr>atOnce = [],
                whenAnswered = Some (\<lambda>_. [case padHex L (getAssociatedTokenAddress (the (sy_targetAsset d)) (the (sy_solPK d))) of
                  Inl e \<Rightarrow> None | Inr h \<Rightarrow> Some h]),
                cleansUp = True\<rparr>)
      else if sy_targetChain d = CHAIN_ID_TERRA \<and> truthy (sy_terraWallet d)
      then setNow (padHex L (canonicalAddress L (the (sy_terraWallet d))))
      else Inr \<lparr>atOnce = [None], whenAnswered = None, cleansUp = True\<rparr>)"

section \<open>\<open>useAllowance\<close>\<close>

record allowance_state =
  allowance :: "nat option"
  isAllowanceFetching :: bool

datatype allowance_action = SetAllowance nat | SetIsAllowanceFetching bool

fun setAllowanceState :: "allowance_state \<Rightarrow> allowance_action \<Rightarrow> allowance_state" where
  "setAllowanceState s (SetAllowance n) = s\<lparr>allowance := Some n\<rparr>"
| "setAllowanceState s (SetIsAllowanceFetching b) = s\<lparr>isAllowanceFetching := b\<rparr>"

record allowance_deps =
  al_chainId :: ChainId
  al_tokenAddress :: "string option"
  al_signer :: "nat option"
  al_isApproveProcessing :: bool

text \<open>The address of a signer is asked from the wallet, \<open>getAddress\<close>. Amounts are \<open>BigInt\<close>s, of which 0 is falsy.\<close>

definition useAllowance_effect :: "('k, 'g, 't) outside \<Rightarrow> (nat \<Rightarrow> string result) \<Rightarrow>
    (allowance_deps, ('k, 'w, 'n) networks, allowance_action) effect" where
  "useAllowance_effect E getAddress d =
     Inr (if isEVMChain (al_chainId d) \<and> truthy (al_tokenAddress d) \<and> al_signer d \<noteq> None \<and> \<not> al_isApproveProcessing d
       then \<lparr>atOnce = [SetIsAllowanceFetching True],
             whenAnswered = Some (\<lambda>N.
               case getAllowanceEth (nw_views N) (getAddress (the (al_signer d)))
                   (getTokenBridgeAddressForChain (o_getAddress E) (o_cluster E) (al_chainId d)) (the (al_tokenAddress d)) of
                 Inr result \<Rightarrow> [SetIsAllowanceFetching False, SetAllowance result]
               | Inl e \<Rightarrow> [SetIsAllowanceFetching False]),
             cleansUp = True\<rparr>
       else \<lparr>atOnce = [], whenAnswered = None, cleansUp = True\<rparr>)"

definition sufficientAllowance :: "ChainId \<Rightarrow> bool \<Rightarrow> nat option \<Rightarrow> nat option \<Rightarrow> bool" where
  "sufficientAllowance chainId sourceIsNative allow transferAmount \<longleftrightarrow>
     \<not> isEVMChain chainId \<or> sourceIsNative \<or>
     (case (allow, transferAmount) of (Some a, Some t) \<Rightarrow> a \<noteq> 0 \<and> t \<noteq> 0 \<and> a \<ge> t | _ \<Rightarrow> False)"

text \<open>The promise of \<open>approveAmount\<close> is rejected with nothing, which is \<open>Rejected\<close> of the empty string here.\<close>

definition approveAmount :: "('k, 'g, 't) outside \<Rightarrow> ChainId \<Rightarrow> string option \<Rightarrow> 'r eth_signer option \<Rightarrow> nat \<Rightarrow>
    (transfer_action, 'k, unit) task" where
  "approveAmount E chainId tokenAddress signer amt =
     (case signer of
        Some S \<Rightarrow>
          if isEVMChain chainId \<and> truthy tokenAddress
          then thenT (emitT (Dispatch (SetIsApproving True)))
            (catchT
              (bindT (ethT (approveEth S (getTokenBridgeAddressForChain (o_getAddress E) (o_cluster E) chainId)
                  (the tokenAddress) amt Map.empty)) (\<lambda>_.
                emitT (Dispatch (SetIsApproving False))))
              (\<lambda>e. thenT (emitT (Dispatch (SetIsApproving False))) (liftT (Inl (Rejected '''')))))
          else liftT (Inr ())
      | None \<Rightarrow> liftT (Inr ()))"

section \<open>The send step of the transfer page (\<open>components/Transfer/Send.tsx\<close>)\<close>

record send_view =
  approveButtonNeeded :: bool
  sendIsDisabled :: bool
  sendErrorMessage :: "string option"

text \<open>\<open>err\<close> is the error of the target, \<open>allowanceError\<close> that of the last approval.\<close>

definition isWrongWallet :: "string option \<Rightarrow> string option \<Rightarrow> bool" where
  "isWrongWallet sourceWallet wallet \<longleftrightarrow> truthy sourceWallet \<and> truthy wallet \<and> sourceWallet \<noteq> wallet"

definition firstTruthy :: "string option list \<Rightarrow> string option" where
  "firstTruthy xs = (case filter truthy xs of [] \<Rightarrow> None | x # _ \<Rightarrow> x)"

definition Send :: "ChainId \<Rightarrow> wallet_status \<Rightarrow> string option \<Rightarrow> bool \<Rightarrow> bool \<Rightarrow> allowance_state \<Rightarrow> bool \<Rightarrow> nat option \<Rightarrow>
    string option \<Rightarrow> string option \<Rightarrow> send_view" where
  "Send chain st sourceWallet disabled sourceIsNative al isApproveProcessing sourceAmountParsed err allowanceError =
     (let wrong = isWrongWallet sourceWallet (ws_walletAddress st) in
      \<lparr>approveButtonNeeded = isEVMChain chain \<and> \<not> sufficientAllowance chain sourceIsNative (allowance al) sourceAmountParsed,
       sendIsDisabled = (\<not> isReady st \<or> wrong \<or> disabled \<or> isAllowanceFetching al \<or> isApproveProcessing),
       sendErrorMessage = (if wrong then Some ''A different wallet is connected than in Step 1.''
         else firstTruthy [Some (statusMessage st), err, allowanceError])\<rparr>)"

section \<open>Lemmas\<close>

lemma evm_not: "isEVMChain chain \<Longrightarrow> chain \<noteq> CHAIN_ID_TERRA \<and> chain \<noteq> CHAIN_ID_SOLANA"
  by (auto simp: isEVMChain_def chain_ids)

lemma isReady_iff:
  "isReady (fst (useIsWalletReady c ts a chain w)) \<longleftrightarrow>
     (chain = CHAIN_ID_TERRA \<and> truthy (terraWalletAddress w)) \<or>
     (chain = CHAIN_ID_SOLANA \<and> solPK w \<noteq> None) \<or>
     (isEVMChain chain \<and> ew_provider w \<noteq> None \<and> truthy (ew_signerAddress w) \<and> ew_chainId w = getEvmChainId c chain)"
  using evm_not [of chain] by (auto simp: useIsWalletReady_def createWalletStatus_def Let_def split: if_splits)

lemma ready_switches_nothing:
  "isReady (fst (useIsWalletReady c ts a chain w)) \<Longrightarrow> snd (useIsWalletReady c ts a chain w) = []"
  by (simp add: useIsWalletReady_def createWalletStatus_def Let_def split: if_splits)

lemma ready_wallet:
  "isEVMChain chain \<Longrightarrow> isReady (fst (useIsWalletReady c ts a chain w)) \<Longrightarrow>
     ws_walletAddress (fst (useIsWalletReady c ts a chain w)) = ew_signerAddress w"
  using evm_not [of chain] by (simp add: useIsWalletReady_def createWalletStatus_def Let_def split: if_splits)

interpretation sync: cancelling "useSyncTargetAddress L ts G" for L ts G
  by unfold_locales
    (auto simp: useSyncTargetAddress_def noEffect_def setNow_def mapR_eq_Inr split: if_splits sum.splits)

interpretation allow: cancelling "useAllowance_effect E ga" for E ga
  by unfold_locales (auto simp: useAllowance_effect_def split: if_splits)

lemma does_approveAmount:
  "does (approveAmount E chain token signer amt)
     (\<lambda>ds r. (ds = [] \<and> r = Some (Inr ())) \<or>
             (ds = [SetIsApproving True, SetIsApproving False] \<and> r \<in> {Some (Inr ()), Some (Inl (Rejected ''''))}))"
proof (cases "signer = None \<or> \<not> (isEVMChain chain \<and> truthy token)")
  case True
  then have "approveAmount E chain token signer amt = liftT (Inr ())"
    by (auto simp: approveAmount_def split: option.split)
  then show ?thesis by (simp add: does_liftT)
next
  case False
  then obtain S where "signer = Some S" by (cases signer) simp_all
  with False show ?thesis
    by (simp add: approveAmount_def does_def thenT_emit catchT_def bindT_def ethT_def emitT_def thenT_def liftT_def pureT_def
      split: prod.split option.split sum.split)
qed

lemma evm_configured: "i \<in> set (CHAINS c) \<Longrightarrow> isEVMChain (ci_id i) \<Longrightarrow> \<exists>n. getEvmChainId c (ci_id i) = Some n"
proof -
  assume "i \<in> set (CHAINS c)" and e: "isEVMChain (ci_id i)"
  then have "ci_id i \<in> set (map ci_id (CHAINS c))" by simp
  from bridges_configured [OF _ this, of "\<lambda>s. s"] e show ?thesis by simp
qed

lemma evm_network_determines:
  assumes "i \<in> set (CHAINS c)" "j \<in> set (CHAINS c)" "isEVMChain (ci_id i)" "isEVMChain (ci_id j)"
    and "getEvmChainId c (ci_id i) = getEvmChainId c (ci_id j)"
  shows "i = j"
proof -
  have "ci_id i = ci_id j" using inj_onD [OF evm_networks_distinct assms(5)] assms(1-4) by simp
  then have "Some i = Some j" using CHAINS_BY_ID_entry [OF assms(1)] CHAINS_BY_ID_entry [OF assms(2)] by metis
  then show ?thesis by simp
qed

section \<open>Properties\<close>

text \<open>an Ethereum wallet is ready for an EVM chain that the page offers exactly if it is connected, has an address and
  is on the network of that chain; so it is ready for at most one of them. When it is on another network, the switch
  that is asked for is to the network that makes it ready.\<close>

theorem wallet_ready:
  assumes "i \<in> set (CHAINS c)" "isEVMChain (ci_id i)"
  shows "(isReady (fst (useIsWalletReady c ts a (ci_id i) w)) \<longleftrightarrow>
      ew_provider w \<noteq> None \<and> truthy (ew_signerAddress w) \<and> (\<exists>n. getEvmChainId c (ci_id i) = Some n \<and> ew_chainId w = Some n)) \<and>
    (\<forall>j\<in>set (CHAINS c). isEVMChain (ci_id j) \<and> isReady (fst (useIsWalletReady c ts a (ci_id i) w)) \<and>
      isReady (fst (useIsWalletReady c ts a (ci_id j) w)) \<longrightarrow> j = i) \<and>
    (\<forall>n ns. snd (useIsWalletReady c ts a (ci_id i) w) = n # ns \<longrightarrow>
      ns = [] \<and> \<not> isReady (fst (useIsWalletReady c ts a (ci_id i) w)) \<and>
      isReady (fst (useIsWalletReady c ts a (ci_id i) (w\<lparr>ew_chainId := Some n\<rparr>))))"
proof (intro conjI ballI allI impI)
  note evm_not [OF assms(2)]
  then have ready: "isReady (fst (useIsWalletReady c ts a (ci_id i) w)) \<longleftrightarrow>
      ew_provider w \<noteq> None \<and> truthy (ew_signerAddress w) \<and> (\<exists>n. getEvmChainId c (ci_id i) = Some n \<and> ew_chainId w = Some n)" for w
    using evm_configured [OF assms] assms(2) by (auto simp: isReady_iff)
  show "isReady (fst (useIsWalletReady c ts a (ci_id i) w)) \<longleftrightarrow>
      ew_provider w \<noteq> None \<and> truthy (ew_signerAddress w) \<and> (\<exists>n. getEvmChainId c (ci_id i) = Some n \<and> ew_chainId w = Some n)"
    by (rule ready)
  show "j = i" if "j \<in> set (CHAINS c)" "isEVMChain (ci_id j) \<and> isReady (fst (useIsWalletReady c ts a (ci_id i) w)) \<and>
    isReady (fst (useIsWalletReady c ts a (ci_id j) w))" for j
  proof -
    have "getEvmChainId c (ci_id j) = getEvmChainId c (ci_id i)"
      using that(2) evm_not [OF assms(2)] evm_not [of "ci_id j"] by (auto simp: isReady_iff)
    then show ?thesis using evm_network_determines [OF that(1) assms(1)] that(2) assms(2) by simp
  qed
  fix n ns
  assume s: "snd (useIsWalletReady c ts a (ci_id i) w) = n # ns"
  then show "\<not> isReady (fst (useIsWalletReady c ts a (ci_id i) w))" using ready_switches_nothing by force
  have "ns = []" "getEvmChainId c (ci_id i) = Some n" "ew_provider w \<noteq> None" "truthy (ew_signerAddress w)"
    using s evm_not [OF assms(2)]
    by (auto simp: useIsWalletReady_def forceNetworkSwitch_def Let_def split: option.splits if_splits)
  then show "ns = []" "isReady (fst (useIsWalletReady c ts a (ci_id i) (w\<lparr>ew_chainId := Some n\<rparr>)))"
    using ready [of "w\<lparr>ew_chainId := Some n\<rparr>"] by simp_all
qed

definition demo_wallets :: "string wallets" where
  "demo_wallets = \<lparr>ew_provider = Some 1, ew_chainId = Some 1381, ew_signer = Some 1, ew_signerAddress = Some ''0x01'',
     solPK = None, terraWalletAddress = None\<rparr>"

theorem wallet_ready_witness:
  "isReady (fst (useIsWalletReady Devnet (\<lambda>s. s) False CHAIN_ID_ETH (demo_wallets\<lparr>ew_chainId := Some 1337\<rparr>))) \<and>
   snd (useIsWalletReady Devnet (\<lambda>s. s) True CHAIN_ID_ETH demo_wallets) = [1337] \<and>
   isReady (fst (useIsWalletReady Devnet (\<lambda>s. s) True CHAIN_ID_ETH (demo_wallets\<lparr>ew_chainId := Some 1337\<rparr>)))"
proof -
  let ?i = "\<lparr>ci_id = CHAIN_ID_ETH, ci_name = ''Ethereum'', ci_logo = ''ethIcon''\<rparr>"
  have i: "?i \<in> set (CHAINS Devnet)" "isEVMChain (ci_id ?i)" by (simp_all add: CHAINS_def isEVMChain_def)
  have n: "getEvmChainId Devnet CHAIN_ID_ETH = Some 1337" by (simp add: getEvmChainId_def network_chain_ids)
  have s: "snd (useIsWalletReady Devnet (\<lambda>s. s) True (ci_id ?i) demo_wallets) = [1337]"
    using n by (simp add: useIsWalletReady_def forceNetworkSwitch_def demo_wallets_def chain_ids isEVMChain_def)
  show ?thesis
    using wallet_ready [OF i, of "\<lambda>s. s" False "demo_wallets\<lparr>ew_chainId := Some 1337\<rparr>"]
      wallet_ready [OF i, of "\<lambda>s. s" True demo_wallets] s n
    by (simp add: demo_wallets_def)
qed

text \<open>the address that the page sends to is the one that the SDK computes from the address of the wallet on the
  target chain: the hex form of \<open>nativeToHexString\<close>, for the signer of an EVM chain, the token account on Solana (not
  for NFTs) and the Terra wallet; where the SDK throws, the effect throws.\<close>

theorem sync_agrees_with_sdk:
  assumes "sy_shouldFire d"
    and "(isEVMChain (sy_targetChain d) \<and> address = sy_signerAddress d) \<or>
      (sy_targetChain d = CHAIN_ID_SOLANA \<and> \<not> sy_nft d \<and> address = sy_tokenAccount d) \<or>
      (sy_targetChain d = CHAIN_ID_TERRA \<and> address = sy_terraWallet d \<and> \<not> isNativeDenom (the address))"
    and "truthy address"
  shows "useSyncTargetAddress L ts G d =
    mapR (\<lambda>h. \<lparr>atOnce = [h], whenAnswered = None, cleansUp = True\<rparr>) (nativeToHexString L address (sy_targetChain d))"
proof -
  obtain s where s: "address = Some s" "s \<noteq> ''''" using assms(3) by (cases address) auto
  have m: "setNow (mapR uint8ArrayToHex r) =
      mapR (\<lambda>h. \<lparr>atOnce = [h], whenAnswered = None, cleansUp = True\<rparr>) (mapR (\<lambda>z. Some (uint8ArrayToHex z)) r)" for r :: "bytes result"
    by (cases r) (simp_all add: setNow_def mapR_def)
  have b: "setNow (padHex L r) =
      mapR (\<lambda>h. \<lparr>atOnce = [h], whenAnswered = None, cleansUp = True\<rparr>)
        (bindR r (\<lambda>a. mapR (\<lambda>z. Some (uint8ArrayToHex z)) (zeroPad L a 32)))" for r
    by (cases r) (simp_all add: padHex_def m, simp add: setNow_def mapR_def)
  have st: "CHAIN_ID_SOLANA \<noteq> CHAIN_ID_TERRA" "\<not> isEVMChain CHAIN_ID_TERRA" "\<not> isEVMChain CHAIN_ID_SOLANA"
    "CHAIN_ID_SOLANA \<noteq> 0" "CHAIN_ID_TERRA \<noteq> 0" "\<not> isEVMChain 0"
    by (simp_all add: chain_ids isEVMChain_def)
  from assms(2) consider
      (evm) "isEVMChain (sy_targetChain d)" "sy_signerAddress d = Some s"
    | (sol) "sy_targetChain d = CHAIN_ID_SOLANA" "\<not> sy_nft d" "sy_tokenAccount d = Some s"
    | (terra) "sy_targetChain d = CHAIN_ID_TERRA" "sy_terraWallet d = Some s" "\<not> isNativeDenom s"
    using s(1) by force
  then show ?thesis
  proof cases
    case evm
    then have "sy_targetChain d \<noteq> 0" using st(6) by metis
    then show ?thesis using evm s assms(1) by (simp add: useSyncTargetAddress_def nativeToHexString_def b)
  next
    case sol
    then show ?thesis using s assms(1) st by (simp add: useSyncTargetAddress_def nativeToHexString_def b)
  next
    case terra
    then show ?thesis using s assms(1) st by (simp add: useSyncTargetAddress_def nativeToHexString_def b)
  qed
qed

definition demo_sync :: "ChainId \<Rightarrow> string sync_deps" where
  "demo_sync c = \<lparr>sy_shouldFire = True, sy_targetChain = c, sy_signerAddress = Some ''0x01'', sy_solPK = None,
     sy_targetAsset = None, sy_tokenAccount = None, sy_terraWallet = Some ''terra1me'', sy_nft = False\<rparr>"

theorem sync_agrees_with_sdk_witness:
  "useSyncTargetAddress demo_libs (\<lambda>k. k) (\<lambda>mint owner. Inr [7]) (demo_sync CHAIN_ID_ETH) =
     Inr \<lparr>atOnce = [Some (toHex (replicate 31 0 @ [1]))], whenAnswered = None, cleansUp = True\<rparr>"
  by (subst sync_agrees_with_sdk [of _ "Some ''0x01''"])
    (simp_all add: demo_sync_def isEVMChain_def chain_ids nativeToHexString_def demo_libs_def uint8ArrayToHex_def mapR_def)

text \<open>however the page, the wallets and the answers interleave, the address that an answer sets is that of the
  associated account of the mint and the owner that the effect ran for last: an answer for an earlier target asset, wallet
  or chain sets nothing.\<close>

theorem sync_hears_last:
  assumes "hookRun (useSyncTargetAddress L ts G) deps reduce evs s = (s', m)"
    and "settle k e m = (m', as)" "as \<noteq> []"
  shows "\<exists>d mint owner. lastDeps m = Some d \<and> sy_shouldFire d \<and> sy_targetChain d = CHAIN_ID_SOLANA \<and>
    sy_targetAsset d = Some mint \<and> sy_solPK d = Some owner \<and>
    as = [case padHex L (G mint owner) of Inl _ \<Rightarrow> None | Inr h \<Rightarrow> Some h]"
proof (rule sync.answer_is_last [OF assms])
  fix d r f
  assume d: "lastDeps m = Some d" "useSyncTargetAddress L ts G d = Inr r" "whenAnswered r = Some f" "as = f e"
  then have "sy_shouldFire d" "sy_targetChain d = CHAIN_ID_SOLANA" "sy_solPK d \<noteq> None" "truthy (sy_targetAsset d)"
    "as = [case padHex L (G (the (sy_targetAsset d)) (the (sy_solPK d))) of Inl e \<Rightarrow> None | Inr h \<Rightarrow> Some h]"
    by (auto simp: useSyncTargetAddress_def noEffect_def setNow_def mapR_def split: if_splits sum.splits)
  with d(1) show ?thesis by (cases "sy_targetAsset d"; cases "sy_solPK d") auto
qed

definition demo_ata :: "string sync_deps" where
  "demo_ata = (demo_sync CHAIN_ID_SOLANA)\<lparr>sy_solPK := Some ''owner'', sy_targetAsset := Some (toHex (replicate 32 2))\<rparr>"

theorem sync_hears_last_witness:
  "\<exists>m m' as. hookRun (useSyncTargetAddress demo_libs (\<lambda>k. k) (\<lambda>mint owner. Inr [7])) (\<lambda>d. d) (\<lambda>d a. d) [Flush] demo_ata
       = (demo_ata, m) \<and> settle 0 () m = (m', as) \<and> as = [Some (toHex (replicate 31 0 @ [7]))]"
proof -
  let ?eff = "useSyncTargetAddress demo_libs (\<lambda>k. k) (\<lambda>mint owner. Inr [7])"
  have p: "pkToBytes demo_libs (toHex (replicate 32 2)) = Inr (replicate 32 2)"
    by (simp add: demo_libs_def)
  have "toHex (replicate 32 2) \<noteq> []" by (metis length_toHex length_replicate list.size(3) mult_eq_0_iff zero_neq_numeral)
  with p obtain m m' as where r: "hookRun ?eff (\<lambda>d. d) (\<lambda>d a. d) [Flush] demo_ata = (demo_ata, m)"
    "settle 0 () m = (m', as)" "as \<noteq> []"
    by (simp add: hookRun_def mount_def flush_def settle_def cleanup_def demo_ata_def demo_sync_def useSyncTargetAddress_def
      chain_ids isEVMChain_def)
  from sync_hears_last [OF r] have "as = [Some (toHex (replicate 31 0 @ [7]))]"
    by (auto simp: padHex_def demo_libs_def uint8ArrayToHex_def)
  with r show ?thesis by blast
qed

text \<open>however the page and the answers interleave, an answer about the allowance ends the fetching and sets the
  allowance of the token, signer and chain that the effect ran for last, in the contract as it is then; so the button to
  transfer is then offered exactly if that allowance covers the amount.\<close>

theorem allowance_hears_last:
  assumes "hookRun (useAllowance_effect E ga) deps reduce evs s = (s', m)"
    and "settle k N m = (m', as)" "as \<noteq> []"
  shows "\<exists>d token sg. lastDeps m = Some d \<and> isEVMChain (al_chainId d) \<and> al_tokenAddress d = Some token \<and>
    al_signer d = Some sg \<and> \<not> isAllowanceFetching (foldl setAllowanceState al as) \<and>
    (\<forall>n. getAllowanceEth (nw_views N) (ga sg)
        (getTokenBridgeAddressForChain (o_getAddress E) (o_cluster E) (al_chainId d)) token = Inr n \<longrightarrow>
      allowance (foldl setAllowanceState al as) = Some n \<and>
      (\<forall>t st w dis ap err aerr. 0 < t \<longrightarrow>
        (approveButtonNeeded (Send (al_chainId d) st w dis False (foldl setAllowanceState al as) ap (Some t) err aerr) \<longleftrightarrow> n < t)))"
proof (rule allow.answer_is_last [OF assms])
  fix d r f
  assume d: "lastDeps m = Some d" "useAllowance_effect E ga d = Inr r" "whenAnswered r = Some f" "as = f N"
  then have c: "isEVMChain (al_chainId d)" "truthy (al_tokenAddress d)" "al_signer d \<noteq> None"
    by (auto simp: useAllowance_effect_def split: if_splits)
  then obtain token sg where t: "al_tokenAddress d = Some token" "al_signer d = Some sg"
    by (cases "al_tokenAddress d"; cases "al_signer d") auto
  then have "as = (case getAllowanceEth (nw_views N) (ga sg)
      (getTokenBridgeAddressForChain (o_getAddress E) (o_cluster E) (al_chainId d)) token of
      Inr result \<Rightarrow> [SetIsAllowanceFetching False, SetAllowance result] | Inl e \<Rightarrow> [SetIsAllowanceFetching False])"
    using d c by (auto simp: useAllowance_effect_def split: if_splits)
  then show ?thesis
    using d(1) c(1) t by (intro exI [of _ d] exI [of _ token] exI [of _ sg])
      (auto simp: Send_def Let_def sufficientAllowance_def split: sum.splits)
qed

definition demo_networks :: "(string, unit, unit) networks" where
  "demo_networks = \<lparr>nw_now = ''now'', nw_views = demo_views\<lparr>v_allowance := (\<lambda>t a b. Inr 5)\<rparr>, nw_connection = good_connection,
     nw_query = (\<lambda>c q. Inl (Foreign ''no contract'')),
     nw_node = \<lparr>axiosGet = (\<lambda>u. Inr ()), accountInfo = (\<lambda>a. Inr ()), estimateFee = (\<lambda>a ms m fs g. Inr ())\<rparr>\<rparr>"

definition demo_allowance :: allowance_deps where
  "demo_allowance = \<lparr>al_chainId = CHAIN_ID_ETH, al_tokenAddress = Some ''0x02'', al_signer = Some 1, al_isApproveProcessing = False\<rparr>"

theorem allowance_hears_last_witness:
  "\<exists>m m' as. settle 0 demo_networks m = (m', as) \<and>
     hookRun (useAllowance_effect demo_outside (\<lambda>n. Inr ''0x01'')) (\<lambda>d. d) (\<lambda>d a. d) [Flush] demo_allowance = (demo_allowance, m) \<and>
     allowance (foldl setAllowanceState \<lparr>allowance = None, isAllowanceFetching = True\<rparr> as) = Some 5"
proof -
  let ?eff = "useAllowance_effect demo_outside (\<lambda>n. Inr ''0x01'') :: (allowance_deps, (string, unit, unit) networks, allowance_action) effect"
  obtain m m' as where r: "hookRun ?eff (\<lambda>d. d) (\<lambda>d a. d) [Flush] demo_allowance = (demo_allowance, m)"
    "settle 0 demo_networks m = (m', as)" "as \<noteq> []"
    by (simp add: hookRun_def mount_def flush_def settle_def cleanup_def demo_allowance_def useAllowance_effect_def
      chain_ids isEVMChain_def demo_networks_def getAllowanceEth_def)
  moreover have "lastDeps m = Some demo_allowance"
    using r(1) by (auto simp: hookRun_def mount_def flush_def cleanup_def demo_allowance_def useAllowance_effect_def
      chain_ids isEVMChain_def)
  moreover have "getAllowanceEth (nw_views demo_networks) (Inr ''0x01'') b t = Inr 5" for b t
    by (simp add: getAllowanceEth_def demo_networks_def)
  ultimately show ?thesis
    using allowance_hears_last [OF r, of "\<lparr>allowance = None, isAllowanceFetching = True\<rparr>"] by auto
qed

text \<open>The state of the hook with the values it depends on.\<close>

definition allowanceStep :: "allowance_deps \<times> allowance_state \<Rightarrow> allowance_action \<Rightarrow> allowance_deps \<times> allowance_state" where
  "allowanceStep s a = (fst s, setAllowanceState (snd s) a)"

definition allowanceRun where
  "allowanceRun E ga evs d = hookRun (useAllowance_effect E ga) fst allowanceStep evs (d, \<lparr>allowance = None, isAllowanceFetching = False\<rparr>)"

definition asksFor :: "allowance_deps \<Rightarrow> bool" where
  "asksFor d \<longleftrightarrow> isEVMChain (al_chainId d) \<and> truthy (al_tokenAddress d) \<and> al_signer d \<noteq> None \<and> \<not> al_isApproveProcessing d"

definition allowanceAnswer :: "('k, 'g, 't) outside \<Rightarrow> (nat \<Rightarrow> string result) \<Rightarrow> allowance_deps \<Rightarrow> ('k, 'w, 'n) networks \<Rightarrow> nat result" where
  "allowanceAnswer E ga d N = getAllowanceEth (nw_views N) (ga (the (al_signer d)))
     (getTokenBridgeAddressForChain (o_getAddress E) (o_cluster E) (al_chainId d)) (the (al_tokenAddress d))"

lemma useAllowance_asks:
  "useAllowance_effect E ga d = Inr (if asksFor d
     then \<lparr>atOnce = [SetIsAllowanceFetching True],
           whenAnswered = Some (\<lambda>N. case allowanceAnswer E ga d N of
             Inr result \<Rightarrow> [SetIsAllowanceFetching False, SetAllowance result] | Inl e \<Rightarrow> [SetIsAllowanceFetching False]),
           cleansUp = True\<rparr>
     else \<lparr>atOnce = [], whenAnswered = None, cleansUp = True\<rparr>)"
  unfolding useAllowance_effect_def asksFor_def allowanceAnswer_def by (rule refl)

text \<open>what the hook does not take back. The allowance that was read for one token stays when the question for the
  next one fails, and then decides which button the page shows for the new token. A question that is cancelled by
  values for which nothing is asked leaves the hook fetching for good, and with it the button disabled.\<close>

theorem allowance_left_over:
  assumes d: "asksFor d" "d' \<noteq> d" and first: "allowanceAnswer E ga d N = Inr n"
  shows "(asksFor d' \<and> allowanceAnswer E ga d' N' = Inl e \<longrightarrow>
      (let al = snd (fst (allowanceRun E ga [Flush, Settle 0 N, Outside (\<lambda>s. (d', snd s)), Flush, Settle 0 N'] d)) in
       al = \<lparr>allowance = Some n, isAllowanceFetching = False\<rparr> \<and>
       (0 < t \<longrightarrow> (approveButtonNeeded (Send (al_chainId d') st w dis False al False (Some t) err aerr) \<longleftrightarrow> n < t)))) \<and>
    (\<not> asksFor d' \<longrightarrow>
      (let al = snd (fst (allowanceRun E ga [Flush, Outside (\<lambda>s. (d', snd s)), Flush, Settle 0 N] d)) in
       al = \<lparr>allowance = None, isAllowanceFetching = True\<rparr> \<and>
       sendIsDisabled (Send chain st w dis native al False amt err aerr) \<and>
       pending (snd (allowanceRun E ga [Flush, Outside (\<lambda>s. (d', snd s)), Flush, Settle 0 N] d)) = []))"
proof (intro conjI impI)
  assume d': "asksFor d' \<and> allowanceAnswer E ga d' N' = Inl e"
  then have "snd (fst (allowanceRun E ga [Flush, Settle 0 N, Outside (\<lambda>s. (d', snd s)), Flush, Settle 0 N'] d)) =
      \<lparr>allowance = Some n, isAllowanceFetching = False\<rparr>"
    using assms
    by (auto simp: allowanceRun_def hookRun_def mount_def flush_def settle_def cleanup_def useAllowance_asks allowanceStep_def)
  moreover have "isEVMChain (al_chainId d')" using d' by (simp add: asksFor_def)
  ultimately show "let al = snd (fst (allowanceRun E ga [Flush, Settle 0 N, Outside (\<lambda>s. (d', snd s)), Flush, Settle 0 N'] d)) in
       al = \<lparr>allowance = Some n, isAllowanceFetching = False\<rparr> \<and>
       (0 < t \<longrightarrow> (approveButtonNeeded (Send (al_chainId d') st w dis False al False (Some t) err aerr) \<longleftrightarrow> n < t))"
    by (auto simp: Send_def Let_def sufficientAllowance_def)
next
  assume "\<not> asksFor d'"
  then show "let al = snd (fst (allowanceRun E ga [Flush, Outside (\<lambda>s. (d', snd s)), Flush, Settle 0 N] d)) in
       al = \<lparr>allowance = None, isAllowanceFetching = True\<rparr> \<and>
       sendIsDisabled (Send chain st w dis native al False amt err aerr) \<and>
       pending (snd (allowanceRun E ga [Flush, Outside (\<lambda>s. (d', snd s)), Flush, Settle 0 N] d)) = []"
    using assms
    by (auto simp: allowanceRun_def hookRun_def mount_def flush_def settle_def cleanup_def cancelRun_def useAllowance_asks
      allowanceStep_def Send_def)
qed

theorem allowance_left_over_witness:
  "let d' = demo_allowance\<lparr>al_tokenAddress := Some ''0x03''\<rparr>;
       N' = demo_networks\<lparr>nw_views := demo_views\<lparr>v_allowance := (\<lambda>t a b. Inl (Foreign ''timeout''))\<rparr>\<rparr> in
   allowance (snd (fst (allowanceRun demo_outside (\<lambda>n. Inr ''0x01'')
     [Flush, Settle 0 demo_networks, Outside (\<lambda>s. (d', snd s)), Flush, Settle 0 N'] demo_allowance))) = Some 5"
proof -
  have "asksFor demo_allowance" "asksFor (demo_allowance\<lparr>al_tokenAddress := Some ''0x03''\<rparr>)"
    "demo_allowance\<lparr>al_tokenAddress := Some ''0x03''\<rparr> \<noteq> demo_allowance"
    "allowanceAnswer demo_outside (\<lambda>n. Inr ''0x01'') demo_allowance demo_networks = Inr 5"
    "allowanceAnswer demo_outside (\<lambda>n. Inr ''0x01'') (demo_allowance\<lparr>al_tokenAddress := Some ''0x03''\<rparr>)
       (demo_networks\<lparr>nw_views := demo_views\<lparr>v_allowance := (\<lambda>t a b. Inl (Foreign ''timeout''))\<rparr>\<rparr>) = Inl (Foreign ''timeout'')"
    by (simp_all add: asksFor_def demo_allowance_def chain_ids isEVMChain_def allowanceAnswer_def getAllowanceEth_def
      demo_networks_def)
  from allowance_left_over [OF this(1,3,4)] this(2,5) show ?thesis by (simp add: Let_def)
qed

text \<open>a click to approve asks for the contract to approve exactly the amount to the token bridge of the chain, once,
  and marks the page as approving until the answer is there, whatever it is: the page is never left approving by an
  answer, and the promise of the click tells whether the approval failed.\<close>

theorem approve_click:
  assumes "\<not> isApproving s"
  shows "does (approveAmount E chain token signer amt)
      (\<lambda>ds r. \<not> isApproving (foldl (transferReducer now) s ds) \<and> (ds = [] \<or> ds = [SetIsApproving True, SetIsApproving False]) \<and>
        r \<in> {Some (Inr ()), Some (Inl (Rejected ''''))}) \<and>
    (\<exists>cs. ethOf (fst (approveAmount E chain token signer amt tr)) = ethOf tr @ cs \<and>
       (\<forall>a op ov. SendTx a op ov \<in> set cs \<longrightarrow> isEVMChain chain \<and> token = Some a \<and> ov = Map.empty \<and>
         op = OpApprove (getTokenBridgeAddressForChain (o_getAddress E) (o_cluster E) chain) amt) \<and>
       length (filter (\<lambda>c. case c of SendTx a op ov \<Rightarrow> True | _ \<Rightarrow> False) cs) \<le> 1)"
proof
  show "does (approveAmount E chain token signer amt)
      (\<lambda>ds r. \<not> isApproving (foldl (transferReducer now) s ds) \<and> (ds = [] \<or> ds = [SetIsApproving True, SetIsApproving False]) \<and>
        r \<in> {Some (Inr ()), Some (Inl (Rejected ''''))})"
    using assms by (intro does_mono [OF does_approveAmount]) (auto simp: transfer_setIsApproving_def)
  show "\<exists>cs. ethOf (fst (approveAmount E chain token signer amt tr)) = ethOf tr @ cs \<and>
       (\<forall>a op ov. SendTx a op ov \<in> set cs \<longrightarrow> isEVMChain chain \<and> token = Some a \<and> ov = Map.empty \<and>
         op = OpApprove (getTokenBridgeAddressForChain (o_getAddress E) (o_cluster E) chain) amt) \<and>
       length (filter (\<lambda>c. case c of SendTx a op ov \<Rightarrow> True | _ \<Rightarrow> False) cs) \<le> 1"
  proof (cases "signer = None \<or> \<not> (isEVMChain chain \<and> truthy token)")
    case True
    then have "approveAmount E chain token signer amt = liftT (Inr ())"
      by (auto simp: approveAmount_def split: option.split)
    then show ?thesis by (intro exI [of _ "[]"]) (simp add: liftT_def pureT_def)
  next
    case False
    then obtain S t where "signer = Some S" "token = Some t" by (cases signer; cases token) auto
    with False show ?thesis
      by (auto simp: approveAmount_def thenT_emit catchT_def bindT_def ethT_def emitT_def thenT_def liftT_def pureT_def
        approveEth_def sendAndWait_def bindH_def split: sum.split)
  qed
qed

theorem approve_click_witness:
  "does (approveAmount demo_outside CHAIN_ID_ETH (Some ''0x02'') (Some (demo_signer 2)) 7)
     (\<lambda>ds r. \<not> isApproving (foldl (transferReducer ''now'') transfer_initialState ds))"
proof -
  have "\<not> isApproving transfer_initialState" by (simp add: transfer_initialState_def)
  from approve_click [OF this, of demo_outside CHAIN_ID_ETH "Some ''0x02''" "Some (demo_signer 2)" 7 "''now''"]
  show ?thesis by (blast intro: does_mono)
qed

end
