(* ===== verification/AssetHooks.thy ===== *)
theory AssetHooks
  imports WalletHooks HandleTransfer
begin

text \<open>
  Hooks of \<open>bridge_ui/src/hooks/\<close> that ask the chains about assets and transfers: where the asset of the source
  comes from (\<open>useCheckIfWormholeWrapped.ts\<close>), what it is on the target chain (\<open>useFetchTargetAsset.ts\<close>), the same two
  questions for any asset (\<open>useOriginalAsset.ts\<close>, \<open>useFetchForeignAsset.ts\<close>), and whether a transfer has been completed
  (\<open>useGetIsTransferCompleted.ts\<close>). The queries are those of the SDK, to the networks as they are when they answer.
\<close>

section \<open>Wrapped assets\<close>

text \<open>The answers of the three kinds of chain in one type. In the contracts of Terra a chain is a number and an address a
  string; an answer of another type is not modelled (\<open>None\<close>, which is never heard).\<close>

record wormhole_info =
  wf_isWrapped :: bool
  wf_chainId :: ChainId
  wf_assetAddress :: bytes
  wf_tokenId :: "string option"

definition infoOfEth :: "wrapped_info_eth \<Rightarrow> wormhole_info" where
  "infoOfEth i = \<lparr>wf_isWrapped = we_isWrapped i, wf_chainId = we_chainId i, wf_assetAddress = we_assetAddress i,
     wf_tokenId = we_tokenId i\<rparr>"

definition infoOfSol :: "wrapped_info_sol \<Rightarrow> wormhole_info" where
  "infoOfSol i = \<lparr>wf_isWrapped = ws_isWrapped i, wf_chainId = ws_chainId i, wf_assetAddress = ws_assetAddress i,
     wf_tokenId = map_option decimal (ws_tokenId i)\<rparr>"

definition infoOfTerra :: "wrapped_asset \<Rightarrow> wormhole_info option" where
  "infoOfTerra i = (case wa_chainId i of
     Some (JNum c) \<Rightarrow> Some \<lparr>wf_isWrapped = wa_isWrapped i, wf_chainId = c, wf_assetAddress = wa_assetAddress i, wf_tokenId = None\<rparr>
   | _ \<Rightarrow> None)"

definition makeStateSafe :: "wormhole_info \<Rightarrow> wrapped_info" where
  "makeStateSafe info = \<lparr>isWrapped = wf_isWrapped info, wi_chainId = wf_chainId info,
     assetAddress = uint8ArrayToHex (wf_assetAddress info), wi_tokenId = wf_tokenId info\<rparr>"

text \<open>The questions, as the hooks put them; \<open>None\<close> as above. A query of Solana is a run of its own.\<close>

definition originalOnEth :: "('k, 'g, 't) outside \<Rightarrow> bool \<Rightarrow> ChainId \<Rightarrow> string \<Rightarrow> string \<Rightarrow> ('k, 'w, 'n) networks \<Rightarrow>
    wormhole_info result" where
  "originalOnEth E isNft chain asset tid N =
     mapR infoOfEth
       (if isNft
        then nft_getOriginalAssetEth (nw_views N) (o_libs E) (o_arrayifyNumber E)
          (getNFTBridgeAddressForChain (o_getAddress E) (o_cluster E) chain) asset tid chain
        else getOriginalAssetEth (nw_views N) (o_libs E)
          (getTokenBridgeAddressForChain (o_getAddress E) (o_cluster E) chain) asset chain)"

definition originalOnSolana :: "('k, 'g, 't) outside \<Rightarrow> bool \<Rightarrow> string \<Rightarrow> ('k, 'w, 'n) networks \<Rightarrow> wormhole_info result" where
  "originalOnSolana E isNft asset N =
     mapR infoOfSol (snd
       (if isNft
        then nft_getOriginalAssetSol (o_web3 E) (nw_connection N) (o_nftBridge E) (o_libs E) (o_bigNumberFrom E)
          (SOL_NFT_BRIDGE_ADDRESS (o_cluster E)) asset []
        else getOriginalAssetSol (o_web3 E) (nw_connection N) (o_bridge E) (o_libs E)
          (SOL_TOKEN_BRIDGE_ADDRESS (o_cluster E)) asset []))"

definition originalOnTerra :: "('k, 'g, 't) outside \<Rightarrow> string \<Rightarrow> ('k, 'w, 'n) networks \<Rightarrow> wormhole_info option result" where
  "originalOnTerra E asset N = mapR infoOfTerra (getOriginalAssetTerra (o_libs E) (nw_query N) asset)"

section \<open>\<open>useCheckIfWormholeWrapped\<close>\<close>

record check_deps =
  ck_isRecovery :: bool
  ck_sourceChain :: ChainId
  ck_sourceAsset :: "string option"
  ck_provider :: "nat option"
  ck_nft :: bool
  ck_tokenId :: string

definition check_deps_of :: "bool \<Rightarrow> ('a, 'b, 'c) root_state \<Rightarrow> 'k wallets \<Rightarrow> check_deps" where
  "check_deps_of isNft rs w =
     \<lparr>ck_isRecovery = (if isNft then n_isRecovery (nft rs) else isRecovery (transfer rs)),
      ck_sourceChain = (if isNft then n_sourceChain (nft rs) else sourceChain (transfer rs)),
      ck_sourceAsset = (if isNft then map_option mintKey (n_sourceParsedTokenAccount (nft rs))
        else map_option mintKey (sourceParsedTokenAccount (transfer rs))),
      ck_provider = ew_provider w, ck_nft = isNft,
      ck_tokenId = (case n_sourceParsedTokenAccount (nft rs) of None \<Rightarrow> '''' | Some acc \<Rightarrow>
        (case nft_account.tokenId acc of None \<Rightarrow> '''' | Some t \<Rightarrow> t))\<rparr>"

text \<open>An action is the info that is dispatched. An exception of an EVM query leaves the asynchronous function, those of the
  others are caught: nothing is dispatched either way.\<close>

definition useCheckIfWormholeWrapped :: "('k, 'g, 't) outside \<Rightarrow> (check_deps, ('k, 'w, 'n) networks, wrapped_info) effect" where
  "useCheckIfWormholeWrapped E d =
     Inr (if ck_isRecovery d then noEffect
       else if isEVMChain (ck_sourceChain d) \<and> ck_provider d \<noteq> None \<and> truthy (ck_sourceAsset d)
       then \<lparr>atOnce = [], whenAnswered = Some (\<lambda>N.
              case originalOnEth E (ck_nft d) (ck_sourceChain d) (the (ck_sourceAsset d)) (ck_tokenId d) N of
                Inr info \<Rightarrow> [makeStateSafe info] | Inl e \<Rightarrow> []), cleansUp = True\<rparr>
       else if ck_sourceChain d = CHAIN_ID_SOLANA \<and> truthy (ck_sourceAsset d)
       then \<lparr>atOnce = [], whenAnswered = Some (\<lambda>N.
              case originalOnSolana E (ck_nft d) (the (ck_sourceAsset d)) N of
                Inr info \<Rightarrow> [makeStateSafe info] | Inl e \<Rightarrow> []), cleansUp = True\<rparr>
       else if ck_sourceChain d = CHAIN_ID_TERRA \<and> truthy (ck_sourceAsset d)
       then \<lparr>atOnce = [], whenAnswered = Some (\<lambda>N.
              case originalOnTerra E (the (ck_sourceAsset d)) N of
                Inr (Some info) \<Rightarrow> [makeStateSafe info] | _ \<Rightarrow> []), cleansUp = True\<rparr>
       else \<lparr>atOnce = [], whenAnswered = None, cleansUp = True\<rparr>)"

section \<open>\<open>useFetchTargetAsset\<close>\<close>

text \<open>The arguments of the last success, and the values that the effect depends on.\<close>

record target_args =
  ta_isWrapped :: "bool option"
  ta_originChain :: "ChainId option"
  ta_originAsset :: "string option"
  ta_targetChain :: ChainId
  ta_nft :: bool
  ta_tokenId :: string

record target_deps = target_args +
  td_provider :: "nat option"
  td_hasCorrectEvmNetwork :: bool
  td_argsMatch :: bool

definition target_args_of :: "bool \<Rightarrow> ('a, 'b, 'c) root_state \<Rightarrow> target_args" where
  "target_args_of isNft rs =
     \<lparr>ta_isWrapped = (if isNft then n_isSourceAssetWormholeWrapped (nft rs) else isSourceAssetWormholeWrapped (transfer rs)),
      ta_originChain = (if isNft then n_originChain (nft rs) else originChain (transfer rs)),
      ta_originAsset = (if isNft then n_originAsset (nft rs) else originAsset (transfer rs)),
      ta_targetChain = (if isNft then n_targetChain (nft rs) else targetChain (transfer rs)),
      ta_nft = isNft,
      ta_tokenId = (case n_originTokenId (nft rs) of None \<Rightarrow> '''' | Some t \<Rightarrow> t)\<rparr>"

definition target_deps_of :: "cluster \<Rightarrow> bool \<Rightarrow> ('a, 'b, 'c) root_state \<Rightarrow> 'k wallets \<Rightarrow> target_args option \<Rightarrow> target_deps" where
  "target_deps_of c isNft rs w lastSuccessfulArgs =
     (let args = target_args_of isNft rs in
      target_args.extend args
        \<lparr>td_provider = ew_provider w, td_hasCorrectEvmNetwork = (ew_chainId w = getEvmChainId c (ta_targetChain args)),
         td_argsMatch = (lastSuccessfulArgs = Some args)\<rparr>)"

datatype target_action = DispatchTargetAsset "foreign_asset_info data_wrapper" | SetLastSuccessfulArgs "target_args option"

text \<open>\<open>asset !== AddressZero\<close> also holds of null, the answer of the SDK after an exception; \<open>!!asset\<close> does not.\<close>

definition terraText :: "unit + json option \<Rightarrow> string option option" where
  "terraText r = (case r of
     Inl _ \<Rightarrow> Some None | Inr None \<Rightarrow> Some None | Inr (Some JNull) \<Rightarrow> Some None
   | Inr (Some (JStr s)) \<Rightarrow> Some (Some s) | Inr (Some _) \<Rightarrow> None)"

definition targetOnEth :: "('k, 'g, 't) outside \<Rightarrow> 'm target_args_scheme \<Rightarrow> ('k, 'w, 'n) networks \<Rightarrow> foreign_asset_info" where
  "targetOnEth E d N =
     (let asset = (if ta_nft d
        then nft_getForeignAssetEth (nw_views N) (getNFTBridgeAddressForChain (o_getAddress E) (o_cluster E) (ta_targetChain d))
          (the (ta_originChain d)) (hexToUint8Array (the (ta_originAsset d)))
        else getForeignAssetEth (nw_views N) (getTokenBridgeAddressForChain (o_getAddress E) (o_cluster E) (ta_targetChain d))
          (the (ta_originChain d)) (hexToUint8Array (the (ta_originAsset d)))) in
      \<lparr>doesExist = (asset \<noteq> Some AddressZero), fa_address = asset\<rparr>)"

definition targetOnSolana :: "('k, 'g, 't) outside \<Rightarrow> 'm target_args_scheme \<Rightarrow> bytes \<Rightarrow> ('k, 'w, 'n) networks \<Rightarrow>
    foreign_asset_info result" where
  "targetOnSolana E d tid N =
     mapR (\<lambda>asset. \<lparr>doesExist = truthy asset, fa_address = asset\<rparr>)
       (if ta_nft d
        then mapR Some (nft_getForeignAssetSol (o_web3 E) (o_nftBridge E) (SOL_NFT_BRIDGE_ADDRESS (o_cluster E))
          (the (ta_originChain d)) (hexToUint8Array (the (ta_originAsset d))) tid)
        else snd (getForeignAssetSolana (o_web3 E) (nw_connection N) (o_bridge E) (SOL_TOKEN_BRIDGE_ADDRESS (o_cluster E))
          (the (ta_originChain d)) (hexToUint8Array (the (ta_originAsset d))) []))"

definition targetOnTerra :: "('k, 'g, 't) outside \<Rightarrow> 'm target_args_scheme \<Rightarrow> ('k, 'w, 'n) networks \<Rightarrow> foreign_asset_info option" where
  "targetOnTerra E d N =
     map_option (\<lambda>asset. \<lparr>doesExist = truthy asset, fa_address = asset\<rparr>)
       (terraText (getForeignAssetTerra (o_base64 E) (nw_query N) (TERRA_TOKEN_BRIDGE_ADDRESS (o_cluster E))
          (the (ta_originChain d)) (hexToUint8Array (the (ta_originAsset d)))))"

definition undeterminedAsset :: "target_action" where
  "undeterminedAsset = DispatchTargetAsset (errorDataWrapper ''Unable to determine existence of wrapped asset'')"

definition receiveTargetAsset :: "string \<Rightarrow> target_args \<Rightarrow> foreign_asset_info \<Rightarrow> target_action list" where
  "receiveTargetAsset now args info = [DispatchTargetAsset (receiveDataWrapper now info), SetLastSuccessfulArgs (Some args)]"

definition originKnown :: "'m target_args_scheme \<Rightarrow> bool" where
  "originKnown d \<longleftrightarrow> ta_originChain d \<noteq> None \<and> ta_originChain d \<noteq> Some 0 \<and> truthy (ta_originAsset d)"

definition evmTargetReady :: "target_deps \<Rightarrow> bool" where
  "evmTargetReady d \<longleftrightarrow> isEVMChain (ta_targetChain d) \<and> td_provider d \<noteq> None \<and> td_hasCorrectEvmNetwork d"

definition returnsHome :: "'m target_args_scheme \<Rightarrow> bool" where
  "returnsHome d \<longleftrightarrow> ta_isWrapped d = Some True \<and> ta_originChain d = Some (ta_targetChain d)"

text \<open>The conditions on the target chain exclude each other. \<open>now\<close> is the time of the run.\<close>

definition useFetchTargetAsset :: "('k, 'g, 't) outside \<Rightarrow> string \<Rightarrow> (target_deps, ('k, 'w, 'n) networks, target_action) effect" where
  "useFetchTargetAsset E now d =
     Inr (let args = target_args.truncate d; clear = SetLastSuccessfulArgs None;
              fetch = DispatchTargetAsset fetchDataWrapper in
       if td_argsMatch d then noEffect
       else if returnsHome d
       then \<lparr>atOnce = clear # receiveTargetAsset now args
               (let native = hexToNativeString (o_libs E) (ta_originAsset d) (ta_targetChain d) in
                \<lparr>doesExist = True, fa_address = (if truthy native then native else None)\<rparr>),
             whenAnswered = None, cleansUp = False\<rparr>
       else if evmTargetReady d \<and> originKnown d
       then \<lparr>atOnce = [clear, fetch],
             whenAnswered = Some (\<lambda>N. receiveTargetAsset (nw_now N) args (targetOnEth E d N)), cleansUp = True\<rparr>
       else if ta_targetChain d = CHAIN_ID_SOLANA \<and> originKnown d
       then (case if ta_nft d then o_arrayifyNumber E (if ta_tokenId d = '''' then ''0'' else ta_tokenId d) else Inr [] of
           Inl e \<Rightarrow> \<lparr>atOnce = [clear, fetch, undeterminedAsset], whenAnswered = None, cleansUp = True\<rparr>
         | Inr tid \<Rightarrow>
             \<lparr>atOnce = [clear, fetch],
              whenAnswered = Some (\<lambda>N. case targetOnSolana E d tid N of
                Inr info \<Rightarrow> receiveTargetAsset (nw_now N) args info | Inl e \<Rightarrow> [undeterminedAsset]), cleansUp = True\<rparr>)
       else if ta_targetChain d = CHAIN_ID_TERRA \<and> originKnown d
       then \<lparr>atOnce = [clear, fetch],
             whenAnswered = Some (\<lambda>N. case targetOnTerra E d N of
               Some info \<Rightarrow> receiveTargetAsset (nw_now N) args info | None \<Rightarrow> []), cleansUp = True\<rparr>
       else \<lparr>atOnce = [clear], whenAnswered = None, cleansUp = True\<rparr>)"

section \<open>\<open>useOriginalAsset\<close>\<close>

definition invalidForeign :: js_error where
  "invalidForeign = Rejected ''Invalid foreign arguments.''"

text \<open>The promise for tokens is awaited in the \<open>try\<close>, so every exception becomes the same rejection; that for NFTs is
  returned from it, so exceptions of the query reach the caller as they are.\<close>

definition getOriginalAssetToken :: "('k, 'g, 't) outside \<Rightarrow> ChainId \<Rightarrow> string \<Rightarrow> nat option \<Rightarrow> ('k, 'w, 'n) networks \<Rightarrow>
    wormhole_info option result" where
  "getOriginalAssetToken E foreignChain address provider N =
     (case if isEVMChain foreignChain \<and> provider \<noteq> None then mapR Some (originalOnEth E False foreignChain address '''' N)
           else if foreignChain = CHAIN_ID_SOLANA then mapR Some (originalOnSolana E False address N)
           else if foreignChain = CHAIN_ID_TERRA then originalOnTerra E address N
           else Inl invalidForeign of
        Inl e \<Rightarrow> Inl invalidForeign
      | Inr info \<Rightarrow> Inr info)"

definition getOriginalAssetNFT :: "('k, 'g, 't) outside \<Rightarrow> ChainId \<Rightarrow> string \<Rightarrow> string option \<Rightarrow> nat option \<Rightarrow>
    ('k, 'w, 'n) networks \<Rightarrow> wormhole_info option result" where
  "getOriginalAssetNFT E foreignChain address tid provider N =
     (if isEVMChain foreignChain \<and> provider \<noteq> None \<and> truthy tid
      then mapR Some (originalOnEth E True foreignChain address (the tid) N)
      else if foreignChain = CHAIN_ID_SOLANA then mapR Some (originalOnSolana E True address N)
      else Inl invalidForeign)"

definition getOriginalAsset :: "('k, 'g, 't) outside \<Rightarrow> ChainId \<Rightarrow> string \<Rightarrow> bool \<Rightarrow> string option \<Rightarrow> nat option \<Rightarrow>
    ('k, 'w, 'n) networks \<Rightarrow> wormhole_info option result" where
  "getOriginalAsset E foreignChain address isNft tid provider N =
     bindR (if isNft then getOriginalAssetNFT E foreignChain address tid provider N
            else getOriginalAssetToken E foreignChain address provider N) (\<lambda>info.
     case info of
       None \<Rightarrow> Inr None
     | Some i \<Rightarrow>
         let native = uint8ArrayToNative (o_libs E) (wf_assetAddress i) (wf_chainId i) in
         if isEVMChain (wf_chainId i) \<and> native = Some AddressZero then Inl (Error ''Unable to find address.'')
         else if wf_chainId i = CHAIN_ID_SOLANA \<and> native = Some SOLANA_SYSTEM_PROGRAM_ADDRESS
         then Inl (Error ''Unable to find address.'')
         else Inr (Some i))"

record original_args =
  oa_foreignChain :: ChainId
  oa_foreignAddress :: string
  oa_nft :: bool
  oa_tokenId :: "string option"

record original_state =
  os_originAddress :: "string option"
  os_originTokenId :: "string option"
  os_originChain :: "ChainId option"
  os_error :: string
  os_isLoading :: bool
  os_previousArgs :: "original_args option"

definition original_initial :: original_state where
  "original_initial = \<lparr>os_originAddress = None, os_originTokenId = None, os_originChain = None, os_error = '''',
     os_isLoading = False, os_previousArgs = None\<rparr>"

datatype original_action =
    OSetAddress "string option"
  | OSetTokenId "string option"
  | OSetChain "ChainId option"
  | OSetError string
  | OSetLoading bool
  | OSetPreviousArgs "original_args option"

fun setOriginal :: "original_state \<Rightarrow> original_action \<Rightarrow> original_state" where
  "setOriginal s (OSetAddress v) = s\<lparr>os_originAddress := v\<rparr>"
| "setOriginal s (OSetTokenId v) = s\<lparr>os_originTokenId := v\<rparr>"
| "setOriginal s (OSetChain v) = s\<lparr>os_originChain := v\<rparr>"
| "setOriginal s (OSetError v) = s\<lparr>os_error := v\<rparr>"
| "setOriginal s (OSetLoading v) = s\<lparr>os_isLoading := v\<rparr>"
| "setOriginal s (OSetPreviousArgs v) = s\<lparr>os_previousArgs := v\<rparr>"

record original_deps = original_args +
  od_provider :: "nat option"
  od_argumentError :: bool
  od_argsEqual :: bool

definition original_deps_of :: "original_args \<Rightarrow> nat option \<Rightarrow> bool \<Rightarrow> original_state \<Rightarrow> original_deps" where
  "original_deps_of args provider ready s =
     (let argsEqual = (os_previousArgs s = Some args) in
      original_args.extend args
        \<lparr>od_provider = provider,
         od_argumentError = (oa_foreignChain args = 0 \<or> oa_foreignAddress args = '''' \<or>
           (isEVMChain (oa_foreignChain args) \<and> \<not> ready) \<or>
           (isEVMChain (oa_foreignChain args) \<and> oa_nft args \<and> \<not> truthy (oa_tokenId args)) \<or> argsEqual),
         od_argsEqual = argsEqual\<rparr>)"

definition orNull :: "string option \<Rightarrow> string option" where
  "orNull v = (if truthy v then v else None)"

definition originalAnswer :: "('k, 'g, 't) outside \<Rightarrow> original_deps \<Rightarrow> ('k, 'w, 'n) networks \<Rightarrow> original_action list" where
  "originalAnswer E d N =
     (case getOriginalAsset E (oa_foreignChain d) (oa_foreignAddress d) (oa_nft d) (oa_tokenId d) (od_provider d) N of
        Inr (Some result) \<Rightarrow>
          [OSetLoading False, OSetPreviousArgs (Some (original_args.truncate d)),
           OSetAddress (orNull (hexToNativeString (o_libs E) (Some (uint8ArrayToHex (wf_assetAddress result))) (wf_chainId result))),
           OSetTokenId (orNull (wf_tokenId result)), OSetChain (Some (wf_chainId result))]
      | Inr None \<Rightarrow> []
      | Inl e \<Rightarrow> [OSetLoading False, OSetError ''Unable to determine original asset.''])"

text \<open>The variable \<open>cancelled\<close> is declared but no cleanup function is returned.\<close>

definition useOriginalAsset :: "('k, 'g, 't) outside \<Rightarrow> (original_deps, ('k, 'w, 'n) networks, original_action) effect" where
  "useOriginalAsset E d =
     Inr (let reset = (if od_argsEqual d then []
            else [OSetError '''', OSetAddress None, OSetTokenId None, OSetChain None, OSetPreviousArgs None]) in
       if od_argumentError d then \<lparr>atOnce = reset, whenAnswered = None, cleansUp = False\<rparr>
       else \<lparr>atOnce = reset @ [OSetLoading True], whenAnswered = Some (originalAnswer E d), cleansUp = False\<rparr>)"

record original_asset_info =
  oi_originChain :: "ChainId option"
  oi_originAddress :: "string option"
  oi_originTokenId :: "string option"

definition originalOutput :: "original_state \<Rightarrow> original_asset_info data_wrapper" where
  "originalOutput s =
     \<lparr>data = (if (os_originChain s \<noteq> None \<and> os_originChain s \<noteq> Some 0) \<or> truthy (os_originAddress s) \<or> truthy (os_originTokenId s)
        then Some \<lparr>oi_originChain = os_originChain s, oi_originAddress = os_originAddress s, oi_originTokenId = os_originTokenId s\<rparr>
        else None),
      dw_error = Some (os_error s), isFetching = os_isLoading s, receivedAt = None\<rparr>"

section \<open>\<open>useFetchForeignAsset\<close>\<close>

record foreign_args =
  ff_originChain :: ChainId
  ff_originAsset :: string
  ff_foreignChain :: ChainId

record foreign_state =
  fs_assetAddress :: "string option"
  fs_doesExist :: "bool option"
  fs_error :: string
  fs_isLoading :: bool
  fs_previousArgs :: "foreign_args option"

definition foreign_initial :: foreign_state where
  "foreign_initial = \<lparr>fs_assetAddress = None, fs_doesExist = None, fs_error = '''', fs_isLoading = False, fs_previousArgs = None\<rparr>"

datatype foreign_action =
    FSetAddress "string option"
  | FSetExists "bool option"
  | FSetError string
  | FSetLoading bool
  | FSetPreviousArgs "foreign_args option"

fun setForeign :: "foreign_state \<Rightarrow> foreign_action \<Rightarrow> foreign_state" where
  "setForeign s (FSetAddress v) = s\<lparr>fs_assetAddress := v\<rparr>"
| "setForeign s (FSetExists v) = s\<lparr>fs_doesExist := v\<rparr>"
| "setForeign s (FSetError v) = s\<lparr>fs_error := v\<rparr>"
| "setForeign s (FSetLoading v) = s\<lparr>fs_isLoading := v\<rparr>"
| "setForeign s (FSetPreviousArgs v) = s\<lparr>fs_previousArgs := v\<rparr>"

text \<open>The hex form of the origin asset, null where the conversion throws.\<close>

record foreign_deps = foreign_args +
  fd_originAssetHex :: "string option"
  fd_provider :: "nat option"
  fd_argumentError :: bool
  fd_argsEqual :: bool

definition foreign_deps_of :: "libs \<Rightarrow> cluster \<Rightarrow> foreign_args \<Rightarrow> 'k wallets \<Rightarrow> bool \<Rightarrow> foreign_state \<Rightarrow> foreign_deps" where
  "foreign_deps_of L c args w ready s =
     (let originAssetHex = (case nativeToHexString L (Some (ff_originAsset args)) (ff_originChain args) of
            Inl e \<Rightarrow> None | Inr h \<Rightarrow> h);
          argsEqual = (fs_previousArgs s = Some args) in
      foreign_args.extend args
        \<lparr>fd_originAssetHex = originAssetHex, fd_provider = ew_provider w,
         fd_argumentError = (ff_originChain args = 0 \<or> ff_originAsset args = '''' \<or> ff_foreignChain args = 0 \<or>
           \<not> truthy originAssetHex \<or> ff_foreignChain args = ff_originChain args \<or>
           (isEVMChain (ff_foreignChain args) \<and> \<not> ready) \<or>
           (isEVMChain (ff_foreignChain args) \<and> ew_chainId w \<noteq> getEvmChainId c (ff_foreignChain args)) \<or> argsEqual),
         fd_argsEqual = argsEqual\<rparr>)"

definition foreignQuery :: "('k, 'g, 't) outside \<Rightarrow> ChainId \<Rightarrow> ChainId \<Rightarrow> bytes \<Rightarrow> ('k, 'w, 'n) networks \<Rightarrow> string option option result" where
  "foreignQuery E foreignChain originCh asset N =
     (if isEVMChain foreignChain
      then Inr (Some (getForeignAssetEth (nw_views N) (getTokenBridgeAddressForChain (o_getAddress E) (o_cluster E) foreignChain)
        originCh asset))
      else if foreignChain = CHAIN_ID_TERRA
      then Inr (terraText (getForeignAssetTerra (o_base64 E) (nw_query N) (TERRA_TOKEN_BRIDGE_ADDRESS (o_cluster E)) originCh asset))
      else mapR Some (snd (getForeignAssetSolana (o_web3 E) (nw_connection N) (o_bridge E) (SOL_TOKEN_BRIDGE_ADDRESS (o_cluster E))
        originCh asset [])))"

definition foreignAnswer :: "('k, 'g, 't) outside \<Rightarrow> foreign_deps \<Rightarrow> ('k, 'w, 'n) networks \<Rightarrow> foreign_action list" where
  "foreignAnswer E d N =
     (let args = FSetPreviousArgs (Some (foreign_args.truncate d)) in
      case foreignQuery E (ff_foreignChain d) (ff_originChain d) (hexToUint8Array (the (fd_originAssetHex d))) N of
        Inr (Some result) \<Rightarrow>
          if truthy result \<and> \<not> (isEVMChain (ff_foreignChain d) \<and> result = Some AddressZero)
          then [args, FSetExists (Some True), FSetLoading False, FSetAddress result]
          else [args, FSetExists (Some False), FSetLoading False, FSetAddress None]
      | Inr None \<Rightarrow> []
      | Inl e \<Rightarrow> [FSetError ''Could not retrieve the foreign asset.'', FSetLoading False])"

text \<open>No cleanup function here either.\<close>

definition useFetchForeignAsset :: "('k, 'g, 't) outside \<Rightarrow> (foreign_deps, ('k, 'w, 'n) networks, foreign_action) effect" where
  "useFetchForeignAsset E d =
     Inr (let reset = (if fd_argsEqual d then []
            else [FSetAddress None, FSetError '''', FSetExists None, FSetPreviousArgs None]) in
       if fd_argumentError d \<or> \<not> truthy (fd_originAssetHex d) then \<lparr>atOnce = reset, whenAnswered = None, cleansUp = False\<rparr>
       else \<lparr>atOnce = reset @ [FSetLoading True], whenAnswered = Some (foreignAnswer E d), cleansUp = False\<rparr>)"

definition foreignOutput :: "foreign_state \<Rightarrow> foreign_asset_info data_wrapper" where
  "foreignOutput s =
     \<lparr>data = (if fs_assetAddress s \<noteq> None \<or> fs_doesExist s \<noteq> None
        then Some \<lparr>doesExist = (fs_doesExist s = Some True), fa_address = fs_assetAddress s\<rparr> else None),
      dw_error = Some (fs_error s), isFetching = fs_isLoading s, receivedAt = None\<rparr>"

section \<open>\<open>useGetIsTransferCompleted\<close>\<close>

record completed_deps =
  cd_shouldFire :: bool
  cd_hasCorrectEvmNetwork :: bool
  cd_targetChain :: ChainId
  cd_targetAddress :: "string option"
  cd_signedVAA :: "bytes option"
  cd_isReady :: bool
  cd_provider :: "nat option"

definition completed_deps_of :: "cluster \<Rightarrow> ('k \<Rightarrow> string) \<Rightarrow> bool \<Rightarrow> ('a, 'b, 'c) root_state \<Rightarrow> 'k wallets \<Rightarrow> completed_deps" where
  "completed_deps_of c toString recoveryOnly rs w =
     (let chain = targetChain (transfer rs) in
      \<lparr>cd_shouldFire = (\<not> recoveryOnly \<or> isRecovery (transfer rs)),
       cd_hasCorrectEvmNetwork = (ew_chainId w = getEvmChainId c chain), cd_targetChain = chain,
       cd_targetAddress = targetAddressHex (transfer rs),
       cd_signedVAA = useTransferSignedVAA (transfer rs),
       cd_isReady = isReady (fst (useIsWalletReady c toString False chain w)), cd_provider = ew_provider w\<rparr>)"

datatype completed_action = CSetCompleted bool | CSetLoading bool

text \<open>The query of each kind of chain. An exception is logged and leaves the transfer as not completed.\<close>

definition completedOn :: "('k, 'g, 't) outside \<Rightarrow> abi \<Rightarrow> ChainId \<Rightarrow> bytes \<Rightarrow> ('k, 'w, 'n) networks \<Rightarrow> bool result" where
  "completedOn E A chain vaa N =
     (let bridge = getTokenBridgeAddressForChain (o_getAddress E) (o_cluster E) chain in
      if isEVMChain chain then getIsTransferCompletedEth (nw_views N) A (o_bridge E) bridge vaa
      else if chain = CHAIN_ID_SOLANA
      then snd (getIsTransferCompletedSolana (o_web3 E) (nw_connection N) (o_bridge E) bridge vaa [])
      else getIsTransferCompletedTerra (o_base64 E) (nw_node N) bridge vaa (TERRA_GAS_PRICES_URL (o_cluster E)))"

definition useGetIsTransferCompleted :: "('k, 'g, 't) outside \<Rightarrow> abi \<Rightarrow>
    (completed_deps, ('k, 'w, 'n) networks, completed_action) effect" where
  "useGetIsTransferCompleted E A d =
     Inr (if \<not> cd_shouldFire d then noEffect
       else if cd_targetChain d \<noteq> 0 \<and> truthy (cd_targetAddress d) \<and> cd_signedVAA d \<noteq> None \<and> cd_isReady d \<and>
         ((isEVMChain (cd_targetChain d) \<and> cd_hasCorrectEvmNetwork d \<and> cd_provider d \<noteq> None) \<or>
          cd_targetChain d = CHAIN_ID_SOLANA \<or> cd_targetChain d = CHAIN_ID_TERRA)
       then \<lparr>atOnce = [CSetLoading True],
             whenAnswered = Some (\<lambda>N. case completedOn E A (cd_targetChain d) (the (cd_signedVAA d)) N of
               Inr b \<Rightarrow> [CSetCompleted b, CSetLoading False] | Inl e \<Rightarrow> [CSetCompleted False, CSetLoading False]),
             cleansUp = True\<rparr>
       else \<lparr>atOnce = [], whenAnswered = None, cleansUp = True\<rparr>)"

section \<open>Lemmas\<close>

interpretation check_wrapped: cancelling "useCheckIfWormholeWrapped E" for E
  by unfold_locales (auto simp: useCheckIfWormholeWrapped_def noEffect_def split: if_splits)

interpretation fetch_target: cancelling "useFetchTargetAsset E now" for E now
  by unfold_locales (auto simp: useFetchTargetAsset_def noEffect_def Let_def split: if_splits sum.splits)

interpretation completed: cancelling "useGetIsTransferCompleted E A" for E A
  by unfold_locales (auto simp: useGetIsTransferCompleted_def noEffect_def split: if_splits)

interpretation original: lasting "useOriginalAsset E" for E
  by unfold_locales (auto simp: useOriginalAsset_def Let_def split: if_splits)

interpretation foreign: lasting "useFetchForeignAsset E" for E
  by unfold_locales (auto simp: useFetchForeignAsset_def Let_def split: if_splits)

text \<open>So what the verifier pages show may belong to a question asked before: any pending answer is taken.\<close>

lemma original_answer_taken:
  assumes "hookRun (useOriginalAsset E) deps reduce evs s0 = (s, m)" "k < length (pending m)"
  shows "\<exists>s1. snd (settle k N m) = originalAnswer E (deps s1) N"
proof (rule original.every_answer_heard [OF assms])
  fix s1 r f assume "useOriginalAsset E (deps s1) = Inr r" "whenAnswered r = Some f" "snd (settle k N m) = f N"
  then show ?thesis by (auto simp: useOriginalAsset_def Let_def split: if_splits)
qed

lemma flush_again: "lastDeps m = Some d \<Longrightarrow> flush eff d m = (m, [])"
  by (simp add: flush_def)

lemma foldl_fixed: "f x a = x \<Longrightarrow> foldl f x (replicate k a) = x"
  by (induction k) simp_all

text \<open>Once an effect has run and changes none of the values that it depends on, React does not run it again.\<close>

lemma flushes_settled:
  assumes "lastDeps m = Some (deps s)"
  shows "foldl (hookStep eff deps reduce) (s, m) (replicate k Flush) = (s, m)"
  by (rule foldl_fixed) (simp add: flush_again [OF assms])

lemma hookRun_append:
  "hookRun eff deps reduce (evs @ evs') s = foldl (hookStep eff deps reduce) (hookRun eff deps reduce evs s) evs'"
  by (simp add: hookRun_def)

text \<open>The hook of the transfer page on the store, the wallets and its own state.\<close>

definition targetDepsOf :: "cluster \<Rightarrow> bool \<Rightarrow> ('a, 'b, 'c) root_state \<times> 'k wallets \<times> target_args option \<Rightarrow> target_deps" where
  "targetDepsOf c isNft s = target_deps_of c isNft (fst s) (fst (snd s)) (snd (snd s))"

fun targetReduce :: "bool \<Rightarrow> ('a, 'b, 'c) root_state \<times> 'k wallets \<times> target_args option \<Rightarrow> target_action \<Rightarrow>
    ('a, 'b, 'c) root_state \<times> 'k wallets \<times> target_args option" where
  "targetReduce isNft (rs, w, prev) (DispatchTargetAsset v) =
     (rootReducer '''' rs (if isNft then NftAction (NftSetTargetAsset v) else TransferAction (SetTargetAsset v)), w, prev)"
| "targetReduce isNft (rs, w, prev) (SetLastSuccessfulArgs v) = (rs, w, v)"

lemma target_deps_sels [simp]:
  "ta_isWrapped (target_deps_of c False rs w prev) = isSourceAssetWormholeWrapped (transfer rs)"
  "ta_originChain (target_deps_of c False rs w prev) = originChain (transfer rs)"
  "ta_originAsset (target_deps_of c False rs w prev) = originAsset (transfer rs)"
  "ta_targetChain (target_deps_of c b rs w prev) = (if b then n_targetChain (nft rs) else targetChain (transfer rs))"
  "ta_nft (target_deps_of c b rs w prev) = b"
  "td_provider (target_deps_of c b rs w prev) = ew_provider w"
  "td_hasCorrectEvmNetwork (target_deps_of c False rs w prev) \<longleftrightarrow> ew_chainId w = getEvmChainId c (targetChain (transfer rs))"
  "td_argsMatch (target_deps_of c b rs w prev) \<longleftrightarrow> prev = Some (target_args_of b rs)"
  "target_args.truncate (target_deps_of c b rs w prev) = target_args_of b rs"
  by (simp_all add: target_deps_of_def target_args_of_def Let_def target_args.defs)

lemma target_args_setTargetAsset [simp]:
  "target_args_of False (rs\<lparr>transfer := transfer_setTargetAsset t v\<rparr>) = target_args_of False (rs\<lparr>transfer := t\<rparr>)"
  by (simp add: target_args_of_def transfer_setTargetAsset_def)

lemma no_target_error:
  "selectTransferTargetAsset rs = None \<Longrightarrow> truthy (selectTransferTargetError P rs)"
  by (simp add: selectTransferTargetError_def Let_def UNREGISTERED_ERROR_MESSAGE_def)

lemma fetch_asks:
  assumes "useFetchTargetAsset E now d = Inr r" "whenAnswered r = Some f"
  shows "\<not> td_argsMatch d \<and> ta_originChain d \<noteq> None \<and> ta_originAsset d \<noteq> None \<and>
    (isEVMChain (ta_targetChain d) \<and> td_hasCorrectEvmNetwork d \<and>
       f = (\<lambda>N. receiveTargetAsset (nw_now N) (target_args.truncate d) (targetOnEth E d N)) \<or>
     ta_targetChain d = CHAIN_ID_SOLANA \<and>
       (\<exists>t. f = (\<lambda>N. case targetOnSolana E d t N of
          Inr info \<Rightarrow> receiveTargetAsset (nw_now N) (target_args.truncate d) info | Inl e \<Rightarrow> [undeterminedAsset])) \<or>
     ta_targetChain d = CHAIN_ID_TERRA \<and>
       f = (\<lambda>N. case targetOnTerra E d N of
          Some info \<Rightarrow> receiveTargetAsset (nw_now N) (target_args.truncate d) info | None \<Rightarrow> []))"
proof -
  have k: "ta_originChain d \<noteq> None" "ta_originAsset d \<noteq> None" if "originKnown d"
    using that by (cases "ta_originAsset d"; auto simp: originKnown_def)+
  have e: "isEVMChain (ta_targetChain d)" "td_hasCorrectEvmNetwork d" if "evmTargetReady d"
    using that by (auto simp: evmTargetReady_def)
  consider "td_argsMatch d" | "\<not> td_argsMatch d" "returnsHome d"
    | "\<not> td_argsMatch d" "\<not> returnsHome d" "\<not> originKnown d"
    | "\<not> td_argsMatch d" "\<not> returnsHome d" "originKnown d" "evmTargetReady d"
    | "\<not> td_argsMatch d" "\<not> returnsHome d" "originKnown d" "\<not> evmTargetReady d" "ta_targetChain d = CHAIN_ID_SOLANA"
    | "\<not> td_argsMatch d" "\<not> returnsHome d" "originKnown d" "\<not> evmTargetReady d" "ta_targetChain d \<noteq> CHAIN_ID_SOLANA"
    by blast
  then show ?thesis
  proof cases
    case 5
    then show ?thesis using assms k
      by (cases "if ta_nft d then o_arrayifyNumber E (if ta_tokenId d = [] then ''0'' else ta_tokenId d) else Inr []")
        (auto simp: useFetchTargetAsset_def Let_def split del: if_split)
  qed (use assms k e in \<open>auto simp: useFetchTargetAsset_def Let_def noEffect_def split: if_splits\<close>)
qed

section \<open>Properties\<close>

text \<open>C30: however the store, the wallets and the answers interleave, what an answer does to the target asset is what the
  SDK says now about the origin asset and the target chain that the effect ran for last: it is received together with
  exactly these arguments, or an error is; an answer for an earlier asset or chain does nothing.\<close>

theorem target_hears_last:
  assumes "hookRun (useFetchTargetAsset E now) deps reduce evs s = (s', m)"
    and "settle k N m = (m', as)" "as \<noteq> []"
  shows "\<exists>d oc h. lastDeps m = Some d \<and> \<not> td_argsMatch d \<and> ta_originChain d = Some oc \<and> ta_originAsset d = Some h \<and>
    (as = [undeterminedAsset] \<or>
     (\<exists>info. as = receiveTargetAsset (nw_now N) (target_args.truncate d) info \<and>
       ((isEVMChain (ta_targetChain d) \<and> td_hasCorrectEvmNetwork d \<and> info = targetOnEth E d N) \<or>
        (ta_targetChain d = CHAIN_ID_SOLANA \<and> (\<exists>t. targetOnSolana E d t N = Inr info)) \<or>
        (ta_targetChain d = CHAIN_ID_TERRA \<and> targetOnTerra E d N = Some info))))"
proof (rule fetch_target.answer_is_last [OF assms])
  fix d r f
  assume d: "lastDeps m = Some d" "useFetchTargetAsset E now d = Inr r" "whenAnswered r = Some f" "as = f N"
  note asks = fetch_asks [OF d(2,3)]
  then obtain oc h where o: "ta_originChain d = Some oc" "ta_originAsset d = Some h" by blast
  have "as = [undeterminedAsset] \<or>
     (\<exists>info. as = receiveTargetAsset (nw_now N) (target_args.truncate d) info \<and>
       ((isEVMChain (ta_targetChain d) \<and> td_hasCorrectEvmNetwork d \<and> info = targetOnEth E d N) \<or>
        (ta_targetChain d = CHAIN_ID_SOLANA \<and> (\<exists>t. targetOnSolana E d t N = Inr info)) \<or>
        (ta_targetChain d = CHAIN_ID_TERRA \<and> targetOnTerra E d N = Some info)))"
    using asks d(4) assms(3) by (elim conjE disjE exE) (force split: sum.splits option.splits)+
  then show ?thesis using d(1) o asks by blast
qed

text \<open>when the look-up of an asset on an EVM chain fails (the SDK gives null after any exception), the page
  stores it as an asset that exists and has no address, and as a success: however often React flushes the effects
  after that, it is not looked up again, and the target of the page cannot be completed.\<close>

theorem failed_lookup_is_kept:
  assumes page: "transfer rs = t" "isEVMChain (targetChain t)" "originChain t = Some oc" "oc \<noteq> 0" "originAsset t = Some h"
      "h \<noteq> ''''" "\<not> (isSourceAssetWormholeWrapped t = Some True \<and> oc = targetChain t)"
    and wallet: "ew_provider w \<noteq> None" "ew_chainId w = getEvmChainId (o_cluster E) (targetChain t)"
    and fails: "\<And>b a. v_wrappedAsset (nw_views N) b oc a = Inl (err b a)"
  shows "\<exists>rs' m. hookRun (useFetchTargetAsset E now) (targetDepsOf (o_cluster E) False) (targetReduce False)
      ([Flush, Settle 0 N] @ replicate k Flush) (rs, w, None) = ((rs', w, Some (target_args_of False rs)), m) \<and>
    data (targetAsset (transfer rs')) = Some \<lparr>doesExist = True, fa_address = None\<rparr> \<and> pending m = [] \<and>
    truthy (selectTransferTargetError P rs')"
proof -
  let ?deps = "targetDepsOf (o_cluster E) False" and ?run = "hookRun (useFetchTargetAsset E now) (targetDepsOf (o_cluster E) False) (targetReduce False)"
  let ?rs = "rs\<lparr>transfer := t\<lparr>targetAsset := receiveDataWrapper (nw_now N) \<lparr>doesExist = True, fa_address = None\<rparr>,
    targetParsedTokenAccount := None\<rparr>\<rparr>"
  have args: "target_args_of False ?rs = target_args_of False rs" using page(1) by (simp add: target_args_of_def)
  have ans: "targetOnEth E (target_deps_of (o_cluster E) False rs w None) N = \<lparr>doesExist = True, fa_address = None\<rparr>"
    using page(1,3) fails by (simp add: targetOnEth_def getForeignAssetEth_def caughtNull_def)
  have eff: "useFetchTargetAsset E now (?deps (rs, w, None)) = Inr
      \<lparr>atOnce = [SetLastSuccessfulArgs None, DispatchTargetAsset fetchDataWrapper],
       whenAnswered = Some (\<lambda>N. receiveTargetAsset (nw_now N) (target_args_of False rs)
         (targetOnEth E (target_deps_of (o_cluster E) False rs w None) N)), cleansUp = True\<rparr>"
    using page wallet
    by (auto simp: targetDepsOf_def useFetchTargetAsset_def Let_def returnsHome_def originKnown_def evmTargetReady_def)
  have "\<exists>m. ?run [Flush, Settle 0 N] (rs, w, None) = ((?rs, w, Some (target_args_of False rs)), m) \<and> pending m = [] \<and>
      lastDeps m = Some (?deps (rs, w, None)) \<and> \<not> gone m"
    using page(1) ans
    by (simp add: hookRun_def mount_def flush_def settle_def cleanup_def eff receiveTargetAsset_def transfer_setTargetAsset_def)
  then obtain m where m: "?run [Flush, Settle 0 N] (rs, w, None) = ((?rs, w, Some (target_args_of False rs)), m)"
    "pending m = []" "lastDeps m = Some (?deps (rs, w, None))" "\<not> gone m" by blast
  have more: "\<exists>m'. ?run ([Flush, Settle 0 N] @ replicate k Flush) (rs, w, None) =
      ((?rs, w, Some (target_args_of False rs)), m') \<and> pending m' = []"
  proof (cases k)
    case 0
    then show ?thesis using m by simp
  next
    case (Suc j)
    obtain m' where m': "hookStep (useFetchTargetAsset E now) ?deps (targetReduce False) ((?rs, w, Some (target_args_of False rs)), m) Flush =
        ((?rs, w, Some (target_args_of False rs)), m')" "pending m' = []" "lastDeps m' = Some (?deps (?rs, w, Some (target_args_of False rs)))"
      using m(2,4) args
      by (cases "lastDeps m = Some (?deps (?rs, w, Some (target_args_of False rs)))")
        (simp_all add: flush_def cleanup_def useFetchTargetAsset_def noEffect_def targetDepsOf_def Let_def)
    have "?run ([Flush, Settle 0 N] @ Flush # replicate j Flush) (rs, w, None) = ((?rs, w, Some (target_args_of False rs)), m')"
      using m(1) m'(1) flushes_settled [of m' ?deps "(?rs, w, Some (target_args_of False rs))", OF m'(3)]
      unfolding hookRun_append by simp
    then show ?thesis using m'(2) Suc by simp
  qed
  moreover have "data (targetAsset (transfer ?rs)) = Some \<lparr>doesExist = True, fa_address = None\<rparr>" "selectTransferTargetAsset ?rs = None"
    by (simp_all add: receiveDataWrapper_def selectTransferTargetAsset_def)
  ultimately show ?thesis using no_target_error [of ?rs P] by blast
qed

definition demo_transfer :: transfer_state where
  "demo_transfer = transfer_initialState\<lparr>originChain := Some CHAIN_ID_SOLANA, originAsset := Some ''01''\<rparr>"

definition demo_rs :: "(unit, unit, unit) root_state" where
  "demo_rs = store_initial\<lparr>transfer := demo_transfer\<rparr>"

definition demo_offline :: "(string, unit, unit) networks" where
  "demo_offline = demo_networks\<lparr>nw_views := demo_views\<lparr>v_wrappedAsset := (\<lambda>b c a. Inl (Foreign ''timeout''))\<rparr>\<rparr>"

lemma demo_transfer_ok:
  "transfer demo_rs = demo_transfer" "isEVMChain (targetChain demo_transfer)" "originChain demo_transfer = Some CHAIN_ID_SOLANA"
  "originAsset demo_transfer = Some ''01''" "targetChain demo_transfer = CHAIN_ID_ETH" "CHAIN_ID_SOLANA \<noteq> CHAIN_ID_ETH"
  "CHAIN_ID_SOLANA \<noteq> 0" "getEvmChainId (o_cluster demo_outside) CHAIN_ID_ETH = Some 1337"
  by (simp_all add: demo_rs_def demo_transfer_def transfer_initialState_def isEVMChain_def chain_ids demo_outside_sels
    getEvmChainId_def network_chain_ids)

theorem failed_lookup_is_kept_witness:
  "\<exists>rs' m. hookRun (useFetchTargetAsset demo_outside ''now'') (targetDepsOf Devnet False) (targetReduce False)
     ([Flush, Settle 0 demo_offline] @ replicate 3 Flush) (demo_rs, demo_wallets\<lparr>ew_chainId := Some 1337\<rparr>, None) =
       ((rs', demo_wallets\<lparr>ew_chainId := Some 1337\<rparr>, Some (target_args_of False demo_rs)), m) \<and>
     data (targetAsset (transfer rs')) = Some \<lparr>doesExist = True, fa_address = None\<rparr>"
proof -
  have f: "v_wrappedAsset (nw_views demo_offline) b CHAIN_ID_SOLANA a = Inl ((\<lambda>b a. Foreign ''timeout'') b a)" for b a
    by (simp add: demo_offline_def)
  have w: "ew_provider (demo_wallets\<lparr>ew_chainId := Some 1337\<rparr>) \<noteq> None"
    "ew_chainId (demo_wallets\<lparr>ew_chainId := Some 1337\<rparr>) = getEvmChainId (o_cluster demo_outside) (targetChain demo_transfer)"
    using demo_transfer_ok by (simp_all add: demo_wallets_def)
  have "\<not> (isSourceAssetWormholeWrapped demo_transfer = Some True \<and> CHAIN_ID_SOLANA = targetChain demo_transfer)"
    using demo_transfer_ok by simp
  from failed_lookup_is_kept [OF demo_transfer_ok(1-3,7,4) _ this w f, of "''now''" 3 demo_parseUnits]
  show ?thesis by (auto simp: demo_outside_sels)
qed

theorem target_hears_last_witness:
  "\<exists>s' m m' as. hookRun (useFetchTargetAsset demo_outside ''now'') (targetDepsOf Devnet False) (targetReduce False) [Flush]
       (demo_rs, demo_wallets\<lparr>ew_chainId := Some 1337\<rparr>, None) = (s', m) \<and> settle 0 demo_networks m = (m', as) \<and>
     as = receiveTargetAsset ''now'' (target_args_of False demo_rs) \<lparr>doesExist = True, fa_address = Some ''0x02''\<rparr>"
proof -
  let ?w = "demo_wallets\<lparr>ew_chainId := Some 1337\<rparr>"
  let ?d = "target_deps_of Devnet False demo_rs ?w None"
  have eff: "useFetchTargetAsset demo_outside ''now'' ?d = Inr
      \<lparr>atOnce = [SetLastSuccessfulArgs None, DispatchTargetAsset fetchDataWrapper],
       whenAnswered = Some (\<lambda>N. receiveTargetAsset (nw_now N) (target_args_of False demo_rs) (targetOnEth demo_outside ?d N)),
       cleansUp = True\<rparr>"
    using demo_transfer_ok
    by (simp add: demo_outside_sels useFetchTargetAsset_def Let_def returnsHome_def originKnown_def evmTargetReady_def demo_wallets_def)
  have v: "targetOnEth demo_outside ?d demo_networks = \<lparr>doesExist = True, fa_address = Some ''0x02''\<rparr>"
    using demo_transfer_ok
    by (simp add: targetOnEth_def getForeignAssetEth_def caughtNull_def demo_networks_def demo_views_def AddressZero_def
      numeral_eq_Suc)
  obtain s' m m' as where r: "hookRun (useFetchTargetAsset demo_outside ''now'') (targetDepsOf Devnet False) (targetReduce False) [Flush]
       (demo_rs, ?w, None) = (s', m)" "settle 0 demo_networks m = (m', as)" "as \<noteq> []" "lastDeps m = Some ?d"
    by (simp add: hookRun_def mount_def flush_def settle_def cleanup_def targetDepsOf_def eff receiveTargetAsset_def)
  have c: "ta_targetChain ?d \<noteq> CHAIN_ID_SOLANA" "ta_targetChain ?d \<noteq> CHAIN_ID_TERRA"
    using demo_transfer_ok by (simp_all add: chain_ids)
  from target_hears_last [OF r(1-3)] r(4) c v
  have "as = [undeterminedAsset] \<or> as = receiveTargetAsset ''now'' (target_args_of False demo_rs) \<lparr>doesExist = True, fa_address = Some ''0x02''\<rparr>"
    by (force simp: demo_networks_def)
  moreover have "length as = 2" using r(1,2)
    by (auto simp: hookRun_def mount_def flush_def settle_def cleanup_def targetDepsOf_def eff receiveTargetAsset_def)
  ultimately show ?thesis using r(1,2) by (cases s') (auto simp: undeterminedAsset_def)
qed

text \<open>The first hook on the store of the transfer page.\<close>

definition checkReduce :: "('a, 'b, 'c) root_state \<Rightarrow> wrapped_info \<Rightarrow> ('a, 'b, 'c) root_state" where
  "checkReduce rs info = rootReducer '''' rs (TransferAction (SetSourceWormholeWrappedInfo info))"

text \<open>C28: selecting the token that is selected already (also after its balance has been looked up again) clears what is
  known of its origin and of the target asset, but changes none of the values that the question about its origin depends on: the
  question is not asked again, however often React flushes the effects, and the target of the page cannot be
  completed.\<close>

theorem reselecting_loses_origin:
  assumes "sourceParsedTokenAccount (transfer rs) = Some acc" "mintKey acc' = mintKey acc"
    and asked: "hookRun (useCheckIfWormholeWrapped E) (\<lambda>rs. check_deps_of False rs w) checkReduce evs rs0 = (rs, m)"
      "lastDeps m = Some (check_deps_of False rs w)" "pending m = []"
  shows "\<exists>rs'. hookRun (useCheckIfWormholeWrapped E) (\<lambda>rs. check_deps_of False rs w) checkReduce
      (evs @ Outside (\<lambda>rs. rootReducer now rs (TransferAction (SetSourceParsedTokenAccount (Some acc')))) # replicate k Flush) rs0 =
      (rs', m) \<and>
    originAsset (transfer rs') = None \<and> originChain (transfer rs') = None \<and> data (targetAsset (transfer rs')) = None \<and>
    pending m = [] \<and> truthy (selectTransferTargetError P rs')"
proof -
  let ?rs' = "rootReducer now rs (TransferAction (SetSourceParsedTokenAccount (Some acc')))"
  have d: "lastDeps m = Some (check_deps_of False ?rs' w)"
    using assms(1,2,4) by (simp add: check_deps_of_def transfer_setSourceParsedTokenAccount_def)
  have "hookRun (useCheckIfWormholeWrapped E) (\<lambda>rs. check_deps_of False rs w) checkReduce
      (evs @ Outside (\<lambda>rs. rootReducer now rs (TransferAction (SetSourceParsedTokenAccount (Some acc')))) # replicate k Flush) rs0 = (?rs', m)"
    using flushes_settled [of m "\<lambda>rs. check_deps_of False rs w" ?rs', OF d] asked(1)
    by (simp add: hookRun_append)
  moreover have "originAsset (transfer ?rs') = None \<and> originChain (transfer ?rs') = None \<and> data (targetAsset (transfer ?rs')) = None"
    by (simp add: transfer_setSourceParsedTokenAccount_def wrapper_defs)
  moreover from this have "selectTransferTargetAsset ?rs' = None" by (simp add: selectTransferTargetAsset_def)
  ultimately show ?thesis using no_target_error [of ?rs' P] asked(3) by blast
qed

definition demo_selected :: "(unit, unit, unit) root_state" where
  "demo_selected = store_initial\<lparr>transfer := transfer_initialState\<lparr>sourceParsedTokenAccount := Some demo_account\<rparr>\<rparr>"

theorem reselecting_loses_origin_witness:
  "\<exists>m rs'. hookRun (useCheckIfWormholeWrapped demo_outside) (\<lambda>rs. check_deps_of False rs demo_wallets) checkReduce
     ([Flush, Settle 0 demo_networks] @ Outside (\<lambda>rs. rootReducer ''now'' rs (TransferAction
        (SetSourceParsedTokenAccount (Some (demo_account\<lparr>acc_amount := ''4''\<rparr>))))) # replicate 2 Flush) demo_selected = (rs', m) \<and>
     originAsset (transfer rs') = None \<and> pending m = []"
proof -
  let ?run = "hookRun (useCheckIfWormholeWrapped demo_outside) (\<lambda>rs. check_deps_of False rs demo_wallets) checkReduce"
  have d: "check_deps_of False (checkReduce rs i) demo_wallets = check_deps_of False rs demo_wallets" for rs :: "(unit, unit, unit) root_state" and i
    by (simp add: check_deps_of_def checkReduce_def transfer_setSourceWormholeWrappedInfo_def)
  have eff: "useCheckIfWormholeWrapped demo_outside (check_deps_of False demo_selected demo_wallets) = Inr
      \<lparr>atOnce = [], whenAnswered = Some (\<lambda>N. case originalOnSolana demo_outside False ''mint'' N of
         Inr info \<Rightarrow> [makeStateSafe info] | Inl e \<Rightarrow> []), cleansUp = True\<rparr>"
    by (simp add: useCheckIfWormholeWrapped_def check_deps_of_def demo_selected_def transfer_initialState_def demo_account_def
      isEVMChain_def chain_ids)
  have "\<exists>rs m. ?run [Flush, Settle 0 demo_networks] demo_selected = (rs, m) \<and> pending m = [] \<and>
      lastDeps m = Some (check_deps_of False demo_selected demo_wallets) \<and> (rs = demo_selected \<or> (\<exists>i. rs = checkReduce demo_selected i))"
    by (cases "originalOnSolana demo_outside False ''mint'' demo_networks")
      (auto simp: hookRun_def mount_def flush_def settle_def cleanup_def eff)
  then obtain rs m where r: "?run [Flush, Settle 0 demo_networks] demo_selected = (rs, m)" "pending m = []"
    "lastDeps m = Some (check_deps_of False demo_selected demo_wallets)" "rs = demo_selected \<or> (\<exists>i. rs = checkReduce demo_selected i)"
    by blast
  then have "lastDeps m = Some (check_deps_of False rs demo_wallets)" using d by auto
  moreover have "sourceParsedTokenAccount (transfer rs) = Some demo_account"
    using r(4) by (auto simp: checkReduce_def transfer_setSourceWormholeWrappedInfo_def demo_selected_def)
  ultimately show ?thesis
    using reselecting_loses_origin [of rs demo_account "demo_account\<lparr>acc_amount := ''4''\<rparr>" demo_outside demo_wallets
        "[Flush, Settle 0 demo_networks]" demo_selected m "''now''" 2 demo_parseUnits] r(1,2) by auto
qed

text \<open>The state of \<open>useFetchForeignAsset\<close> with its arguments; the wallet does not change.\<close>

definition foreignRun where
  "foreignRun E w ready evs args =
     hookRun (useFetchForeignAsset E) (\<lambda>s. foreign_deps_of (o_libs E) (o_cluster E) (fst s) w ready (snd s))
       (\<lambda>s a. (fst s, setForeign (snd s) a)) evs (args, foreign_initial)"

definition freshDeps where
  "freshDeps E w ready args = foreign_deps_of (o_libs E) (o_cluster E) args w ready foreign_initial"

definition foreignFires where
  "foreignFires E w ready args \<longleftrightarrow>
     \<not> fd_argumentError (freshDeps E w ready args) \<and> truthy (fd_originAssetHex (freshDeps E w ready args))"

definition foreignHex where
  "foreignHex E args = hexToUint8Array (the (case nativeToHexString (o_libs E) (Some (ff_originAsset args)) (ff_originChain args) of
     Inl e \<Rightarrow> None | Inr h \<Rightarrow> h))"

lemma freshDeps_sels [simp]:
  "ff_originChain (freshDeps E w ready args) = ff_originChain args"
  "ff_foreignChain (freshDeps E w ready args) = ff_foreignChain args"
  "\<not> fd_argsEqual (freshDeps E w ready args)"
  "foreign_args.truncate (freshDeps E w ready args) = args"
  "hexToUint8Array (the (fd_originAssetHex (freshDeps E w ready args))) = foreignHex E args"
  by (simp_all add: freshDeps_def foreign_deps_of_def Let_def foreign_args.defs foreignHex_def foreign_initial_def)

lemma foreign_deps_prev:
  "fs_previousArgs s \<noteq> Some args \<Longrightarrow> foreign_deps_of (o_libs E) (o_cluster E) args w ready s = freshDeps E w ready args"
  by (simp add: freshDeps_def foreign_deps_of_def foreign_initial_def Let_def)

lemma freshDeps_other: "args \<noteq> args' \<Longrightarrow> freshDeps E w ready args \<noteq> freshDeps E w ready args'"
  by (metis freshDeps_sels(4))

lemma foreign_effect:
  assumes "foreignFires E w ready args"
  shows "useFetchForeignAsset E (freshDeps E w ready args) =
    Inr \<lparr>atOnce = [FSetAddress None, FSetError '''', FSetExists None, FSetPreviousArgs None, FSetLoading True],
      whenAnswered = Some (foreignAnswer E (freshDeps E w ready args)), cleansUp = False\<rparr>"
  using assms by (simp add: foreignFires_def useFetchForeignAsset_def)

text \<open>the effect of \<open>useFetchForeignAsset\<close> declares \<open>cancelled\<close> but has no cleanup, so an answer for earlier
  arguments that arrives late is shown as the answer for the present ones, and as final (not fetching), although the
  question about them is still open; if that question then fails, the stale asset stays, next to the error.\<close>

theorem foreign_asset_stale:
  assumes fires: "foreignFires E w ready old" "foreignFires E w ready new" "old \<noteq> new"
    and answer: "foreignQuery E (ff_foreignChain old) (ff_originChain old) (foreignHex E old) N = Inr (Some (Some addr))"
      "addr \<noteq> ''''" "addr \<noteq> AddressZero"
    and "foreignQuery E (ff_foreignChain new) (ff_originChain new) (foreignHex E new) N' = Inl e"
  shows "\<exists>fs m. foreignRun E w ready ([Flush, Outside (\<lambda>s. (new, snd s)), Flush, Settle 0 N] @ replicate k Flush) old = ((new, fs), m) \<and>
      data (foreignOutput fs) = Some \<lparr>doesExist = True, fa_address = Some addr\<rparr> \<and> \<not> isFetching (foreignOutput fs) \<and>
      settle 0 N' m = (m\<lparr>pending := []\<rparr>, [FSetError ''Could not retrieve the foreign asset.'', FSetLoading False]) \<and>
      data (foreignOutput (foldl setForeign fs (snd (settle 0 N' m)))) = Some \<lparr>doesExist = True, fa_address = Some addr\<rparr>"
proof -
  let ?deps = "\<lambda>s. foreign_deps_of (o_libs E) (o_cluster E) (fst s) w ready (snd s)"
  let ?fs = "\<lparr>fs_assetAddress = Some addr, fs_doesExist = Some True, fs_error = '''', fs_isLoading = False, fs_previousArgs = Some old\<rparr>"
  have ans: "foreignAnswer E (freshDeps E w ready old) N =
      [FSetPreviousArgs (Some old), FSetExists (Some True), FSetLoading False, FSetAddress (Some addr)]"
    using answer by (simp add: foreignAnswer_def Let_def)
  let ?step = "hookStep (useFetchForeignAsset E) ?deps (\<lambda>s a. (fst s, setForeign (snd s) a))"
  let ?asking = "\<lparr>fs_assetAddress = None, fs_doesExist = None, fs_error = '''', fs_isLoading = True, fs_previousArgs = None\<rparr>"
  let ?wait = "\<lambda>n args. \<lparr>startedBy = n, startedFor = freshDeps E w ready args, cancelled = False,
    continue_with = foreignAnswer E (freshDeps E w ready args)\<rparr>"
  let ?m1 = "\<lparr>runs = 1, lastDeps = Some (freshDeps E w ready old), hasCleanup = False, pending = [?wait 1 old], gone = False\<rparr>"
  let ?m2 = "\<lparr>runs = 2, lastDeps = Some (freshDeps E w ready new), hasCleanup = False, pending = [?wait 1 old, ?wait 2 new], gone = False\<rparr>"
  let ?m3 = "\<lparr>runs = 2, lastDeps = Some (freshDeps E w ready new), hasCleanup = False, pending = [?wait 2 new], gone = False\<rparr>"
  have "?deps (old, foreign_initial) = freshDeps E w ready old" by (simp add: foreign_deps_prev foreign_initial_def)
  then have s1: "?step ((old, foreign_initial), mount) Flush = ((old, ?asking), ?m1)"
    by (simp add: foreign_effect [OF fires(1)] mount_def flush_def cleanup_def foreign_initial_def Let_def)
  have "?deps (new, ?asking) = freshDeps E w ready new" by (simp add: foreign_deps_prev)
  then have s2: "?step ((new, ?asking), ?m1) Flush = ((new, ?asking), ?m2)"
    using freshDeps_other [OF fires(3)] by (simp add: foreign_effect [OF fires(2)] flush_def cleanup_def Let_def)
  have s3: "?step ((new, ?asking), ?m2) (Settle 0 N) = ((new, ?fs), ?m3)"
    using ans by (simp add: settle_def)
  obtain m where m: "foreignRun E w ready [Flush, Outside (\<lambda>s. (new, snd s)), Flush, Settle 0 N] old = ((new, ?fs), m)"
    "lastDeps m = Some (freshDeps E w ready new)" "pending m = [?wait 2 new]"
  proof
    show "foreignRun E w ready [Flush, Outside (\<lambda>s. (new, snd s)), Flush, Settle 0 N] old = ((new, ?fs), ?m3)"
      unfolding foreignRun_def hookRun_def foldl.simps s1 hookStep.simps(1) snd_conv s2 s3 by (rule refl)
  qed simp_all
  have "foldl (hookStep (useFetchForeignAsset E) ?deps (\<lambda>s a. (fst s, setForeign (snd s) a))) ((new, ?fs), m) (replicate k Flush) =
      ((new, ?fs), m)"
    using m(2) fires(3) by (intro flushes_settled) (simp add: foreign_deps_prev)
  then have "foreignRun E w ready ([Flush, Outside (\<lambda>s. (new, snd s)), Flush, Settle 0 N] @ replicate k Flush) old = ((new, ?fs), m)"
    using m(1) unfolding foreignRun_def hookRun_append by simp
  moreover have "foreignAnswer E (freshDeps E w ready new) N' =
      [FSetError ''Could not retrieve the foreign asset.'', FSetLoading False]"
    using assms(7) by (simp add: foreignAnswer_def Let_def)
  ultimately show ?thesis
    using m(3) by (intro exI [of _ ?fs] exI [of _ m]) (simp add: settle_def foreignOutput_def)
qed

definition demo_foreign :: "string \<Rightarrow> foreign_args" where
  "demo_foreign a = \<lparr>ff_originChain = CHAIN_ID_ETH, ff_originAsset = a, ff_foreignChain = CHAIN_ID_SOLANA\<rparr>"

definition demo_down :: "(string, unit, unit) networks" where
  "demo_down = demo_networks\<lparr>nw_connection := good_connection\<lparr>getAccountInfo := (\<lambda>h k. Inl (Foreign ''timeout''))\<rparr>\<rparr>"

theorem foreign_asset_stale_witness:
  "\<exists>fs m. foreignRun demo_outside demo_wallets True ([Flush, Outside (\<lambda>s. (demo_foreign ''0x02'', snd s)), Flush, Settle 0 demo_networks]
       @ replicate 2 Flush) (demo_foreign ''0x01'') = ((demo_foreign ''0x02'', fs), m) \<and>
     data (foreignOutput fs) = Some \<lparr>doesExist = True, fa_address = Some (toHex [10])\<rparr> \<and> \<not> isFetching (foreignOutput fs)"
proof -
  have L: "o_libs demo_outside = demo_libs\<lparr>arrayify := (\<lambda>s. Inr [1])\<rparr>" "o_cluster demo_outside = Devnet"
    "o_web3 demo_outside = demo_web3" "o_bridge demo_outside = demo_bridge"
    by (simp_all add: demo_outside_def)
  have f: "foreignFires demo_outside demo_wallets True (demo_foreign a)" if "a \<noteq> ''''" for a
  proof -
    have "nativeToHexString (o_libs demo_outside) (Some a) CHAIN_ID_ETH = Inr (Some (toHex (replicate 31 0 @ [1])))"
      using that by (simp add: L nativeToHexString_def isEVMChain_def chain_ids demo_libs_def uint8ArrayToHex_def)
    then show ?thesis
      using that by (simp add: foreignFires_def freshDeps_def foreign_deps_of_def demo_foreign_def foreign_initial_def
        foreign_args.defs isEVMChain_def chain_ids Let_def)
  qed
  have q: "foreignQuery demo_outside (ff_foreignChain (demo_foreign a)) (ff_originChain (demo_foreign a)) h demo_networks =
      Inr (Some (Some (toHex [10])))" for a h
    by (simp add: foreignQuery_def demo_foreign_def isEVMChain_def chain_ids getForeignAssetSolana_def L demo_networks_def
      demo_bridge_def demo_sels bindH_def)
  have q': "foreignQuery demo_outside (ff_foreignChain (demo_foreign a)) (ff_originChain (demo_foreign a)) h demo_down =
      Inl (Foreign ''timeout'')" for a h
    by (simp add: foreignQuery_def demo_foreign_def isEVMChain_def chain_ids getForeignAssetSolana_def L demo_down_def
      demo_networks_def demo_bridge_def demo_sels bindH_def)
  have z: "toHex [10] \<noteq> AddressZero"
  proof
    assume "toHex [10] = AddressZero"
    then have "length (toHex [10]) = length AddressZero" by simp
    then show False by (simp add: AddressZero_def)
  qed
  have ne: "demo_foreign ''0x01'' \<noteq> demo_foreign ''0x02''" by (simp add: demo_foreign_def)
  have "toHex [10] \<noteq> ''''" by (simp only: toHex_eq_Nil) simp
  then have n: "''0x01'' \<noteq> ''''" "''0x02'' \<noteq> ''''" "toHex [10] \<noteq> ''''" by simp_all
  from foreign_asset_stale [OF f [OF n(1)] f [OF n(2)] ne q n(3) z q', of 2] show ?thesis by blast
qed

text \<open>whether a transfer has been completed: an answer always ends the loading, and it calls the transfer completed
  only if the bridge of the target chain says so now of the VAA that the effect ran for last; after an exception it is
  not completed.\<close>

theorem completed_hears_last:
  assumes "hookRun (useGetIsTransferCompleted E A) deps reduce evs s = (s', m)"
    and "settle k N m = (m', as)" "as \<noteq> []"
  shows "\<exists>d vaa b. lastDeps m = Some d \<and> cd_shouldFire d \<and> cd_isReady d \<and> cd_signedVAA d = Some vaa \<and>
    as = [CSetCompleted b, CSetLoading False] \<and> (b \<longleftrightarrow> completedOn E A (cd_targetChain d) vaa N = Inr True)"
proof (rule completed.answer_is_last [OF assms])
  fix d r f
  assume d: "lastDeps m = Some d" "useGetIsTransferCompleted E A d = Inr r" "whenAnswered r = Some f" "as = f N"
  then have fire: "cd_shouldFire d" "cd_isReady d" "cd_signedVAA d \<noteq> None"
    by (auto simp: useGetIsTransferCompleted_def noEffect_def split: if_splits)
  then obtain vaa where vaa: "cd_signedVAA d = Some vaa" by blast
  have "as = (case completedOn E A (cd_targetChain d) vaa N of
      Inr b \<Rightarrow> [CSetCompleted b, CSetLoading False] | Inl e \<Rightarrow> [CSetCompleted False, CSetLoading False])"
    using d(2-4) vaa by (auto simp: useGetIsTransferCompleted_def noEffect_def split: if_splits)
  then show ?thesis using d(1) fire vaa by (cases "completedOn E A (cd_targetChain d) vaa N") auto
qed

theorem completed_hears_last_witness:
  "\<exists>m m' as. hookRun (useGetIsTransferCompleted demo_outside demo_abi) (\<lambda>d. d) (\<lambda>d a. d) [Flush]
       \<lparr>cd_shouldFire = True, cd_hasCorrectEvmNetwork = True, cd_targetChain = CHAIN_ID_SOLANA, cd_targetAddress = Some ''01'',
        cd_signedVAA = Some [1], cd_isReady = True, cd_provider = None\<rparr> =
       (\<lparr>cd_shouldFire = True, cd_hasCorrectEvmNetwork = True, cd_targetChain = CHAIN_ID_SOLANA, cd_targetAddress = Some ''01'',
        cd_signedVAA = Some [1], cd_isReady = True, cd_provider = None\<rparr>, m) \<and>
     settle 0 demo_networks m = (m', as) \<and> as = [CSetCompleted True, CSetLoading False]"
proof -
  let ?d = "\<lparr>cd_shouldFire = True, cd_hasCorrectEvmNetwork = True, cd_targetChain = CHAIN_ID_SOLANA, cd_targetAddress = Some ''01'',
        cd_signedVAA = Some [1], cd_isReady = True, cd_provider = None\<rparr>"
  let ?run = "hookRun (useGetIsTransferCompleted demo_outside demo_abi) (\<lambda>d. d) (\<lambda>d a. d) [Flush] ?d"
  have c: "completedOn demo_outside demo_abi CHAIN_ID_SOLANA [1] demo_networks = Inr True"
    by (simp add: completedOn_def Let_def isEVMChain_def chain_ids getIsTransferCompletedSolana_def demo_outside_def
      demo_networks_def demo_bridge_def demo_sels bindH_def)
  obtain m m' as where r: "?run = (?d, m)" "settle 0 demo_networks m = (m', as)" "as \<noteq> []" "lastDeps m = Some ?d"
    using c by (simp add: hookRun_def mount_def flush_def settle_def cleanup_def useGetIsTransferCompleted_def isEVMChain_def chain_ids)
  from completed_hears_last [OF r(1-3)] r(4) c have "as = [CSetCompleted True, CSetLoading False]" by auto
  with r show ?thesis by blast
qed

end
