(* ===== verification/Inputs.thy ===== *)
theory Inputs
  imports Config Ethereum
begin

text \<open>
  Text that comes from a person or a link: what JavaScript's \<open>trim\<close> and \<open>parseFloat\<close> make of it, and the chain that the
  query of a link names (\<open>components/Recovery.tsx\<close>, \<open>components/Transfer/index.tsx\<close>, \<open>components/NFT/index.tsx\<close>).
\<close>

section \<open>\<open>trim\<close>\<close>

text \<open>The white space and line ends of JavaScript among the first 256 code units.\<close>

definition jsSpace :: "char \<Rightarrow> bool" where
  "jsSpace c \<longleftrightarrow> (of_char c :: nat) \<in> {9, 10, 11, 12, 13, 32, 160}"

definition trimStart :: "string \<Rightarrow> string" where
  "trimStart s = dropWhile jsSpace s"

definition trim :: "string \<Rightarrow> string" where
  "trim s = rev (trimStart (rev (trimStart s)))"

lemma trimStart_idem [simp]: "trimStart (trimStart s) = trimStart s"
  by (simp add: trimStart_def)

lemma trimStart_hd: "trimStart s = [] \<or> \<not> jsSpace (hd (trimStart s))"
  using hd_dropWhile [of jsSpace s] by (auto simp: trimStart_def)

lemma trimStart_fixed: "s = [] \<or> \<not> jsSpace (hd s) \<Longrightarrow> trimStart s = s"
  by (cases s) (auto simp: trimStart_def)

lemma trim_idem [simp]: "trim (trim s) = trim s"
proof -
  define t where "t = trimStart s"
  obtain ws where t: "t = rev (trimStart (rev t)) @ ws" "\<forall>c\<in>set ws. jsSpace c"
  proof
    show "t = rev (trimStart (rev t)) @ rev (takeWhile jsSpace (rev t))"
      by (simp add: trimStart_def flip: rev_append)
    show "\<forall>c\<in>set (rev (takeWhile jsSpace (rev t))). jsSpace c" by (auto dest: set_takeWhileD)
  qed
  let ?u = "rev (trimStart (rev t))"
  have "?u = [] \<or> \<not> jsSpace (hd ?u)"
    using trimStart_hd [of s] t(1) by (cases ?u) (auto simp flip: t_def)
  then have "trimStart ?u = ?u" by (rule trimStart_fixed)
  then show ?thesis by (simp add: trim_def flip: t_def)
qed

section \<open>\<open>parseFloat\<close>\<close>

definition isDigit :: "char \<Rightarrow> bool" where
  "isDigit c \<longleftrightarrow> 48 \<le> (of_char c :: nat) \<and> (of_char c :: nat) \<le> 57"

fun signOf :: "string \<Rightarrow> int \<times> string" where
  "signOf (c # s) = (if c = CHR ''-'' then (- 1, s) else if c = CHR ''+'' then (1, s) else (1, c # s))"
| "signOf [] = (1, [])"

definition exponentOf :: "string \<Rightarrow> int" where
  "exponentOf s =
     (case s of
        [] \<Rightarrow> 0
      | c # r \<Rightarrow>
          if c = CHR ''e'' \<or> c = CHR ''E''
          then (case signOf r of (pm, r) \<Rightarrow> pm * int (undecimal (takeWhile isDigit r)))
          else 0)"

definition fraction :: "string \<Rightarrow> string \<times> string" where
  "fraction s =
     (case s of [] \<Rightarrow> ([], [])
      | c # r \<Rightarrow> if c = CHR ''.'' then (takeWhile isDigit r, dropWhile isDigit r) else ([], s))"

text \<open>The number that the longest decimal literal at the start stands for, exactly. There is none (\<open>None\<close>) for what
  JavaScript makes NaN, nor for the literal \<open>Infinity\<close>.\<close>

definition parseFloat :: "string \<Rightarrow> rat option" where
  "parseFloat s =
     (case signOf (trimStart s) of (pm, s) \<Rightarrow>
        let whole = takeWhile isDigit s in
        case fraction (dropWhile isDigit s) of (decs, rest) \<Rightarrow>
          if whole = [] \<and> decs = [] then None
          else Some (rat_of_int (pm * int (undecimal (whole @ decs))) / 10 ^ length decs *
            (if exponentOf rest < 0 then 1 / 10 ^ nat (- exponentOf rest) else 10 ^ nat (exponentOf rest))))"

text \<open>The value is a double: the number with 53 significant bits that is nearest, of two the one whose last bit is 0. The
  numbers that occur are far from the ends of the range of exponents.\<close>

fun magnitude :: "nat \<Rightarrow> nat" where
  "magnitude n = (if n < 2 then 0 else Suc (magnitude (n div 2)))"

declare magnitude.simps [simp del]

definition binaryExponent :: "rat \<Rightarrow> int" where
  "binaryExponent x =
     (case quotient_of x of (a, b) \<Rightarrow>
        let e = int (magnitude (nat a)) - int (magnitude (nat b)) in
        if 2 powi e \<le> x then e else e - 1)"

definition roundEven :: "rat \<Rightarrow> int" where
  "roundEven x =
     (let f = \<lfloor>x\<rfloor>; d = x - rat_of_int f in
      if d < 1 / 2 \<or> d = 1 / 2 \<and> even f then f else f + 1)"

definition toDouble :: "rat \<Rightarrow> rat" where
  "toDouble x =
     (if x = 0 then 0
      else let y = \<bar>x\<bar>; step = 2 powi (binaryExponent y - 52) in
        (if x < 0 then - 1 else 1) * (rat_of_int (roundEven (y / step)) * step))"

text \<open>What \<open>parseFloat\<close> returns, and whether it is an integer \<open>n\<close> (\<open>===\<close>).\<close>

definition jsNumber :: "string \<Rightarrow> rat option" where
  "jsNumber s = map_option toDouble (parseFloat s)"

definition sameNumber :: "string option \<Rightarrow> nat \<Rightarrow> bool" where
  "sameNumber x n \<longleftrightarrow> jsNumber (case x of None \<Rightarrow> '''' | Some s \<Rightarrow> s) = Some (rat_of_nat n)"

section \<open>The chain of a link\<close>

text \<open>\<open>CHAINS_BY_ID[parseFloat(x || "")]?.id\<close>: the property's name is the number written out, so it is the id of a chain
  exactly if the double is that id.\<close>

definition chainOfPath :: "cluster \<Rightarrow> string option \<Rightarrow> ChainId option" where
  "chainOfPath c x =
     (case find (sameNumber x) (map ci_id (CHAINS c)) of
        None \<Rightarrow> None
      | Some n \<Rightarrow> map_option ci_id (CHAINS_BY_ID c n))"

section \<open>Lemmas\<close>

lemma magnitude_bounds: "0 < n \<Longrightarrow> 2 ^ magnitude n \<le> n \<and> n < 2 ^ Suc (magnitude n)"
proof (induction n rule: magnitude.induct)
  case (1 n)
  show ?case
  proof (cases "n < 2")
    case True
    then show ?thesis using "1.prems" by (subst (1 2) magnitude.simps) simp
  next
    case False
    then have "2 ^ magnitude (n div 2) \<le> n div 2 \<and> n div 2 < 2 ^ Suc (magnitude (n div 2))" by (intro "1.IH") auto
    then show ?thesis using False by (subst (1 2) magnitude.simps) auto
  qed
qed

lemma roundEven_int [simp]: "roundEven (rat_of_int k) = k"
  by (simp add: roundEven_def)

lemma binaryExponent_nat:
  assumes "0 < n"
  shows "binaryExponent (rat_of_nat n) = int (magnitude n)"
proof -
  have "quotient_of (rat_of_nat n) = (int n, 1)" using quotient_of_int [of "int n"] by simp
  moreover have "rat_of_nat (2 ^ magnitude n) \<le> rat_of_nat n"
    using magnitude_bounds [OF assms] by (simp only: of_nat_le_iff)
  moreover have "magnitude 1 = 0" by (subst magnitude.simps) simp
  ultimately show ?thesis by (simp add: binaryExponent_def)
qed

lemma toDouble_nat:
  assumes "n < 2 ^ 53"
  shows "toDouble (rat_of_nat n) = rat_of_nat n"
proof (cases "n = 0")
  case False
  let ?e = "magnitude n"
  have "(2::nat) ^ ?e < 2 ^ 53" using magnitude_bounds [of n] assms False by (meson le_less_trans neq0_conv)
  then have e: "?e \<le> 52" using power_strict_increasing_iff [of "2::nat" ?e 53] by simp
  have step: "(2::rat) powi (int ?e - 52) = 1 / 2 ^ (52 - ?e)"
    using e by (simp add: power_int_def inverse_eq_divide nat_diff_distrib power_one_over flip: of_nat_diff)
  have "rat_of_nat n / (1 / 2 ^ (52 - ?e)) = rat_of_int (int n * 2 ^ (52 - ?e))" by simp
  then have "roundEven (rat_of_nat n / (1 / 2 ^ (52 - ?e))) = int n * 2 ^ (52 - ?e)"
    by (simp only: roundEven_int)
  then show ?thesis
    using False by (simp add: toDouble_def binaryExponent_nat step)
qed (simp add: toDouble_def)

lemma decimal_isDigit: "c \<in> set (decimal n) \<Longrightarrow> isDigit c \<and> \<not> jsSpace c \<and> c \<noteq> CHR ''-'' \<and> c \<noteq> CHR ''+''"
  using decimal_digits [of n] by (auto simp: isDigit_def jsSpace_def)

lemma decimal_not_Nil [simp]: "decimal n \<noteq> []"
  by (subst decimal.simps) simp

lemma signOf_digit: "s = [] \<or> hd s \<noteq> CHR ''-'' \<and> hd s \<noteq> CHR ''+'' \<Longrightarrow> signOf s = (1, s)"
  by (cases s) auto

lemma parseFloat_decimal: "parseFloat (decimal n) = Some (rat_of_nat n)"
proof -
  have hd: "hd (decimal n) \<in> set (decimal n)" by simp
  have "trimStart (decimal n) = decimal n"
    using decimal_isDigit [OF hd] by (intro trimStart_fixed) simp
  moreover have "signOf (decimal n) = (1, decimal n)"
    using decimal_isDigit [OF hd] by (intro signOf_digit) simp
  moreover have "takeWhile isDigit (decimal n) = decimal n"
    using decimal_isDigit by (simp only: takeWhile_eq_all_conv) blast
  moreover have "dropWhile isDigit (decimal n) = []"
    using decimal_isDigit by (simp only: dropWhile_eq_Nil_conv) blast
  ultimately show ?thesis
    by (simp add: parseFloat_def fraction_def exponentOf_def undecimal_decimal Let_def
        del: takeWhile_eq_all_conv dropWhile_eq_Nil_conv)
qed

lemma find_equal: "find (\<lambda>m. m = n) ms = (if n \<in> set ms then Some n else None)"
  by (induction ms) auto

lemma chainOfPath_decimal:
  assumes "n < 2 ^ 53"
  shows "chainOfPath c (Some (decimal n)) = (if n \<in> ci_id ` set (CHAINS c) then Some n else None)"
proof -
  have "sameNumber (Some (decimal n)) = (\<lambda>m. m = n)"
    using toDouble_nat [OF assms] by (auto simp: sameNumber_def jsNumber_def parseFloat_decimal)
  then show ?thesis using CHAINS_BY_ID_entry by (force simp: chainOfPath_def find_equal)
qed

text \<open>the path parameter of a link that was written with a chain's id leads back to that chain, and the decimal
  number of anything else leads to none.\<close>

theorem chainOfPath_inverts:
  "n < 2 ^ 53 \<Longrightarrow> chainOfPath c (Some (decimal n)) = (if n \<in> ci_id ` set (CHAINS c) then Some n else None)"
  by (rule chainOfPath_decimal)

theorem chainOfPath_inverts_witness: "chainOfPath Devnet (Some (decimal 4)) = Some 4"
  by (subst chainOfPath_inverts) (simp_all add: CHAINS_def byCluster_def chain_ids)

text \<open>More text than such numbers is taken for a number.\<close>

lemma parseFloat_lenient:
  "parseFloat '' 2nd'' = Some 2 \<and> parseFloat ''+0.4e1'' = Some 4 \<and> parseFloat ''x2'' = None"
  by (simp add: parseFloat_def trimStart_def jsSpace_def isDigit_def undecimal_def fraction_def exponentOf_def)

end
