(* ===== verification/Recovery.thy ===== *)
theory Recovery
  imports WalletHooks HandleTransfer HandleNft Inputs
begin

text \<open>
  \<open>bridge_ui/src/components/Recovery.tsx\<close>: a transfer that was sent in another session is taken up again. The page finds
  the VAA of a transaction (or is given it), parses it, and a click writes it into the store of the transfer or NFT
  page at the step that redeems. Its state is what the \<open>useState\<close> hooks hold; the two effects that wait are effects
  in the sense of \<open>Effects\<close>, the handlers are the lists of the setters that they call.
\<close>

section \<open>From a transaction to its VAA\<close>

text \<open>The guardians are asked once more than there are hosts.\<close>

definition fetchBoundedVAA :: "('k, 'g, 't) outside \<Rightarrow> nat \<Rightarrow> string \<Rightarrow> string \<Rightarrow> bytes result option" where
  "fetchBoundedVAA E chain emitter sequence =
     (let hosts = WORMHOLE_RPC_HOSTS (o_cluster E) in
      map_option fst (uiGetSignedVAAWithRetry (o_vaaApi E chain emitter sequence) hosts (Some (int (length hosts))) (o_host E)))"

definition fetchBoundedT :: "('k, 'g, 't) outside \<Rightarrow> nat \<Rightarrow> string \<Rightarrow> string \<Rightarrow> ('a, 'k, bytes) task" where
  "fetchBoundedT E chain emitter sequence =
     thenT (emitT (FetchSignedVAA chain emitter sequence)) (pureT (fetchBoundedVAA E chain emitter sequence))"

text \<open>The fields \<open>vaa\<close> and \<open>error\<close> of what the three functions return, null as \<open>None\<close>.\<close>

type_synonym found = "string option \<times> string option"

definition orReport :: "('k, 'g, 't) outside \<Rightarrow> ('a, 'k, bytes) task \<Rightarrow> ('a, 'k, found) task" where
  "orReport E body =
     catchT (bindT body (\<lambda>vaaBytes. liftT (Inr (Some (uint8ArrayToHex vaaBytes), None))))
       (\<lambda>e. let m = parseError (thrownOf (o_foreign E) e) in
          thenT (emitT (Snackbar SevError m)) (liftT (Inr (None, Some m))))"

definition bridgeFor :: "('k, 'g, 't) outside \<Rightarrow> bool \<Rightarrow> ChainId \<Rightarrow> string" where
  "bridgeFor E isNft chainId =
     (if isNft then getNFTBridgeAddressForChain (o_getAddress E) (o_cluster E) chainId
      else getTokenBridgeAddressForChain (o_getAddress E) (o_cluster E) chainId)"

text \<open>A provider has no receipt (null) of a transaction that is not mined; reading the logs of null throws.\<close>

definition recover_evm :: "('k, 'g, 't) outside \<Rightarrow> (string \<Rightarrow> 't eth_receipt option result) \<Rightarrow> string \<Rightarrow> ChainId \<Rightarrow> bool \<Rightarrow>
    ('a, 'k, found) task" where
  "recover_evm E getTransactionReceipt tx chainId isNft =
     orReport E (
       bindT (liftT (getTransactionReceipt tx)) (\<lambda>receipt.
       bindT (liftT (case receipt of
           None \<Rightarrow> Inl (TypeError ''Cannot read property 'logs' of null'')
         | Some r \<Rightarrow> parseSequenceFromLogEth (o_parseLog E) (rc_logs r)
             (getBridgeAddressForChain (o_getAddress E) (o_cluster E) chainId))) (\<lambda>sequence.
       bindT (liftT (getEmitterAddressEth (o_libs E) (bridgeFor E isNft chainId))) (\<lambda>emitterAddress.
       fetchBoundedT E chainId emitterAddress sequence))))"

definition recover_solana :: "('k, 'g, 't) outside \<Rightarrow> string \<Rightarrow> bool \<Rightarrow> ('a, 'k, found) task" where
  "recover_solana E tx isNft =
     orReport E (
       bindT (getTransactionT E tx) (\<lambda>info.
       case info of
         None \<Rightarrow> liftT (Inl (Error ''An error occurred while fetching the transaction info''))
       | Some i \<Rightarrow>
           bindT (liftT (parseSequenceFromLogSolana (si_logMessages i))) (\<lambda>sequence.
           bindT (liftT (getEmitterAddressSolana (o_libs E) (o_emitter_address E)
             (if isNft then SOL_NFT_BRIDGE_ADDRESS (o_cluster E) else SOL_TOKEN_BRIDGE_ADDRESS (o_cluster E)))) (\<lambda>emitterAddress.
           fetchBoundedT E CHAIN_ID_SOLANA emitterAddress sequence))))"

definition recover_terra :: "('k, 'g, 't) outside \<Rightarrow> string \<Rightarrow> ('a, 'k, found) task" where
  "recover_terra E tx =
     orReport E (
       bindT (liftT (tn_txInfo (o_terra E) 0 tx)) (\<lambda>info.
       bindT (liftT (case info of
           None \<Rightarrow> Inl (TypeError ''Cannot read property 'raw_log' of undefined'')
         | Some i \<Rightarrow> parseSequenceFromLogTerra (o_parseJson E) (ti_raw_log i))) (\<lambda>sequence.
       if sequence = '''' then liftT (Inl (Error ''Sequence not found''))
       else
       bindT (liftT (getEmitterAddressTerra (o_libs E) (TERRA_TOKEN_BRIDGE_ADDRESS (o_cluster E)))) (\<lambda>emitterAddress.
       fetchBoundedT E CHAIN_ID_TERRA emitterAddress sequence))))"

section \<open>The state of the component\<close>

record recovery_state =
  rc_type :: string
  rc_sourceChain :: ChainId
  rc_sourceTx :: string
  rc_isLoading :: bool
  rc_txError :: string
  rc_signedVAA :: string
  rc_parsedVAA :: "parsed_vaa option"

datatype recovery_set =
    SetType string
  | SetRecoverySourceChain ChainId
  | SetRecoverySourceTx string
  | SetRecoverySourceTxIsLoading bool
  | SetRecoverySourceTxError string
  | SetRecoverySignedVAA string
  | SetRecoveryParsedVAA "parsed_vaa option"

definition recovery_initial :: recovery_state where
  "recovery_initial = \<lparr>rc_type = ''Token'', rc_sourceChain = CHAIN_ID_SOLANA, rc_sourceTx = '''', rc_isLoading = False,
     rc_txError = '''', rc_signedVAA = '''', rc_parsedVAA = None\<rparr>"

fun recoverySet :: "recovery_state \<Rightarrow> recovery_set \<Rightarrow> recovery_state" where
  "recoverySet s (SetType v) = s\<lparr>rc_type := v\<rparr>"
| "recoverySet s (SetRecoverySourceChain v) = s\<lparr>rc_sourceChain := v\<rparr>"
| "recoverySet s (SetRecoverySourceTx v) = s\<lparr>rc_sourceTx := v\<rparr>"
| "recoverySet s (SetRecoverySourceTxIsLoading v) = s\<lparr>rc_isLoading := v\<rparr>"
| "recoverySet s (SetRecoverySourceTxError v) = s\<lparr>rc_txError := v\<rparr>"
| "recoverySet s (SetRecoverySignedVAA v) = s\<lparr>rc_signedVAA := v\<rparr>"
| "recoverySet s (SetRecoveryParsedVAA v) = s\<lparr>rc_parsedVAA := v\<rparr>"

definition isNFT :: "recovery_state \<Rightarrow> bool" where
  "isNFT s \<longleftrightarrow> rc_type s = ''NFT''"

text \<open>What both payloads have, and the amount that only a transfer of tokens has.\<close>

definition parsedPayload :: "(bytes \<Rightarrow> nat result) \<Rightarrow> recovery_state \<Rightarrow> (nft_payload + transfer_payload) option" where
  "parsedPayload bigNumberFrom s =
     (case rc_parsedVAA s of
        None \<Rightarrow> None
      | Some v \<Rightarrow>
          (case (if isNFT s then mapR Inl (parseNFTPayload bigNumberFrom (vaa_payload v))
                 else mapR Inr (parseTransferPayload bigNumberFrom (vaa_payload v))) of
             Inl e \<Rightarrow> None
           | Inr p \<Rightarrow> Some p))"

definition payloadTargetChain :: "nft_payload + transfer_payload \<Rightarrow> nat" where
  "payloadTargetChain p = (case p of Inl n \<Rightarrow> nftTargetChain n | Inr t \<Rightarrow> transfer_payload.targetChain t)"

section \<open>Effects\<close>

definition recovery_fromPath :: "cluster \<Rightarrow> string option \<Rightarrow> string option \<Rightarrow> recovery_set list" where
  "recovery_fromPath c pathSourceChain pathSourceTransaction =
     (if \<not> truthy pathSourceChain \<and> \<not> truthy pathSourceTransaction then []
      else (case chainOfPath c pathSourceChain of Some n \<Rightarrow> if n \<noteq> 0 then [SetRecoverySourceChain n] else [] | None \<Rightarrow> []) @
        (if truthy pathSourceTransaction then [SetRecoverySourceTx (the pathSourceTransaction)] else []))"

record recovery_deps =
  rd_sourceChain :: ChainId
  rd_sourceTx :: string
  rd_provider :: "nat option"
  rd_isNFT :: bool
  rd_isReady :: bool

text \<open>The networks at the time of the answer; a provider is named by its number.\<close>

record ('k, 'g, 't) recovery_net =
  rn_outside :: "('k, 'g, 't) outside"
  rn_receipt :: "nat \<Rightarrow> string \<Rightarrow> 't eth_receipt option result"

definition whenFound :: "(recovery_set, 'k, found) task \<Rightarrow> recovery_set list" where
  "whenFound t =
     (case snd (t []) of
        Some (Inr (vaa, err)) \<Rightarrow>
          SetRecoverySourceTxIsLoading False #
          (if truthy vaa then [SetRecoverySignedVAA (the vaa)] else []) @
          (if truthy err then [SetRecoverySourceTxError (the err)] else [])
      | _ \<Rightarrow> [])"

definition whoAnswers :: "recovery_deps \<Rightarrow> (('k, 'g, 't) recovery_net \<Rightarrow> (recovery_set, 'k, found) task) option" where
  "whoAnswers d =
     (if isEVMChain (rd_sourceChain d) \<and> rd_provider d \<noteq> None
      then Some (\<lambda>N. recover_evm (rn_outside N) (rn_receipt N (the (rd_provider d))) (rd_sourceTx d) (rd_sourceChain d) (rd_isNFT d))
      else if rd_sourceChain d = CHAIN_ID_SOLANA then Some (\<lambda>N. recover_solana (rn_outside N) (rd_sourceTx d) (rd_isNFT d))
      else if rd_sourceChain d = CHAIN_ID_TERRA then Some (\<lambda>N. recover_terra (rn_outside N) (rd_sourceTx d))
      else None)"

definition recoverTx_effect :: "(recovery_deps, ('k, 'g, 't) recovery_net, recovery_set) effect" where
  "recoverTx_effect d =
     Inr (if rd_sourceTx d \<noteq> '''' \<and> (\<not> isEVMChain (rd_sourceChain d) \<or> rd_isReady d)
       then (case whoAnswers d of
           Some ask \<Rightarrow> \<lparr>atOnce = [SetRecoverySourceTxError '''', SetRecoverySourceTxIsLoading True],
             whenAnswered = Some (\<lambda>N. whenFound (ask N)), cleansUp = True\<rparr>
         | None \<Rightarrow> \<lparr>atOnce = [], whenAnswered = None, cleansUp = True\<rparr>)
       else noEffect)"

text \<open>Parsing waits for the module that parses, which may fail to load.\<close>

definition parseVAA_effect :: "(bytes \<Rightarrow> parsed_vaa result) \<Rightarrow> (string, bool, recovery_set) effect" where
  "parseVAA_effect parse signedVAA =
     Inr (if signedVAA \<noteq> ''''
       then \<lparr>atOnce = [],
             whenAnswered = Some (\<lambda>loaded.
               [SetRecoveryParsedVAA (if loaded
                  then (case parse (hexToUint8Array signedVAA) of Inr v \<Rightarrow> Some v | Inl e \<Rightarrow> None) else None)]),
             cleansUp = True\<rparr>
       else \<lparr>atOnce = [], whenAnswered = None, cleansUp = True\<rparr>)"

section \<open>Handlers\<close>

definition handleTypeChange :: "cluster \<Rightarrow> recovery_state \<Rightarrow> string \<Rightarrow> recovery_set list" where
  "handleTypeChange c s value =
     [SetRecoverySourceChain
        (if value = ''NFT'' \<and> rc_sourceChain s \<notin> ci_id ` set (CHAINS_WITH_NFT_SUPPORT c) then CHAIN_ID_SOLANA else rc_sourceChain s),
      SetType value]"

definition handleSourceChainChange :: "ChainId \<Rightarrow> recovery_set list" where
  "handleSourceChainChange value = [SetRecoverySourceTx '''', SetRecoverySourceChain value]"

definition handleSourceTxChange :: "string \<Rightarrow> recovery_set list" where
  "handleSourceTxChange value = [SetRecoverySourceTx (trim value)]"

definition handleSignedVAAChange :: "string \<Rightarrow> recovery_set list" where
  "handleSignedVAAChange value = [SetRecoverySignedVAA (trim value)]"

text \<open>The action that the click dispatches and the page that it leads to.\<close>

definition handleRecoverClick :: "(bytes \<Rightarrow> nat result) \<Rightarrow> recovery_state \<Rightarrow> (('a, 'b, 'c) root_action \<times> string) option" where
  "handleRecoverClick bigNumberFrom s =
     (case parsedPayload bigNumberFrom s of
        None \<Rightarrow> None
      | Some p \<Rightarrow>
          if rc_signedVAA s = '''' \<or> payloadTargetChain p = 0 then None
          else case p of
            Inl n \<Rightarrow> Some (NftAction (NftSetRecoveryVaa
              \<lparr>nrp_vaa = rc_signedVAA s, nrp_targetChain = nftTargetChain n, nrp_targetAddress = nftTargetAddress n,
               nrp_originChain = nftOriginChain n, nrp_originAddress = nftOriginAddress n\<rparr>), ''/nft'')
          | Inr t \<Rightarrow> Some (TransferAction (SetRecoveryVaa
              \<lparr>rp_vaa = rc_signedVAA s, rp_targetChain = transfer_payload.targetChain t,
               rp_targetAddress = transfer_payload.targetAddress t, rp_originChain = transfer_payload.originChain t,
               rp_originAddress = transfer_payload.originAddress t, rp_amount = decimal (transfer_payload.amount t)\<rparr>), ''/transfer''))"

section \<open>Lemmas\<close>

text \<open>One host that has the VAA is enough: it is asked before the attempts are used up.\<close>

lemma fetchBoundedVAA_one_host:
  assumes host: "host \<in> set (WORMHOLE_RPC_HOSTS (o_cluster E))" "- 1 \<le> o_host E"
    and has: "\<And>n. o_vaaApi E ch em sq n (Some host) = Inr (Some b)"
    and agree: "\<And>n h b'. o_vaaApi E ch em sq n h = Inr (Some b') \<Longrightarrow> b' = b"
  shows "fetchBoundedVAA E ch em sq = Some (Inr b)"
proof -
  let ?hosts = "WORMHOLE_RPC_HOSTS (o_cluster E)" and ?api = "o_vaaApi E ch em sq"
  let ?m = "Some (int (length ?hosts))"
  let ?at = "attempt ?api ?hosts ?m (o_host E)"
  define c where "c = nat (o_host E + 1)"
  have c: "int c = o_host E + 1" using host(2) by (simp add: c_def)
  obtain j where j: "j < length ?hosts" "nextHost ?hosts (int c + int j) = Some host"
    using hosts_covered [OF host(1)] by blast
  have "?at j = Some (Inr b)" using j(2) has by (simp add: attempt_def c ac_simps)
  then obtain k where k: "k \<le> j" "?at k \<noteq> None" "\<And>i. i < k \<Longrightarrow> ?at i = None"
    using exists_least_iff [of "\<lambda>k. k \<le> j \<and> ?at k \<noteq> None"] by auto
  then have "?at k = Some (Inr b)"
    using j(1) agree by (auto simp: attempt_def exhausted_def split: sum.splits option.splits if_splits)
  then have "sdkLoop ?api ?hosts ?m 0 (o_host E) = Some (Inr b)"
    using sdk.loop_first [of 0 k ?api ?hosts ?m "o_host E" "Inr b"] k(3) by simp
  then show ?thesis
    by (simp add: fetchBoundedVAA_def Let_def uiGetSignedVAAWithRetry_def ui_sdk)
qed

text \<open>When no host answers with a falsy value, the attempts end.\<close>

lemma fetchBoundedVAA_returns:
  assumes "\<And>n h. o_vaaApi E ch em sq n h \<noteq> Inr None"
  shows "\<exists>r. fetchBoundedVAA E ch em sq = Some r"
proof -
  let ?hosts = "WORMHOLE_RPC_HOSTS (o_cluster E)" and ?api = "o_vaaApi E ch em sq"
  let ?m = "Some (int (length ?hosts))"
  have "attempt ?api ?hosts ?m (o_host E) (length ?hosts) \<noteq> None"
    using assms by (auto simp: attempt_def exhausted_def split: sum.splits option.splits)
  then have "\<exists>r. sdkLoop ?api ?hosts ?m 0 (o_host E) = Some r"
    using sdk.loop_returns [of 0 "length ?hosts" ?api ?hosts ?m "o_host E"] by simp
  then show ?thesis by (simp add: fetchBoundedVAA_def Let_def uiGetSignedVAAWithRetry_def ui_sdk)
qed

text \<open>A body that settles is reported: with the VAA, or with the error that is shown.\<close>

lemma orReport_run:
  "orReport E body tr = (case body tr of
      (tr', None) \<Rightarrow> (tr', None)
    | (tr', Some (Inr b)) \<Rightarrow> (tr', Some (Inr (Some (toHex b), None)))
    | (tr', Some (Inl e)) \<Rightarrow> (tr' @ [Snackbar SevError (parseError (thrownOf (o_foreign E) e))],
        Some (Inr (None, Some (parseError (thrownOf (o_foreign E) e))))))"
  by (simp add: orReport_def catchT_def bindT_def Let_def thenT_emit liftT_def pureT_def uint8ArrayToHex_def
      split: prod.split option.split sum.split)

definition settlesT :: "('a, 'k, 'x) task \<Rightarrow> bool" where
  "settlesT m \<longleftrightarrow> (\<forall>tr. snd (m tr) \<noteq> None)"

lemma settlesT_liftT: "settlesT (liftT v)"
  by (simp add: settlesT_def liftT_def pureT_def)

lemma settlesT_getTransactionT: "settlesT (getTransactionT E tx)"
  by (simp add: settlesT_def getTransactionT_def)

lemma settlesT_bindT: "settlesT m \<Longrightarrow> (\<And>x. settlesT (f x)) \<Longrightarrow> settlesT (bindT m f)"
  by (simp add: settlesT_def bindT_def split: prod.split option.split sum.split) (metis option.distinct(1) snd_conv)

lemma settlesT_option: "settlesT n \<Longrightarrow> (\<And>x. settlesT (f x)) \<Longrightarrow> settlesT (case v of None \<Rightarrow> n | Some x \<Rightarrow> f x)"
  by (simp split: option.split)

lemma settlesT_if: "settlesT m \<Longrightarrow> settlesT n \<Longrightarrow> settlesT (if b then m else n)"
  by simp

lemma settlesT_fetchBoundedT:
  assumes "\<And>n h. o_vaaApi E ch em sq n h \<noteq> Inr None"
  shows "settlesT (fetchBoundedT E ch em sq)"
  using fetchBoundedVAA_returns [OF assms] by (auto simp: settlesT_def fetchBoundedT_def thenT_emit pureT_def)

lemmas settlesT_rules = settlesT_liftT settlesT_getTransactionT settlesT_bindT settlesT_option settlesT_if settlesT_fetchBoundedT

text \<open>The result has either a VAA or an error.\<close>

lemma orReport_settles:
  assumes "settlesT body"
  shows "\<exists>x. snd (orReport E body tr) = Some (Inr (Some x, None)) \<or> snd (orReport E body tr) = Some (Inr (None, Some x))"
proof -
  obtain tr' r where b: "body tr = (tr', Some r)" using assms by (metis not_None_eq prod.collapse settlesT_def)
  show ?thesis using b by (cases r) (simp_all add: orReport_run)
qed

section \<open>Properties\<close>

text \<open>whatever the networks do, looking for the VAA of a transaction ends, with a VAA or with an error to show, as long
  as the guardians' hosts answer at all: the requests are bounded, unlike those of a page that sends.\<close>

theorem recover_ends:
  assumes "\<And>ch em sq n h. o_vaaApi E ch em sq n h \<noteq> Inr None"
    and "t \<in> {recover_evm E R tx ch isNft, recover_solana E tx isNft, recover_terra E tx}"
  shows "\<exists>x. snd (t tr) = Some (Inr (Some x, None)) \<or> snd (t tr) = Some (Inr (None, Some x))"
proof -
  have "\<exists>body. t = orReport E body \<and> settlesT body"
    using assms(2) unfolding recover_evm_def recover_solana_def recover_terra_def
    by (elim insertE emptyE; intro exI conjI; assumption?) (auto intro!: settlesT_rules assms(1))
  then show ?thesis using orReport_settles by blast
qed

text \<open>An environment in which nothing is found: no log parses.\<close>

definition demo_nothing :: "(string, unit, unit) outside" where
  "demo_nothing = demo_outside\<lparr>o_parseLog := (\<lambda>l. Inl (Error ''no log'')), o_getTransaction := (\<lambda>h t. Inr None),
     o_vaaApi := (\<lambda>ch em sq n h. Inl (Error ''down''))\<rparr>"

theorem recover_ends_witness:
  "\<exists>x. snd (recover_evm demo_nothing (\<lambda>tx. Inr None) ''0x1'' 2 False ([] :: (unit, string) trace)) = Some (Inr (Some x, None)) \<or>
       snd (recover_evm demo_nothing (\<lambda>tx. Inr None) ''0x1'' 2 False ([] :: (unit, string) trace)) = Some (Inr (None, Some x))"
  by (rule recover_ends [of demo_nothing _ "\<lambda>tx. Inr None" "''0x1''" 2 False]) (simp_all add: demo_nothing_def)



interpretation found: cancelling recoverTx_effect
  by unfold_locales (auto simp: recoverTx_effect_def noEffect_def split: if_splits option.splits)

interpretation parsed: cancelling "parseVAA_effect parse" for parse
  by unfold_locales (auto simp: parseVAA_effect_def split: if_splits)

text \<open>What is typed, chosen and answered by the other effect does not touch the parsed VAA.\<close>

definition leavesParsed :: "(recovery_state \<Rightarrow> recovery_state) \<Rightarrow> bool" where
  "leavesParsed f \<longleftrightarrow> (\<forall>s. rc_parsedVAA (f s) = rc_parsedVAA s)"

lemma parsed_settled:
  assumes "hookRun (parseVAA_effect parse) rc_signedVAA recoverySet evs s0 = (s, m)"
    and "\<And>f. Outside f \<in> set evs \<Longrightarrow> leavesParsed f"
    and "\<not> gone m" "\<forall>p\<in>set (pending m). cancelled p" "lastDeps m = Some (rc_signedVAA s)"
    and "rc_signedVAA s \<noteq> ''''" "rc_parsedVAA s = Some v"
  shows "parse (hexToUint8Array (rc_signedVAA s)) = Inr v"
proof -
  let ?holds = "\<lambda>s d. d \<noteq> '''' \<longrightarrow> (\<forall>v. rc_parsedVAA s = Some v \<longrightarrow> parse (hexToUint8Array d) = Inr v)"
  have "?holds s (rc_signedVAA s)"
  proof (rule parsed.run_settled [OF _ _ _ assms(1,3-5), where holds = ?holds])
    show "?holds (foldl recoverySet s (atOnce r)) d"
      if "parseVAA_effect parse d = Inr r" "whenAnswered r = None" for s d r
      using that by (auto simp: parseVAA_effect_def split: if_splits)
    show "?holds (foldl recoverySet s (f e)) d"
      if "parseVAA_effect parse d = Inr r" "whenAnswered r = Some f" for s d r f e
      using that by (auto simp: parseVAA_effect_def split: if_splits sum.splits)
    show "?holds (f s) d" if "Outside f \<in> set evs" "?holds s d" for f s d
      using that assms(2) by (simp add: leavesParsed_def)
  qed
  then show ?thesis using assms(6,7) by simp
qed

text \<open>C11: what a click takes over is what the VAA says. When the effect that parses has run for the VAA in the field and no
  answer is pending, a click on a token VAA brings the transfer page to the step that redeems exactly this VAA, for the
  chain, recipient, origin and amount of its payload, with a source that differs from the target; else it does nothing.\<close>

theorem recover_click_reads:
  assumes run: "hookRun (parseVAA_effect parse) rc_signedVAA recoverySet evs s0 = (s, m)"
      "\<And>f. Outside f \<in> set evs \<Longrightarrow> leavesParsed f"
    and quiet: "\<not> gone m" "\<forall>p\<in>set (pending m). cancelled p" "lastDeps m = Some (rc_signedVAA s)"
    and B: "big_number_laws B" and lens: "length addr = 32" "length rcpt = 32"
    and nums: "amt < 256 ^ 32" "oc < 65536" "rc < 65536"
    and v: "parse (hexToUint8Array (rc_signedVAA s)) = Inr v"
      "vaa_payload v = encodeTransfer ty amt addr oc rcpt rc wormholeFee" "\<not> isNFT s"
    and click: "handleRecoverClick B s = Some (a, page)" and inv: "transfer_inv (transfer rs)"
  shows "let t = transfer (rootReducer now rs a) in
    page = ''/transfer'' \<and> useTransferSignedVAA t = Some (hexToUint8Array (rc_signedVAA s)) \<and>
    targetChain t = rc \<and> targetAddressHex t = Some (toHex rcpt) \<and> originChain t = Some oc \<and>
    originAsset t = Some (toHex addr) \<and> transfer_state.amount t = decimal amt \<and> activeStep t = 3 \<and> isRecovery t \<and>
    sourceChain t \<noteq> targetChain t"
proof -
  note parseTransferPayload_reads [OF B lens nums, of ty wormholeFee "[]", folded v(2), simplified append_Nil2, folded v(2)]
  moreover have p: "rc_signedVAA s \<noteq> ''''" "rc_parsedVAA s \<noteq> None"
    using click by (auto simp: handleRecoverClick_def parsedPayload_def split: option.splits if_splits)
  moreover have "rc_parsedVAA s = Some v"
    using parsed_settled [OF run quiet p(1)] v(1) p(2) by auto
  ultimately have a: "a = TransferAction (SetRecoveryVaa \<lparr>rp_vaa = rc_signedVAA s, rp_targetChain = rc, rp_targetAddress = toHex rcpt,
      rp_originChain = oc, rp_originAddress = toHex addr, rp_amount = decimal amt\<rparr>)" "page = ''/transfer''"
    using click v(3) by (auto simp: handleRecoverClick_def parsedPayload_def payloadTargetChain_def split: if_splits)
  have "sourceChain (transfer rs) \<noteq> targetChain (transfer rs)" using inv by (simp add: transfer_inv_def)
  then show ?thesis
    using p(1) a by (auto simp: transfer_setRecoveryVaa_def useTransferSignedVAA_def Let_def)
qed

text \<open>until the parser has answered for a new VAA, a click sends the new VAA together with the target, recipient and
  amount of the earlier one.\<close>

theorem recover_click_mixes:
  assumes "rc_signedVAA s \<noteq> ''''" "v \<noteq> ''''"
    and "handleRecoverClick B s = Some (TransferAction (SetRecoveryVaa payload), page)"
  shows "handleRecoverClick B (recoverySet s (SetRecoverySignedVAA v)) =
    Some (TransferAction (SetRecoveryVaa (payload\<lparr>rp_vaa := v\<rparr>)), page)"
  using assms
  by (auto simp: handleRecoverClick_def parsedPayload_def isNFT_def split: option.splits sum.splits if_splits)

text \<open>a VAA or an error that the search for a transaction puts on the page is the result for the transaction, chain and
  kind that were last asked about.\<close>

theorem recovered_hears_last:
  assumes "hookRun recoverTx_effect deps recoverySet evs s0 = (s, m)" "settle k N m = (m', acts)" "acts \<noteq> []"
  shows "\<exists>d ask. lastDeps m = Some d \<and> rd_sourceTx d \<noteq> '''' \<and> whoAnswers d = Some ask \<and>
    (\<exists>vaa err. snd (ask N []) = Some (Inr (vaa, err)) \<and>
      (\<forall>v. SetRecoverySignedVAA v \<in> set acts \<longrightarrow> vaa = Some v) \<and>
      (\<forall>e. SetRecoverySourceTxError e \<in> set acts \<longrightarrow> err = Some e))"
proof -
  obtain d r f where d: "lastDeps m = Some d" "recoverTx_effect d = Inr r" "whenAnswered r = Some f" "acts = f N"
    using found.answer_is_last [OF assms] by blast
  then obtain ask where ask: "whoAnswers d = Some ask" "rd_sourceTx d \<noteq> ''''" "f = (\<lambda>N. whenFound (ask N))"
    by (auto simp: recoverTx_effect_def noEffect_def split: if_splits option.splits)
  then show ?thesis
    using d assms(3) by (auto simp: whenFound_def truthy_def split: option.splits sum.splits prod.splits if_splits)
qed

section \<open>Witnesses\<close>

definition demo_parsed_vaa :: parsed_vaa where
  "demo_parsed_vaa = \<lparr>vaa_timestamp = 1, vaa_nonce = 2, vaa_emitter_chain = 2, vaa_emitter_address = [], vaa_sequence = 3,
     vaa_consistency_level = 1, vaa_payload = encodeTransfer 1 1000 (replicate 32 7) 2 (replicate 32 9) 4 0\<rparr>"

definition demo_recovery_events :: "(recovery_state, bool) hook_event list" where
  "demo_recovery_events = [Outside (\<lambda>s. recoverySet s (SetRecoverySignedVAA ''01'')), Flush, Settle 0 True]"

definition demo_recovery :: recovery_state where
  "demo_recovery = recovery_initial\<lparr>rc_signedVAA := ''01'', rc_parsedVAA := Some demo_parsed_vaa\<rparr>"

lemma demo_recovery_run:
  "\<exists>m. hookRun (parseVAA_effect (\<lambda>bs. Inr demo_parsed_vaa)) rc_signedVAA recoverySet demo_recovery_events recovery_initial =
     (demo_recovery, m) \<and> \<not> gone m \<and> pending m = [] \<and> lastDeps m = Some ''01''"
  by (simp add: demo_recovery_events_def demo_recovery_def recovery_initial_def parseVAA_effect_def hook_defs Let_def)

lemma demo_payload:
  "\<exists>p. parseTransferPayload demo_bigNumberFrom (vaa_payload demo_parsed_vaa) = Inr p \<and> transfer_payload.targetChain p = 4"
  using parseTransferPayload_reads [OF demo_big_number, of "replicate 32 7" "replicate 32 9" 1000 2 4 1 0 "[]"]
  by (simp add: demo_parsed_vaa_def)

lemma demo_recovery_click:
  "\<exists>payload. (handleRecoverClick demo_bigNumberFrom demo_recovery :: ((unit, unit, unit) root_action \<times> string) option) =
     Some (TransferAction (SetRecoveryVaa payload), ''/transfer'')"
  using demo_payload
  by (auto simp: handleRecoverClick_def parsedPayload_def payloadTargetChain_def demo_recovery_def recovery_initial_def isNFT_def
    simp del: mapR_eq_Inr bindR_eq_Inr)

theorem recover_click_reads_witness:
  "\<exists>a. (handleRecoverClick demo_bigNumberFrom demo_recovery :: ((unit, unit, unit) root_action \<times> string) option) =
       Some (a, ''/transfer'') \<and>
     transfer_state.amount (transfer (rootReducer ''now'' store_initial a)) = decimal 1000 \<and>
     targetChain (transfer (rootReducer ''now'' store_initial a)) = 4"
proof -
  obtain m where m: "hookRun (parseVAA_effect (\<lambda>bs. Inr demo_parsed_vaa)) rc_signedVAA recoverySet demo_recovery_events recovery_initial =
      (demo_recovery, m)" "\<not> gone m" "\<forall>p\<in>set (pending m). cancelled p" "lastDeps m = Some (rc_signedVAA demo_recovery)"
    using demo_recovery_run by (auto simp: demo_recovery_def)
  obtain payload where click: "(handleRecoverClick demo_bigNumberFrom demo_recovery :: ((unit, unit, unit) root_action \<times> string) option) =
      Some (TransferAction (SetRecoveryVaa payload), ''/transfer'')"
    using demo_recovery_click by blast
  have "transfer_inv (transfer (store_initial :: (unit, unit, unit) root_state))"
    by (simp add: store_initial_def transfer.init_inv)
  moreover have "leavesParsed f" if "Outside f \<in> set demo_recovery_events" for f
    using that by (auto simp: demo_recovery_events_def leavesParsed_def)
  moreover have "\<not> isNFT demo_recovery" by (simp add: isNFT_def demo_recovery_def recovery_initial_def)
  ultimately have "transfer_state.amount (transfer (rootReducer ''now'' (store_initial :: (unit, unit, unit) root_state) (TransferAction (SetRecoveryVaa payload)))) = decimal 1000 \<and>
      targetChain (transfer (rootReducer ''now'' (store_initial :: (unit, unit, unit) root_state) (TransferAction (SetRecoveryVaa payload)))) = 4"
    using recover_click_reads [OF m(1) _ m(2-4) demo_big_number _ _ _ _ _ refl _ _ click, of "replicate 32 7" "replicate 32 9" 1000 2 4 1 0
      store_initial "''now''"]
    by (simp add: demo_parsed_vaa_def Let_def)
  then show ?thesis using click by blast
qed

theorem recover_click_mixes_witness:
  "\<exists>payload. (handleRecoverClick demo_bigNumberFrom (recoverySet demo_recovery (SetRecoverySignedVAA ''02'')) ::
       ((unit, unit, unit) root_action \<times> string) option) =
     Some (TransferAction (SetRecoveryVaa payload), ''/transfer'') \<and> rp_vaa payload = ''02''"
proof -
  obtain payload where "(handleRecoverClick demo_bigNumberFrom demo_recovery :: ((unit, unit, unit) root_action \<times> string) option) =
      Some (TransferAction (SetRecoveryVaa payload), ''/transfer'')"
    using demo_recovery_click by blast
  from recover_click_mixes [OF _ _ this, of "''02''"]
  have "(handleRecoverClick demo_bigNumberFrom (recoverySet demo_recovery (SetRecoverySignedVAA ''02'')) ::
      ((unit, unit, unit) root_action \<times> string) option) =
    Some (TransferAction (SetRecoveryVaa (payload\<lparr>rp_vaa := ''02''\<rparr>)), ''/transfer'')"
    by (simp add: demo_recovery_def)
  then show ?thesis by (intro exI [of _ "payload\<lparr>rp_vaa := ''02''\<rparr>"]) simp
qed

definition demo_recovery_net :: "(string, unit, unit) recovery_net" where
  "demo_recovery_net = \<lparr>rn_outside = demo_nothing, rn_receipt = (\<lambda>p tx. Inr None)\<rparr>"

definition demo_recovery_deps :: "recovery_state \<Rightarrow> recovery_deps" where
  "demo_recovery_deps s = \<lparr>rd_sourceChain = rc_sourceChain s, rd_sourceTx = rc_sourceTx s, rd_provider = None,
     rd_isNFT = isNFT s, rd_isReady = True\<rparr>"

text \<open>Two transactions in a row: the first question is cancelled, the second is heard.\<close>

definition demo_lookup :: "recovery_state \<times> (recovery_deps, (string, unit, unit) recovery_net, recovery_set) mounted" where
  "demo_lookup = hookRun recoverTx_effect demo_recovery_deps recoverySet
     [Outside (\<lambda>s. recoverySet s (SetRecoverySourceTx ''a'')), Flush, Outside (\<lambda>s. recoverySet s (SetRecoverySourceTx ''b'')), Flush]
     recovery_initial"

lemma demo_lookup_settles:
  "snd (settle 0 demo_recovery_net (snd demo_lookup)) = [] \<and>
   snd (settle 1 demo_recovery_net (snd demo_lookup)) = [SetRecoverySourceTxIsLoading False,
     SetRecoverySourceTxError ''An error occurred while fetching the transaction info'']"
  by (simp add: demo_lookup_def hook_defs Let_def recoverTx_effect_def whoAnswers_def demo_recovery_deps_def recovery_initial_def
    isEVMChain_def chain_ids whenFound_def recover_solana_def orReport_run bindT_def getTransactionT_def liftT_def pureT_def
    demo_recovery_net_def demo_nothing_def)

theorem recovered_hears_last_witness:
  "\<exists>d. lastDeps (snd demo_lookup) = Some d \<and> rd_sourceTx d \<noteq> []"
proof -
  have "snd (settle 1 demo_recovery_net (snd demo_lookup)) \<noteq> []" using demo_lookup_settles by simp
  from recovered_hears_last [OF prod.collapse [symmetric, of demo_lookup, unfolded demo_lookup_def] prod.collapse [symmetric],
      folded demo_lookup_def, OF this]
  show ?thesis by blast
qed

end
