(* ===== verification/TokenAccounts.thy ===== *)
theory TokenAccounts
  imports AssetHooks Inputs
begin

text \<open>
  \<open>bridge_ui/src/hooks/useGetSourceParsedTokenAccounts.ts\<close>: the list of tokens and NFTs that the connected wallet holds
  on the source chain, with the parts of \<open>utils/solana.ts\<close> that it uses. The accounts that it makes of what a node, the
  Covalent service or a provider answers are functions; its effects are effects of \<open>Effects\<close> over the store of the
  page and the state of the hook. Formatting amounts is the ethers library's, a parameter.
\<close>

section \<open>Reading many accounts (\<open>utils/solana.ts\<close>)\<close>

definition solana_chunks :: "'x list \<Rightarrow> nat \<Rightarrow> 'x list list" where
  "solana_chunks xs n = map (\<lambda>i. js_slice xs (i * n) ((i + 1) * n)) [0..<(length xs + (n - 1)) div n]"

text \<open>The node answers for a list of keys, with null (\<open>None\<close>) for an account that does not exist. Of several requests that
  fail, the error that is reported is that of the first.\<close>

definition getMultipleAccounts :: "('k list \<Rightarrow> 'acc option list result) \<Rightarrow> 'k list \<Rightarrow> 'acc option list result" where
  "getMultipleAccounts getMultipleAccountsInfo pubkeys = mapR concat (sequenceR (map getMultipleAccountsInfo (solana_chunks pubkeys 99)))"

text \<open>A mint account: spl-token's layout gives the bytes of the authority and, lowest first, of the supply.\<close>

record mint_info =
  mi_mintAuthority :: string
  mi_supply :: string

definition extractMintInfo :: "(bytes \<Rightarrow> (bytes \<times> bytes) result) \<Rightarrow> (bytes \<Rightarrow> string result) \<Rightarrow> (bytes \<Rightarrow> nat result) \<Rightarrow>
    bytes \<Rightarrow> mint_info result" where
  "extractMintInfo decode pkString bigNumberFrom account =
     bindR (decode account) (\<lambda>(auth, sup).
     bindR (pkString auth) (\<lambda>pubkey.
     bindR (bigNumberFrom (rev sup)) (\<lambda>n.
     Inr \<lparr>mi_mintAuthority = pubkey, mi_supply = decimal n\<rparr>)))"

definition shortenAddress :: "string \<Rightarrow> string" where
  "shortenAddress address =
     (if length address > 10 then js_slice address 0 4 @ ''...'' @ drop (length address - 4) address else address)"

section \<open>Accounts\<close>

definition createParsedTokenAccount :: "string \<Rightarrow> string \<Rightarrow> string \<Rightarrow> nat \<Rightarrow> rat \<Rightarrow> string \<Rightarrow> string option \<Rightarrow>
    string option \<Rightarrow> string option \<Rightarrow> bool option \<Rightarrow> parsed_token_account" where
  "createParsedTokenAccount pk mint amt decs ui uiString symbol nm lg native =
     \<lparr>publicKey = pk, mintKey = mint, acc_amount = amt, decimals = decs, uiAmount = ui, uiAmountString = uiString,
      acc_symbol = symbol, acc_name = nm, logo = lg, isNativeAsset = native\<rparr>"

definition createNFTParsedTokenAccount :: "string \<Rightarrow> string \<Rightarrow> string \<Rightarrow> nat \<Rightarrow> rat \<Rightarrow> string \<Rightarrow> string \<Rightarrow> string option \<Rightarrow>
    string option \<Rightarrow> string option \<Rightarrow> string option \<Rightarrow> string option \<Rightarrow> string option \<Rightarrow> string option \<Rightarrow> string option \<Rightarrow>
    string option \<Rightarrow> nft_account" where
  "createNFTParsedTokenAccount pk mint amt decs ui uiString tid symbol nm u animation external img img256 nftNm descr =
     \<lparr>publicKey = pk, mintKey = mint, acc_amount = amt, decimals = decs, uiAmount = ui, uiAmountString = uiString,
      acc_symbol = symbol, acc_name = nm, logo = None, isNativeAsset = None,
      tokenId = Some tid, uri = u, animation_url = animation, external_url = external, image = img, image_256 = img256,
      nftName = nftNm, description = descr\<rparr>"

text \<open>A token account of Solana as the node parses it.\<close>

record 'k sol_token_account =
  sa_pubkey :: 'k
  sa_mint :: string
  sa_amount :: string
  sa_decimals :: nat
  sa_uiAmount :: rat
  sa_uiAmountString :: string

definition createParsedTokenAccountFromInfo :: "('k \<Rightarrow> string) \<Rightarrow> 'k sol_token_account \<Rightarrow> parsed_token_account" where
  "createParsedTokenAccountFromInfo toString item =
     \<lparr>publicKey = toString (sa_pubkey item), mintKey = sa_mint item, acc_amount = sa_amount item, decimals = sa_decimals item,
      uiAmount = sa_uiAmount item, uiAmountString = sa_uiAmountString item, acc_symbol = None, acc_name = None, logo = None,
      isNativeAsset = None\<rparr>"

text \<open>What Covalent answers; a field that is missing is \<open>None\<close>.\<close>

record covalent_nft =
  cn_token_id :: string
  cn_token_balance :: string
  cn_token_url :: "string option"
  cn_animation_url :: "string option"
  cn_external_url :: "string option"
  cn_image :: "string option"
  cn_image_256 :: "string option"
  cn_name :: "string option"
  cn_description :: "string option"

record covalent_item =
  cv_contract_decimals :: "nat option"
  cv_ticker_symbol :: "string option"
  cv_contract_name :: "string option"
  cv_contract_address :: "string option"
  cv_logo_url :: "string option"
  cv_balance :: "string option"
  cv_supports_erc :: "string list option"
  cv_nft_data :: "covalent_nft list option"

text \<open>\<open>Number\<close> and \<open>parseFloat\<close> agree on the decimal numbers that \<open>formatUnits\<close> writes; no other text occurs here.\<close>

definition uiNumber :: "string \<Rightarrow> rat" where
  "uiNumber s = (case jsNumber s of None \<Rightarrow> 0 | Some x \<Rightarrow> x)"

definition logoOverrides :: "string \<rightharpoonup> string" where
  "logoOverrides = [''0x727f064a78dc734d33eec18d5370aef32ffd46e4'' \<mapsto>
     ''https://orion.money/assets/ORION-LOGO-2.1-GREEN@256x256.png'']"

text \<open>Only for items with an address, a balance and decimals (\<open>getEthereumAccountsCovalent\<close>). \<open>formatUnits\<close> throws on a
  balance that is not a number.\<close>

definition createParsedTokenAccountFromCovalent :: "(string \<Rightarrow> nat \<Rightarrow> string result) \<Rightarrow> string \<Rightarrow> covalent_item \<Rightarrow>
    parsed_token_account result" where
  "createParsedTokenAccountFromCovalent formatUnits wallet covalent =
     (let mint = the (cv_contract_address covalent); bal = the (cv_balance covalent); decs = the (cv_contract_decimals covalent) in
      mapR (\<lambda>ui. \<lparr>publicKey = wallet, mintKey = mint, acc_amount = bal, decimals = decs, uiAmount = uiNumber ui,
          uiAmountString = ui, acc_symbol = cv_ticker_symbol covalent, acc_name = cv_contract_name covalent,
          logo = (if truthy (logoOverrides mint) then logoOverrides mint else cv_logo_url covalent), isNativeAsset = None\<rparr>)
        (formatUnits bal decs))"

definition createNFTParsedTokenAccountFromCovalent :: "(string \<Rightarrow> nat \<Rightarrow> string result) \<Rightarrow> string \<Rightarrow> covalent_item \<Rightarrow>
    covalent_nft \<Rightarrow> nft_account result" where
  "createNFTParsedTokenAccountFromCovalent formatUnits wallet covalent nft_data =
     (let decs = the (cv_contract_decimals covalent) in
      mapR (\<lambda>ui. \<lparr>publicKey = wallet, mintKey = the (cv_contract_address covalent),
          acc_amount = cn_token_balance nft_data, decimals = decs, uiAmount = uiNumber ui, uiAmountString = ui,
          acc_symbol = cv_ticker_symbol covalent, acc_name = cv_contract_name covalent, logo = cv_logo_url covalent,
          isNativeAsset = None, tokenId = Some (cn_token_id nft_data), uri = cn_token_url nft_data,
          animation_url = cn_animation_url nft_data, external_url = cn_external_url nft_data, image = cn_image nft_data,
          image_256 = cn_image_256 nft_data, nftName = cn_name nft_data, description = cn_description nft_data\<rparr>)
        (formatUnits (cn_token_balance nft_data) decs))"

text \<open>The native currencies of the EVM chains: the address and decimals of the wrapped token that stands for it, symbol,
  name and icon, and the chain's name in the error message.\<close>

record native_asset =
  na_address :: string
  na_decimals :: nat
  na_symbol :: string
  na_name :: string
  na_icon :: string
  na_errorName :: string

definition nativeAssets :: "cluster \<Rightarrow> ChainId \<rightharpoonup> native_asset" where
  "nativeAssets c chain =
     (if chain = CHAIN_ID_ETH then Some \<lparr>na_address = WETH_ADDRESS c, na_decimals = WETH_DECIMALS, na_symbol = ''ETH'',
        na_name = ''Ethereum'', na_icon = ''ethIcon'', na_errorName = ''ETH''\<rparr>
      else if chain = CHAIN_ID_ETHEREUM_ROPSTEN then Some \<lparr>na_address = ROPSTEN_WETH_ADDRESS c, na_decimals = ROPSTEN_WETH_DECIMALS,
        na_symbol = ''ETH'', na_name = ''Ethereum'', na_icon = ''ethIcon'', na_errorName = ''ETH''\<rparr>
      else if chain = CHAIN_ID_BSC then Some \<lparr>na_address = WBNB_ADDRESS c, na_decimals = WBNB_DECIMALS, na_symbol = ''BNB'',
        na_name = ''Binance Coin'', na_icon = ''bnbIcon'', na_errorName = ''BNB''\<rparr>
      else if chain = CHAIN_ID_POLYGON then Some \<lparr>na_address = WMATIC_ADDRESS c, na_decimals = WMATIC_DECIMALS, na_symbol = ''MATIC'',
        na_name = ''Matic'', na_icon = ''polygonIcon'', na_errorName = ''MATIC''\<rparr>
      else if chain = CHAIN_ID_AVAX then Some \<lparr>na_address = WAVAX_ADDRESS c, na_decimals = WAVAX_DECIMALS, na_symbol = ''AVAX'',
        na_name = ''Avalanche'', na_icon = ''avaxIcon'', na_errorName = ''AVAX''\<rparr>
      else if chain = CHAIN_ID_OASIS then Some \<lparr>na_address = WROSE_ADDRESS c, na_decimals = WROSE_DECIMALS, na_symbol = ''ROSE'',
        na_name = ''Rose'', na_icon = ''oasisIcon'', na_errorName = ''Oasis''\<rparr>
      else if chain = CHAIN_ID_FANTOM then Some \<lparr>na_address = WFTM_ADDRESS c, na_decimals = WFTM_DECIMALS, na_symbol = ''FTM'',
        na_name = ''Fantom'', na_icon = ''fantomIcon'', na_errorName = ''Fantom''\<rparr>
      else None)"

text \<open>\<open>formatEther\<close> is \<open>formatUnits\<close> with 18 decimals. The balance is in wei.\<close>

definition createNativeParsedTokenAccount :: "(string \<Rightarrow> nat \<Rightarrow> string result) \<Rightarrow> native_asset \<Rightarrow>
    (string \<Rightarrow> nat result) option \<Rightarrow> string option \<Rightarrow> parsed_token_account result" where
  "createNativeParsedTokenAccount formatUnits a getBalance signerAddress =
     (if getBalance = None \<or> \<not> truthy signerAddress then Inl (Rejected '''')
      else bindR (the getBalance (the signerAddress)) (\<lambda>balanceInWei.
        mapR (\<lambda>balanceInEth. createParsedTokenAccount (the signerAddress) (na_address a) (decimal balanceInWei) (na_decimals a)
            (uiNumber balanceInEth) balanceInEth (Some (na_symbol a)) (Some (na_name a)) (Some (na_icon a)) (Some True))
          (formatUnits (decimal balanceInWei) 18)))"

text \<open>The lamports of the wallet, as the account of the wrapped token.\<close>

definition createNativeSolParsedTokenAccount :: "(string \<Rightarrow> nat \<Rightarrow> string result) \<Rightarrow> (string \<Rightarrow> 'k result) \<Rightarrow>
    ('k list \<Rightarrow> nat option list result) \<Rightarrow> string \<Rightarrow> parsed_token_account option result" where
  "createNativeSolParsedTokenAccount formatUnits pk getLamports wallet =
     bindR (pk wallet) (\<lambda>k.
     bindR (getMultipleAccounts getLamports [k]) (\<lambda>fetchAccounts.
     case fetchAccounts of
       Some lamports # _ \<Rightarrow>
         mapR (\<lambda>ui. Some (createParsedTokenAccount wallet WSOL_ADDRESS (decimal lamports) WSOL_DECIMALS (uiNumber ui) ui
             (Some ''SOL'') (Some ''Solana'') None (Some True)))
           (formatUnits (decimal lamports) WSOL_DECIMALS)
     | _ \<Rightarrow> Inr None))"

text \<open>The items of the page of Covalent that count; an answer without a list of items (\<open>None\<close>) gives none.\<close>

definition covalentKept :: "bool \<Rightarrow> covalent_item \<Rightarrow> bool" where
  "covalentKept isNft item \<longleftrightarrow>
     cv_contract_decimals item \<noteq> None \<and> truthy (cv_contract_address item) \<and> truthy (cv_balance item) \<and>
     cv_balance item \<noteq> Some ''0'' \<and>
     (case cv_supports_erc item of None \<Rightarrow> False | Some ercs \<Rightarrow> (if isNft then ''erc721'' else ''erc20'') \<in> set ercs)"

definition getEthereumAccountsCovalent :: "string \<Rightarrow> cluster \<Rightarrow> (string \<Rightarrow> covalent_item list option result) \<Rightarrow> string \<Rightarrow> bool \<Rightarrow>
    ChainId \<Rightarrow> covalent_item list result" where
  "getEthereumAccountsCovalent apiKey c get wallet isNft chainId =
     (case get (COVALENT_GET_TOKENS_URL apiKey c chainId wallet isNft False) of
        Inr answer \<Rightarrow> Inr (filter (covalentKept isNft) (case answer of None \<Rightarrow> [] | Some items \<Rightarrow> items))
      | Inl e \<Rightarrow> Inl (Rejected ''Unable to retrieve your Ethereum Tokens.''))"

section \<open>The state of the hook\<close>

record token_libs =
  tl_formatUnits :: "string \<Rightarrow> nat \<Rightarrow> string result"
  tl_apiKey :: string
  tl_decodeMint :: "bytes \<Rightarrow> (bytes \<times> bytes) result"

text \<open>The store, the wallets, and what its \<open>useState\<close> hooks hold.\<close>

record ('a, 'b, 'c, 'k) tokens_state =
  th_root :: "('a, 'b, 'c) root_state"
  th_wallets :: "'k wallets"
  th_covalent :: "covalent_item list option"
  th_covalentLoading :: bool
  th_covalentError :: "string option"
  th_native :: "parsed_token_account option"
  th_nativeLoading :: bool
  th_nativeError :: "string option"
  th_mints :: "(string \<rightharpoonup> mint_info option) option"
  th_mintsLoading :: bool
  th_mintsError :: "string option"

datatype ('a, 'b, 'c) tokens_action =
    ToStore "('a, 'b, 'c) root_action"
  | SetCovalent "covalent_item list option"
  | SetCovalentLoading bool
  | SetCovalentError "string option"
  | SetEthNativeAccount "parsed_token_account option"
  | SetEthNativeAccountLoading bool
  | SetEthNativeAccountError "string option"
  | SetSolanaMintAccounts "(string \<rightharpoonup> mint_info option) option"
  | SetSolanaMintAccountsLoading bool
  | SetSolanaMintAccountsError "string option"

fun tokensReduce :: "string \<Rightarrow> ('a, 'b, 'c, 'k) tokens_state \<Rightarrow> ('a, 'b, 'c) tokens_action \<Rightarrow> ('a, 'b, 'c, 'k) tokens_state" where
  "tokensReduce now s (ToStore a) = s\<lparr>th_root := rootReducer now (th_root s) a\<rparr>"
| "tokensReduce now s (SetCovalent v) = s\<lparr>th_covalent := v\<rparr>"
| "tokensReduce now s (SetCovalentLoading v) = s\<lparr>th_covalentLoading := v\<rparr>"
| "tokensReduce now s (SetCovalentError v) = s\<lparr>th_covalentError := v\<rparr>"
| "tokensReduce now s (SetEthNativeAccount v) = s\<lparr>th_native := v\<rparr>"
| "tokensReduce now s (SetEthNativeAccountLoading v) = s\<lparr>th_nativeLoading := v\<rparr>"
| "tokensReduce now s (SetEthNativeAccountError v) = s\<lparr>th_nativeError := v\<rparr>"
| "tokensReduce now s (SetSolanaMintAccounts v) = s\<lparr>th_mints := v\<rparr>"
| "tokensReduce now s (SetSolanaMintAccountsLoading v) = s\<lparr>th_mintsLoading := v\<rparr>"
| "tokensReduce now s (SetSolanaMintAccountsError v) = s\<lparr>th_mintsError := v\<rparr>"

text \<open>The page that the hook works for.\<close>

definition lookupChain :: "bool \<Rightarrow> ('a, 'b, 'c) root_state \<Rightarrow> ChainId" where
  "lookupChain isNft rs = (if isNft then n_sourceChain (nft rs) else sourceChain (transfer rs))"

definition selectedSourceWalletAddress :: "bool \<Rightarrow> ('a, 'b, 'c) root_state \<Rightarrow> string option" where
  "selectedSourceWalletAddress isNft rs = (if isNft then n_sourceWalletAddress (nft rs) else sourceWalletAddress (transfer rs))"

definition currentSourceWalletAddress :: "('k \<Rightarrow> string) \<Rightarrow> ChainId \<Rightarrow> 'k wallets \<Rightarrow> string option" where
  "currentSourceWalletAddress toString chain w =
     (if isEVMChain chain then ew_signerAddress w
      else if chain = CHAIN_ID_SOLANA then map_option toString (solPK w)
      else None)"

definition fetchAccounts :: "bool \<Rightarrow> ('a, 'b, 'c) tokens_action" where
  "fetchAccounts isNft = ToStore (if isNft then NftAction NftFetchSourceParsedTokenAccounts else TransferAction FetchSourceParsedTokenAccounts)"

definition errorAccounts :: "bool \<Rightarrow> string \<Rightarrow> ('a, 'b, 'c) tokens_action" where
  "errorAccounts isNft m = ToStore (if isNft then NftAction (NftErrorSourceParsedTokenAccounts (Some m))
     else TransferAction (ErrorSourceParsedTokenAccounts (Some m)))"

definition resetSourceAccounts :: "bool \<Rightarrow> ('a, 'b, 'c) tokens_action list" where
  "resetSourceAccounts isNft =
     (if isNft
      then map (ToStore \<circ> NftAction) [NftSetSourceWalletAddress None, NftSetSourceParsedTokenAccount None, NftSetSourceParsedTokenAccounts None]
      else map (ToStore \<circ> TransferAction) [SetSourceWalletAddress None, SetSourceParsedTokenAccount None, SetSourceParsedTokenAccounts None,
        SetAmount '''']) @
     [SetCovalent None, SetCovalentLoading False, SetCovalentError (Some ''''),
      SetEthNativeAccount None, SetEthNativeAccountLoading False, SetEthNativeAccountError (Some '''')]"

section \<open>The effects\<close>

text \<open>The networks when they answer: the node of Solana with the token accounts of an owner, the lamports and the data of
  accounts; the provider of the Ethereum wallet; the Covalent service.\<close>

record 'k token_nets =
  tk_ownerAccounts :: "'k \<Rightarrow> 'k sol_token_account list result"
  tk_lamports :: "'k list \<Rightarrow> nat option list result"
  tk_accountData :: "'k list \<Rightarrow> bytes option list result"
  tk_getBalance :: "nat \<Rightarrow> string \<Rightarrow> nat result"
  tk_get :: "string \<Rightarrow> covalent_item list option result"

text \<open>When the wallet is another one than that of the chosen token.\<close>

definition walletChanged :: "string option \<Rightarrow> string option \<Rightarrow> bool" where
  "walletChanged selected current \<longleftrightarrow> selected \<noteq> None \<and> current \<noteq> None \<and> current \<noteq> selected"

definition walletChange_effect :: "bool \<Rightarrow> (string option \<times> string option, 'e, ('a, 'b, 'c) tokens_action) effect" where
  "walletChange_effect isNft d =
     (case d of (selected, current) \<Rightarrow>
        Inr (if walletChanged selected current
          then \<lparr>atOnce = resetSourceAccounts isNft, whenAnswered = None, cleansUp = False\<rparr>
          else noEffect))"

text \<open>\<open>getSolanaParsedTokenAccounts\<close>: what it dispatches after it has dispatched that it fetches. On the NFT page the
  accounts have none of the fields that only NFTs have.\<close>

definition asNft :: "parsed_token_account \<Rightarrow> nft_account" where
  "asNft a = parsed_token_account.extend a (nft_account.fields None None None None None None None None)"

definition getSolanaParsedTokenAccounts :: "token_libs \<Rightarrow> ('k, 'g, 't) outside \<Rightarrow> string \<Rightarrow> bool \<Rightarrow> 'k token_nets \<Rightarrow>
    ('a, 'b, 'c) tokens_action list" where
  "getSolanaParsedTokenAccounts L E wallet isNft N =
     (let pk = publicKeyS (o_web3 E);
          found = bindR (pk wallet) (\<lambda>k.
            bindR (mapR (map (createParsedTokenAccountFromInfo (keyString (o_web3 E)))) (tk_ownerAccounts N k)) (\<lambda>spl.
            if isNft then Inr (NftAction (NftReceiveSourceParsedTokenAccounts (map asNft spl)))
            else mapR (\<lambda>native. TransferAction (ReceiveSourceParsedTokenAccounts
                (case native of None \<Rightarrow> spl | Some n \<Rightarrow> n # spl)))
              (createNativeSolParsedTokenAccount (tl_formatUnits L) pk (tk_lamports N) wallet))) in
      case found of
        Inr a \<Rightarrow> [ToStore a]
      | Inl e \<Rightarrow> [errorAccounts isNft (if isNft then ''Failed to load NFT metadata'' else ''Failed to load token metadata.'')])"

record 'k solana_accounts_deps =
  sd_lookupChain :: ChainId
  sd_solPK :: "'k option"
  sd_hasData :: bool
  sd_isFetching :: bool
  sd_error :: "string option"
  sd_isNft :: bool

text \<open>A list of accounts, also the empty one, is truthy. The run returns a cleanup that does nothing.\<close>

definition solanaAccounts_effect :: "token_libs \<Rightarrow> ('k, 'g, 't) outside \<Rightarrow>
    ('k solana_accounts_deps, 'k token_nets, ('a, 'b, 'c) tokens_action) effect" where
  "solanaAccounts_effect L E d =
     Inr (if sd_lookupChain d = CHAIN_ID_SOLANA \<and> sd_solPK d \<noteq> None \<and>
          \<not> (sd_hasData d \<or> sd_isFetching d \<or> truthy (sd_error d))
       then \<lparr>atOnce = [fetchAccounts (sd_isNft d)],
             whenAnswered = Some (getSolanaParsedTokenAccounts L E (keyString (o_web3 E) (the (sd_solPK d))) (sd_isNft d)),
             cleansUp = False\<rparr>
       else noEffect)"

definition solana_accounts_deps_of :: "bool \<Rightarrow> ('a, 'b, 'c, 'k) tokens_state \<Rightarrow> 'k solana_accounts_deps" where
  "solana_accounts_deps_of isNft s =
     (let chain = lookupChain isNft (th_root s); pk = solPK (th_wallets s) in
      if isNft
      then (let w = n_sourceParsedTokenAccounts (nft (th_root s)) in
        \<lparr>sd_lookupChain = chain, sd_solPK = pk, sd_hasData = (data w \<noteq> None), sd_isFetching = isFetching w,
         sd_error = dw_error w, sd_isNft = isNft\<rparr>)
      else (let w = sourceParsedTokenAccounts (transfer (th_root s)) in
        \<lparr>sd_lookupChain = chain, sd_solPK = pk, sd_hasData = (data w \<noteq> None), sd_isFetching = isFetching w,
         sd_error = dw_error w, sd_isNft = isNft\<rparr>))"

text \<open>The mints of the accounts in the store, given by their addresses. A mint that is no key throws in the body; an
  account that is no mint throws in the continuation, whose rejection nobody handles.\<close>

definition mintAccounts_effect :: "token_libs \<Rightarrow> ('k, 'g, 't) outside \<Rightarrow>
    (ChainId \<times> string list option, 'k token_nets, ('a, 'b, 'c) tokens_action) effect" where
  "mintAccounts_effect L E d =
     (case d of (chain, mints) \<Rightarrow>
        if chain \<noteq> CHAIN_ID_SOLANA \<or> mints = None \<or> mints = Some []
        then Inr \<lparr>atOnce = [], whenAnswered = None, cleansUp = True\<rparr>
        else mapR (\<lambda>keys.
          \<lparr>atOnce = [SetSolanaMintAccountsLoading True, SetSolanaMintAccountsError None],
           whenAnswered = Some (\<lambda>N.
             case getMultipleAccounts (tk_accountData N) keys of
               Inl e \<Rightarrow> [SetSolanaMintAccounts None, SetSolanaMintAccountsLoading False,
                 SetSolanaMintAccountsError (Some ''Could not retrieve Solana mint accounts.'')]
             | Inr results \<Rightarrow>
                 (case sequenceR (map (\<lambda>r. case r of None \<Rightarrow> Inr None
                     | Some account \<Rightarrow> mapR Some (extractMintInfo (tl_decodeMint L)
                         (\<lambda>b. mapR (keyString (o_web3 E)) (publicKeyB (o_web3 E) b)) (o_bigNumberFrom E) account)) results) of
                   Inl e \<Rightarrow> []
                 | Inr infos \<Rightarrow>
                     [SetSolanaMintAccounts (Some (foldl (\<lambda>m (mint, info). m(mint \<mapsto> info)) Map.empty (zip (the mints) infos))),
                      SetSolanaMintAccountsLoading False])),
           cleansUp = True\<rparr>)
          (sequenceR (map (publicKeyS (o_web3 E)) (the mints))))"

record native_deps =
  nd_lookupChain :: ChainId
  nd_provider :: "nat option"
  nd_signerAddress :: "string option"
  nd_isNft :: bool
  nd_native :: "parsed_token_account option"

text \<open>One effect for each EVM chain; they differ in the chain and its native currency.\<close>

definition nativeAccount_effect :: "token_libs \<Rightarrow> cluster \<Rightarrow> ChainId \<Rightarrow> native_asset \<Rightarrow>
    (native_deps, 'k token_nets, ('a, 'b, 'c) tokens_action) effect" where
  "nativeAccount_effect L c chain a d =
     Inr (if truthy (nd_signerAddress d) \<and> nd_lookupChain d = chain \<and> nd_native d = None \<and> \<not> nd_isNft d
       then \<lparr>atOnce = [SetEthNativeAccountLoading True],
             whenAnswered = Some (\<lambda>N.
               case createNativeParsedTokenAccount (tl_formatUnits L) a (map_option (tk_getBalance N) (nd_provider d)) (nd_signerAddress d) of
                 Inr account \<Rightarrow> [SetEthNativeAccount (Some account), SetEthNativeAccountLoading False, SetEthNativeAccountError (Some '''')]
               | Inl e \<Rightarrow> [SetEthNativeAccount None, SetEthNativeAccountLoading False,
                   SetEthNativeAccountError (Some (''Unable to retrieve your '' @ na_errorName a @ '' balance.''))]),
             cleansUp = True\<rparr>
       else \<lparr>atOnce = [], whenAnswered = None, cleansUp = True\<rparr>)"

record covalent_deps =
  ccd_lookupChain :: ChainId
  ccd_provider :: "nat option"
  ccd_signerAddress :: "string option"
  ccd_isNft :: bool
  ccd_covalent :: "covalent_item list option"

definition covalent_deps_of :: "bool \<Rightarrow> ('a, 'b, 'c, 'k) tokens_state \<Rightarrow> covalent_deps" where
  "covalent_deps_of isNft s =
     \<lparr>ccd_lookupChain = lookupChain isNft (th_root s), ccd_provider = ew_provider (th_wallets s),
      ccd_signerAddress = ew_signerAddress (th_wallets s), ccd_isNft = isNft, ccd_covalent = th_covalent s\<rparr>"

text \<open>The accounts are written when all of them can be formatted; else the continuation throws, unhandled.\<close>

definition covalentAccounts :: "token_libs \<Rightarrow> string \<Rightarrow> bool \<Rightarrow> covalent_item list \<Rightarrow> ('a, 'b, 'c) root_action result" where
  "covalentAccounts L wallet isNft items =
     (if isNft
      then mapR (\<lambda>xss. NftAction (NftReceiveSourceParsedTokenAccounts (concat xss)))
        (sequenceR (map (\<lambda>current. sequenceR (map (createNFTParsedTokenAccountFromCovalent (tl_formatUnits L) wallet current)
          (case cv_nft_data current of None \<Rightarrow> [] | Some xs \<Rightarrow> xs))) items))
      else mapR (\<lambda>xs. TransferAction (ReceiveSourceParsedTokenAccounts xs))
        (sequenceR (map (createParsedTokenAccountFromCovalent (tl_formatUnits L) wallet) items)))"

definition covalentAnswer :: "token_libs \<Rightarrow> cluster \<Rightarrow> ChainId \<Rightarrow> string \<Rightarrow> bool \<Rightarrow> 'k token_nets \<Rightarrow> ('a, 'b, 'c) tokens_action list" where
  "covalentAnswer L c chain wallet isNft N =
     (case getEthereumAccountsCovalent (tl_apiKey L) c (tk_get N) wallet isNft chain of
        Inr items \<Rightarrow>
          [SetCovalentLoading False, SetCovalentError None, SetCovalent (Some items)] @
          (case covalentAccounts L wallet isNft items of Inr a \<Rightarrow> [ToStore a] | Inl e \<Rightarrow> [])
      | Inl e \<Rightarrow>
          [errorAccounts isNft (if isNft then ''Cannot load your Ethereum NFTs at the moment.'' else ''Cannot load your Ethereum tokens at the moment.''),
           SetCovalentError (Some ''Cannot load your Ethereum tokens at the moment.''), SetCovalentLoading False])"

definition covalent_effect :: "token_libs \<Rightarrow> cluster \<Rightarrow> (covalent_deps, 'k token_nets, ('a, 'b, 'c) tokens_action) effect" where
  "covalent_effect L c d =
     Inr (if truthy (ccd_signerAddress d) \<and> isEVMChain (ccd_lookupChain d) \<and> ccd_covalent d = None
       then \<lparr>atOnce = [SetCovalentLoading True, fetchAccounts (ccd_isNft d)],
             whenAnswered = Some (covalentAnswer L c (ccd_lookupChain d) (the (ccd_signerAddress d)) (ccd_isNft d)),
             cleansUp = True\<rparr>
       else noEffect)"

text \<open>The list that an EVM chain's picker shows.\<close>

definition ethAccounts :: "'x list data_wrapper \<Rightarrow> 'x option \<Rightarrow> bool \<Rightarrow> string option \<Rightarrow> 'x list data_wrapper" where
  "ethAccounts tokenAccounts native nativeLoading nativeError =
     tokenAccounts\<lparr>data := Some ((case native of None \<Rightarrow> [] | Some n \<Rightarrow> [n]) @ (case data tokenAccounts of None \<Rightarrow> [] | Some xs \<Rightarrow> xs)),
       isFetching := isFetching tokenAccounts \<or> nativeLoading,
       dw_error := (if truthy (dw_error tokenAccounts) then dw_error tokenAccounts else nativeError)\<rparr>"

section \<open>Lemmas\<close>

lemma concat_slices: "concat (map (\<lambda>i. js_slice xs (i * n) ((i + 1) * n)) [0..<m]) = take (m * n) xs"
proof (induction m)
  case (Suc m)
  have "concat (map (\<lambda>i. js_slice xs (i * n) ((i + 1) * n)) [0..<Suc m]) = take (m * n) xs @ take n (drop (m * n) xs)"
    using Suc by (simp add: js_slice_def)
  also have "\<dots> = take (m * n + n) xs" by (simp only: take_add)
  also have "\<dots> = take (Suc m * n) xs" by (simp add: add.commute)
  finally show ?case .
qed simp

lemma solana_chunks_concat: "0 < n \<Longrightarrow> concat (solana_chunks xs n) = xs"
proof -
  assume n: "0 < n"
  have "length xs + (n - 1) < ((length xs + (n - 1)) div n + 1) * n"
    using n by (metis add.commute div_less_iff_less_mult less_add_one)
  then have "length xs \<le> (length xs + (n - 1)) div n * n" using n by simp
  then show ?thesis by (simp only: solana_chunks_def concat_slices take_all)
qed

lemma solana_chunks_short: "ys \<in> set (solana_chunks xs n) \<Longrightarrow> length ys \<le> n"
  by (auto simp: solana_chunks_def)

lemma sequenceR_map_all: "(\<And>x. x \<in> set xs \<Longrightarrow> f x = Inr (g x)) \<Longrightarrow> sequenceR (map f xs) = Inr (map g xs)"
  by (induction xs) simp_all

interpretation covalent: cancelling "covalent_effect L c" for L c
  by unfold_locales (auto simp: covalent_effect_def noEffect_def split: if_splits)

interpretation native: cancelling "nativeAccount_effect L c chain a" for L c chain a
  by unfold_locales (auto simp: nativeAccount_effect_def split: if_splits)

interpretation mints: cancelling "mintAccounts_effect L E" for L E
  by unfold_locales (auto simp: mintAccounts_effect_def split: if_splits prod.splits)

interpretation solana_accounts: lasting "solanaAccounts_effect L E" for L E
  by unfold_locales (auto simp: solanaAccounts_effect_def noEffect_def split: if_splits)

section \<open>Properties\<close>

text \<open>accounts are read in requests of at most 99 keys, and the answers together are those for all keys, in their order,
  however many there are, whatever the limit of the node from 99 on.\<close>

theorem getMultipleAccounts_all:
  assumes "\<And>ks. length ks \<le> 99 \<Longrightarrow> node ks = Inr (map account ks)"
  shows "getMultipleAccounts node pubkeys = Inr (map account pubkeys)"
proof -
  have "sequenceR (map node (solana_chunks pubkeys 99)) = Inr (map (map account) (solana_chunks pubkeys 99))"
    using assms solana_chunks_short by (intro sequenceR_map_all) blast
  then show ?thesis using solana_chunks_concat [of 99 pubkeys] by (simp add: getMultipleAccounts_def flip: map_concat)
qed

theorem getMultipleAccounts_all_witness:
  "getMultipleAccounts (\<lambda>ks. if length ks \<le> 100 then Inr (map Some ks) else Inl (Foreign ''too many'')) [0..<1000] =
     Inr (map Some [0..<1000])"
  by (rule getMultipleAccounts_all) simp

lemma sequenceR_map_all2: "sequenceR (map f xs) = Inr ys \<Longrightarrow> list_all2 (\<lambda>y x. f x = Inr y) ys xs"
  by (induction xs arbitrary: ys) auto

text \<open>C31: a list of tokens that Covalent's answer puts on the transfer page is that of the source chain and wallet that the
  hook last asked about: the items answered for them that have a balance and are ERC-20, in their order, each as an
  account of this wallet with the balance that was answered.\<close>

theorem covalent_list_current:
  assumes "hookRun (covalent_effect L c) deps reduce evs s0 = (s, m)" "settle k N m = (m', acts)"
    and list: "ToStore (TransferAction (ReceiveSourceParsedTokenAccounts xs)) \<in> set acts"
  shows "\<exists>d wallet items. lastDeps m = Some d \<and> isEVMChain (ccd_lookupChain d) \<and> ccd_signerAddress d = Some wallet \<and>
    tk_get N (COVALENT_GET_TOKENS_URL (tl_apiKey L) c (ccd_lookupChain d) wallet False False) = Inr items \<and>
    list_all2 (\<lambda>x item. publicKey x = wallet \<and> Some (mintKey x) = cv_contract_address item \<and>
        Some (acc_amount x) = cv_balance item \<and> acc_amount x \<noteq> ''0'' \<and>
        tl_formatUnits L (acc_amount x) (decimals x) = Inr (uiAmountString x))
      xs (filter (covalentKept False) (case items of None \<Rightarrow> [] | Some is \<Rightarrow> is))"
proof -
  have "acts \<noteq> []" using list by auto
  from covalent.answer_is_last [OF assms(1,2) this] obtain d r f where d: "lastDeps m = Some d"
    "covalent_effect L c d = Inr r" "whenAnswered r = Some f" "acts = f N" by metis
  then have fires: "truthy (ccd_signerAddress d)" "isEVMChain (ccd_lookupChain d)"
    and acts: "acts = covalentAnswer L c (ccd_lookupChain d) (the (ccd_signerAddress d)) (ccd_isNft d) N"
    by (auto simp: covalent_effect_def noEffect_def split: if_splits)
  obtain wallet where w: "ccd_signerAddress d = Some wallet" using fires(1) by (cases "ccd_signerAddress d") simp_all
  from list have nft: "\<not> ccd_isNft d"
    by (auto simp: acts covalentAnswer_def covalentAccounts_def errorAccounts_def mapR_def split: sum.splits if_splits)
  with list obtain items where items: "tk_get N (COVALENT_GET_TOKENS_URL (tl_apiKey L) c (ccd_lookupChain d) wallet False False) = Inr items"
    and xs: "sequenceR (map (createParsedTokenAccountFromCovalent (tl_formatUnits L) wallet)
      (filter (covalentKept False) (case items of None \<Rightarrow> [] | Some xs \<Rightarrow> xs))) = Inr xs"
    by (auto simp: acts w covalentAnswer_def covalentAccounts_def errorAccounts_def getEthereumAccountsCovalent_def mapR_def
      split: sum.splits)
  let ?kept = "filter (covalentKept False) (case items of None \<Rightarrow> [] | Some xs \<Rightarrow> xs)"
  have "list_all2 (\<lambda>x item. publicKey x = wallet \<and> Some (mintKey x) = cv_contract_address item \<and>
      Some (acc_amount x) = cv_balance item \<and> acc_amount x \<noteq> ''0'' \<and>
      tl_formatUnits L (acc_amount x) (decimals x) = Inr (uiAmountString x)) xs ?kept"
    using sequenceR_map_all2 [OF xs]
  proof (rule list.rel_mono_strong)
    fix x item
    assume "item \<in> set ?kept" "createParsedTokenAccountFromCovalent (tl_formatUnits L) wallet item = Inr x"
    then show "publicKey x = wallet \<and> Some (mintKey x) = cv_contract_address item \<and>
        Some (acc_amount x) = cv_balance item \<and> acc_amount x \<noteq> ''0'' \<and>
        tl_formatUnits L (acc_amount x) (decimals x) = Inr (uiAmountString x)"
      by (auto simp: createParsedTokenAccountFromCovalent_def covalentKept_def Let_def truthy_def split: option.splits)
  qed
  then show ?thesis using d(1) fires(2) w items by blast
qed

section \<open>What the hook does not ask again\<close>

text \<open>Events on the transfer page: the source chain is chosen, the wallets change, the effect runs that compares the wallet
  with that of the chosen token.\<close>

definition chooseSource :: "string \<Rightarrow> ChainId \<Rightarrow> ('a, 'b, 'c, 'k) tokens_state \<Rightarrow> ('a, 'b, 'c, 'k) tokens_state" where
  "chooseSource now ch s = tokensReduce now s (ToStore (TransferAction (SetSourceChain ch)))"

definition changeWallets :: "'k wallets \<Rightarrow> ('a, 'b, 'c, 'k) tokens_state \<Rightarrow> ('a, 'b, 'c, 'k) tokens_state" where
  "changeWallets w s = s\<lparr>th_wallets := w\<rparr>"

definition compareWallet :: "string \<Rightarrow> ('k \<Rightarrow> string) \<Rightarrow> ('a, 'b, 'c, 'k) tokens_state \<Rightarrow> ('a, 'b, 'c, 'k) tokens_state" where
  "compareWallet now toString s =
     foldl (tokensReduce now) s
       (if walletChanged (selectedSourceWalletAddress False (th_root s))
           (currentSourceWalletAddress toString (lookupChain False (th_root s)) (th_wallets s))
        then resetSourceAccounts False else [])"

inductive page_event :: "string \<Rightarrow> ('k \<Rightarrow> string) \<Rightarrow> (('a, 'b, 'c, 'k) tokens_state, 'k token_nets) hook_event \<Rightarrow> bool"
  for now :: string and toString :: "'k \<Rightarrow> string" where
  "page_event now toString Flush"
| "page_event now toString (Settle k N)"
| "page_event now toString (Outside (chooseSource now ch))"
| "page_event now toString (Outside (changeWallets w))"
| "page_event now toString (Outside (compareWallet now toString))"

definition listLoaded :: "covalent_item list \<Rightarrow> ('a, 'b, 'c, 'k) tokens_state \<times> (covalent_deps, 'k token_nets, ('a, 'b, 'c) tokens_action) mounted \<Rightarrow> bool" where
  "listLoaded items sm \<longleftrightarrow> th_covalent (fst sm) = Some items \<and> sourceWalletAddress (transfer (th_root (fst sm))) = None \<and>
     (\<forall>p\<in>set (pending (snd sm)). cancelled p)"

lemma settle_cancelled:
  assumes "\<forall>p\<in>set (pending m). cancelled p" "settle k N m = (m', acts)"
  shows "acts = [] \<and> (\<forall>p\<in>set (pending m'). cancelled p)"
proof -
  have "set (pending m') \<subseteq> set (pending m)"
    using assms(2) by (auto simp: settle_def split: if_splits dest: in_set_takeD in_set_dropD)
  moreover have "acts = []" using assms by (auto simp: settle_def split: if_splits)
  ultimately show ?thesis using assms(1) by blast
qed

lemma covalent_loaded_flush:
  assumes "ccd_covalent d \<noteq> None" "\<forall>p\<in>set (pending m). cancelled p" "flush (covalent_effect L c) d m = (m', acts)"
  shows "acts = [] \<and> (\<forall>p\<in>set (pending m'). cancelled p)"
  using assms by (auto simp: flush_def Let_def covalent_effect_def noEffect_def set_pending_cleanup split: if_splits)

lemma compareWallet_none: "sourceWalletAddress (transfer (th_root s)) = None \<Longrightarrow> compareWallet now ts s = s"
  by (simp add: compareWallet_def walletChanged_def selectedSourceWalletAddress_def)

lemma listLoaded_step:
  assumes "listLoaded items (s, m)" "page_event now toString ev"
  shows "listLoaded items (hookStep (covalent_effect L c) (covalent_deps_of False) (tokensReduce now) (s, m) ev)"
  using assms(2)
proof cases
  case 1
  obtain m' acts where f: "flush (covalent_effect L c) (covalent_deps_of False s) m = (m', acts)" by fastforce
  have "acts = [] \<and> (\<forall>p\<in>set (pending m'). cancelled p)"
    using assms(1) by (intro covalent_loaded_flush [OF _ _ f]) (auto simp: listLoaded_def covalent_deps_of_def)
  then show ?thesis using 1 f assms(1) by (simp add: listLoaded_def)
next
  case (2 k N)
  obtain m' acts where f: "settle k N m = (m', acts)" by fastforce
  have "acts = [] \<and> (\<forall>p\<in>set (pending m'). cancelled p)"
    using assms(1) by (intro settle_cancelled [OF _ f]) (simp add: listLoaded_def)
  then show ?thesis using 2 f assms(1) by (simp add: listLoaded_def)
next
  case (3 ch)
  then show ?thesis using assms(1) by (simp add: listLoaded_def chooseSource_def transfer_setSourceChain_def Let_def)
next
  case (4 w)
  then show ?thesis using assms(1) by (simp add: listLoaded_def changeWallets_def)
next
  case 5
  then show ?thesis using assms(1) by (simp add: listLoaded_def compareWallet_none)
qed

lemma listLoaded_run:
  assumes "listLoaded items (s, m)" "\<And>ev. ev \<in> set evs \<Longrightarrow> page_event now toString ev"
  shows "listLoaded items (foldl (hookStep (covalent_effect L c) (covalent_deps_of False) (tokensReduce now)) (s, m) evs)"
proof -
  have "listLoaded items (foldl (hookStep (covalent_effect L c) (covalent_deps_of False) (tokensReduce now)) sm evs)"
    if "listLoaded items sm" for sm
    using that assms(2)
  proof (induction evs arbitrary: sm)
    case (Cons ev evs)
    obtain s m where "sm = (s, m)" by (cases sm)
    with Cons.prems have "listLoaded items (hookStep (covalent_effect L c) (covalent_deps_of False) (tokensReduce now) sm ev)"
      using listLoaded_step [of items s m now toString ev L c] by simp
    then show ?case using Cons.IH Cons.prems(2) by simp
  qed simp
  then show ?thesis using assms(1) .
qed

text \<open>once Covalent has answered and as long as no token has been chosen, the hook never asks Covalent again, neither for
  another chain nor for another wallet: after any changes of chain and wallets the list of the chain chosen last, also of
  the first one chosen anew, is empty and not being fetched.\<close>

theorem token_list_lost:
  assumes "th_covalent s = Some items" "sourceWalletAddress (transfer (th_root s)) = None" "\<forall>p\<in>set (pending m). cancelled p"
    and "\<And>ev. ev \<in> set evs \<Longrightarrow> page_event now toString ev"
    and run: "foldl (hookStep (covalent_effect L c) (covalent_deps_of False) (tokensReduce now)) (s, m)
      (evs @ [Outside (chooseSource now ch), Outside (compareWallet now toString), Flush]) = (s', m')"
  shows "let shown = ethAccounts (sourceParsedTokenAccounts (transfer (th_root s'))) (th_native s') False None in
    sourceChain (transfer (th_root s')) = ch \<and> data shown = Some (case th_native s' of None \<Rightarrow> [] | Some n \<Rightarrow> [n]) \<and>
    \<not> isFetching shown \<and> th_covalent s' = Some items"
proof -
  let ?step = "hookStep (covalent_effect L c) (covalent_deps_of False) (tokensReduce now)"
  have loaded: "listLoaded items (s, m)" using assms(1-3) by (simp add: listLoaded_def)
  obtain s1 m1 where 1: "foldl ?step (s, m) evs = (s1, m1)" by fastforce
  have l1: "listLoaded items (s1, m1)" unfolding 1 [symmetric] by (rule listLoaded_run [OF loaded assms(4)])
  let ?s2 = "chooseSource now ch s1"
  have "listLoaded items (?step (s1, m1) (Outside (chooseSource now ch)))"
    by (rule listLoaded_step [OF l1 page_event.intros(3)])
  then have l2: "listLoaded items (?s2, m1)" by simp
  have c: "compareWallet now toString ?s2 = ?s2" using l2 by (simp add: compareWallet_none listLoaded_def)
  obtain m2 acts where f: "flush (covalent_effect L c) (covalent_deps_of False ?s2) m1 = (m2, acts)" by fastforce
  have "acts = []"
    using covalent_loaded_flush [OF _ _ f] l2 by (simp add: listLoaded_def covalent_deps_of_def)
  then have s': "s' = ?s2" using run f c 1 by simp
  show ?thesis
    unfolding s' using l2
    by (simp add: chooseSource_def listLoaded_def transfer_setSourceChain_def ethAccounts_def getEmptyDataWrapper_def Let_def
      split: option.split)
qed

text \<open>the accounts of a Solana wallet that the hook has asked for go into the list of the page whatever chain or wallet
  has been chosen in between: nothing cancels the question.\<close>

theorem solana_list_leaks:
  fixes s0 :: "('a, 'b, 'c, 'k) tokens_state"
  assumes run: "hookRun (solanaAccounts_effect L E) (solana_accounts_deps_of False) (tokensReduce now) evs s0 = (s, m)"
    and k: "k < length (pending m)"
    and node: "\<And>w. publicKeyS (o_web3 E) w = Inr key" "tk_ownerAccounts N key = Inr accs" "tk_lamports N [key] = Inr [None]"
  shows "\<exists>s' m'. hookStep (solanaAccounts_effect L E) (solana_accounts_deps_of False) (tokensReduce now) (s, m) (Settle k N) = (s', m') \<and>
    sourceChain (transfer (th_root s')) = sourceChain (transfer (th_root s)) \<and>
    data (sourceParsedTokenAccounts (transfer (th_root s'))) =
       Some (map (createParsedTokenAccountFromInfo (keyString (o_web3 E))) accs)"
proof -
  obtain s1 :: "('a, 'b, 'c, 'k) tokens_state" and r f where d: "solanaAccounts_effect L E (solana_accounts_deps_of False s1) = Inr r" "whenAnswered r = Some f"
    "snd (settle k N m) = f N"
    by (rule solana_accounts.every_answer_heard [OF run k, where e = N]) (rule that)
  have "\<not> sd_isNft (solana_accounts_deps_of False s1)" by (simp add: solana_accounts_deps_of_def Let_def)
  with d obtain w where "snd (settle k N m) = getSolanaParsedTokenAccounts L E w False N"
    unfolding solanaAccounts_effect_def noEffect_def
    by (auto split: if_splits)
  moreover have "getMultipleAccounts (tk_lamports N) [key] = Inr [None]"
    using node(3) by (simp add: getMultipleAccounts_def solana_chunks_def js_slice_def)
  ultimately have "snd (settle k N m) =
      [ToStore (TransferAction (ReceiveSourceParsedTokenAccounts (map (createParsedTokenAccountFromInfo (keyString (o_web3 E))) accs)))]"
    using node by (simp add: getSolanaParsedTokenAccounts_def createNativeSolParsedTokenAccount_def Let_def)
  then show ?thesis
    by (auto simp: transfer_receiveSourceParsedTokenAccounts_def receiveDataWrapper_def split: prod.split)
qed

section \<open>Witnesses\<close>

definition demo_token_libs :: token_libs where
  "demo_token_libs = \<lparr>tl_formatUnits = (\<lambda>s d. Inr s), tl_apiKey = '''', tl_decodeMint = (\<lambda>b. Inr (b, b))\<rparr>"

definition demo_tokens :: "(unit, unit, unit, string) tokens_state" where
  "demo_tokens = \<lparr>th_root = store_initial, th_wallets = demo_wallets\<lparr>solPK := Some ''sol''\<rparr>, th_covalent = None,
     th_covalentLoading = False, th_covalentError = None, th_native = None, th_nativeLoading = False, th_nativeError = None,
     th_mints = None, th_mintsLoading = False, th_mintsError = None\<rparr>"

definition demo_item :: "string \<Rightarrow> covalent_item" where
  "demo_item bal = \<lparr>cv_contract_decimals = Some 2, cv_ticker_symbol = None, cv_contract_name = None,
     cv_contract_address = Some ''0xa'', cv_logo_url = None, cv_balance = Some bal, cv_supports_erc = Some [''erc20''],
     cv_nft_data = None\<rparr>"

definition demo_token_nets :: "string token_nets" where
  "demo_token_nets = \<lparr>tk_ownerAccounts = (\<lambda>k. Inr [\<lparr>sa_pubkey = ''acc'', sa_mint = ''mint'', sa_amount = ''5'', sa_decimals = 0,
       sa_uiAmount = 5, sa_uiAmountString = ''5''\<rparr>]),
     tk_lamports = (\<lambda>ks. Inr (map (\<lambda>k. None) ks)), tk_accountData = (\<lambda>ks. Inr (map (\<lambda>k. None) ks)),
     tk_getBalance = (\<lambda>p a. Inr 7), tk_get = (\<lambda>url. Inr (Some [demo_item ''5'', demo_item ''0'']))\<rparr>"

definition demo_token_outside :: "(string, unit, unit) outside" where
  "demo_token_outside = demo_outside\<lparr>o_web3 := demo_web3\<lparr>publicKeyS := (\<lambda>s. Inr ''sol''), keyString := (\<lambda>k. k)\<rparr>\<rparr>"

definition demo_covalent_answers :: "(unit, unit, unit) tokens_action list" where
  "demo_covalent_answers = covalentAnswer demo_token_libs Devnet CHAIN_ID_ETH ''0x01'' False demo_token_nets"

definition demo_to_solana :: "((unit, unit, unit, string) tokens_state, string token_nets) hook_event list" where
  "demo_to_solana = [Outside (chooseSource ''now'' CHAIN_ID_SOLANA), Flush]"

lemma demo_covalent_run:
  "\<exists>s m. hookRun (covalent_effect demo_token_libs Devnet) (covalent_deps_of False) (tokensReduce ''now'') [Flush]
     (chooseSource ''now'' CHAIN_ID_ETH demo_tokens) = (s, m) \<and> ccd_lookupChain (the (lastDeps m)) = CHAIN_ID_ETH \<and>
     ccd_signerAddress (the (lastDeps m)) = Some ''0x01'' \<and>
     snd (settle 0 demo_token_nets m) = demo_covalent_answers"
  by (simp add: demo_covalent_answers_def hook_defs Let_def covalent_effect_def covalent_deps_of_def chooseSource_def demo_tokens_def demo_wallets_def
    lookupChain_def transfer_setSourceChain_def isEVMChain_def chain_ids)

lemma demo_covalent_answer:
  "\<exists>x. ToStore (TransferAction (ReceiveSourceParsedTokenAccounts [x])) \<in>
     set demo_covalent_answers"
  by (simp add: demo_covalent_answers_def covalentAnswer_def getEthereumAccountsCovalent_def covalentAccounts_def demo_token_nets_def covalentKept_def
    demo_item_def createParsedTokenAccountFromCovalent_def demo_token_libs_def Let_def)

theorem covalent_list_current_witness:
  "\<exists>x. ToStore (TransferAction (ReceiveSourceParsedTokenAccounts [x])) \<in>
     set demo_covalent_answers \<and> publicKey x = ''0x01''"
proof -
  obtain s m where run: "hookRun (covalent_effect demo_token_libs Devnet) (covalent_deps_of False) (tokensReduce ''now'') [Flush]
      (chooseSource ''now'' CHAIN_ID_ETH demo_tokens) = (s, m)" "ccd_signerAddress (the (lastDeps m)) = Some ''0x01''"
    "snd (settle 0 demo_token_nets m) = demo_covalent_answers"
    using demo_covalent_run by blast
  obtain x where x: "ToStore (TransferAction (ReceiveSourceParsedTokenAccounts [x])) \<in> set (snd (settle 0 demo_token_nets m))"
    using demo_covalent_answer run(3) by metis
  from covalent_list_current [OF run(1) prod.collapse [symmetric] x] run(2)
  have "publicKey x = ''0x01''" by (auto simp: list_all2_Cons1)
  then show ?thesis using x run(3) by auto
qed

theorem token_list_lost_witness:
  "\<exists>s' m'. foldl (hookStep (covalent_effect demo_token_libs Devnet) (covalent_deps_of False) (tokensReduce ''now''))
       (chooseSource ''now'' CHAIN_ID_ETH demo_tokens\<lparr>th_covalent := Some [demo_item ''5'']\<rparr>, mount)
       (demo_to_solana @
        [Outside (chooseSource ''now'' CHAIN_ID_ETH), Outside (compareWallet ''now'' (\<lambda>k. k)), Flush]) = (s', m') \<and>
     data (ethAccounts (sourceParsedTokenAccounts (transfer (th_root s'))) (th_native s') False None) =
       Some (case th_native s' of None \<Rightarrow> [] | Some n \<Rightarrow> [n])"
proof -
  let ?s = "chooseSource ''now'' CHAIN_ID_ETH demo_tokens\<lparr>th_covalent := Some [demo_item ''5'']\<rparr>"
  obtain s' m' where run: "foldl (hookStep (covalent_effect demo_token_libs Devnet) (covalent_deps_of False) (tokensReduce ''now''))
      (?s, mount) (demo_to_solana @ [Outside (chooseSource ''now'' CHAIN_ID_ETH), Outside (compareWallet ''now'' (\<lambda>k. k)), Flush]) = (s', m')"
    by fastforce
  have s: "th_covalent ?s = Some [demo_item ''5'']" "sourceWalletAddress (transfer (th_root ?s)) = None"
    by (simp_all add: chooseSource_def demo_tokens_def store_initial_def transfer_initialState_def transfer_setSourceChain_def Let_def)
  have "page_event ''now'' (\<lambda>k. k) ev" if "ev \<in> set demo_to_solana" for ev
    using that by (auto simp: demo_to_solana_def intro: page_event.intros)
  from token_list_lost [OF s _ this run] have "data (ethAccounts (sourceParsedTokenAccounts (transfer (th_root s'))) (th_native s') False None) =
      Some (case th_native s' of None \<Rightarrow> [] | Some n \<Rightarrow> [n])" by (simp add: mount_def Let_def)
  then show ?thesis using run by blast
qed

theorem solana_list_leaks_witness:
  "\<exists>s' m'. foldl (hookStep (solanaAccounts_effect demo_token_libs demo_token_outside) (solana_accounts_deps_of False) (tokensReduce ''now''))
       (demo_tokens, mount) [Flush, Outside (chooseSource ''now'' CHAIN_ID_ETH), Settle 0 demo_token_nets] = (s', m') \<and>
     sourceChain (transfer (th_root s')) = CHAIN_ID_ETH \<and>
     map_option (map mintKey) (data (sourceParsedTokenAccounts (transfer (th_root s')))) = Some [''mint'']"
proof -
  let ?step = "hookStep (solanaAccounts_effect demo_token_libs demo_token_outside) (solana_accounts_deps_of False) (tokensReduce ''now'')"
  let ?evs = "[Flush, Outside (chooseSource ''now'' CHAIN_ID_ETH)]"
  obtain s m where run: "hookRun (solanaAccounts_effect demo_token_libs demo_token_outside) (solana_accounts_deps_of False)
      (tokensReduce ''now'') ?evs demo_tokens = (s, m)" by fastforce
  have m: "0 < length (pending m)" "sourceChain (transfer (th_root s)) = CHAIN_ID_ETH"
    using run by (auto simp: hook_defs Let_def solanaAccounts_effect_def solana_accounts_deps_of_def demo_tokens_def demo_wallets_def
      lookupChain_def store_initial_def transfer_initialState_def getEmptyDataWrapper_def fetchAccounts_def chooseSource_def
      transfer_setSourceChain_def)
  have net: "publicKeyS (o_web3 demo_token_outside) w = Inr ''sol''"
    "tk_ownerAccounts demo_token_nets ''sol'' = Inr [\<lparr>sa_pubkey = ''acc'', sa_mint = ''mint'', sa_amount = ''5'', sa_decimals = 0,
       sa_uiAmount = 5, sa_uiAmountString = ''5''\<rparr>]" "tk_lamports demo_token_nets [''sol''] = Inr [None]" for w
    by (simp_all add: demo_token_outside_def demo_token_nets_def)
  have "foldl ?step (demo_tokens, mount) (?evs @ [Settle 0 demo_token_nets]) = ?step (s, m) (Settle 0 demo_token_nets)"
    using run by (simp only: foldl_append hookRun_def foldl.simps)
  then show ?thesis
    using solana_list_leaks [OF run m(1) net] m(2) by (auto simp: createParsedTokenAccountFromInfo_def)
qed

end
