(* ===== verification/Wizard.thy ===== *)
theory Wizard
  imports HandleTransfer HandleNft HandleAttest Inputs
begin

text \<open>
  The three pages as wizards of four steps (\<open>components/Transfer/index.tsx\<close>, \<open>components/NFT/index.tsx\<close>,
  \<open>components/Attest/index.tsx\<close> with the \<open>Source\<close>, \<open>Target\<close>, \<open>Send\<close>, \<open>Redeem\<close> and \<open>Create\<close> components next to them): which
  step is shown, which buttons work, what the form of a step may change, what the handlers and hooks dispatch in the
  meantime. A page is a record of these, a move is a step relation on the store and the phase of the page's handler. The
  interface \<open>wizard_page\<close> is what the slice and the buttons of a page must do for the wizard to hold together; it is
  interpreted on the three pages.
\<close>

section \<open>Pages\<close>

record ('s, 'a, 'c) wizard =
  wz_reduce :: "'s \<Rightarrow> 'a \<Rightarrow> 's"
  wz_step :: "'s \<Rightarrow> nat"
  wz_chosen :: "'s \<Rightarrow> 'c"
  wz_isSending :: "'s \<Rightarrow> bool"
  wz_isSendComplete :: "'s \<Rightarrow> bool"
  wz_isRedeeming :: "'s \<Rightarrow> bool"
  wz_isRedeemComplete :: "'s \<Rightarrow> bool"
  wz_isRecovery :: "'s \<Rightarrow> bool"
  wz_button :: "'s \<Rightarrow> nat \<Rightarrow> bool"
  wz_nextEnabled :: "'s \<Rightarrow> bool"
  wz_sendDisabled :: "'s \<Rightarrow> bool"
  wz_choice :: "'s \<Rightarrow> 'a \<Rightarrow> bool"
  wz_background :: "'a \<Rightarrow> bool"
  wz_recovers :: "'a \<Rightarrow> bool"
  wz_setStep :: "nat \<Rightarrow> 'a"
  wz_incrementStep :: 'a
  wz_setIsSending :: "bool \<Rightarrow> 'a"
  wz_setTx :: "transaction_ref \<Rightarrow> 'a"
  wz_setSignedVAA :: "string \<Rightarrow> 'a"
  wz_setIsRedeeming :: "bool \<Rightarrow> 'a"
  wz_setRedeemTx :: "transaction_ref \<Rightarrow> 'a"
  wz_reset :: 'a

text \<open>What the page's handler is doing: nothing, sending (the transaction has been recorded or not), redeeming.\<close>

datatype phase = Idle | Sending bool | Redeeming

text \<open>
  The moves. A button above a step is clicked; the form of the step changes a choice; its \<open>Next\<close> button goes on; a hook
  dispatches; the handlers run as \<open>send_run\<close> and \<open>redeem_run\<close> of \<open>Pages\<close> say, started from the step that shows their
  button; the wizard is started over from the page that says that all is done, or that the recovered transfer had been
  redeemed before; the recovery page hands over a VAA while no handler runs.
\<close>

inductive wizard_move :: "('s, 'a, 'c) wizard \<Rightarrow> 's \<times> phase \<Rightarrow> 's \<times> phase \<Rightarrow> bool" for W where
  button: "wz_button W s n \<Longrightarrow> wizard_move W (s, ph) (wz_reduce W s (wz_setStep W n), ph)"
| next_step: "wz_step W s \<le> 1 \<Longrightarrow> wz_nextEnabled W s \<Longrightarrow> wizard_move W (s, ph) (wz_reduce W s (wz_incrementStep W), ph)"
| choose: "wz_choice W s a \<Longrightarrow> wizard_move W (s, ph) (wz_reduce W s a, ph)"
| background: "wz_background W a \<Longrightarrow> wizard_move W (s, ph) (wz_reduce W s a, ph)"
| send: "wz_step W s = 2 \<Longrightarrow> \<not> wz_sendDisabled W s \<Longrightarrow>
    wizard_move W (s, Idle) (wz_reduce W s (wz_setIsSending W True), Sending False)"
| sent: "wizard_move W (s, Sending False) (wz_reduce W s (wz_setTx W t), Sending True)"
| fetched: "v \<noteq> '''' \<Longrightarrow> wizard_move W (s, Sending True) (wz_reduce W s (wz_setSignedVAA W v), Idle)"
| failed: "wizard_move W (s, Sending b) (wz_reduce W s (wz_setIsSending W False), Idle)"
| redeem: "wz_step W s = 3 \<Longrightarrow> \<not> wz_isRedeeming W s \<Longrightarrow> \<not> wz_isRedeemComplete W s \<Longrightarrow>
    wizard_move W (s, Idle) (wz_reduce W s (wz_setIsRedeeming W True), Redeeming)"
| redeemed: "wizard_move W (s, Redeeming) (wz_reduce W s (wz_setRedeemTx W t), Idle)"
| rejected: "wizard_move W (s, Redeeming) (wz_reduce W s (wz_setIsRedeeming W False), Idle)"
| restart: "wz_isRedeemComplete W s \<or> wz_isRecovery W s \<and> wz_step W s = 3 \<Longrightarrow>
    wizard_move W (s, Idle) (wz_reduce W s (wz_reset W), Idle)"
| recover: "wz_recovers W a \<Longrightarrow> wizard_move W (s, Idle) (wz_reduce W s a, Idle)"

inductive_cases wizard_moveE: "wizard_move W sp sp'"

inductive wizard_reachable :: "('s, 'a, 'c) wizard \<Rightarrow> 's \<Rightarrow> 's \<times> phase \<Rightarrow> bool" for W s0 where
  start: "wizard_reachable W s0 (s0, Idle)"
| move: "wizard_reachable W s0 sp \<Longrightarrow> wizard_move W sp sp' \<Longrightarrow> wizard_reachable W s0 sp'"

section \<open>The interface\<close>

text \<open>The flags of a page and the step that goes with them.\<close>

definition flags :: "('s, 'a, 'c) wizard \<Rightarrow> 's \<Rightarrow> bool \<times> bool \<times> bool \<times> bool" where
  "flags W s = (wz_isSending W s, wz_isSendComplete W s, wz_isRedeeming W s, wz_isRedeemComplete W s)"

locale wizard_page =
  fixes W :: "('s, 'a, 'c) wizard"
  assumes button_law: "wz_button W s n \<Longrightarrow> n \<le> 3 \<and> (n = 3 \<longleftrightarrow> wz_isSendComplete W s) \<and> (wz_isSending W s \<and> \<not> wz_isSendComplete W s \<longrightarrow> n = 2)"
    and setStep_law: "wz_step W (wz_reduce W s (wz_setStep W n)) = n" "flags W (wz_reduce W s (wz_setStep W n)) = flags W s"
      "wz_chosen W (wz_reduce W s (wz_setStep W n)) = wz_chosen W s"
    and increment_law: "wz_step W s \<le> 1 \<Longrightarrow> wz_step W (wz_reduce W s (wz_incrementStep W)) = Suc (wz_step W s)"
      "flags W (wz_reduce W s (wz_incrementStep W)) = flags W s"
    and choice_law: "wz_choice W s a \<Longrightarrow> wz_step W s \<le> 1 \<and> wz_step W (wz_reduce W s a) \<le> 1 \<and> flags W (wz_reduce W s a) = flags W s"
    and background_law: "wz_background W a \<Longrightarrow> wz_step W (wz_reduce W s a) = wz_step W s \<and> flags W (wz_reduce W s a) = flags W s \<and>
      wz_chosen W (wz_reduce W s a) = wz_chosen W s"
    and sendDisabled_law: "wz_isSendComplete W s \<Longrightarrow> wz_sendDisabled W s"
    and setIsSending_law: "wz_step W (wz_reduce W s (wz_setIsSending W b)) = wz_step W s"
      "flags W (wz_reduce W s (wz_setIsSending W b)) = (b, snd (flags W s))"
      "wz_chosen W (wz_reduce W s (wz_setIsSending W b)) = wz_chosen W s"
    and setTx_law: "wz_step W (wz_reduce W s (wz_setTx W t)) = wz_step W s" "flags W (wz_reduce W s (wz_setTx W t)) = flags W s"
      "wz_chosen W (wz_reduce W s (wz_setTx W t)) = wz_chosen W s"
    and setSignedVAA_law: "v \<noteq> '''' \<Longrightarrow> wz_step W (wz_reduce W s (wz_setSignedVAA W v)) = 3"
      "v \<noteq> '''' \<Longrightarrow> flags W (wz_reduce W s (wz_setSignedVAA W v)) = (False, True, snd (snd (flags W s)))"
      "wz_chosen W (wz_reduce W s (wz_setSignedVAA W v)) = wz_chosen W s"
    and setIsRedeeming_law: "wz_step W (wz_reduce W s (wz_setIsRedeeming W b)) = wz_step W s"
      "flags W (wz_reduce W s (wz_setIsRedeeming W b)) = (wz_isSending W s, wz_isSendComplete W s, b, wz_isRedeemComplete W s)"
      "wz_chosen W (wz_reduce W s (wz_setIsRedeeming W b)) = wz_chosen W s"
    and setRedeemTx_law: "wz_step W (wz_reduce W s (wz_setRedeemTx W t)) = wz_step W s"
      "flags W (wz_reduce W s (wz_setRedeemTx W t)) = (wz_isSending W s, wz_isSendComplete W s, False, True)"
      "wz_chosen W (wz_reduce W s (wz_setRedeemTx W t)) = wz_chosen W s"
    and recovers_law: "wz_recovers W a \<Longrightarrow> wz_step W (wz_reduce W s a) = 3 \<and>
      flags W (wz_reduce W s a) = (wz_isSending W s, True, wz_isRedeeming W s, wz_isRedeemComplete W s)"
    and reset_law: "wz_step W (wz_reduce W s (wz_reset W)) = 0" "flags W (wz_reduce W s (wz_reset W)) = (False, False, False, False)"

text \<open>The step that is shown goes with the flags, and the flags with the handler.\<close>

definition wizard_ok :: "('s, 'a, 'c) wizard \<Rightarrow> 's \<times> phase \<Rightarrow> bool" where
  "wizard_ok W sp \<longleftrightarrow> (case sp of (s, ph) \<Rightarrow>
     wz_step W s \<le> 3 \<and> (wz_step W s = 3 \<longleftrightarrow> wz_isSendComplete W s) \<and>
     (wz_isRedeemComplete W s \<longrightarrow> wz_isSendComplete W s) \<and>
     (wz_isSending W s \<longleftrightarrow> (\<exists>b. ph = Sending b)) \<and> (wz_isSending W s \<longrightarrow> wz_step W s = 2) \<and>
     (wz_isRedeeming W s \<longleftrightarrow> ph = Redeeming) \<and> (wz_isRedeeming W s \<longrightarrow> wz_isSendComplete W s))"

context wizard_page
begin

lemma chosen_kept:
  assumes "wizard_move W (s, ph) (s', ph')" "wizard_ok W (s, ph)" "wz_isSending W s \<or> wz_isSendComplete W s"
  shows "wz_chosen W s' = wz_chosen W s \<or> ph = Idle \<and> (s' = wz_reduce W s (wz_reset W) \<or> (\<exists>a. wz_recovers W a \<and> s' = wz_reduce W s a))"
proof -
  have "2 \<le> wz_step W s" using assms(2,3) by (auto simp: wizard_ok_def)
  with assms(1) show ?thesis
    by cases (use choice_law background_law in \<open>fastforce simp: setStep_law setIsSending_law setTx_law setSignedVAA_law
        setIsRedeeming_law setRedeemTx_law\<close>)+
qed

lemma flagsD:
  "flags W s' = flags W s \<Longrightarrow> wz_isSending W s' = wz_isSending W s \<and> wz_isSendComplete W s' = wz_isSendComplete W s \<and>
     wz_isRedeeming W s' = wz_isRedeeming W s \<and> wz_isRedeemComplete W s' = wz_isRedeemComplete W s"
  by (simp add: flags_def)

lemma move_ok: "wizard_move W sp sp' \<Longrightarrow> wizard_ok W sp \<Longrightarrow> wizard_ok W sp'"
proof (induction rule: wizard_move.cases)
  case (button s n ph)
  then show ?case
    using button_law [OF button(3)] flagsD [OF setStep_law(2)] by (auto simp: wizard_ok_def setStep_law(1))
next
  case (next_step s ph)
  then show ?case
    using flagsD [OF increment_law(2)] by (auto simp: wizard_ok_def increment_law(1))
next
  case (choose s a ph)
  then show ?case
    using choice_law [OF choose(3)] flagsD [of "wz_reduce W s a" s] by (auto simp: wizard_ok_def)
next
  case (background a s ph)
  then show ?case
    using background_law [OF background(3), of s] flagsD [of "wz_reduce W s a" s] by (auto simp: wizard_ok_def)
next
  case (send s)
  then show ?case
    using setIsSending_law(2) [of s True] sendDisabled_law by (auto simp: wizard_ok_def setIsSending_law(1) flags_def)
next
  case (sent s t)
  then show ?case
    using flagsD [OF setTx_law(2)] by (auto simp: wizard_ok_def setTx_law(1))
next
  case (fetched v s)
  then show ?case
    using setSignedVAA_law(2) [OF fetched(3), of s] by (auto simp: wizard_ok_def setSignedVAA_law(1) flags_def)
next
  case (failed s b)
  then show ?case
    using setIsSending_law(2) [of s False] by (auto simp: wizard_ok_def setIsSending_law(1) flags_def)
next
  case (redeem s)
  then show ?case
    using setIsRedeeming_law(2) [of s True] by (auto simp: wizard_ok_def setIsRedeeming_law(1) flags_def)
next
  case (redeemed s t)
  then show ?case
    using setRedeemTx_law(2) [of s t] by (auto simp: wizard_ok_def setRedeemTx_law(1) flags_def)
next
  case (rejected s)
  then show ?case
    using setIsRedeeming_law(2) [of s False] by (auto simp: wizard_ok_def setIsRedeeming_law(1) flags_def)
next
  case (restart s)
  then show ?case
    using reset_law [of s] by (auto simp: wizard_ok_def flags_def)
next
  case (recover a s)
  then show ?case
    using recovers_law [OF recover(3), of s] by (auto simp: wizard_ok_def flags_def)
qed

lemma reachable_ok: "wizard_reachable W s0 sp \<Longrightarrow> wizard_ok W (s0, Idle) \<Longrightarrow> wizard_ok W sp"
  by (induction rule: wizard_reachable.induct) (auto intro: move_ok)

text \<open>From the click on the send button to its end, nothing else happens to what was chosen.\<close>

lemma pending_chosen:
  assumes "(\<lambda>sp sp'. wizard_move W sp sp' \<and> (\<exists>b. snd sp = Sending b))\<^sup>*\<^sup>* sp sp'" "wizard_ok W sp"
  shows "wz_chosen W (fst sp') = wz_chosen W (fst sp) \<and> wizard_ok W sp'"
  using assms
proof (induction rule: rtranclp_induct)
  case (step y z)
  obtain s b s' ph where y: "y = (s, Sending b)" and z: "z = (s', ph)"
    using step.hyps(2) by (metis prod.collapse)
  have ok: "wizard_ok W (s, Sending b)" using step.IH [OF step.prems] y by simp
  have "wz_isSending W s" using ok by (simp add: wizard_ok_def)
  then have "wz_chosen W s' = wz_chosen W s"
    using chosen_kept [OF _ ok, of s' ph] step.hyps(2) y z by auto
  then show ?case using step.IH [OF step.prems] move_ok [OF _ ok, of z] step.hyps(2) y z by auto
qed simp

lemma send_chosen:
  assumes "wizard_reachable W s0 (s, Sending b)" "wizard_ok W (s0, Idle)"
    "(\<lambda>sp sp'. wizard_move W sp sp' \<and> (\<exists>b. snd sp = Sending b))\<^sup>*\<^sup>* (s, Sending b) (s', ph')"
  shows "wz_chosen W s' = wz_chosen W s"
  using pending_chosen [OF assms(3) reachable_ok [OF assms(1,2)]] by simp

end

section \<open>The transfer page\<close>

text \<open>\<open>Source.tsx\<close>: a token that has a migration pool gets a link to its page instead of the \<open>Next\<close> button.\<close>

definition isMigrationAsset :: "(string \<Rightarrow> string) \<Rightarrow> cluster \<Rightarrow> transfer_state \<Rightarrow> bool" where
  "isMigrationAsset G c s \<longleftrightarrow>
     (case sourceParsedTokenAccount s of
        None \<Rightarrow> False
      | Some acct \<Rightarrow>
          sourceChain s = CHAIN_ID_SOLANA \<and> truthy (mapOf (MIGRATION_ASSET_MAP c) (mintKey acct)) \<or>
          sourceChain s = CHAIN_ID_ETH \<and> truthy (mapOf (ETH_MIGRATION_ASSET_MAP G c) (G (mintKey acct))) \<or>
          sourceChain s = CHAIN_ID_BSC \<and> truthy (mapOf (BSC_MIGRATION_ASSET_MAP G c) (G (mintKey acct))))"

definition transfer_prevent :: "('a, 'b, 'c) root_state \<Rightarrow> bool" where
  "transfer_prevent s \<longleftrightarrow>
     (isSending (transfer s) \<or> selectTransferIsSendComplete s \<or> isRedeeming (transfer s)) \<and> \<not> selectTransferIsRedeemComplete s"

definition transfer_stepButton :: "('a, 'b, 'c) root_state \<Rightarrow> nat \<Rightarrow> bool" where
  "transfer_stepButton s n \<longleftrightarrow>
     n = 0 \<and> \<not> (transfer_prevent s \<or> selectTransferIsRedeemComplete s) \<or>
     n = 1 \<and> \<not> (transfer_prevent s \<or> selectTransferIsRedeemComplete s \<or> activeStep (transfer s) = 0) \<or>
     n = 3 \<and> \<not> (\<not> selectTransferIsSendComplete s \<or> selectTransferIsRedeemComplete s)"

text \<open>\<open>Target.tsx\<close> also waits until the associated account exists (local state of the component).\<close>

definition transfer_nextEnabled :: "(string \<Rightarrow> string) \<Rightarrow> cluster \<Rightarrow> bool \<Rightarrow> parse_units \<Rightarrow> ('a, 'b, 'c) root_state \<Rightarrow> bool" where
  "transfer_nextEnabled G c associatedAccountExists P s \<longleftrightarrow>
     (if activeStep (transfer s) = 0 then \<not> isMigrationAsset G c (transfer s) \<and> selectTransferIsSourceComplete P s
      else selectTransferIsTargetComplete P s \<and> associatedAccountExists)"

text \<open>What the forms dispatch: the source step with its token picker, the target step with the wallet's address.\<close>

fun transfer_choice :: "('a, 'b, 'c) root_state \<Rightarrow> ('a, 'b, 'c) root_action \<Rightarrow> bool" where
  "transfer_choice s (TransferAction (SetSourceChain n)) \<longleftrightarrow> activeStep (transfer s) = 0 \<and> \<not> selectTransferShouldLockFields s"
| "transfer_choice s (TransferAction (SetTargetChain n)) \<longleftrightarrow> activeStep (transfer s) = 0 \<and> \<not> selectTransferShouldLockFields s"
| "transfer_choice s (TransferAction (SetAmount amt)) \<longleftrightarrow> activeStep (transfer s) = 0"
| "transfer_choice s (TransferAction (SetSourceParsedTokenAccount acct)) \<longleftrightarrow> activeStep (transfer s) = 0"
| "transfer_choice s (TransferAction (SetSourceWalletAddress addr)) \<longleftrightarrow> activeStep (transfer s) = 0"
| "transfer_choice s (TransferAction (SetTargetAddressHex addr)) \<longleftrightarrow> activeStep (transfer s) = 1 \<and> \<not> selectTransferShouldLockFields s"
| "transfer_choice s _ \<longleftrightarrow> False"

text \<open>What the hooks dispatch on their own.\<close>

fun transfer_background :: "('a, 'b, 'c) root_action \<Rightarrow> bool" where
  "transfer_background (TransferAction (SetSourceWormholeWrappedInfo _)) \<longleftrightarrow> True"
| "transfer_background (TransferAction (SetSourceParsedTokenAccounts _)) \<longleftrightarrow> True"
| "transfer_background (TransferAction FetchSourceParsedTokenAccounts) \<longleftrightarrow> True"
| "transfer_background (TransferAction (ErrorSourceParsedTokenAccounts _)) \<longleftrightarrow> True"
| "transfer_background (TransferAction (ReceiveSourceParsedTokenAccounts _)) \<longleftrightarrow> True"
| "transfer_background (TransferAction (SetTargetAsset _)) \<longleftrightarrow> True"
| "transfer_background (TransferAction (SetTargetParsedTokenAccount _)) \<longleftrightarrow> True"
| "transfer_background (TransferAction (SetIsApproving _)) \<longleftrightarrow> True"
| "transfer_background (TokenAction _) \<longleftrightarrow> True"
| "transfer_background (FeeAction _) \<longleftrightarrow> True"
| "transfer_background _ \<longleftrightarrow> False"

text \<open>What the recovery page hands over; a VAA that it takes is not empty.\<close>

fun transfer_recovers :: "('a, 'b, 'c) root_action \<Rightarrow> bool" where
  "transfer_recovers (TransferAction (SetRecoveryVaa payload)) \<longleftrightarrow> rp_vaa payload \<noteq> ''''"
| "transfer_recovers _ \<longleftrightarrow> False"

type_synonym transfer_choices = "nat \<times> parsed_token_account option \<times> string option \<times> string \<times> nat \<times> string option"

definition transfer_chosen :: "('a, 'b, 'c) root_state \<Rightarrow> transfer_choices" where
  "transfer_chosen s = (sourceChain (transfer s), sourceParsedTokenAccount (transfer s), sourceWalletAddress (transfer s),
     transfer_state.amount (transfer s), targetChain (transfer s), targetAddressHex (transfer s))"

definition transfer_wizard :: "(string \<Rightarrow> string) \<Rightarrow> cluster \<Rightarrow> bool \<Rightarrow> parse_units \<Rightarrow> string \<Rightarrow>
    (('a, 'b, 'c) root_state, ('a, 'b, 'c) root_action, transfer_choices) wizard" where
  "transfer_wizard G c associatedAccountExists P now =
     \<lparr>wz_reduce = rootReducer now, wz_step = \<lambda>s. activeStep (transfer s), wz_chosen = transfer_chosen,
      wz_isSending = \<lambda>s. isSending (transfer s), wz_isSendComplete = selectTransferIsSendComplete,
      wz_isRedeeming = \<lambda>s. isRedeeming (transfer s), wz_isRedeemComplete = selectTransferIsRedeemComplete,
      wz_isRecovery = \<lambda>s. isRecovery (transfer s),
      wz_button = transfer_stepButton, wz_nextEnabled = transfer_nextEnabled G c associatedAccountExists P,
      wz_sendDisabled = transfer_sendDisabled P, wz_choice = transfer_choice, wz_background = transfer_background,
      wz_recovers = transfer_recovers,
      wz_setStep = \<lambda>n. TransferAction (SetStep n), wz_incrementStep = TransferAction IncrementStep,
      wz_setIsSending = \<lambda>b. TransferAction (SetIsSending b), wz_setTx = \<lambda>t. TransferAction (SetTransferTx t),
      wz_setSignedVAA = \<lambda>v. TransferAction (SetSignedVAAHex v), wz_setIsRedeeming = \<lambda>b. TransferAction (SetIsRedeeming b),
      wz_setRedeemTx = \<lambda>t. TransferAction (SetRedeemTx t), wz_reset = TransferAction Reset\<rparr>"

lemma transfer_choiceE:
  assumes "transfer_choice s a"
  obtains x where "a = TransferAction x" "activeStep (transfer s) \<le> 1" "activeStep (transferReducer now (transfer s) x) \<le> 1"
    "isSending (transferReducer now (transfer s) x) = isSending (transfer s)"
    "signedVAAHex (transferReducer now (transfer s) x) = signedVAAHex (transfer s)"
    "isRedeeming (transferReducer now (transfer s) x) = isRedeeming (transfer s)"
    "redeemTx (transferReducer now (transfer s) x) = redeemTx (transfer s)"
  using assms by (cases "(s, a)" rule: transfer_choice.cases) (auto simp: transfer_reducer_defs Let_def)

interpretation transfer_page: wizard_page "transfer_wizard G c x P now" for G c x P now
proof
  fix s :: "('a, 'b, 'c) root_state" and a
  show "wz_choice (transfer_wizard G c x P now) s a \<Longrightarrow> wz_step (transfer_wizard G c x P now) s \<le> 1 \<and>
      wz_step (transfer_wizard G c x P now) (wz_reduce (transfer_wizard G c x P now) s a) \<le> 1 \<and>
      flags (transfer_wizard G c x P now) (wz_reduce (transfer_wizard G c x P now) s a) = flags (transfer_wizard G c x P now) s"
    by (simp add: transfer_wizard_def flags_def selectTransferIsSendComplete_def selectTransferIsRedeemComplete_def)
      (erule transfer_choiceE [where now = now], simp)
next
  fix s :: "('a, 'b, 'c) root_state" and a
  show "wz_background (transfer_wizard G c x P now) a \<Longrightarrow>
      wz_step (transfer_wizard G c x P now) (wz_reduce (transfer_wizard G c x P now) s a) = wz_step (transfer_wizard G c x P now) s \<and>
      flags (transfer_wizard G c x P now) (wz_reduce (transfer_wizard G c x P now) s a) = flags (transfer_wizard G c x P now) s \<and>
      wz_chosen (transfer_wizard G c x P now) (wz_reduce (transfer_wizard G c x P now) s a) = wz_chosen (transfer_wizard G c x P now) s"
    by (cases a rule: transfer_background.cases)
      (auto simp: transfer_wizard_def flags_def selectTransferIsSendComplete_def selectTransferIsRedeemComplete_def transfer_chosen_def
        transfer_reducer_defs)
qed (auto simp: transfer_wizard_def flags_def selectTransferIsSendComplete_def selectTransferIsRedeemComplete_def transfer_chosen_def
  transfer_reducer_defs transfer_stepButton_def transfer_prevent_def transfer_sendDisabled_def LAST_STEP_def transfer_initialState_def
  Let_def elim!: transfer_recovers.elims split: if_splits)

section \<open>The NFT page\<close>

definition nft_prevent :: "('a, 'b, 'c) root_state \<Rightarrow> bool" where
  "nft_prevent s \<longleftrightarrow>
     (n_isSending (nft s) \<or> selectNFTIsSendComplete s \<or> n_isRedeeming (nft s)) \<and> \<not> selectNFTIsRedeemComplete s"

definition nft_stepButton :: "('a, 'b, 'c) root_state \<Rightarrow> nat \<Rightarrow> bool" where
  "nft_stepButton s n \<longleftrightarrow>
     n = 0 \<and> \<not> (nft_prevent s \<or> selectNFTIsRedeemComplete s) \<or>
     n = 1 \<and> \<not> (nft_prevent s \<or> selectNFTIsRedeemComplete s \<or> n_activeStep (nft s) = 0) \<or>
     n = 3 \<and> \<not> (\<not> selectNFTIsSendComplete s \<or> selectNFTIsRedeemComplete s)"

definition nft_nextEnabled :: "parse_units \<Rightarrow> ('a, 'b, 'c) root_state \<Rightarrow> bool" where
  "nft_nextEnabled P s \<longleftrightarrow>
     (if n_activeStep (nft s) = 0 then selectNFTIsSourceComplete P s else selectNFTIsTargetComplete P s)"

text \<open>The target chain is chosen in the target step, which does not lock it.\<close>

fun nft_choice :: "('a, 'b, 'c) root_state \<Rightarrow> ('a, 'b, 'c) root_action \<Rightarrow> bool" where
  "nft_choice s (NftAction (NftSetSourceChain n)) \<longleftrightarrow> n_activeStep (nft s) = 0 \<and> \<not> selectNFTShouldLockFields s"
| "nft_choice s (NftAction (NftSetTargetChain n)) \<longleftrightarrow> n_activeStep (nft s) = 1"
| "nft_choice s (NftAction (NftSetSourceParsedTokenAccount acct)) \<longleftrightarrow> n_activeStep (nft s) = 0"
| "nft_choice s (NftAction (NftSetSourceWalletAddress addr)) \<longleftrightarrow> n_activeStep (nft s) = 0"
| "nft_choice s (NftAction (NftSetTargetAddressHex addr)) \<longleftrightarrow> n_activeStep (nft s) = 1 \<and> \<not> selectNFTShouldLockFields s"
| "nft_choice s _ \<longleftrightarrow> False"

fun nft_background :: "('a, 'b, 'c) root_action \<Rightarrow> bool" where
  "nft_background (NftAction (NftSetSourceWormholeWrappedInfo _)) \<longleftrightarrow> True"
| "nft_background (NftAction (NftSetSourceParsedTokenAccounts _)) \<longleftrightarrow> True"
| "nft_background (NftAction NftFetchSourceParsedTokenAccounts) \<longleftrightarrow> True"
| "nft_background (NftAction (NftErrorSourceParsedTokenAccounts _)) \<longleftrightarrow> True"
| "nft_background (NftAction (NftReceiveSourceParsedTokenAccounts _)) \<longleftrightarrow> True"
| "nft_background (NftAction (NftSetTargetAsset _)) \<longleftrightarrow> True"
| "nft_background (TokenAction _) \<longleftrightarrow> True"
| "nft_background (FeeAction _) \<longleftrightarrow> True"
| "nft_background _ \<longleftrightarrow> False"

text \<open>What the recovery page hands over; a VAA that it takes is not empty.\<close>

fun nft_recovers :: "('a, 'b, 'c) root_action \<Rightarrow> bool" where
  "nft_recovers (NftAction (NftSetRecoveryVaa payload)) \<longleftrightarrow> nrp_vaa payload \<noteq> ''''"
| "nft_recovers _ \<longleftrightarrow> False"

type_synonym nft_choices = "nat \<times> nft_account option \<times> string option \<times> nat \<times> string option"

definition nft_chosen :: "('a, 'b, 'c) root_state \<Rightarrow> nft_choices" where
  "nft_chosen s = (n_sourceChain (nft s), n_sourceParsedTokenAccount (nft s), n_sourceWalletAddress (nft s),
     n_targetChain (nft s), n_targetAddressHex (nft s))"

definition nft_wizard :: "parse_units \<Rightarrow> string \<Rightarrow>
    (('a, 'b, 'c) root_state, ('a, 'b, 'c) root_action, nft_choices) wizard" where
  "nft_wizard P now =
     \<lparr>wz_reduce = rootReducer now, wz_step = \<lambda>s. n_activeStep (nft s), wz_chosen = nft_chosen,
      wz_isSending = \<lambda>s. n_isSending (nft s), wz_isSendComplete = selectNFTIsSendComplete,
      wz_isRedeeming = \<lambda>s. n_isRedeeming (nft s), wz_isRedeemComplete = selectNFTIsRedeemComplete, wz_isRecovery = \<lambda>s. False,
      wz_button = nft_stepButton, wz_nextEnabled = nft_nextEnabled P,
      wz_sendDisabled = nft_sendDisabled P, wz_choice = nft_choice, wz_background = nft_background,
      wz_recovers = nft_recovers,
      wz_setStep = \<lambda>n. NftAction (NftSetStep n), wz_incrementStep = NftAction NftIncrementStep,
      wz_setIsSending = \<lambda>b. NftAction (NftSetIsSending b), wz_setTx = \<lambda>t. NftAction (NftSetTransferTx t),
      wz_setSignedVAA = \<lambda>v. NftAction (NftSetSignedVAAHex v), wz_setIsRedeeming = \<lambda>b. NftAction (NftSetIsRedeeming b),
      wz_setRedeemTx = \<lambda>t. NftAction (NftSetRedeemTx t), wz_reset = NftAction NftReset\<rparr>"

lemma nft_choiceE:
  assumes "nft_choice s a"
  obtains x where "a = NftAction x" "n_activeStep (nft s) \<le> 1" "n_activeStep (nftReducer now (nft s) x) \<le> 1"
    "n_isSending (nftReducer now (nft s) x) = n_isSending (nft s)"
    "n_signedVAAHex (nftReducer now (nft s) x) = n_signedVAAHex (nft s)"
    "n_isRedeeming (nftReducer now (nft s) x) = n_isRedeeming (nft s)"
    "n_redeemTx (nftReducer now (nft s) x) = n_redeemTx (nft s)"
  using assms by (cases "(s, a)" rule: nft_choice.cases) (auto simp: nft_reducer_defs Let_def)

interpretation nft_page: wizard_page "nft_wizard P now" for P now
proof
  fix s :: "('a, 'b, 'c) root_state" and a
  show "wz_choice (nft_wizard P now) s a \<Longrightarrow> wz_step (nft_wizard P now) s \<le> 1 \<and>
      wz_step (nft_wizard P now) (wz_reduce (nft_wizard P now) s a) \<le> 1 \<and>
      flags (nft_wizard P now) (wz_reduce (nft_wizard P now) s a) = flags (nft_wizard P now) s"
    by (simp add: nft_wizard_def flags_def selectNFTIsSendComplete_def selectNFTIsRedeemComplete_def)
      (erule nft_choiceE [where now = now], simp)
next
  fix s :: "('a, 'b, 'c) root_state" and a
  show "wz_background (nft_wizard P now) a \<Longrightarrow>
      wz_step (nft_wizard P now) (wz_reduce (nft_wizard P now) s a) = wz_step (nft_wizard P now) s \<and>
      flags (nft_wizard P now) (wz_reduce (nft_wizard P now) s a) = flags (nft_wizard P now) s \<and>
      wz_chosen (nft_wizard P now) (wz_reduce (nft_wizard P now) s a) = wz_chosen (nft_wizard P now) s"
    by (cases a rule: nft_background.cases)
      (auto simp: nft_wizard_def flags_def selectNFTIsSendComplete_def selectNFTIsRedeemComplete_def nft_chosen_def nft_reducer_defs)
qed (auto simp: nft_wizard_def flags_def selectNFTIsSendComplete_def selectNFTIsRedeemComplete_def nft_chosen_def
  nft_reducer_defs nft_stepButton_def nft_prevent_def nft_sendDisabled_def LAST_STEP_def nft_initialState_def
  Let_def elim!: nft_recovers.elims split: if_splits)

section \<open>The attest page\<close>

definition attest_prevent :: "('a, 'b, 'c) root_state \<Rightarrow> bool" where
  "attest_prevent s \<longleftrightarrow>
     (a_isSending (attest s) \<or> selectAttestIsSendComplete s \<or> a_isCreating (attest s)) \<and> \<not> selectAttestIsCreateComplete s"

definition attest_stepButton :: "('a, 'b, 'c) root_state \<Rightarrow> nat \<Rightarrow> bool" where
  "attest_stepButton s n \<longleftrightarrow>
     n = 0 \<and> \<not> (attest_prevent s \<or> selectAttestIsCreateComplete s) \<or>
     n = 1 \<and> \<not> (attest_prevent s \<or> selectAttestIsCreateComplete s) \<or>
     n = 2 \<and> \<not> selectAttestIsSendComplete s \<or>
     n = 3 \<and> selectAttestIsSendComplete s"

definition attest_nextEnabled :: "('a, 'b, 'c) root_state \<Rightarrow> bool" where
  "attest_nextEnabled s \<longleftrightarrow>
     (if a_activeStep (attest s) = 0 then selectAttestIsSourceComplete s else selectAttestIsTargetComplete s)"

fun attest_choice :: "('a, 'b, 'c) root_state \<Rightarrow> ('a, 'b, 'c) root_action \<Rightarrow> bool" where
  "attest_choice s (AttestAction (AttestSetSourceChain n)) \<longleftrightarrow> a_activeStep (attest s) = 0 \<and> \<not> selectAttestShouldLockFields s"
| "attest_choice s (AttestAction (AttestSetSourceAsset t)) \<longleftrightarrow> a_activeStep (attest s) = 0 \<and> \<not> selectAttestShouldLockFields s"
| "attest_choice s (AttestAction (AttestSetTargetChain n)) \<longleftrightarrow> a_activeStep (attest s) = 1 \<and> \<not> selectAttestShouldLockFields s"
| "attest_choice s _ \<longleftrightarrow> False"

text \<open>No hook of this page dispatches to its slice.\<close>

fun attest_background :: "('a, 'b, 'c) root_action \<Rightarrow> bool" where
  "attest_background (TokenAction _) \<longleftrightarrow> True"
| "attest_background (FeeAction _) \<longleftrightarrow> True"
| "attest_background _ \<longleftrightarrow> False"

definition attest_chosen :: "('a, 'b, 'c) root_state \<Rightarrow> nat \<times> string \<times> nat" where
  "attest_chosen s = (a_sourceChain (attest s), a_sourceAsset (attest s), a_targetChain (attest s))"

definition attest_wizard :: "string \<Rightarrow> (('a, 'b, 'c) root_state, ('a, 'b, 'c) root_action, nat \<times> string \<times> nat) wizard" where
  "attest_wizard now =
     \<lparr>wz_reduce = rootReducer now, wz_step = \<lambda>s. a_activeStep (attest s), wz_chosen = attest_chosen,
      wz_isSending = \<lambda>s. a_isSending (attest s), wz_isSendComplete = selectAttestIsSendComplete,
      wz_isRedeeming = \<lambda>s. a_isCreating (attest s), wz_isRedeemComplete = selectAttestIsCreateComplete, wz_isRecovery = \<lambda>s. False,
      wz_button = attest_stepButton, wz_nextEnabled = attest_nextEnabled,
      wz_sendDisabled = attest_sendDisabled, wz_choice = attest_choice, wz_background = attest_background,
      wz_recovers = \<lambda>a. False,
      wz_setStep = \<lambda>n. AttestAction (AttestSetStep n), wz_incrementStep = AttestAction AttestIncrementStep,
      wz_setIsSending = \<lambda>b. AttestAction (AttestSetIsSending b), wz_setTx = \<lambda>t. AttestAction (AttestSetAttestTx t),
      wz_setSignedVAA = \<lambda>v. AttestAction (AttestSetSignedVAAHex v), wz_setIsRedeeming = \<lambda>b. AttestAction (AttestSetIsCreating b),
      wz_setRedeemTx = \<lambda>t. AttestAction (AttestSetCreateTx t), wz_reset = AttestAction AttestReset\<rparr>"

interpretation attest_page: wizard_page "attest_wizard now" for now
proof
  fix s :: "('a, 'b, 'c) root_state" and a
  show "wz_choice (attest_wizard now) s a \<Longrightarrow> wz_step (attest_wizard now) s \<le> 1 \<and>
      wz_step (attest_wizard now) (wz_reduce (attest_wizard now) s a) \<le> 1 \<and>
      flags (attest_wizard now) (wz_reduce (attest_wizard now) s a) = flags (attest_wizard now) s"
    by (cases "(s, a)" rule: attest_choice.cases)
      (auto simp: attest_wizard_def flags_def selectAttestIsSendComplete_def selectAttestIsCreateComplete_def attest_reducer_defs Let_def)
next
  fix s :: "('a, 'b, 'c) root_state" and a
  show "wz_background (attest_wizard now) a \<Longrightarrow>
      wz_step (attest_wizard now) (wz_reduce (attest_wizard now) s a) = wz_step (attest_wizard now) s \<and>
      flags (attest_wizard now) (wz_reduce (attest_wizard now) s a) = flags (attest_wizard now) s \<and>
      wz_chosen (attest_wizard now) (wz_reduce (attest_wizard now) s a) = wz_chosen (attest_wizard now) s"
    by (cases a rule: attest_background.cases)
      (auto simp: attest_wizard_def flags_def selectAttestIsSendComplete_def selectAttestIsCreateComplete_def attest_chosen_def)
qed (auto simp: attest_wizard_def flags_def selectAttestIsSendComplete_def selectAttestIsCreateComplete_def attest_chosen_def
  attest_reducer_defs attest_stepButton_def attest_prevent_def attest_sendDisabled_def LAST_STEP_def)

lemma transfer_initial_ok: "wizard_ok (transfer_wizard G c x P now) (store_initial, Idle)"
  by (simp add: wizard_ok_def transfer_wizard_def store_initial_def transfer_initialState_def selectTransferIsSendComplete_def
    selectTransferIsRedeemComplete_def)

lemma nft_initial_ok: "wizard_ok (nft_wizard P now) (store_initial, Idle)"
  by (simp add: wizard_ok_def nft_wizard_def store_initial_def nft_initialState_def selectNFTIsSendComplete_def
    selectNFTIsRedeemComplete_def)

lemma attest_initial_ok: "wizard_ok (attest_wizard now) (store_initial, Idle)"
  by (simp add: wizard_ok_def attest_wizard_def store_initial_def attest_initialState_def selectAttestIsSendComplete_def
    selectAttestIsCreateComplete_def)

section \<open>Links\<close>

text \<open>
  The effect of the path's parameters: with none nothing happens; two chains that are the same (or both unknown) are
  ignored; otherwise each known chain is dispatched. The transfer page looks the number up, the NFT page searches the
  chains that have an NFT bridge.
\<close>

definition nftChainOfPath :: "cluster \<Rightarrow> string option \<Rightarrow> ChainId option" where
  "nftChainOfPath c x = map_option ci_id (find (\<lambda>i. sameNumber x (ci_id i)) (CHAINS_WITH_NFT_SUPPORT c))"

definition path_effect :: "(string option \<Rightarrow> ChainId option) \<Rightarrow> (nat \<Rightarrow> 'a) \<Rightarrow> (nat \<Rightarrow> 'a) \<Rightarrow> string option \<Rightarrow> string option \<Rightarrow> 'a list" where
  "path_effect chainOf setSource setTarget pathSourceChain pathTargetChain =
     (if \<not> truthy pathSourceChain \<and> \<not> truthy pathTargetChain then []
      else let source = chainOf pathSourceChain; target = chainOf pathTargetChain in
        if source = target then []
        else (case source of None \<Rightarrow> [] | Some n \<Rightarrow> if n = 0 then [] else [setSource n]) @
          (case target of None \<Rightarrow> [] | Some n \<Rightarrow> if n = 0 then [] else [setTarget n]))"

definition transfer_pathEffect :: "cluster \<Rightarrow> string option \<Rightarrow> string option \<Rightarrow> transfer_action list" where
  "transfer_pathEffect c = path_effect (chainOfPath c) SetSourceChain SetTargetChain"

definition nft_pathEffect :: "cluster \<Rightarrow> string option \<Rightarrow> string option \<Rightarrow> nft_action list" where
  "nft_pathEffect c = path_effect (nftChainOfPath c) NftSetSourceChain NftSetTargetChain"

lemma find_map: "map_option f (find (\<lambda>x. Q (f x)) xs) = find Q (map f xs)"
  by (induction xs) auto

lemma nftChainOfPath_find: "nftChainOfPath c x = find (sameNumber x) (map ci_id (CHAINS_WITH_NFT_SUPPORT c))"
  unfolding nftChainOfPath_def by (rule find_map)

lemma nftChainOfPath_decimal:
  assumes "n < 2 ^ 53"
  shows "nftChainOfPath c (Some (decimal n)) = (if n \<in> ci_id ` set (CHAINS_WITH_NFT_SUPPORT c) then Some n else None)"
proof -
  have "jsNumber (decimal n) = Some (rat_of_nat n)"
    using assms by (simp add: jsNumber_def parseFloat_decimal toDouble_nat)
  then have "sameNumber (Some (decimal n)) = (\<lambda>m. m = n)"
    by (auto simp: sameNumber_def fun_eq_iff)
  then show ?thesis by (simp add: nftChainOfPath_find find_equal)
qed

lemma chainOfPath_None: "chainOfPath c None = None"
proof -
  have "jsNumber '''' = None" by (simp add: jsNumber_def parseFloat_def trimStart_def fraction_def)
  then have "sameNumber None = (\<lambda>n. False)" by (simp add: sameNumber_def fun_eq_iff)
  moreover have "find (\<lambda>n. False) ns = None" for ns :: "nat list" by (simp add: find_None_iff)
  ultimately show ?thesis by (simp add: chainOfPath_def)
qed

lemma transfer_chains_set:
  "a \<noteq> b \<Longrightarrow> sourceChain (transfer_setTargetChain (transfer_setSourceChain s a) b) = a \<and>
     targetChain (transfer_setTargetChain (transfer_setSourceChain s a) b) = b"
  by (auto simp: transfer_setTargetChain_def transfer_setSourceChain_def Let_def)

lemma chains_not_0: "n \<in> ci_id ` set (CHAINS c) \<Longrightarrow> n \<noteq> 0 \<and> n < 2 ^ 53"
  by (cases c) (auto simp: CHAINS_def byCluster_def chain_ids)

section \<open>Properties\<close>



text \<open>The same on the NFT page.\<close>

theorem nft_send_keeps_choices:
  assumes "wizard_reachable (nft_wizard P now) store_initial (s, Sending b)"
    "(\<lambda>sp sp'. wizard_move (nft_wizard P now) sp sp' \<and> (\<exists>b. snd sp = Sending b))\<^sup>*\<^sup>* (s, Sending b) (s', ph')"
  shows "nft_chosen s' = nft_chosen s"
  using nft_page.send_chosen [OF assms(1) nft_initial_ok assms(2)] by (simp add: nft_wizard_def)

text \<open>The same on the attest page: chains and token of the attestation that is being created are those it was sent
  for.\<close>

theorem attest_send_keeps_choices:
  assumes "wizard_reachable (attest_wizard now) store_initial (s, Sending b)"
    "(\<lambda>sp sp'. wizard_move (attest_wizard now) sp sp' \<and> (\<exists>b. snd sp = Sending b))\<^sup>*\<^sup>* (s, Sending b) (s', ph')"
  shows "attest_chosen s' = attest_chosen s"
  using attest_page.send_chosen [OF assms(1) attest_initial_ok assms(2)] by (simp add: attest_wizard_def)

text \<open>a link with two chains of the program sets exactly those two.\<close>

theorem transfer_link_sets_chains:
  assumes "a \<in> ci_id ` set (CHAINS c)" "b \<in> ci_id ` set (CHAINS c)" "a \<noteq> b"
  shows "let s' = foldl (transferReducer now) s (transfer_pathEffect c (Some (decimal a)) (Some (decimal b)))
    in sourceChain s' = a \<and> targetChain s' = b"
  using chains_not_0 [OF assms(1)] chains_not_0 [OF assms(2)] assms
  by (simp add: transfer_pathEffect_def path_effect_def chainOfPath_decimal transfer_chains_set)

text \<open>but it does so whatever the page is doing. With a VAA waiting to be redeemed, a link with the chains the other
  way round takes the page back to its first step and keeps the VAA, now to be redeemed on the chain it comes from.\<close>

theorem transfer_link_retargets:
  assumes "sourceChain (transfer s) = a" "targetChain (transfer s) = b" "a \<noteq> b"
    "a \<in> ci_id ` set (CHAINS c)" "b \<in> ci_id ` set (CHAINS c)" "selectTransferIsSendComplete s"
  shows "let s' = foldl (rootReducer now) s (map TransferAction (transfer_pathEffect c None (Some (decimal a))))
    in activeStep (transfer s') = 0 \<and> selectTransferIsSendComplete s' \<and> targetChain (transfer s') = a \<and>
      \<not> transfer_stepButton s' 1 \<and> (selectTransferIsRedeemComplete s \<or> transfer_stepButton s' 3)"
proof -
  have "chainOfPath c None = None" by (simp add: chainOfPath_None)
  then have "transfer_pathEffect c None (Some (decimal a)) = [SetTargetChain a]"
    using chains_not_0 [OF assms(4)] assms(4)
    by (simp add: transfer_pathEffect_def path_effect_def chainOfPath_decimal)
  then show ?thesis
    using assms(1-3,6)
    by (auto simp: transfer_setTargetChain_def selectTransferIsSendComplete_def selectTransferIsRedeemComplete_def
        transfer_stepButton_def transfer_prevent_def)
qed

text \<open>C20: a recovered VAA does not clear the record of the transfer before it. After a transfer has been redeemed and not
  been started over, the page shows the recovered one as redeemed: no handler can be started for it.\<close>

theorem recovered_after_redeemed:
  assumes "wizard_reachable (transfer_wizard G c x P now) store_initial (s, Idle)" "selectTransferIsRedeemComplete s"
    "rp_vaa payload \<noteq> ''''"
  shows "let s' = rootReducer now s (TransferAction (SetRecoveryVaa payload))
    in wizard_reachable (transfer_wizard G c x P now) store_initial (s', Idle) \<and> signedVAAHex (transfer s') = Some (rp_vaa payload) \<and>
      selectTransferIsRedeemComplete s' \<and> transfer_sendDisabled P s' \<and>
      (\<forall>n. \<not> transfer_stepButton s' n) \<and> (\<forall>s'' ph. wizard_move (transfer_wizard G c x P now) (s', Idle) (s'', ph) \<longrightarrow> ph = Idle)"
proof -
  define s' where "s' = rootReducer now s (TransferAction (SetRecoveryVaa payload))"
  have fields: "signedVAAHex (transfer s') = Some (rp_vaa payload)" "redeemTx (transfer s') = redeemTx (transfer s)"
    by (simp_all add: s'_def transfer_setRecoveryVaa_def Let_def)
  have flags: "selectTransferIsRedeemComplete s'" "selectTransferIsSendComplete s'"
    using assms(2,3) fields by (simp_all add: selectTransferIsRedeemComplete_def selectTransferIsSendComplete_def)
  have "wizard_move (transfer_wizard G c x P now) (s, Idle) (s', Idle)"
    using wizard_move.recover [of "transfer_wizard G c x P now" "TransferAction (SetRecoveryVaa payload)" s] assms(3)
    by (simp add: transfer_wizard_def s'_def)
  then have "wizard_reachable (transfer_wizard G c x P now) store_initial (s', Idle)"
    by (rule wizard_reachable.move [OF assms(1)])
  moreover have "ph = Idle" if "wizard_move (transfer_wizard G c x P now) (s', Idle) (s'', ph)" for s'' ph
    using that flags by cases (auto simp: transfer_wizard_def transfer_sendDisabled_def)
  ultimately show ?thesis
    using fields(1) flags
    unfolding s'_def [symmetric] Let_def by (simp add: transfer_sendDisabled_def transfer_stepButton_def)
qed

text \<open>and a VAA that is recovered while a transfer is being sent is replaced by that transfer's own as soon as the
  guardians answer, but the page goes on to redeem it on the chain of the recovered one.\<close>

theorem recovered_while_sending:
  assumes "rp_targetChain payload \<noteq> targetChain s"
  shows "let s' = foldl (transferReducer now) s [SetIsSending True, SetTransferTx t, SetRecoveryVaa payload, SetSignedVAAHex v]
    in signedVAAHex s' = Some v \<and> activeStep s' = 3 \<and> targetChain s' \<noteq> targetChain s \<and> targetChain s' = rp_targetChain payload \<and>
      targetAddressHex s' = Some (rp_targetAddress payload)"
  using assms by (auto simp: transfer_reducer_defs Let_def)

section \<open>Witnesses\<close>

text \<open>A wallet's token is chosen and an amount, the target is found, the transaction is asked for and recorded.\<close>

definition demo_clicks :: "(unit, unit, unit) root_action list" where
  "demo_clicks = map TransferAction [SetSourceParsedTokenAccount (Some demo_account), SetAmount ''11'', IncrementStep,
     SetTargetAsset (receiveDataWrapper ''now'' \<lparr>doesExist = True, fa_address = Some ''0x1''\<rparr>), SetTargetAddressHex (Some ''09''),
     IncrementStep, SetIsSending True, SetTransferTx \<lparr>tx_id = ''hash'', tx_block = 7\<rparr>]"

definition demo_after :: "nat \<Rightarrow> (unit, unit, unit) root_state" where
  "demo_after n = foldl (rootReducer ''now'') store_initial (take n demo_clicks)"

abbreviation demo_wizard :: "((unit, unit, unit) root_state, (unit, unit, unit) root_action, transfer_choices) wizard" where
  "demo_wizard \<equiv> transfer_wizard (\<lambda>s. s) Devnet True demo_parseUnits ''now''"

lemma demo_after_step: "n < length demo_clicks \<Longrightarrow> demo_after (Suc n) = rootReducer ''now'' (demo_after n) (demo_clicks ! n)"
  by (simp add: demo_after_def take_Suc_conv_app_nth)

lemma demo_clicks_nth:
  "demo_clicks ! 0 = TransferAction (SetSourceParsedTokenAccount (Some demo_account))"
  "demo_clicks ! (Suc 0) = TransferAction (SetAmount ''11'')"
  "demo_clicks ! (Suc (Suc 0)) = TransferAction (IncrementStep)"
  "demo_clicks ! (Suc (Suc (Suc 0))) = TransferAction (SetTargetAsset (receiveDataWrapper ''now'' \<lparr>doesExist = True, fa_address = Some ''0x1''\<rparr>))"
  "demo_clicks ! (Suc (Suc (Suc (Suc 0)))) = TransferAction (SetTargetAddressHex (Some ''09''))"
  "demo_clicks ! (Suc (Suc (Suc (Suc (Suc 0))))) = TransferAction (IncrementStep)"
  "demo_clicks ! (Suc (Suc (Suc (Suc (Suc (Suc 0)))))) = TransferAction (SetIsSending True)"
  "demo_clicks ! (Suc (Suc (Suc (Suc (Suc (Suc (Suc 0))))))) = TransferAction (SetTransferTx \<lparr>tx_id = ''hash'', tx_block = 7\<rparr>)"
  "length demo_clicks = 8"
  by (simp_all add: demo_clicks_def)

lemma demo_after_0: "demo_after 0 = store_initial"
  by (simp add: demo_after_def)

lemma demo_wizard_step:
  assumes "n < 8" "wizard_reachable demo_wizard store_initial (demo_after n, ph)"
    "wizard_move demo_wizard (demo_after n, ph) (wz_reduce demo_wizard (demo_after n) (demo_clicks ! n), ph')"
  shows "wizard_reachable demo_wizard store_initial (demo_after (Suc n), ph')"
  using wizard_reachable.move [OF assms(2,3)] assms(1) demo_after_step [of n]
  by (simp add: transfer_wizard_def demo_clicks_nth)

lemma demo_click_next:
  "activeStep (transfer s) \<le> 1 \<Longrightarrow> transfer_nextEnabled (\<lambda>s. s) Devnet True demo_parseUnits s \<Longrightarrow>
   wizard_move demo_wizard (s, ph) (wz_reduce demo_wizard s (TransferAction IncrementStep), ph)"
  using wizard_move.next_step [of demo_wizard s ph] by (simp add: transfer_wizard_def)

lemma demo_click_send:
  "activeStep (transfer s) = 2 \<Longrightarrow> \<not> transfer_sendDisabled demo_parseUnits s \<Longrightarrow>
   wizard_move demo_wizard (s, Idle) (wz_reduce demo_wizard s (TransferAction (SetIsSending True)), Sending False)"
  using wizard_move.send [of demo_wizard s] by (simp add: transfer_wizard_def)

lemma demo_after_now:
  "transfer (demo_after (Suc n)) = foldl (transferReducer ''now'') transfer_initialState
     (take (Suc n) [SetSourceParsedTokenAccount (Some demo_account), SetAmount ''11'', IncrementStep,
       SetTargetAsset (receiveDataWrapper ''now'' \<lparr>doesExist = True, fa_address = Some ''0x1''\<rparr>), SetTargetAddressHex (Some ''09''),
       IncrementStep, SetIsSending True, SetTransferTx \<lparr>tx_id = ''hash'', tx_block = 7\<rparr>])"
proof -
  have "transfer (foldl (rootReducer ''now'') s (map TransferAction as)) = foldl (transferReducer ''now'') (transfer s) as"
    for s :: "(unit, unit, unit) root_state" and as
    by (induction as arbitrary: s) simp_all
  then show ?thesis by (simp only: demo_after_def demo_clicks_def take_map) (simp add: store_initial_def)
qed

lemma demo_address: "''0x1'' \<noteq> AddressZero"
  by (auto simp: AddressZero_def dest: arg_cong [of _ _ length])

lemmas demo_wizard_simps = demo_clicks_nth transfer_wizard_def demo_after_0 demo_after_now transfer_initialState_def
  transfer_reducer_defs LAST_STEP_def Let_def store_initial_def
  selectTransferShouldLockFields_def selectTransferIsSendComplete_def selectTransferIsSourceComplete_def
  selectTransferSourceError_def selectTransferIsTargetComplete_def selectTransferTargetError_def selectTransferTargetAsset_def
  demo_account_def demo_parseUnits_def chain_ids receiveDataWrapper_def isEVMChain_def transfer_nextEnabled_def
  isMigrationAsset_def transfer_sendDisabled_def MIGRATION_ASSET_MAP_def mapOf_def byCluster_def demo_address
  UNREGISTERED_ERROR_MESSAGE_def

lemma demo_sent: "wizard_reachable demo_wizard store_initial (demo_after (Suc (Suc (Suc (Suc (Suc (Suc (Suc 0))))))), Sending False)"
proof -
  have "wizard_reachable demo_wizard store_initial (demo_after 0, Idle)"
    unfolding demo_after_0 by (rule wizard_reachable.start)
  then have "wizard_reachable demo_wizard store_initial (demo_after (Suc 0), Idle)"
    by (rule demo_wizard_step [rotated]) (rule wizard_move.choose, simp_all add: demo_wizard_simps)
  then have "wizard_reachable demo_wizard store_initial (demo_after (Suc (Suc 0)), Idle)"
    by (rule demo_wizard_step [rotated]) (rule wizard_move.choose, simp_all add: demo_wizard_simps)
  then have "wizard_reachable demo_wizard store_initial (demo_after (Suc (Suc (Suc 0))), Idle)"
    by (rule demo_wizard_step [rotated]) (simp only: demo_clicks_nth, rule demo_click_next, simp_all add: demo_wizard_simps)
  then have "wizard_reachable demo_wizard store_initial (demo_after (Suc (Suc (Suc (Suc 0)))), Idle)"
    by (rule demo_wizard_step [rotated]) (rule wizard_move.background, simp_all add: demo_wizard_simps)
  then have "wizard_reachable demo_wizard store_initial (demo_after (Suc (Suc (Suc (Suc (Suc 0))))), Idle)"
    by (rule demo_wizard_step [rotated]) (rule wizard_move.choose, simp_all add: demo_wizard_simps)
  then have "wizard_reachable demo_wizard store_initial (demo_after (Suc (Suc (Suc (Suc (Suc (Suc 0)))))), Idle)"
    by (rule demo_wizard_step [rotated]) (simp only: demo_clicks_nth, rule demo_click_next, simp_all add: demo_wizard_simps)
  then show ?thesis
    by (rule demo_wizard_step [rotated]) (simp only: demo_clicks_nth, rule demo_click_send, simp_all add: demo_wizard_simps)
qed



theorem transfer_link_sets_chains_witness:
  "let s' = foldl (transferReducer ''now'') transfer_initialState (transfer_pathEffect Devnet (Some (decimal 4)) (Some (decimal 1)))
   in sourceChain s' = 4 \<and> targetChain s' = 1"
  by (rule transfer_link_sets_chains) (simp_all add: CHAINS_def byCluster_def chain_ids)

definition demo_recovered :: "(unit, unit, unit) root_state" where
  "demo_recovered = rootReducer ''now'' store_initial (TransferAction (SetRecoveryVaa
     \<lparr>rp_vaa = ''01'', rp_targetChain = 2, rp_targetAddress = ''07'', rp_originChain = 1, rp_originAddress = ''09'', rp_amount = ''1''\<rparr>))"

theorem transfer_link_retargets_witness:
  "let s' = foldl (rootReducer ''now'') demo_recovered (map TransferAction (transfer_pathEffect Devnet None (Some (decimal 1))))
   in activeStep (transfer s') = 0 \<and> signedVAAHex (transfer s') = Some ''01'' \<and> targetChain (transfer s') = 1"
proof -
  have s: "sourceChain (transfer demo_recovered) = 1" "targetChain (transfer demo_recovered) = 2"
    "selectTransferIsSendComplete demo_recovered" "signedVAAHex (transfer demo_recovered) = Some ''01''"
    by (simp_all add: demo_recovered_def store_initial_def transfer_initialState_def transfer_setRecoveryVaa_def
        selectTransferIsSendComplete_def chain_ids)
  have "let s' = foldl (rootReducer ''now'') demo_recovered (map TransferAction (transfer_pathEffect Devnet None (Some (decimal 1))))
    in activeStep (transfer s') = 0 \<and> selectTransferIsSendComplete s' \<and> targetChain (transfer s') = 1 \<and>
      \<not> transfer_stepButton s' 1 \<and> (selectTransferIsRedeemComplete demo_recovered \<or> transfer_stepButton s' 3)"
    by (rule transfer_link_retargets [OF s(1,2) _ _ _ s(3)]) (simp_all add: CHAINS_def byCluster_def chain_ids)
  moreover have "transfer_pathEffect Devnet None (Some (decimal 1)) = [SetTargetChain 1]"
    by (simp add: transfer_pathEffect_def path_effect_def chainOfPath_None chainOfPath_decimal CHAINS_def byCluster_def chain_ids)
  ultimately show ?thesis using s(4) by (simp add: transfer_setTargetChain_def Let_def)
qed

lemma demo_redeemed:
  "\<exists>s. wizard_reachable demo_wizard store_initial (s, Idle) \<and> selectTransferIsRedeemComplete s \<and> signedVAAHex (transfer s) = Some ''01''"
proof -
  let ?t = "\<lparr>tx_id = ''hash'', tx_block = 7\<rparr>"
  let ?r = "rootReducer ''now'' demo_recovered (TransferAction (SetIsRedeeming True))"
  have "wizard_move demo_wizard (store_initial, Idle) (demo_recovered, Idle)"
    using wizard_move.recover [of demo_wizard "TransferAction (SetRecoveryVaa \<lparr>rp_vaa = ''01'', rp_targetChain = 2,
      rp_targetAddress = ''07'', rp_originChain = 1, rp_originAddress = ''09'', rp_amount = ''1''\<rparr>)" store_initial]
    by (simp add: transfer_wizard_def demo_recovered_def)
  then have "wizard_reachable demo_wizard store_initial (demo_recovered, Idle)"
    by (rule wizard_reachable.move [OF wizard_reachable.start])
  moreover have "wizard_move demo_wizard (demo_recovered, Idle) (?r, Redeeming)"
    using wizard_move.redeem [of demo_wizard demo_recovered]
    by (simp add: transfer_wizard_def demo_recovered_def store_initial_def transfer_initialState_def transfer_setRecoveryVaa_def
        selectTransferIsRedeemComplete_def chain_ids)
  moreover have "wizard_move demo_wizard (?r, Redeeming) (rootReducer ''now'' ?r (TransferAction (SetRedeemTx ?t)), Idle)"
    using wizard_move.redeemed [of demo_wizard ?r ?t] by (simp add: transfer_wizard_def)
  ultimately have "wizard_reachable demo_wizard store_initial (rootReducer ''now'' ?r (TransferAction (SetRedeemTx ?t)), Idle)"
    by (blast intro: wizard_reachable.move)
  moreover have "selectTransferIsRedeemComplete (rootReducer ''now'' ?r (TransferAction (SetRedeemTx ?t)))"
    "signedVAAHex (transfer (rootReducer ''now'' ?r (TransferAction (SetRedeemTx ?t)))) = Some ''01''"
    by (simp_all add: selectTransferIsRedeemComplete_def demo_recovered_def transfer_setRedeemTx_def transfer_setIsRedeeming_def
        transfer_setRecoveryVaa_def Let_def)
  ultimately show ?thesis by blast
qed

theorem recovered_after_redeemed_witness:
  "\<exists>s. wizard_reachable demo_wizard store_initial (s, Idle) \<and> signedVAAHex (transfer s) = Some ''02'' \<and>
     selectTransferIsRedeemComplete s"
proof -
  define payload where "payload = \<lparr>rp_vaa = ''02'', rp_targetChain = 2, rp_targetAddress = ''07'', rp_originChain = 1,
    rp_originAddress = ''09'', rp_amount = ''1''\<rparr>"
  have vaa: "rp_vaa payload = ''02''" by (simp add: payload_def)
  from demo_redeemed obtain s where s: "wizard_reachable demo_wizard store_initial (s, Idle)" "selectTransferIsRedeemComplete s"
    by blast
  have "rp_vaa payload \<noteq> ''''" using vaa by simp
  note r = recovered_after_redeemed [OF s this, unfolded Let_def vaa]
  show ?thesis
    by (rule exI [of _ "rootReducer ''now'' s (TransferAction (SetRecoveryVaa payload))"]) (use r in blast)
qed

theorem recovered_while_sending_witness:
  "let s' = foldl (transferReducer ''now'') transfer_initialState [SetIsSending True, SetTransferTx \<lparr>tx_id = ''hash'', tx_block = 7\<rparr>,
       SetRecoveryVaa \<lparr>rp_vaa = ''01'', rp_targetChain = 4, rp_targetAddress = ''07'', rp_originChain = 1, rp_originAddress = ''09'', rp_amount = ''1''\<rparr>,
       SetSignedVAAHex ''02'']
   in signedVAAHex s' = Some ''02'' \<and> targetChain s' = 4"
proof -
  have "rp_targetChain \<lparr>rp_vaa = ''01'', rp_targetChain = 4, rp_targetAddress = ''07'', rp_originChain = 1, rp_originAddress = ''09'',
      rp_amount = ''1''\<rparr> \<noteq> targetChain transfer_initialState"
    by (simp add: transfer_initialState_def chain_ids)
  from recovered_while_sending [OF this, unfolded Let_def recovery_payload.select_convs] show ?thesis
    unfolding Let_def by blast
qed

end
