(* ===== verification/Pickers.thy ===== *)
theory Pickers
  imports TokenAccounts "HOL-Library.Sublist" "HOL-Library.Multiset"
begin

text \<open>
  The choice of a token or an NFT: \<open>components/TokenSelectors/\<close> (\<open>TokenPicker.tsx\<close>, the pickers of the three kinds of
  chain, \<open>SourceTokenSelector.tsx\<close>), with \<open>utils/ethereum.ts\<close> and \<open>utils/sort.ts\<close>. Which options a picker offers are
  functions; what a click on one of them does is two steps that wait for a network, and it ends with the actions that are
  dispatched or with a message in the dialog. Contracts, nodes and the comparison of texts are parameters.
\<close>

section \<open>Tokens of the EVM chains (\<open>utils/ethereum.ts\<close>)\<close>

text \<open>A token contract, and one of NFTs, as the provider of the wallet sees them.\<close>

record erc20_view =
  t20_decimals :: "nat result"
  t20_balanceOf :: "string \<Rightarrow> nat result"
  t20_symbol :: "string result"
  t20_name :: "string result"

record erc721_view =
  t721_ownerOf :: "string \<Rightarrow> string result"
  t721_symbol :: "string result"
  t721_name :: "string result"
  t721_tokenURI :: "string \<Rightarrow> string result"
  t721_supportsInterface :: "string \<Rightarrow> bool result"

definition ethTokenToParsedTokenAccount :: "(string \<Rightarrow> nat \<Rightarrow> string result) \<Rightarrow> string \<Rightarrow> erc20_view \<Rightarrow> string \<Rightarrow>
    parsed_token_account result" where
  "ethTokenToParsedTokenAccount formatUnits address token signerAddress =
     bindR (t20_decimals token) (\<lambda>decs.
     bindR (t20_balanceOf token signerAddress) (\<lambda>balance.
     bindR (t20_symbol token) (\<lambda>symbol.
     bindR (t20_name token) (\<lambda>nm.
     mapR (\<lambda>ui. createParsedTokenAccount signerAddress address (decimal balance) decs (uiNumber ui) ui
         (Some symbol) (Some nm) None None)
       (formatUnits (decimal balance) decs)))))"

definition ethNFTToNFTParsedTokenAccount :: "(string \<Rightarrow> nat \<Rightarrow> string result) \<Rightarrow> string \<Rightarrow> erc721_view \<Rightarrow> string \<Rightarrow> string \<Rightarrow>
    nft_account result" where
  "ethNFTToNFTParsedTokenAccount formatUnits address token tid signerAddress =
     bindR (t721_ownerOf token tid) (\<lambda>owner.
     let balance = (if owner = signerAddress then 1 else 0) in
     bindR (t721_symbol token) (\<lambda>symbol.
     bindR (t721_name token) (\<lambda>nm.
     bindR (t721_tokenURI token tid) (\<lambda>u.
     mapR (\<lambda>ui. createNFTParsedTokenAccount signerAddress address (decimal balance) 0 (uiNumber ui) ui tid
         (Some symbol) (Some nm) (Some u) None None None None None None)
       (formatUnits (decimal balance) 0)))))"

definition isNFT_contract :: "erc721_view \<Rightarrow> bool result" where
  "isNFT_contract token =
     bindR (t721_supportsInterface token ''0x80ac58cd'') (\<lambda>supportsErc721.
     bindR (t721_supportsInterface token ''0x5b5e139f'') (\<lambda>supportsErc721Metadata.
     Inr (supportsErc721 \<and> supportsErc721Metadata)))"

section \<open>The options (\<open>TokenPicker.tsx\<close>)\<close>

text \<open>\<open>toLowerCase\<close> of names in any script is a parameter.\<close>

definition searchFilter :: "(string \<Rightarrow> string) \<Rightarrow> string \<Rightarrow> nft_account \<Rightarrow> bool" where
  "searchFilter toLowerCase holderString option \<longleftrightarrow>
     holderString = '''' \<or>
     sublist (toLowerCase holderString)
       (toLowerCase (publicKey option @ '' '' @ mintKey option @ '' '' @ orElse (acc_symbol option) '''' @ '' '' @
          orElse (acc_name option) '' ''))"

text \<open>An option with the markets where the token can be traded.\<close>

record market_account = nft_account +
  ma_markets :: "string list"

definition withMarkets :: "string list \<Rightarrow> nft_account \<Rightarrow> market_account" where
  "withMarkets ms a = nft_account.extend a (market_account.fields ms)"

text \<open>A featured token that is not in the wallet; its symbol and logo come from the list of tokens of the chain.\<close>

definition spoofed :: "(string \<rightharpoonup> string option \<times> string option) \<Rightarrow> string \<times> string list \<Rightarrow> market_account" where
  "spoofed marketChainTokens = (\<lambda>(mint, markets). withMarkets markets
     \<lparr>publicKey = '''', mintKey = mint, acc_amount = ''0'', decimals = 0, uiAmount = 0, uiAmountString = ''0'',
      acc_symbol = Option.bind (marketChainTokens mint) fst, acc_name = None, logo = Option.bind (marketChainTokens mint) snd,
      isNativeAsset = None, tokenId = None, uri = None, animation_url = None, external_url = None, image = None,
      image_256 = None, nftName = None, description = None\<rparr>)"

text \<open>The featured markets of the two chains are an object with the tokens' addresses as its keys, here in their order.\<close>

definition featuredOptions :: "(string \<Rightarrow> string) \<Rightarrow> string \<Rightarrow> bool \<Rightarrow> (string \<rightharpoonup> string option \<times> string option) \<Rightarrow>
    (string \<times> string list) list option \<Rightarrow> nft_account list \<Rightarrow> market_account list" where
  "featuredOptions toLowerCase holderString isNft marketChainTokens featuredMarkets options =
     (case featuredMarkets of
        None \<Rightarrow> []
      | Some fm \<Rightarrow>
          if isNft then []
          else let owned = map (\<lambda>option. withMarkets (the (map_of fm (mintKey option))) option)
                (filter (\<lambda>option. map_of fm (mintKey option) \<noteq> None) options) in
            filter (searchFilter toLowerCase holderString \<circ> nft_account.truncate)
              (owned @ map (spoofed marketChainTokens) (filter (\<lambda>(mint, ms). find (\<lambda>option. mintKey option = mint) owned = None) fm)))"

definition nonFeaturedOptions :: "(string \<Rightarrow> string) \<Rightarrow> string \<Rightarrow> bool \<Rightarrow> (string \<times> string list) list option \<Rightarrow>
    nft_account list \<Rightarrow> nft_account list" where
  "nonFeaturedOptions toLowerCase holderString isNft featuredMarkets options =
     filter (\<lambda>option. searchFilter toLowerCase holderString option \<and>
       (isNft \<or> (case featuredMarkets of None \<Rightarrow> True | Some fm \<Rightarrow> map_of fm (mintKey option) = None))) options"

definition localFind :: "nft_account list \<Rightarrow> string \<Rightarrow> string \<Rightarrow> nft_account option" where
  "localFind options address tokenIdHolder =
     find (\<lambda>x. mintKey x = address \<and> (tokenIdHolder = '''' \<or> tokenId x = Some tokenIdHolder)) options"

text \<open>The balance as the option shows it; \<open>BigNumber.from\<close> throws on what is no number.\<close>

definition balancePretty :: "string \<Rightarrow> string result" where
  "balancePretty uiString =
     (let numberString = takeWhile (\<lambda>c. c \<noteq> CHR ''.'') uiString in
      if numberString = '''' \<or> \<not> list_all isDigit numberString then Inl (Foreign ''invalid BigNumber string'')
      else if undecimal numberString \<ge> 1000000 then Inr (take (length numberString - 6) numberString @ '' M'')
      else if length uiString > 8 then Inr (take 8 uiString)
      else Inr uiString)"

section \<open>A click on an option\<close>

text \<open>A promise may be rejected with a reason or with undefined.\<close>

datatype rejection = Because js_error | BecauseUndefined

datatype found_account = FoundToken parsed_token_account | FoundNft nft_account

text \<open>What the pickers of the chains give to \<open>TokenPicker\<close>: how an address is looked up (if at all) and what happens with
  an account; \<open>'n\<close> are the networks when they answer, \<open>'a\<close> the actions.\<close>

record ('n, 'a) picker =
  pk_getAddress :: "(string \<Rightarrow> string option \<Rightarrow> 'n \<Rightarrow> rejection + found_account) option"
  pk_onChange :: "nft_account \<Rightarrow> 'n \<Rightarrow> rejection + 'a list"

text \<open>\<open>{...option, ...newOption, logo: option.logo || newOption.logo, uri: option.uri || newOption.uri}\<close>: a field that the
  new account has, be it undefined, replaces that of the option. A token's account has none of the fields of an NFT; an
  NFT's has neither a logo nor the mark of a native asset.\<close>

fun mergeAccount :: "nft_account \<Rightarrow> found_account \<Rightarrow> nft_account" where
  "mergeAccount option (FoundToken new) =
     option\<lparr>publicKey := publicKey new, mintKey := mintKey new, acc_amount := acc_amount new, decimals := decimals new,
       uiAmount := uiAmount new, uiAmountString := uiAmountString new, acc_symbol := acc_symbol new, acc_name := acc_name new,
       isNativeAsset := isNativeAsset new, logo := (if truthy (logo option) then logo option else logo new),
       uri := (if truthy (uri option) then uri option else None)\<rparr>"
| "mergeAccount option (FoundNft new) =
     new\<lparr>isNativeAsset := isNativeAsset option, logo := (if truthy (logo option) then logo option else None),
       uri := (if truthy (uri option) then uri option else uri new)\<rparr>"

text \<open>The dialog closes after the actions, or it shows a message; or the error handler itself throws, and nothing is
  shown.\<close>

datatype 'a selection = Selected "'a list" | SelectionError string | HandlerThrows

definition unable :: string where
  "unable = ''Unable to retrieve required information about this token. Ensure your wallet is connected, then refresh the list.''"

fun selectionFailed :: "rejection \<Rightarrow> 'a selection" where
  "selectionFailed BecauseUndefined = HandlerThrows"
| "selectionFailed (Because e) = SelectionError (if sublist ''v1'' (js_message e) then js_message e else unable)"

text \<open>The networks answer twice, at different times.\<close>

definition handleSelectOption :: "('n, 'a) picker \<Rightarrow> nft_account \<Rightarrow> 'n \<Rightarrow> 'n \<Rightarrow> 'a selection" where
  "handleSelectOption P option now1 now2 =
     (let newOption = (case pk_getAddress P of
          None \<Rightarrow> Inr option
        | Some getAddress \<Rightarrow>
            if isNativeAsset option = Some True then Inr option
            else mapR (mergeAccount option) (getAddress (mintKey option) (tokenId option) now1)) in
      case newOption of
        Inl r \<Rightarrow> selectionFailed r
      | Inr account \<Rightarrow> (case pk_onChange P account now2 of Inl r \<Rightarrow> selectionFailed r | Inr as \<Rightarrow> Selected as))"

text \<open>The field for an address. When it holds one, the option is taken from the list or else the address is looked up; the
  actions are those of the dialog.\<close>

datatype paste_action = SetLoadingError string | SetLocalLoading bool | SelectOption nft_account

record paste_deps =
  pd_holderString :: string
  pd_tokenIdHolder :: string
  pd_options :: "nft_account list"
  pd_useTokenId :: bool

definition asOption :: "found_account \<Rightarrow> nft_account" where
  "asOption found = (case found of FoundToken a \<Rightarrow> asNft a | FoundNft a \<Rightarrow> a)"

definition paste_effect :: "(string \<Rightarrow> bool) option \<Rightarrow> (string \<Rightarrow> string option \<Rightarrow> 'n \<Rightarrow> rejection + found_account) option \<Rightarrow>
    (paste_deps, 'n, paste_action) effect" where
  "paste_effect isValidAddress getAddress d =
     Inr (if isValidAddress = None \<or> getAddress = None \<or> pd_useTokenId d \<and> pd_tokenIdHolder d = '''' then noEffect
       else if the isValidAddress (pd_holderString d)
       then (case localFind (pd_options d) (pd_holderString d) (pd_tokenIdHolder d) of
           Some option \<Rightarrow> \<lparr>atOnce = [SetLoadingError '''', SelectOption option], whenAnswered = None, cleansUp = True\<rparr>
         | None \<Rightarrow>
             \<lparr>atOnce = [SetLoadingError '''', SetLocalLoading True, SetLoadingError ''''],
              whenAnswered = Some (\<lambda>now.
                case the getAddress (pd_holderString d) (if pd_useTokenId d then Some (pd_tokenIdHolder d) else None) now of
                  Inr result \<Rightarrow> [SetLocalLoading False, SelectOption (asOption result)]
                | Inl r \<Rightarrow> [SetLocalLoading False, SetLoadingError ''Could not find the specified address.'']),
              cleansUp = True\<rparr>)
       else \<lparr>atOnce = [SetLoadingError ''''], whenAnswered = None, cleansUp = True\<rparr>)"

section \<open>What is done with the account (\<open>SourceTokenSelector.tsx\<close>)\<close>

definition handleOnChange :: "bool \<Rightarrow> string option \<Rightarrow> nft_account option \<Rightarrow> ('a, 'b, 'c) root_action list" where
  "handleOnChange isNft wallet newTokenAccount =
     (case newTokenAccount of
        None \<Rightarrow>
          if isNft then [NftAction (NftSetSourceParsedTokenAccount None), NftAction (NftSetSourceWalletAddress None)]
          else [TransferAction (SetSourceParsedTokenAccount None), TransferAction (SetSourceWalletAddress None)]
      | Some account \<Rightarrow>
          if \<not> truthy wallet then []
          else if isNft then [NftAction (NftSetSourceParsedTokenAccount (Some account)), NftAction (NftSetSourceWalletAddress wallet)]
          else [TransferAction (SetSourceParsedTokenAccount (Some (parsed_token_account.truncate account))),
            TransferAction (SetSourceWalletAddress wallet)])"

section \<open>The picker of the EVM chains (\<open>EvmTokenPicker.tsx\<close>)\<close>

text \<open>What the provider answers, when there is one: token contracts by address, and the old bridge's \<open>isWrappedAsset\<close>.\<close>

record evm_views =
  ev_token :: "string \<Rightarrow> erc20_view"
  ev_nft :: "string \<Rightarrow> erc721_view"
  ev_isWrappedAsset :: "string \<Rightarrow> bool result"

text \<open>What the component is rendered with. \<open>getEthAddress\<close> throws on what is no address.\<close>

record evm_picker =
  ep_formatUnits :: "string \<Rightarrow> nat \<Rightarrow> string result"
  ep_getEthAddress :: "string \<Rightarrow> string result"
  ep_migrations :: "ChainId \<Rightarrow> string \<rightharpoonup> string"
  ep_chainId :: ChainId
  ep_hasProvider :: bool
  ep_signerAddress :: "string option"
  ep_isReady :: bool
  ep_isNft :: bool
  ep_walletAddress :: "string option"

definition isWormholev1 :: "bool \<Rightarrow> evm_views \<Rightarrow> string \<Rightarrow> ChainId \<Rightarrow> bool result" where
  "isWormholev1 hasProvider now address chainId =
     (if chainId \<noteq> CHAIN_ID_ETH then Inr False
      else if hasProvider then ev_isWrappedAsset now address
      else Inl (Foreign ''missing provider''))"

definition isMigrationEligible :: "evm_picker \<Rightarrow> string \<Rightarrow> bool result" where
  "isMigrationEligible P address = mapR (\<lambda>a. truthy (ep_migrations P (ep_chainId P) a)) (ep_getEthAddress P address)"

text \<open>The promise of the account is returned from the try block without being awaited: its rejection is passed on as it is.\<close>

definition evm_getAddress :: "evm_picker \<Rightarrow> string \<Rightarrow> string option \<Rightarrow> evm_views \<Rightarrow> rejection + found_account" where
  "evm_getAddress P address tid now =
     (if \<not> ep_hasProvider P \<or> \<not> truthy (ep_signerAddress P) \<or> \<not> ep_isReady P
      then Inl (Because (Rejected ''''))
      else if ep_isNft P
      then (if \<not> truthy tid then Inl (Because (Rejected ''Token ID is required.''))
        else case ethNFTToNFTParsedTokenAccount (ep_formatUnits P) address (ev_nft now address) (the tid) (the (ep_signerAddress P)) of
          Inl e \<Rightarrow> Inl (Because e)
        | Inr a \<Rightarrow> Inr (FoundNft a))
      else case ethTokenToParsedTokenAccount (ep_formatUnits P) address (ev_token now address) (the (ep_signerAddress P)) of
          Inl e \<Rightarrow> Inl (Because e)
        | Inr a \<Rightarrow> Inr (FoundToken a))"

definition evm_onChange :: "evm_picker \<Rightarrow> nft_account \<Rightarrow> evm_views \<Rightarrow> rejection + ('a, 'b, 'c) root_action list" where
  "evm_onChange P account now =
     (let v1 = (case isWormholev1 (ep_hasProvider P) now (mintKey account) (ep_chainId P) of Inl e \<Rightarrow> False | Inr b \<Rightarrow> b) in
      case isMigrationEligible P (mintKey account) of
        Inl e \<Rightarrow> Inl (Because e)
      | Inr migration \<Rightarrow>
          if v1 \<and> \<not> migration then Inl (Because (Error ''Wormhole v1 assets cannot be transferred with this bridge.''))
          else Inr (handleOnChange (ep_isNft P) (ep_walletAddress P) (Some account)))"

definition EvmTokenPicker :: "evm_picker \<Rightarrow> (evm_views, ('a, 'b, 'c) root_action) picker" where
  "EvmTokenPicker P = \<lparr>pk_getAddress = Some (evm_getAddress P), pk_onChange = evm_onChange P\<rparr>"

definition shouldDisplayBalance :: "(string \<Rightarrow> string) \<Rightarrow> nft_account option \<Rightarrow> nft_account \<Rightarrow> bool" where
  "shouldDisplayBalance toLowerCase selected account \<longleftrightarrow>
     isNativeAsset account = Some True \<or>
     (case selected of None \<Rightarrow> False
      | Some s \<Rightarrow> toLowerCase (mintKey s) = toLowerCase (mintKey account) \<and> tokenId s = tokenId account)"

section \<open>The picker of Solana (\<open>SolanaTokenPicker.tsx\<close>)\<close>

text \<open>\<open>utils/sort.ts\<close>: \<open>Array.sort\<close> is stable, so it is the insertion of each element before the first that does not
  come before it.\<close>

definition sortParsedTokenAccounts :: "(string \<Rightarrow> string \<Rightarrow> int) \<Rightarrow> nft_account \<Rightarrow> nft_account \<Rightarrow> int" where
  "sortParsedTokenAccounts localeCompare a b =
     (if isNativeAsset a = Some True \<and> isNativeAsset b \<noteq> Some True then - 1
      else if isNativeAsset a \<noteq> Some True \<and> isNativeAsset b = Some True then 1
      else if truthy (acc_symbol a) \<and> truthy (acc_symbol b) then localeCompare (the (acc_symbol a)) (the (acc_symbol b))
      else if truthy (acc_symbol a) then - 1
      else if truthy (acc_symbol b) then 1
      else 0)"

fun insertBy :: "('x \<Rightarrow> 'x \<Rightarrow> int) \<Rightarrow> 'x \<Rightarrow> 'x list \<Rightarrow> 'x list" where
  "insertBy cmp x [] = [x]"
| "insertBy cmp x (y # ys) = (if cmp x y \<le> 0 then x # y # ys else y # insertBy cmp x ys)"

definition sortBy :: "('x \<Rightarrow> 'x \<Rightarrow> int) \<Rightarrow> 'x list \<Rightarrow> 'x list" where
  "sortBy cmp xs = foldr (insertBy cmp) xs []"

record sol_token_info =
  ti_logoURI :: "string option"
  ti_symbol :: "string option"
  ti_name :: "string option"

record metaplex_data =
  mx_uri :: "string option"
  mx_symbol :: "string option"
  mx_name :: "string option"

record sol_picker =
  sp_cluster :: cluster
  sp_isNft :: bool
  sp_tokenMap :: "string \<rightharpoonup> sol_token_info"
  sp_metaplex :: "(string \<rightharpoonup> metaplex_data) option"
  sp_mintAccounts :: "(string \<rightharpoonup> mint_info option) option"
  sp_featured :: "(string \<times> string list) list option"
  sp_localeCompare :: "string \<Rightarrow> string \<Rightarrow> int"
  sp_walletAddress :: "string option"

fun firstTruthy :: "string option list \<Rightarrow> string option" where
  "firstTruthy [] = None"
| "firstTruthy (x # xs) = (if truthy x then x else firstTruthy xs)"

definition metaplexOf :: "sol_picker \<Rightarrow> string \<Rightarrow> metaplex_data option" where
  "metaplexOf P mint = Option.bind (sp_metaplex P) (\<lambda>m. m mint)"

definition getLogo :: "sol_picker \<Rightarrow> nft_account \<Rightarrow> string option" where
  "getLogo P a = firstTruthy [if isNativeAsset a = Some True then logo a else None,
     Option.bind (sp_tokenMap P (mintKey a)) ti_logoURI, Option.bind (metaplexOf P (mintKey a)) mx_uri]"

definition getSymbol :: "sol_picker \<Rightarrow> nft_account \<Rightarrow> string option" where
  "getSymbol P a = firstTruthy [if isNativeAsset a = Some True then acc_symbol a else None,
     Option.bind (sp_tokenMap P (mintKey a)) ti_symbol, Option.bind (metaplexOf P (mintKey a)) mx_symbol]"

definition getName :: "sol_picker \<Rightarrow> nft_account \<Rightarrow> string option" where
  "getName P a = firstTruthy [if isNativeAsset a = Some True then acc_name a else None,
     Option.bind (sp_tokenMap P (mintKey a)) ti_name, Option.bind (metaplexOf P (mintKey a)) mx_name]"

definition mintOf :: "sol_picker \<Rightarrow> string \<Rightarrow> mint_info option" where
  "mintOf P mint = Option.bind (Option.bind (sp_mintAccounts P) (\<lambda>m. m mint)) (\<lambda>x. x)"

definition sol_offered :: "sol_picker \<Rightarrow> nft_account \<Rightarrow> bool" where
  "sol_offered P x =
     (if acc_amount x = ''0'' then False
      else let isNFT = decimals x = 0 \<and> truthy (Option.bind (metaplexOf P (mintKey x)) mx_uri);
          is721CompatibleNFT = isNFT \<and> map_option mi_supply (mintOf P (mintKey x)) = Some ''1'' in
        if sp_isNft P then is721CompatibleNFT else \<not> isNFT)"

definition filteredOptions :: "sol_picker \<Rightarrow> nft_account list option \<Rightarrow> nft_account list" where
  "filteredOptions P items =
     sortBy (sortParsedTokenAccounts (sp_localeCompare P)) (filter (sol_offered P) (case items of None \<Rightarrow> [] | Some xs \<Rightarrow> xs))"

definition accountsWithMetadata :: "sol_picker \<Rightarrow> nft_account list option \<Rightarrow> nft_account list" where
  "accountsWithMetadata P items =
     map (\<lambda>a. a\<lparr>acc_name := getName P a, acc_symbol := getSymbol P a, logo := getLogo P a, uri := getLogo P a\<rparr>)
       (filteredOptions P items)"

definition sol_isWormholev1 :: "sol_picker \<Rightarrow> string \<Rightarrow> bool" where
  "sol_isWormholev1 P address =
     (if \<not> sp_isNft P \<and> (case sp_featured P of None \<Rightarrow> False | Some fm \<Rightarrow> map_of fm address \<noteq> None) then False
      else if sp_mintAccounts P = None then True
      else case mintOf P address of
        None \<Rightarrow> True
      | Some mint \<Rightarrow> mi_mintAuthority mint = '''' \<or> mi_mintAuthority mint = WORMHOLE_V1_MINT_AUTHORITY (sp_cluster P))"

definition sol_onChange :: "sol_picker \<Rightarrow> nft_account \<Rightarrow> 'n \<Rightarrow> rejection + ('a, 'b, 'c) root_action list" where
  "sol_onChange P newValue now =
     (if sol_isWormholev1 P (mintKey newValue) \<and> \<not> truthy (mapOf (MIGRATION_ASSET_MAP (sp_cluster P)) (mintKey newValue))
      then Inl (Because (Error ''Wormhole v1 assets should not be transferred with this bridge.''))
      else Inr (handleOnChange (sp_isNft P) (sp_walletAddress P) (Some newValue)))"

definition SolanaTokenPicker :: "sol_picker \<Rightarrow> ('n, ('a, 'b, 'c) root_action) picker" where
  "SolanaTokenPicker P = \<lparr>pk_getAddress = None, pk_onChange = sol_onChange P\<rparr>"

section \<open>The picker of Terra (\<open>TerraTokenPicker.tsx\<close>)\<close>

definition formatNativeDenom :: "(string \<Rightarrow> string) \<Rightarrow> string \<Rightarrow> string" where
  "formatNativeDenom toUpperCase denom =
     (if denom = ''uluna'' then ''Luna''
      else if isNativeTerra denom then take 2 (toUpperCase (drop 1 denom)) @ ''T''
      else '''')"

definition getNativeTerraIcon :: "string \<Rightarrow> string" where
  "getNativeTerraIcon symbol = ''https://assets.terra.money/icon/60/'' @ symbol @ ''.png''"

definition NATIVE_TERRA_DECIMALS :: nat where
  "NATIVE_TERRA_DECIMALS = 6"

definition isValidTerraAddress :: "libs \<Rightarrow> string \<Rightarrow> bool" where
  "isValidTerraAddress L address \<longleftrightarrow>
     isNativeDenom address \<or>
     (case canonicalAddress L address of Inl e \<Rightarrow> False | Inr b \<Rightarrow> startsWith address ''terra'' \<and> length b = 20)"

definition isSearchableAddress :: "libs \<Rightarrow> string \<Rightarrow> bool" where
  "isSearchableAddress L address \<longleftrightarrow> isValidTerraAddress L address \<and> \<not> isNativeDenom address"

text \<open>The wallet's coins by denomination.\<close>

definition terraTokenArray :: "(string \<Rightarrow> nat \<Rightarrow> string result) \<Rightarrow> (string \<Rightarrow> string) \<Rightarrow> (string \<times> string) list option \<Rightarrow>
    string option \<Rightarrow> parsed_token_account list result" where
  "terraTokenArray formatUnits toUpperCase balances wallet =
     mapR (filter (\<lambda>a. mintKey a \<in> set SUPPORTED_TERRA_TOKENS))
       (if balances = None \<or> \<not> truthy wallet then Inr []
        else sequenceR (map (\<lambda>(denom, balance).
          mapR (\<lambda>ui. createParsedTokenAccount (the wallet) denom balance NATIVE_TERRA_DECIMALS 0 ui
              (Some (formatNativeDenom toUpperCase denom)) None (Some (getNativeTerraIcon (formatNativeDenom toUpperCase denom))) (Some True))
            (formatUnits balance NATIVE_TERRA_DECIMALS)) (the balances)))"

text \<open>A CW20 contract: its decimals, symbol and name, and the balance of an account.\<close>

record terra_views =
  tv_tokenInfo :: "string \<Rightarrow> (nat \<times> string \<times> string) result"
  tv_balance :: "string \<Rightarrow> string \<Rightarrow> string result"

definition lookupTerraAddress :: "(string \<Rightarrow> nat \<Rightarrow> string result) \<Rightarrow> string option \<Rightarrow> string \<Rightarrow> string option \<Rightarrow> terra_views \<Rightarrow>
    rejection + found_account" where
  "lookupTerraAddress formatUnits wallet lookupAsset tid now =
     (if \<not> truthy wallet then Inl (Because (Rejected ''Wallet not connected''))
      else case bindR (tv_tokenInfo now lookupAsset) (\<lambda>(decs, symbol, nm).
          bindR (tv_balance now lookupAsset (the wallet)) (\<lambda>balance.
          mapR (\<lambda>ui. createParsedTokenAccount (the wallet) lookupAsset balance decs (uiNumber ui) ui (Some symbol) (Some nm) None None)
            (formatUnits balance decs))) of
        Inl e \<Rightarrow> Inl BecauseUndefined
      | Inr a \<Rightarrow> Inr (FoundToken a))"

definition TerraTokenPicker :: "(string \<Rightarrow> nat \<Rightarrow> string result) \<Rightarrow> string option \<Rightarrow> (terra_views, ('a, 'b, 'c) root_action) picker" where
  "TerraTokenPicker formatUnits wallet =
     \<lparr>pk_getAddress = Some (lookupTerraAddress formatUnits wallet),
      pk_onChange = \<lambda>account now. Inr (handleOnChange False wallet (Some account))\<rparr>"

section \<open>Lemmas\<close>

interpretation pasted: cancelling "paste_effect isValidAddress getAddress" for isValidAddress getAddress
  by unfold_locales (auto simp: paste_effect_def noEffect_def split: if_splits option.splits)

lemma truncate_withMarkets [simp]: "nft_account.truncate (withMarkets ms a) = a"
  by (cases a) (simp add: withMarkets_def nft_account.defs market_account.defs)

lemma withMarkets_sels [simp]: "mintKey (withMarkets ms a) = mintKey a" "acc_amount (withMarkets ms a) = acc_amount a"
  by (cases a; simp add: withMarkets_def nft_account.defs market_account.defs)+

lemma spoofed_sels [simp]: "mintKey (spoofed t e) = fst e" "acc_amount (spoofed t e) = ''0''"
  by (cases e; simp add: spoofed_def)+

lemma selectionFailed_not [simp]: "selectionFailed r \<noteq> Selected as"
  by (cases r) simp_all

lemma handleSelectOption_Selected:
  "handleSelectOption P option now1 now2 = Selected as \<longleftrightarrow>
     (\<exists>account. (pk_getAddress P = None \<or> isNativeAsset option = Some True) \<and> account = option \<and> pk_onChange P account now2 = Inr as \<or>
       (\<exists>getAddress found. pk_getAddress P = Some getAddress \<and> isNativeAsset option \<noteq> Some True \<and>
          getAddress (mintKey option) (tokenId option) now1 = Inr found \<and> account = mergeAccount option found \<and>
          pk_onChange P account now2 = Inr as))"
  by (auto simp: handleSelectOption_def Let_def mapR_def split: option.splits sum.splits)

lemma evm_getAddress_token:
  assumes "evm_getAddress P address tid now = Inr found" "\<not> ep_isNft P"
  shows "\<exists>a n. found = FoundToken a \<and> ep_signerAddress P = Some (publicKey a) \<and> mintKey a = address \<and>
    t20_decimals (ev_token now address) = Inr (decimals a) \<and> t20_balanceOf (ev_token now address) (publicKey a) = Inr n \<and>
    acc_amount a = decimal n \<and> ep_formatUnits P (decimal n) (decimals a) = Inr (uiAmountString a)"
proof -
  have w: "ep_signerAddress P \<noteq> None" using assms by (auto simp: evm_getAddress_def truthy_def split: if_splits option.splits)
  obtain a where a: "ethTokenToParsedTokenAccount (ep_formatUnits P) address (ev_token now address) (the (ep_signerAddress P)) = Inr a"
    "found = FoundToken a"
    using assms by (auto simp: evm_getAddress_def split: if_splits sum.splits)
  show ?thesis
    using a w by (auto simp: ethTokenToParsedTokenAccount_def createParsedTokenAccount_def bindR_eq_Inr mapR_eq_Inr)
qed

lemma mergeAccount_token:
  "mintKey (mergeAccount option (FoundToken a)) = mintKey a" "publicKey (mergeAccount option (FoundToken a)) = publicKey a"
  "acc_amount (mergeAccount option (FoundToken a)) = acc_amount a" "decimals (mergeAccount option (FoundToken a)) = decimals a"
  "uiAmountString (mergeAccount option (FoundToken a)) = uiAmountString a"
  by simp_all

lemma evm_onChange_Inr:
  "evm_onChange P account now = Inr as \<longleftrightarrow>
     (\<exists>migration. isMigrationEligible P (mintKey account) = Inr migration \<and>
       (isWormholev1 (ep_hasProvider P) now (mintKey account) (ep_chainId P) = Inr True \<longrightarrow> migration) \<and>
       as = handleOnChange (ep_isNft P) (ep_walletAddress P) (Some account))"
  by (auto simp: evm_onChange_def Let_def split: sum.splits)

lemma insertBy_mset [simp]: "mset (insertBy cmp x ys) = add_mset x (mset ys)"
  by (induction ys) auto

lemma sortBy_mset [simp]: "mset (sortBy cmp xs) = mset xs"
  by (induction xs) (simp_all add: sortBy_def)

lemma set_insertBy [simp]: "set (insertBy cmp x ys) = insert x (set ys)"
  by (induction ys) auto

lemma natives_compare:
  "sortParsedTokenAccounts lc a b \<le> 0 \<Longrightarrow> isNativeAsset b = Some True \<Longrightarrow> isNativeAsset a = Some True"
  "\<not> sortParsedTokenAccounts lc a b \<le> 0 \<Longrightarrow> isNativeAsset a = Some True \<Longrightarrow> isNativeAsset b = Some True"
  by (auto simp: sortParsedTokenAccounts_def split: if_splits)

lemma insertBy_natives:
  "sorted_wrt (\<lambda>a b. isNativeAsset b = Some True \<longrightarrow> isNativeAsset a = Some True) ys \<Longrightarrow>
   sorted_wrt (\<lambda>a b. isNativeAsset b = Some True \<longrightarrow> isNativeAsset a = Some True) (insertBy (sortParsedTokenAccounts lc) x ys)"
  by (induction ys) (auto dest: natives_compare)

lemma set_sortBy [simp]: "set (sortBy cmp xs) = set xs"
  by (metis sortBy_mset set_mset_mset)

lemma sortBy_natives:
  "sorted_wrt (\<lambda>a b. isNativeAsset b = Some True \<longrightarrow> isNativeAsset a = Some True) (sortBy (sortParsedTokenAccounts lc) xs)"
  by (induction xs) (simp_all add: sortBy_def insertBy_natives)

section \<open>Properties\<close>

text \<open>a token that is picked on an EVM chain comes with what its contract says then: the balance of the signer and the
  decimals, whatever the list had shown; and it is no token of the first Wormhole, as far as its bridge can be asked, unless
  there is a pool to exchange it.\<close>

theorem evm_pick_fresh:
  assumes "handleSelectOption (EvmTokenPicker P) option now1 now2 = Selected as" "\<not> ep_isNft P"
  shows "\<exists>a. as = handleOnChange False (ep_walletAddress P) (Some a) \<and> mintKey a = mintKey option \<and>
    (isNativeAsset option \<noteq> Some True \<longrightarrow>
       ep_signerAddress P = Some (publicKey a) \<and> t20_decimals (ev_token now1 (mintKey option)) = Inr (decimals a) \<and>
       (\<exists>n. t20_balanceOf (ev_token now1 (mintKey option)) (publicKey a) = Inr n \<and> acc_amount a = decimal n \<and>
          ep_formatUnits P (decimal n) (decimals a) = Inr (uiAmountString a))) \<and>
    (ep_chainId P = CHAIN_ID_ETH \<and> ep_hasProvider P \<and> ev_isWrappedAsset now2 (mintKey option) = Inr True \<longrightarrow>
       isMigrationEligible P (mintKey option) = Inr True)"
proof (cases "isNativeAsset option = Some True")
  case True
  then have "evm_onChange P option now2 = Inr as"
    using assms(1) by (auto simp: handleSelectOption_Selected EvmTokenPicker_def)
  then show ?thesis using True assms(2) by (auto simp: evm_onChange_Inr isWormholev1_def)
next
  case False
  then obtain found where found: "evm_getAddress P (mintKey option) (tokenId option) now1 = Inr found"
    "evm_onChange P (mergeAccount option found) now2 = Inr as"
    using assms(1) by (auto simp: handleSelectOption_Selected EvmTokenPicker_def)
  obtain a n where a: "found = FoundToken a" "ep_signerAddress P = Some (publicKey a)" "mintKey a = mintKey option"
    "t20_decimals (ev_token now1 (mintKey option)) = Inr (decimals a)"
    "t20_balanceOf (ev_token now1 (mintKey option)) (publicKey a) = Inr n" "acc_amount a = decimal n"
    "ep_formatUnits P (decimal n) (decimals a) = Inr (uiAmountString a)"
    using evm_getAddress_token [OF found(1) assms(2)] by blast
  show ?thesis
    using found(2) assms(2) a
    by (intro exI [of _ "mergeAccount option found"])
      (auto simp: evm_onChange_Inr isWormholev1_def mergeAccount_token simp del: mergeAccount.simps)
qed

text \<open>nothing in a click on an option looks at the page when the networks have answered: if another source chain has been
  chosen in the meantime, the token of the earlier chain is set as the token of the new one, together with the wallet.\<close>

theorem late_pick:
  assumes "handleSelectOption (EvmTokenPicker P) option now1 now2 = Selected as" "\<not> ep_isNft P" "truthy (ep_walletAddress P)"
  shows "let s' = foldl (rootReducer now) (rootReducer now s (TransferAction (SetSourceChain b))) as
    in sourceChain (transfer s') = b \<and> sourceWalletAddress (transfer s') = ep_walletAddress P \<and>
      (\<exists>a. sourceParsedTokenAccount (transfer s') = Some a \<and> mintKey a = mintKey option)"
proof -
  obtain a where "as = handleOnChange False (ep_walletAddress P) (Some a)" "mintKey a = mintKey option"
    using evm_pick_fresh [OF assms(1,2)] by blast
  then show ?thesis
    using assms(3)
    by (simp add: handleOnChange_def transfer_setSourceChain_def transfer_setSourceParsedTokenAccount_def
        transfer_setSourceWalletAddress_def parsed_token_account.defs Let_def)
qed

text \<open>of the tokens in the wallet that match the search, each is shown once, among the featured ones or the others; a
  featured token that is not in the wallet is shown without a balance.\<close>

theorem options_shown_once:
  shows "mset (nonFeaturedOptions toLower holder False (Some fm) options) +
      mset (map nft_account.truncate (filter (\<lambda>m. mintKey m \<in> mintKey ` set options)
        (featuredOptions toLower holder False chainTokens (Some fm) options))) =
      mset (filter (searchFilter toLower holder) options) \<and>
    (\<forall>m\<in>set (featuredOptions toLower holder False chainTokens (Some fm) options).
      map_of fm (mintKey m) \<noteq> None \<and> (mintKey m \<notin> mintKey ` set options \<longrightarrow> acc_amount m = ''0''))"
proof -
  let ?P = "searchFilter toLower holder" and ?in = "\<lambda>x. map_of fm (mintKey x) \<noteq> None"
  let ?mk = "\<lambda>x. withMarkets (the (map_of fm (mintKey x))) x"
  let ?owned = "map ?mk (filter ?in options)"
  let ?spoofed = "map (spoofed chainTokens) (filter (\<lambda>(mint, ms). find (\<lambda>m. mintKey m = mint) ?owned = None) fm)"
  have f: "featuredOptions toLower holder False chainTokens (Some fm) options = filter (?P \<circ> nft_account.truncate) (?owned @ ?spoofed)"
    by (simp add: featuredOptions_def Let_def)
  have sp: "mintKey m \<notin> mintKey ` set options \<and> acc_amount m = ''0'' \<and> map_of fm (mintKey m) \<noteq> None" if "m \<in> set ?spoofed" for m
  proof -
    from that obtain mint ms where m: "m = spoofed chainTokens (mint, ms)" "(mint, ms) \<in> set fm"
      "find (\<lambda>m. mintKey m = mint) ?owned = None" by auto
    have "map_of fm mint \<noteq> None" using m(2) by (metis weak_map_of_SomeI option.distinct(1))
    moreover from this m(3) have "mint \<notin> mintKey ` set options" by (auto simp: find_None_iff)
    ultimately show ?thesis using m(1) by simp
  qed
  have "filter (\<lambda>m. mintKey m \<in> mintKey ` set options) (filter (?P \<circ> nft_account.truncate) ?spoofed) = []"
    using sp by (auto simp: filter_empty_conv)
  moreover have "filter (\<lambda>m. mintKey m \<in> mintKey ` set options) (filter (?P \<circ> nft_account.truncate) ?owned) =
      map ?mk (filter ?P (filter ?in options))"
    by (auto simp: filter_map o_def intro!: filter_cong arg_cong [of _ _ "map _"] simp flip: filter_filter)
  ultimately have "map nft_account.truncate (filter (\<lambda>m. mintKey m \<in> mintKey ` set options)
      (featuredOptions toLower holder False chainTokens (Some fm) options)) = filter ?P (filter ?in options)"
    by (simp add: f o_def)
  moreover have "nonFeaturedOptions toLower holder False (Some fm) options = filter (\<lambda>x. \<not> ?in x) (filter ?P options)"
    by (simp add: nonFeaturedOptions_def conj_commute)
  moreover have "mset (filter (\<lambda>x. \<not> ?in x) xs) + mset (filter ?in xs) = mset xs" for xs :: "nft_account list"
    by (induction xs) auto
  moreover have "filter ?P (filter ?in options) = filter ?in (filter ?P options)" by (simp add: conj_commute)
  moreover have "map_of fm (mintKey m) \<noteq> None \<and> (mintKey m \<notin> mintKey ` set options \<longrightarrow> acc_amount m = ''0'')"
    if "m \<in> set (featuredOptions toLower holder False chainTokens (Some fm) options)" for m
  proof -
    have "m \<in> set ?owned \<or> m \<in> set ?spoofed" using that unfolding f by auto
    then show ?thesis using sp [of m] by auto
  qed
  ultimately show ?thesis by metis
qed

text \<open>the Solana picker offers the accounts with a balance, the native one first, and no account on both pages; but an
  account of a token without decimals that has metadata and is not unique is offered on neither.\<close>

theorem solana_offers:
  assumes "acc_amount x \<noteq> ''0''" "x \<in> set xs"
  shows "sorted_wrt (\<lambda>a b. isNativeAsset b = Some True \<longrightarrow> isNativeAsset a = Some True) (filteredOptions P (Some xs)) \<and>
    mset (filteredOptions P (Some xs)) = mset (filter (sol_offered P) xs) \<and>
    \<not> (x \<in> set (filteredOptions (P\<lparr>sp_isNft := True\<rparr>) (Some xs)) \<and> x \<in> set (filteredOptions (P\<lparr>sp_isNft := False\<rparr>) (Some xs))) \<and>
    (x \<notin> set (filteredOptions (P\<lparr>sp_isNft := True\<rparr>) (Some xs)) \<and> x \<notin> set (filteredOptions (P\<lparr>sp_isNft := False\<rparr>) (Some xs)) \<longleftrightarrow>
       decimals x = 0 \<and> truthy (Option.bind (metaplexOf P (mintKey x)) mx_uri) \<and> map_option mi_supply (mintOf P (mintKey x)) \<noteq> Some ''1'')"
proof -
  have same: "metaplexOf (P\<lparr>sp_isNft := b\<rparr>) = metaplexOf P" "mintOf (P\<lparr>sp_isNft := b\<rparr>) = mintOf P" for b
    by (simp_all add: metaplexOf_def mintOf_def fun_eq_iff)
  show ?thesis
    using assms sortBy_natives by (auto simp: sol_offered_def same filteredOptions_def)
qed

text \<open>on Solana a token whose mint belongs to the first Wormhole, or is not known, is refused unless it is featured or
  there is a pool to exchange it.\<close>

theorem solana_refuses_v1:
  assumes "handleSelectOption (SolanaTokenPicker P) option now1 now2 = Selected as"
  shows "as = handleOnChange (sp_isNft P) (sp_walletAddress P) (Some option) \<and>
    (truthy (mapOf (MIGRATION_ASSET_MAP (sp_cluster P)) (mintKey option)) \<or>
     (\<exists>mint. mintOf P (mintKey option) = Some mint \<and> mi_mintAuthority mint \<noteq> WORMHOLE_V1_MINT_AUTHORITY (sp_cluster P)) \<or>
     \<not> sp_isNft P \<and> (\<exists>fm ms. sp_featured P = Some fm \<and> map_of fm (mintKey option) = Some ms))"
  using assms
  by (auto simp: handleSelectOption_Selected SolanaTokenPicker_def sol_onChange_def sol_isWormholev1_def split: if_splits option.splits)

text \<open>when the look-up of a token on Terra fails, its promise is rejected with undefined, and the handler of the dialog, which
  reads the message of the reason, fails itself: the dialog stays as it was and says nothing.\<close>

theorem terra_pick_silent:
  assumes "isNativeAsset option \<noteq> Some True" "truthy wallet" "tv_tokenInfo now1 (mintKey option) = Inl e"
  shows "handleSelectOption (TerraTokenPicker formatUnits wallet) option now1 now2 = HandlerThrows"
  using assms by (simp add: handleSelectOption_def TerraTokenPicker_def lookupTerraAddress_def mapR_def)

section \<open>Witnesses\<close>

definition demo_option :: "string \<Rightarrow> string \<Rightarrow> nft_account" where
  "demo_option mint amt = \<lparr>publicKey = ''key'', mintKey = mint, acc_amount = amt, decimals = 0, uiAmount = 0, uiAmountString = amt,
     acc_symbol = None, acc_name = None, logo = None, isNativeAsset = None, tokenId = None, uri = None, animation_url = None,
     external_url = None, image = None, image_256 = None, nftName = None, description = None\<rparr>"

definition demo_evm_picker :: evm_picker where
  "demo_evm_picker = \<lparr>ep_formatUnits = (\<lambda>s d. Inr s), ep_getEthAddress = Inr, ep_migrations = (\<lambda>c a. None),
     ep_chainId = CHAIN_ID_ETH, ep_hasProvider = True, ep_signerAddress = Some ''0x01'', ep_isReady = True, ep_isNft = False,
     ep_walletAddress = Some ''0x01''\<rparr>"

definition demo_evm_views :: "bool \<Rightarrow> evm_views" where
  "demo_evm_views v1 = \<lparr>ev_token = (\<lambda>a. \<lparr>t20_decimals = Inr 6, t20_balanceOf = (\<lambda>w. Inr 5), t20_symbol = Inr ''T'', t20_name = Inr ''Token''\<rparr>),
     ev_nft = (\<lambda>a. \<lparr>t721_ownerOf = (\<lambda>t. Inr ''0x01''), t721_symbol = Inr ''N'', t721_name = Inr ''Nft'', t721_tokenURI = (\<lambda>t. Inr ''u''),
       t721_supportsInterface = (\<lambda>i. Inr True)\<rparr>),
     ev_isWrappedAsset = (\<lambda>a. Inr v1)\<rparr>"

text \<open>The list had shown a balance of 999; a token of the first Wormhole is refused.\<close>

lemma demo_evm_pick:
  "\<exists>as. (handleSelectOption (EvmTokenPicker demo_evm_picker) (demo_option ''0x0a'' ''999'') (demo_evm_views False) (demo_evm_views False) ::
      (unit, unit, unit) root_action selection) = Selected as"
  "(handleSelectOption (EvmTokenPicker demo_evm_picker) (demo_option ''0x0a'' ''999'') (demo_evm_views True) (demo_evm_views True) ::
      (unit, unit, unit) root_action selection) = SelectionError ''Wormhole v1 assets cannot be transferred with this bridge.''"
  by (simp_all add: handleSelectOption_def EvmTokenPicker_def demo_evm_picker_def demo_evm_views_def demo_option_def evm_getAddress_def
    ethTokenToParsedTokenAccount_def createParsedTokenAccount_def evm_onChange_def isWormholev1_def isMigrationEligible_def
    chain_ids mapR_def Let_def sublist_code)

theorem evm_pick_fresh_witness:
  "\<exists>a. (handleSelectOption (EvmTokenPicker demo_evm_picker) (demo_option ''0x0a'' ''999'') (demo_evm_views False) (demo_evm_views False) ::
      (unit, unit, unit) root_action selection) = Selected (handleOnChange False (Some ''0x01'') (Some a)) \<and>
     acc_amount a = decimal 5 \<and> decimals a = 6"
proof -
  obtain as where as: "(handleSelectOption (EvmTokenPicker demo_evm_picker) (demo_option ''0x0a'' ''999'') (demo_evm_views False)
      (demo_evm_views False) :: (unit, unit, unit) root_action selection) = Selected as"
    using demo_evm_pick by blast
  have "\<not> ep_isNft demo_evm_picker" by (simp add: demo_evm_picker_def)
  from evm_pick_fresh [OF as this] as show ?thesis
    by (auto simp: demo_evm_picker_def demo_evm_views_def demo_option_def)
qed

theorem late_pick_witness:
  "\<exists>as. (handleSelectOption (EvmTokenPicker demo_evm_picker) (demo_option ''0x0a'' ''999'') (demo_evm_views False) (demo_evm_views False) ::
      (unit, unit, unit) root_action selection) = Selected as \<and>
     (let s' = foldl (rootReducer ''now'') (rootReducer ''now'' store_initial (TransferAction (SetSourceChain CHAIN_ID_BSC))) as
      in sourceChain (transfer s') = CHAIN_ID_BSC \<and> sourceParsedTokenAccount (transfer s') \<noteq> None)"
proof -
  obtain as where as: "(handleSelectOption (EvmTokenPicker demo_evm_picker) (demo_option ''0x0a'' ''999'') (demo_evm_views False)
      (demo_evm_views False) :: (unit, unit, unit) root_action selection) = Selected as"
    using demo_evm_pick by blast
  have "\<not> ep_isNft demo_evm_picker" "truthy (ep_walletAddress demo_evm_picker)" by (simp_all add: demo_evm_picker_def)
  from late_pick [OF as this, of "''now''" store_initial CHAIN_ID_BSC] as show ?thesis
    by (auto simp: Let_def)
qed

theorem options_shown_once_witness:
  "\<forall>m\<in>set (featuredOptions (\<lambda>s. s) '''' False Map.empty (Some [(''a'', [''market'']), (''c'', [''market''])])
       [demo_option ''a'' ''3'', demo_option ''b'' ''4'']). mintKey m = ''c'' \<longrightarrow> acc_amount m = ''0''"
proof -
  have "''c'' \<notin> mintKey ` set [demo_option ''a'' ''3'', demo_option ''b'' ''4'']" by (simp add: demo_option_def)
  then show ?thesis
    using options_shown_once [of "\<lambda>s. s" "''''" "[(''a'', [''market'']), (''c'', [''market''])]"
      "[demo_option ''a'' ''3'', demo_option ''b'' ''4'']" Map.empty] by metis
qed

definition demo_sol_picker :: sol_picker where
  "demo_sol_picker = \<lparr>sp_cluster = Devnet, sp_isNft = False, sp_tokenMap = Map.empty,
     sp_metaplex = Some [''mint'' \<mapsto> \<lparr>mx_uri = Some ''u'', mx_symbol = None, mx_name = None\<rparr>],
     sp_mintAccounts = Some [''mint'' \<mapsto> Some \<lparr>mi_mintAuthority = ''auth'', mi_supply = ''100''\<rparr>],
     sp_featured = None, sp_localeCompare = (\<lambda>a b. 0), sp_walletAddress = Some ''key''\<rparr>"

theorem solana_offers_witness:
  "demo_option ''mint'' ''3'' \<notin> set (filteredOptions (demo_sol_picker\<lparr>sp_isNft := True\<rparr>) (Some [demo_option ''mint'' ''3''])) \<and>
   demo_option ''mint'' ''3'' \<notin> set (filteredOptions (demo_sol_picker\<lparr>sp_isNft := False\<rparr>) (Some [demo_option ''mint'' ''3'']))"
proof -
  have "acc_amount (demo_option ''mint'' ''3'') \<noteq> ''0''" "demo_option ''mint'' ''3'' \<in> set [demo_option ''mint'' ''3'']"
    by (simp_all add: demo_option_def)
  from solana_offers [OF this, of demo_sol_picker] show ?thesis
    by (simp add: demo_option_def demo_sol_picker_def metaplexOf_def mintOf_def)
qed

theorem solana_refuses_v1_witness:
  "\<exists>mint. mintOf demo_sol_picker ''mint'' = Some mint \<and> mi_mintAuthority mint \<noteq> WORMHOLE_V1_MINT_AUTHORITY Devnet"
proof -
  have "(handleSelectOption (SolanaTokenPicker demo_sol_picker) (demo_option ''mint'' ''3'') () () :: (unit, unit, unit) root_action selection) =
      Selected (handleOnChange False (Some ''key'') (Some (demo_option ''mint'' ''3'')))"
    by (simp add: handleSelectOption_def SolanaTokenPicker_def sol_onChange_def sol_isWormholev1_def demo_sol_picker_def demo_option_def
        mintOf_def WORMHOLE_V1_MINT_AUTHORITY_def byCluster_def)
  from solana_refuses_v1 [OF this] show ?thesis
    by (auto simp: demo_sol_picker_def demo_option_def MIGRATION_ASSET_MAP_def byCluster_def mapOf_def)
qed

theorem terra_pick_silent_witness:
  "(handleSelectOption (TerraTokenPicker (\<lambda>s d. Inr s) (Some ''terra1'')) (demo_option ''terra2'' ''3'')
      \<lparr>tv_tokenInfo = (\<lambda>a. Inl (Foreign ''no such contract'')), tv_balance = (\<lambda>a w. Inr ''0'')\<rparr>
      \<lparr>tv_tokenInfo = (\<lambda>a. Inl (Foreign ''no such contract'')), tv_balance = (\<lambda>a w. Inr ''0'')\<rparr> ::
    (unit, unit, unit) root_action selection) = HandlerThrows"
  by (rule terra_pick_silent) (simp_all add: demo_option_def)

end
