(* ===== verification/Metadata.thy ===== *)
theory Metadata
  imports Pickers HandleNft
begin

text \<open>
  Names, symbols and logos of tokens: \<open>hooks/useMetadata.ts\<close> and the hooks that it puts together (\<open>useEvmMetadata.ts\<close>,
  \<open>useTerraMetadata.ts\<close>, \<open>useMetaplexData.ts\<close>), and the lists of tokens and markets that are kept in the store
  (\<open>useSolanaTokenMap.ts\<close>, \<open>useTerraTokenMap.ts\<close>, \<open>useMarketsMap.ts\<close>). Arrays of addresses are dependencies of effects by
  identity, so they come with a number that stands for it.
\<close>

section \<open>Lists in the store\<close>

text \<open>The list is asked for when there is none and none is being fetched.\<close>

definition shouldFire :: "'x data_wrapper \<Rightarrow> bool" where
  "shouldFire w \<longleftrightarrow> data w = None \<and> \<not> isFetching w"

definition askOnce :: "'act \<Rightarrow> ('e \<Rightarrow> 'x result) \<Rightarrow> ('x \<Rightarrow> 'act) \<Rightarrow> 'act \<Rightarrow> (bool, 'e, 'act) effect" where
  "askOnce fetch request receive failed fire =
     Inr (if fire
       then \<lparr>atOnce = [fetch], whenAnswered = Some (\<lambda>now. case request now of Inr x \<Rightarrow> [receive x] | Inl e \<Rightarrow> [failed]), cleansUp = False\<rparr>
       else noEffect)"

definition useSolanaTokenMap :: "('e \<Rightarrow> 'a result) \<Rightarrow> (bool, 'e, ('a, 'b, 'c) token_action) effect" where
  "useSolanaTokenMap resolve = askOnce FetchSolanaTokenMap resolve ReceiveSolanaTokenMap
     (ErrorSolanaTokenMap ''Failed to retrieve the Solana token map.'')"

definition useSolanaTokenMap_deps :: "('a, 'b, 'c) token_metadata_state \<Rightarrow> bool" where
  "useSolanaTokenMap_deps s = shouldFire (solanaTokenMap s)"

definition useTerraTokenMap :: "('e \<Rightarrow> 'b result) \<Rightarrow> (bool, 'e, ('a, 'b, 'c) token_action) effect" where
  "useTerraTokenMap get = askOnce FetchTerraTokenMap get ReceiveTerraTokenMap
     (ErrorTerraTokenMap ''Failed to retrieve the Terra Token List.'')"

definition useTerraTokenMap_deps :: "bool \<Rightarrow> ('a, 'b, 'c) token_metadata_state \<Rightarrow> bool" where
  "useTerraTokenMap_deps fire s \<longleftrightarrow> fire \<and> shouldFire (terraTokenMap s)"

definition useMarketsMap :: "('e \<Rightarrow> 'c result) \<Rightarrow> (bool, 'e, ('a, 'b, 'c) token_action) effect" where
  "useMarketsMap get = askOnce FetchMarketsMap get ReceiveMarketsMap
     (ErrorMarketsMap ''Failed to retrieve the Terra Token List.'')"

definition useMarketsMap_deps :: "bool \<Rightarrow> ('a, 'b, 'c) token_metadata_state \<Rightarrow> bool" where
  "useMarketsMap_deps fire s \<longleftrightarrow> fire \<and> shouldFire (marketsMap s)"

section \<open>The metadata of addresses\<close>

record token_meta =
  tm_symbol :: "string option"
  tm_logo :: "string option"
  tm_tokenName :: "string option"
  tm_decimals :: "nat option"

text \<open>What such a hook keeps: the answers by address.\<close>

record 'm lookup_state =
  lk_isFetching :: bool
  lk_error :: string
  lk_data :: "'m option"

datatype 'm lookup_action = SetIsFetching bool | SetLookupError string | SetData "'m option"

fun lookupReduce :: "'m lookup_state \<Rightarrow> 'm lookup_action \<Rightarrow> 'm lookup_state" where
  "lookupReduce s (SetIsFetching b) = s\<lparr>lk_isFetching := b\<rparr>"
| "lookupReduce s (SetLookupError e) = s\<lparr>lk_error := e\<rparr>"
| "lookupReduce s (SetData d) = s\<lparr>lk_data := d\<rparr>"

definition lookup_initial :: "'m lookup_state" where
  "lookup_initial = \<lparr>lk_isFetching = False, lk_error = '''', lk_data = None\<rparr>"

text \<open>\<open>output.set(address, results[index])\<close> for each address.\<close>

definition resultMap :: "string list \<Rightarrow> 'm list \<Rightarrow> string \<rightharpoonup> 'm" where
  "resultMap addresses results = foldl (\<lambda>m (address, r). m(address \<mapsto> r)) Map.empty (zip addresses results)"

text \<open>Each of the three calls of a contract may fail on its own: the field is undefined then.\<close>

definition orUndefined :: "'x result \<Rightarrow> 'x option" where
  "orUndefined r = (case r of Inl e \<Rightarrow> None | Inr x \<Rightarrow> Some x)"

definition evm_fetchSingleMetadata :: "(string \<Rightarrow> erc20_view) \<Rightarrow> string \<Rightarrow> token_meta" where
  "evm_fetchSingleMetadata token address =
     \<lparr>tm_symbol = orUndefined (t20_symbol (token address)), tm_logo = None, tm_tokenName = orUndefined (t20_name (token address)),
      tm_decimals = orUndefined (t20_decimals (token address))\<rparr>"

definition fetchEthMetadata :: "(string \<Rightarrow> erc20_view) \<Rightarrow> string list \<Rightarrow> string \<rightharpoonup> token_meta" where
  "fetchEthMetadata token addresses = resultMap addresses (map (evm_fetchSingleMetadata token) addresses)"

record evm_metadata_deps =
  em_identity :: nat
  em_addresses :: "string list"
  em_hasProvider :: bool
  em_isReady :: bool
  em_chainId :: ChainId

definition useEvmMetadata :: "(evm_metadata_deps, evm_views, (string \<rightharpoonup> token_meta) lookup_action) effect" where
  "useEvmMetadata d =
     Inr (if em_addresses d \<noteq> [] \<and> em_hasProvider d \<and> em_isReady d \<and> isEVMChain (em_chainId d)
       then \<lparr>atOnce = [SetIsFetching True, SetLookupError '''', SetData None],
             whenAnswered = Some (\<lambda>now. [SetData (Some (fetchEthMetadata (ev_token now) (em_addresses d))), SetIsFetching False]),
             cleansUp = True\<rparr>
       else \<lparr>atOnce = [], whenAnswered = None, cleansUp = True\<rparr>)"

text \<open>On Terra one contract that does not answer fails them all.\<close>

definition fetchTerraMetadata :: "terra_views \<Rightarrow> string list \<Rightarrow> (string \<rightharpoonup> token_meta) result" where
  "fetchTerraMetadata now addresses =
     mapR (resultMap addresses) (sequenceR (map (\<lambda>address.
       mapR (\<lambda>(decs, symbol, nm). \<lparr>tm_symbol = Some symbol, tm_logo = None, tm_tokenName = Some nm, tm_decimals = Some decs\<rparr>)
         (tv_tokenInfo now address)) addresses))"

definition useTerraMetadata :: "(nat \<times> string list, terra_views, (string \<rightharpoonup> token_meta) lookup_action) effect" where
  "useTerraMetadata d =
     (case d of (ident, addresses) \<Rightarrow>
        Inr (if addresses \<noteq> []
          then \<lparr>atOnce = [SetIsFetching True, SetLookupError '''', SetData None],
                whenAnswered = Some (\<lambda>now.
                  case fetchTerraMetadata now addresses of
                    Inr results \<Rightarrow> [SetData (Some results), SetIsFetching False]
                  | Inl e \<Rightarrow> [SetLookupError ''Could not retrieve contract metadata'', SetIsFetching False]),
                cleansUp = True\<rparr>
          else \<lparr>atOnce = [], whenAnswered = None, cleansUp = True\<rparr>))"

text \<open>Metaplex: the metadata accounts of the mints. What cannot be decoded (\<open>decodeMetadata\<close>, Borsh) is undefined. A decoded
  account names its mint, and the map is made by looking for it.\<close>

definition getMetaplexData :: "('k, 'g, 't) outside \<Rightarrow> (bytes \<Rightarrow> (string \<times> metaplex_data) result) \<Rightarrow> ('k list \<Rightarrow> bytes option list result) \<Rightarrow>
    string list \<Rightarrow> (string \<times> metaplex_data) option list result" where
  "getMetaplexData E decodeMetadata accountData mintAddresses =
     bindR (sequenceR (map (getMetadataAddress E) mintAddresses)) (\<lambda>metaAddresses.
     mapR (map (\<lambda>account. Option.bind account (\<lambda>b. orUndefined (decodeMetadata b)))) (getMultipleAccounts accountData metaAddresses))"

definition createResultMap :: "string list \<Rightarrow> (string \<times> metaplex_data) option list \<Rightarrow> string \<rightharpoonup> metaplex_data option" where
  "createResultMap addresses metadatas =
     resultMap addresses (map (\<lambda>address. map_option snd
       (Option.bind (find (\<lambda>x. map_option fst x = Some address) metadatas) (\<lambda>x. x))) addresses)"

definition useMetaplexData :: "('k, 'g, 't) outside \<Rightarrow> (bytes \<Rightarrow> (string \<times> metaplex_data) result) \<Rightarrow>
    (nat \<times> string list, 'k token_nets, (string \<rightharpoonup> metaplex_data option) lookup_action) effect" where
  "useMetaplexData E decodeMetadata d =
     (case d of (ident, addresses) \<Rightarrow>
        Inr \<lparr>atOnce = [SetIsFetching True],
             whenAnswered = Some (\<lambda>now.
               case getMetaplexData E decodeMetadata (tk_accountData now) addresses of
                 Inr results \<Rightarrow> [SetData (Some (createResultMap addresses results)), SetIsFetching False, SetLookupError '''']
               | Inl e \<Rightarrow> [SetData None, SetIsFetching False, SetLookupError ''Failed to fetch Metaplex data.'']),
             cleansUp = True\<rparr>)"

section \<open>\<open>useMetadata\<close>\<close>

text \<open>Of \<open>error\<close> only whether it is truthy is kept; nobody looks at more.\<close>

record generic_metadata =
  gm_isFetching :: bool
  gm_failed :: bool
  gm_data :: "(string \<rightharpoonup> token_meta) option"

record token_list_entry = sol_token_info +
  te_address :: string
  te_decimals :: nat

definition collect :: "(string \<Rightarrow> token_meta) \<Rightarrow> string list \<Rightarrow> string \<rightharpoonup> token_meta" where
  "collect f addresses = foldl (\<lambda>m address. m(address \<mapsto> f address)) Map.empty addresses"

text \<open>\<open>x || undefined\<close> for a number.\<close>

definition nonZero :: "nat option \<Rightarrow> nat option" where
  "nonZero x = (if x = Some 0 then None else x)"

definition solana_meta :: "token_list_entry list option \<Rightarrow> (string \<rightharpoonup> metaplex_data option) option \<Rightarrow> string \<Rightarrow> token_meta" where
  "solana_meta entries metaplexData address =
     (let metaplex = Option.bind (Option.bind metaplexData (\<lambda>m. m address)) (\<lambda>x. x);
          tokenInfo = Option.bind entries (find (\<lambda>x. te_address x = address)) in
      \<lparr>tm_symbol = firstTruthy [Option.bind metaplex mx_symbol, Option.bind tokenInfo ti_symbol],
       tm_logo = firstTruthy [Option.bind tokenInfo ti_logoURI],
       tm_tokenName = firstTruthy [Option.bind metaplex mx_name, Option.bind tokenInfo ti_name],
       tm_decimals = nonZero (map_option te_decimals tokenInfo)\<rparr>)"

definition constructSolanaMetadata :: "string list \<Rightarrow> token_list_entry list data_wrapper \<Rightarrow>
    (string \<rightharpoonup> metaplex_data option) lookup_state \<Rightarrow> generic_metadata" where
  "constructSolanaMetadata addresses tokenMap metaplexData =
     \<lparr>gm_isFetching = isFetching tokenMap \<or> lk_isFetching metaplexData,
      gm_failed = truthy (dw_error tokenMap) \<or> lk_isFetching metaplexData,
      gm_data = Some (collect (solana_meta (data tokenMap) (lk_data metaplexData)) addresses)\<rparr>"

text \<open>The entries of Terra's list are texts; its \<open>icon\<close> is the logo.\<close>

definition terra_meta :: "(string \<rightharpoonup> sol_token_info) option \<Rightarrow> (string \<rightharpoonup> token_meta) option \<Rightarrow> string \<Rightarrow> token_meta" where
  "terra_meta entries terraMetadata address =
     (let metadata = Option.bind terraMetadata (\<lambda>m. m address);
          tokenInfo = Option.bind entries (\<lambda>m. m address) in
      \<lparr>tm_symbol = firstTruthy [Option.bind tokenInfo ti_symbol, Option.bind metadata tm_symbol],
       tm_logo = firstTruthy [Option.bind tokenInfo ti_logoURI, Option.bind metadata tm_logo],
       tm_tokenName = firstTruthy [Option.bind tokenInfo ti_name, Option.bind metadata tm_tokenName],
       tm_decimals = nonZero (Option.bind metadata tm_decimals)\<rparr>)"

definition constructTerraMetadata :: "string list \<Rightarrow> (string \<rightharpoonup> sol_token_info) data_wrapper \<Rightarrow> (string \<rightharpoonup> token_meta) lookup_state \<Rightarrow>
    generic_metadata" where
  "constructTerraMetadata addresses tokenMap terraMetadata =
     \<lparr>gm_isFetching = isFetching tokenMap \<or> lk_isFetching terraMetadata,
      gm_failed = truthy (dw_error tokenMap) \<or> lk_error terraMetadata \<noteq> '''',
      gm_data = Some (collect (terra_meta (data tokenMap) (lk_data terraMetadata)) addresses)\<rparr>"

definition eth_meta :: "(string \<rightharpoonup> token_meta) option \<Rightarrow> string \<Rightarrow> token_meta" where
  "eth_meta metadataMap address =
     (let meta = Option.bind metadataMap (\<lambda>m. m address) in
      \<lparr>tm_symbol = firstTruthy [Option.bind meta tm_symbol],
       tm_logo = firstTruthy [logoOverrides address, Option.bind meta tm_logo],
       tm_tokenName = firstTruthy [Option.bind meta tm_tokenName],
       tm_decimals = Option.bind meta tm_decimals\<rparr>)"

definition constructEthMetadata :: "string list \<Rightarrow> (string \<rightharpoonup> token_meta) lookup_state \<Rightarrow> generic_metadata" where
  "constructEthMetadata addresses metadataMap =
     \<lparr>gm_isFetching = lk_isFetching metadataMap, gm_failed = (lk_error metadataMap \<noteq> ''''),
      gm_data = Some (collect (eth_meta (lk_data metadataMap)) addresses)\<rparr>"

text \<open>The state of the hooks that it uses. Each of them is given the addresses only on its kind of chain.\<close>

record metadata_hooks =
  mh_tokenMap :: "token_list_entry list data_wrapper"
  mh_terraMap :: "(string \<rightharpoonup> sol_token_info) data_wrapper"
  mh_metaplex :: "(string \<rightharpoonup> metaplex_data option) lookup_state"
  mh_terra :: "(string \<rightharpoonup> token_meta) lookup_state"
  mh_evm :: "(string \<rightharpoonup> token_meta) lookup_state"

definition useMetadata :: "ChainId \<Rightarrow> string list \<Rightarrow> metadata_hooks \<Rightarrow> generic_metadata" where
  "useMetadata chainId addresses H =
     (if chainId = CHAIN_ID_SOLANA then constructSolanaMetadata addresses (mh_tokenMap H) (mh_metaplex H)
      else if isEVMChain chainId then constructEthMetadata addresses (mh_evm H)
      else if chainId = CHAIN_ID_TERRA then constructTerraMetadata addresses (mh_terraMap H) (mh_terra H)
      else \<lparr>gm_isFetching = False, gm_failed = False, gm_data = None\<rparr>)"

section \<open>A list that is kept in the store\<close>

text \<open>The contract of the three hooks: what the actions do to the wrapper of the list.\<close>

locale kept_list =
  fixes wrapper :: "'s \<Rightarrow> 'x data_wrapper"
    and reduce :: "'s \<Rightarrow> 'act \<Rightarrow> 's"
    and wanted :: bool
    and request :: "'e \<Rightarrow> 'x result"
    and ask :: 'act
    and receive :: "'x \<Rightarrow> 'act"
    and failed :: 'act
    and now :: string
    and message :: string
  assumes asked: "wrapper (reduce s ask) = fetchDataWrapper"
    and received: "wrapper (reduce s (receive x)) = receiveDataWrapper now x"
    and refused: "wrapper (reduce s failed) = errorDataWrapper message"
begin

definition eff :: "(bool, 'e, 'act) effect" where
  "eff = askOnce ask request receive failed"

definition deps :: "'s \<Rightarrow> bool" where
  "deps s \<longleftrightarrow> wanted \<and> shouldFire (wrapper s)"

lemma deps_simps:
  "wrapper s = fetchDataWrapper \<Longrightarrow> \<not> deps s"
  "wrapper s = errorDataWrapper e \<Longrightarrow> deps s = wanted"
  "wrapper s = getEmptyDataWrapper \<Longrightarrow> deps s = wanted"
  "wrapper s = receiveDataWrapper now x \<Longrightarrow> \<not> deps s"
  by (simp_all add: deps_def shouldFire_def wrapper_defs)

text \<open>The hook alone: at most one question is open, and the list is marked as being fetched exactly then. A list that has
  come is never asked for again.\<close>

definition one_question :: "'s \<times> (bool, 'e, 'act) mounted \<Rightarrow> bool" where
  "one_question sm \<longleftrightarrow>
     (pending (snd sm) = [] \<and> \<not> isFetching (wrapper (fst sm)) \<or>
      wrapper (fst sm) = fetchDataWrapper \<and> (\<exists>p. pending (snd sm) = [p] \<and> \<not> cancelled p \<and>
        continue_with p = (\<lambda>e. case request e of Inr x \<Rightarrow> [receive x] | Inl _ \<Rightarrow> [failed]))) \<and>
     \<not> hasCleanup (snd sm)"

lemma flush_one:
  assumes "one_question (s, m)"
  shows "one_question (hookStep eff deps reduce (s, m) Flush)"
proof (cases "gone m \<or> lastDeps m = Some (deps s)")
  case True
  then show ?thesis using assms by (simp add: flush_def)
next
  case False
  have c: "cleanup m = m" using assms by (simp add: one_question_def cleanup_def)
  show ?thesis
  proof (cases "deps s")
    case d: True
    then have "\<not> isFetching (wrapper s)" by (simp add: deps_def shouldFire_def)
    then have "pending m = []" using assms by (auto simp: one_question_def wrapper_defs)
    then show ?thesis using False d c
      by (simp add: flush_def Let_def eff_def askOnce_def one_question_def asked)
  next
    case d: False
    then show ?thesis using False c assms
      by (simp add: flush_def Let_def eff_def askOnce_def noEffect_def one_question_def)
  qed
qed

lemma settle_one:
  assumes "one_question (s, m)"
  shows "one_question (hookStep eff deps reduce (s, m) (Settle k e))"
proof (cases "k < length (pending m)")
  case True
  then obtain p where "pending m = [p]" "k = 0" "\<not> cancelled p" "\<not> hasCleanup m"
      "continue_with p = (\<lambda>e. case request e of Inr x \<Rightarrow> [receive x] | Inl _ \<Rightarrow> [failed])"
    using assms by (auto simp: one_question_def)
  then show ?thesis
    by (auto simp: settle_def one_question_def received refused receiveDataWrapper_def errorDataWrapper_def split: sum.split)
qed (use assms in \<open>simp add: settle_def\<close>)

lemma run_one:
  assumes "\<forall>ev\<in>set evs. ev = Flush \<or> (\<exists>k e. ev = Settle k e)" "wrapper s0 = getEmptyDataWrapper"
  shows "one_question (hookRun eff deps reduce evs s0)"
proof -
  have "one_question (foldl (hookStep eff deps reduce) sm evs)" if "one_question sm" for sm
    using assms(1) that
  proof (induction evs arbitrary: sm)
    case (Cons ev evs)
    obtain s m where sm: "sm = (s, m)" by (cases sm)
    have "one_question (hookStep eff deps reduce (s, m) ev)"
      using Cons.prems sm flush_one [of s m] settle_one [of s m] by (cases ev) (simp_all del: hookStep.simps)
    then show ?case using Cons.IH [of "hookStep eff deps reduce (s, m) ev"] Cons.prems(1) sm by simp
  qed simp
  from this [of "(s0, mount)"] show ?thesis
    using assms(2) by (simp add: hookRun_def one_question_def mount_def getEmptyDataWrapper_def)
qed

lemma one_open:
  assumes "\<forall>ev\<in>set evs. ev = Flush \<or> (\<exists>k e. ev = Settle k e)" "wrapper s0 = getEmptyDataWrapper"
    and "hookRun eff deps reduce evs s0 = (s, m)"
  shows "length (pending m) = (if isFetching (wrapper s) then 1 else 0) \<and> (data (wrapper s) \<noteq> None \<longrightarrow> pending m = [])"
  using run_one [OF assms(1,2)] unfolding assms(3) by (auto simp: one_question_def fetchDataWrapper_def)

text \<open>While the network refuses, the hook asks again each time: an error does not stay in the store.\<close>

lemma round_fails:
  assumes "wanted" "request e = Inl err" "deps s" "pending m = []" "\<not> hasCleanup m" "\<not> gone m" "lastDeps m \<noteq> Some True"
  shows "\<exists>s' m'. foldl (hookStep eff deps reduce) (s, m) [Flush, Flush, Settle 0 e] = (s', m') \<and>
    wrapper s' = errorDataWrapper message \<and> deps s' \<and> pending m' = [] \<and> \<not> hasCleanup m' \<and> \<not> gone m' \<and> lastDeps m' = Some False \<and>
    runs m' = runs m + 2"
proof -
  have c: "cleanup n = n" if "\<not> hasCleanup n" for n :: "(bool, 'e, 'act) mounted" using that by (simp add: cleanup_def)
  have s1: "\<not> deps (reduce s ask)" by (rule deps_simps(1)) (rule asked)
  have s2: "deps (reduce (reduce s ask) failed)" using assms(1) deps_simps(2) refused by blast
  have 1: "hookStep eff deps reduce (s, m) Flush = (reduce s ask, m\<lparr>runs := Suc (runs m), lastDeps := Some True, hasCleanup := False,
      pending := [\<lparr>startedBy = Suc (runs m), startedFor = True, cancelled = False,
        continue_with = \<lambda>e. case request e of Inr x \<Rightarrow> [receive x] | Inl _ \<Rightarrow> [failed]\<rparr>]\<rparr>)"
    using assms by (simp add: flush_def Let_def eff_def askOnce_def c)
  show ?thesis
    unfolding foldl.simps 1 using s1 s2 assms
    by (simp add: flush_def Let_def eff_def askOnce_def c noEffect_def settle_def refused)
qed

lemma asks_again:
  assumes "wanted" "request e = Inl err" "wrapper s0 = getEmptyDataWrapper"
    and "hookRun eff deps reduce (concat (replicate n [Flush, Flush, Settle 0 e]) @ [Flush]) s0 = (s, m)"
  shows "wrapper s = fetchDataWrapper \<and> runs m = 2 * n + 1 \<and> length (pending m) = 1"
proof -
  have *: "\<exists>s m. hookRun eff deps reduce (concat (replicate n [Flush, Flush, Settle 0 e])) s0 = (s, m) \<and> deps s \<and> pending m = [] \<and>
      \<not> hasCleanup m \<and> \<not> gone m \<and> lastDeps m \<noteq> Some True \<and> runs m = 2 * n" for n
  proof (induction n)
    case 0
    then show ?case using assms(1,3) deps_simps(3) by (simp add: hookRun_def mount_def)
  next
    case (Suc n)
    then obtain s m where sm: "hookRun eff deps reduce (concat (replicate n [Flush, Flush, Settle 0 e])) s0 = (s, m)" "deps s"
        "pending m = []" "\<not> hasCleanup m" "\<not> gone m" "lastDeps m \<noteq> Some True" "runs m = 2 * n" by blast
    have "concat (replicate (Suc n) xs) = concat (replicate n xs) @ xs" for xs :: "('s, 'e) hook_event list"
      by (subst replicate_Suc, subst replicate_append_same [symmetric]) simp
    then have "hookRun eff deps reduce (concat (replicate (Suc n) [Flush, Flush, Settle 0 e])) s0 =
        foldl (hookStep eff deps reduce) (s, m) [Flush, Flush, Settle 0 e]"
      using sm(1) unfolding hookRun_def by (metis foldl_append)
    then show ?case using round_fails [OF assms(1,2) sm(2-6)] sm(7) by auto
  qed
  obtain s' m' where r: "hookRun eff deps reduce (concat (replicate n [Flush, Flush, Settle 0 e])) s0 = (s', m')" "deps s'" "pending m' = []"
      "\<not> hasCleanup m'" "\<not> gone m'" "lastDeps m' \<noteq> Some True" "runs m' = 2 * n" using * by blast
  have "hookStep eff deps reduce (s', m') Flush = (s, m)" using assms(4) r(1) by (simp add: hookRun_def)
  then show ?thesis using r by (auto simp: flush_def Let_def eff_def askOnce_def asked cleanup_def)
qed

end

interpretation solana_list: kept_list solanaTokenMap "tokenReducer now" True resolve FetchSolanaTokenMap ReceiveSolanaTokenMap
    "ErrorSolanaTokenMap ''Failed to retrieve the Solana token map.''" now "''Failed to retrieve the Solana token map.''" for resolve now
  by unfold_locales simp_all

interpretation terra_list: kept_list terraTokenMap "tokenReducer now" fire get FetchTerraTokenMap ReceiveTerraTokenMap
    "ErrorTerraTokenMap ''Failed to retrieve the Terra Token List.''" now "''Failed to retrieve the Terra Token List.''" for fire get now
  by unfold_locales simp_all

interpretation markets_list: kept_list marketsMap "tokenReducer now" fire get FetchMarketsMap ReceiveMarketsMap
    "ErrorMarketsMap ''Failed to retrieve the Terra Token List.''" now "''Failed to retrieve the Terra Token List.''" for fire get now
  by unfold_locales simp_all

section \<open>Properties\<close>

lemma token_list_eff:
  "solana_list.eff resolve = useSolanaTokenMap resolve" "solana_list.deps = useSolanaTokenMap_deps"
  "terra_list.eff get = useTerraTokenMap get" "terra_list.deps fire = useTerraTokenMap_deps fire"
  "markets_list.eff get' = useMarketsMap get'" "markets_list.deps fire = useMarketsMap_deps fire"
  by (simp_all add: fun_eq_iff solana_list.eff_def solana_list.deps_def useSolanaTokenMap_def useSolanaTokenMap_deps_def
      terra_list.eff_def terra_list.deps_def useTerraTokenMap_def useTerraTokenMap_deps_def
      markets_list.eff_def markets_list.deps_def useMarketsMap_def useMarketsMap_deps_def)

text \<open>while the list of Solana's tokens cannot be had, the hook asks for it again as soon as the last attempt has failed, with no
  limit and no pause; the error is in the store only until then.\<close>

theorem token_list_retries:
  assumes "resolve e = Inl err"
    and "hookRun (useSolanaTokenMap resolve) useSolanaTokenMap_deps (tokenReducer now)
      (concat (replicate n [Flush, Flush, Settle 0 e]) @ [Flush]) token_initialState = (s, m)"
  shows "solanaTokenMap s = fetchDataWrapper \<and> runs m = 2 * n + 1 \<and> length (pending m) = 1"
  using solana_list.asks_again [where resolve = resolve and e = e and now = now and n = n and s = s and m = m, unfolded token_list_eff, OF _ assms(1) _ assms(2)]
  by (simp add: token_initialState_def)

text \<open>the hook of the Terra list has at most one question open, the list is marked as being fetched exactly while it has, and a
  list that has come is not asked for again.\<close>

theorem terra_list_once:
  assumes "\<forall>ev\<in>set evs. ev = Flush \<or> (\<exists>k e. ev = Settle k e)"
    and "hookRun (useTerraTokenMap get) (useTerraTokenMap_deps fire) (tokenReducer now) evs token_initialState = (s, m)"
  shows "length (pending m) = (if isFetching (terraTokenMap s) then 1 else 0) \<and> (data (terraTokenMap s) \<noteq> None \<longrightarrow> pending m = [])"
  by (rule terra_list.one_open [where fire = fire and get = get and now = now, unfolded token_list_eff, OF assms(1) _ assms(2)])
    (simp add: token_initialState_def)

lemma dom_fold_upd: "dom (foldl (\<lambda>m a. m(a \<mapsto> f a)) m xs) = dom m \<union> set xs"
  by (induction xs arbitrary: m) auto

lemma fold_upd_apply: "foldl (\<lambda>m a. m(a \<mapsto> f a)) m xs a = (if a \<in> set xs then Some (f a) else m a)"
  by (induction xs arbitrary: m) auto

lemma collect_simps: "dom (collect f addresses) = set addresses" "a \<in> set addresses \<Longrightarrow> collect f addresses a = Some (f a)"
  by (simp_all add: collect_def dom_fold_upd fold_upd_apply)

text \<open>on the chains of the bridge there is an entry for exactly the addresses that were asked for, at any time, also while
  nothing has been answered yet and when every question has failed.\<close>

theorem useMetadata_total:
  assumes "chainId = CHAIN_ID_SOLANA \<or> chainId = CHAIN_ID_TERRA \<or> isEVMChain chainId"
  shows "\<exists>m. gm_data (useMetadata chainId addresses H) = Some m \<and> dom m = set addresses"
  using assms
  by (auto simp: useMetadata_def constructSolanaMetadata_def constructTerraMetadata_def constructEthMetadata_def collect_simps)

text \<open>while the Metaplex accounts are being fetched, the metadata of a Solana token count as failed; once that has failed they
  count as failed only if the token list has failed too.\<close>

theorem metaplex_error_flag:
  assumes "useMetaplexData E decodeMetadata d = Inr r" "whenAnswered r = Some f"
    and "getMetaplexData E decodeMetadata (tk_accountData now) (snd d) = Inl e"
  shows "gm_failed (useMetadata CHAIN_ID_SOLANA addresses (H\<lparr>mh_metaplex := foldl lookupReduce l (atOnce r)\<rparr>)) \<and>
    (gm_failed (useMetadata CHAIN_ID_SOLANA addresses (H\<lparr>mh_metaplex := foldl lookupReduce l (f now)\<rparr>)) \<longleftrightarrow>
       truthy (dw_error (mh_tokenMap H)))"
  using assms by (auto simp: useMetadata_def constructSolanaMetadata_def useMetaplexData_def split: prod.splits)

lemma truncate_ti_symbol [simp]: "ti_symbol (sol_token_info.truncate i) = ti_symbol i"
  by (simp add: sol_token_info.defs)

text \<open>when the list of tokens and Metaplex both have a symbol of a token, the page shows that of Metaplex and the picker that of
  the list.\<close>

theorem symbol_of_two:
  assumes "data (mh_tokenMap H) = Some entries" "find (\<lambda>x. te_address x = mintKey a) entries = Some i" "truthy (ti_symbol i)"
    and "lk_data (mh_metaplex H) = Some mm" "mm (mintKey a) = Some (Some x)" "truthy (mx_symbol x)"
    and "sp_tokenMap P (mintKey a) = Some (sol_token_info.truncate i)" "isNativeAsset a \<noteq> Some True" "mintKey a \<in> set addresses"
  shows "\<exists>m t. gm_data (useMetadata CHAIN_ID_SOLANA addresses H) = Some m \<and> m (mintKey a) = Some t \<and>
    tm_symbol t = mx_symbol x \<and> getSymbol P a = ti_symbol i"
  using assms
  by (simp add: useMetadata_def constructSolanaMetadata_def collect_simps solana_meta_def getSymbol_def Let_def)

interpretation evm_metadata: cancelling useEvmMetadata
  by unfold_locales (auto simp: useEvmMetadata_def split: if_splits)

interpretation terra_metadata: cancelling useTerraMetadata
  by unfold_locales (auto simp: useTerraMetadata_def split: if_splits prod.splits)

interpretation metaplex_metadata: cancelling "useMetaplexData E decodeMetadata" for E decodeMetadata
  by unfold_locales (auto simp: useMetaplexData_def split: prod.splits)

text \<open>when the wallet leaves its chain while the contracts of the tokens are being asked, their answer is not heard and the
  metadata stay marked as being fetched.\<close>

theorem evm_metadata_stuck:
  assumes "em_addresses d \<noteq> []" "em_hasProvider d" "em_isReady d" "isEVMChain (em_chainId d)"
    and "hookRun useEvmMetadata fst (\<lambda>(d, l) a. (d, lookupReduce l a))
      [Flush, Outside (\<lambda>(d, l). (d\<lparr>em_isReady := False\<rparr>, l)), Flush, Settle 0 now] (d, l) = ((d', l'), m)"
  shows "lk_isFetching l' \<and> pending m = [] \<and> (\<forall>addresses. isEVMChain c \<longrightarrow> gm_isFetching (useMetadata c addresses (H\<lparr>mh_evm := l'\<rparr>)))"
proof -
  have "d \<noteq> d\<lparr>em_isReady := False\<rparr>" using assms(3) by (cases d) auto
  then have "l' = foldl lookupReduce l [SetIsFetching True, SetLookupError '''', SetData None] \<and> pending m = []"
    using assms by (auto simp: hook_defs useEvmMetadata_def Let_def)
  then show ?thesis by (auto simp: useMetadata_def constructEthMetadata_def isEVMChain_def chain_ids)
qed

definition evm_asks :: "evm_metadata_deps \<Rightarrow> bool" where
  "evm_asks d \<longleftrightarrow> em_addresses d \<noteq> [] \<and> em_hasProvider d \<and> em_isReady d \<and> isEVMChain (em_chainId d)"

definition evm_answered :: "evm_metadata_deps \<times> (string \<rightharpoonup> token_meta) lookup_state \<Rightarrow> evm_metadata_deps \<Rightarrow> bool" where
  "evm_answered s d \<longleftrightarrow> evm_asks d \<longrightarrow>
     (\<exists>now :: evm_views. lk_data (snd s) = Some (fetchEthMetadata (ev_token now) (em_addresses d)) \<and> \<not> lk_isFetching (snd s))"

text \<open>once no answer is outstanding that would be heard, the metadata of the EVM hook are those that the contracts of its last
  addresses have given, whatever was asked before.\<close>

theorem evm_metadata_last:
  assumes "hookRun useEvmMetadata fst (\<lambda>(d, l) a. (d, lookupReduce l a)) evs s0 = ((d', l), m)"
    and "\<And>f s. Outside f \<in> set evs \<Longrightarrow> snd (f s) = snd s"
    and "\<not> gone m" "\<forall>p\<in>set (pending m). cancelled p" "lastDeps m = Some d"
    and "evm_asks d"
  shows "\<exists>now :: evm_views. lk_data l = Some (fetchEthMetadata (ev_token now) (em_addresses d)) \<and> \<not> lk_isFetching l"
proof -
  have "evm_answered (d', l) d"
  proof (rule evm_metadata.run_settled [where holds = evm_answered, OF _ _ _ assms(1,3,4,5)])
    fix s :: "evm_metadata_deps \<times> (string \<rightharpoonup> token_meta) lookup_state" and d r f e
    assume "useEvmMetadata d = Inr r" "whenAnswered r = Some f"
    then show "evm_answered (foldl (\<lambda>(d, l) a. (d, lookupReduce l a)) s (f e)) d"
      by (cases s) (auto simp: useEvmMetadata_def evm_answered_def split: if_splits intro!: exI [of _ e])
  qed (auto simp: useEvmMetadata_def evm_answered_def evm_asks_def assms(2) split: if_splits)
  then show ?thesis using assms by (simp add: evm_answered_def)
qed

section \<open>Witnesses\<close>

definition demo_refused :: "unit \<Rightarrow> unit result" where
  "demo_refused e = Inl (Foreign ''network'')"

theorem token_list_retries_witness:
  "isFetching (solanaTokenMap (fst (hookRun (useSolanaTokenMap demo_refused) useSolanaTokenMap_deps (tokenReducer ''now'')
     (concat (replicate 3 [Flush, Flush, Settle 0 ()]) @ [Flush]) (token_initialState :: (unit, unit, unit) token_metadata_state))))"
proof -
  obtain s m where sm: "hookRun (useSolanaTokenMap demo_refused) useSolanaTokenMap_deps (tokenReducer ''now'')
      (concat (replicate 3 [Flush, Flush, Settle 0 ()]) @ [Flush]) (token_initialState :: (unit, unit, unit) token_metadata_state) = (s, m)"
    by fastforce
  show ?thesis
    using token_list_retries [OF _ sm] unfolding sm by (simp add: demo_refused_def fetchDataWrapper_def)
qed

theorem terra_list_once_witness:
  "data (terraTokenMap (fst (hookRun (useTerraTokenMap Inr) (useTerraTokenMap_deps True) (tokenReducer ''now'')
     [Flush, Settle 0 (), Flush] (token_initialState :: (unit, unit, unit) token_metadata_state)))) = Some () \<and>
   pending (snd (hookRun (useTerraTokenMap Inr) (useTerraTokenMap_deps True) (tokenReducer ''now'')
     [Flush, Settle 0 (), Flush] (token_initialState :: (unit, unit, unit) token_metadata_state))) = []"
proof -
  let ?evs = "[Flush, Settle 0 (), Flush] :: ((unit, unit, unit) token_metadata_state, unit) hook_event list"
  obtain s m where sm: "hookRun (useTerraTokenMap Inr) (useTerraTokenMap_deps True) (tokenReducer ''now'') ?evs token_initialState = (s, m)"
    by fastforce
  have "data (terraTokenMap s) = Some ()"
    using sm by (auto simp: hook_defs useTerraTokenMap_def useTerraTokenMap_deps_def askOnce_def noEffect_def shouldFire_def wrapper_defs
        token_initialState_def)
  then show ?thesis using terra_list_once [OF _ sm] unfolding sm by simp
qed

definition demo_hooks :: metadata_hooks where
  "demo_hooks = \<lparr>mh_tokenMap = receiveDataWrapper ''now''
       [\<lparr>ti_logoURI = None, ti_symbol = Some ''USDC'', ti_name = None, te_address = ''mint'', te_decimals = 6\<rparr>],
     mh_terraMap = getEmptyDataWrapper,
     mh_metaplex = lookup_initial\<lparr>lk_data := Some [''mint'' \<mapsto> Some \<lparr>mx_uri = None, mx_symbol = Some ''usdc'', mx_name = None\<rparr>]\<rparr>,
     mh_terra = lookup_initial, mh_evm = lookup_initial\<rparr>"

theorem useMetadata_total_witness:
  "\<exists>m. gm_data (useMetadata CHAIN_ID_BSC [''a'', ''b''] demo_hooks) = Some m \<and> dom m = {''a'', ''b''}"
  using useMetadata_total [of CHAIN_ID_BSC "[''a'', ''b'']" demo_hooks] by (simp add: isEVMChain_def)

theorem symbol_of_two_witness:
  "\<exists>m t. gm_data (useMetadata CHAIN_ID_SOLANA [''mint''] demo_hooks) = Some m \<and> m ''mint'' = Some t \<and> tm_symbol t = Some ''usdc'' \<and>
     getSymbol (demo_sol_picker\<lparr>sp_tokenMap := [''mint'' \<mapsto> \<lparr>ti_logoURI = None, ti_symbol = Some ''USDC'', ti_name = None\<rparr>]\<rparr>)
       (demo_option ''mint'' ''1'') = Some ''USDC''"
proof -
  let ?i = "\<lparr>ti_logoURI = None, ti_symbol = Some ''USDC'', ti_name = None, te_address = ''mint'', te_decimals = 6\<rparr> :: token_list_entry"
  let ?mx = "\<lparr>mx_uri = None, mx_symbol = Some ''usdc'', mx_name = None\<rparr> :: metaplex_data"
  let ?P = "demo_sol_picker\<lparr>sp_tokenMap := [''mint'' \<mapsto> \<lparr>ti_logoURI = None, ti_symbol = Some ''USDC'', ti_name = None\<rparr>]\<rparr>"
  have "\<exists>m t. gm_data (useMetadata CHAIN_ID_SOLANA [''mint''] demo_hooks) = Some m \<and> m (mintKey (demo_option ''mint'' ''1'')) = Some t \<and>
      tm_symbol t = mx_symbol ?mx \<and> getSymbol ?P (demo_option ''mint'' ''1'') = ti_symbol ?i"
    by (rule symbol_of_two [where entries = "[?i]" and mm = "[''mint'' \<mapsto> Some ?mx]"])
      (simp_all add: demo_hooks_def receiveDataWrapper_def lookup_initial_def demo_option_def sol_token_info.defs)
  then show ?thesis by (simp add: demo_option_def)
qed

theorem metaplex_error_flag_witness:
  "\<exists>l :: (string \<rightharpoonup> metaplex_data option) lookup_state. lk_error l = ''Failed to fetch Metaplex data.'' \<and>
     \<not> gm_failed (useMetadata CHAIN_ID_SOLANA [''mint''] (demo_hooks\<lparr>mh_metaplex := l\<rparr>))"
proof -
  let ?now = "\<lparr>tk_ownerAccounts = (\<lambda>k. Inr []), tk_lamports = (\<lambda>ks. Inr []), tk_accountData = (\<lambda>ks. Inl (Foreign ''network'')),
    tk_getBalance = (\<lambda>n a. Inr 0), tk_get = (\<lambda>u. Inr None)\<rparr> :: string token_nets"
  let ?d = "(0, [''mint'']) :: nat \<times> string list"
  let ?decode = "\<lambda>b :: bytes. Inl (Foreign ''not decoded'') :: (string \<times> metaplex_data) result"
  obtain r f where r: "useMetaplexData demo_outside ?decode ?d = Inr r" "whenAnswered r = Some f"
    by (simp add: useMetaplexData_def)
  obtain e where e: "getMetaplexData demo_outside ?decode (tk_accountData ?now) (snd ?d) = Inl e"
    by (cases "getMetadataAddress demo_outside ''mint''")
      (auto simp: getMetaplexData_def mapR_def getMultipleAccounts_def solana_chunks_def)
  have "lk_error (foldl lookupReduce lookup_initial (f ?now)) = ''Failed to fetch Metaplex data.''"
    using r e by (auto simp: useMetaplexData_def)
  moreover have "\<not> truthy (dw_error (mh_tokenMap demo_hooks))" by (simp add: demo_hooks_def receiveDataWrapper_def)
  ultimately show ?thesis
    using metaplex_error_flag [OF r e, where addresses = "[''mint'']" and H = demo_hooks and l = lookup_initial] by blast
qed

definition demo_evm_deps :: evm_metadata_deps where
  "demo_evm_deps = \<lparr>em_identity = 0, em_addresses = [''0x0a''], em_hasProvider = True, em_isReady = True, em_chainId = CHAIN_ID_ETH\<rparr>"

theorem evm_metadata_stuck_witness:
  "lk_isFetching (snd (fst (hookRun useEvmMetadata fst (\<lambda>(d, l) a. (d, lookupReduce l a))
     [Flush, Outside (\<lambda>(d, l). (d\<lparr>em_isReady := False\<rparr>, l)), Flush, Settle 0 (demo_evm_views False)] (demo_evm_deps, lookup_initial))))"
proof -
  obtain d' l' m where r: "hookRun useEvmMetadata fst (\<lambda>(d, l) a. (d, lookupReduce l a))
      [Flush, Outside (\<lambda>(d, l). (d\<lparr>em_isReady := False\<rparr>, l)), Flush, Settle 0 (demo_evm_views False)] (demo_evm_deps, lookup_initial) =
      ((d', l'), m)"
    by (metis surj_pair)
  show ?thesis
    using evm_metadata_stuck [OF _ _ _ _ r] unfolding r by (simp add: demo_evm_deps_def isEVMChain_def chain_ids)
qed

theorem evm_metadata_last_witness:
  "\<exists>now :: evm_views. lk_data (snd (fst (hookRun useEvmMetadata fst (\<lambda>(d, l) a. (d, lookupReduce l a)) [Flush, Settle 0 (demo_evm_views False)]
     (demo_evm_deps, lookup_initial)))) = Some (fetchEthMetadata (ev_token now) [''0x0a''])"
proof -
  let ?evs = "[Flush, Settle 0 (demo_evm_views False)] :: (evm_metadata_deps \<times> (string \<rightharpoonup> token_meta) lookup_state, evm_views) hook_event list"
  obtain d' l m where r: "hookRun useEvmMetadata fst (\<lambda>(d, l) a. (d, lookupReduce l a)) ?evs (demo_evm_deps, lookup_initial) = ((d', l), m)"
    by (metis surj_pair)
  have asks: "evm_asks demo_evm_deps" by (simp add: evm_asks_def demo_evm_deps_def isEVMChain_def chain_ids)
  then have "\<not> gone m \<and> pending m = [] \<and> lastDeps m = Some demo_evm_deps"
    using r by (auto simp: hook_defs useEvmMetadata_def Let_def evm_asks_def)
  then show ?thesis
    using evm_metadata_last [OF r _ _ _ _ asks] unfolding r by (simp add: demo_evm_deps_def)
qed

end
