(* ===== verification/GovernanceVaa.thy ===== *)
theory GovernanceVaa
  imports Ethereum Inputs
begin

text \<open>
  Governance VAAs made by the tools of a development network: \<open>clients/token_bridge/main.ts\<close> and
  \<open>clients/nft_bridge/main.ts\<close>, which join hexadecimal texts, and \<open>alephium/devnet/gen_register_vaa.ts\<close>, which writes into
  buffers of Node. The specification is a reader of VAAs, as the contracts read them. Keccak, the elliptic curve and
  ethers are parameters.
\<close>

section \<open>Reading a VAA\<close>

text \<open>The format that the core bridges parse: a header, signatures of 66 bytes (index, \<open>r\<close>, \<open>s\<close>, \<open>v\<close>), the body that is
  signed.\<close>

record vm_signature =
  vs_index :: nat
  vs_r :: nat
  vs_s :: nat
  vs_v :: nat

record vm =
  vm_version :: nat
  vm_guardianSetIndex :: nat
  vm_signatures :: "vm_signature list"
  vm_vaa :: parsed_vaa

definition readSignature :: "bytes \<Rightarrow> vm_signature" where
  "readSignature bs = \<lparr>vs_index = be_nat (take 1 bs), vs_r = be_nat (take 32 (drop 1 bs)), vs_s = be_nat (take 32 (drop 33 bs)),
     vs_v = be_nat (drop 65 bs)\<rparr>"

fun readSignatures :: "nat \<Rightarrow> bytes \<Rightarrow> (vm_signature list \<times> bytes) option" where
  "readSignatures 0 bs = Some ([], bs)"
| "readSignatures (Suc n) bs =
     (if length bs < 66 then None
      else map_option (\<lambda>(ss, rest). (readSignature (take 66 bs) # ss, rest)) (readSignatures n (drop 66 bs)))"

definition readBody :: "bytes \<Rightarrow> parsed_vaa option" where
  "readBody bs =
     (if length bs < 51 then None
      else Some \<lparr>vaa_timestamp = be_nat (take 4 bs), vaa_nonce = be_nat (take 4 (drop 4 bs)),
        vaa_emitter_chain = be_nat (take 2 (drop 8 bs)), vaa_emitter_address = take 32 (drop 10 bs),
        vaa_sequence = be_nat (take 8 (drop 42 bs)), vaa_consistency_level = be_nat (take 1 (drop 50 bs)), vaa_payload = drop 51 bs\<rparr>)"

definition readVM :: "bytes \<Rightarrow> vm option" where
  "readVM bs =
     (if length bs < 6 then None
      else Option.bind (readSignatures (be_nat (take 1 (drop 5 bs))) (drop 6 bs)) (\<lambda>(ss, rest).
        map_option (\<lambda>v. \<lparr>vm_version = be_nat (take 1 bs), vm_guardianSetIndex = be_nat (take 4 (drop 1 bs)), vm_signatures = ss,
          vm_vaa = v\<rparr>) (readBody rest)))"

text \<open>A token bridge's governance payload: module, action, the chain it is for, and for action 1 a chain with the address of
  its bridge.\<close>

definition registerPayload :: "bytes \<Rightarrow> nat \<Rightarrow> bytes \<Rightarrow> bytes" where
  "registerPayload md chain address = md @ [1] @ be_bytes 2 0 @ be_bytes 2 chain @ address"

definition upgradePayload :: "bytes \<Rightarrow> nat \<Rightarrow> bytes \<Rightarrow> bytes" where
  "upgradePayload md chain address = md @ [2] @ be_bytes 2 chain @ address"

section \<open>Signatures\<close>

text \<open>\<open>elliptic\<close> signs a number; it takes it as a buffer or as hexadecimal digits.\<close>

record ec_signature =
  ec_r :: nat
  ec_s :: nat
  ec_recoveryParam :: nat

record elliptic =
  ec_sign :: "string \<Rightarrow> bytes \<Rightarrow> ec_signature result"
  ec_signHex :: "string \<Rightarrow> string \<Rightarrow> ec_signature result"

text \<open>ethers encodes \<open>bytes32\<close> from a text of hexadecimal digits.\<close>

record abi_text = abi +
  encodeBytes32S :: "string \<Rightarrow> string result"

section \<open>The clients of the bridges\<close>

text \<open>\<open>while (value.length < 2 * length) value = "0" + value\<close>\<close>

function zeroPadBytes :: "string \<Rightarrow> nat \<Rightarrow> string" where
  "zeroPadBytes value n = (if length value < 2 * n then zeroPadBytes (CHR ''0'' # value) n else value)"
  by auto
termination by (relation "measure (\<lambda>(value, n). 2 * n - length value)") auto

declare zeroPadBytes.simps [simp del]

definition packSig :: "abi_text \<Rightarrow> nat \<Rightarrow> ec_signature \<Rightarrow> string result" where
  "packSig A i signature =
     mapR concat (sequenceR [
       mapR (drop (2 + (64 - 2))) (encodeUint A 8 i),
       Inr (zeroPadBytes (nat_to_hex (ec_r signature)) 32),
       Inr (zeroPadBytes (nat_to_hex (ec_s signature)) 32),
       mapR (drop (2 + (64 - 2))) (encodeUint A 8 (ec_recoveryParam signature))])"

definition signAndEncodeVM :: "abi_text \<Rightarrow> elliptic \<Rightarrow> nat \<Rightarrow> nat \<Rightarrow> nat \<Rightarrow> string \<Rightarrow> nat \<Rightarrow> string \<Rightarrow> string list \<Rightarrow> nat \<Rightarrow> nat \<Rightarrow>
    string result" where
  "signAndEncodeVM A EC timestamp nonce emitterChainId emitterAddress sequence payload signers guardianSetIndex consistencyLevel =
     bindR (sequenceR [
       mapR (drop (2 + (64 - 8))) (encodeUint A 32 timestamp),
       mapR (drop (2 + (64 - 8))) (encodeUint A 32 nonce),
       mapR (drop (2 + (64 - 4))) (encodeUint A 16 emitterChainId),
       mapR (drop 2) (encodeBytes32S A emitterAddress),
       mapR (drop (2 + (64 - 16))) (encodeUint A 64 sequence),
       mapR (drop (2 + (64 - 2))) (encodeUint A 8 consistencyLevel),
       Inr (drop 2 payload)]) (\<lambda>body.
     bindR (bindR (solidityKeccak256 A (''0x'' @ concat body)) (solidityKeccak256 A)) (\<lambda>hash.
     bindR (sequenceR (map (\<lambda>(i, signer). bindR (ec_sign EC signer (fromHex (drop 2 hash))) (packSig A i))
         (enumerate 0 signers))) (\<lambda>sigs.
     mapR concat (sequenceR [
       mapR (drop (2 + (64 - 2))) (encodeUint A 8 1),
       mapR (drop (2 + (64 - 8))) (encodeUint A 32 guardianSetIndex),
       mapR (drop (2 + (64 - 2))) (encodeUint A 8 (length signers)),
       Inr (concat sigs),
       Inr (concat body)]))))"

definition governanceEmitter :: string where
  "governanceEmitter = ''0x0000000000000000000000000000000000000000000000000000000000000004''"

definition TOKEN_BRIDGE_MODULE :: string where
  "TOKEN_BRIDGE_MODULE = ''000000000000000000000000000000000000000000546f6b656e427269646765''"

definition NFT_BRIDGE_MODULE :: string where
  "NFT_BRIDGE_MODULE = ''00000000000000000000000000000000000000000000004e4654427269646765''"

text \<open>The commands. The sequence number is \<open>Math.floor(Math.random() * 100000000)\<close>.\<close>

definition generate_register_chain_vaa :: "abi_text \<Rightarrow> elliptic \<Rightarrow> rat \<Rightarrow> nat \<Rightarrow> string \<Rightarrow> string \<Rightarrow> string result" where
  "generate_register_chain_vaa A EC rand chain_id contract_address guardian_secret =
     bindR (mapR concat (sequenceR [Inr ''0x'', Inr TOKEN_BRIDGE_MODULE, Inr ''01'', Inr ''0000'',
       mapR (drop (2 + (64 - 4))) (encodeUint A 16 chain_id),
       mapR (drop 2) (encodeBytes32S A contract_address)])) (\<lambda>payload.
     signAndEncodeVM A EC 1 1 1 governanceEmitter (nat \<lfloor>rand * 100000000\<rfloor>) payload [guardian_secret] 0 0)"

definition generate_upgrade_chain_vaa :: "abi_text \<Rightarrow> elliptic \<Rightarrow> rat \<Rightarrow> nat \<Rightarrow> string \<Rightarrow> string \<Rightarrow> string result" where
  "generate_upgrade_chain_vaa A EC rand chain_id contract_address guardian_secret =
     bindR (mapR concat (sequenceR [Inr ''0x'', Inr TOKEN_BRIDGE_MODULE, Inr ''02'',
       mapR (drop (2 + (64 - 4))) (encodeUint A 16 chain_id),
       mapR (drop 2) (encodeBytes32S A contract_address)])) (\<lambda>payload.
     signAndEncodeVM A EC 1 1 1 governanceEmitter (nat \<lfloor>rand * 100000000\<rfloor>) payload [guardian_secret] 0 0)"

definition devnetGuardian :: string where
  "devnetGuardian = ''cfb12303a19cde580bb4dd771639b0d26bc68353645571a8cff516ab2ee113a0''"

definition nft_generate_register_chain_vaa :: "abi_text \<Rightarrow> elliptic \<Rightarrow> rat \<Rightarrow> nat \<Rightarrow> string \<Rightarrow> string result" where
  "nft_generate_register_chain_vaa A EC rand chain_id contract_address =
     bindR (mapR concat (sequenceR [Inr ''0x'', Inr NFT_BRIDGE_MODULE, Inr ''01'', Inr ''0000'',
       mapR (drop (2 + (64 - 4))) (encodeUint A 16 chain_id),
       mapR (drop 2) (encodeBytes32S A contract_address)])) (\<lambda>payload.
     signAndEncodeVM A EC 1 1 1 governanceEmitter (nat \<lfloor>rand * 100000000\<rfloor>) payload [devnetGuardian] 0 0)"

section \<open>The tool of the Alephium network\<close>

text \<open>\<open>alephium/lib/utils.ts\<close>; its \<open>toHex\<close> is that of \<open>Bytes\<close>.\<close>

definition zeroPad_text :: "string \<Rightarrow> nat \<Rightarrow> string" where
  "zeroPad_text value n =
     (let expectedLength = 2 * n in
      if length value < expectedLength then replicate (expectedLength - length value) (CHR ''0'') @ value else value)"

text \<open>Buffers: \<open>Buffer.allocUnsafe\<close> returns whatever was in memory. \<open>write(text, at, 'hex')\<close> writes the bytes of the text as far
  as they are hexadecimal and as they fit. A number that does not fit throws; NaN (\<open>None\<close>) is written as 0.\<close>

definition bufWrite :: "bytes \<Rightarrow> bytes \<Rightarrow> nat \<Rightarrow> bytes" where
  "bufWrite buf bs off = (let w = take (length buf - off) bs in take off buf @ w @ drop (off + length w) buf)"

definition writeHex :: "bytes \<Rightarrow> string \<Rightarrow> nat \<Rightarrow> bytes" where
  "writeHex buf s off = bufWrite buf (fromHex s) off"

definition writeUIntBE :: "nat \<Rightarrow> bytes \<Rightarrow> int option \<Rightarrow> nat \<Rightarrow> bytes result" where
  "writeUIntBE w buf v off =
     (let n = (case v of None \<Rightarrow> 0 | Some n \<Rightarrow> n) in
      if n < 0 \<or> 256 ^ w \<le> n \<or> length buf < off + w then Inl (RangeError ''ERR_OUT_OF_RANGE'')
      else Inr (bufWrite buf (be_bytes w (nat n)) off))"

definition signHash :: "elliptic \<Rightarrow> string \<Rightarrow> string \<Rightarrow> string result" where
  "signHash EC privateKey message =
     mapR (\<lambda>sig. zeroPad_text (nat_to_hex (ec_r sig)) 32 @ zeroPad_text (nat_to_hex (ec_s sig)) 32 @
         zeroPad_text (nat_to_hex (ec_recoveryParam sig)) 1)
       (ec_signHex EC privateKey message)"

text \<open>What \<open>registerTo\<close> has from elsewhere: the curve, web3's Keccak, and the three pieces of memory.\<close>

record register_env =
  re_elliptic :: elliptic
  re_keccak256 :: "string \<Rightarrow> string result"
  re_allocUnsafe :: "nat \<Rightarrow> bytes"

definition registerTo :: "register_env \<Rightarrow> int option \<Rightarrow> int option \<Rightarrow> string \<Rightarrow> string result" where
  "registerTo R sourceChainId targetChainId tokenBridgeAddress =
     (let registerChain = writeHex (re_allocUnsafe R 69) TOKEN_BRIDGE_MODULE 0 in
      bindR (writeUIntBE 1 registerChain (Some 1) 32) (\<lambda>registerChain.
      bindR (writeUIntBE 2 registerChain (Some 0) 33) (\<lambda>registerChain.
      bindR (writeUIntBE 2 registerChain sourceChainId 35) (\<lambda>registerChain.
      let registerChain = writeHex registerChain tokenBridgeAddress 37 in
      bindR (writeUIntBE 4 (re_allocUnsafe R 51) (Some 1) 0) (\<lambda>bodyHeader.
      let bodyHeader = writeHex bodyHeader ''00000001'' 4 in
      bindR (writeUIntBE 2 bodyHeader (Some 1) 8) (\<lambda>bodyHeader.
      let bodyHeader = writeHex bodyHeader (drop 2 governanceEmitter) 10 in
      bindR (writeUIntBE 8 bodyHeader (Some 0) 42) (\<lambda>bodyHeader.
      bindR (writeUIntBE 1 bodyHeader (Some 0) 50) (\<lambda>bodyHeader.
      let body = bodyHeader @ registerChain in
      bindR (bindR (re_keccak256 R (''0x'' @ toHex body)) (re_keccak256 R)) (\<lambda>hash.
      bindR (signHash (re_elliptic R) devnetGuardian (drop 2 hash)) (\<lambda>signature.
      bindR (writeUIntBE 1 (re_allocUnsafe R 72) (Some 1) 0) (\<lambda>vaaHeader.
      bindR (writeUIntBE 4 vaaHeader (Some 0) 1) (\<lambda>vaaHeader.
      bindR (writeUIntBE 1 vaaHeader (Some 1) 5) (\<lambda>vaaHeader.
      bindR (writeUIntBE 1 vaaHeader (Some 0) 6) (\<lambda>vaaHeader.
      let vaaHeader = writeHex vaaHeader signature 7 in
      Inr (toHex (vaaHeader @ body))))))))))))))))"

text \<open>\<open>parseInt\<close>.\<close>

definition parseInt :: "string \<Rightarrow> int option" where
  "parseInt s =
     (case signOf (trimStart s) of (pm, s) \<Rightarrow>
        if take 2 s \<in> {''0x'', ''0X''}
        then (let ds = takeWhile (\<lambda>c. hexval c \<noteq> None) (drop 2 s) in if ds = [] then None else Some (pm * int (hexnum ds)))
        else (let ds = takeWhile isDigit s in if ds = [] then None else Some (pm * int (undecimal ds))))"

text \<open>The program prints the VAA, or how it is used and ends.\<close>

definition gen_register_vaa :: "register_env \<Rightarrow> (string \<Rightarrow> bytes result) \<Rightarrow> string list \<Rightarrow> string result option" where
  "gen_register_vaa R base58_decode argv =
     (if length argv \<noteq> 5 then None
      else Some (bindR
        (if length (argv ! 4) \<noteq> 64 then mapR (\<lambda>bs. toHex (drop 1 bs)) (base58_decode (argv ! 4)) else Inr (argv ! 4))
        (registerTo R (parseInt (argv ! 2)) (parseInt (argv ! 3)))))"

section \<open>What the encoders write\<close>

lemma byte_hex_of_nat: "byte_hex (of_nat n) = [hex_digit (n div 16 mod 16), hex_digit (n mod 16)]"
proof -
  have "n mod 256 div 16 = n div 16 mod 16" using mod_mult2_eq [of n 16 16] by simp
  moreover have "n mod 256 mod 16 = n mod 16" by (simp add: mod_mod_cancel)
  ultimately show ?thesis by (simp add: byte_hex_digits unat_of_nat_byte)
qed

text \<open>A number in hexadecimal digits, filled up with zeros, is the number big-endian.\<close>

lemma padded_number: "n < 256 ^ k \<Longrightarrow> 0 < k \<Longrightarrow> padStart (2 * k) (CHR ''0'') (nat_to_hex n) = toHex (be_bytes k n)"
proof (induction k arbitrary: n)
  case (Suc k)
  have b: "toHex (be_bytes (Suc k) n) = toHex (be_bytes k (n div 256)) @ [hex_digit (n div 16 mod 16), hex_digit (n mod 16)]"
    by (simp add: byte_hex_of_nat)
  consider "n < 16" | "16 \<le> n" "n < 256" | "256 \<le> n" by linarith
  then show ?case
  proof cases
    case 1
    have "replicate (2 * Suc k - 1) (CHR ''0'') = replicate (2 * k) (CHR ''0'') @ [CHR ''0'']"
      by (simp add: replicate_append_same)
    then show ?thesis using 1 unfolding b
      by (simp add: nat_to_hex_small padStart_def be_bytes_zero toHex_zeros hex_digit_def)
  next
    case 2
    then have "n div 16 < 16" by linarith
    then show ?thesis using 2 unfolding b
      by (simp add: nat_to_hex_big nat_to_hex_small padStart_def be_bytes_zero toHex_zeros)
  next
    case 3
    have k: "0 < k" "n div 256 < 256 ^ k" using Suc.prems(1) 3 less_mult_imp_div_less [of n "256 ^ k" 256]
      by (cases k; simp add: mult.commute)+
    have "n div 16 div 16 = n div 256" by (simp flip: div_mult2_eq)
    then have "nat_to_hex n = nat_to_hex (n div 256) @ [hex_digit (n div 16 mod 16), hex_digit (n mod 16)]"
      using 3 by (simp add: nat_to_hex_big)
    moreover have "padStart (2 * Suc k) c (xs @ [x, y]) = padStart (2 * k) c xs @ [x, y]" for c x y and xs :: string
      by (simp add: padStart_def)
    ultimately show ?thesis using Suc.IH [OF k(2,1)] unfolding b by simp
  qed
qed simp

lemma zeroPadBytes_padStart: "zeroPadBytes v n = padStart (2 * n) (CHR ''0'') v"
proof (induction v n rule: zeroPadBytes.induct)
  case (1 v n)
  show ?case
  proof (cases "length v < 2 * n")
    case True
    then have "replicate (2 * n - length v) (CHR ''0'') = replicate (2 * n - Suc (length v)) (CHR ''0'') @ [CHR ''0'']"
      by (simp add: replicate_append_same Suc_diff_Suc flip: replicate_Suc)
    then show ?thesis using 1 True by (simp add: zeroPadBytes.simps [of v n] padStart_def)
  qed (simp add: zeroPadBytes.simps [of v n] padStart_def)
qed

lemma zeroPad_text_padStart: "zeroPad_text v n = padStart (2 * n) (CHR ''0'') v"
  by (simp add: zeroPad_text_def padStart_def Let_def)

definition sigBytes :: "vm_signature \<Rightarrow> bytes" where
  "sigBytes s = be_bytes 1 (vs_index s) @ be_bytes 32 (vs_r s) @ be_bytes 32 (vs_s s) @ be_bytes 1 (vs_v s)"

definition vmBytes :: "vm \<Rightarrow> bytes" where
  "vmBytes m = be_bytes 1 (vm_version m) @ be_bytes 4 (vm_guardianSetIndex m) @ be_bytes 1 (length (vm_signatures m)) @
     concat (map sigBytes (vm_signatures m)) @ vaa_body (vm_vaa m)"

definition sig_ok :: "vm_signature \<Rightarrow> bool" where
  "sig_ok s \<longleftrightarrow> vs_index s < 256 \<and> vs_r s < 256 ^ 32 \<and> vs_s s < 256 ^ 32 \<and> vs_v s < 256"

definition vm_ok :: "vm \<Rightarrow> bool" where
  "vm_ok m \<longleftrightarrow> vm_version m < 256 \<and> vm_guardianSetIndex m < 2 ^ 32 \<and> length (vm_signatures m) < 256 \<and>
     (\<forall>s\<in>set (vm_signatures m). sig_ok s) \<and> vaa_ok (vm_vaa m)"

lemma length_sigBytes [simp]: "length (sigBytes s) = 66"
  by (simp add: sigBytes_def)

lemma readSignature_sigBytes: "sig_ok s \<Longrightarrow> readSignature (sigBytes s) = s"
  by (simp add: readSignature_def sigBytes_def sig_ok_def del: be_bytes.simps)

lemma readSignatures_sigBytes:
  "\<forall>s\<in>set ss. sig_ok s \<Longrightarrow> readSignatures (length ss) (concat (map sigBytes ss) @ rest) = Some (ss, rest)"
  by (induction ss) (simp_all add: readSignature_sigBytes)

lemma readBody_vaa_body: "vaa_ok v \<Longrightarrow> readBody (vaa_body v) = Some v"
  by (cases v) (simp add: readBody_def vaa_body_def vaa_ok_def del: be_bytes.simps)

lemma readVM_vmBytes: "vm_ok m \<Longrightarrow> readVM (vmBytes m) = Some m"
  by (cases m) (simp add: readVM_def vmBytes_def vm_ok_def readSignatures_sigBytes readBody_vaa_body del: be_bytes.simps)

section \<open>Laws of the libraries\<close>

definition abi_text_laws :: "abi_text \<Rightarrow> bool" where
  "abi_text_laws A \<longleftrightarrow> abi_laws (abi.truncate A) \<and>
     (\<forall>bs. length bs = 32 \<longrightarrow> encodeBytes32S A (''0x'' @ toHex bs) = Inr (''0x'' @ toHex bs))"

text \<open>Keccak of the bytes of a text is \<open>K\<close> of the bytes, again as a text.\<close>

definition keccak_laws :: "(string \<Rightarrow> string result) \<Rightarrow> (bytes \<Rightarrow> bytes) \<Rightarrow> bool" where
  "keccak_laws f K \<longleftrightarrow> (\<forall>bs. f (''0x'' @ toHex bs) = Inr (''0x'' @ toHex (K bs)))"

definition elliptic_laws :: "elliptic \<Rightarrow> bool" where
  "elliptic_laws EC \<longleftrightarrow>
     (\<forall>k h sig. ec_sign EC k h = Inr sig \<longrightarrow> ec_r sig < 256 ^ 32 \<and> ec_s sig < 256 ^ 32 \<and> ec_recoveryParam sig < 4) \<and>
     (\<forall>k h. ec_signHex EC k (toHex h) = ec_sign EC k h)"

definition vmSig :: "nat \<Rightarrow> ec_signature \<Rightarrow> vm_signature" where
  "vmSig i sig = \<lparr>vs_index = i, vs_r = ec_r sig, vs_s = ec_s sig, vs_v = ec_recoveryParam sig\<rparr>"

lemma encodeUint_text:
  assumes "abi_text_laws A" "n < 256 ^ k" "8 * k \<le> 256"
  shows "mapR (drop (2 + (64 - 2 * k))) (encodeUint A (8 * k) n) = Inr (toHex (be_bytes k n))"
  using encodeUint_part [of "abi.truncate A" n k] assms by (simp add: abi_text_laws_def abi.defs)

lemma encodeUint_widths:
  assumes "abi_text_laws A"
  shows "n < 256 \<Longrightarrow> mapR (drop 64) (encodeUint A 8 n) = Inr (toHex (be_bytes 1 n))"
    and "n < 2 ^ 16 \<Longrightarrow> mapR (drop 62) (encodeUint A 16 n) = Inr (toHex (be_bytes 2 n))"
    and "n < 2 ^ 32 \<Longrightarrow> mapR (drop 58) (encodeUint A 32 n) = Inr (toHex (be_bytes 4 n))"
    and "n < 2 ^ 64 \<Longrightarrow> mapR (drop 50) (encodeUint A 64 n) = Inr (toHex (be_bytes 8 n))"
  using encodeUint_text [OF assms, of n 1] encodeUint_text [OF assms, of n 2] encodeUint_text [OF assms, of n 4]
    encodeUint_text [OF assms, of n 8]
  by (simp_all del: be_bytes.simps toHex_simps mapR_eq_Inr)

lemma encodeBytes32_text:
  "abi_text_laws A \<Longrightarrow> length bs = 32 \<Longrightarrow> mapR (drop 2) (encodeBytes32S A (''0x'' @ toHex bs)) = Inr (toHex bs)"
  by (simp add: abi_text_laws_def)

lemma packSig_bytes:
  assumes "abi_text_laws A" "i < 256" "ec_r sig < 256 ^ 32" "ec_s sig < 256 ^ 32" "ec_recoveryParam sig < 4"
  shows "packSig A i sig = Inr (toHex (sigBytes (vmSig i sig)))"
  using assms encodeUint_widths(1) [OF assms(1), of i] encodeUint_widths(1) [OF assms(1), of "ec_recoveryParam sig"]
    padded_number [of _ 32]
  by (simp add: packSig_def zeroPadBytes_padStart sigBytes_def vmSig_def del: be_bytes.simps toHex_simps mapR_eq_Inr)
    (simp del: be_bytes.simps)

lemma packSigs_bytes:
  assumes "abi_text_laws A" "elliptic_laws EC" "list_all2 (\<lambda>k sig. ec_sign EC k h = Inr sig) signers sigs" "i + length signers \<le> 256"
  shows "sequenceR (map (\<lambda>(i, signer). bindR (ec_sign EC signer h) (packSig A i)) (enumerate i signers)) =
    Inr (map (\<lambda>(i, sig). toHex (sigBytes (vmSig i sig))) (enumerate i sigs))"
  using assms(3,4)
proof (induction arbitrary: i rule: list_all2_induct)
  case (Cons k ks sig sigs)
  have "ec_r sig < 256 ^ 32" "ec_s sig < 256 ^ 32" "ec_recoveryParam sig < 4"
    using Cons.hyps(1) assms(2) unfolding elliptic_laws_def by blast+
  then show ?case using Cons packSig_bytes [OF assms(1), of i sig] by simp
qed simp

lemma concat_toHex: "concat (map (\<lambda>x. toHex (f x)) xs) = toHex (concat (map f xs))"
  by (induction xs) simp_all

lemma body_text:
  assumes A: "abi_text_laws A" and v: "vaa_ok v"
  shows "sequenceR [
       mapR (drop (2 + (64 - 8))) (encodeUint A 32 (vaa_timestamp v)),
       mapR (drop (2 + (64 - 8))) (encodeUint A 32 (vaa_nonce v)),
       mapR (drop (2 + (64 - 4))) (encodeUint A 16 (vaa_emitter_chain v)),
       mapR (drop 2) (encodeBytes32S A (''0x'' @ toHex (vaa_emitter_address v))),
       mapR (drop (2 + (64 - 16))) (encodeUint A 64 (vaa_sequence v)),
       mapR (drop (2 + (64 - 2))) (encodeUint A 8 (vaa_consistency_level v)),
       Inr (drop 2 (''0x'' @ toHex (vaa_payload v)))] =
    Inr [toHex (be_bytes 4 (vaa_timestamp v)), toHex (be_bytes 4 (vaa_nonce v)), toHex (be_bytes 2 (vaa_emitter_chain v)),
      toHex (vaa_emitter_address v), toHex (be_bytes 8 (vaa_sequence v)), toHex (be_bytes 1 (vaa_consistency_level v)),
      toHex (vaa_payload v)]"
  using v encodeUint_widths [OF A] encodeBytes32_text [OF A, of "vaa_emitter_address v"]
  by (simp add: vaa_ok_def del: be_bytes.simps toHex_simps mapR_eq_Inr)

definition vmOf :: "nat \<Rightarrow> parsed_vaa \<Rightarrow> ec_signature list \<Rightarrow> vm" where
  "vmOf guardianSetIndex v sigs =
     \<lparr>vm_version = 1, vm_guardianSetIndex = guardianSetIndex, vm_signatures = map (\<lambda>(i, sig). vmSig i sig) (enumerate 0 sigs), vm_vaa = v\<rparr>"

lemma vmOf_ok:
  assumes "vaa_ok v" "guardianSetIndex < 2 ^ 32" "length sigs < 256"
    and "\<forall>sig\<in>set sigs. ec_r sig < 256 ^ 32 \<and> ec_s sig < 256 ^ 32 \<and> ec_recoveryParam sig < 4"
  shows "vm_ok (vmOf guardianSetIndex v sigs)"
proof -
  have "sig_ok (vmSig i sig)" if "(i, sig) \<in> set (enumerate 0 sigs)" for i sig
    using that assms(3,4) by (auto simp: in_set_enumerate_eq sig_ok_def vmSig_def dest!: bspec)
  then show ?thesis using assms by (auto simp: vm_ok_def vmOf_def)
qed

lemma signAndEncodeVM_bytes:
  assumes A: "abi_text_laws A" and K: "keccak_laws (solidityKeccak256 A) K" and EC: "elliptic_laws EC"
    and v: "vaa_ok v" and n: "guardianSetIndex < 2 ^ 32" "length signers < 256"
    and sigs: "list_all2 (\<lambda>k sig. ec_sign EC k (K (K (vaa_body v))) = Inr sig) signers sigs"
  shows "signAndEncodeVM A EC (vaa_timestamp v) (vaa_nonce v) (vaa_emitter_chain v) (''0x'' @ toHex (vaa_emitter_address v))
      (vaa_sequence v) (''0x'' @ toHex (vaa_payload v)) signers guardianSetIndex (vaa_consistency_level v) =
    Inr (toHex (vmBytes (vmOf guardianSetIndex v sigs))) \<and> vm_ok (vmOf guardianSetIndex v sigs)"
proof -
  have len: "length sigs = length signers" using sigs by (simp add: list_all2_lengthD)
  have "ec_r sig < 256 ^ 32 \<and> ec_s sig < 256 ^ 32 \<and> ec_recoveryParam sig < 4" if s: "sig \<in> set sigs" for sig
  proof -
    obtain i where "i < length sigs" "sig = sigs ! i" using s by (auto simp: in_set_conv_nth)
    then have "ec_sign EC (signers ! i) (K (K (vaa_body v))) = Inr sig" using sigs by (auto simp: list_all2_conv_all_nth)
    then show ?thesis using EC unfolding elliptic_laws_def by blast
  qed
  then have ok: "vm_ok (vmOf guardianSetIndex v sigs)" using vmOf_ok [OF v n(1)] n(2) len by simp
  have hash: "bindR (solidityKeccak256 A (''0x'' @ toHex (vaa_body v))) (solidityKeccak256 A) = Inr (''0x'' @ toHex (K (K (vaa_body v))))"
    using K by (simp add: keccak_laws_def)
  have drop0x: "fromHex (drop 2 (''0x'' @ toHex bs)) = bs" for bs by simp
  let ?parts = "[toHex (be_bytes 4 (vaa_timestamp v)), toHex (be_bytes 4 (vaa_nonce v)), toHex (be_bytes 2 (vaa_emitter_chain v)),
      toHex (vaa_emitter_address v), toHex (be_bytes 8 (vaa_sequence v)), toHex (be_bytes 1 (vaa_consistency_level v)),
      toHex (vaa_payload v)]"
  have body: "concat ?parts = toHex (vaa_body v)"
    by (simp add: vaa_body_def del: be_bytes.simps)
  note pack = packSigs_bytes [OF A EC sigs, of 0]
  have "signAndEncodeVM A EC (vaa_timestamp v) (vaa_nonce v) (vaa_emitter_chain v) (''0x'' @ toHex (vaa_emitter_address v))
      (vaa_sequence v) (''0x'' @ toHex (vaa_payload v)) signers guardianSetIndex (vaa_consistency_level v) =
    Inr (toHex (vmBytes (vmOf guardianSetIndex v sigs)))"
    unfolding signAndEncodeVM_def body_text [OF A v] bindR_simps body hash drop0x
    using pack n len encodeUint_widths(1) [OF A, of 1] encodeUint_widths(1) [OF A, of "length signers"]
      encodeUint_widths(3) [OF A, of guardianSetIndex]
    by (simp add: vmBytes_def vmOf_def concat_toHex case_prod_unfold comp_def del: be_bytes.simps toHex_simps mapR_eq_Inr)
      (simp add: concat_toHex del: be_bytes.simps)
  with ok show ?thesis by blast
qed

text \<open>C34: the clients' \<open>signAndEncodeVM\<close> writes the VAA that the contracts read, with the signature of each key at the key's
  place over the double hash of the body.\<close>

theorem signAndEncodeVM_layout:
  assumes A: "abi_text_laws A" and K: "keccak_laws (solidityKeccak256 A) K" and EC: "elliptic_laws EC"
    and v: "vaa_ok v" and n: "guardianSetIndex < 2 ^ 32" "length signers < 256"
    and sigs: "list_all2 (\<lambda>k sig. ec_sign EC k (K (K (vaa_body v))) = Inr sig) signers sigs"
  shows "\<exists>bs. signAndEncodeVM A EC (vaa_timestamp v) (vaa_nonce v) (vaa_emitter_chain v) (''0x'' @ toHex (vaa_emitter_address v))
      (vaa_sequence v) (''0x'' @ toHex (vaa_payload v)) signers guardianSetIndex (vaa_consistency_level v) = Inr (toHex bs) \<and>
    readVM bs = Some (vmOf guardianSetIndex v sigs)"
  using signAndEncodeVM_bytes [OF A K EC v n sigs] readVM_vmBytes by blast

text \<open>The VAA of a governance action: emitted by chain 1, address 4.\<close>

definition governanceVaa :: "nat \<Rightarrow> bytes \<Rightarrow> parsed_vaa" where
  "governanceVaa sequence payload = \<lparr>vaa_timestamp = 1, vaa_nonce = 1, vaa_emitter_chain = 1,
     vaa_emitter_address = replicate 31 0 @ [4], vaa_sequence = sequence, vaa_consistency_level = 0, vaa_payload = payload\<rparr>"

lemma small_bytes [simp]: "byte_hex 0 = ''00''" "byte_hex 1 = ''01''" "byte_hex 2 = ''02''" "byte_hex 4 = ''04''"
  by (simp_all add: byte_hex_digits hex_digit_def)

lemma governanceEmitter_bytes: "governanceEmitter = ''0x'' @ toHex (replicate 31 0 @ [4])"
proof -
  have "replicate 62 (CHR ''0'') = ''00000000000000000000000000000000000000000000000000000000000000''"
    by (simp add: numeral_eq_Suc)
  then show ?thesis by (simp add: governanceEmitter_def toHex_zeros)
qed

lemma module_bytes:
  "TOKEN_BRIDGE_MODULE = toHex (fromHex TOKEN_BRIDGE_MODULE)" "NFT_BRIDGE_MODULE = toHex (fromHex NFT_BRIDGE_MODULE)"
  "length (fromHex TOKEN_BRIDGE_MODULE) = 32" "length (fromHex NFT_BRIDGE_MODULE) = 32"
  by (simp_all add: TOKEN_BRIDGE_MODULE_def NFT_BRIDGE_MODULE_def byte_hex_digits hex_digit_def)

lemma governanceVaa_ok: "sequence < 2 ^ 64 \<Longrightarrow> vaa_ok (governanceVaa sequence payload)"
  by (simp add: governanceVaa_def vaa_ok_def)

lemma governance_bytes:
  assumes "abi_text_laws A" "keccak_laws (solidityKeccak256 A) K" "elliptic_laws EC" "sequence < 2 ^ 64"
    and "ec_sign EC key (K (K (vaa_body (governanceVaa sequence payload)))) = Inr sig"
  shows "signAndEncodeVM A EC 1 1 1 governanceEmitter sequence (''0x'' @ toHex payload) [key] 0 0 =
    Inr (toHex (vmBytes (vmOf 0 (governanceVaa sequence payload) [sig]))) \<and> vm_ok (vmOf 0 (governanceVaa sequence payload) [sig])"
  using signAndEncodeVM_bytes [OF assms(1-3) governanceVaa_ok [OF assms(4)], of 0 "[key]" payload "[sig]"] assms(5)
  unfolding governanceEmitter_bytes by (simp add: governanceVaa_def del: toHex_simps)

lemma random_sequence: "0 \<le> rand \<Longrightarrow> rand < 1 \<Longrightarrow> nat \<lfloor>rand * 100000000\<rfloor> < 2 ^ 64" for rand :: rat
proof -
  assume "0 \<le> rand" "rand < 1"
  then have "\<lfloor>rand * 100000000\<rfloor> < 100000000" by (simp add: floor_less_iff)
  then have "nat \<lfloor>rand * 100000000\<rfloor> < 100000000" by linarith
  then show ?thesis by (rule less_trans) simp
qed

lemma zero_chain: "toHex (be_bytes 2 0) = ''0000''"
  by (simp add: be_bytes_zero numeral_2_eq_2)

lemma register_text:
  assumes "abi_text_laws A" "chain < 2 ^ 16" "length address = 32"
  shows "mapR concat (sequenceR [Inr ''0x'', Inr (toHex md), Inr ''01'', Inr ''0000'',
       mapR (drop (2 + (64 - 4))) (encodeUint A 16 chain), mapR (drop 2) (encodeBytes32S A (''0x'' @ toHex address))]) =
    Inr (''0x'' @ toHex (registerPayload md chain address))"
  using encodeUint_widths(2) [OF assms(1,2)] encodeBytes32_text [OF assms(1,3)]
  by (simp add: registerPayload_def zero_chain del: mapR_eq_Inr be_bytes.simps)

lemma upgrade_text:
  assumes "abi_text_laws A" "chain < 2 ^ 16" "length address = 32"
  shows "mapR concat (sequenceR [Inr ''0x'', Inr (toHex md), Inr ''02'',
       mapR (drop (2 + (64 - 4))) (encodeUint A 16 chain), mapR (drop 2) (encodeBytes32S A (''0x'' @ toHex address))]) =
    Inr (''0x'' @ toHex (upgradePayload md chain address))"
  using encodeUint_widths(2) [OF assms(1,2)] encodeBytes32_text [OF assms(1,3)]
  by (simp add: upgradePayload_def del: mapR_eq_Inr be_bytes.simps)

text \<open>the VAAs that the clients generate are read as the action they are named after: registration of the chain with the address
  (for every chain, chain 0), upgrade of the chain to the address, for the bridge of the client.\<close>

theorem generated_governance_vaas:
  assumes A: "abi_text_laws A" and K: "keccak_laws (solidityKeccak256 A) K" and EC: "elliptic_laws EC"
    and c: "chain < 2 ^ 16" "length address = 32" and rand: "0 \<le> rand" "rand < 1"
    and signs: "\<And>key h. \<exists>sig. ec_sign EC key h = Inr sig"
  shows "(\<exists>bs sig. generate_register_chain_vaa A EC rand chain (''0x'' @ toHex address) key = Inr (toHex bs) \<and> readVM bs =
      Some (vmOf 0 (governanceVaa (nat \<lfloor>rand * 100000000\<rfloor>) (registerPayload (fromHex TOKEN_BRIDGE_MODULE) chain address)) [sig])) \<and>
    (\<exists>bs sig. generate_upgrade_chain_vaa A EC rand chain (''0x'' @ toHex address) key = Inr (toHex bs) \<and> readVM bs =
      Some (vmOf 0 (governanceVaa (nat \<lfloor>rand * 100000000\<rfloor>) (upgradePayload (fromHex TOKEN_BRIDGE_MODULE) chain address)) [sig])) \<and>
    (\<exists>bs sig. nft_generate_register_chain_vaa A EC rand chain (''0x'' @ toHex address) = Inr (toHex bs) \<and> readVM bs =
      Some (vmOf 0 (governanceVaa (nat \<lfloor>rand * 100000000\<rfloor>) (registerPayload (fromHex NFT_BRIDGE_MODULE) chain address)) [sig]))"
proof -
  let ?n = "nat \<lfloor>rand * 100000000\<rfloor>"
  note n = random_sequence [OF rand]
  have *: "\<exists>bs sig. signAndEncodeVM A EC 1 1 1 governanceEmitter ?n (''0x'' @ toHex p) [k] 0 0 = Inr (toHex bs) \<and>
      readVM bs = Some (vmOf 0 (governanceVaa ?n p) [sig])" for p k
    using governance_bytes [OF A K EC n] readVM_vmBytes signs by metis
  have md: "TOKEN_BRIDGE_MODULE = toHex (fromHex TOKEN_BRIDGE_MODULE)" "NFT_BRIDGE_MODULE = toHex (fromHex NFT_BRIDGE_MODULE)"
    by (rule module_bytes)+
  have "generate_register_chain_vaa A EC rand chain (''0x'' @ toHex address) key =
      signAndEncodeVM A EC 1 1 1 governanceEmitter ?n (''0x'' @ toHex (registerPayload (fromHex TOKEN_BRIDGE_MODULE) chain address)) [key] 0 0"
    unfolding generate_register_chain_vaa_def register_text [OF A c, of "fromHex TOKEN_BRIDGE_MODULE", folded md(1)] by (simp only: bindR_simps)
  moreover have "generate_upgrade_chain_vaa A EC rand chain (''0x'' @ toHex address) key =
      signAndEncodeVM A EC 1 1 1 governanceEmitter ?n (''0x'' @ toHex (upgradePayload (fromHex TOKEN_BRIDGE_MODULE) chain address)) [key] 0 0"
    unfolding generate_upgrade_chain_vaa_def upgrade_text [OF A c, of "fromHex TOKEN_BRIDGE_MODULE", folded md(1)] by (simp only: bindR_simps)
  moreover have "nft_generate_register_chain_vaa A EC rand chain (''0x'' @ toHex address) =
      signAndEncodeVM A EC 1 1 1 governanceEmitter ?n (''0x'' @ toHex (registerPayload (fromHex NFT_BRIDGE_MODULE) chain address)) [devnetGuardian] 0 0"
    unfolding nft_generate_register_chain_vaa_def register_text [OF A c, of "fromHex NFT_BRIDGE_MODULE", folded md(2)] by (simp only: bindR_simps)
  ultimately show ?thesis using * by simp
qed

section \<open>The buffers\<close>

text \<open>A buffer of \<open>n\<close> bytes that has been written up to \<open>a\<close>; what is behind it is memory.\<close>

definition written :: "nat \<Rightarrow> bytes \<Rightarrow> bytes \<Rightarrow> bool" where
  "written n a buf \<longleftrightarrow> length buf = n \<and> take (length a) buf = a"

lemma written_start: "length buf = n \<Longrightarrow> written n [] buf"
  by (simp add: written_def)

lemma written_all: "written n a buf \<Longrightarrow> length a = n \<Longrightarrow> buf = a"
  by (auto simp: written_def)

lemma written_bytes: "written n a buf \<Longrightarrow> length a = off \<Longrightarrow> off + length bs \<le> n \<Longrightarrow> written n (a @ bs) (bufWrite buf bs off)"
  by (auto simp: written_def bufWrite_def Let_def)

lemma written_hex:
  "written n a buf \<Longrightarrow> length a = off \<Longrightarrow> off + length bs \<le> n \<Longrightarrow> fromHex s = bs \<Longrightarrow> written n (a @ bs) (writeHex buf s off)"
  by (simp add: writeHex_def written_bytes)

lemma written_number:
  assumes "written n a buf" "length a = off" "off + w \<le> n" "v < 256 ^ w"
  shows "\<exists>buf'. writeUIntBE w buf (Some (int v)) off = Inr buf' \<and> written n (a @ be_bytes w v) buf'"
proof -
  have "writeUIntBE w buf (Some (int v)) off = Inr (bufWrite buf (be_bytes w v) off)"
    using assms by (simp add: writeUIntBE_def written_def Let_def flip: of_nat_power)
  moreover have "written n (a @ be_bytes w v) (bufWrite buf (be_bytes w v) off)"
    using assms by (intro written_bytes) simp_all
  ultimately show ?thesis by blast
qed

lemma nonce_bytes: "fromHex ''00000001'' = be_bytes 4 1"
  by code_simp

lemma drop_0x: "drop 2 (''0x'' @ s) = s"
  by simp

text \<open>The three buffers, one after the other.\<close>

lemma payload_buffer:
  assumes "length mem = 69" "chain < 2 ^ 16" "length address = 32"
  obtains b1 b2 b3 where "writeUIntBE 1 (writeHex mem TOKEN_BRIDGE_MODULE 0) (Some 1) 32 = Inr b1"
    "writeUIntBE 2 b1 (Some 0) 33 = Inr b2" "writeUIntBE 2 b2 (Some (int chain)) 35 = Inr b3"
    "writeHex b3 (toHex address) 37 = registerPayload (fromHex TOKEN_BRIDGE_MODULE) chain address"
proof -
  let ?md = "fromHex TOKEN_BRIDGE_MODULE"
  note [simp] = module_bytes(3) and [simp del] = be_bytes.simps
  have b10: "written 69 ([] @ ?md) (writeHex mem TOKEN_BRIDGE_MODULE 0)"
    by (rule written_hex [OF written_start]) (simp_all add: assms)
  obtain b1 where 1: "writeUIntBE 1 (writeHex mem TOKEN_BRIDGE_MODULE 0) (Some 1) 32 = Inr b1" "written 69 (([] @ ?md) @ be_bytes 1 1) b1"
    using written_number [OF b10, of 32 1 1] by auto
  obtain b2 where 2: "writeUIntBE 2 b1 (Some 0) 33 = Inr b2" "written 69 ((([] @ ?md) @ be_bytes 1 1) @ be_bytes 2 0) b2"
    using written_number [OF 1(2), of 33 2 0] by auto
  obtain b3 where 3: "writeUIntBE 2 b2 (Some (int chain)) 35 = Inr b3"
      "written 69 (((([] @ ?md) @ be_bytes 1 1) @ be_bytes 2 0) @ be_bytes 2 chain) b3"
    using written_number [OF 2(2), of 35 2 chain] assms by auto
  from 3(2) have "written 69 ((((([] @ ?md) @ be_bytes 1 1) @ be_bytes 2 0) @ be_bytes 2 chain) @ address) (writeHex b3 (toHex address) 37)"
    by (rule written_hex) (use assms in simp_all)
  then have "writeHex b3 (toHex address) 37 = (((([] @ ?md) @ be_bytes 1 1) @ be_bytes 2 0) @ be_bytes 2 chain) @ address"
    by (rule written_all) (simp add: assms)
  moreover have "be_bytes 1 1 = [1]" by (simp add: be_bytes.simps)
  ultimately show ?thesis using that [OF 1(1) 2(1) 3(1)] by (simp add: registerPayload_def)
qed

lemma header_buffer:
  assumes "length mem = 51"
  obtains h1 h2 h3 h4 where "writeUIntBE 4 mem (Some 1) 0 = Inr h1" "writeUIntBE 2 (writeHex h1 ''00000001'' 4) (Some 1) 8 = Inr h2"
    "writeUIntBE 8 (writeHex h2 (drop 2 governanceEmitter) 10) (Some 0) 42 = Inr h3" "writeUIntBE 1 h3 (Some 0) 50 = Inr h4"
    "h4 @ payload = vaa_body (governanceVaa 0 payload)"
proof -
  let ?em = "replicate 31 0 @ [4] :: bytes"
  note [simp del] = be_bytes.simps replicate.simps
  have em: "fromHex (drop 2 governanceEmitter) = ?em" unfolding governanceEmitter_bytes drop_0x by (rule fromHex_toHex)
  obtain h1 where 1: "writeUIntBE 4 mem (Some 1) 0 = Inr h1" "written 51 ([] @ be_bytes 4 1) h1"
    using written_number [OF written_start [OF assms], of 0 4 1] by auto
  from 1(2) have h20: "written 51 (([] @ be_bytes 4 1) @ be_bytes 4 1) (writeHex h1 ''00000001'' 4)"
    by (rule written_hex) (simp_all only: nonce_bytes, simp_all)
  obtain h2 where 2: "writeUIntBE 2 (writeHex h1 ''00000001'' 4) (Some 1) 8 = Inr h2"
      "written 51 ((([] @ be_bytes 4 1) @ be_bytes 4 1) @ be_bytes 2 1) h2"
    using written_number [OF h20, of 8 2 1] by auto
  from 2(2) have h30: "written 51 (((([] @ be_bytes 4 1) @ be_bytes 4 1) @ be_bytes 2 1) @ ?em) (writeHex h2 (drop 2 governanceEmitter) 10)"
    by (rule written_hex) (simp_all only: em, simp_all)
  obtain h3 where 3: "writeUIntBE 8 (writeHex h2 (drop 2 governanceEmitter) 10) (Some 0) 42 = Inr h3"
      "written 51 ((((([] @ be_bytes 4 1) @ be_bytes 4 1) @ be_bytes 2 1) @ ?em) @ be_bytes 8 0) h3"
    using written_number [OF h30, of 42 8 0] by auto
  obtain h4 where 4: "writeUIntBE 1 h3 (Some 0) 50 = Inr h4"
      "written 51 (((((([] @ be_bytes 4 1) @ be_bytes 4 1) @ be_bytes 2 1) @ ?em) @ be_bytes 8 0) @ be_bytes 1 0) h4"
    using written_number [OF 3(2), of 50 1 0] by auto
  from 4(2) have "h4 = ((((([] @ be_bytes 4 1) @ be_bytes 4 1) @ be_bytes 2 1) @ ?em) @ be_bytes 8 0) @ be_bytes 1 0"
    by (rule written_all) simp
  then show ?thesis using that [OF 1(1) 2(1) 3(1) 4(1)] by (simp add: vaa_body_def governanceVaa_def)
qed

lemma signature_buffer:
  assumes "length mem = 72" "fromHex signature = be_bytes 32 (ec_r sig) @ be_bytes 32 (ec_s sig) @ be_bytes 1 (ec_recoveryParam sig)"
  obtains v1 v2 v3 v4 where "writeUIntBE 1 mem (Some 1) 0 = Inr v1" "writeUIntBE 4 v1 (Some 0) 1 = Inr v2"
    "writeUIntBE 1 v2 (Some 1) 5 = Inr v3" "writeUIntBE 1 v3 (Some 0) 6 = Inr v4"
    "writeHex v4 signature 7 @ vaa_body v = vmBytes (vmOf 0 v [sig])"
proof -
  let ?sig = "be_bytes 32 (ec_r sig) @ be_bytes 32 (ec_s sig) @ be_bytes 1 (ec_recoveryParam sig)"
  note [simp del] = be_bytes.simps
  obtain v1 where 1: "writeUIntBE 1 mem (Some 1) 0 = Inr v1" "written 72 ([] @ be_bytes 1 1) v1"
    using written_number [OF written_start [OF assms(1)], of 0 1 1] by auto
  obtain v2 where 2: "writeUIntBE 4 v1 (Some 0) 1 = Inr v2" "written 72 (([] @ be_bytes 1 1) @ be_bytes 4 0) v2"
    using written_number [OF 1(2), of 1 4 0] by auto
  obtain v3 where 3: "writeUIntBE 1 v2 (Some 1) 5 = Inr v3" "written 72 ((([] @ be_bytes 1 1) @ be_bytes 4 0) @ be_bytes 1 1) v3"
    using written_number [OF 2(2), of 5 1 1] by auto
  obtain v4 where 4: "writeUIntBE 1 v3 (Some 0) 6 = Inr v4"
      "written 72 (((([] @ be_bytes 1 1) @ be_bytes 4 0) @ be_bytes 1 1) @ be_bytes 1 0) v4"
    using written_number [OF 3(2), of 6 1 0] by auto
  from 4(2) have "written 72 ((((([] @ be_bytes 1 1) @ be_bytes 4 0) @ be_bytes 1 1) @ be_bytes 1 0) @ ?sig) (writeHex v4 signature 7)"
    by (rule written_hex) (simp_all add: assms)
  then have "writeHex v4 signature 7 = (((([] @ be_bytes 1 1) @ be_bytes 4 0) @ be_bytes 1 1) @ be_bytes 1 0) @ ?sig"
    by (rule written_all) simp
  then show ?thesis using that [OF 1(1) 2(1) 3(1) 4(1)] by (simp add: vmBytes_def vmOf_def sigBytes_def vmSig_def)
qed

lemma signHash_bytes:
  assumes "elliptic_laws EC" "ec_sign EC key h = Inr sig"
  obtains signature where "signHash EC key (toHex h) = Inr signature"
    "fromHex signature = be_bytes 32 (ec_r sig) @ be_bytes 32 (ec_s sig) @ be_bytes 1 (ec_recoveryParam sig)"
proof -
  have "ec_r sig < 256 ^ 32" "ec_s sig < 256 ^ 32" "ec_recoveryParam sig < 4"
    using assms unfolding elliptic_laws_def by blast+
  moreover from this have "ec_recoveryParam sig < 256" by simp
  ultimately have "signHash EC key (toHex h) = Inr (toHex (be_bytes 32 (ec_r sig) @ be_bytes 32 (ec_s sig) @ be_bytes 1 (ec_recoveryParam sig)))"
    using assms padded_number [of "ec_r sig" 32] padded_number [of "ec_s sig" 32] padded_number [of "ec_recoveryParam sig" 1]
    by (simp add: signHash_def elliptic_laws_def zeroPad_text_padStart del: be_bytes.simps)
  then show ?thesis by (rule that) (rule fromHex_toHex)
qed

lemma registerTo_bytes:
  assumes K: "keccak_laws (re_keccak256 R) K" and EC: "elliptic_laws (re_elliptic R)" and mem: "\<And>n. length (re_allocUnsafe R n) = n"
    and c: "chain < 2 ^ 16" "length address = 32"
    and sig: "ec_sign (re_elliptic R) devnetGuardian
        (K (K (vaa_body (governanceVaa 0 (registerPayload (fromHex TOKEN_BRIDGE_MODULE) chain address))))) = Inr sig"
  shows "registerTo R (Some (int chain)) target (toHex address) =
    Inr (toHex (vmBytes (vmOf 0 (governanceVaa 0 (registerPayload (fromHex TOKEN_BRIDGE_MODULE) chain address)) [sig])))"
proof -
  let ?p = "registerPayload (fromHex TOKEN_BRIDGE_MODULE) chain address"
  let ?v = "governanceVaa 0 ?p"
  obtain b1 b2 b3 where b: "writeUIntBE 1 (writeHex (re_allocUnsafe R 69) TOKEN_BRIDGE_MODULE 0) (Some 1) 32 = Inr b1"
    "writeUIntBE 2 b1 (Some 0) 33 = Inr b2" "writeUIntBE 2 b2 (Some (int chain)) 35 = Inr b3" "writeHex b3 (toHex address) 37 = ?p"
    using payload_buffer [OF mem c] .
  obtain h1 h2 h3 h4 where h: "writeUIntBE 4 (re_allocUnsafe R 51) (Some 1) 0 = Inr h1"
    "writeUIntBE 2 (writeHex h1 ''00000001'' 4) (Some 1) 8 = Inr h2"
    "writeUIntBE 8 (writeHex h2 (drop 2 governanceEmitter) 10) (Some 0) 42 = Inr h3" "writeUIntBE 1 h3 (Some 0) 50 = Inr h4"
    "h4 @ ?p = vaa_body ?v"
    using header_buffer [OF mem] .
  obtain signature where s: "signHash (re_elliptic R) devnetGuardian (toHex (K (K (vaa_body ?v)))) = Inr signature"
    "fromHex signature = be_bytes 32 (ec_r sig) @ be_bytes 32 (ec_s sig) @ be_bytes 1 (ec_recoveryParam sig)"
    using signHash_bytes [OF EC sig] .
  obtain v1 v2 v3 v4 where v: "writeUIntBE 1 (re_allocUnsafe R 72) (Some 1) 0 = Inr v1" "writeUIntBE 4 v1 (Some 0) 1 = Inr v2"
    "writeUIntBE 1 v2 (Some 1) 5 = Inr v3" "writeUIntBE 1 v3 (Some 0) 6 = Inr v4"
    "writeHex v4 signature 7 @ vaa_body ?v = vmBytes (vmOf 0 ?v [sig])"
    using signature_buffer [OF mem s(2)] .
  have hash: "bindR (re_keccak256 R (''0x'' @ toHex (vaa_body ?v))) (re_keccak256 R) = Inr (''0x'' @ toHex (K (K (vaa_body ?v))))"
    using K by (simp add: keccak_laws_def)
  show ?thesis
    unfolding registerTo_def Let_def b bindR_simps h hash drop_0x s(1) v by (rule refl)
qed


section \<open>The chains of the development network (\<open>devnet/register_chains.ts\<close>)\<close>

definition registerVaas :: "string list" where
  "registerVaas = [''01000000000100e2e1975d14734206e7a23d90db48a6b5b6696df72675443293c6057dcb936bf224b5df67d32967adeb220d4fe3cb28be515be5608c74aab6adb31099a478db5c1c000000010000000100010000000000000000000000000000000000000000000000000000000000000004000000000000000000000000000000000000000000000000000000000000546f6b656e42726964676501000000020000000000000000000000000290fb167208af455bb137780163b7b7a9a10c16'',
     ''01000000000100e7d8469492e85b4f0df03a8bc1cdbf395f843ea181fb47188fcbf67b6df621fd005fad7ae7215752f0bfc6ff0f894dc4793cb46428e7582a369cfaeb05f334f31b000000010000000100010000000000000000000000000000000000000000000000000000000000000004000000000000000100000000000000000000000000000000000000000000546f6b656e4272696467650100000003000000000000000000000000784999135aaa8a3ca5914468852fdddbddd8789d'',
     ''010000000001001501232cc660aab7e2a84099fa7823048c2cab4834b1c3579656bd02b8686134150d3d69ab5bfda5aec1aa53bb3fcd89969462faa3cfd08551b36ed45b1202851c000000010000000100010000000000000000000000000000000000000000000000000000000000000004000000000000000200000000000000000000000000000000000000000000546f6b656e4272696467650100000001c69a1b1a65dd336bf1df6a77afb501fc25db7fc0938cb08595a9ef473265cb4f'',
     ''01000000000100f2766a939e1cde40d3a39218c4eaac273469f3e05edb7e55c0897eb7d565432550cbbec75013abfa30a3160d3915ffa7b6232c7062ea5fd8db62ba6bff6928691c000000010000000100010000000000000000000000000000000000000000000000000000000000000004000000000000000300000000000000000000000000000000000000000000546f6b656e42726964676501000000040000000000000000000000000290fb167208af455bb137780163b7b7a9a10c16'']"

lemma be_bytes_small:
  assumes "n < 256"
  shows "be_bytes 1 n = [of_nat n]" "be_bytes 2 n = [0, of_nat n]" "be_bytes 4 n = [0, 0, 0, of_nat n]"
    "be_bytes 8 n = [0, 0, 0, 0, 0, 0, 0, of_nat n]"
proof -
  show *: "be_bytes 1 n = [of_nat n]" by simp
  have "be_bytes (j + 1) n = replicate j 0 @ [of_nat n]" for j
    using be_bytes_pad [of n 1 j] assms by simp
  from this [of 1] this [of 3] this [of 7] show "be_bytes 2 n = [0, of_nat n]" "be_bytes 4 n = [0, 0, 0, of_nat n]"
    "be_bytes 8 n = [0, 0, 0, 0, 0, 0, 0, of_nat n]" by (simp_all add: numeral_eq_Suc del: be_bytes.simps)
qed

lemma readVM_single:
  assumes "length r = 32" "length s = 32" "vaa_ok w"
  shows "readVM ([1, 0, 0, 0, 0, 1, 0] @ r @ s @ [v] @ vaa_body w) =
    Some (vmOf 0 w [\<lparr>ec_r = be_nat r, ec_s = be_nat s, ec_recoveryParam = unat v\<rparr>])"
proof -
  let ?m = "vmOf 0 w [\<lparr>ec_r = be_nat r, ec_s = be_nat s, ec_recoveryParam = unat v\<rparr>]"
  have "be_bytes 32 (be_nat r) = r" "be_bytes 32 (be_nat s) = s" using be_bytes_be_nat [of r] be_bytes_be_nat [of s] assms by simp_all
  moreover have "be_bytes 1 1 = [1]" "be_bytes 1 0 = [0]" "be_bytes 4 0 = [0, 0, 0, 0]" "be_bytes 1 (unat v) = [v]"
    using be_bytes_small(1) [of 1] be_bytes_small(1) [of 0] be_bytes_small(3) [of 0] be_bytes_small(1) [of "unat v"] by simp_all
  ultimately have "vmBytes ?m = [1, 0, 0, 0, 0, 1, 0] @ r @ s @ [v] @ vaa_body w"
    by (simp add: vmBytes_def vmOf_def sigBytes_def vmSig_def del: be_bytes.simps)
  moreover have "vm_ok ?m"
    using be_nat_bound [of r] be_nat_bound [of s] assms
    by (simp add: vm_ok_def vmOf_def vmSig_def sig_ok_def)
  ultimately show ?thesis using readVM_vmBytes by metis
qed

text \<open>The body of a registration, byte by byte.\<close>

lemma registration_body:
  assumes "n < 256" "chain < 256"
  shows "vaa_body (governanceVaa n (registerPayload (fromHex TOKEN_BRIDGE_MODULE) chain address)) =
    [0, 0, 0, 1, 0, 0, 0, 1, 0, 1] @
    [0, 0, 0, 0, 0, 0, 0, 0, 0, 0, 0, 0, 0, 0, 0, 0, 0, 0, 0, 0, 0, 0, 0, 0, 0, 0, 0, 0, 0, 0, 0, 4] @
    [0, 0, 0, 0, 0, 0, 0, of_nat n] @ [0] @ fromHex TOKEN_BRIDGE_MODULE @ [1, 0, 0, 0, of_nat chain] @ address"
proof -
  have "replicate 31 (0 :: byte) = [0, 0, 0, 0, 0, 0, 0, 0, 0, 0, 0, 0, 0, 0, 0, 0, 0, 0, 0, 0, 0, 0, 0, 0, 0, 0, 0, 0, 0, 0, 0]"
    by (simp add: numeral_eq_Suc)
  then show ?thesis
    using be_bytes_small [OF assms(1)] be_bytes_small [OF assms(2)] be_bytes_small [of 0] be_bytes_small [of 1]
    by (simp add: vaa_body_def governanceVaa_def registerPayload_def del: be_bytes.simps One_nat_def)
qed

lemma vaa_eth:
  "\<exists>sig address. length address = 32 \<and> readVM (fromHex
     ''01000000000100e2e1975d14734206e7a23d90db48a6b5b6696df72675443293c6057dcb936bf224b5df67d32967adeb220d4fe3cb28be515be5608c74aab6adb31099a478db5c1c000000010000000100010000000000000000000000000000000000000000000000000000000000000004000000000000000000000000000000000000000000000000000000000000546f6b656e42726964676501000000020000000000000000000000000290fb167208af455bb137780163b7b7a9a10c16'') =
     Some (vmOf 0 (governanceVaa 0 (registerPayload (fromHex TOKEN_BRIDGE_MODULE) 2 address)) [sig])"
proof -
  let ?r = "[226, 225, 151, 93, 20, 115, 66, 6, 231, 162, 61, 144, 219, 72, 166, 181, 182, 105, 109, 247, 38, 117, 68, 50, 147, 198, 5, 125, 203, 147, 107, 242]"
  let ?s = "[36, 181, 223, 103, 211, 41, 103, 173, 235, 34, 13, 79, 227, 203, 40, 190, 81, 91, 229, 96, 140, 116, 170, 182, 173, 179, 16, 153, 164, 120, 219, 92]"
  let ?a = "[0, 0, 0, 0, 0, 0, 0, 0, 0, 0, 0, 0, 2, 144, 251, 22, 114, 8, 175, 69, 91, 177, 55, 120, 1, 99, 183, 183, 169, 161, 12, 22]"
  let ?w = "governanceVaa 0 (registerPayload (fromHex TOKEN_BRIDGE_MODULE) 2 ?a)"
  have "fromHex ''01000000000100e2e1975d14734206e7a23d90db48a6b5b6696df72675443293c6057dcb936bf224b5df67d32967adeb220d4fe3cb28be515be5608c74aab6adb31099a478db5c1c000000010000000100010000000000000000000000000000000000000000000000000000000000000004000000000000000000000000000000000000000000000000000000000000546f6b656e42726964676501000000020000000000000000000000000290fb167208af455bb137780163b7b7a9a10c16'' =
      [1, 0, 0, 0, 0, 1, 0] @ ?r @ ?s @ [28] @ vaa_body ?w"
    by (subst registration_body) (simp_all add: TOKEN_BRIDGE_MODULE_def)
  moreover have "readVM ([1, 0, 0, 0, 0, 1, 0] @ ?r @ ?s @ [28] @ vaa_body ?w) =
      Some (vmOf 0 ?w [\<lparr>ec_r = be_nat ?r, ec_s = be_nat ?s, ec_recoveryParam = unat (28 :: byte)\<rparr>])"
    by (rule readVM_single) (simp_all add: governanceVaa_ok)
  moreover have "length ?a = 32" by simp
  ultimately show ?thesis by metis
qed

lemma vaa_terra:
  "\<exists>sig address. length address = 32 \<and> readVM (fromHex
     ''01000000000100e7d8469492e85b4f0df03a8bc1cdbf395f843ea181fb47188fcbf67b6df621fd005fad7ae7215752f0bfc6ff0f894dc4793cb46428e7582a369cfaeb05f334f31b000000010000000100010000000000000000000000000000000000000000000000000000000000000004000000000000000100000000000000000000000000000000000000000000546f6b656e4272696467650100000003000000000000000000000000784999135aaa8a3ca5914468852fdddbddd8789d'') =
     Some (vmOf 0 (governanceVaa 1 (registerPayload (fromHex TOKEN_BRIDGE_MODULE) 3 address)) [sig])"
proof -
  let ?r = "[231, 216, 70, 148, 146, 232, 91, 79, 13, 240, 58, 139, 193, 205, 191, 57, 95, 132, 62, 161, 129, 251, 71, 24, 143, 203, 246, 123, 109, 246, 33, 253]"
  let ?s = "[0, 95, 173, 122, 231, 33, 87, 82, 240, 191, 198, 255, 15, 137, 77, 196, 121, 60, 180, 100, 40, 231, 88, 42, 54, 156, 250, 235, 5, 243, 52, 243]"
  let ?a = "[0, 0, 0, 0, 0, 0, 0, 0, 0, 0, 0, 0, 120, 73, 153, 19, 90, 170, 138, 60, 165, 145, 68, 104, 133, 47, 221, 219, 221, 216, 120, 157]"
  let ?w = "governanceVaa 1 (registerPayload (fromHex TOKEN_BRIDGE_MODULE) 3 ?a)"
  have "fromHex ''01000000000100e7d8469492e85b4f0df03a8bc1cdbf395f843ea181fb47188fcbf67b6df621fd005fad7ae7215752f0bfc6ff0f894dc4793cb46428e7582a369cfaeb05f334f31b000000010000000100010000000000000000000000000000000000000000000000000000000000000004000000000000000100000000000000000000000000000000000000000000546f6b656e4272696467650100000003000000000000000000000000784999135aaa8a3ca5914468852fdddbddd8789d'' =
      [1, 0, 0, 0, 0, 1, 0] @ ?r @ ?s @ [27] @ vaa_body ?w"
    by (subst registration_body) (simp_all add: TOKEN_BRIDGE_MODULE_def)
  moreover have "readVM ([1, 0, 0, 0, 0, 1, 0] @ ?r @ ?s @ [27] @ vaa_body ?w) =
      Some (vmOf 0 ?w [\<lparr>ec_r = be_nat ?r, ec_s = be_nat ?s, ec_recoveryParam = unat (27 :: byte)\<rparr>])"
    by (rule readVM_single) (simp_all add: governanceVaa_ok)
  moreover have "length ?a = 32" by simp
  ultimately show ?thesis by metis
qed

lemma vaa_solana:
  "\<exists>sig address. length address = 32 \<and> readVM (fromHex
     ''010000000001001501232cc660aab7e2a84099fa7823048c2cab4834b1c3579656bd02b8686134150d3d69ab5bfda5aec1aa53bb3fcd89969462faa3cfd08551b36ed45b1202851c000000010000000100010000000000000000000000000000000000000000000000000000000000000004000000000000000200000000000000000000000000000000000000000000546f6b656e4272696467650100000001c69a1b1a65dd336bf1df6a77afb501fc25db7fc0938cb08595a9ef473265cb4f'') =
     Some (vmOf 0 (governanceVaa 2 (registerPayload (fromHex TOKEN_BRIDGE_MODULE) 1 address)) [sig])"
proof -
  let ?r = "[21, 1, 35, 44, 198, 96, 170, 183, 226, 168, 64, 153, 250, 120, 35, 4, 140, 44, 171, 72, 52, 177, 195, 87, 150, 86, 189, 2, 184, 104, 97, 52]"
  let ?s = "[21, 13, 61, 105, 171, 91, 253, 165, 174, 193, 170, 83, 187, 63, 205, 137, 150, 148, 98, 250, 163, 207, 208, 133, 81, 179, 110, 212, 91, 18, 2, 133]"
  let ?a = "[198, 154, 27, 26, 101, 221, 51, 107, 241, 223, 106, 119, 175, 181, 1, 252, 37, 219, 127, 192, 147, 140, 176, 133, 149, 169, 239, 71, 50, 101, 203, 79]"
  let ?w = "governanceVaa 2 (registerPayload (fromHex TOKEN_BRIDGE_MODULE) 1 ?a)"
  have "fromHex ''010000000001001501232cc660aab7e2a84099fa7823048c2cab4834b1c3579656bd02b8686134150d3d69ab5bfda5aec1aa53bb3fcd89969462faa3cfd08551b36ed45b1202851c000000010000000100010000000000000000000000000000000000000000000000000000000000000004000000000000000200000000000000000000000000000000000000000000546f6b656e4272696467650100000001c69a1b1a65dd336bf1df6a77afb501fc25db7fc0938cb08595a9ef473265cb4f'' =
      [1, 0, 0, 0, 0, 1, 0] @ ?r @ ?s @ [28] @ vaa_body ?w"
    by (subst registration_body) (simp_all add: TOKEN_BRIDGE_MODULE_def)
  moreover have "readVM ([1, 0, 0, 0, 0, 1, 0] @ ?r @ ?s @ [28] @ vaa_body ?w) =
      Some (vmOf 0 ?w [\<lparr>ec_r = be_nat ?r, ec_s = be_nat ?s, ec_recoveryParam = unat (28 :: byte)\<rparr>])"
    by (rule readVM_single) (simp_all add: governanceVaa_ok)
  moreover have "length ?a = 32" by simp
  ultimately show ?thesis by metis
qed

lemma vaa_bsc:
  "\<exists>sig address. length address = 32 \<and> readVM (fromHex
     ''01000000000100f2766a939e1cde40d3a39218c4eaac273469f3e05edb7e55c0897eb7d565432550cbbec75013abfa30a3160d3915ffa7b6232c7062ea5fd8db62ba6bff6928691c000000010000000100010000000000000000000000000000000000000000000000000000000000000004000000000000000300000000000000000000000000000000000000000000546f6b656e42726964676501000000040000000000000000000000000290fb167208af455bb137780163b7b7a9a10c16'') =
     Some (vmOf 0 (governanceVaa 3 (registerPayload (fromHex TOKEN_BRIDGE_MODULE) 4 address)) [sig])"
proof -
  let ?r = "[242, 118, 106, 147, 158, 28, 222, 64, 211, 163, 146, 24, 196, 234, 172, 39, 52, 105, 243, 224, 94, 219, 126, 85, 192, 137, 126, 183, 213, 101, 67, 37]"
  let ?s = "[80, 203, 190, 199, 80, 19, 171, 250, 48, 163, 22, 13, 57, 21, 255, 167, 182, 35, 44, 112, 98, 234, 95, 216, 219, 98, 186, 107, 255, 105, 40, 105]"
  let ?a = "[0, 0, 0, 0, 0, 0, 0, 0, 0, 0, 0, 0, 2, 144, 251, 22, 114, 8, 175, 69, 91, 177, 55, 120, 1, 99, 183, 183, 169, 161, 12, 22]"
  let ?w = "governanceVaa 3 (registerPayload (fromHex TOKEN_BRIDGE_MODULE) 4 ?a)"
  have "fromHex ''01000000000100f2766a939e1cde40d3a39218c4eaac273469f3e05edb7e55c0897eb7d565432550cbbec75013abfa30a3160d3915ffa7b6232c7062ea5fd8db62ba6bff6928691c000000010000000100010000000000000000000000000000000000000000000000000000000000000004000000000000000300000000000000000000000000000000000000000000546f6b656e42726964676501000000040000000000000000000000000290fb167208af455bb137780163b7b7a9a10c16'' =
      [1, 0, 0, 0, 0, 1, 0] @ ?r @ ?s @ [28] @ vaa_body ?w"
    by (subst registration_body) (simp_all add: TOKEN_BRIDGE_MODULE_def)
  moreover have "readVM ([1, 0, 0, 0, 0, 1, 0] @ ?r @ ?s @ [28] @ vaa_body ?w) =
      Some (vmOf 0 ?w [\<lparr>ec_r = be_nat ?r, ec_s = be_nat ?s, ec_recoveryParam = unat (28 :: byte)\<rparr>])"
    by (rule readVM_single) (simp_all add: governanceVaa_ok)
  moreover have "length ?a = 32" by simp
  ultimately show ?thesis by metis
qed

text \<open>the four VAAs of the script register, in this order and with the sequence numbers 0 to 3, the chains 2 (Ethereum),
  3 (Terra), 1 (Solana) and 4 (BSC) with the token bridge.\<close>

theorem registerVaas_chains:
  "list_all2 (\<lambda>s (n, chain). \<exists>sig address. length address = 32 \<and> readVM (fromHex s) =
       Some (vmOf 0 (governanceVaa n (registerPayload (fromHex TOKEN_BRIDGE_MODULE) chain address)) [sig]))
     registerVaas [(0, CHAIN_ID_ETH), (1, CHAIN_ID_TERRA), (2, CHAIN_ID_SOLANA), (3, CHAIN_ID_BSC)]"
  unfolding registerVaas_def by (simp only: list_all2_Cons list.rel_inject split_conv chain_ids vaa_eth vaa_terra vaa_solana vaa_bsc list.rel_intros simp_thms)

section \<open>Witnesses\<close>

definition demo_abi_text :: abi_text where
  "demo_abi_text = \<lparr>encodeUint = (\<lambda>w n. Inr (''0x'' @ toHex (be_bytes 32 n))), encodeBytes32 = (\<lambda>bs. Inr (''0x'' @ toHex bs)),
     solidityKeccak256 = Inr, encodeBytes32S = Inr\<rparr>"

definition demo_elliptic :: elliptic where
  "demo_elliptic = \<lparr>ec_sign = (\<lambda>k h. Inr \<lparr>ec_r = 1, ec_s = 2, ec_recoveryParam = 1\<rparr>),
     ec_signHex = (\<lambda>k h. Inr \<lparr>ec_r = 1, ec_s = 2, ec_recoveryParam = 1\<rparr>)\<rparr>"

lemma demo_text_laws: "abi_text_laws demo_abi_text" "keccak_laws Inr (\<lambda>bs. bs)" "elliptic_laws demo_elliptic"
  by (simp_all add: abi_text_laws_def abi_laws_def demo_abi_text_def abi.defs keccak_laws_def elliptic_laws_def demo_elliptic_def)

lemma demo_signs: "\<exists>sig. ec_sign demo_elliptic key h = Inr sig"
  by (simp add: demo_elliptic_def)

theorem signAndEncodeVM_layout_witness:
  "\<exists>bs. signAndEncodeVM demo_abi_text demo_elliptic 1 1 1 (''0x'' @ toHex (replicate 31 0 @ [4])) 7 (''0x'' @ toHex [1, 2, 3]) [''key'', ''key''] 0 0 =
      Inr (toHex bs) \<and> map_option (\<lambda>m. (vaa_sequence (vm_vaa m), map vs_index (vm_signatures m))) (readVM bs) = Some (7, [0, 1])"
proof -
  have k: "keccak_laws (solidityKeccak256 demo_abi_text) (\<lambda>bs. bs)" using demo_text_laws(2) by (simp add: demo_abi_text_def)
  have "list_all2 (\<lambda>k sig. ec_sign demo_elliptic k (vaa_body (governanceVaa 7 [1, 2, 3])) = Inr sig) [''key'', ''key'']
      [\<lparr>ec_r = 1, ec_s = 2, ec_recoveryParam = 1\<rparr>, \<lparr>ec_r = 1, ec_s = 2, ec_recoveryParam = 1\<rparr>]"
    by (simp add: demo_elliptic_def)
  from signAndEncodeVM_layout [OF demo_text_laws(1) k demo_text_laws(3) governanceVaa_ok _ _ this, of 0]
  obtain bs where "signAndEncodeVM demo_abi_text demo_elliptic 1 1 1 (''0x'' @ toHex (replicate 31 0 @ [4])) 7 (''0x'' @ toHex [1, 2, 3])
      [''key'', ''key''] 0 0 = Inr (toHex bs)"
    "readVM bs = Some (vmOf 0 (governanceVaa 7 [1, 2, 3]) [\<lparr>ec_r = 1, ec_s = 2, ec_recoveryParam = 1\<rparr>, \<lparr>ec_r = 1, ec_s = 2, ec_recoveryParam = 1\<rparr>])"
    by (auto simp: governanceVaa_def simp del: toHex_simps)
  then show ?thesis by (auto simp: vmOf_def vmSig_def governanceVaa_def simp del: toHex_simps)
qed

theorem generated_governance_vaas_witness:
  "\<exists>bs. generate_register_chain_vaa demo_abi_text demo_elliptic (1 / 2) 2 (''0x'' @ toHex (replicate 32 7)) ''key'' = Inr (toHex bs) \<and>
     map_option (\<lambda>m. vaa_payload (vm_vaa m)) (readVM bs) = Some (registerPayload (fromHex TOKEN_BRIDGE_MODULE) 2 (replicate 32 7))"
proof -
  have k: "keccak_laws (solidityKeccak256 demo_abi_text) (\<lambda>bs. bs)" using demo_text_laws(2) by (simp add: demo_abi_text_def)
  obtain bs sig where "generate_register_chain_vaa demo_abi_text demo_elliptic (1 / 2) 2 (''0x'' @ toHex (replicate 32 7)) ''key'' = Inr (toHex bs)"
    "readVM bs = Some (vmOf 0 (governanceVaa (nat \<lfloor>(1 / 2 :: rat) * 100000000\<rfloor>)
       (registerPayload (fromHex TOKEN_BRIDGE_MODULE) 2 (replicate 32 7))) [sig])"
    using generated_governance_vaas [OF demo_text_laws(1) k demo_text_laws(3) _ _ _ _ demo_signs, where chain = 2 and
      address = "replicate 32 7" and rand = "1 / 2" and key = "''key''"] by fastforce
  then show ?thesis by (auto simp: vmOf_def governanceVaa_def)
qed


end
