(* ===== verification/AlphDeploy.thy ===== *)
theory AlphDeploy
  imports GovernanceVaa SignedVAA
begin

text \<open>
  The deployment of the bridge on an Alephium development network: \<open>alephium/lib/wormhole.ts\<close> and the scripts of
  \<open>alephium/devnet/\<close>. The node (compiler, builder of transactions, chain) and the signer are a parameter whose answers may
  depend on all calls made so far; the calls are logged. Waiting for a confirmation may never end.
\<close>

section \<open>The node\<close>

text \<open>A value of a contract's field or of a variable of a template.\<close>

datatype val = VNat nat | VStr string | VArr "val list"

type_synonym vars = "(string \<times> val) list"

record compiled =
  bytecode :: string
  codeHash :: string

record deploy_tx =
  dt_group :: nat
  dt_contractAddress :: string
  dt_unsignedTx :: string
  dt_txId :: string

record script_tx =
  st_unsignedTx :: string
  st_txId :: string

datatype tx_status = NotConfirmed | Confirmed string nat

datatype node_call =
    GetWallets
  | PutWallet string
  | CompileContract string vars
  | CompileScript string vars
  | BuildDeploy compiled "val list option" "string option"
  | BuildScript string vars
  | SubmitTransaction string string
  | GetStatus string
  | Sleep nat
  | GetBlock string

type_synonym node_history = "node_call list"

text \<open>A script is compiled and then built, so that building knows its template. A block is the list of its transactions, each
  the addresses of its outputs.\<close>

record alph_node =
  nd_getWallets :: "node_history \<Rightarrow> string list result"
  nd_putWallet :: "node_history \<Rightarrow> string \<Rightarrow> unit result"
  nd_contract :: "node_history \<Rightarrow> string \<Rightarrow> vars \<Rightarrow> compiled result"
  nd_script :: "node_history \<Rightarrow> string \<Rightarrow> vars \<Rightarrow> unit result"
  nd_buildDeploy :: "node_history \<Rightarrow> compiled \<Rightarrow> val list option \<Rightarrow> string option \<Rightarrow> deploy_tx result"
  nd_buildScript :: "node_history \<Rightarrow> string \<Rightarrow> vars \<Rightarrow> script_tx result"
  nd_submit :: "node_history \<Rightarrow> string \<Rightarrow> string \<Rightarrow> string result"
  nd_status :: "node_history \<Rightarrow> string \<Rightarrow> tx_status result"
  nd_block :: "node_history \<Rightarrow> string \<Rightarrow> string list list result"

definition contractFrom :: "alph_node \<Rightarrow> string \<Rightarrow> vars \<Rightarrow> node_history \<Rightarrow> node_history \<times> compiled result" where
  "contractFrom N file v h = (h @ [CompileContract file v], nd_contract N h file v)"

definition submitTransaction :: "alph_node \<Rightarrow> string \<Rightarrow> string \<Rightarrow> node_history \<Rightarrow> node_history \<times> string result" where
  "submitTransaction N unsignedTx txId h = (h @ [SubmitTransaction unsignedTx txId], nd_submit N h unsignedTx txId)"

text \<open>\<open>Script.from\<close>, \<open>transactionForDeployment\<close> and \<open>submitTransaction\<close>, in that order, in each function that runs a
  script.\<close>

definition runScript :: "alph_node \<Rightarrow> string \<Rightarrow> vars \<Rightarrow> node_history \<Rightarrow> node_history \<times> string result" where
  "runScript N file v h =
     bindH (h @ [CompileScript file v], nd_script N h file v) (\<lambda>h _.
     bindH (h @ [BuildScript file v], nd_buildScript N h file v) (\<lambda>h scriptTx.
     submitTransaction N (st_unsignedTx scriptTx) (st_txId scriptTx) h))"

section \<open>\<open>alephium/lib/wormhole.ts\<close>\<close>

definition Byte32Zero :: string where
  "Byte32Zero = ''0000000000000000000000000000000000000000000000000000000000000000''"

definition AlephiumChainId :: nat where
  "AlephiumChainId = 13"

record deploy_result =
  dr_groupIndex :: nat
  dr_address :: string
  dr_txId :: string

record wormhole_contracts =
  wc_governance :: deploy_result
  wc_tokenBridge :: deploy_result
  wc_tokenWrapperFactory :: deploy_result

record wormhole =
  wh_governanceChainId :: nat
  wh_governanceContractId :: string
  wh_tokenBridgeGovernanceChainId :: nat
  wh_tokenBridgeGovernanceContractId :: string
  wh_initGuardianSet :: "string list"
  wh_initGuardianSetIndex :: nat
  wh_initMessageFee :: nat

definition deployContract :: "alph_node \<Rightarrow> compiled \<Rightarrow> val list option \<Rightarrow> node_history \<Rightarrow> node_history \<times> deploy_result result" where
  "deployContract N contract initFields h =
     bindH (h @ [BuildDeploy contract initFields None], nd_buildDeploy N h contract initFields None) (\<lambda>h deployTx.
     bindH (submitTransaction N (dt_unsignedTx deployTx) (dt_txId deployTx) h) (\<lambda>h txId.
     (h, Inr \<lparr>dr_groupIndex = dt_group deployTx, dr_address = dt_contractAddress deployTx, dr_txId = txId\<rparr>)))"

definition guardianSets :: "string list \<Rightarrow> val" where
  "guardianSets initGuardianSet =
     (let previousGuardianSet = replicate 19 Byte32Zero;
          currentGuardianSet = initGuardianSet @ replicate (19 - length initGuardianSet) Byte32Zero in
      VArr [VArr (map VStr previousGuardianSet), VArr (map VStr currentGuardianSet)])"

definition governanceFields :: "wormhole \<Rightarrow> val list" where
  "governanceFields W =
     [VNat AlephiumChainId, VNat (wh_governanceChainId W), VStr (wh_governanceContractId W), VNat 0, VNat 0, VNat 0, VStr '''',
      VNat (wh_initMessageFee W), guardianSets (wh_initGuardianSet W), VArr [VNat 0, VNat (wh_initGuardianSetIndex W)],
      VArr [VNat 0, VNat (length (wh_initGuardianSet W))], VNat 0]"

definition deployGovernance :: "alph_node \<Rightarrow> wormhole \<Rightarrow> node_history \<Rightarrow> node_history \<times> deploy_result result" where
  "deployGovernance N W h =
     bindH (contractFrom N ''governance.ral'' [(''distance'', VNat 64)] h) (\<lambda>h governance.
     if length (wh_initGuardianSet W) > 19 then (h, Inl (Error ''init guardian set size larger than 19''))
     else deployContract N governance (Some (governanceFields W)) h)"

definition deployTokenWrapperFactory :: "alph_node \<Rightarrow> string \<Rightarrow> node_history \<Rightarrow> node_history \<times> deploy_result result" where
  "deployTokenWrapperFactory N tokenWrapperBinCode h =
     bindH (contractFrom N ''token_wrapper_factory.ral'' [(''tokenWrapperBinCode'', VStr tokenWrapperBinCode)] h) (\<lambda>h tokenWrapperFactory.
     deployContract N tokenWrapperFactory None h)"

definition tokenBridgeFields :: "wormhole \<Rightarrow> string \<Rightarrow> val list" where
  "tokenBridgeFields W governanceAddress =
     [VStr governanceAddress, VNat (wh_tokenBridgeGovernanceChainId W), VStr (wh_tokenBridgeGovernanceContractId W),
      VNat 0, VNat 0, VNat 0, VStr '''', VNat AlephiumChainId, VNat 0]"

definition deployTokenBridge :: "alph_node \<Rightarrow> wormhole \<Rightarrow> string \<Rightarrow> string \<Rightarrow> string \<Rightarrow> node_history \<Rightarrow>
    node_history \<times> deploy_result result" where
  "deployTokenBridge N W governanceAddress tokenBridgeForChainBinCode tokenWrapperCodeHash h =
     bindH (contractFrom N ''token_bridge.ral''
       [(''tokenBridgeForChainBinCode'', VStr tokenBridgeForChainBinCode), (''tokenWrapperCodeHash'', VStr tokenWrapperCodeHash),
        (''distance'', VNat 64)] h) (\<lambda>h tokenBridge.
     deployContract N tokenBridge (Some (tokenBridgeFields W governanceAddress)) h)"

definition tokenBridgeForChainContract :: "alph_node \<Rightarrow> string \<Rightarrow> string \<Rightarrow> node_history \<Rightarrow> node_history \<times> compiled result" where
  "tokenBridgeForChainContract N tokenWrapperFactoryAddress tokenWrapperCodeHash =
     contractFrom N ''token_bridge_for_chain.ral''
       [(''tokenWrapperFactoryAddress'', VStr tokenWrapperFactoryAddress), (''tokenWrapperCodeHash'', VStr tokenWrapperCodeHash),
        (''distance'', VNat 64), (''tokenWrapperBinCode'', VStr ''''), (''tokenBridgeForChainBinCode'', VStr '''')]"

definition tokenWrapperContract :: "alph_node \<Rightarrow> node_history \<Rightarrow> node_history \<times> compiled result" where
  "tokenWrapperContract N =
     contractFrom N ''token_wrapper.ral''
       [(''tokenBridgeForChainBinCode'', VStr ''''), (''tokenWrapperBinCode'', VStr ''''), (''tokenWrapperCodeHash'', VStr ''''),
        (''tokenWrapperFactoryAddress'', VStr ''''), (''distance'', VNat 64)]"

definition deployContracts :: "alph_node \<Rightarrow> wormhole \<Rightarrow> node_history \<Rightarrow> node_history \<times> wormhole_contracts result" where
  "deployContracts N W h =
     bindH (tokenWrapperContract N h) (\<lambda>h tokenWrapper.
     bindH (deployTokenWrapperFactory N (bytecode tokenWrapper) h) (\<lambda>h factory.
     bindH (deployGovernance N W h) (\<lambda>h governance.
     bindH (tokenBridgeForChainContract N (dr_address factory) (codeHash tokenWrapper) h) (\<lambda>h tokenBridgeForChain.
     bindH (deployTokenBridge N W (dr_address governance) (bytecode tokenBridgeForChain) (codeHash tokenWrapper) h) (\<lambda>h tokenBridge.
     (h, Inr \<lparr>wc_governance = governance, wc_tokenBridge = tokenBridge, wc_tokenWrapperFactory = factory\<rparr>))))))"

definition registerChainToAlph :: "alph_node \<Rightarrow> string \<Rightarrow> string \<Rightarrow> string \<Rightarrow> nat \<Rightarrow> node_history \<Rightarrow> node_history \<times> string result" where
  "registerChainToAlph N tokenBridgeAddress vaa payer amt =
     runScript N ''register_chain.ral''
       [(''tokenBridgeAddress'', VStr tokenBridgeAddress), (''vaa'', VStr vaa), (''payer'', VStr payer), (''amount'', VNat amt),
        (''tokenBridgeForChainBinCode'', VStr ''''), (''tokenWrapperCodeHash'', VStr ''''), (''distance'', VNat 64)]"

definition createWrapperForLocalToken :: "alph_node \<Rightarrow> string \<Rightarrow> string \<Rightarrow> string \<Rightarrow> nat \<Rightarrow> node_history \<Rightarrow>
    node_history \<times> string result" where
  "createWrapperForLocalToken N tokenBridgeForChainAddress localTokenId payer alphAmount =
     runScript N ''create_local_wrapper.ral''
       [(''tokenBridgeForChainAddress'', VStr tokenBridgeForChainAddress), (''tokenId'', VStr localTokenId), (''payer'', VStr payer),
        (''alphAmount'', VNat alphAmount), (''tokenWrapperFactoryAddress'', VStr ''''), (''tokenWrapperCodeHash'', VStr ''''),
        (''tokenWrapperBinCode'', VStr ''''), (''tokenBridgeForChainBinCode'', VStr ''''), (''distance'', VNat 64)]"

section \<open>\<open>alephium/devnet/\<close>\<close>

text \<open>\<open>env.ts\<close>\<close>

definition dustAmount :: nat where "dustAmount = 1000000000000"
definition devnetPayer :: string where "devnetPayer = ''12LgGdbjE6EtnTKw5gdBwV2RRXuXPtzYM7SDZ45YJTRht''"
definition devnetMessageFee :: nat where "devnetMessageFee = 100000000000000"
definition oneAlph :: nat where "oneAlph = 1000000000000000000"

definition devnetWormhole :: wormhole where
  "devnetWormhole = \<lparr>wh_governanceChainId = 1, wh_governanceContractId = drop 2 governanceEmitter,
     wh_tokenBridgeGovernanceChainId = 1, wh_tokenBridgeGovernanceContractId = drop 2 governanceEmitter,
     wh_initGuardianSet = [''beFA429d57cD18b7F8A4d91A2da9AB4AF05d0FBe''], wh_initGuardianSetIndex = 0,
     wh_initMessageFee = devnetMessageFee\<rparr>"

definition deployTestToken :: "alph_node \<Rightarrow> node_history \<Rightarrow> node_history \<times> string result" where
  "deployTestToken N h =
     (let tokenSupply = 2 ^ 256 - 1;
          nm = padStart 64 (CHR ''0'') (toHex (charCodes ''test-token'')) in
      bindH (contractFrom N ''token.ral'' [] h) (\<lambda>h token.
      bindH (let fields = Some [VStr nm, VStr nm, VNat 8, VNat tokenSupply] in
          (h @ [BuildDeploy token fields (Some (decimal tokenSupply))], nd_buildDeploy N h token fields (Some (decimal tokenSupply))))
        (\<lambda>h deployTx.
      bindH (submitTransaction N (dt_unsignedTx deployTx) (dt_txId deployTx) h) (\<lambda>h txId.
      (h, Inr (dt_contractAddress deployTx))))))"

definition attestToken :: "alph_node \<Rightarrow> string \<Rightarrow> string \<Rightarrow> string \<Rightarrow> node_history \<Rightarrow> node_history \<times> string result" where
  "attestToken N tokenBridgeAddress nonce tid =
     runScript N ''attest_token.ral''
       [(''payer'', VStr devnetPayer), (''messageFee'', VNat devnetMessageFee), (''tokenBridgeAddress'', VStr tokenBridgeAddress),
        (''tokenId'', VStr tid), (''nonce'', VStr nonce), (''consistencyLevel'', VNat 0), (''tokenBridgeForChainBinCode'', VStr ''''),
        (''tokenBridgeForChainCodeHash'', VStr ''''), (''tokenWrapperCodeHash'', VStr ''''), (''distance'', VNat 64)]"

definition getToken :: "alph_node \<Rightarrow> string \<Rightarrow> string \<Rightarrow> nat \<Rightarrow> node_history \<Rightarrow> node_history \<times> string result" where
  "getToken N tokenAddress sender amt =
     runScript N ''get_token.ral'' [(''sender'', VStr sender), (''amount'', VNat amt), (''tokenAddress'', VStr tokenAddress)]"

definition transferLocal :: "alph_node \<Rightarrow> string \<Rightarrow> string \<Rightarrow> string \<Rightarrow> string \<Rightarrow> string \<Rightarrow> nat \<Rightarrow> nat \<Rightarrow> node_history \<Rightarrow>
    node_history \<times> string result" where
  "transferLocal N nonce tokenWrapperAddress localTokenId sender toAddress transferAmount arbiterFee =
     runScript N ''transfer_local.ral''
       [(''sender'', VStr sender), (''messageFee'', VNat devnetMessageFee), (''tokenId'', VStr localTokenId),
        (''tokenAmount'', VNat transferAmount), (''tokenWrapperAddress'', VStr tokenWrapperAddress), (''toAddress'', VStr toAddress),
        (''arbiterFee'', VNat arbiterFee), (''nonce'', VStr nonce), (''consistencyLevel'', VNat 0), (''distance'', VNat 64),
        (''tokenWrapperFactoryAddress'', VStr ''''), (''tokenWrapperCodeHash'', VStr ''''), (''tokenWrapperBinCode'', VStr ''''),
        (''tokenBridgeForChainBinCode'', VStr '''')]"

text \<open>The address of the first output of the transaction, once it is in a block. An index outside the arrays is a
  \<open>TypeError\<close>.\<close>

definition createdIn :: "string list list \<Rightarrow> nat \<Rightarrow> string result" where
  "createdIn transactions txIndex =
     (case js_index transactions txIndex of
        Some (a # _) \<Rightarrow> Inr a
      | _ \<Rightarrow> Inl (TypeError ''Cannot read properties of undefined''))"

partial_function (option) getCreatedContractAddress :: "alph_node \<Rightarrow> string \<Rightarrow> node_history \<Rightarrow> (node_history \<times> string result) option" where
  "getCreatedContractAddress N txId h =
     (case nd_status N h txId of
        Inl e \<Rightarrow> Some (h @ [GetStatus txId], Inl e)
      | Inr st \<Rightarrow>
          (case st of
             NotConfirmed \<Rightarrow> getCreatedContractAddress N txId (h @ [GetStatus txId, Sleep 2000])
           | Confirmed blockHash txIndex \<Rightarrow>
               Some (h @ [GetStatus txId, GetBlock blockHash],
                 bindR (nd_block N (h @ [GetStatus txId]) blockHash) (\<lambda>transactions. createdIn transactions txIndex))))"

text \<open>Steps that may not end.\<close>

definition bindP :: "(node_history \<times> 'a result) option \<Rightarrow> (node_history \<Rightarrow> 'a \<Rightarrow> (node_history \<times> 'b result) option) \<Rightarrow>
    (node_history \<times> 'b result) option" where
  "bindP m f = (case m of None \<Rightarrow> None | Some (h, Inl e) \<Rightarrow> Some (h, Inl e) | Some (h, Inr x) \<Rightarrow> f h x)"

record remote_chains =
  rc_eth :: string
  rc_terra :: string
  rc_solana :: string
  rc_bsc :: string

definition registerOne :: "alph_node \<Rightarrow> string \<Rightarrow> string \<Rightarrow> node_history \<Rightarrow> (node_history \<times> string result) option" where
  "registerOne N tokenBridgeAddress vaa h =
     bindP (Some (registerChainToAlph N tokenBridgeAddress vaa devnetPayer dustAmount h)) (\<lambda>h txId.
     getCreatedContractAddress N txId h)"

definition registerChains :: "alph_node \<Rightarrow> string \<Rightarrow> node_history \<Rightarrow> (node_history \<times> remote_chains result) option" where
  "registerChains N tokenBridgeAddress h =
     bindP (registerOne N tokenBridgeAddress (registerVaas ! 0) h) (\<lambda>h bridgeForEth.
     bindP (registerOne N tokenBridgeAddress (registerVaas ! 1) h) (\<lambda>h bridgeForTerra.
     bindP (registerOne N tokenBridgeAddress (registerVaas ! 2) h) (\<lambda>h bridgeForSolana.
     bindP (registerOne N tokenBridgeAddress (registerVaas ! 3) h) (\<lambda>h bridgeForBsc.
     Some (h, Inr \<lparr>rc_eth = bridgeForEth, rc_terra = bridgeForTerra, rc_solana = bridgeForSolana, rc_bsc = bridgeForBsc\<rparr>)))))"

definition testWallet :: string where
  "testWallet = ''alephium-js-test-only-wallet''"

definition createWallet :: "alph_node \<Rightarrow> node_history \<Rightarrow> node_history \<times> unit result" where
  "createWallet N h =
     bindH (h @ [GetWallets], nd_getWallets N h) (\<lambda>h wallets.
     if testWallet \<in> set wallets then (h, Inr ())
     else (h @ [PutWallet testWallet], nd_putWallet N h testWallet))"

text \<open>\<open>deploy.ts\<close>; the two nonces are four random bytes each.\<close>

definition deploy :: "alph_node \<Rightarrow> bytes \<Rightarrow> bytes \<Rightarrow> (node_history \<times> string result) option" where
  "deploy N rand1 rand2 =
     bindP (Some (createWallet N [])) (\<lambda>h _.
     bindP (Some (deployContracts N devnetWormhole h)) (\<lambda>h contracts.
     bindP (registerChains N (dr_address (wc_tokenBridge contracts)) h) (\<lambda>h remoteChains.
     bindP (Some (deployTestToken N h)) (\<lambda>h testTokenId.
     bindP (Some (attestToken N (dr_address (wc_tokenBridge contracts)) (toHex rand1) testTokenId h)) (\<lambda>h _.
     bindP (Some (getToken N testTokenId devnetPayer (oneAlph * 10) h)) (\<lambda>h _.
     bindP (Some (createWrapperForLocalToken N (rc_eth remoteChains) testTokenId devnetPayer oneAlph h)) (\<lambda>h createWrapperTxId.
     bindP (getCreatedContractAddress N createWrapperTxId h) (\<lambda>h tokenWrapper.
     Some (transferLocal N (toHex rand2) tokenWrapper testTokenId devnetPayer
       (padStart 64 (CHR ''0'') ''0d0F183465284CB5cb426902445860456ed59b34'') (oneAlph * 5) devnetMessageFee h)))))))))"

section \<open>Waiting for a contract\<close>

definition waited :: "string \<Rightarrow> node_history \<Rightarrow> nat \<Rightarrow> node_history" where
  "waited txId h a = h @ concat (replicate a [GetStatus txId, Sleep 2000])"

definition statusBody :: "alph_node \<Rightarrow> string \<Rightarrow> node_history \<Rightarrow> nat \<Rightarrow> (node_history \<times> string result) option" where
  "statusBody N txId h a =
     (let h = waited txId h a in
      case nd_status N h txId of
        Inl e \<Rightarrow> Some (h @ [GetStatus txId], Inl e)
      | Inr NotConfirmed \<Rightarrow> None
      | Inr (Confirmed blockHash txIndex) \<Rightarrow>
          Some (h @ [GetStatus txId, GetBlock blockHash],
            bindR (nd_block N (h @ [GetStatus txId]) blockHash) (\<lambda>transactions. createdIn transactions txIndex)))"

lemma waited_simps [simp]: "waited txId h 0 = h" "waited txId h a @ [GetStatus txId, Sleep 2000] = waited txId h (Suc a)"
proof -
  show "waited txId h 0 = h" by (simp add: waited_def)
  have "concat (replicate a [GetStatus txId, Sleep 2000]) @ [GetStatus txId, Sleep 2000] =
      concat (replicate (Suc a) [GetStatus txId, Sleep 2000])"
    by (metis concat.simps(1,2) concat_append append_Nil2 replicate_Suc replicate_append_same)
  then show "waited txId h a @ [GetStatus txId, Sleep 2000] = waited txId h (Suc a)"
    by (simp add: waited_def del: replicate.simps)
qed

lemma getCreated_settles:
  assumes "getCreatedContractAddress N txId (waited txId h a) = Some r"
  shows "\<exists>k\<ge>a. statusBody N txId h k = Some r"
proof -
  have "\<forall>h a. waited txId h a = g \<longrightarrow> (\<exists>k\<ge>a. statusBody N txId h k = Some r)"
    if run: "getCreatedContractAddress N txId g = Some r" for g
  proof (rule getCreatedContractAddress.raw_induct [where P = "\<lambda>N t g r. \<forall>h a. waited t h a = g \<longrightarrow>
        (\<exists>k\<ge>a. statusBody N t h k = Some r)", OF _ run], intro allI impI)
    fix loop N t g r h a
    assume IH: "\<And>N t g r. loop N t g = Some r \<Longrightarrow> \<forall>h a. waited t h a = g \<longrightarrow> (\<exists>k\<ge>a. statusBody N t h k = Some r)"
      and run: "(case nd_status N g t of
          Inl e \<Rightarrow> Some (g @ [GetStatus t], Inl e)
        | Inr NotConfirmed \<Rightarrow> loop N t (g @ [GetStatus t, Sleep 2000])
        | Inr (Confirmed blockHash txIndex) \<Rightarrow> Some (g @ [GetStatus t, GetBlock blockHash],
            bindR (nd_block N (g @ [GetStatus t]) blockHash) (\<lambda>transactions. createdIn transactions txIndex))) = Some r"
      and g: "waited t h a = g"
    show "\<exists>k\<ge>a. statusBody N t h k = Some r"
    proof (cases "statusBody N t h a")
      case None
      then have "loop N t (waited t h (Suc a)) = Some r"
        using run by (auto simp: statusBody_def Let_def simp flip: g split: sum.splits tx_status.splits)
      then show ?thesis using IH Suc_leD by blast
    next
      case (Some r')
      then have "r' = r" using run by (auto simp: statusBody_def Let_def simp flip: g split: sum.splits tx_status.splits)
      then show ?thesis using Some by auto
    qed
  qed
  then show ?thesis using assms by blast
qed

interpretation created: attempt_loop "statusBody N txId h" "\<lambda>a. getCreatedContractAddress N txId (waited txId h a)" for N txId h
proof
  fix a
  show "getCreatedContractAddress N txId (waited txId h a) =
      (case statusBody N txId h a of Some r \<Rightarrow> Some r | None \<Rightarrow> getCreatedContractAddress N txId (waited txId h (Suc a)))"
    by (subst getCreatedContractAddress.simps) (simp add: statusBody_def Let_def split: sum.split tx_status.split)
qed (rule getCreated_settles)

section \<open>Scripts that were run\<close>

definition scripts :: "node_history \<Rightarrow> (string \<times> vars) list" where
  "scripts h = concat (map (\<lambda>c. case c of BuildScript file v \<Rightarrow> [(file, v)] | _ \<Rightarrow> []) h)"

lemma scripts_append [simp]: "scripts (h @ g) = scripts h @ scripts g"
  by (simp add: scripts_def)

lemma scripts_simps [simp]:
  "scripts [] = []" "scripts (BuildScript file v # h) = (file, v) # scripts h" "scripts (CompileContract file v # h) = scripts h"
  "scripts (CompileScript file v # h) = scripts h" "scripts (BuildDeploy c fs ia # h) = scripts h"
  "scripts (SubmitTransaction u t # h) = scripts h" "scripts (GetStatus t # h) = scripts h" "scripts (Sleep n # h) = scripts h"
  "scripts (GetBlock t # h) = scripts h" "scripts (GetWallets # h) = scripts h" "scripts (PutWallet w # h) = scripts h"
  by (simp_all add: scripts_def)

lemma bindP_eq_Inr [simp]:
  "bindP m f = Some (h', Inr y) \<longleftrightarrow> (\<exists>h x. m = Some (h, Inr x) \<and> f h x = Some (h', Inr y))"
  by (auto simp: bindP_def split: option.splits sum.splits)

lemma runScript_scripts: "runScript N file v h = (h', Inr t) \<Longrightarrow> scripts h' = scripts h @ [(file, v)]"
  by (auto simp: runScript_def bindH_eq_Inr submitTransaction_def)

lemma waited_scripts: "scripts (waited txId h a) = scripts h"
  by (induction a) (simp_all add: waited_def)

lemma statusBody_scripts: "statusBody N txId h k = Some (h', r) \<Longrightarrow> scripts h' = scripts h"
  by (auto simp: statusBody_def Let_def waited_scripts split: sum.splits tx_status.splits)

lemma getCreated_scripts: "getCreatedContractAddress N txId h = Some (h', r) \<Longrightarrow> scripts h' = scripts h"
  using created.settles [of N txId h 0 "(h', r)"] statusBody_scripts by auto

lemma deployContract_Inr:
  "deployContract N c fs h = (h', Inr d) \<longleftrightarrow>
     (\<exists>tx. nd_buildDeploy N h c fs None = Inr tx \<and>
        nd_submit N (h @ [BuildDeploy c fs None]) (dt_unsignedTx tx) (dt_txId tx) = Inr (dr_txId d) \<and>
        dr_address d = dt_contractAddress tx \<and> dr_groupIndex d = dt_group tx \<and>
        h' = h @ [BuildDeploy c fs None, SubmitTransaction (dt_unsignedTx tx) (dt_txId tx)])"
  by (cases d) (auto simp: deployContract_def bindH_eq_Inr submitTransaction_def)

lemma contractFrom_Inr [simp]:
  "contractFrom N file v h = (h', Inr c) \<longleftrightarrow> h' = h @ [CompileContract file v] \<and> nd_contract N h file v = Inr c"
  by (auto simp: contractFrom_def)

section \<open>Properties\<close>

text \<open>The call at a place of the log compiled a contract; the call there built a deployment that the next one submitted.\<close>

definition compiledAt :: "alph_node \<Rightarrow> node_history \<Rightarrow> nat \<Rightarrow> compiled \<Rightarrow> bool" where
  "compiledAt N h k c =
     (case h ! k of CompileContract file v \<Rightarrow> nd_contract N (take k h) file v = Inr c | _ \<Rightarrow> False)"

definition deployedAt :: "alph_node \<Rightarrow> node_history \<Rightarrow> nat \<Rightarrow> deploy_result \<Rightarrow> bool" where
  "deployedAt N h k d =
     (case h ! k of
        BuildDeploy c fs ia \<Rightarrow>
          (case nd_buildDeploy N (take k h) c fs ia of
             Inl e \<Rightarrow> False
           | Inr tx \<Rightarrow> h ! Suc k = SubmitTransaction (dt_unsignedTx tx) (dt_txId tx) \<and> dr_address d = dt_contractAddress tx \<and>
               nd_submit N (take (Suc k) h) (dt_unsignedTx tx) (dt_txId tx) = Inr (dr_txId d))
      | _ \<Rightarrow> False)"

text \<open>C26: when the deployment succeeds, it has deployed three contracts, in this order: the factory with the bytecode of the wrapper, the
  governance contract with its fields, and the token bridge with the address of that governance contract, whose template for chains
  knows the address of that factory; every compiled contract and every address in these calls is the node's answer to an earlier call
  of the log.\<close>

theorem deploy_wired:
  assumes "deployContracts N W h = (h', Inr r)"
  shows "\<exists>tw fac gov tbc tb u1 t1 u2 t2 u3 t3.
    length (wh_initGuardianSet W) \<le> 19 \<and>
    h' = h @
      [CompileContract ''token_wrapper.ral'' [(''tokenBridgeForChainBinCode'', VStr ''''), (''tokenWrapperBinCode'', VStr ''''),
         (''tokenWrapperCodeHash'', VStr ''''), (''tokenWrapperFactoryAddress'', VStr ''''), (''distance'', VNat 64)],
       CompileContract ''token_wrapper_factory.ral'' [(''tokenWrapperBinCode'', VStr (bytecode tw))],
       BuildDeploy fac None None, SubmitTransaction u1 t1,
       CompileContract ''governance.ral'' [(''distance'', VNat 64)],
       BuildDeploy gov (Some (governanceFields W)) None, SubmitTransaction u2 t2,
       CompileContract ''token_bridge_for_chain.ral'' [(''tokenWrapperFactoryAddress'', VStr (dr_address (wc_tokenWrapperFactory r))),
         (''tokenWrapperCodeHash'', VStr (codeHash tw)), (''distance'', VNat 64), (''tokenWrapperBinCode'', VStr ''''),
         (''tokenBridgeForChainBinCode'', VStr '''')],
       CompileContract ''token_bridge.ral'' [(''tokenBridgeForChainBinCode'', VStr (bytecode tbc)), (''tokenWrapperCodeHash'', VStr (codeHash tw)),
         (''distance'', VNat 64)],
       BuildDeploy tb (Some (tokenBridgeFields W (dr_address (wc_governance r)))) None, SubmitTransaction u3 t3] \<and>
    compiledAt N h' (length h) tw \<and> compiledAt N h' (length h + 1) fac \<and> compiledAt N h' (length h + 4) gov \<and>
    compiledAt N h' (length h + 7) tbc \<and> compiledAt N h' (length h + 8) tb \<and>
    deployedAt N h' (length h + 2) (wc_tokenWrapperFactory r) \<and> deployedAt N h' (length h + 5) (wc_governance r) \<and>
    deployedAt N h' (length h + 9) (wc_tokenBridge r)"
  using assms
  apply (clarsimp simp: deployContracts_def bindH_eq_Inr deployTokenWrapperFactory_def deployGovernance_def deployTokenBridge_def
      tokenWrapperContract_def tokenBridgeForChainContract_def deployContract_Inr split: if_splits)
  subgoal for tw fac factory tx1 gov governance tx2 tbc tb tx3
    by (rule exI [of _ tw], intro conjI refl) (auto simp: compiledAt_def deployedAt_def nth_append)
  done

text \<open>the guardian sets of the governance contract have 19 entries each, the current one the guardians in their order, and their
  sizes are stated beside them.\<close>

theorem guardians_padded:
  assumes "length gs \<le> 19"
  shows "\<exists>prev cur. guardianSets gs = VArr [VArr prev, VArr cur] \<and> length prev = 19 \<and> length cur = 19 \<and> take (length gs) cur = map VStr gs \<and>
    (\<forall>i<19. length gs \<le> i \<longrightarrow> cur ! i = VStr Byte32Zero)"
  using assms by (auto simp: guardianSets_def Let_def nth_append)

text \<open>a guardian set that is too large is found out only after the factory has been deployed: the deployment fails and leaves the
  factory behind.\<close>

theorem too_many_guardians:
  assumes "19 < length (wh_initGuardianSet W)" "deployContracts N W h = (h', Inl e)"
    and "tokenWrapperContract N h = (h1, Inr tw)" "deployTokenWrapperFactory N (bytecode tw) h1 = (h2, Inr factory)"
    and "contractFrom N ''governance.ral'' [(''distance'', VNat 64)] h2 = (h3, Inr gov)"
  shows "e = Error ''init guardian set size larger than 19'' \<and>
    (\<exists>u t. SubmitTransaction u t \<in> set h' \<and> nd_submit N (butlast h2) u t = Inr (dr_txId factory))"
proof -
  have h': "h' = h3" "e = Error ''init guardian set size larger than 19''"
    using assms by (auto simp: deployContracts_def deployGovernance_def)
  obtain u t where "h2 = butlast h2 @ [SubmitTransaction u t]" "nd_submit N (butlast h2) u t = Inr (dr_txId factory)"
    using assms(4) by (auto simp: deployTokenWrapperFactory_def bindH_eq_Inr deployContract_Inr butlast_append)
  moreover have "set h2 \<subseteq> set h3" using assms(5) by (auto simp: contractFrom_def)
  ultimately show ?thesis using h' by (metis in_set_conv_decomp subsetD)
qed

text \<open>waiting for a created contract returns exactly if at some time the status of the transaction cannot be had or it is in a
  block.\<close>

theorem created_returns_iff:
  "(\<exists>r. getCreatedContractAddress N txId h = Some r) \<longleftrightarrow> (\<exists>k. nd_status N (waited txId h k) txId \<noteq> Inr NotConfirmed)"
proof -
  have "statusBody N txId h k \<noteq> None \<longleftrightarrow> nd_status N (waited txId h k) txId \<noteq> Inr NotConfirmed" for k
    by (auto simp: statusBody_def Let_def split: sum.splits tx_status.splits)
  then show ?thesis using created.loop_returns_iff [of N txId h 0] by simp
qed

definition registerVars :: "string \<Rightarrow> string \<Rightarrow> vars" where
  "registerVars tokenBridgeAddress vaa =
     [(''tokenBridgeAddress'', VStr tokenBridgeAddress), (''vaa'', VStr vaa), (''payer'', VStr devnetPayer), (''amount'', VNat dustAmount),
      (''tokenBridgeForChainBinCode'', VStr ''''), (''tokenWrapperCodeHash'', VStr ''''), (''distance'', VNat 64)]"

lemma registerOne_scripts:
  "registerOne N tb vaa h = Some (h', Inr a) \<Longrightarrow> scripts h' = scripts h @ [(''register_chain.ral'', registerVars tb vaa)]"
  by (auto simp: registerOne_def registerChainToAlph_def registerVars_def dest!: runScript_scripts getCreated_scripts)

lemma registerVaas_nth: "registerVaas = [registerVaas ! 0, registerVaas ! 1, registerVaas ! 2, registerVaas ! 3]"
  by (simp add: registerVaas_def)

lemma registerChains_scripts:
  assumes "registerChains N tb h = Some (h', Inr rc)"
  shows "scripts h' = scripts h @ map (\<lambda>vaa. (''register_chain.ral'', registerVars tb vaa)) registerVaas"
  using assms by (subst registerVaas_nth) (auto simp: registerChains_def dest!: registerOne_scripts)

lemma createWallet_scripts: "createWallet N h = (h', Inr x) \<Longrightarrow> scripts h' = scripts h"
  by (auto simp: createWallet_def bindH_eq_Inr split: if_splits)

lemma deployContracts_scripts: "deployContracts N W h = (h', Inr r) \<Longrightarrow> scripts h' = scripts h"
  by (auto simp: deployContracts_def bindH_eq_Inr deployTokenWrapperFactory_def deployGovernance_def deployTokenBridge_def
      tokenWrapperContract_def tokenBridgeForChainContract_def deployContract_Inr split: if_splits)

lemma deployTestToken_scripts: "deployTestToken N h = (h', Inr r) \<Longrightarrow> scripts h' = scripts h"
  by (auto simp: deployTestToken_def bindH_eq_Inr Let_def submitTransaction_def)

text \<open>a deployment that ends well has run its scripts in order: the registrations of the four chains with the bridge it deployed,
  the attestation, the withdrawal of test tokens, the creation of their wrapper on the bridge for Ethereum, and last the transfer
  through that wrapper.\<close>

theorem deploy_scripts:
  assumes "deploy N rand1 rand2 = Some (h, Inr txId)"
  shows "\<exists>tb token rc wrapper v1 v2 v3 v4 h1 h2 t h3 h4.
    scripts h = map (\<lambda>vaa. (''register_chain.ral'', registerVars tb vaa)) registerVaas @
      [(''attest_token.ral'', v1), (''get_token.ral'', v2), (''create_local_wrapper.ral'', v3), (''transfer_local.ral'', v4)] \<and>
    map_of v1 ''tokenBridgeAddress'' = Some (VStr tb) \<and> map_of v1 ''tokenId'' = Some (VStr token) \<and>
    map_of v2 ''tokenAddress'' = Some (VStr token) \<and>
    registerChains N tb h1 = Some (h2, Inr rc) \<and> map_of v3 ''tokenBridgeForChainAddress'' = Some (VStr (rc_eth rc)) \<and>
    map_of v3 ''tokenId'' = Some (VStr token) \<and>
    last (scripts h3) = (''create_local_wrapper.ral'', v3) \<and> getCreatedContractAddress N t h3 = Some (h4, Inr wrapper) \<and>
    map_of v4 ''tokenWrapperAddress'' = Some (VStr wrapper) \<and> map_of v4 ''tokenId'' = Some (VStr token)"
proof -
  obtain h0 w c h1 h2 rc h3 token h4 x h5 y h6 t h7 wrapper
    where steps: "createWallet N [] = (h0, Inr w)" "deployContracts N devnetWormhole h0 = (h1, Inr c)"
      "registerChains N (dr_address (wc_tokenBridge c)) h1 = Some (h2, Inr rc)" "deployTestToken N h2 = (h3, Inr token)"
      "attestToken N (dr_address (wc_tokenBridge c)) (toHex rand1) token h3 = (h4, Inr x)"
      "getToken N token devnetPayer (oneAlph * 10) h4 = (h5, Inr y)"
      "createWrapperForLocalToken N (rc_eth rc) token devnetPayer oneAlph h5 = (h6, Inr t)"
      "getCreatedContractAddress N t h6 = Some (h7, Inr wrapper)"
      "transferLocal N (toHex rand2) wrapper token devnetPayer (padStart 64 (CHR ''0'') ''0d0F183465284CB5cb426902445860456ed59b34'')
         (oneAlph * 5) devnetMessageFee h7 = (h, Inr txId)"
    using assms unfolding deploy_def bindP_eq_Inr option.inject by (elim exE conjE) (rule that; assumption)
  let ?tb = "dr_address (wc_tokenBridge c)"
  have start: "scripts h3 = map (\<lambda>vaa. (''register_chain.ral'', registerVars ?tb vaa)) registerVaas"
    using createWallet_scripts [OF steps(1)] deployContracts_scripts [OF steps(2)] registerChains_scripts [OF steps(3)]
      deployTestToken_scripts [OF steps(4)] by simp
  note run = steps(5) [unfolded attestToken_def, THEN runScript_scripts] steps(6) [unfolded getToken_def, THEN runScript_scripts]
    steps(7) [unfolded createWrapperForLocalToken_def, THEN runScript_scripts] getCreated_scripts [OF steps(8)]
    steps(9) [unfolded transferLocal_def, THEN runScript_scripts]
  show ?thesis
    by (rule exI [of _ ?tb], rule exI [of _ token], rule exI [of _ rc], rule exI [of _ wrapper], intro exI, intro conjI,
        unfold run start append_assoc append_Cons append_Nil, rule refl, (simp; fail)+, rule steps(3), (simp; fail)+)
      (use run steps(8) in simp_all)
qed


section \<open>Examples\<close>

definition demo_node :: alph_node where
  "demo_node = \<lparr>nd_getWallets = (\<lambda>_. Inr []), nd_putWallet = (\<lambda>_ _. Inr ()),
     nd_contract = (\<lambda>_ file _. Inr \<lparr>bytecode = file, codeHash = file\<rparr>), nd_script = (\<lambda>_ _ _. Inr ()),
     nd_buildDeploy = (\<lambda>_ c _ _. Inr \<lparr>dt_group = 0, dt_contractAddress = bytecode c, dt_unsignedTx = bytecode c, dt_txId = codeHash c\<rparr>),
     nd_buildScript = (\<lambda>_ file _. Inr \<lparr>st_unsignedTx = file, st_txId = file\<rparr>), nd_submit = (\<lambda>_ _ t. Inr t),
     nd_status = (\<lambda>_ _. Inr (Confirmed ''block'' 0)), nd_block = (\<lambda>_ _. Inr [[''contract'', ''change'']])\<rparr>"

lemma demo_created [simp]:
  "getCreatedContractAddress demo_node t h = Some (h @ [GetStatus t, GetBlock ''block''], Inr ''contract'')"
  by (subst getCreatedContractAddress.simps) (simp add: demo_node_def createdIn_def js_index_def)

lemma demo_contract [simp]: "contractFrom demo_node file v h = (h @ [CompileContract file v], Inr \<lparr>bytecode = file, codeHash = file\<rparr>)"
  by (simp add: contractFrom_def demo_node_def)

lemma demo_deploy [simp]:
  "deployContract demo_node c fs h = (h @ [BuildDeploy c fs None, SubmitTransaction (bytecode c) (codeHash c)],
     Inr \<lparr>dr_groupIndex = 0, dr_address = bytecode c, dr_txId = codeHash c\<rparr>)"
  by (simp add: deployContract_def demo_node_def submitTransaction_def)

lemma demo_script [simp]:
  "runScript demo_node file v h = (h @ [CompileScript file v, BuildScript file v, SubmitTransaction file file], Inr file)"
  by (simp add: runScript_def demo_node_def submitTransaction_def)

lemma demo_deployed: "\<exists>h' r. deployContracts demo_node devnetWormhole [] = (h', Inr r)"
  by (simp add: deployContracts_def deployTokenWrapperFactory_def deployGovernance_def deployTokenBridge_def tokenWrapperContract_def
      tokenBridgeForChainContract_def devnetWormhole_def)

theorem deploy_wired_witness:
  "\<exists>h' r. deployContracts demo_node devnetWormhole [] = (h', Inr r) \<and> deployedAt demo_node h' 9 (wc_tokenBridge r)"
  using demo_deployed deploy_wired [of demo_node devnetWormhole "[]"] by fastforce

theorem guardians_padded_witness:
  "\<exists>prev cur. guardianSets [''a'', ''b''] = VArr [VArr prev, VArr cur] \<and> length prev = 19 \<and> length cur = 19 \<and>
    take 2 cur = [VStr ''a'', VStr ''b'']"
  using guardians_padded [of "[''a'', ''b'']"] by (auto simp: numeral_2_eq_2)

definition demo_crowd :: wormhole where
  "demo_crowd = devnetWormhole\<lparr>wh_initGuardianSet := replicate 20 Byte32Zero\<rparr>"

theorem too_many_guardians_witness:
  "\<exists>h'. deployContracts demo_node demo_crowd [] = (h', Inl (Error ''init guardian set size larger than 19'')) \<and>
    (\<exists>u t. SubmitTransaction u t \<in> set h')"
proof -
  define h1 where "h1 = fst (tokenWrapperContract demo_node [])"
  define h2 where "h2 = fst (deployTokenWrapperFactory demo_node ''token_wrapper.ral'' h1)"
  define h' where "h' = h2 @ [CompileContract ''governance.ral'' [(''distance'', VNat 64)]]"
  have size: "19 < length (wh_initGuardianSet demo_crowd)" by (simp add: demo_crowd_def)
  have run: "deployContracts demo_node demo_crowd [] = (h', Inl (Error ''init guardian set size larger than 19''))"
    using size by (simp add: deployContracts_def deployTokenWrapperFactory_def deployGovernance_def tokenWrapperContract_def h'_def h1_def h2_def)
  have wrapper: "tokenWrapperContract demo_node [] = (h1, Inr \<lparr>bytecode = ''token_wrapper.ral'', codeHash = ''token_wrapper.ral''\<rparr>)"
    by (simp add: tokenWrapperContract_def h1_def)
  have factory: "deployTokenWrapperFactory demo_node (bytecode \<lparr>bytecode = ''token_wrapper.ral'', codeHash = ''token_wrapper.ral''\<rparr>) h1 =
      (h2, Inr \<lparr>dr_groupIndex = 0, dr_address = ''token_wrapper_factory.ral'', dr_txId = ''token_wrapper_factory.ral''\<rparr>)"
    by (simp add: deployTokenWrapperFactory_def h2_def)
  show ?thesis
    using too_many_guardians [OF size run wrapper factory demo_contract] run by blast
qed

lemma demo_test_token: "\<exists>h' t. deployTestToken demo_node h = (h', Inr t)"
  by (simp add: deployTestToken_def demo_node_def contractFrom_def submitTransaction_def Let_def)

lemma bindP_Some [simp]: "bindP (Some (h, Inr x)) f = f h x"
  by (simp add: bindP_def)

lemma demo_register: "\<exists>h' rc. registerChains demo_node tb h = Some (h', Inr rc)"
  by (simp add: registerChains_def registerOne_def registerChainToAlph_def)

lemma demo_wallet: "createWallet demo_node [] = ([GetWallets, PutWallet testWallet], Inr ())"
  by (simp add: createWallet_def demo_node_def)

theorem deploy_scripts_witness:
  "\<exists>h txId token v1 v2 v3 v4. deploy demo_node [1, 2, 3, 4] [5, 6, 7, 8] = Some (h, Inr txId) \<and>
    drop 4 (scripts h) = [(''attest_token.ral'', v1), (''get_token.ral'', v2), (''create_local_wrapper.ral'', v3), (''transfer_local.ral'', v4)] \<and>
    map_of v1 ''tokenId'' = Some (VStr token) \<and> map_of v4 ''tokenId'' = Some (VStr token)"
proof -
  have "\<exists>h c. deployContracts demo_node devnetWormhole g = (h, Inr c)" for g
    by (simp add: deployContracts_def deployTokenWrapperFactory_def deployGovernance_def deployTokenBridge_def tokenWrapperContract_def
        tokenBridgeForChainContract_def devnetWormhole_def)
  then obtain h1 c where c: "deployContracts demo_node devnetWormhole [GetWallets, PutWallet testWallet] = (h1, Inr c)" by blast
  obtain h2 rc where rc: "registerChains demo_node (dr_address (wc_tokenBridge c)) h1 = Some (h2, Inr rc)" using demo_register by blast
  obtain h3 t where t: "deployTestToken demo_node h2 = (h3, Inr t)" using demo_test_token by blast
  have "\<exists>h txId. deploy demo_node [1, 2, 3, 4] [5, 6, 7, 8] = Some (h, Inr txId)"
    by (simp add: deploy_def demo_wallet c rc t attestToken_def getToken_def createWrapperForLocalToken_def transferLocal_def
        del: toHex_simps)
  then obtain h txId where run: "deploy demo_node [1, 2, 3, 4] [5, 6, 7, 8] = Some (h, Inr txId)" by blast
  have "length registerVaas = 4" by (simp add: registerVaas_def)
  then show ?thesis using deploy_scripts [OF run] run by fastforce
qed

end
