(* ===== verification/PriceTools.thy ===== *)
theory PriceTools
  imports Base64 Payloads Serde
begin

text \<open>
  The tools of the Algorand price caster, \<open>staging/algorand/tools/app-tools.js\<close>: integers as bytes, and how the state of an
  application is read. SHA-512/256 and base32 are parameters. The functions that print are left out.
\<close>

unbundle bit_operations_syntax

section \<open>Bytes\<close>

text \<open>The loop of \<open>getInt64Bytes\<close>: \<open>x\<close> is a 32-bit integer as soon as an operator on bits has read it. The length is not negative.\<close>

fun int64Loop :: "nat \<Rightarrow> 32 word \<Rightarrow> bytes \<Rightarrow> bytes" where
  "int64Loop 0 x bs = bs"
| "int64Loop (Suc len) x bs = int64Loop len (signed_drop_bit 8 x) (bs[len := ucast (x AND 255)])"

definition getInt64Bytes :: "rat \<Rightarrow> nat option \<Rightarrow> bytes" where
  "getInt64Bytes x len =
     (let len = (case len of None \<Rightarrow> 8 | Some n \<Rightarrow> if n = 0 then 8 else n) in
      int64Loop len (toInt32 x) (replicate len 0))"

definition uintArray8ToString :: "bytes \<Rightarrow> string" where
  "uintArray8ToString byteArray =
     concat (map (\<lambda>b. let s = CHR ''0'' # nat_to_hex (unat (b AND 255)) in drop (length s - 2) s) byteArray)"

section \<open>Values of the state\<close>

record app_libs =
  al_sha512_256 :: "bytes \<Rightarrow> bytes"
  al_base32 :: "bytes \<Rightarrow> string"

definition ALGORAND_ADDRESS_SIZE :: nat where
  "ALGORAND_ADDRESS_SIZE = 58"

definition addressFromByteBuffer :: "app_libs \<Rightarrow> string \<Rightarrow> string" where
  "addressFromByteBuffer L addr =
     (let bs = base64Decode addr;
          checksum = js_slice (al_sha512_256 L bs) 28 32;
          v = al_base32 L (bs @ checksum) in
      js_slice v 0 ALGORAND_ADDRESS_SIZE)"

record state_value =
  sv_type :: nat
  sv_bytes :: string
  sv_uint :: nat

datatype app_value = AText string | AUint nat

definition appValueState :: "app_libs \<Rightarrow> state_value \<Rightarrow> app_value" where
  "appValueState L stateValue =
     (if sv_type stateValue = 1 then
        (let addr = addressFromByteBuffer L (sv_bytes stateValue) in
         if length addr = ALGORAND_ADDRESS_SIZE then AText addr else AText (sv_bytes stateValue))
      else if sv_type stateValue = 2 then AUint (sv_uint stateValue)
      else AText (sv_bytes stateValue))"

definition appValueStateString :: "app_libs \<Rightarrow> state_value \<Rightarrow> string" where
  "appValueStateString L stateValue =
     (if sv_type stateValue = 1 then
        (let addr = addressFromByteBuffer L (sv_bytes stateValue) in
         if length addr = ALGORAND_ADDRESS_SIZE then addr else sv_bytes stateValue)
      else if sv_type stateValue = 2 then decimal (sv_uint stateValue)
      else sv_bytes stateValue)"

section \<open>The state of an application\<close>

text \<open>Keys are Base64. A state that an application does not have is undefined; so may be the identifier asked for.\<close>

type_synonym app_state = "(string \<times> state_value) list"

record created_app =
  ca_id :: nat
  ca_globalState :: "app_state option"

record local_app =
  la_id :: nat
  la_keyValue :: "app_state option"

record account_info =
  ai_created :: "created_app list"
  ai_local :: "local_app list"

datatype lookup = LUndefined | LNull | LValue app_value

definition keyText :: "string \<Rightarrow> text_cp" where
  "keyText k = utf8_decode (base64Decode k)"

definition stateEntry :: "app_libs \<Rightarrow> text_cp \<Rightarrow> app_state \<Rightarrow> app_value option" where
  "stateEntry L key st = map_option (\<lambda>(k, v). appValueState L v) (find (\<lambda>(k, v). keyText k = key) st)"

definition readAppGlobalState :: "account_info \<Rightarrow> nat option \<Rightarrow> app_state option" where
  "readAppGlobalState info appId =
     (case find (\<lambda>a. Some (ca_id a) = appId) (ai_created info) of None \<Rightarrow> None | Some a \<Rightarrow> ca_globalState a)"

text \<open>An application that has not the key does not end the search for the identifier; one without a state is a \<open>TypeError\<close>.\<close>

fun searchCreated :: "app_libs \<Rightarrow> created_app list \<Rightarrow> nat option \<Rightarrow> text_cp \<Rightarrow> lookup result" where
  "searchCreated L [] appId key = Inr LUndefined"
| "searchCreated L (a # as) appId key =
     (if Some (ca_id a) = appId then
        (case ca_globalState a of
           None \<Rightarrow> Inl (TypeError ''Cannot read properties of undefined'')
         | Some st \<Rightarrow> (case stateEntry L key st of Some v \<Rightarrow> Inr (LValue v) | None \<Rightarrow> searchCreated L as appId key))
      else searchCreated L as appId key)"

definition readAppGlobalStateByKey :: "app_libs \<Rightarrow> account_info \<Rightarrow> nat option \<Rightarrow> text_cp \<Rightarrow> lookup result" where
  "readAppGlobalStateByKey L info appId key = searchCreated L (ai_created info) appId key"

definition readAppLocalState :: "account_info \<Rightarrow> nat option \<Rightarrow> app_state option" where
  "readAppLocalState info appId =
     (case find (\<lambda>a. Some (la_id a) = appId \<and> la_keyValue a \<noteq> None) (ai_local info) of None \<Rightarrow> None | Some a \<Rightarrow> la_keyValue a)"

definition readAppLocalStateByKey :: "app_libs \<Rightarrow> account_info \<Rightarrow> nat option \<Rightarrow> text_cp \<Rightarrow> lookup" where
  "readAppLocalStateByKey L info appId key =
     (case find (\<lambda>a. Some (la_id a) = appId) (ai_local info) of
        None \<Rightarrow> LUndefined
      | Some a \<Rightarrow>
          (case la_keyValue a of
             None \<Rightarrow> LNull
           | Some st \<Rightarrow> (case stateEntry L key st of Some v \<Rightarrow> LValue v | None \<Rightarrow> LValue (AUint 0))))"

section \<open>Properties\<close>

lemma sint_shift8: "sint (signed_drop_bit 8 w) = sint (w :: 32 word) div 256"
  by (simp add: sint_signed_drop_bit_eq drop_bit_eq_div)

lemma low_byte: "ucast (w AND 255) = (word_of_int (sint (w :: 32 word)) :: byte)"
proof -
  have "w AND 255 = take_bit 8 w" by (simp add: take_bit_eq_mask mask_eq_exp_minus_1)
  then have "(ucast (w AND 255) :: byte) = word_of_int (uint (take_bit 8 w))" by (simp only: ucast_eq)
  also have "\<dots> = word_of_int (sint w)"
    unfolding word_of_int_eq_iff sint_uint by (simp add: unsigned_take_bit_eq take_bit_signed_take_bit)
  finally show ?thesis .
qed

text \<open>the bytes are those of the number as a 32-bit integer, extended with its sign, most significant first.\<close>

theorem int64Loop_value:
  assumes "len \<le> length bs"
  shows "int64Loop len x bs = be_bytes len (nat (sint x mod 256 ^ len)) @ drop len bs"
  using assms
proof (induction len arbitrary: x bs)
  case (Suc len)
  have "nat (sint x div 256 mod 256 ^ len) = nat (sint x mod 256 ^ Suc len) div 256"
    by (simp add: mod_mult2_eq' nat_div_distrib zmod_zmult2_eq)
  moreover have "(word_of_int (sint x) :: byte) = of_nat (nat (sint x mod 256 ^ Suc len))"
  proof -
    have "(of_nat (nat (sint x mod 256 ^ Suc len)) :: byte) = word_of_int (sint x mod 256 ^ Suc len)"
      by (metis of_int_of_nat_eq pos_mod_sign zero_less_power zero_less_numeral nat_0_le)
    also have "\<dots> = word_of_int (sint x)"
      unfolding word_of_int_eq_iff by (simp add: take_bit_eq_mod mod_mod_cancel)
    finally show ?thesis by (rule sym)
  qed
  ultimately show ?case using Suc
    by (simp add: sint_shift8 low_byte drop_update_swap Cons_nth_drop_Suc [symmetric])
qed simp

theorem int64Loop_value_witness: "int64Loop 3 (2 :: 32 word) [1, 1, 1, 9] = be_bytes 3 (nat (sint (2 :: 32 word) mod 256 ^ 3)) @ [9]"
  using int64Loop_value [of 3 "[1, 1, 1, 9]" 2] by simp

lemma getInt64Bytes_value: "getInt64Bytes x None = be_bytes 8 (nat (sint (toInt32 x) mod 256 ^ 8))"
  using int64Loop_value [of 8 "replicate 8 0" "toInt32 x"] by (simp add: getInt64Bytes_def del: int64Loop.simps be_bytes.simps)

text \<open>the eight bytes of a 64-bit integer are those of its two's complement exactly if it fits into 32 bits.\<close>

theorem getInt64Bytes_exact:
  assumes "- (2 ^ 63) \<le> n" "n < 2 ^ 63"
  shows "getInt64Bytes (of_int n) None = be_bytes 8 (nat (n mod 2 ^ 64)) \<longleftrightarrow> - (2 ^ 31) \<le> n \<and> n < 2 ^ 31"
proof -
  let ?w = "toInt32 (of_int n)"
  have w: "sint ?w = signed_take_bit 31 n" by (simp add: toInt32_def js_trunc_def signed_of_int)
  have range: "- (2 ^ 31) \<le> sint ?w" "sint ?w < 2 ^ 31"
    unfolding w using signed_take_bit_int_greater_eq_minus_exp [of 31 n] signed_take_bit_int_less_exp [of 31 n] by simp_all
  have "getInt64Bytes (of_int n) None = be_bytes 8 (nat (n mod 2 ^ 64)) \<longleftrightarrow> nat (sint ?w mod 2 ^ 64) = nat (n mod 2 ^ 64)"
  proof -
    have p: "(256 :: int) ^ 8 = 2 ^ 64" by simp
    have "nat (sint ?w mod 2 ^ 64) < 256 ^ 8" "nat (n mod 2 ^ 64) < 256 ^ 8" by (simp_all add: nat_less_iff)
    then show ?thesis
      using be_nat_be_bytes_id [of "nat (sint ?w mod 2 ^ 64)" 8] be_nat_be_bytes_id [of "nat (n mod 2 ^ 64)" 8]
      unfolding getInt64Bytes_value p by metis
  qed
  also have "\<dots> \<longleftrightarrow> sint ?w mod 2 ^ 64 = n mod 2 ^ 64" by (simp add: eq_nat_nat_iff)
  also have "\<dots> \<longleftrightarrow> sint ?w = n"
  proof
    assume "sint ?w mod 2 ^ 64 = n mod 2 ^ 64"
    then obtain q where q: "sint ?w - n = 2 ^ 64 * q" by (metis mod_eq_dvd_iff dvd_def)
    have "q = 0" using q range assms by simp
    then show "sint ?w = n" using q by simp
  qed simp
  also have "\<dots> \<longleftrightarrow> - (2 ^ 31) \<le> n \<and> n < 2 ^ 31"
    using range signed_take_bit_int_eq_self [of 31 n] unfolding w by auto
  finally show ?thesis .
qed

theorem getInt64Bytes_exact_witness: "getInt64Bytes (of_int (- 5)) None = be_bytes 8 (nat (- 5 mod 2 ^ 64)) \<longleftrightarrow> - (2 ^ 31) \<le> (- 5 :: int)"
  using getInt64Bytes_exact [of "- 5"] by (simp del: be_bytes.simps)

text \<open>a byte string of fewer than 32 bytes is given as its Base64; a longer one is taken for an address of 58 characters.\<close>

theorem appValueState_text:
  assumes "\<And>c. length (al_base32 L c) = 8 * ((length c + 4) div 5)" "\<And>bs. length (al_sha512_256 L bs) = 32" "sv_type v = 1"
  shows "(length (base64Decode (sv_bytes v)) < 32 \<longrightarrow> appValueState L v = AText (sv_bytes v)) \<and>
    (32 \<le> length (base64Decode (sv_bytes v)) \<longrightarrow> (\<exists>addr. appValueState L v = AText addr \<and> length addr = ALGORAND_ADDRESS_SIZE))"
proof -
  let ?n = "length (base64Decode (sv_bytes v))"
  have len: "length (addressFromByteBuffer L (sv_bytes v)) = min 58 (8 * ((?n + 4 + 4) div 5))"
    using assms by (simp add: addressFromByteBuffer_def Let_def ALGORAND_ADDRESS_SIZE_def)
  have "8 * q < 58 \<longleftrightarrow> q < 8" for q :: nat by arith
  moreover have "(?n + 4 + 4) div 5 < 8 \<longleftrightarrow> ?n < 32" by (simp add: div_less_iff_less_mult less_diff_conv2)
  ultimately have "8 * ((?n + 4 + 4) div 5) < 58 \<longleftrightarrow> ?n < 32" by simp
  then show ?thesis using len assms(3) by (auto simp: appValueState_def Let_def ALGORAND_ADDRESS_SIZE_def)
qed

definition demo_app_libs :: app_libs where
  "demo_app_libs = \<lparr>al_sha512_256 = (\<lambda>bs. replicate 32 (of_nat (length bs))),
     al_base32 = (\<lambda>c. replicate (8 * ((length c + 4) div 5)) (CHR ''A''))\<rparr>"

theorem appValueState_text_witness:
  "appValueState demo_app_libs \<lparr>sv_type = 1, sv_bytes = base64 [1, 2, 3], sv_uint = 0\<rparr> = AText (base64 [1, 2, 3])"
  using appValueState_text [of demo_app_libs "\<lparr>sv_type = 1, sv_bytes = base64 [1, 2, 3], sv_uint = 0\<rparr>"]
  by (simp add: demo_app_libs_def del: base64.simps)

text \<open>the text of a byte array is its hexadecimal.\<close>

theorem uintArray8ToString_hex: "uintArray8ToString bs = toHex bs"
proof -
  have "(let s = CHR ''0'' # nat_to_hex (unat (b AND 255)) in drop (length s - 2) s) = byte_hex b" for b :: byte
  proof -
    have "(255 :: byte) = - 1" by simp
    then have b: "b AND 255 = b" by (simp only: and.right_neutral)
    have "length (nat_to_hex (unat b)) \<le> 2" using length_nat_to_hex_le [of "unat b" 2] by simp
    moreover have "length (nat_to_hex (unat b)) \<noteq> 0" by simp
    ultimately consider "length (nat_to_hex (unat b)) = 1" | "length (nat_to_hex (unat b)) = 2" by linarith
    then show ?thesis by cases (simp_all add: b byte_hex_def padStart_def Let_def)
  qed
  then show ?thesis by (simp add: uintArray8ToString_def toHex_def)
qed

end
