(* ===== verification/PriceCaster.thy ===== *)
theory PriceCaster
  imports PriceTools SignedVAA Addresses Solana
begin

text \<open>
  The library of the Algorand price caster, \<open>staging/algorand/lib/pricecaster.js\<close>: creating, calling and deleting
  applications, waiting for a transaction, and groups of transactions. The package algosdk, the node and the callback that signs are
  parameters; the node's answers may depend on all calls made so far. The state holds the contracts of the module, the groups that
  are open, the files and the log of calls. Functions that print are left out.
\<close>

section \<open>Transactions and the packages\<close>

record sugg_params =
  sp_fee :: nat
  sp_flatFee :: bool
  sp_network :: string

text \<open>The kinds of application transaction. An identifier may be undefined.\<close>

datatype app_call =
    CreateCall bytes bytes nat nat nat nat "bytes list"
  | NoOpCall "nat option" "bytes list" "string list option" "bytes option"
  | ClearStateCall "nat option"
  | DeleteCall "nat option"

record app_tx =
  tx_sender :: string
  tx_params :: sugg_params
  tx_call :: app_call
  tx_group :: "bytes option"

text \<open>A number where one is expected, or an array of texts.\<close>

datatype num_arg = Num nat | Texts "string list"

text \<open>\<open>sdk_refuses\<close> is what the functions \<open>makeApplication\<dots>Txn\<close> throw when given these values.\<close>

record algosdk =
  sdk_refuses :: "app_tx \<Rightarrow> js_error option"
  sdk_txID :: "app_tx \<Rightarrow> string"
  sdk_computeGroupID :: "app_tx list \<Rightarrow> bytes result"
  sdk_encodeUint64 :: "num_arg \<Rightarrow> bytes result"
  sdk_isValidAddress :: "string \<Rightarrow> bool"
  sdk_publicKey :: "string \<Rightarrow> bytes result"
  sdk_signLogicSig :: "bytes \<Rightarrow> bytes list \<Rightarrow> app_tx \<Rightarrow> bytes result"

type_synonym sign_callback = "string \<Rightarrow> app_tx \<Rightarrow> bytes result"

text \<open>What is thrown: an exception, or the error of the node's client, which carries the response with its text, and prints.\<close>

datatype algo_error = Thrown js_error | HttpError string string

type_synonym 'a ares = "algo_error + 'a"

datatype algod_call =
    GetParams
  | Compile text_cp
  | SendRaw "bytes list"
  | Status
  | StatusAfterBlock nat
  | PendingInfo string
  | AccountInformation string

record pending_info =
  pi_confirmedRound :: "nat option"
  pi_applicationIndex :: "nat option"

type_synonym algod_log = "algod_call list"

record algod =
  ad_params :: "algod_log \<Rightarrow> sugg_params ares"
  ad_compile :: "algod_log \<Rightarrow> text_cp \<Rightarrow> (string \<times> string) ares"
  ad_send :: "algod_log \<Rightarrow> bytes list \<Rightarrow> string ares"
  ad_status :: "algod_log \<Rightarrow> nat ares"
  ad_statusAfter :: "algod_log \<Rightarrow> nat \<Rightarrow> unit ares"
  ad_pending :: "algod_log \<Rightarrow> string \<Rightarrow> pending_info ares"
  ad_account :: "algod_log \<Rightarrow> string \<Rightarrow> account_info ares"

section \<open>The state of the library\<close>

datatype contract = Pricekeeper | VaaProcessor

record contract_info =
  ci_approvalProgramFile :: string
  ci_clearStateProgramFile :: string
  ci_compiledApproval :: "(bytes \<times> string) option"
  ci_compiledClearState :: "(bytes \<times> string) option"
  ci_appId :: nat

definition ContractInfo :: "contract \<Rightarrow> contract_info" where
  "ContractInfo c =
     (case c of
        Pricekeeper \<Rightarrow> \<lparr>ci_approvalProgramFile = ''teal/wormhole/build/pricekeeper-v2-approval.teal'',
          ci_clearStateProgramFile = ''teal/wormhole/build/pricekeeper-v2-clear.teal'',
          ci_compiledApproval = None, ci_compiledClearState = None, ci_appId = 0\<rparr>
      | VaaProcessor \<Rightarrow> \<lparr>ci_approvalProgramFile = ''teal/wormhole/build/vaa-processor-approval.teal'',
          ci_clearStateProgramFile = ''teal/wormhole/build/vaa-processor-clear.teal'',
          ci_compiledApproval = None, ci_compiledClearState = None, ci_appId = 0\<rparr>)"

record pclib =
  pc_contracts :: "contract \<Rightarrow> contract_info"
  pc_groupTxSet :: "string \<rightharpoonup> app_tx list"
  pc_dumpFailedTx :: bool
  pc_dumpFailedTxDirectory :: string
  pc_files :: "string \<rightharpoonup> bytes"
  pc_calls :: algod_log

text \<open>The constructor; the files are what is on the disk.\<close>

definition PricecasterLib :: "(string \<rightharpoonup> bytes) \<Rightarrow> pclib" where
  "PricecasterLib files = \<lparr>pc_contracts = ContractInfo, pc_groupTxSet = Map.empty, pc_dumpFailedTx = False,
     pc_dumpFailedTxDirectory = ''./'', pc_files = files, pc_calls = []\<rparr>"

definition minFee :: nat where "minFee = 1000"

text \<open>No function assigns \<open>this.appId\<close>.\<close>

definition this_appId :: "nat option" where "this_appId = None"

definition enableDumpFailedTx :: "bool \<Rightarrow> pclib \<Rightarrow> pclib" where
  "enableDumpFailedTx f s = s\<lparr>pc_dumpFailedTx := f\<rparr>"

definition setDumpFailedTxDirectory :: "string \<Rightarrow> pclib \<Rightarrow> pclib" where
  "setDumpFailedTxDirectory dir s = s\<lparr>pc_dumpFailedTxDirectory := dir\<rparr>"

definition updContract :: "contract \<Rightarrow> (contract_info \<Rightarrow> contract_info) \<Rightarrow> pclib \<Rightarrow> pclib" where
  "updContract c f s = s\<lparr>pc_contracts := (pc_contracts s)(c := f (pc_contracts s c))\<rparr>"

definition setApprovalProgramFile :: "contract \<Rightarrow> string \<Rightarrow> pclib \<Rightarrow> pclib" where
  "setApprovalProgramFile c filename = updContract c (\<lambda>i. i\<lparr>ci_approvalProgramFile := filename\<rparr>)"

definition setClearStateProgramFile :: "contract \<Rightarrow> string \<Rightarrow> pclib \<Rightarrow> pclib" where
  "setClearStateProgramFile c filename = updContract c (\<lambda>i. i\<lparr>ci_clearStateProgramFile := filename\<rparr>)"

definition setAppId :: "contract \<Rightarrow> nat \<Rightarrow> pclib \<Rightarrow> pclib" where
  "setAppId c applicationId = updContract c (\<lambda>i. i\<lparr>ci_appId := applicationId\<rparr>)"

definition getAppId :: "contract \<Rightarrow> pclib \<Rightarrow> nat" where
  "getAppId c s = ci_appId (pc_contracts s c)"

section \<open>Steps\<close>

definition ask :: "algod_call \<Rightarrow> (algod_log \<Rightarrow> 'a ares) \<Rightarrow> pclib \<Rightarrow> pclib \<times> 'a ares" where
  "ask c answer s = (s\<lparr>pc_calls := pc_calls s @ [c]\<rparr>, answer (pc_calls s))"

definition throwing :: "'a result \<Rightarrow> pclib \<Rightarrow> pclib \<times> 'a ares" where
  "throwing r s = (s, case r of Inl e \<Rightarrow> Inl (Thrown e) | Inr x \<Rightarrow> Inr x)"

definition makeTxn :: "algosdk \<Rightarrow> string \<Rightarrow> sugg_params \<Rightarrow> app_call \<Rightarrow> app_tx result" where
  "makeTxn A sender params c =
     (let tx = \<lparr>tx_sender = sender, tx_params = params, tx_call = c, tx_group = None\<rparr> in
      case sdk_refuses A tx of Some e \<Rightarrow> Inl e | None \<Rightarrow> Inr tx)"

definition getTransactionParams :: "algod \<Rightarrow> pclib \<Rightarrow> pclib \<times> sugg_params ares" where
  "getTransactionParams D = ask GetParams (ad_params D)"

definition sendRawTransaction :: "algod \<Rightarrow> bytes list \<Rightarrow> pclib \<Rightarrow> pclib \<times> string ares" where
  "sendRawTransaction D txs = ask (SendRaw txs) (\<lambda>h. ad_send D h txs)"

definition readFileSync :: "string \<Rightarrow> pclib \<Rightarrow> pclib \<times> text_cp ares" where
  "readFileSync filename s =
     throwing (case pc_files s filename of None \<Rightarrow> Inl (Foreign ''ENOENT'') | Some bs \<Rightarrow> Inr (utf8_decode bs)) s"

section \<open>Programs and applications\<close>

definition compileProgram :: "algod \<Rightarrow> text_cp \<Rightarrow> pclib \<Rightarrow> pclib \<times> (bytes \<times> string) ares" where
  "compileProgram D program s =
     bindH (ask (Compile program) (\<lambda>h. ad_compile D h program) s) (\<lambda>s (res, hash). (s, Inr (base64Decode res, hash)))"

definition compileClearProgram :: "algod \<Rightarrow> contract \<Rightarrow> pclib \<Rightarrow> pclib \<times> (bytes \<times> string) ares" where
  "compileClearProgram D c s =
     bindH (readFileSync (ci_clearStateProgramFile (pc_contracts s c)) s) (\<lambda>s program.
     bindH (compileProgram D program s) (\<lambda>s p.
     (updContract c (\<lambda>i. i\<lparr>ci_compiledClearState := Some p\<rparr>) s, Inr p)))"

definition compileApprovalProgram :: "algod \<Rightarrow> contract \<Rightarrow> pclib \<Rightarrow> pclib \<times> (bytes \<times> string) ares" where
  "compileApprovalProgram D c s =
     bindH (readFileSync (ci_approvalProgramFile (pc_contracts s c)) s) (\<lambda>s program.
     bindH (compileProgram D program s) (\<lambda>s p.
     (updContract c (\<lambda>i. i\<lparr>ci_compiledApproval := Some p\<rparr>) s, Inr p)))"

definition appIdFromCreateAppResponse :: "pending_info \<Rightarrow> nat option" where
  "appIdFromCreateAppResponse txResponse = pi_applicationIndex txResponse"

text \<open>The end of each function that sends one transaction: sign it, submit it, give its identifier.\<close>

definition signAndSend :: "algosdk \<Rightarrow> algod \<Rightarrow> string \<Rightarrow> sign_callback \<Rightarrow> app_tx \<Rightarrow> pclib \<Rightarrow> pclib \<times> string ares" where
  "signAndSend A D sender signCallback txApp s =
     bindH (throwing (signCallback sender txApp) s) (\<lambda>s txAppSigned.
     bindH (sendRawTransaction D [txAppSigned] s) (\<lambda>s _.
     (s, Inr (sdk_txID A txApp))))"

definition flatParams :: "sugg_params \<Rightarrow> sugg_params" where
  "flatParams params = params\<lparr>sp_fee := minFee, sp_flatFee := True\<rparr>"

definition createApp :: "algosdk \<Rightarrow> algod \<Rightarrow> string \<Rightarrow> contract \<Rightarrow> nat \<Rightarrow> nat \<Rightarrow> nat \<Rightarrow> nat \<Rightarrow> bytes list \<Rightarrow> sign_callback \<Rightarrow>
    pclib \<Rightarrow> pclib \<times> string ares" where
  "createApp A D sender c localInts localBytes globalInts globalBytes appArgs signCallback s =
     bindH (getTransactionParams D s) (\<lambda>s params.
     bindH (compileApprovalProgram D c s) (\<lambda>s approval.
     bindH (compileClearProgram D c s) (\<lambda>s clear.
     bindH (throwing (makeTxn A sender (flatParams params)
       (CreateCall (fst approval) (fst clear) localInts localBytes globalInts globalBytes appArgs)) s) (\<lambda>s txApp.
     signAndSend A D sender signCallback txApp s))))"

text \<open>The times, indices and identifiers are decimal integers.\<close>

definition createVaaProcessorApp :: "algosdk \<Rightarrow> algod \<Rightarrow> string \<Rightarrow> nat \<Rightarrow> nat \<Rightarrow> string \<Rightarrow> sign_callback \<Rightarrow> pclib \<Rightarrow>
    pclib \<times> string ares" where
  "createVaaProcessorApp A D sender gexpTime gsindex gkeys signCallback s =
     bindH (throwing (sdk_encodeUint64 A (Num gexpTime)) s) (\<lambda>s t.
     bindH (throwing (sdk_encodeUint64 A (Num gsindex)) s) (\<lambda>s i.
     createApp A D sender VaaProcessor 0 0 5 20 [fromHex gkeys, t, i] signCallback s))"

definition createPricekeeperApp :: "algosdk \<Rightarrow> algod \<Rightarrow> string \<Rightarrow> nat \<Rightarrow> sign_callback \<Rightarrow> pclib \<Rightarrow> pclib \<times> string ares" where
  "createPricekeeperApp A D sender vaaProcessorAppId signCallback s =
     bindH (throwing (sdk_encodeUint64 A (Num vaaProcessorAppId)) s) (\<lambda>s i.
     createApp A D sender Pricekeeper 0 0 1 63 [i] signCallback s)"

definition callApp :: "algosdk \<Rightarrow> algod \<Rightarrow> string \<Rightarrow> contract \<Rightarrow> bytes list \<Rightarrow> string list \<Rightarrow> sign_callback \<Rightarrow> pclib \<Rightarrow>
    pclib \<times> string ares" where
  "callApp A D sender c appArgs appAccounts signCallback s =
     bindH (getTransactionParams D s) (\<lambda>s params.
     bindH (throwing (makeTxn A sender (flatParams params)
       (NoOpCall (Some (ci_appId (pc_contracts s c))) appArgs (if appAccounts = [] then None else Some appAccounts) None)) s) (\<lambda>s txApp.
     signAndSend A D sender signCallback txApp s))"

text \<open>An identifier that is 0 counts as none.\<close>

definition clearApp :: "algosdk \<Rightarrow> algod \<Rightarrow> string \<Rightarrow> sign_callback \<Rightarrow> nat option \<Rightarrow> pclib \<Rightarrow> pclib \<times> string ares" where
  "clearApp A D sender signCallback forcedAppId s =
     bindH (getTransactionParams D s) (\<lambda>s params.
     let appId = (if forcedAppId = None \<or> forcedAppId = Some 0 then this_appId else forcedAppId) in
     bindH (throwing (makeTxn A sender (flatParams params) (ClearStateCall appId)) s) (\<lambda>s txApp.
     signAndSend A D sender signCallback txApp s))"

definition deleteApp :: "algosdk \<Rightarrow> algod \<Rightarrow> string \<Rightarrow> sign_callback \<Rightarrow> nat option \<Rightarrow> pclib \<Rightarrow> pclib \<times> string ares" where
  "deleteApp A D sender signCallback applicationId s =
     bindH (getTransactionParams D s) (\<lambda>s params.
     let appId = (if applicationId = None \<or> applicationId = Some 0 then this_appId else applicationId) in
     bindH (throwing (makeTxn A sender (flatParams params) (DeleteCall appId)) s) (\<lambda>s txApp.
     signAndSend A D sender signCallback txApp s))"

definition setVAAVerifyProgramHash :: "algosdk \<Rightarrow> algod \<Rightarrow> string \<Rightarrow> string \<Rightarrow> sign_callback \<Rightarrow> pclib \<Rightarrow> pclib \<times> string ares" where
  "setVAAVerifyProgramHash A D sender hash signCallback s =
     (if \<not> sdk_isValidAddress A sender then (s, Inl (Thrown (Error ''Invalid sender address: '')))
      else bindH (throwing (sdk_publicKey A hash) s) (\<lambda>s key.
        callApp A D sender VaaProcessor [charCodes ''setvphash'', key] [] signCallback s))"

definition setAuthorizedAppId :: "algosdk \<Rightarrow> algod \<Rightarrow> string \<Rightarrow> nat \<Rightarrow> sign_callback \<Rightarrow> pclib \<Rightarrow> pclib \<times> string ares" where
  "setAuthorizedAppId A D sender appId signCallback s =
     (if \<not> sdk_isValidAddress A sender then (s, Inl (Thrown (Error ''Invalid sender address: '')))
      else bindH (throwing (sdk_encodeUint64 A (Num appId)) s) (\<lambda>s i.
        callApp A D sender VaaProcessor [charCodes ''setauthid'', i] [] signCallback s))"

section \<open>Waiting for a transaction\<close>

definition roundOf :: "pending_info \<Rightarrow> nat option" where
  "roundOf info = (case pi_confirmedRound info of Some r \<Rightarrow> if r > 0 then Some r else None | None \<Rightarrow> None)"

partial_function (option) confirmLoop :: "algod \<Rightarrow> string \<Rightarrow> nat \<Rightarrow> pclib \<Rightarrow> (pclib \<times> nat ares) option" where
  "confirmLoop D txId lastRound s =
     (case ad_pending D (pc_calls s) txId of
        Inl e \<Rightarrow> Some (s\<lparr>pc_calls := pc_calls s @ [PendingInfo txId]\<rparr>, Inl e)
      | Inr info \<Rightarrow>
          (case roundOf info of
             Some r \<Rightarrow> Some (s\<lparr>pc_calls := pc_calls s @ [PendingInfo txId]\<rparr>, Inr r)
           | None \<Rightarrow>
               (case ad_statusAfter D (pc_calls s @ [PendingInfo txId]) (lastRound + 1) of
                  Inl e \<Rightarrow> Some (s\<lparr>pc_calls := pc_calls s @ [PendingInfo txId, StatusAfterBlock (lastRound + 1)]\<rparr>, Inl e)
                | Inr _ \<Rightarrow> confirmLoop D txId (lastRound + 1)
                    (s\<lparr>pc_calls := pc_calls s @ [PendingInfo txId, StatusAfterBlock (lastRound + 1)]\<rparr>))))"

definition waitForConfirmation :: "algod \<Rightarrow> string \<Rightarrow> pclib \<Rightarrow> (pclib \<times> nat ares) option" where
  "waitForConfirmation D txId s =
     (case ask Status (ad_status D) s of
        (s, Inl e) \<Rightarrow> Some (s, Inl e)
      | (s, Inr lastRound) \<Rightarrow> confirmLoop D txId lastRound s)"

definition waitForTransactionResponse :: "algod \<Rightarrow> string \<Rightarrow> pclib \<Rightarrow> (pclib \<times> pending_info ares) option" where
  "waitForTransactionResponse D txId s =
     map_option (\<lambda>m. bindH m (\<lambda>s _. ask (PendingInfo txId) (\<lambda>h. ad_pending D h txId) s)) (waitForConfirmation D txId s)"

section \<open>Groups\<close>

definition beginTxGroup :: "bytes \<Rightarrow> pclib \<Rightarrow> pclib \<times> string" where
  "beginTxGroup rand s = (let gid = toHex rand in (s\<lparr>pc_groupTxSet := (pc_groupTxSet s)(gid \<mapsto> [])\<rparr>, gid))"

definition pushTx :: "string \<Rightarrow> app_tx \<Rightarrow> pclib \<Rightarrow> pclib" where
  "pushTx gid tx s = s\<lparr>pc_groupTxSet := (pc_groupTxSet s)(gid := map_option (\<lambda>txs. txs @ [tx]) (pc_groupTxSet s gid))\<rparr>"

definition addTxToGroup :: "string \<Rightarrow> app_tx \<Rightarrow> pclib \<Rightarrow> pclib \<times> unit ares" where
  "addTxToGroup gid tx s =
     (if pc_groupTxSet s gid = None then (s, Inl (Thrown (Error ''unknown tx group id'')))
      else (pushTx gid tx s, Inr ()))"

text \<open>\<open>assignGroupID\<close> writes the identifier of the group into its transactions.\<close>

definition assignGroup :: "algosdk \<Rightarrow> string \<Rightarrow> app_tx list \<Rightarrow> pclib \<Rightarrow> pclib \<times> app_tx list ares" where
  "assignGroup A gid txs s =
     bindH (throwing (sdk_computeGroupID A txs) s) (\<lambda>s g.
     let txs = map (\<lambda>tx. tx\<lparr>tx_group := Some g\<rparr>) txs in
     (s\<lparr>pc_groupTxSet := (pc_groupTxSet s)(gid \<mapsto> txs)\<rparr>, Inr txs))"

definition commitTxGroup :: "algosdk \<Rightarrow> algod \<Rightarrow> string \<Rightarrow> string \<Rightarrow> sign_callback \<Rightarrow> pclib \<Rightarrow> pclib \<times> string ares" where
  "commitTxGroup A D gid sender signCallback s =
     (case pc_groupTxSet s gid of
        None \<Rightarrow> (s, Inl (Thrown (Error ''unknown tx group id'')))
      | Some txs \<Rightarrow>
          bindH (assignGroup A gid txs s) (\<lambda>s txs.
          bindH (throwing (sequenceR (map (signCallback sender) txs)) s) (\<lambda>s signedTxns.
          bindH (sendRawTransaction D signedTxns s) (\<lambda>s txId.
          (s\<lparr>pc_groupTxSet := (pc_groupTxSet s)(gid := None)\<rparr>, Inr txId)))))"

text \<open>The arguments of \<open>commitVerifyTxGroup\<close> as a caller may pass them: the subsets of signatures may be a string, whose
  elements are its characters, and the callback may be undefined.\<close>

datatype subsets_arg = Subsets "string list" | SubsetsText string

definition subsetAt :: "subsets_arg \<Rightarrow> nat \<Rightarrow> string option" where
  "subsetAt sigSubsets i = (case sigSubsets of Subsets xs \<Rightarrow> js_index xs i | SubsetsText t \<Rightarrow> map_option (\<lambda>c. [c]) (js_index t i))"

definition signGroupTx :: "algosdk \<Rightarrow> bytes \<Rightarrow> num_arg \<Rightarrow> subsets_arg \<Rightarrow> string \<Rightarrow> sign_callback option \<Rightarrow> app_tx list \<Rightarrow> nat \<Rightarrow>
    bytes result" where
  "signGroupTx A programBytes totalSignatureCount sigSubsets lastTxSender signCallback txs i =
     (if i = length txs - 1 then
        (case signCallback of
           None \<Rightarrow> Inl (TypeError ''signCallback is not a function'')
         | Some f \<Rightarrow> f lastTxSender (txs ! i))
      else
        (case subsetAt sigSubsets i of
           None \<Rightarrow> Inl (TypeError ''The first argument must be of type string'')
         | Some sg \<Rightarrow>
             bindR (sdk_encodeUint64 A totalSignatureCount) (\<lambda>n.
             sdk_signLogicSig A programBytes [fromHex sg, n] (txs ! i))))"

text \<open>When the group cannot be sent, its transactions may be written to a file named by the time, in place of an older one.\<close>

definition dumpGroup :: "nat \<Rightarrow> bytes list \<Rightarrow> pclib \<Rightarrow> pclib" where
  "dumpGroup time signedGroup s =
     (if pc_dumpFailedTx s then
        (let filename = pc_dumpFailedTxDirectory s @ ''/failed-'' @ decimal time @ ''.stxn'' in
         s\<lparr>pc_files := (pc_files s)(filename := if signedGroup = [] then None else Some (concat signedGroup))\<rparr>)
      else s)"

definition commitVerifyTxGroup :: "algosdk \<Rightarrow> algod \<Rightarrow> nat \<Rightarrow> string \<Rightarrow> bytes \<Rightarrow> num_arg \<Rightarrow> subsets_arg \<Rightarrow> string \<Rightarrow> sign_callback option \<Rightarrow>
    pclib \<Rightarrow> pclib \<times> string ares" where
  "commitVerifyTxGroup A D time gid programBytes totalSignatureCount sigSubsets lastTxSender signCallback s =
     (case pc_groupTxSet s gid of
        None \<Rightarrow> (s, Inl (Thrown (Error ''unknown group id'')))
      | Some txs \<Rightarrow>
          bindH (assignGroup A gid txs s) (\<lambda>s txs.
          bindH (throwing (sequenceR (map (signGroupTx A programBytes totalSignatureCount sigSubsets lastTxSender signCallback txs)
            [0..<length txs])) s) (\<lambda>s signedGroup.
          case sendRawTransaction D signedGroup s of
            (s, Inl e) \<Rightarrow> (dumpGroup time signedGroup s, Inl e)
          | (s, Inr txId) \<Rightarrow> (s\<lparr>pc_groupTxSet := (pc_groupTxSet s)(gid := None)\<rparr>, Inr txId))))"

definition addVerifyTx :: "algosdk \<Rightarrow> string \<Rightarrow> string \<Rightarrow> sugg_params \<Rightarrow> bytes \<Rightarrow> string list \<Rightarrow> num_arg \<Rightarrow> pclib \<Rightarrow>
    pclib \<times> string ares" where
  "addVerifyTx A gid sender params payload gksubset totalguardians s =
     (if pc_groupTxSet s gid = None then (s, Inl (Thrown (Error ''unknown group id'')))
      else
        bindH (throwing (sdk_encodeUint64 A totalguardians) s) (\<lambda>s n.
        bindH (throwing (makeTxn A sender params (NoOpCall (Some (ci_appId (pc_contracts s VaaProcessor)))
          [charCodes ''verify'', fromHex (concat gksubset), n] None (Some payload))) s) (\<lambda>s tx.
        (pushTx gid tx s, Inr (sdk_txID A tx)))))"

definition addPriceStoreTx :: "algosdk \<Rightarrow> string \<Rightarrow> string \<Rightarrow> sugg_params \<Rightarrow> string \<Rightarrow> bytes \<Rightarrow> pclib \<Rightarrow> pclib \<times> string ares" where
  "addPriceStoreTx A gid sender params symb payload s =
     (if pc_groupTxSet s gid = None then (s, Inl (Thrown (Error ''unknown group id'')))
      else
        bindH (throwing (makeTxn A sender params (NoOpCall (Some (ci_appId (pc_contracts s Pricekeeper)))
          [charCodes ''store'', charCodes symb, payload] None None)) s) (\<lambda>s tx.
        (pushTx gid tx s, Inr (sdk_txID A tx))))"

section \<open>Reading the state\<close>

definition accountInformation :: "algod \<Rightarrow> string \<Rightarrow> pclib \<Rightarrow> pclib \<times> account_info ares" where
  "accountInformation D addr = ask (AccountInformation addr) (\<lambda>h. ad_account D h addr)"

definition readLocalState :: "algod \<Rightarrow> string \<Rightarrow> pclib \<Rightarrow> pclib \<times> app_state option ares" where
  "readLocalState D accountAddr s =
     bindH (accountInformation D accountAddr s) (\<lambda>s info. (s, Inr (readAppLocalState info this_appId)))"

definition readGlobalState :: "algod \<Rightarrow> string \<Rightarrow> pclib \<Rightarrow> pclib \<times> app_state option ares" where
  "readGlobalState D ownerAddr s =
     bindH (accountInformation D ownerAddr s) (\<lambda>s info. (s, Inr (readAppGlobalState info this_appId)))"

definition readLocalStateByKey :: "app_libs \<Rightarrow> algod \<Rightarrow> string \<Rightarrow> text_cp \<Rightarrow> pclib \<Rightarrow> pclib \<times> lookup ares" where
  "readLocalStateByKey L D accountAddr key s =
     bindH (accountInformation D accountAddr s) (\<lambda>s info. (s, Inr (readAppLocalStateByKey L info this_appId key)))"

definition readGlobalStateByKey :: "app_libs \<Rightarrow> algod \<Rightarrow> string \<Rightarrow> text_cp \<Rightarrow> pclib \<Rightarrow> pclib \<times> lookup ares" where
  "readGlobalStateByKey L D ownerAddr key s =
     bindH (accountInformation D ownerAddr s) (\<lambda>s info. throwing (readAppGlobalStateByKey L info this_appId key) s)"

section \<open>Facts about the steps\<close>

lemma throwing_Inr [simp]: "throwing r s = (s', Inr x) \<longleftrightarrow> s' = s \<and> r = Inr x"
  by (auto simp: throwing_def split: sum.splits)

lemma throwing_Inl [simp]: "throwing r s = (s', Inl e) \<longleftrightarrow> s' = s \<and> (\<exists>j. r = Inl j \<and> e = Thrown j)"
  by (auto simp: throwing_def split: sum.splits)

lemma ask_Inr [simp]: "ask c answer s = (s', Inr x) \<longleftrightarrow> s' = s\<lparr>pc_calls := pc_calls s @ [c]\<rparr> \<and> answer (pc_calls s) = Inr x"
  by (auto simp: ask_def)

lemma ask_Inl [simp]: "ask c answer s = (s', Inl e) \<longleftrightarrow> s' = s\<lparr>pc_calls := pc_calls s @ [c]\<rparr> \<and> answer (pc_calls s) = Inl e"
  by (auto simp: ask_def)

lemma bindH_eq_Inl: "bindH m f = (h', Inl e) \<longleftrightarrow> m = (h', Inl e) \<or> (\<exists>h x. m = (h, Inr x) \<and> f h x = (h', Inl e))"
  by (auto simp: bindH_def split: prod.splits sum.splits)

lemmas step_Inr = bindH_eq_Inr sendRawTransaction_def getTransactionParams_def accountInformation_def

lemma makeTxn_Inr [simp]:
  "makeTxn A sender params c = Inr tx \<longleftrightarrow>
     tx = \<lparr>tx_sender = sender, tx_params = params, tx_call = c, tx_group = None\<rparr> \<and> sdk_refuses A tx = None"
  by (auto simp: makeTxn_def Let_def split: option.splits)

lemma assignGroup_Inr [simp]:
  "assignGroup A gid txs s = (s', Inr ts) \<longleftrightarrow>
     (\<exists>g. sdk_computeGroupID A txs = Inr g \<and> ts = map (\<lambda>tx. tx\<lparr>tx_group := Some g\<rparr>) txs \<and>
        s' = s\<lparr>pc_groupTxSet := (pc_groupTxSet s)(gid \<mapsto> ts)\<rparr>)"
  by (auto simp: assignGroup_def bindH_eq_Inr Let_def)

text \<open>The two ends of a commit.\<close>

lemma submit_Inr:
  "(case sendRawTransaction D sent s of (s, Inl e) \<Rightarrow> (F s, Inl e) | (s, Inr t) \<Rightarrow> (G s, Inr t)) = (s', Inr x) \<longleftrightarrow>
     ad_send D (pc_calls s) sent = Inr x \<and> s' = G (s\<lparr>pc_calls := pc_calls s @ [SendRaw sent]\<rparr>)"
  by (auto simp: sendRawTransaction_def ask_def split: sum.splits)

lemma submit_Inl:
  "(case sendRawTransaction D sent s of (s, Inl e) \<Rightarrow> (F s, Inl e) | (s, Inr t) \<Rightarrow> (G s, Inr t)) = (s', Inl e) \<longleftrightarrow>
     ad_send D (pc_calls s) sent = Inl e \<and> s' = F (s\<lparr>pc_calls := pc_calls s @ [SendRaw sent]\<rparr>)"
  by (auto simp: sendRawTransaction_def ask_def split: sum.splits)

lemma commit_Inr:
  assumes "pc_groupTxSet s gid = Some txs"
  shows "commitVerifyTxGroup A D time gid program n sigs sender f s = (s', Inr txId) \<longleftrightarrow>
    (\<exists>g sent. sdk_computeGroupID A txs = Inr g \<and>
       sequenceR (map (signGroupTx A program n sigs sender f (map (\<lambda>tx. tx\<lparr>tx_group := Some g\<rparr>) txs)) [0..<length txs]) = Inr sent \<and>
       ad_send D (pc_calls s) sent = Inr txId \<and>
       s' = s\<lparr>pc_calls := pc_calls s @ [SendRaw sent], pc_groupTxSet := (pc_groupTxSet s)(gid := None)\<rparr>)"
proof (cases "sdk_computeGroupID A txs")
  case (Inl j)
  then show ?thesis using assms by (simp add: commitVerifyTxGroup_def assignGroup_def throwing_def)
next
  case (Inr g)
  let ?ts = "map (\<lambda>tx. tx\<lparr>tx_group := Some g\<rparr>) txs"
  show ?thesis
  proof (cases "sequenceR (map (signGroupTx A program n sigs sender f ?ts) [0..<length txs])")
    case (Inl j)
    then show ?thesis using assms Inr by (simp add: commitVerifyTxGroup_def assignGroup_def throwing_def Let_def)
  next
    case sent: (Inr sent)
    have "commitVerifyTxGroup A D time gid program n sigs sender f s = (s', Inr txId) \<longleftrightarrow> ad_send D (pc_calls s) sent = Inr txId \<and>
        s' = s\<lparr>pc_calls := pc_calls s @ [SendRaw sent], pc_groupTxSet := (pc_groupTxSet s)(gid := None)\<rparr>"
      using assms Inr sent by (simp add: commitVerifyTxGroup_def assignGroup_def throwing_def Let_def submit_Inr)
    then show ?thesis using Inr sent by (simp only: sum.inject ex_simps simp_thms)
  qed
qed

lemma commit_Inl:
  assumes "pc_groupTxSet s gid = Some txs" "commitVerifyTxGroup A D time gid program n sigs sender f s = (s', Inl e)"
  shows "(s' = s \<and> (\<exists>j. sdk_computeGroupID A txs = Inl j)) \<or>
    (\<exists>g t. t = s\<lparr>pc_groupTxSet := (pc_groupTxSet s)(gid \<mapsto> map (\<lambda>tx. tx\<lparr>tx_group := Some g\<rparr>) txs)\<rparr> \<and>
       (s' = t \<and> (\<exists>j. sequenceR (map (signGroupTx A program n sigs sender f (map (\<lambda>tx. tx\<lparr>tx_group := Some g\<rparr>) txs)) [0..<length txs]) = Inl j
            \<and> e = Thrown j) \<or>
        (\<exists>sent. s' = dumpGroup time sent (t\<lparr>pc_calls := pc_calls s @ [SendRaw sent]\<rparr>) \<and> ad_send D (pc_calls s) sent = Inl e)))"
proof (cases "sdk_computeGroupID A txs")
  case (Inl j)
  then show ?thesis using assms by (auto simp: commitVerifyTxGroup_def assignGroup_def throwing_def)
next
  case (Inr g)
  let ?ts = "map (\<lambda>tx. tx\<lparr>tx_group := Some g\<rparr>) txs"
  show ?thesis
  proof (cases "sequenceR (map (signGroupTx A program n sigs sender f ?ts) [0..<length txs])")
    case (Inl j)
    then show ?thesis using assms Inr by (auto simp: commitVerifyTxGroup_def assignGroup_def throwing_def Let_def)
  next
    case (Inr sent)
    then show ?thesis using assms \<open>sdk_computeGroupID A txs = Inr g\<close>
      by (auto simp: commitVerifyTxGroup_def assignGroup_def throwing_def Let_def submit_Inl)
  qed
qed

section \<open>Properties\<close>

text \<open>C36: a group that is committed with its signatures is sent whole and in order, every transaction with the identifier of the
  group, all but the last signed by the program with the signatures of its place and their number, the last one by the callback; the
  group is closed and the other groups are untouched.\<close>

theorem commitVerifyTxGroup_sends:
  assumes "commitVerifyTxGroup A D time gid program (Num sigCount) (Subsets sigs) sender (Some f) s = (s', Inr txId)"
    and "pc_groupTxSet s gid = Some txs" "txs \<noteq> []"
  shows "\<exists>g sent n. sdk_computeGroupID A txs = Inr g \<and> length sent = length txs \<and>
    pc_calls s' = pc_calls s @ [SendRaw sent] \<and> pc_groupTxSet s' = (pc_groupTxSet s)(gid := None) \<and>
    length txs - 1 \<le> length sigs \<and>
    (\<forall>i<length txs - 1. sdk_encodeUint64 A (Num sigCount) = Inr n \<and>
       sdk_signLogicSig A program [fromHex (sigs ! i), n] ((txs ! i)\<lparr>tx_group := Some g\<rparr>) = Inr (sent ! i)) \<and>
    f sender ((last txs)\<lparr>tx_group := Some g\<rparr>) = Inr (last sent)"
proof -
  let ?sign = "\<lambda>ts. signGroupTx A program (Num sigCount) (Subsets sigs) sender (Some f) ts"
  obtain g sent where g: "sdk_computeGroupID A txs = Inr g"
    and sent: "sequenceR (map (?sign (map (\<lambda>tx. tx\<lparr>tx_group := Some g\<rparr>) txs)) [0..<length txs]) = Inr sent"
    and s': "pc_calls s' = pc_calls s @ [SendRaw sent]" "pc_groupTxSet s' = (pc_groupTxSet s)(gid := None)"
    using assms by (auto simp: commit_Inr)
  let ?ts = "map (\<lambda>tx. tx\<lparr>tx_group := Some g\<rparr>) txs" and ?n = "projr (sdk_encodeUint64 A (Num sigCount))"
  have len: "length sent = length txs" using sequenceR_length [OF sent] by simp
  have each: "?sign ?ts i = Inr (sent ! i)" if "i < length txs" for i
  proof -
    have "map (?sign ?ts) [0..<length txs] = map Inr sent" using sent by (simp only: sequenceR_eq_Inr)
    then have "map (?sign ?ts) [0..<length txs] ! i = map Inr sent ! i" by (simp only:)
    then show ?thesis using that len by simp
  qed
  have step: "i < length sigs \<and> (\<exists>n. sdk_encodeUint64 A (Num sigCount) = Inr n \<and>
      sdk_signLogicSig A program [fromHex (sigs ! i), n] ((txs ! i)\<lparr>tx_group := Some g\<rparr>) = Inr (sent ! i))"
    if "i < length txs - 1" for i
  proof -
    have i: "i < length txs" using that by linarith
    show ?thesis using each [OF i] i that by (auto simp: signGroupTx_def subsetAt_def js_index_def split: if_splits)
  qed
  have "length txs - 1 \<le> length sigs"
  proof (cases "length txs - 1")
    case (Suc k)
    then show ?thesis using step [of k] by simp
  qed simp
  moreover have "f sender ((last txs)\<lparr>tx_group := Some g\<rparr>) = Inr (last sent)"
  proof -
    have "sent \<noteq> []" using len assms(3) by auto
    then show ?thesis using each [of "length txs - 1"] assms(3) len by (auto simp: signGroupTx_def last_conv_nth split: if_splits)
  qed
  moreover have "\<forall>i<length txs - 1. sdk_encodeUint64 A (Num sigCount) = Inr ?n \<and>
      sdk_signLogicSig A program [fromHex (sigs ! i), ?n] ((txs ! i)\<lparr>tx_group := Some g\<rparr>) = Inr (sent ! i)"
    using step by fastforce
  ultimately have "sdk_computeGroupID A txs = Inr g \<and> length sent = length txs \<and>
      pc_calls s' = pc_calls s @ [SendRaw sent] \<and> pc_groupTxSet s' = (pc_groupTxSet s)(gid := None) \<and>
      length txs - 1 \<le> length sigs \<and>
      (\<forall>i<length txs - 1. sdk_encodeUint64 A (Num sigCount) = Inr ?n \<and>
         sdk_signLogicSig A program [fromHex (sigs ! i), ?n] ((txs ! i)\<lparr>tx_group := Some g\<rparr>) = Inr (sent ! i)) \<and>
      f sender ((last txs)\<lparr>tx_group := Some g\<rparr>) = Inr (last sent)"
    using g len s' by (intro conjI) (assumption | rule g len s')+
  then show ?thesis by (intro exI)
qed

text \<open>a group that could not be committed stays open, with the same calls, and so do all others.\<close>

theorem failed_commit_keeps_group:
  assumes "commitVerifyTxGroup A D time gid program sigCount sigs sender f s = (s', Inl e)"
  shows "dom (pc_groupTxSet s') = dom (pc_groupTxSet s) \<and>
    (\<forall>k. map_option (map tx_call) (pc_groupTxSet s' k) = map_option (map tx_call) (pc_groupTxSet s k))"
proof (cases "pc_groupTxSet s gid")
  case None
  then show ?thesis using assms by (simp add: commitVerifyTxGroup_def)
next
  case (Some txs)
  have dump: "pc_groupTxSet (dumpGroup time sgs t) = pc_groupTxSet t" for sgs t by (simp add: dumpGroup_def Let_def)
  have "pc_groupTxSet s' = pc_groupTxSet s \<or>
      (\<exists>g. pc_groupTxSet s' = (pc_groupTxSet s)(gid \<mapsto> map (\<lambda>tx. tx\<lparr>tx_group := Some g\<rparr>) txs))"
    using commit_Inl [OF Some assms] by (auto simp: dump)
  then show ?thesis using Some by (auto simp: comp_def split: if_splits)
qed

text \<open>the library never finds the state of its application: it looks for an identifier that no function sets.\<close>

theorem lib_reads_nothing:
  assumes "readGlobalStateByKey L D ownerAddr key s = (s', Inr v)"
  shows "v = LUndefined"
proof -
  have "searchCreated L as None key = Inr LUndefined" for as by (induction as) auto
  then show ?thesis using assms by (auto simp: readGlobalStateByKey_def step_Inr readAppGlobalStateByKey_def this_appId_def)
qed

text \<open>deleting an application without naming it asks for the deletion of an undefined one, whatever identifiers have been set.\<close>

theorem deleteApp_forgets_id:
  assumes "deleteApp A D sender f None s = (s', Inr txId)"
  shows "\<exists>params blob. f sender \<lparr>tx_sender = sender, tx_params = params, tx_call = DeleteCall None, tx_group = None\<rparr> = Inr blob \<and>
    last (pc_calls s') = SendRaw [blob]"
  using assms by (auto simp: deleteApp_def signAndSend_def step_Inr this_appId_def Let_def)

text \<open>what is done with one group leaves every other group as it is.\<close>

theorem groups_apart:
  assumes "k \<noteq> gid"
  shows "pc_groupTxSet (fst (addTxToGroup gid tx s)) k = pc_groupTxSet s k \<and>
    pc_groupTxSet (fst (addVerifyTx A gid sender params payload keys n s)) k = pc_groupTxSet s k \<and>
    pc_groupTxSet (fst (addPriceStoreTx A gid sender params symb payload s)) k = pc_groupTxSet s k \<and>
    pc_groupTxSet (fst (commitTxGroup A D gid sender cb s)) k = pc_groupTxSet s k \<and>
    pc_groupTxSet (fst (commitVerifyTxGroup A D time gid program n sigs sender f s)) k = pc_groupTxSet s k"
  using assms
  by (auto simp: addTxToGroup_def addVerifyTx_def addPriceStoreTx_def commitTxGroup_def commitVerifyTxGroup_def bindH_def pushTx_def
      throwing_def assignGroup_def Let_def sendRawTransaction_def ask_def dumpGroup_def split: option.splits sum.splits)

section \<open>Waiting as a loop of attempts\<close>

definition polled :: "string \<Rightarrow> nat \<Rightarrow> pclib \<Rightarrow> nat \<Rightarrow> pclib" where
  "polled txId r s a = s\<lparr>pc_calls := pc_calls s @ concat (map (\<lambda>j. [PendingInfo txId, StatusAfterBlock (r + j + 1)]) [0..<a])\<rparr>"

definition confirmBody :: "algod \<Rightarrow> string \<Rightarrow> nat \<Rightarrow> pclib \<Rightarrow> nat \<Rightarrow> (pclib \<times> nat ares) option" where
  "confirmBody D txId r s a =
     (let s = polled txId r s a in
      case ad_pending D (pc_calls s) txId of
        Inl e \<Rightarrow> Some (s\<lparr>pc_calls := pc_calls s @ [PendingInfo txId]\<rparr>, Inl e)
      | Inr info \<Rightarrow>
          (case roundOf info of
             Some n \<Rightarrow> Some (s\<lparr>pc_calls := pc_calls s @ [PendingInfo txId]\<rparr>, Inr n)
           | None \<Rightarrow>
               (case ad_statusAfter D (pc_calls s @ [PendingInfo txId]) (r + a + 1) of
                  Inl e \<Rightarrow> Some (s\<lparr>pc_calls := pc_calls s @ [PendingInfo txId, StatusAfterBlock (r + a + 1)]\<rparr>, Inl e)
                | Inr _ \<Rightarrow> None)))"

lemma polled_simps [simp]:
  "polled txId r s 0 = s"
  "polled txId r s a\<lparr>pc_calls := pc_calls (polled txId r s a) @ [PendingInfo txId, StatusAfterBlock (Suc (r + a))]\<rparr> = polled txId r s (Suc a)"
  by (simp_all add: polled_def)

lemma confirmLoop_settles:
  assumes "confirmLoop D txId (r + a) (polled txId r s a) = Some x"
  shows "\<exists>k\<ge>a. confirmBody D txId r s k = Some x"
proof -
  have "\<forall>r s a. n = r + a \<longrightarrow> polled txId r s a = g \<longrightarrow> (\<exists>k\<ge>a. confirmBody D txId r s k = Some x)"
    if run: "confirmLoop D txId n g = Some x" for n g
  proof (rule confirmLoop.raw_induct [where P = "\<lambda>D t n g x. \<forall>r s a. n = r + a \<longrightarrow> polled t r s a = g \<longrightarrow>
        (\<exists>k\<ge>a. confirmBody D t r s k = Some x)", OF _ run], intro allI impI)
    fix loop D t n g x r s a
    assume IH: "\<And>D t n g x. loop D t n g = Some x \<Longrightarrow> \<forall>r s a. n = r + a \<longrightarrow> polled t r s a = g \<longrightarrow>
          (\<exists>k\<ge>a. confirmBody D t r s k = Some x)"
      and run: "(case ad_pending D (pc_calls g) t of
          Inl e \<Rightarrow> Some (g\<lparr>pc_calls := pc_calls g @ [PendingInfo t]\<rparr>, Inl e)
        | Inr info \<Rightarrow>
            (case roundOf info of
               None \<Rightarrow>
                 (case ad_statusAfter D (pc_calls g @ [PendingInfo t]) (n + 1) of
                    Inl e \<Rightarrow> Some (g\<lparr>pc_calls := pc_calls g @ [PendingInfo t, StatusAfterBlock (n + 1)]\<rparr>, Inl e)
                  | Inr _ \<Rightarrow> loop D t (n + 1) (g\<lparr>pc_calls := pc_calls g @ [PendingInfo t, StatusAfterBlock (n + 1)]\<rparr>))
             | Some r \<Rightarrow> Some (g\<lparr>pc_calls := pc_calls g @ [PendingInfo t]\<rparr>, Inr r))) = Some x"
      and n: "n = r + a" and g: "polled t r s a = g"
    show "\<exists>k\<ge>a. confirmBody D t r s k = Some x"
    proof (cases "confirmBody D t r s a")
      case None
      then have "loop D t (r + Suc a) (polled t r s (Suc a)) = Some x"
        using run n by (auto simp: confirmBody_def Let_def simp flip: g split: sum.splits option.splits)
      then show ?thesis using IH Suc_leD by blast
    next
      case (Some x')
      then have "x' = x" using run n by (auto simp: confirmBody_def Let_def simp flip: g split: sum.splits option.splits)
      then show ?thesis using Some by auto
    qed
  qed
  then show ?thesis using assms by blast
qed

interpretation confirms: attempt_loop "confirmBody D txId r s" "\<lambda>a. confirmLoop D txId (r + a) (polled txId r s a)" for D txId r s
proof
  fix a
  show "confirmLoop D txId (r + a) (polled txId r s a) =
      (case confirmBody D txId r s a of Some x \<Rightarrow> Some x | None \<Rightarrow> confirmLoop D txId (r + Suc a) (polled txId r s (Suc a)))"
    by (subst confirmLoop.simps) (simp add: confirmBody_def Let_def split: sum.split option.split)
qed (rule confirmLoop_settles)

lemma confirmBody_positive:
  assumes "confirmBody D txId r s k = Some (s', Inr n)"
  shows "0 < n"
proof (cases "ad_pending D (pc_calls (polled txId r s k)) txId")
  case (Inl e)
  then show ?thesis using assms by (simp add: confirmBody_def Let_def)
next
  case (Inr info)
  have "roundOf info = Some n"
  proof (cases "roundOf info")
    case None
    then show ?thesis using assms Inr by (simp add: confirmBody_def Let_def split: sum.split_asm)
  qed (use assms Inr in \<open>simp add: confirmBody_def Let_def\<close>)
  then show ?thesis by (simp add: roundOf_def split: option.split_asm if_split_asm)
qed

text \<open>C22: waiting for a transaction ends exactly if the node fails or at some time reports a round in which the transaction was
  confirmed; a round it returns is not 0.\<close>

theorem waitForConfirmation_ends:
  "((\<exists>x. waitForConfirmation D txId s = Some x) \<longleftrightarrow>
     (\<exists>e. ad_status D (pc_calls s) = Inl e) \<or>
     (\<exists>r k. ad_status D (pc_calls s) = Inr r \<and> confirmBody D txId r (s\<lparr>pc_calls := pc_calls s @ [Status]\<rparr>) k \<noteq> None)) \<and>
   (\<forall>s' n. waitForConfirmation D txId s = Some (s', Inr n) \<longrightarrow> 0 < n)"
proof (cases "ad_status D (pc_calls s)")
  case (Inl e)
  then show ?thesis by (simp add: waitForConfirmation_def ask_def)
next
  case (Inr r)
  let ?s = "s\<lparr>pc_calls := pc_calls s @ [Status]\<rparr>"
  have run: "waitForConfirmation D txId s = confirmLoop D txId (r + 0) (polled txId r ?s 0)"
    using Inr by (simp add: waitForConfirmation_def ask_def)
  have "0 < n" if "waitForConfirmation D txId s = Some (s', Inr n)" for s' n
    using confirms.settles [of D txId r 0 ?s "(s', Inr n)"] that run confirmBody_positive by auto
  then show ?thesis using run Inr confirms.loop_returns_iff [of D txId r 0 ?s] by auto
qed

section \<open>Examples\<close>

definition demo_algosdk :: algosdk where
  "demo_algosdk = \<lparr>sdk_refuses = (\<lambda>_. None), sdk_txID = (\<lambda>tx. ''TX'' @ tx_sender tx), sdk_computeGroupID = (\<lambda>txs. Inr [of_nat (length txs)]),
     sdk_encodeUint64 = (\<lambda>n. case n of Num k \<Rightarrow> Inr (be_bytes 8 k) | Texts _ \<Rightarrow> Inl (Error ''Input is not a 64-bit unsigned integer'')),
     sdk_isValidAddress = (\<lambda>_. True), sdk_publicKey = (\<lambda>a. Inr (charCodes a)),
     sdk_signLogicSig = (\<lambda>program args tx. Inr (program @ concat args))\<rparr>"

definition demo_created :: account_info where
  "demo_created = \<lparr>ai_created = [\<lparr>ca_id = 7, ca_globalState = Some []\<rparr>], ai_local = []\<rparr>"

definition demo_algod :: algod where
  "demo_algod = \<lparr>ad_params = (\<lambda>_. Inr \<lparr>sp_fee = 0, sp_flatFee = False, sp_network = ''test''\<rparr>), ad_compile = (\<lambda>_ _. Inr (''AAAA'', ''HASH'')),
     ad_send = (\<lambda>_ _. Inr ''SENT''), ad_status = (\<lambda>_. Inr 4), ad_statusAfter = (\<lambda>_ _. Inr ()),
     ad_pending = (\<lambda>_ _. Inr \<lparr>pi_confirmedRound = Some 5, pi_applicationIndex = None\<rparr>), ad_account = (\<lambda>_ _. Inr demo_created)\<rparr>"

definition demo_tx :: app_tx where
  "demo_tx = \<lparr>tx_sender = ''LSIG'', tx_params = \<lparr>sp_fee = 1000, sp_flatFee = True, sp_network = ''test''\<rparr>, tx_call = NoOpCall (Some 7) [] None None,
     tx_group = None\<rparr>"

definition demo_lib :: pclib where
  "demo_lib = (PricecasterLib Map.empty)\<lparr>pc_groupTxSet := [''g'' \<mapsto> [demo_tx, demo_tx]]\<rparr>"

definition demo_sign :: sign_callback where
  "demo_sign sender tx = Inr (charCodes sender)"

lemma demo_commit:
  "\<exists>s'. commitVerifyTxGroup demo_algosdk demo_algod 0 ''g'' [1] (Num 3) (Subsets [''0a'']) ''OWNER'' (Some demo_sign) demo_lib = (s', Inr ''SENT'')"
  by (simp add: commitVerifyTxGroup_def assignGroup_def throwing_def signGroupTx_def subsetAt_def demo_lib_def demo_algosdk_def demo_algod_def
      demo_sign_def sendRawTransaction_def ask_def Let_def del: be_bytes.simps)

theorem commitVerifyTxGroup_sends_witness:
  "\<exists>s' sent. commitVerifyTxGroup demo_algosdk demo_algod 0 ''g'' [1] (Num 3) (Subsets [''0a'']) ''OWNER'' (Some demo_sign) demo_lib = (s', Inr ''SENT'') \<and>
    pc_calls s' = pc_calls demo_lib @ [SendRaw sent] \<and> length sent = 2"
proof -
  obtain s' where run: "commitVerifyTxGroup demo_algosdk demo_algod 0 ''g'' [1] (Num 3) (Subsets [''0a'']) ''OWNER'' (Some demo_sign) demo_lib =
      (s', Inr ''SENT'')" using demo_commit by blast
  have "pc_groupTxSet demo_lib ''g'' = Some [demo_tx, demo_tx]" by (simp add: demo_lib_def)
  from commitVerifyTxGroup_sends [OF run this] run show ?thesis by auto
qed

theorem failed_commit_keeps_group_witness:
  "\<exists>s' e. commitVerifyTxGroup demo_algosdk demo_algod 0 ''g'' [1] (Texts [''0a'']) (SubsetsText ''OWNER'') [] None demo_lib = (s', Inl e) \<and>
    dom (pc_groupTxSet s') = {''g''}"
proof -
  have "\<exists>s' e. commitVerifyTxGroup demo_algosdk demo_algod 0 ''g'' [1] (Texts [''0a'']) (SubsetsText ''OWNER'') [] None demo_lib = (s', Inl e)"
    by (simp add: commitVerifyTxGroup_def assignGroup_def throwing_def signGroupTx_def subsetAt_def demo_lib_def demo_algosdk_def Let_def)
  then obtain s' e where run: "commitVerifyTxGroup demo_algosdk demo_algod 0 ''g'' [1] (Texts [''0a'']) (SubsetsText ''OWNER'') [] None demo_lib =
      (s', Inl e)" by blast
  then show ?thesis using failed_commit_keeps_group [OF run] by (auto simp: demo_lib_def)
qed

theorem lib_reads_nothing_witness:
  "\<exists>s' v. readGlobalStateByKey demo_app_libs demo_algod ''OWNER'' [103] demo_lib = (s', Inr v) \<and> v = LUndefined"
proof -
  have "\<exists>s' v. readGlobalStateByKey demo_app_libs demo_algod ''OWNER'' [103] demo_lib = (s', Inr v)"
    by (simp add: readGlobalStateByKey_def accountInformation_def ask_def demo_algod_def demo_created_def readAppGlobalStateByKey_def
        this_appId_def throwing_def)
  then show ?thesis using lib_reads_nothing by blast
qed

theorem deleteApp_forgets_id_witness:
  "\<exists>s' txId blob. deleteApp demo_algosdk demo_algod ''OWNER'' demo_sign None (setAppId Pricekeeper 9 demo_lib) = (s', Inr txId) \<and>
    last (pc_calls s') = SendRaw [blob]"
proof -
  have "\<exists>s' txId. deleteApp demo_algosdk demo_algod ''OWNER'' demo_sign None (setAppId Pricekeeper 9 demo_lib) = (s', Inr txId)"
    by (simp add: deleteApp_def getTransactionParams_def ask_def signAndSend_def sendRawTransaction_def throwing_def makeTxn_def Let_def
        demo_algod_def demo_algosdk_def demo_sign_def)
  then show ?thesis using deleteApp_forgets_id by blast
qed

theorem groups_apart_witness:
  "pc_groupTxSet (fst (addTxToGroup ''h'' demo_tx demo_lib)) ''g'' = Some [demo_tx, demo_tx]"
  using groups_apart [of "''g''" "''h''" demo_tx demo_lib demo_algosdk "''s''" "tx_params demo_tx" "[]" "[]" "Num 0" "''s''" demo_algod
      demo_sign 0 "[]" "Subsets []" "Some demo_sign"]
  by (simp add: demo_lib_def)

theorem waitForConfirmation_ends_witness: "\<exists>s' n. waitForConfirmation demo_algod ''TX'' demo_lib = Some (s', Inr n) \<and> 0 < n"
proof -
  have "waitForConfirmation demo_algod ''TX'' demo_lib = confirmLoop demo_algod ''TX'' 4 (demo_lib\<lparr>pc_calls := [Status]\<rparr>)"
    by (simp add: waitForConfirmation_def ask_def demo_algod_def demo_lib_def PricecasterLib_def)
  also have "\<exists>s'. \<dots> = Some (s', Inr 5)"
    by (subst confirmLoop.simps) (simp add: demo_algod_def roundOf_def)
  finally show ?thesis using waitForConfirmation_ends [of demo_algod "''TX''" demo_lib] by blast
qed

end
