(* ===== verification/PricePublisher.thy ===== *)
theory PricePublisher
  imports PriceCaster
begin

text \<open>
  The backend of the Algorand price caster, \<open>staging/algorand/backend/\<close>: the fetcher that keeps the last VAA of each symbol, the
  publisher that submits one with the library, and the routine of a worker. The stream of VAAs and the wasm module that parses
  them, the node and the signature are parameters. Messages to the logger are left out. The counters of the publisher are written before they are read in
  each publication, so they are variables of it here.
\<close>

section \<open>Fetching (\<open>WormholePythPriceFetcher.ts\<close>)\<close>

record symbol_info =
  sy_name :: string
  sy_productId :: string
  sy_priceId :: string
  sy_publishIntervalSecs :: nat
  sy_pubCount :: nat

record pyth_data =
  pd_symbol :: string
  pd_vaaBody :: bytes
  pd_signatures :: bytes
  pd_price_type :: int
  pd_price :: nat
  pd_exponent :: int
  pd_confidence :: nat
  pd_status :: int
  pd_corporate_act :: int
  pd_timestamp :: nat

record map_entry =
  me_name :: string
  me_publishIntervalSecs :: nat
  me_pythData :: "pyth_data option"

record fetcher =
  ft_symbolMap :: "string \<rightharpoonup> map_entry"
  ft_hasData :: bool

text \<open>What the wasm module returns: how many signatures, and the payload.\<close>

record wasm_vaa =
  wv_signatures :: nat
  wv_payload :: bytes

definition newFetcher :: "symbol_info list \<Rightarrow> fetcher" where
  "newFetcher symbols =
     \<lparr>ft_symbolMap = foldl (\<lambda>m sym. m(sy_productId sym @ sy_priceId sym \<mapsto>
        \<lparr>me_name = sy_name sym, me_publishIntervalSecs = sy_publishIntervalSecs sym, me_pythData = None\<rparr>)) Map.empty symbols,
      ft_hasData = False\<rparr>"

definition readIntBE :: "nat \<Rightarrow> bytes \<Rightarrow> nat \<Rightarrow> int result" where
  "readIntBE w buf off = mapR (\<lambda>n. if 2 * n < 256 ^ w then int n else int n - 256 ^ w) (readUIntBE w buf off)"

definition pythData :: "string \<Rightarrow> bytes \<Rightarrow> wasm_vaa \<Rightarrow> pyth_data result" where
  "pythData nm vaaBytes v =
     (let payload = wv_payload v; sigs = 6 + wv_signatures v * 66 in
      bindR (readIntBE 1 payload 71) (\<lambda>price_type.
      bindR (readUIntBE 8 payload 72) (\<lambda>price.
      bindR (readIntBE 4 payload 80) (\<lambda>exponent.
      bindR (readUIntBE 8 payload 132) (\<lambda>confidence.
      bindR (readIntBE 1 payload 140) (\<lambda>status.
      bindR (readIntBE 1 payload 141) (\<lambda>corporate_act.
      bindR (readUIntBE 8 payload 142) (\<lambda>timestamp.
      Inr \<lparr>pd_symbol = nm, pd_vaaBody = drop sigs vaaBytes, pd_signatures = js_slice vaaBytes 6 sigs, pd_price_type = price_type,
        pd_price = price, pd_exponent = exponent, pd_confidence = confidence, pd_status = status,
        pd_corporate_act = corporate_act, pd_timestamp = timestamp\<rparr>))))))))"

definition pythKey :: "bytes \<Rightarrow> string" where
  "pythKey payload = toHex (js_slice payload 7 39) @ toHex (js_slice payload 39 71)"

definition onPythData :: "(bytes \<Rightarrow> wasm_vaa result) \<Rightarrow> bytes \<Rightarrow> fetcher \<Rightarrow> fetcher \<times> unit result" where
  "onPythData parse_vaa vaaBytes f =
     bindH (f, parse_vaa vaaBytes) (\<lambda>f v.
     case ft_symbolMap f (pythKey (wv_payload v)) of
       None \<Rightarrow> (f, Inr ())
     | Some ent \<Rightarrow>
         bindH (f, pythData (me_name ent) vaaBytes v) (\<lambda>f d.
         (f\<lparr>ft_symbolMap := (ft_symbolMap f)(pythKey (wv_payload v) \<mapsto> ent\<lparr>me_pythData := Some d\<rparr>)\<rparr>, Inr ())))"

text \<open>The listener. \<open>onPythData\<close> is asynchronous, so what it throws is a rejected promise that nothing handles, the second
  component; the \<open>catch\<close> around the call hears nothing.\<close>

definition onData :: "(bytes \<Rightarrow> wasm_vaa result) \<Rightarrow> bytes \<Rightarrow> fetcher \<Rightarrow> fetcher \<times> js_error option" where
  "onData parse_vaa vaaBytes f =
     (case onPythData parse_vaa vaaBytes (f\<lparr>ft_hasData := True\<rparr>) of
        (f, Inl e) \<Rightarrow> (f, Some e)
      | (f, Inr _) \<Rightarrow> (f, None))"

definition stopFetcher :: "fetcher \<Rightarrow> fetcher" where
  "stopFetcher f = f\<lparr>ft_hasData := False\<rparr>"

definition queryData :: "string \<Rightarrow> fetcher \<Rightarrow> pyth_data option" where
  "queryData k f = (case ft_symbolMap f k of None \<Rightarrow> None | Some v \<Rightarrow> me_pythData v)"

section \<open>Strategies (\<open>strategyBase.ts\<close>, \<open>strategyLastPrice.ts\<close>)\<close>

record 't strategy =
  sg_buffer :: "'t list"
  sg_bufSize :: nat

definition createBuffer :: "nat \<Rightarrow> 't strategy" where
  "createBuffer maxSize = \<lparr>sg_buffer = [], sg_bufSize = maxSize\<rparr>"

definition clearBuffer :: "'t strategy \<Rightarrow> 't strategy" where
  "clearBuffer g = g\<lparr>sg_buffer := []\<rparr>"

definition bufferCount :: "'t strategy \<Rightarrow> nat" where
  "bufferCount g = length (sg_buffer g)"

definition putPrice :: "'t \<Rightarrow> 't strategy \<Rightarrow> 't strategy" where
  "putPrice ticker g =
     (let buffer = (if length (sg_buffer g) = sg_bufSize g then tl (sg_buffer g) else sg_buffer g) in
      g\<lparr>sg_buffer := buffer @ [ticker]\<rparr>)"

definition lastPrice :: "'t strategy \<Rightarrow> 't strategy \<times> 't option" where
  "lastPrice g = (clearBuffer g, if sg_buffer g = [] then None else Some (last (sg_buffer g)))"

section \<open>Publishing (\<open>Pricekeeper2Publisher.ts\<close>)\<close>

datatype status_code = OK | NO_TICKER | ERROR_CREATE_MESSAGE | ERROR_SUBMIT_MESSAGE | GENERAL_ERROR

record publish_info =
  pub_status :: status_code
  pub_reason :: "string option"
  pub_txid :: "string option"

record publisher =
  pb_vaaProcessorAppId :: nat
  pb_vaaProcessorOwner :: string
  pb_verifyProgram :: bytes
  pb_verifyHash :: string

definition newPublisher :: "nat \<Rightarrow> nat \<Rightarrow> string \<Rightarrow> bytes \<Rightarrow> string \<Rightarrow> bool \<Rightarrow> string \<Rightarrow> (string \<rightharpoonup> bytes) \<Rightarrow> publisher \<times> pclib" where
  "newPublisher vaaProcessorAppId priceKeeperAppId owner program hash dump dir files =
     (\<lparr>pb_vaaProcessorAppId = vaaProcessorAppId, pb_vaaProcessorOwner = owner, pb_verifyProgram = program, pb_verifyHash = hash\<rparr>,
      setDumpFailedTxDirectory dir (enableDumpFailedTx dump (setAppId Pricekeeper priceKeeperAppId
        (setAppId VaaProcessor vaaProcessorAppId (PricecasterLib files)))))"

definition textKey :: "string \<Rightarrow> text_cp" where
  "textKey s = map of_char s"

definition readKey :: "app_libs \<Rightarrow> algod \<Rightarrow> publisher \<Rightarrow> text_cp \<Rightarrow> pclib \<Rightarrow> pclib \<times> lookup ares" where
  "readKey L D C key s =
     bindH (accountInformation D (pb_vaaProcessorOwner C) s) (\<lambda>s info.
     throwing (readAppGlobalStateByKey L info (Some (pb_vaaProcessorAppId C)) key) s)"

text \<open>A count that the state has as a number; otherwise it is read as not a number (a byte string is not expected there).\<close>

definition countRead :: "lookup \<Rightarrow> nat option" where
  "countRead v = (case v of LValue (AUint n) \<Rightarrow> Some n | _ \<Rightarrow> None)"

definition numOfVerifySteps :: "nat option \<Rightarrow> nat option \<Rightarrow> nat" where
  "numOfVerifySteps guardianCount stepSize =
     (case (guardianCount, stepSize) of (Some g, Some k) \<Rightarrow> (g + k - 1) div k | _ \<Rightarrow> 0)"

definition guardianKey :: "lookup \<Rightarrow> string result" where
  "guardianKey gk =
     (case gk of LValue (AText t) \<Rightarrow> Inr (toHex (base64Decode t)) | _ \<Rightarrow> Inl (TypeError ''The first argument must be of type string''))"

text \<open>The loop that reads the keys; its counter is also increased where it is written into the buffer.\<close>

function keyLoop :: "app_libs \<Rightarrow> algod \<Rightarrow> publisher \<Rightarrow> nat \<Rightarrow> nat \<Rightarrow> pclib \<Rightarrow> pclib \<times> string list ares" where
  "keyLoop L D C guardianCount i s =
     (if i < guardianCount then
        bindH (readKey L D C (utf8_decode (be_bytes 8 i)) s) (\<lambda>s gk.
        bindH (throwing (guardianKey gk) s) (\<lambda>s k.
        bindH (keyLoop L D C guardianCount (i + 1 + 1) s) (\<lambda>s ks. (s, Inr (k # ks)))))
      else (s, Inr []))"
  by pat_completeness auto
termination by (relation "measure (\<lambda>(L, D, C, guardianCount, i, s). guardianCount - i)") auto

declare keyLoop.simps [simp del]

definition keySubset :: "string list \<Rightarrow> nat \<Rightarrow> nat \<Rightarrow> nat \<Rightarrow> string list" where
  "keySubset guardianKeys stepSize steps i =
     (let st = stepSize * i in if i < steps - 1 then js_slice guardianKeys st (st + stepSize) else drop st guardianKeys)"

definition sigSubset :: "string \<Rightarrow> nat \<Rightarrow> nat \<Rightarrow> nat \<Rightarrow> string" where
  "sigSubset strSig stepSize steps i =
     (let sigSetLen = 132 * stepSize in
      if i < steps - 1 then js_slice strSig (i * sigSetLen) (i * sigSetLen + sigSetLen) else drop (i * sigSetLen) strSig)"

fun verifyLoop :: "algosdk \<Rightarrow> publisher \<Rightarrow> string \<Rightarrow> sugg_params \<Rightarrow> bytes \<Rightarrow> string list \<Rightarrow> nat \<Rightarrow> nat \<Rightarrow> nat \<Rightarrow> nat list \<Rightarrow> pclib \<Rightarrow>
    pclib \<times> unit ares" where
  "verifyLoop A C gid params vaaBody keys guardianCount stepSize steps [] s = (s, Inr ())"
| "verifyLoop A C gid params vaaBody keys guardianCount stepSize steps (i # is) s =
     bindH (addVerifyTx A gid (pb_verifyHash C) params vaaBody (keySubset keys stepSize steps i) (Num guardianCount) s) (\<lambda>s _.
     verifyLoop A C gid params vaaBody keys guardianCount stepSize steps is s)"

text \<open>The part of \<open>publish\<close> under its \<open>try\<close>. The call at its end leaves out the number of signatures, so that each later argument
  takes the place of the one before it: the subsets that of the number, the owner that of the subsets, and the callback that of the
  sender, which is not looked at when there is no callback.\<close>

definition publishGroup :: "app_libs \<Rightarrow> algosdk \<Rightarrow> algod \<Rightarrow> publisher \<Rightarrow> nat \<Rightarrow> bytes \<Rightarrow> pyth_data \<Rightarrow> sugg_params \<Rightarrow> nat option \<Rightarrow> nat option \<Rightarrow>
    pclib \<Rightarrow> pclib \<times> string ares" where
  "publishGroup L A D C time rand d txParams guardianCount stepSize s =
     bindH (case guardianCount of None \<Rightarrow> (s, Inr []) | Some n \<Rightarrow> keyLoop L D C n 0 s) (\<lambda>s guardianKeys.
     let strSig = toHex (pd_signatures d);
         (s, gid) = beginTxGroup rand s;
         steps = numOfVerifySteps guardianCount stepSize;
         sigSubsets = map (sigSubset strSig (the stepSize) steps) [0..<steps] in
     bindH (verifyLoop A C gid txParams (pd_vaaBody d) guardianKeys (the guardianCount) (the stepSize) steps [0..<steps] s) (\<lambda>s _.
     bindH (addPriceStoreTx A gid (pb_vaaProcessorOwner C) txParams (pd_symbol d) (drop 51 (pd_vaaBody d)) s) (\<lambda>s _.
     commitVerifyTxGroup A D time gid (pb_verifyProgram C) (Texts sigSubsets) (SubsetsText (pb_vaaProcessorOwner C)) '''' None s)))"

text \<open>The handler reads the response of whatever was thrown.\<close>

definition publish :: "app_libs \<Rightarrow> algosdk \<Rightarrow> algod \<Rightarrow> publisher \<Rightarrow> nat \<Rightarrow> bytes \<Rightarrow> pyth_data \<Rightarrow> pclib \<Rightarrow> pclib \<times> publish_info ares" where
  "publish L A D C time rand d s =
     bindH (getTransactionParams D s) (\<lambda>s params.
     bindH (readKey L D C (textKey ''gscount'') s) (\<lambda>s g.
     bindH (readKey L D C (textKey ''vssize'') s) (\<lambda>s k.
     if countRead g = Some 0 \<or> countRead k = Some 0
     then (s, Inl (Thrown (Error ''cannot get guardian count and/or step-size from global state'')))
     else
       (case publishGroup L A D C time rand d (flatParams params) (countRead g) (countRead k) s of
          (s, Inr txid) \<Rightarrow> (s, Inr \<lparr>pub_status = OK, pub_reason = None, pub_txid = Some txid\<rparr>)
        | (s, Inl (HttpError responseText shown)) \<Rightarrow>
            (s, Inr \<lparr>pub_status = ERROR_SUBMIT_MESSAGE, pub_reason = Some (if responseText = [] then shown else responseText), pub_txid = None\<rparr>)
        | (s, Inl (Thrown e)) \<Rightarrow> (s, Inl (Thrown (TypeError ''Cannot read properties of undefined'')))))))"

section \<open>The worker (\<open>WormholeEngine.ts\<close>)\<close>

definition workerRoutine :: "app_libs \<Rightarrow> algosdk \<Rightarrow> algod \<Rightarrow> publisher \<Rightarrow> nat \<Rightarrow> bytes \<Rightarrow> symbol_info \<Rightarrow> fetcher \<Rightarrow> pclib \<Rightarrow>
    pclib \<times> publish_info ares" where
  "workerRoutine L A D C time rand smb f s =
     (case queryData (sy_productId smb @ sy_priceId smb) f of
        None \<Rightarrow> (s, Inr \<lparr>pub_status = NO_TICKER, pub_reason = None, pub_txid = None\<rparr>)
      | Some tick \<Rightarrow> publish L A D C time rand tick s)"

text \<open>What a worker does at each interval: it counts the publications; a rejection is its result.\<close>

definition callWorkerRoutine :: "app_libs \<Rightarrow> algosdk \<Rightarrow> algod \<Rightarrow> publisher \<Rightarrow> nat \<Rightarrow> bytes \<Rightarrow> symbol_info \<Rightarrow> fetcher \<Rightarrow> pclib \<Rightarrow>
    pclib \<times> symbol_info ares" where
  "callWorkerRoutine L A D C time rand smb f s =
     bindH (workerRoutine L A D C time rand smb f s) (\<lambda>s wrs.
     (s, Inr (if pub_status wrs = OK then smb\<lparr>sy_pubCount := sy_pubCount smb + 1\<rparr> else smb)))"

section \<open>Properties of the fetcher\<close>

text \<open>A signed VAA as its parts: the header, 66 bytes for each signature, and the body.\<close>

definition vaa_parts :: "(bytes \<Rightarrow> wasm_vaa result) \<Rightarrow> bytes \<Rightarrow> bytes \<Rightarrow> bytes \<Rightarrow> bytes \<Rightarrow> bool" where
  "vaa_parts parse_vaa header sigs body payload \<longleftrightarrow>
     length header = 6 \<and> (\<exists>n. length sigs = n * 66 \<and>
       parse_vaa (header @ sigs @ body) = Inr \<lparr>wv_signatures = n, wv_payload = payload\<rparr>)"

lemma pythData_reads:
  assumes "150 \<le> length (wv_payload v)"
  shows "\<exists>d. pythData nm bs v = Inr d \<and> pd_symbol d = nm \<and> pd_vaaBody d = drop (6 + wv_signatures v * 66) bs \<and>
    pd_signatures d = js_slice bs 6 (6 + wv_signatures v * 66) \<and> pd_price d = be_nat (js_slice (wv_payload v) 72 80)"
  using assms by (simp add: pythData_def readIntBE_def readUIntBE_def Let_def)


text \<open>a VAA that cannot be parsed, or whose payload is too short for a known symbol, leaves a rejected promise that nothing handles.\<close>

theorem fetcher_unhandled:
  assumes "(\<exists>e. parse_vaa bs = Inl e) \<or>
    (\<exists>v. parse_vaa bs = Inr v \<and> ft_symbolMap f (pythKey (wv_payload v)) \<noteq> None \<and> length (wv_payload v) < 150)"
  shows "\<exists>e. onData parse_vaa bs f = (f\<lparr>ft_hasData := True\<rparr>, Some e)"
  using assms
proof
  assume "\<exists>v. parse_vaa bs = Inr v \<and> ft_symbolMap f (pythKey (wv_payload v)) \<noteq> None \<and> length (wv_payload v) < 150"
  then obtain v ent where v: "parse_vaa bs = Inr v" "ft_symbolMap f (pythKey (wv_payload v)) = Some ent" "length (wv_payload v) < 150" by auto
  have "\<exists>e. pythData (me_name ent) bs v = Inl e"
  proof (cases "pythData (me_name ent) bs v")
    case (Inr d)
    then obtain n where "readUIntBE 8 (wv_payload v) 142 = Inr n" by (auto simp: pythData_def Let_def)
    then have False using v(3) by (simp add: readUIntBE_def)
    then show ?thesis ..
  qed simp
  then show ?thesis using v by (auto simp: onData_def onPythData_def)
qed (auto simp: onData_def onPythData_def)

section \<open>Properties of the strategy\<close>

lemma drop_window:
  assumes "n \<le> length xs" "0 < n"
  shows "tl (drop (length xs - n) xs) @ [t] = drop (length (xs @ [t]) - n) (xs @ [t])"
proof -
  have "length (xs @ [t]) - n = Suc (length xs - n)" "Suc (length xs - n) \<le> length xs" using assms by auto
  then show ?thesis by (simp only: drop_append) (simp add: drop_Suc tl_drop)
qed

text \<open>a buffer with room for at least one price keeps the last ones that were put, as many as it has room for; the price it gives is
  the last.\<close>

theorem strategy_keeps_last:
  assumes "0 < sg_bufSize g" "length (sg_buffer g) \<le> sg_bufSize g"
  shows "sg_buffer (fold putPrice ts g) = drop (length (sg_buffer g @ ts) - sg_bufSize g) (sg_buffer g @ ts) \<and>
    (ts \<noteq> [] \<longrightarrow> snd (lastPrice (fold putPrice ts g)) = Some (last ts))"
proof -
  have buf: "sg_buffer (fold putPrice ts g) = drop (length (sg_buffer g @ ts) - sg_bufSize g) (sg_buffer g @ ts) \<and>
      sg_bufSize (fold putPrice ts g) = sg_bufSize g"
  proof (induction ts rule: rev_induct)
    case Nil
    then show ?case using assms by simp
  next
    case (snoc t ts)
    let ?all = "sg_buffer g @ ts" and ?n = "sg_bufSize g"
    show ?case
    proof (cases "?n \<le> length ?all")
      case True
      then have "length (drop (length ?all - ?n) ?all) = ?n" by (simp add: min_def)
      moreover have "tl (drop (length ?all - ?n) ?all) @ [t] = drop (length (?all @ [t]) - ?n) (?all @ [t])"
        using True assms(1) by (rule drop_window)
      ultimately show ?thesis using snoc by (simp add: putPrice_def Let_def del: length_append length_drop)
    next
      case False
      then show ?thesis using snoc by (simp add: putPrice_def Let_def)
    qed
  qed
  moreover have "snd (lastPrice (fold putPrice ts g)) = Some (last ts)" if "ts \<noteq> []"
  proof -
    have "length (sg_buffer g @ ts) - sg_bufSize g < length (sg_buffer g @ ts)" using that assms(1) by (cases ts) simp_all
    then show ?thesis using buf that by (simp add: lastPrice_def del: length_append drop_append)
  qed
  ultimately show ?thesis by blast
qed

theorem strategy_keeps_last_witness:
  "snd (lastPrice (fold putPrice [1, 2, 3 :: nat] (createBuffer 2))) = Some 3"
  using strategy_keeps_last [of "createBuffer 2" "[1, 2, 3 :: nat]"] by (simp add: createBuffer_def)

text \<open>a buffer without room keeps every price.\<close>

theorem strategy_without_room:
  "sg_buffer (fold putPrice ts (createBuffer 0)) = ts"
proof -
  have "sg_buffer (fold putPrice ts (createBuffer 0)) = ts \<and> sg_bufSize (fold putPrice ts (createBuffer 0)) = 0"
    by (induction ts rule: rev_induct) (auto simp: putPrice_def createBuffer_def Let_def)
  then show ?thesis by blast
qed

section \<open>Properties of the publisher\<close>

definition sends :: "algod_log \<Rightarrow> bytes list list" where
  "sends h = concat (map (\<lambda>c. case c of SendRaw txs \<Rightarrow> [txs] | _ \<Rightarrow> []) h)"

lemma sends_simps [simp]: "sends (h @ g) = sends h @ sends g" "sends [] = []" "sends (SendRaw txs # h) = txs # sends h"
  "sends (GetParams # h) = sends h" "sends (AccountInformation a # h) = sends h"
  by (simp_all add: sends_def)

lemma readKey_sends: "readKey L D C key s = (s', r) \<Longrightarrow> sends (pc_calls s') = sends (pc_calls s) \<and> pc_groupTxSet s' = pc_groupTxSet s"
  by (auto simp: readKey_def accountInformation_def ask_def throwing_def bindH_def split: sum.splits)

lemma keyLoop_sends:
  "keyLoop L D C n i s = (s', r) \<Longrightarrow> sends (pc_calls s') = sends (pc_calls s) \<and> pc_groupTxSet s' = pc_groupTxSet s"
proof (induction L D C n i s arbitrary: s' r rule: keyLoop.induct)
  case (1 L D C n i s)
  show ?case
  proof (cases "i < n")
    case True
    obtain s1 g where k: "readKey L D C (utf8_decode (be_bytes 8 i)) s = (s1, g)" by fastforce
    note keep = readKey_sends [OF k]
    show ?thesis
    proof (cases g)
      case (Inl e)
      then show ?thesis using 1(2) True k keep by (subst (asm) keyLoop.simps) simp
    next
      case (Inr gk)
      show ?thesis
      proof (cases "guardianKey gk")
        case (Inl e)
        then show ?thesis using 1(2) True k keep Inr by (subst (asm) keyLoop.simps) (simp add: throwing_def)
      next
        case key: (Inr x)
        obtain s2 q where rest: "keyLoop L D C n (i + 1 + 1) s1 = (s2, q)" by fastforce
        have "sends (pc_calls s2) = sends (pc_calls s1) \<and> pc_groupTxSet s2 = pc_groupTxSet s1"
          using 1(1) [OF True rest] .
        moreover have "s' = s2" using 1(2) True k Inr key rest
          by (subst (asm) keyLoop.simps) (cases q; simp add: throwing_def)
        ultimately show ?thesis using keep by simp
      qed
    qed
  next
    case False
    then show ?thesis using 1(2) by (subst (asm) keyLoop.simps) simp
  qed
qed

lemma makeTxn_pushes:
  "verifyLoop A C gid params body keys n k steps is s = (s', r) \<Longrightarrow> pc_calls s' = pc_calls s"
  by (induction "is" arbitrary: s) (auto simp: addVerifyTx_def bindH_def throwing_def pushTx_def split: sum.splits if_splits)

lemma store_pushes:
  assumes "addPriceStoreTx A gid sender params symb payload s = (s', Inr t)"
  shows "pc_calls s' = pc_calls s \<and> (\<exists>txs. pc_groupTxSet s' gid = Some txs \<and> txs \<noteq> [])"
  using assms by (auto simp: addPriceStoreTx_def bindH_eq_Inr pushTx_def split: if_splits)

lemma sequenceR_last: "xs \<noteq> [] \<Longrightarrow> last xs = Inl e \<Longrightarrow> \<exists>e'. sequenceR xs = Inl e'"
proof (induction xs)
  case (Cons x xs)
  then show ?case by (cases x) (auto split: if_splits)
qed simp

text \<open>A group that has no callback for its last transaction is never sent.\<close>

lemma commit_without_callback:
  assumes "pc_groupTxSet s gid = Some txs" "txs \<noteq> []" "commitVerifyTxGroup A D time gid program n sigs sender None s = (s', r)"
  shows "pc_calls s' = pc_calls s \<and> (\<exists>e. r = Inl (Thrown e)) \<and> pc_groupTxSet s' gid \<noteq> None"
proof (cases "sdk_computeGroupID A txs")
  case (Inl j)
  then show ?thesis using assms by (auto simp: commitVerifyTxGroup_def assignGroup_def throwing_def)
next
  case (Inr g)
  let ?signed = "map (signGroupTx A program n sigs sender None (map (\<lambda>tx. tx\<lparr>tx_group := Some g\<rparr>) txs)) [0..<length txs]"
  have "last ?signed = Inl (TypeError ''signCallback is not a function'')"
    using assms(2) by (simp add: last_map signGroupTx_def)
  then obtain e where "sequenceR ?signed = Inl e" using sequenceR_last [of ?signed] assms(2) by auto
  then show ?thesis using assms Inr by (auto simp: commitVerifyTxGroup_def assignGroup_def throwing_def Let_def)
qed

lemma publishGroup_fails:
  assumes "publishGroup L A D C time rand d params g k s = (s', r)"
  shows "sends (pc_calls s') = sends (pc_calls s) \<and> (\<exists>e. r = Inl e)"
proof -
  obtain s1 keys where read: "(case g of None \<Rightarrow> (s, Inr []) | Some n \<Rightarrow> keyLoop L D C n 0 s) = (s1, keys)" by fastforce
  have keep: "sends (pc_calls s1) = sends (pc_calls s)" using read keyLoop_sends by (cases g) auto
  show ?thesis
  proof (cases keys)
    case (Inl e)
    then show ?thesis using assms read keep by (auto simp: publishGroup_def)
  next
    case (Inr ks)
    define s2 gid where "s2 = fst (beginTxGroup rand s1)" and "gid = snd (beginTxGroup rand s1)"
    have begun: "beginTxGroup rand s1 = (s2, gid)" "pc_calls s2 = pc_calls s1"
      by (simp_all add: s2_def gid_def beginTxGroup_def Let_def)
    let ?n = "numOfVerifySteps g k"
    obtain s3 u where verify: "verifyLoop A C gid params (pd_vaaBody d) ks (the g) (the k) ?n [0..<?n] s2 = (s3, u)" by fastforce
    note calls3 = makeTxn_pushes [OF verify]
    obtain s4 t where store: "addPriceStoreTx A gid (pb_vaaProcessorOwner C) params (pd_symbol d) (drop 51 (pd_vaaBody d)) s3 = (s4, t)"
      by fastforce
    show ?thesis
    proof (cases u)
      case (Inl e)
      then show ?thesis using assms read Inr begun verify calls3 keep by (auto simp: publishGroup_def Let_def)
    next
      case u: (Inr _)
      show ?thesis
      proof (cases t)
        case (Inl e)
        then have "s4 = s3" using store by (auto simp: addPriceStoreTx_def bindH_eq_Inl split: if_splits)
        then show ?thesis using assms read Inr begun verify calls3 keep u store Inl by (auto simp: publishGroup_def Let_def)
      next
        case t: (Inr _)
        note pushed = store_pushes [OF store [unfolded t]]
        then obtain txs where "pc_groupTxSet s4 gid = Some txs" "txs \<noteq> []" by blast
        note fails = commit_without_callback [OF this]
        have "commitVerifyTxGroup A D time gid (pb_verifyProgram C)
            (Texts (map (sigSubset (toHex (pd_signatures d)) (the k) ?n) [0..<?n])) (SubsetsText (pb_vaaProcessorOwner C)) '''' None s4 = (s', r)"
          using assms read Inr begun verify u store t by (simp add: publishGroup_def Let_def)
        from fails [OF this] show ?thesis using pushed calls3 begun keep by auto
      qed
    qed
  qed
qed

lemma publish_sends_nothing:
  assumes "publish L A D C time rand d s = (s', r)"
  shows "sends (pc_calls s') = sends (pc_calls s) \<and> (\<forall>info. r = Inr info \<longrightarrow> pub_status info = ERROR_SUBMIT_MESSAGE)"
proof -
  obtain s1 p where params: "getTransactionParams D s = (s1, p)" by fastforce
  have k1: "sends (pc_calls s1) = sends (pc_calls s)" using params by (auto simp: getTransactionParams_def ask_def)
  show ?thesis
  proof (cases p)
    case (Inl e)
    then show ?thesis using assms params k1 by (auto simp: publish_def)
  next
    case p: (Inr ps)
    obtain s2 g where g: "readKey L D C (textKey ''gscount'') s1 = (s2, g)" by fastforce
    note k2 = readKey_sends [OF g]
    show ?thesis
    proof (cases g)
      case (Inl e)
      then show ?thesis using assms params p k1 k2 g by (auto simp: publish_def)
    next
      case gv: (Inr gv)
      obtain s3 v where v: "readKey L D C (textKey ''vssize'') s2 = (s3, v)" by fastforce
      note k3 = readKey_sends [OF v]
      show ?thesis
      proof (cases v)
        case (Inl e)
        then show ?thesis using assms params p k1 k2 k3 g gv v by (auto simp: publish_def)
      next
        case vv: (Inr vv)
        obtain s4 q where q: "publishGroup L A D C time rand d (flatParams ps) (countRead gv) (countRead vv) s3 = (s4, q)" by fastforce
        note k4 = publishGroup_fails [OF q]
        then show ?thesis using assms params p k1 k2 k3 g gv v vv q
          by (auto simp: publish_def split: if_splits algo_error.splits)
      qed
    qed
  qed
qed

text \<open>C38: publishing never sends anything and never reports success: it calls the library with one argument too few, so that there is
  no callback to sign the last transaction of the group.\<close>

theorem publish_never_sends:
  assumes "publish L A D C time rand d s = (s', r)"
  shows "sends (pc_calls s') = sends (pc_calls s) \<and> (\<forall>info. r = Inr info \<longrightarrow> pub_status info = ERROR_SUBMIT_MESSAGE)"
  using publish_sends_nothing [OF assms] .

text \<open>a worker never counts a publication.\<close>

theorem worker_never_counts:
  assumes "callWorkerRoutine L A D C time rand smb f s = (s', Inr smb')"
  shows "smb' = smb \<and> sends (pc_calls s') = sends (pc_calls s)"
proof (cases "queryData (sy_productId smb @ sy_priceId smb) f")
  case None
  then show ?thesis using assms by (auto simp: callWorkerRoutine_def workerRoutine_def)
next
  case (Some d)
  obtain s1 r where "publish L A D C time rand d s = (s1, r)" by fastforce
  then show ?thesis using assms Some publish_sends_nothing
    by (cases r) (fastforce simp: callWorkerRoutine_def workerRoutine_def)+
qed

lemma keyLoop_values:
  assumes "\<And>h. ad_account D h (pb_vaaProcessorOwner C) = Inr info"
    and "\<And>j. j < n \<Longrightarrow> readAppGlobalStateByKey L info (Some (pb_vaaProcessorAppId C)) (utf8_decode (be_bytes 8 j)) =
          Inr (LValue (AText (base64 (key j))))"
  shows "snd (keyLoop L D C n i s) = Inr (map (\<lambda>j. toHex (key (i + 2 * j))) [0..<(n + 1 - i) div 2])"
  using assms
proof (induction L D C n i s rule: keyLoop.induct)
  case (1 L D C n i s)
  show ?case
  proof (cases "i < n")
    case True
    define s1 where "s1 = s\<lparr>pc_calls := pc_calls s @ [AccountInformation (pb_vaaProcessorOwner C)]\<rparr>"
    have "snd (keyLoop L D C n (i + 1 + 1) s1) = Inr (map (\<lambda>j. toHex (key (i + 1 + 1 + 2 * j))) [0..<(n + 1 - (i + 1 + 1)) div 2])"
      by (rule "1.IH" [OF True "1.prems"])
    then obtain s2 where rest: "keyLoop L D C n (i + 1 + 1) s1 =
        (s2, Inr (map (\<lambda>j. toHex (key (i + 1 + 1 + 2 * j))) [0..<(n + 1 - (i + 1 + 1)) div 2]))"
      by (metis prod.collapse)
    have "keyLoop L D C n i s = (s2, Inr (toHex (key i) # map (\<lambda>j. toHex (key (i + 1 + 1 + 2 * j))) [0..<(n + 1 - (i + 1 + 1)) div 2]))"
      using True "1.prems" rest
      by (subst keyLoop.simps)
        (simp add: readKey_def accountInformation_def ask_def throwing_def guardianKey_def s1_def del: be_bytes.simps)
    moreover have "(n + 1 - i) div 2 = Suc ((n + 1 - (i + 1 + 1)) div 2)" using True by linarith
    ultimately show ?thesis by (simp add: map_upt_Suc del: upt_Suc)
  next
    case False
    then show ?thesis by (subst keyLoop.simps) simp
  qed
qed

text \<open>of the keys of the guardians, only those with an even index are read: the loop counts each key twice. From two guardians on,
  there are fewer keys than guardians.\<close>

theorem guardian_keys_skipped:
  assumes "\<And>h. ad_account D h (pb_vaaProcessorOwner C) = Inr info"
    and "\<And>j. j < n \<Longrightarrow> readAppGlobalStateByKey L info (Some (pb_vaaProcessorAppId C)) (utf8_decode (be_bytes 8 j)) =
          Inr (LValue (AText (base64 (key j))))"
    and "2 \<le> n"
  shows "\<exists>s' keys. keyLoop L D C n 0 s = (s', Inr keys) \<and> keys = map (\<lambda>j. toHex (key (2 * j))) [0..<(n + 1) div 2] \<and> length keys < n"
  using keyLoop_values [where n = n and i = 0 and s = s and key = key, OF assms(1,2)] assms(3) by (cases "keyLoop L D C n 0 s") auto

lemma slices_prefix: "concat (map (\<lambda>i. js_slice xs (i * k) (i * k + k)) [0..<m]) = take (m * k) xs"
  by (induction m) (simp_all add: js_slice_def take_add add.commute [of k])

lemma slices_cover:
  assumes "0 < n"
  shows "concat (map (\<lambda>i. if i < n - 1 then js_slice xs (i * k) (i * k + k) else drop (i * k) xs) [0..<n]) = xs"
proof (cases n)
  case (Suc m)
  have "map (\<lambda>i. if i < m then js_slice xs (i * k) (i * k + k) else drop (i * k) xs) [0..<m] =
      map (\<lambda>i. js_slice xs (i * k) (i * k + k)) [0..<m]"
    by (intro map_cong) auto
  then show ?thesis using Suc by (simp add: slices_prefix del: map_eq_conv)
qed (use assms in simp)

text \<open>C29: the subsets of the keys and of the signatures that the verification steps get cover all keys and all signatures in their
  order, and a subset of signatures is that of whole signatures.\<close>

theorem subsets_cover:
  assumes "0 < steps"
  shows "concat (map (keySubset keys k steps) [0..<steps]) = keys \<and>
    concat (map (sigSubset (toHex sigs) k steps) [0..<steps]) = toHex sigs \<and>
    (\<forall>i. sigSubset (toHex sigs) k steps i =
       toHex (if i < steps - 1 then js_slice sigs (66 * (k * i)) (66 * (k * i) + 66 * k) else drop (66 * (k * i)) sigs))"
proof (intro conjI allI)
  show "concat (map (keySubset keys k steps) [0..<steps]) = keys"
    using slices_cover [OF assms, of keys k] unfolding keySubset_def Let_def by (simp only: mult.commute [of _ k])
  show "concat (map (sigSubset (toHex sigs) k steps) [0..<steps]) = toHex sigs"
    using slices_cover [OF assms, of "toHex sigs" "132 * k"] unfolding sigSubset_def Let_def .
next
  fix i
  have "i * (132 * k) = 2 * (66 * (k * i))" "132 * k = 2 * (66 * k)" by simp_all
  then show "sigSubset (toHex sigs) k steps i =
      toHex (if i < steps - 1 then js_slice sigs (66 * (k * i)) (66 * (k * i) + 66 * k) else drop (66 * (k * i)) sigs)"
    by (simp only: sigSubset_def Let_def js_slice_def if_distrib [of toHex] drop_toHex take_toHex add_diff_cancel_left')
qed

section \<open>The group of a publication\<close>

text \<open>The transactions a publication should consist of.\<close>

definition verifyTx :: "publisher \<Rightarrow> nat \<Rightarrow> sugg_params \<Rightarrow> bytes \<Rightarrow> bytes \<Rightarrow> string list \<Rightarrow> app_tx" where
  "verifyTx C app params body n keys = \<lparr>tx_sender = pb_verifyHash C, tx_params = params,
     tx_call = NoOpCall (Some app) [charCodes ''verify'', fromHex (concat keys), n] None (Some body), tx_group = None\<rparr>"

definition storeTx :: "publisher \<Rightarrow> nat \<Rightarrow> sugg_params \<Rightarrow> string \<Rightarrow> bytes \<Rightarrow> app_tx" where
  "storeTx C app params symb payload = \<lparr>tx_sender = pb_vaaProcessorOwner C, tx_params = params,
     tx_call = NoOpCall (Some app) [charCodes ''store'', charCodes symb, payload] None None, tx_group = None\<rparr>"

lemma verifyLoop_group:
  assumes "\<And>tx. sdk_refuses A tx = None" "sdk_encodeUint64 A (Num n) = Inr enc"
  shows "pc_groupTxSet s gid = Some txs \<Longrightarrow> verifyLoop A C gid params body keys n k steps is s =
    (s\<lparr>pc_groupTxSet := (pc_groupTxSet s)(gid \<mapsto> txs @
        map (\<lambda>i. verifyTx C (ci_appId (pc_contracts s VaaProcessor)) params body enc (keySubset keys k steps i)) is)\<rparr>, Inr ())"
proof (induction "is" arbitrary: s txs)
  case Nil
  then show ?case by (simp add: fun_upd_idem)
next
  case (Cons i "is")
  let ?tx = "verifyTx C (ci_appId (pc_contracts s VaaProcessor)) params body enc (keySubset keys k steps i)"
  have "addVerifyTx A gid (pb_verifyHash C) params body (keySubset keys k steps i) (Num n) s =
      (s\<lparr>pc_groupTxSet := (pc_groupTxSet s)(gid \<mapsto> txs @ [?tx])\<rparr>, Inr (sdk_txID A ?tx))"
    using Cons.prems assms by (simp add: addVerifyTx_def throwing_def makeTxn_def pushTx_def verifyTx_def)
  then show ?case using Cons.IH [of "s\<lparr>pc_groupTxSet := (pc_groupTxSet s)(gid \<mapsto> txs @ [?tx])\<rparr>" "txs @ [?tx]"] by (simp cong: if_cong)
qed

lemma commit_assigns:
  assumes "pc_groupTxSet s gid = Some txs" "txs \<noteq> []" "sdk_computeGroupID A txs = Inr g"
    and "commitVerifyTxGroup A D time gid program n sigs sender None s = (s', r)"
  shows "pc_groupTxSet s' gid = Some (map (\<lambda>tx. tx\<lparr>tx_group := Some g\<rparr>) txs)"
proof -
  let ?signed = "map (signGroupTx A program n sigs sender None (map (\<lambda>tx. tx\<lparr>tx_group := Some g\<rparr>) txs)) [0..<length txs]"
  have "last ?signed = Inl (TypeError ''signCallback is not a function'')"
    using assms(2) by (simp add: last_map signGroupTx_def)
  then obtain e where "sequenceR ?signed = Inl e" using sequenceR_last [of ?signed] assms(2) by auto
  then show ?thesis using assms by (auto simp: commitVerifyTxGroup_def assignGroup_def throwing_def Let_def)
qed

text \<open>when the package accepts the transactions, a publication builds the group of its verification steps, each with its subset of
  the keys and the body in its note, and of the transaction that stores the payload of that body; the group stays open in the library.\<close>

theorem publication_left_open:
  assumes "\<And>tx. sdk_refuses A tx = None" "\<And>m. \<exists>enc. sdk_encodeUint64 A (Num m) = Inr enc" "\<And>txs. sdk_computeGroupID A txs = Inr g"
    and "keyLoop L D C n 0 s = (s1, Inr keys)" "publishGroup L A D C time rand d params (Some n) (Some k) s = (s', r)"
  shows "\<exists>enc. sdk_encodeUint64 A (Num n) = Inr enc \<and>
    pc_groupTxSet s' (toHex rand) = Some (map (\<lambda>tx. tx\<lparr>tx_group := Some g\<rparr>)
      (map (\<lambda>i. verifyTx C (ci_appId (pc_contracts s1 VaaProcessor)) params (pd_vaaBody d) enc
          (keySubset keys k (numOfVerifySteps (Some n) (Some k)) i)) [0..<numOfVerifySteps (Some n) (Some k)] @
       [storeTx C (ci_appId (pc_contracts s1 Pricekeeper)) params (pd_symbol d) (drop 51 (pd_vaaBody d))]))"
proof -
  obtain enc where enc: "sdk_encodeUint64 A (Num n) = Inr enc" using assms(2) by blast
  let ?n = "numOfVerifySteps (Some n) (Some k)" and ?gid = "toHex rand"
  let ?vs = "map (\<lambda>i. verifyTx C (ci_appId (pc_contracts s1 VaaProcessor)) params (pd_vaaBody d) enc (keySubset keys k ?n i)) [0..<?n]"
  let ?st = "storeTx C (ci_appId (pc_contracts s1 Pricekeeper)) params (pd_symbol d) (drop 51 (pd_vaaBody d))"
  define s2 where "s2 = s1\<lparr>pc_groupTxSet := (pc_groupTxSet s1)(?gid \<mapsto> [])\<rparr>"
  define s3 where "s3 = s1\<lparr>pc_groupTxSet := (pc_groupTxSet s1)(?gid \<mapsto> ?vs)\<rparr>"
  define s4 where "s4 = s1\<lparr>pc_groupTxSet := (pc_groupTxSet s1)(?gid \<mapsto> ?vs @ [?st])\<rparr>"
  have begun: "beginTxGroup rand s1 = (s2, ?gid)" by (simp add: beginTxGroup_def s2_def Let_def)
  have "verifyLoop A C ?gid params (pd_vaaBody d) keys n k ?n [0..<?n] s2 = (s3, Inr ())"
    using verifyLoop_group [OF assms(1) enc, of s2 ?gid "[]" C params "pd_vaaBody d" keys k ?n "[0..<?n]"]
    by (simp add: s2_def s3_def)
  moreover have "addPriceStoreTx A ?gid (pb_vaaProcessorOwner C) params (pd_symbol d) (drop 51 (pd_vaaBody d)) s3 = (s4, Inr (sdk_txID A ?st))"
    using assms(1) by (simp add: addPriceStoreTx_def throwing_def makeTxn_def pushTx_def storeTx_def s3_def s4_def)
  ultimately obtain m sigs where "commitVerifyTxGroup A D time ?gid (pb_verifyProgram C) m sigs '''' None s4 = (s', r)"
    using assms(4,5) begun by (simp add: publishGroup_def Let_def)
  from commit_assigns [OF _ _ assms(3) this, of "?vs @ [?st]"] show ?thesis using enc by (simp add: s4_def)
qed

section \<open>Examples\<close>

definition demo_symbol :: symbol_info where
  "demo_symbol = \<lparr>sy_name = ''BTC/USD'', sy_productId = toHex (replicate 32 0), sy_priceId = toHex (replicate 32 0), sy_publishIntervalSecs = 30,
     sy_pubCount = 0\<rparr>"

definition demo_fetcher :: fetcher where
  "demo_fetcher = newFetcher [demo_symbol]"

definition demo_payload :: bytes where
  "demo_payload = replicate 150 0"

definition demo_parse :: "bytes \<Rightarrow> wasm_vaa result" where
  "demo_parse bs = (if length bs < 72 then Inl (Foreign ''bad VAA'') else Inr \<lparr>wv_signatures = 1, wv_payload = demo_payload\<rparr>)"

lemma demo_key: "pythKey demo_payload = sy_productId demo_symbol @ sy_priceId demo_symbol"
proof -
  have "js_slice demo_payload 7 39 = replicate 32 0" "js_slice demo_payload 39 71 = replicate 32 0"
    by (simp_all add: demo_payload_def js_slice_def)
  then show ?thesis by (simp only: pythKey_def demo_symbol_def symbol_info.simps)
qed


theorem fetcher_unhandled_witness: "\<exists>e. onData demo_parse [1, 2] demo_fetcher = (demo_fetcher\<lparr>ft_hasData := True\<rparr>, Some e)"
  using fetcher_unhandled [of demo_parse "[1, 2]" demo_fetcher] by (simp add: demo_parse_def)

definition demo_publisher :: publisher where
  "demo_publisher = \<lparr>pb_vaaProcessorAppId = 7, pb_vaaProcessorOwner = ''OWNER'', pb_verifyProgram = [1], pb_verifyHash = ''LSIG''\<rparr>"

definition demo_state :: "nat \<Rightarrow> app_state" where
  "demo_state n = map (\<lambda>j. (base64 (be_bytes 8 j), \<lparr>sv_type = 1, sv_bytes = base64 [of_nat j], sv_uint = 0\<rparr>)) [0..<n]"

definition demo_guardians :: account_info where
  "demo_guardians = \<lparr>ai_created = [\<lparr>ca_id = 7, ca_globalState = Some (demo_state 2)\<rparr>], ai_local = []\<rparr>"

definition demo_chain :: algod where
  "demo_chain = demo_algod\<lparr>ad_account := (\<lambda>_ _. Inr demo_guardians)\<rparr>"

definition demo_data :: pyth_data where
  "demo_data = \<lparr>pd_symbol = ''BTC/USD'', pd_vaaBody = replicate 60 0, pd_signatures = replicate 66 1, pd_price_type = 0, pd_price = 0,
     pd_exponent = 0, pd_confidence = 0, pd_status = 0, pd_corporate_act = 0, pd_timestamp = 0\<rparr>"

definition demo_raw :: app_libs where
  "demo_raw = \<lparr>al_sha512_256 = (\<lambda>_. []), al_base32 = (\<lambda>_. [])\<rparr>"

lemma demo_keys_read:
  assumes "j < 2"
  shows "readAppGlobalStateByKey demo_raw demo_guardians (Some 7) (utf8_decode (be_bytes 8 j)) = Inr (LValue (AText (base64 [of_nat j])))"
proof -
  have eight: "(8 :: nat) = Suc (Suc (Suc (Suc (Suc (Suc (Suc (Suc 0)))))))" by simp
  have "utf8_decode (be_bytes 8 0) \<noteq> utf8_decode (be_bytes 8 1)" unfolding eight by simp
  moreover have "[0..<2] = [0, Suc 0]" by (simp add: upt_rec)
  ultimately show ?thesis using assms
    by (auto simp: readAppGlobalStateByKey_def demo_guardians_def demo_state_def stateEntry_def keyText_def appValueState_def
        addressFromByteBuffer_def demo_raw_def Let_def ALGORAND_ADDRESS_SIZE_def less_2_cases_iff simp del: be_bytes.simps base64.simps)
qed

lemma demo_account: "ad_account demo_chain h (pb_vaaProcessorOwner demo_publisher) = Inr demo_guardians"
  by (simp add: demo_chain_def)

lemma demo_guardian_key:
  assumes "j < 2"
  shows "readAppGlobalStateByKey demo_raw demo_guardians (Some (pb_vaaProcessorAppId demo_publisher)) (utf8_decode (be_bytes 8 j)) =
    Inr (LValue (AText (base64 [of_nat j])))"
  using demo_keys_read [OF assms] by (simp add: demo_publisher_def del: be_bytes.simps)

theorem guardian_keys_skipped_witness:
  "\<exists>s' keys. keyLoop demo_raw demo_chain demo_publisher 2 0 demo_lib = (s', Inr keys) \<and> length keys < 2"
  using guardian_keys_skipped [OF demo_account demo_guardian_key, of 2 demo_lib] by auto

theorem subsets_cover_witness:
  "concat (map (keySubset [''a'', ''b'', ''c''] 2 2) [0..<2]) = [''a'', ''b'', ''c'']"
  using subsets_cover [of 2 "[''a'', ''b'', ''c'']" 2 "[]"] by simp

theorem publish_never_sends_witness:
  "\<exists>s' r. publish demo_raw demo_algosdk demo_chain demo_publisher 0 [1] demo_data demo_lib = (s', r) \<and>
    sends (pc_calls s') = sends (pc_calls demo_lib)"
proof -
  obtain s' r where "publish demo_raw demo_algosdk demo_chain demo_publisher 0 [1] demo_data demo_lib = (s', r)" by fastforce
  then show ?thesis using publish_never_sends by blast
qed

theorem worker_never_counts_witness:
  "\<exists>s' smb. callWorkerRoutine demo_raw demo_algosdk demo_chain demo_publisher 0 [1] demo_symbol demo_fetcher demo_lib = (s', Inr smb) \<and>
    smb = demo_symbol"
proof -
  have "queryData (sy_productId demo_symbol @ sy_priceId demo_symbol) demo_fetcher = None"
    by (simp add: queryData_def demo_fetcher_def newFetcher_def)
  then have "\<exists>s' smb. callWorkerRoutine demo_raw demo_algosdk demo_chain demo_publisher 0 [1] demo_symbol demo_fetcher demo_lib = (s', Inr smb)"
    by (simp add: callWorkerRoutine_def workerRoutine_def)
  then show ?thesis using worker_never_counts by blast
qed

theorem publication_left_open_witness:
  "\<exists>s' r txs. publishGroup demo_raw (demo_algosdk\<lparr>sdk_computeGroupID := (\<lambda>_. Inr [9])\<rparr>) demo_chain demo_publisher 0 [1] demo_data
      (flatParams (tx_params demo_tx)) (Some 2) (Some 1) demo_lib = (s', r) \<and>
    pc_groupTxSet s' (toHex [1]) = Some txs \<and> length txs = 3"
proof -
  let ?A = "demo_algosdk\<lparr>sdk_computeGroupID := (\<lambda>_. Inr [9])\<rparr>"
  have A: "sdk_refuses ?A tx = None" "\<exists>enc. sdk_encodeUint64 ?A (Num m) = Inr enc" "sdk_computeGroupID ?A txs = Inr [9]" for tx m txs
    by (simp_all add: demo_algosdk_def)
  obtain s1 keys where keys: "keyLoop demo_raw demo_chain demo_publisher 2 0 demo_lib = (s1, Inr keys)"
    using keyLoop_values [where i = 0 and s = demo_lib, OF demo_account demo_guardian_key, of 2] by (metis prod.collapse less_irrefl)
  obtain s' r where run: "publishGroup demo_raw ?A demo_chain demo_publisher 0 [1] demo_data (flatParams (tx_params demo_tx)) (Some 2) (Some 1)
      demo_lib = (s', r)" by fastforce
  have "numOfVerifySteps (Some 2) (Some 1) = 2" by (simp add: numOfVerifySteps_def)
  then show ?thesis using publication_left_open [OF A keys run] run by (auto simp del: toHex_simps)
qed

end
