(* ===== verification/Balances.thy ===== *)
theory Balances
  imports Pickers
begin

text \<open>
  Hooks of \<open>bridge_ui/src/hooks/\<close> that ask for balances: whether a wallet can pay for transactions
  (\<open>useTransactionFees.tsx\<close>), the native coins of a Terra wallet (\<open>useTerraNativeBalances.ts\<close>), and the account of the target token
  (\<open>useGetTargetParsedTokenAccounts.ts\<close>). The networks are a parameter, read when they answer.
\<close>

section \<open>The networks\<close>

text \<open>The balances of keys on Solana, of an address on an EVM chain (through a provider), the coins of a Terra wallet, and what the three
  kinds of chain say of a token.\<close>

record 'k balance_nets =
  bn_lamports :: "'k list \<Rightarrow> nat option list result"
  bn_getBalance :: "nat \<Rightarrow> string \<Rightarrow> nat result"
  bn_getGasPrice :: "nat \<Rightarrow> nat result"
  bn_coins :: "string \<Rightarrow> (string \<times> nat) list result"
  bn_tokenInfo :: "string \<Rightarrow> nat result"
  bn_tokenBalance :: "string \<Rightarrow> string \<Rightarrow> nat result"
  bn_tokenAccounts :: "'k \<Rightarrow> 'k \<Rightarrow> 'k sol_token_account list result"
  bn_decimals :: "nat \<Rightarrow> string \<Rightarrow> nat result"
  bn_balanceOf :: "nat \<Rightarrow> string \<Rightarrow> string \<Rightarrow> nat result"

section \<open>\<open>useTransactionFees.tsx\<close>\<close>

definition SOLANA_THRESHOLD_LAMPORTS :: nat where "SOLANA_THRESHOLD_LAMPORTS = 300000"
definition ETHEREUM_THRESHOLD_WEI :: nat where "ETHEREUM_THRESHOLD_WEI = 35000000000000000"
definition TERRA_THRESHOLD_ULUNA :: nat where "TERRA_THRESHOLD_ULUNA = 100000"
definition TERRA_THRESHOLD_UUSD :: nat where "TERRA_THRESHOLD_UUSD = 10000000"

definition isSufficientBalance :: "ChainId \<Rightarrow> nat option \<Rightarrow> string option \<Rightarrow> bool" where
  "isSufficientBalance chainId balance feeDenom =
     (case balance of
        None \<Rightarrow> True
      | Some b \<Rightarrow>
          if chainId = 0 then True
          else if chainId = CHAIN_ID_SOLANA then b > SOLANA_THRESHOLD_LAMPORTS
          else if isEVMChain chainId then b > ETHEREUM_THRESHOLD_WEI
          else if feeDenom = Some ''uluna'' then b > TERRA_THRESHOLD_ULUNA
          else if feeDenom = Some ''uusd'' then b > TERRA_THRESHOLD_UUSD
          else True)"

type_synonym terra_balances = "(string \<times> nat) list"

definition isSufficientBalanceTerra :: "terra_balances \<Rightarrow> bool" where
  "isSufficientBalanceTerra balances =
     list_ex (\<lambda>(denom, balance).
       if denom = ''uluna'' then balance > TERRA_THRESHOLD_ULUNA
       else if denom = ''uusd'' then balance > TERRA_THRESHOLD_UUSD
       else False) balances"

text \<open>An error of the node is a balance of 0; an error of the key is one.\<close>

definition getBalanceSolana :: "(string \<Rightarrow> 'k result) \<Rightarrow> 'k balance_nets \<Rightarrow> string \<Rightarrow> nat option result" where
  "getBalanceSolana pk N wallet =
     bindR (pk wallet) (\<lambda>k.
     case bn_lamports N [k] of
       Inr results \<Rightarrow> Inr (case results of Some lamports # _ \<Rightarrow> Some lamports | _ \<Rightarrow> None)
     | Inl e \<Rightarrow> Inr (Some 0))"

definition getBalancesTerra :: "'k balance_nets \<Rightarrow> string \<Rightarrow> terra_balances result" where
  "getBalancesTerra N wallet =
     (case bn_coins N wallet of
        Inr cs \<Rightarrow> Inr (filter (\<lambda>(denom, n). denom \<in> {''uluna'', ''uusd''}) cs)
      | Inl e \<Rightarrow> Inl (Rejected ''''))"

definition toBalanceString :: "(string \<Rightarrow> nat \<Rightarrow> string result) \<Rightarrow> nat option \<Rightarrow> ChainId \<Rightarrow> string option result" where
  "toBalanceString formatUnits balance chainId =
     (case balance of
        None \<Rightarrow> Inr (Some '''')
      | Some b \<Rightarrow>
          if chainId = 0 then Inr (Some '''')
          else if isEVMChain chainId then mapR Some (formatUnits (decimal b) 18)
          else if chainId = CHAIN_ID_SOLANA then mapR Some (formatUnits (decimal b) 9)
          else if chainId = CHAIN_ID_TERRA then mapR Some (formatUnits (decimal b) NATIVE_TERRA_DECIMALS)
          else Inr None)"

record fees_state =
  uf_balance :: "nat option"
  uf_terraBalances :: terra_balances
  uf_isLoading :: bool
  uf_error :: string

definition fees_initial :: fees_state where
  "fees_initial = \<lparr>uf_balance = None, uf_terraBalances = [], uf_isLoading = False, uf_error = ''''\<rparr>"

datatype fees_action =
    TFSetBalance "nat option"
  | TFSetTerraBalances terra_balances
  | TFSetLoading bool
  | TFSetError string

fun feesReducer :: "fees_state \<Rightarrow> fees_action \<Rightarrow> fees_state" where
  "feesReducer s (TFSetBalance b) = s\<lparr>uf_balance := b\<rparr>"
| "feesReducer s (TFSetTerraBalances bs) = s\<lparr>uf_terraBalances := bs\<rparr>"
| "feesReducer s (TFSetLoading b) = s\<lparr>uf_isLoading := b\<rparr>"
| "feesReducer s (TFSetError e) = s\<lparr>uf_error := e\<rparr>"

definition loadStart :: "fees_action list" where
  "loadStart = [TFSetBalance None, TFSetLoading True, TFSetError '''']"

definition balanceAnswer :: "nat option result \<Rightarrow> fees_action list" where
  "balanceAnswer r =
     (case r of
        Inr b \<Rightarrow> [TFSetLoading False, TFSetBalance (Some (case b of None \<Rightarrow> 0 | Some n \<Rightarrow> n))]
      | Inl e \<Rightarrow> [TFSetLoading False, TFSetError ''Cannot load wallet balance''])"

record fees_deps =
  ud_provider :: "nat option"
  ud_walletAddress :: "string option"
  ud_isReady :: bool
  ud_chainId :: ChainId

definition useTransactionFees :: "(string \<Rightarrow> 'k result) \<Rightarrow> (fees_deps, 'k balance_nets, fees_action) effect" where
  "useTransactionFees pk d =
     (let ready = ud_isReady d \<and> truthy (ud_walletAddress d); wallet = the (ud_walletAddress d) in
      Inr
       (if ud_chainId d = CHAIN_ID_SOLANA \<and> ready
        then \<lparr>atOnce = loadStart, whenAnswered = Some (\<lambda>N. balanceAnswer (getBalanceSolana pk N wallet)), cleansUp = False\<rparr>
        else if isEVMChain (ud_chainId d) \<and> ready
        then (case ud_provider d of
            None \<Rightarrow> noEffect
          | Some p \<Rightarrow> \<lparr>atOnce = loadStart, whenAnswered = Some (\<lambda>N. balanceAnswer (mapR Some (bn_getBalance N p wallet))), cleansUp = False\<rparr>)
        else if ud_chainId d = CHAIN_ID_TERRA \<and> ready
        then \<lparr>atOnce = loadStart,
            whenAnswered = Some (\<lambda>N. case getBalancesTerra N wallet of
                Inr bs \<Rightarrow> [TFSetLoading False, TFSetTerraBalances bs]
              | Inl e \<Rightarrow> [TFSetLoading False, TFSetError ''Cannot load wallet balance'']),
            cleansUp = False\<rparr>
        else noEffect))"

text \<open>What the hook returns.\<close>

record fees_result =
  fr_isSufficientBalance :: bool
  fr_balance :: "nat option"
  fr_balanceString :: "string option result"
  fr_isLoading :: bool
  fr_error :: string

definition feesResult :: "(string \<Rightarrow> nat \<Rightarrow> string result) \<Rightarrow> ChainId \<Rightarrow> fees_state \<Rightarrow> fees_result" where
  "feesResult formatUnits chainId s =
     \<lparr>fr_isSufficientBalance = (if chainId = CHAIN_ID_TERRA then isSufficientBalanceTerra (uf_terraBalances s)
        else isSufficientBalance chainId (uf_balance s) None),
      fr_balance = uf_balance s, fr_balanceString = toBalanceString formatUnits (uf_balance s) chainId,
      fr_isLoading = uf_isLoading s, fr_error = uf_error s\<rparr>"

text \<open>The estimates of gas. \<open>parseFloat(s).toFixed(n)\<close> is a parameter.\<close>

record gas_estimate =
  ge_currentGasPrice :: string
  ge_lowEstimate :: string
  ge_highEstimate :: string

datatype method_type = MethodNft | MethodCreateWrapped | MethodTransfer

definition terraEstimatesByContract :: "nat \<times> nat" where
  "terraEstimatesByContract = (50000, 90000)"

fun evmEstimatesByContract :: "method_type \<Rightarrow> nat \<times> nat" where
  "evmEstimatesByContract MethodTransfer = (80000, 130000)"
| "evmEstimatesByContract MethodNft = (350000, 500000)"
| "evmEstimatesByContract MethodCreateWrapped = (450000, 700000)"

definition getGasEstimates :: "(string \<Rightarrow> nat \<Rightarrow> string result) \<Rightarrow> (string \<Rightarrow> nat \<Rightarrow> string) \<Rightarrow> 'k balance_nets \<Rightarrow> nat \<Rightarrow> method_type \<Rightarrow>
    gas_estimate option result" where
  "getGasEstimates formatUnits fixed N provider ct =
     (case evmEstimatesByContract ct of (lowEstimateGasAmount, highEstimateGasAmount) \<Rightarrow>
      bindR (bn_getGasPrice N provider) (\<lambda>priceInWei.
      bindR (mapR (\<lambda>t. fixed t 4) (formatUnits (decimal (lowEstimateGasAmount * priceInWei)) 18)) (\<lambda>lowEstimate.
      bindR (mapR (\<lambda>t. fixed t 4) (formatUnits (decimal (highEstimateGasAmount * priceInWei)) 18)) (\<lambda>highEstimate.
      mapR (\<lambda>currentGasPrice.
        if currentGasPrice \<noteq> '''' \<and> highEstimate \<noteq> '''' \<and> lowEstimate \<noteq> ''''
        then Some \<lparr>ge_currentGasPrice = currentGasPrice, ge_lowEstimate = lowEstimate, ge_highEstimate = highEstimate\<rparr>
        else None) (mapR (\<lambda>t. fixed t 0) (formatUnits (decimal priceInWei) 9))))))"

record gas_deps =
  gp_provider :: "nat option"
  gp_isReady :: bool
  gp_estimateResults :: "gas_estimate option"
  gp_contract :: method_type

text \<open>The state is \<open>estimateResults\<close>, and an action is its new value.\<close>

definition useEthereumGasPrice :: "(string \<Rightarrow> nat \<Rightarrow> string result) \<Rightarrow> (string \<Rightarrow> nat \<Rightarrow> string) \<Rightarrow>
    (gas_deps, 'k balance_nets, gas_estimate option) effect" where
  "useEthereumGasPrice formatUnits fixed d =
     Inr (case gp_provider d of
       None \<Rightarrow> noEffect
     | Some p \<Rightarrow>
         if gp_isReady d \<and> gp_estimateResults d = None
         then \<lparr>atOnce = [], whenAnswered = Some (\<lambda>N. case getGasEstimates formatUnits fixed N p (gp_contract d) of Inr r \<Rightarrow> [r] | Inl e \<Rightarrow> []),
           cleansUp = False\<rparr>
         else noEffect)"

text \<open>The two amounts that the page shows, if it shows any.\<close>

definition gasEstimateSummary :: "(string \<Rightarrow> nat \<Rightarrow> string result) \<Rightarrow> ChainId \<Rightarrow> method_type \<Rightarrow> gas_estimate option \<Rightarrow>
    (string \<times> string) option result" where
  "gasEstimateSummary formatUnits chainId methodType estimate =
     (if isEVMChain chainId then Inr (map_option (\<lambda>e. (ge_lowEstimate e, ge_highEstimate e)) estimate)
      else if chainId = CHAIN_ID_TERRA
      then (if methodType = MethodTransfer
        then bindR (formatUnits (decimal (fst terraEstimatesByContract)) NATIVE_TERRA_DECIMALS) (\<lambda>lowEstimate.
          mapR (\<lambda>highEstimate. Some (lowEstimate, highEstimate))
            (formatUnits (decimal (snd terraEstimatesByContract)) NATIVE_TERRA_DECIMALS))
        else Inr None)
      else Inr None)"

section \<open>\<open>useTerraNativeBalances.ts\<close>\<close>

record coins_state =
  cn_isLoading :: bool
  cn_balances :: "(string \<rightharpoonup> string) option"
  cn_refresh :: bool

definition coins_initial :: coins_state where
  "coins_initial = \<lparr>cn_isLoading = True, cn_balances = Some Map.empty, cn_refresh = False\<rparr>"

datatype coins_action =
    CNSetLoading bool
  | CNSetBalances "(string \<rightharpoonup> string) option"
  | CNSetRefresh bool

fun coinsReducer :: "coins_state \<Rightarrow> coins_action \<Rightarrow> coins_state" where
  "coinsReducer s (CNSetLoading b) = s\<lparr>cn_isLoading := b\<rparr>"
| "coinsReducer s (CNSetBalances m) = s\<lparr>cn_balances := m\<rparr>"
| "coinsReducer s (CNSetRefresh b) = s\<lparr>cn_refresh := b\<rparr>"

definition coinBalances :: "(string \<times> nat) list \<Rightarrow> string \<rightharpoonup> string" where
  "coinBalances cs = foldl (\<lambda>m (denom, n). m(denom \<mapsto> decimal n)) Map.empty cs"

text \<open>The dependencies are the address and the flag that asks for a refresh.\<close>

definition useTerraNativeBalances :: "(string option \<times> bool, 'k balance_nets, coins_action) effect" where
  "useTerraNativeBalances d =
     Inr (if truthy (fst d)
       then \<lparr>atOnce = [CNSetRefresh False, CNSetLoading True, CNSetBalances None],
           whenAnswered = Some (\<lambda>N. [CNSetLoading False,
             CNSetBalances (case bn_coins N (the (fst d)) of Inr cs \<Rightarrow> Some (coinBalances cs) | Inl e \<Rightarrow> None)]),
           cleansUp = False\<rparr>
       else \<lparr>atOnce = [CNSetRefresh False, CNSetLoading False, CNSetBalances None], whenAnswered = None, cleansUp = False\<rparr>)"

section \<open>\<open>useGetTargetParsedTokenAccounts.ts\<close>\<close>

text \<open>The Terra wallet is its address. The metadata are resolved when there are some or an error.\<close>

record 'k target_account_deps =
  tt_targetAsset :: "string option"
  tt_targetChain :: ChainId
  tt_provider :: "nat option"
  tt_signerAddress :: "string option"
  tt_solPK :: "'k option"
  tt_terraWallet :: "string option"
  tt_hasCorrectEvmNetwork :: bool
  tt_hasResolvedMetadata :: bool
  tt_symbol :: "string option"
  tt_tokenName :: "string option"
  tt_logo :: "string option"

definition target_account_deps_of :: "cluster \<Rightarrow> ('a, 'b, 'c) root_state \<Rightarrow> 'k wallets \<Rightarrow> bool \<Rightarrow>
    string option \<times> string option \<times> string option \<Rightarrow> 'k target_account_deps" where
  "target_account_deps_of c s w resolved meta =
     (case meta of (symb, nm, lg) \<Rightarrow>
        \<lparr>tt_targetAsset = selectTransferTargetAsset s, tt_targetChain = targetChain (transfer s), tt_provider = ew_provider w,
         tt_signerAddress = ew_signerAddress w, tt_solPK = solPK w, tt_terraWallet = terraWalletAddress w,
         tt_hasCorrectEvmNetwork = (ew_chainId w = getEvmChainId c (targetChain (transfer s))), tt_hasResolvedMetadata = resolved,
         tt_symbol = symb, tt_tokenName = nm, tt_logo = lg\<rparr>)"

definition targetAccount :: "(string \<Rightarrow> nat \<Rightarrow> string result) \<Rightarrow> 'k target_account_deps \<Rightarrow> string \<Rightarrow> string \<Rightarrow> nat \<Rightarrow> nat \<Rightarrow>
    transfer_action list" where
  "targetAccount formatUnits d pkey mint balance decs =
     (case formatUnits (decimal balance) decs of
        Inl e \<Rightarrow> []
      | Inr ui \<Rightarrow> [SetTargetParsedTokenAccount (Some (createParsedTokenAccount pkey mint (decimal balance) decs (uiNumber ui) ui
          (tt_symbol d) (tt_tokenName d) (tt_logo d) None))])"

text \<open>What the answer of each kind of chain dispatches.\<close>

definition terraTargetAnswer :: "(string \<Rightarrow> nat \<Rightarrow> string result) \<Rightarrow> 'k target_account_deps \<Rightarrow> string \<Rightarrow> string \<Rightarrow> 'k balance_nets \<Rightarrow>
    transfer_action list" where
  "terraTargetAnswer formatUnits d asset wallet N =
     (if isNativeDenom asset
      then (case bn_coins N wallet of
          Inl e \<Rightarrow> []
        | Inr cs \<Rightarrow> (case map_of cs asset of
              None \<Rightarrow> []
            | Some b \<Rightarrow> targetAccount formatUnits d '''' '''' b NATIVE_TERRA_DECIMALS))
      else (case bindR (bn_tokenInfo N asset) (\<lambda>decs. mapR (\<lambda>b. (decs, b)) (bn_tokenBalance N asset wallet)) of
          Inl e \<Rightarrow> []
        | Inr (decs, b) \<Rightarrow> targetAccount formatUnits d '''' '''' b decs))"

definition solanaTargetAnswer :: "('k \<Rightarrow> string) \<Rightarrow> 'k target_account_deps \<Rightarrow> 'k \<Rightarrow> 'k \<Rightarrow> 'k balance_nets \<Rightarrow> transfer_action list" where
  "solanaTargetAnswer toString d owner mint N =
     (case bn_tokenAccounts N owner mint of
        Inr (a # _) \<Rightarrow> [SetTargetParsedTokenAccount (Some (createParsedTokenAccount (toString (sa_pubkey a)) (sa_mint a) (sa_amount a)
          (sa_decimals a) (sa_uiAmount a) (sa_uiAmountString a) (tt_symbol d) (tt_tokenName d) (tt_logo d) None))]
      | _ \<Rightarrow> [])"

definition evmTargetAnswer :: "(string \<Rightarrow> nat \<Rightarrow> string result) \<Rightarrow> 'k target_account_deps \<Rightarrow> string \<Rightarrow> nat \<Rightarrow> string \<Rightarrow> 'k balance_nets \<Rightarrow>
    transfer_action list" where
  "evmTargetAnswer formatUnits d asset p signer N =
     (case bindR (bn_decimals N p asset) (\<lambda>decs. mapR (\<lambda>b. (decs, b)) (bn_balanceOf N p asset signer)) of
        Inl e \<Rightarrow> []
      | Inr (decs, b) \<Rightarrow> targetAccount formatUnits d signer asset b decs)"

text \<open>A chain is of one kind at most, so that at most one promise is pending. A mint that is no key ends the body without a cleanup.\<close>

definition useGetTargetParsedTokenAccounts :: "(string \<Rightarrow> nat \<Rightarrow> string result) \<Rightarrow> (string \<Rightarrow> 'k result) \<Rightarrow> ('k \<Rightarrow> string) \<Rightarrow>
    ('k target_account_deps, 'k balance_nets, transfer_action) effect" where
  "useGetTargetParsedTokenAccounts formatUnits pk toString d =
     (let clear = [SetTargetParsedTokenAccount None];
          stop = \<lparr>atOnce = clear, whenAnswered = None, cleansUp = False\<rparr>;
          asked = (\<lambda>f. \<lparr>atOnce = clear, whenAnswered = Some f, cleansUp = True\<rparr>);
          idle = \<lparr>atOnce = clear, whenAnswered = None, cleansUp = True\<rparr> in
      Inr
       (if \<not> truthy (tt_targetAsset d) \<or> \<not> tt_hasResolvedMetadata d then stop
        else
          (let asset = the (tt_targetAsset d) in
           if tt_targetChain d = CHAIN_ID_TERRA
           then (case tt_terraWallet d of None \<Rightarrow> idle | Some wallet \<Rightarrow> asked (terraTargetAnswer formatUnits d asset wallet))
           else if tt_targetChain d = CHAIN_ID_SOLANA
           then (case tt_solPK d of
               None \<Rightarrow> idle
             | Some owner \<Rightarrow> (case pk asset of Inl e \<Rightarrow> stop | Inr mint \<Rightarrow> asked (solanaTargetAnswer toString d owner mint)))
           else if isEVMChain (tt_targetChain d)
           then (case tt_provider d of
               None \<Rightarrow> idle
             | Some p \<Rightarrow>
                 if truthy (tt_signerAddress d) \<and> tt_hasCorrectEvmNetwork d
                 then asked (evmTargetAnswer formatUnits d asset p (the (tt_signerAddress d)))
                 else idle)
           else idle)))"

section \<open>Properties\<close>

interpretation target_account: cancelling "useGetTargetParsedTokenAccounts formatUnits pk toString" for formatUnits pk toString
  by unfold_locales (auto simp: useGetTargetParsedTokenAccounts_def Let_def split: if_splits option.splits sum.splits)

interpretation fees: lasting "useTransactionFees pk" for pk
  by unfold_locales (auto simp: useTransactionFees_def noEffect_def Let_def split: if_splits option.splits)

interpretation gas_price: lasting "useEthereumGasPrice formatUnits fixed" for formatUnits fixed
  by unfold_locales (auto simp: useEthereumGasPrice_def noEffect_def split: if_splits option.splits)

interpretation native_coins: lasting useTerraNativeBalances
  by unfold_locales (auto simp: useTerraNativeBalances_def split: if_splits)

text \<open>an answer that sets the account of the target token is that of the chain of the current target asset for the current wallet,
  whatever happened before.\<close>

theorem target_account_current:
  assumes "hookRun (useGetTargetParsedTokenAccounts formatUnits pk toString) deps reduce evs s = (s', m)"
    and "settle k N m = (m', as)" "as \<noteq> []"
  shows "\<exists>d asset. lastDeps m = Some d \<and> tt_targetAsset d = Some asset \<and> tt_hasResolvedMetadata d \<and>
    (tt_targetChain d = CHAIN_ID_TERRA \<and> (\<exists>w. tt_terraWallet d = Some w \<and> as = terraTargetAnswer formatUnits d asset w N) \<or>
     tt_targetChain d = CHAIN_ID_SOLANA \<and>
       (\<exists>owner mint. tt_solPK d = Some owner \<and> pk asset = Inr mint \<and> as = solanaTargetAnswer toString d owner mint N) \<or>
     isEVMChain (tt_targetChain d) \<and> tt_hasCorrectEvmNetwork d \<and>
       (\<exists>p w. tt_provider d = Some p \<and> tt_signerAddress d = Some w \<and> as = evmTargetAnswer formatUnits d asset p w N))"
proof (rule target_account.answer_is_last [OF assms])
  fix d r f
  assume d: "lastDeps m = Some d" "useGetTargetParsedTokenAccounts formatUnits pk toString d = Inr r" "whenAnswered r = Some f" "as = f N"
  then obtain asset where asset: "tt_targetAsset d = Some asset" "tt_hasResolvedMetadata d"
    by (cases "tt_targetAsset d") (auto simp: useGetTargetParsedTokenAccounts_def truthy_def Let_def split: if_splits)
  show ?thesis
  proof (intro exI conjI)
    show "lastDeps m = Some d" "tt_targetAsset d = Some asset" "tt_hasResolvedMetadata d" by fact+
    show "tt_targetChain d = CHAIN_ID_TERRA \<and> (\<exists>w. tt_terraWallet d = Some w \<and> as = terraTargetAnswer formatUnits d asset w N) \<or>
      tt_targetChain d = CHAIN_ID_SOLANA \<and>
        (\<exists>owner mint. tt_solPK d = Some owner \<and> pk asset = Inr mint \<and> as = solanaTargetAnswer toString d owner mint N) \<or>
      isEVMChain (tt_targetChain d) \<and> tt_hasCorrectEvmNetwork d \<and>
        (\<exists>p w. tt_provider d = Some p \<and> tt_signerAddress d = Some w \<and> as = evmTargetAnswer formatUnits d asset p w N)"
      using d(2-4) asset
      by (auto simp: useGetTargetParsedTokenAccounts_def truthy_def Let_def split: if_splits option.splits sum.splits)
  qed
qed

text \<open>The account that an answer on an EVM chain gives is the signer's, of the target asset, with its balance.\<close>

lemma evmTargetAnswer_account:
  "evmTargetAnswer formatUnits d asset p w N = [] \<or>
   (\<exists>decs b ui. bn_decimals N p asset = Inr decs \<and> bn_balanceOf N p asset w = Inr b \<and>
      evmTargetAnswer formatUnits d asset p w N =
        [SetTargetParsedTokenAccount (Some (createParsedTokenAccount w asset (decimal b) decs (uiNumber ui) ui
          (tt_symbol d) (tt_tokenName d) (tt_logo d) None))])"
  by (cases "bn_decimals N p asset"; cases "bn_balanceOf N p asset w")
    (auto simp: evmTargetAnswer_def targetAccount_def split: sum.splits)

definition evm_deps :: "string \<Rightarrow> fees_deps" where
  "evm_deps wallet = \<lparr>ud_provider = Some 1, ud_walletAddress = Some wallet, ud_isReady = True, ud_chainId = CHAIN_ID_ETH\<rparr>"

text \<open>the balance of a wallet on Ethereum stays when the page turns to Solana while no wallet is ready there; it is then compared with the
  threshold for lamports.\<close>

theorem fee_of_other_chain:
  assumes "w \<noteq> ''''" "bn_getBalance N 1 w = Inr b"
    and "hookRun (useTransactionFees pk) fst (\<lambda>(d, s) a. (d, feesReducer s a))
      [Flush, Settle 0 N, Outside (\<lambda>(d, s). (\<lparr>ud_provider = Some 1, ud_walletAddress = None, ud_isReady = False, ud_chainId = CHAIN_ID_SOLANA\<rparr>, s)),
       Flush] (evm_deps w, fees_initial) = ((d, s), m)"
  shows "fr_balance (feesResult formatUnits CHAIN_ID_SOLANA s) = Some b \<and>
    (fr_isSufficientBalance (feesResult formatUnits CHAIN_ID_SOLANA s) \<longleftrightarrow> b > SOLANA_THRESHOLD_LAMPORTS)"
  using assms
  by (auto simp: hook_defs useTransactionFees_def evm_deps_def truthy_def Let_def loadStart_def balanceAnswer_def noEffect_def feesResult_def
      isSufficientBalance_def isEVMChain_def chain_ids fees_initial_def)

text \<open>when the wallet changes while its balance is asked for, the answer that comes last is shown, be it that for the old wallet.\<close>

theorem fee_answer_of_old_wallet:
  assumes "w \<noteq> ''''" "w' \<noteq> ''''" "w \<noteq> w'" "bn_getBalance N 1 w = Inr b" "bn_getBalance N 1 w' = Inr b'"
    and "hookRun (useTransactionFees pk) fst (\<lambda>(d, s) a. (d, feesReducer s a))
      [Flush, Outside (\<lambda>(d, s). (evm_deps w', s)), Flush, Settle 1 N, Settle 0 N] (evm_deps w, fees_initial) = ((d, s), m)"
  shows "ud_walletAddress d = Some w' \<and> uf_balance s = Some b \<and> \<not> uf_isLoading s"
  using assms
  by (auto simp: hook_defs useTransactionFees_def evm_deps_def truthy_def Let_def loadStart_def balanceAnswer_def
      isEVMChain_def chain_ids fees_initial_def)

text \<open>the first estimate of gas is kept: after a change of the provider, which is one of the chain, or of the method nothing is
  asked, and the estimate shown is still that of the first.\<close>

theorem gas_estimate_kept:
  assumes "getGasEstimates formatUnits fixed N p ct = Inr (Some e)" "isEVMChain chainId'"
    and "hookRun (useEthereumGasPrice formatUnits fixed)
      (\<lambda>((provider, method), est). \<lparr>gp_provider = provider, gp_isReady = True, gp_estimateResults = est, gp_contract = method\<rparr>)
      (\<lambda>(x, est) a. (x, a)) [Flush, Settle 0 N, Flush, Outside (\<lambda>(x, est). ((Some p', ct'), est)), Flush] ((Some p, ct), None)
      = ((x, est), m)"
  shows "x = (Some p', ct') \<and> pending m = [] \<and>
    gasEstimateSummary formatUnits chainId' ct' est = Inr (Some (ge_lowEstimate e, ge_highEstimate e))"
  using assms by (auto simp: hook_defs useEthereumGasPrice_def noEffect_def gasEstimateSummary_def split: if_splits)

text \<open>before anything is known, the hook says that the balance suffices, except on Terra.\<close>

theorem terra_low_before_asked:
  "fr_isSufficientBalance (feesResult formatUnits chainId fees_initial) \<longleftrightarrow> chainId \<noteq> CHAIN_ID_TERRA"
  by (simp add: feesResult_def fees_initial_def isSufficientBalanceTerra_def isSufficientBalance_def)

text \<open>an error of the Solana node is a balance of 0, not an error.\<close>

theorem solana_error_is_zero:
  assumes "pk wallet = Inr k" "bn_lamports N [k] = Inl e"
  shows "balanceAnswer (getBalanceSolana pk N wallet) = [TFSetLoading False, TFSetBalance (Some 0)]"
  using assms by (simp add: balanceAnswer_def getBalanceSolana_def)

text \<open>one request to refresh the coins of a wallet asks for them twice: clearing the flag runs the effect again.\<close>

theorem refresh_asks_twice:
  assumes "w \<noteq> ''''"
    and "hookRun useTerraNativeBalances (\<lambda>s. (Some w, cn_refresh s)) coinsReducer
      [Flush, Flush, Settle 0 N, Outside (\<lambda>s. s\<lparr>cn_refresh := True\<rparr>), Flush, Flush, Flush] coins_initial = (s, m)"
  shows "length (pending m) = 2 \<and> cn_balances s = None"
  using assms by (auto simp: hook_defs useTerraNativeBalances_def truthy_def Let_def coins_initial_def)

section \<open>Examples\<close>

definition demo_balances :: "string balance_nets" where
  "demo_balances = \<lparr>bn_lamports = (\<lambda>_. Inl (Error ''down'')), bn_getBalance = (\<lambda>_ w. Inr (1000000 * length w)), bn_getGasPrice = (\<lambda>_. Inr 2),
     bn_coins = (\<lambda>_. Inr [(''uusd'', 5)]),
     bn_tokenInfo = (\<lambda>_. Inr 6), bn_tokenBalance = (\<lambda>_ _. Inr 7), bn_tokenAccounts = (\<lambda>_ _. Inr []), bn_decimals = (\<lambda>_ _. Inr 18),
     bn_balanceOf = (\<lambda>_ _ w. Inr 9)\<rparr>"

definition demo_target_deps :: "string target_account_deps" where
  "demo_target_deps = \<lparr>tt_targetAsset = Some ''0xtoken'', tt_targetChain = CHAIN_ID_ETH, tt_provider = Some 1, tt_signerAddress = Some ''0xme'',
     tt_solPK = None, tt_terraWallet = None, tt_hasCorrectEvmNetwork = True, tt_hasResolvedMetadata = True, tt_symbol = None,
     tt_tokenName = None, tt_logo = None\<rparr>"

theorem target_account_current_witness:
  "\<exists>as. snd (settle 0 demo_balances (snd (hookRun (useGetTargetParsedTokenAccounts (\<lambda>s n. Inr s) Inr (\<lambda>k. k)) (\<lambda>_. demo_target_deps)
      (\<lambda>(s :: transfer_action list) a. a # s) [Flush] []))) = as \<and> as \<noteq> [] \<and>
    as = evmTargetAnswer (\<lambda>s n. Inr s) demo_target_deps ''0xtoken'' 1 ''0xme'' demo_balances"
proof -
  let ?h = "hookRun (useGetTargetParsedTokenAccounts (\<lambda>s n. Inr s) Inr (\<lambda>k. k)) (\<lambda>_. demo_target_deps)
      (\<lambda>(s :: transfer_action list) a. a # s) [Flush] []"
  obtain s m where h: "?h = (s, m)" by fastforce
  obtain m' as where settled: "settle 0 demo_balances m = (m', as)" by fastforce
  have last: "lastDeps m = Some demo_target_deps" and ne: "as \<noteq> []"
    using h settled
    by (auto simp: hook_defs useGetTargetParsedTokenAccounts_def demo_target_deps_def truthy_def Let_def isEVMChain_def chain_ids
        evmTargetAnswer_def targetAccount_def demo_balances_def)
  show ?thesis using target_account_current [OF h settled ne] last settled ne h
    by (auto simp: demo_target_deps_def chain_ids)
qed

theorem fee_of_other_chain_witness:
  "\<exists>d s m. hookRun (useTransactionFees Inr) fst (\<lambda>(d, s) a. (d, feesReducer s a))
      [Flush, Settle 0 demo_balances,
       Outside (\<lambda>(d, s). (\<lparr>ud_provider = Some 1, ud_walletAddress = None, ud_isReady = False, ud_chainId = CHAIN_ID_SOLANA\<rparr>, s)), Flush]
      (evm_deps ''0xme'', fees_initial) = ((d, s), m) \<and> fr_isSufficientBalance (feesResult (\<lambda>t n. Inr t) CHAIN_ID_SOLANA s)"
proof -
  have b: "bn_getBalance demo_balances 1 ''0xme'' = Inr 4000000" by (simp add: demo_balances_def)
  obtain d s m where run: "hookRun (useTransactionFees Inr) fst (\<lambda>(d, s) a. (d, feesReducer s a))
      [Flush, Settle 0 demo_balances,
       Outside (\<lambda>(d, s). (\<lparr>ud_provider = Some 1, ud_walletAddress = None, ud_isReady = False, ud_chainId = CHAIN_ID_SOLANA\<rparr>, s)), Flush]
      (evm_deps ''0xme'', fees_initial) = ((d, s), m)" by (metis prod.collapse)
  show ?thesis using fee_of_other_chain [OF _ b run] run by (auto simp: SOLANA_THRESHOLD_LAMPORTS_def)
qed

theorem fee_answer_of_old_wallet_witness:
  "\<exists>d s m. hookRun (useTransactionFees Inr) fst (\<lambda>(d, s) a. (d, feesReducer s a))
      [Flush, Outside (\<lambda>(d, s). (evm_deps ''0xother'', s)), Flush, Settle 1 demo_balances, Settle 0 demo_balances]
      (evm_deps ''0xme'', fees_initial) = ((d, s), m) \<and> uf_balance s = Some 4000000"
proof -
  have b: "bn_getBalance demo_balances 1 ''0xme'' = Inr 4000000" "bn_getBalance demo_balances 1 ''0xother'' = Inr 7000000"
    by (simp_all add: demo_balances_def)
  obtain d s m where run: "hookRun (useTransactionFees Inr) fst (\<lambda>(d, s) a. (d, feesReducer s a))
      [Flush, Outside (\<lambda>(d, s). (evm_deps ''0xother'', s)), Flush, Settle 1 demo_balances, Settle 0 demo_balances]
      (evm_deps ''0xme'', fees_initial) = ((d, s), m)" by (metis prod.collapse)
  show ?thesis using fee_answer_of_old_wallet [OF _ _ _ b run] run by auto
qed

theorem gas_estimate_kept_witness:
  "\<exists>x est m. hookRun (useEthereumGasPrice (\<lambda>t n. Inr t) (\<lambda>t n. t))
      (\<lambda>((provider, method), est). \<lparr>gp_provider = provider, gp_isReady = True, gp_estimateResults = est, gp_contract = method\<rparr>)
      (\<lambda>(x, est) a. (x, a)) [Flush, Settle 0 demo_balances, Flush, Outside (\<lambda>(x, est). ((Some 2, MethodNft), est)), Flush]
      ((Some 1, MethodTransfer), None) = ((x, est), m) \<and>
    gasEstimateSummary (\<lambda>t n. Inr t) CHAIN_ID_BSC MethodNft est = Inr (Some (decimal 160000, decimal 260000))"
proof -
  let ?e = "\<lparr>ge_currentGasPrice = decimal 2, ge_lowEstimate = decimal 160000, ge_highEstimate = decimal 260000\<rparr>"
  have e: "getGasEstimates (\<lambda>t n. Inr t) (\<lambda>t n. t) demo_balances 1 MethodTransfer = Inr (Some ?e)" "isEVMChain CHAIN_ID_BSC"
    by (simp_all add: getGasEstimates_def demo_balances_def isEVMChain_def)
  obtain x est m where run: "hookRun (useEthereumGasPrice (\<lambda>t n. Inr t) (\<lambda>t n. t))
      (\<lambda>((provider, method), est). \<lparr>gp_provider = provider, gp_isReady = True, gp_estimateResults = est, gp_contract = method\<rparr>)
      (\<lambda>(x, est) a. (x, a)) [Flush, Settle 0 demo_balances, Flush, Outside (\<lambda>(x, est). ((Some 2, MethodNft), est)), Flush]
      ((Some 1, MethodTransfer), None) = ((x, est), m)" by (metis prod.collapse)
  show ?thesis using gas_estimate_kept [OF e run] run by auto
qed

theorem solana_error_is_zero_witness:
  "balanceAnswer (getBalanceSolana Inr demo_balances ''me'') = [TFSetLoading False, TFSetBalance (Some 0)]"
  using solana_error_is_zero [of Inr "''me''" "''me''" demo_balances "Error ''down''"] by (simp add: demo_balances_def)

theorem refresh_asks_twice_witness:
  "\<exists>s m. hookRun useTerraNativeBalances (\<lambda>s. (Some ''terra1'', cn_refresh s)) coinsReducer
      [Flush, Flush, Settle 0 demo_balances, Outside (\<lambda>s. s\<lparr>cn_refresh := True\<rparr>), Flush, Flush, Flush] coins_initial = (s, m) \<and>
    length (pending m) = 2"
proof -
  obtain s m where run: "hookRun useTerraNativeBalances (\<lambda>s. (Some ''terra1'', cn_refresh s)) coinsReducer
      [Flush, Flush, Settle 0 demo_balances, Outside (\<lambda>s. s\<lparr>cn_refresh := True\<rparr>), Flush, Flush, Flush] coins_initial = (s, m)" by fastforce
  show ?thesis using refresh_asks_twice [OF _ run] run by auto
qed

end
