(* ===== verification/Clients.thy ===== *)
theory Clients
  imports GovernanceVaa SolanaPost Terra
begin

text \<open>
  The commands of the clients that send transactions: \<open>clients/solana/main.ts\<close>, \<open>clients/token_bridge/main.ts\<close> and
  \<open>clients/nft_bridge/main.ts\<close>. A command for Solana is a sequence of calls to the node, appended to a list, and the reply
  of the node may depend on all of it. The key pairs that \<open>Keypair.generate()\<close> makes are arguments, and what is printed is the
  result. The commands of the NFT bridge are those of the token bridge with its own module and address.
\<close>

section \<open>The node\<close>

text \<open>\<open>sendAndConfirmTransaction\<close> of web3.js signs with the given key pairs, sends and waits.\<close>

datatype 'k client_call =
    RequestAirdrop 'k nat
  | ConfirmAirdrop string
  | ReadAccount 'k
  | SendAndConfirm "'k transaction" "'k keypair list"

type_synonym 'k client_calls = "'k client_call list"

record 'k client_node =
  requestAirdrop :: "'k client_calls \<Rightarrow> 'k \<Rightarrow> nat \<Rightarrow> string result"
  confirmAirdrop :: "'k client_calls \<Rightarrow> string \<Rightarrow> unit result"
  readAccount :: "'k client_calls \<Rightarrow> 'k \<Rightarrow> bytes option result"
  sendAndConfirm :: "'k client_calls \<Rightarrow> 'k transaction \<Rightarrow> 'k keypair list \<Rightarrow> string result"

definition airdrop :: "'k client_node \<Rightarrow> 'k keypair \<Rightarrow> 'k client_calls \<Rightarrow> 'k client_calls \<times> unit result" where
  "airdrop N from_key h =
     bindH (h @ [RequestAirdrop (publicKey from_key) 1000000000], requestAirdrop N h (publicKey from_key) 1000000000)
       (\<lambda>h airdropSignature. (h @ [ConfirmAirdrop airdropSignature], confirmAirdrop N h airdropSignature))"

definition sendCommand :: "'k client_node \<Rightarrow> 'k transaction \<Rightarrow> 'k keypair list \<Rightarrow> 'k client_calls \<Rightarrow>
    'k client_calls \<times> string result" where
  "sendCommand N tx signers h = (h @ [SendAndConfirm tx signers], sendAndConfirm N h tx signers)"

section \<open>Posting a VAA\<close>

definition get_bridge_state :: "'k web3 \<Rightarrow> 'k client_node \<Rightarrow> 'g core_wasm \<Rightarrow> 'k \<Rightarrow> 'k client_calls \<Rightarrow>
    'k client_calls \<times> bridge_state result" where
  "get_bridge_state W N K bridge_id h =
     bindH (h, bindR (state_address K (keyString W bridge_id)) (publicKeyB W)) (\<lambda>h bridge_state.
     bindH (h @ [ReadAccount bridge_state], readAccount N h bridge_state) (\<lambda>h acc.
     case acc of
       None \<Rightarrow> (h, Inl (Error ''bridge state not found''))
     | Some data \<Rightarrow> (h, parse_state K data)))"

text \<open>The loop over the groups of instructions that verify signatures.\<close>

fun sendVerifyTxs :: "'k web3 \<Rightarrow> 'k client_node \<Rightarrow> 'k keypair \<Rightarrow> 'k keypair \<Rightarrow> rust_ix list list \<Rightarrow> 'k client_calls \<Rightarrow>
    'k client_calls \<times> unit result" where
  "sendVerifyTxs W N payer signature_set [] h = (h, Inr ())"
| "sendVerifyTxs W N payer signature_set (tx # txs) h =
     bindH (h, sequenceR (map (ixFromRust W) tx)) (\<lambda>h ixs.
     bindH (h, newTransaction W [js_index ixs 0, js_index ixs 1]) (\<lambda>h transaction.
     bindH (sendCommand N transaction [payer, signature_set] h) (\<lambda>h _.
     sendVerifyTxs W N payer signature_set txs h)))"

definition post_vaa :: "'k web3 \<Rightarrow> 'k client_node \<Rightarrow> 'g core_wasm \<Rightarrow> 'k \<Rightarrow> 'k keypair \<Rightarrow> bytes \<Rightarrow> 'k keypair \<Rightarrow>
    'k client_calls \<Rightarrow> 'k client_calls \<times> unit result" where
  "post_vaa W N K bridge_id payer vaa signature_set h =
     (let bridge = keyString W bridge_id; payerKey = keyString W (publicKey payer); setKey = keyString W (publicKey signature_set) in
      bindH (get_bridge_state W N K bridge_id h) (\<lambda>h bridge_state.
      bindH (h, bindR (guardian_set_address K bridge (guardian_set_index bridge_state)) (publicKeyB W)) (\<lambda>h guardian_addr.
      bindH (h @ [ReadAccount guardian_addr], readAccount N h guardian_addr) (\<lambda>h acc.
      case acc of
        None \<Rightarrow> (h, Inr ())
      | Some data \<Rightarrow>
          bindH (h, bindR (parse_guardian_set K data) (\<lambda>guardian_data.
            verify_signatures_ix K bridge payerKey (guardian_set_index bridge_state) guardian_data setKey vaa)) (\<lambda>h txs.
          bindH (sendVerifyTxs W N payer signature_set txs h) (\<lambda>h _.
          bindH (h, bindR (post_vaa_ix K bridge payerKey setKey vaa) (ixFromRust W)) (\<lambda>h ix.
          bindH (h, newTransaction W [Some ix]) (\<lambda>h transaction.
          bindH (sendCommand N transaction [payer] h) (\<lambda>h signature. (h, Inr ()))))))))))"

definition post_vaa_command :: "'k web3 \<Rightarrow> 'k client_node \<Rightarrow> 'g core_wasm \<Rightarrow> string \<Rightarrow> string \<Rightarrow> 'k keypair \<Rightarrow> 'k keypair \<Rightarrow>
    'k client_calls \<Rightarrow> 'k client_calls \<times> unit result" where
  "post_vaa_command W N K argv_bridge argv_vaa from_key signature_set h =
     bindH (h, publicKeyS W argv_bridge) (\<lambda>h bridge_id.
     bindH (airdrop N from_key h) (\<lambda>h _.
     post_vaa W N K bridge_id from_key (fromHex argv_vaa) signature_set h))"

section \<open>Governance\<close>

text \<open>The instructions of the token and NFT bridge modules and of the core module. The arguments are the bridge, the core bridge,
  the payer, for an upgrade also the account that gets what is left, and the VAA.\<close>

record governance_wasm =
  register_chain_ix :: "string \<Rightarrow> string \<Rightarrow> string \<Rightarrow> bytes \<Rightarrow> rust_ix result"
  upgrade_contract_ix :: "string \<Rightarrow> string \<Rightarrow> string \<Rightarrow> string \<Rightarrow> bytes \<Rightarrow> rust_ix result"

record core_governance_wasm =
  core_upgrade_contract_ix :: "string \<Rightarrow> string \<Rightarrow> string \<Rightarrow> bytes \<Rightarrow> rust_ix result"
  update_guardian_set_ix :: "string \<Rightarrow> string \<Rightarrow> bytes \<Rightarrow> rust_ix result"
  set_fees_ix :: "string \<Rightarrow> string \<Rightarrow> bytes \<Rightarrow> rust_ix result"
  transfer_fees_ix :: "string \<Rightarrow> string \<Rightarrow> bytes \<Rightarrow> rust_ix result"

text \<open>The switches over \<open>parsed_vaa.payload[32]\<close>.\<close>

definition bridgeAction :: "governance_wasm \<Rightarrow> string \<Rightarrow> string \<Rightarrow> string \<Rightarrow> bytes \<Rightarrow> bytes \<Rightarrow> rust_ix result" where
  "bridgeAction G token_bridge bridge payer vaa payload =
     (if js_index payload 32 = Some 1 then register_chain_ix G token_bridge bridge payer vaa
      else if js_index payload 32 = Some 2 then upgrade_contract_ix G token_bridge bridge payer payer vaa
      else Inl (Error ''unknown governance action''))"

definition coreAction :: "core_governance_wasm \<Rightarrow> string \<Rightarrow> string \<Rightarrow> bytes \<Rightarrow> bytes \<Rightarrow> rust_ix result" where
  "coreAction G bridge payer vaa payload =
     (if js_index payload 32 = Some 1 then core_upgrade_contract_ix G bridge payer payer vaa
      else if js_index payload 32 = Some 2 then update_guardian_set_ix G bridge payer vaa
      else if js_index payload 32 = Some 3 then set_fees_ix G bridge payer vaa
      else if js_index payload 32 = Some 4 then transfer_fees_ix G bridge payer vaa
      else Inl (Error ''unknown governance action''))"

text \<open>What the three commands for Solana do once the keys of the programs are read: money for a new key, the VAA posted, and
  one transaction with the instruction of its action.\<close>

definition submitGovernance :: "'k web3 \<Rightarrow> 'k client_node \<Rightarrow> 'g core_wasm \<Rightarrow> (bytes \<Rightarrow> parsed_vaa result) \<Rightarrow>
    (string \<Rightarrow> bytes \<Rightarrow> bytes \<Rightarrow> rust_ix result) \<Rightarrow> 'k \<Rightarrow> string \<Rightarrow> 'k keypair \<Rightarrow> 'k keypair \<Rightarrow> 'k client_calls \<Rightarrow>
    'k client_calls \<times> string result" where
  "submitGovernance W N K parse action bridge_id argv_vaa from_key signature_set h =
     (let vaa = fromHex argv_vaa in
      bindH (airdrop N from_key h) (\<lambda>h _.
      bindH (post_vaa W N K bridge_id from_key vaa signature_set h) (\<lambda>h _.
      bindH (h, parse vaa) (\<lambda>h parsed_vaa.
      bindH (h, bindR (action (keyString W (publicKey from_key)) vaa (vaa_payload parsed_vaa)) (ixFromRust W)) (\<lambda>h ix.
      bindH (h, newTransaction W [Some ix]) (\<lambda>h transaction.
      sendCommand N transaction [from_key] h))))))"

definition solana_execute_governance_vaa :: "'k web3 \<Rightarrow> 'k client_node \<Rightarrow> 'g core_wasm \<Rightarrow> (bytes \<Rightarrow> parsed_vaa result) \<Rightarrow>
    governance_wasm \<Rightarrow> string \<Rightarrow> string \<Rightarrow> string \<Rightarrow> 'k keypair \<Rightarrow> 'k keypair \<Rightarrow> 'k client_calls \<Rightarrow> 'k client_calls \<times> string result" where
  "solana_execute_governance_vaa W N K parse G argv_bridge argv_token_bridge argv_vaa from_key signature_set h =
     bindH (h, publicKeyS W argv_bridge) (\<lambda>h bridge_id.
     bindH (h, publicKeyS W argv_token_bridge) (\<lambda>h token_bridge_id.
     submitGovernance W N K parse (bridgeAction G (keyString W token_bridge_id) (keyString W bridge_id)) bridge_id argv_vaa
       from_key signature_set h))"

definition nft_solana_execute_governance_vaa :: "'k web3 \<Rightarrow> 'k client_node \<Rightarrow> 'g core_wasm \<Rightarrow> (bytes \<Rightarrow> parsed_vaa result) \<Rightarrow>
    governance_wasm \<Rightarrow> string \<Rightarrow> string \<Rightarrow> string \<Rightarrow> 'k keypair \<Rightarrow> 'k keypair \<Rightarrow> 'k client_calls \<Rightarrow> 'k client_calls \<times> string result" where
  "nft_solana_execute_governance_vaa W N K parse G argv_bridge argv_nft_bridge argv_vaa from_key signature_set h =
     bindH (h, publicKeyS W argv_bridge) (\<lambda>h bridge_id.
     bindH (h, publicKeyS W argv_nft_bridge) (\<lambda>h nft_bridge_id.
     submitGovernance W N K parse (bridgeAction G (keyString W nft_bridge_id) (keyString W bridge_id)) bridge_id argv_vaa
       from_key signature_set h))"

definition core_execute_governance_vaa :: "'k web3 \<Rightarrow> 'k client_node \<Rightarrow> 'g core_wasm \<Rightarrow> (bytes \<Rightarrow> parsed_vaa result) \<Rightarrow>
    core_governance_wasm \<Rightarrow> string \<Rightarrow> string \<Rightarrow> 'k keypair \<Rightarrow> 'k keypair \<Rightarrow> 'k client_calls \<Rightarrow> 'k client_calls \<times> string result" where
  "core_execute_governance_vaa W N K parse G argv_bridge argv_vaa from_key signature_set h =
     bindH (h, publicKeyS W argv_bridge) (\<lambda>h bridge_id.
     submitGovernance W N K parse (coreAction G (keyString W bridge_id)) bridge_id argv_vaa from_key signature_set h)"

text \<open>On an EVM chain the transaction is sent and not waited for; its hash is printed.\<close>

datatype eth_governance = RegisterChain string bytes | Upgrade string bytes

definition eth_execute_governance_vaa :: "(bytes \<Rightarrow> parsed_vaa result) \<Rightarrow> (eth_governance \<Rightarrow> string result) \<Rightarrow> string \<Rightarrow> string \<Rightarrow>
    eth_governance list \<times> string result" where
  "eth_execute_governance_vaa parse tb argv_token_bridge argv_vaa =
     (let vaa = fromHex argv_vaa in
      bindH ([], parse vaa) (\<lambda>h parsed_vaa.
      if js_index (vaa_payload parsed_vaa) 32 = Some 1
      then (h @ [RegisterChain argv_token_bridge vaa], tb (RegisterChain argv_token_bridge vaa))
      else if js_index (vaa_payload parsed_vaa) 32 = Some 2
      then (h @ [Upgrade argv_token_bridge vaa], tb (Upgrade argv_token_bridge vaa))
      else (h, Inl (Error ''unknown governance action''))))"

definition nft_eth_execute_governance_vaa :: "(bytes \<Rightarrow> parsed_vaa result) \<Rightarrow> (eth_governance \<Rightarrow> string result) \<Rightarrow> string \<Rightarrow> string \<Rightarrow>
    eth_governance list \<times> string result" where
  "nft_eth_execute_governance_vaa parse tb argv_nft_bridge argv_vaa =
     eth_execute_governance_vaa parse tb argv_nft_bridge argv_vaa"

text \<open>On Terra: the wallet signs one message, and the node gives the hash of the transaction.\<close>

definition terra_execute_governance_vaa :: "(terra_msg list \<Rightarrow> string \<Rightarrow> 't result) \<Rightarrow> ('t \<Rightarrow> string result) \<Rightarrow> string \<Rightarrow> string \<Rightarrow> string \<Rightarrow>
    string result" where
  "terra_execute_governance_vaa createAndSignTx broadcast accAddress argv_token_bridge argv_vaa =
     (let transaction = \<lparr>sender = accAddress, contract = argv_token_bridge,
            execute_msg = JObj [(''submit_vaa'', JObj [(''data'', JStr (base64 (fromHex argv_vaa)))])],
            coins = [(''uluna'', ''1000'')]\<rparr> in
      bindR (createAndSignTx [transaction] '''') broadcast)"

section \<open>Posting a message\<close>

definition post_message :: "'k web3 \<Rightarrow> 'k client_node \<Rightarrow> 'g core_wasm \<Rightarrow> ('k \<Rightarrow> 'k \<Rightarrow> nat \<Rightarrow> 'k instruction result) \<Rightarrow>
    (string \<Rightarrow> string \<Rightarrow> string \<Rightarrow> string \<Rightarrow> int \<Rightarrow> bytes \<Rightarrow> string \<Rightarrow> rust_ix result) \<Rightarrow> string \<Rightarrow> int \<Rightarrow> string \<Rightarrow> string \<Rightarrow>
    'k keypair \<Rightarrow> 'k keypair \<Rightarrow> 'k keypair \<Rightarrow> 'k client_calls \<Rightarrow> 'k client_calls \<times> string result" where
  "post_message W N K systemTransfer post_message_ix argv_bridge argv_nonce argv_message argv_consistency from_key emitter message h =
     bindH (h, publicKeyS W argv_bridge) (\<lambda>h bridge_id.
     let bridge = keyString W bridge_id in
     bindH (airdrop N from_key h) (\<lambda>h _.
     bindH (h, fee_collector_address K bridge) (\<lambda>h fee_acc.
     bindH (get_bridge_state W N K bridge_id h) (\<lambda>h bridge_state.
     bindH (h, bindR (publicKeyB W fee_acc) (\<lambda>to_key. systemTransfer (publicKey from_key) to_key (fee (config bridge_state))))
       (\<lambda>h transferIx.
     if argv_consistency \<noteq> ''CONFIRMED'' \<and> argv_consistency \<noteq> ''FINALIZED'' then (h, Inl (Error ''invalid consistency level''))
     else
       bindH (h, bindR (post_message_ix bridge (keyString W (publicKey from_key)) (keyString W (publicKey emitter))
           (keyString W (publicKey message)) argv_nonce (fromHex argv_message) argv_consistency) (ixFromRust W)) (\<lambda>h ix.
       bindH (h, newTransaction W [Some transferIx, Some ix]) (\<lambda>h transaction.
       sendCommand N transaction [from_key, emitter, message] h)))))))"

section \<open>Commands stop at the first failure\<close>

text \<open>Whether the node answers a call, after the calls before it.\<close>

fun answered :: "'k client_node \<Rightarrow> 'k client_calls \<Rightarrow> 'k client_call \<Rightarrow> bool" where
  "answered N h (RequestAirdrop k n) = (\<exists>x. requestAirdrop N h k n = Inr x)"
| "answered N h (ConfirmAirdrop s) = (\<exists>x. confirmAirdrop N h s = Inr x)"
| "answered N h (ReadAccount k) = (\<exists>x. readAccount N h k = Inr x)"
| "answered N h (SendAndConfirm t ks) = (\<exists>x. sendAndConfirm N h t ks = Inr x)"

fun allAnswered :: "'k client_node \<Rightarrow> 'k client_calls \<Rightarrow> 'k client_calls \<Rightarrow> bool" where
  "allAnswered N h [] = True"
| "allAnswered N h (c # cs) = (answered N h c \<and> allAnswered N (h @ [c]) cs)"

lemma allAnswered_append: "allAnswered N h (cs @ ds) \<longleftrightarrow> allAnswered N h cs \<and> allAnswered N (h @ cs) ds"
  by (induction cs arbitrary: h) auto

lemma allAnswered_nth: "allAnswered N h cs \<Longrightarrow> i < length cs \<Longrightarrow> answered N (h @ take i cs) (cs ! i)"
proof (induction cs arbitrary: h i)
  case (Cons c cs)
  then show ?case using Cons.IH [of "h @ [c]" "i - 1"] by (cases i) auto
qed simp

lemma allAnswered_butlast: "allAnswered N h cs \<Longrightarrow> allAnswered N h (butlast cs)"
  using allAnswered_append [of N h "butlast cs" "[last cs]"] by (cases "cs = []") auto

text \<open>A step only adds calls; all of them are answered, save the last if the step fails.\<close>

definition careful :: "'k client_node \<Rightarrow> ('k client_calls \<Rightarrow> 'k client_calls \<times> 'a result) \<Rightarrow> bool" where
  "careful N f \<longleftrightarrow> (\<forall>h h' r. f h = (h', r) \<longrightarrow>
     (\<exists>cs. h' = h @ cs \<and> allAnswered N h (case r of Inr x \<Rightarrow> cs | Inl e \<Rightarrow> butlast cs)))"

named_theorems careful

lemma careful_pure [careful]: "careful N (\<lambda>h. (h, r))"
  by (simp add: careful_def split: sum.splits)

lemma careful_bind [careful]:
  assumes f: "careful N f" and g: "\<And>x. careful N (\<lambda>h. g h x)"
  shows "careful N (\<lambda>h. bindH (f h) g)"
  unfolding careful_def
proof (intro allI impI)
  fix h h' r
  assume r: "bindH (f h) g = (h', r)"
  obtain h1 r1 where f1: "f h = (h1, r1)" by fastforce
  then obtain cs where cs: "h1 = h @ cs" "allAnswered N h (case r1 of Inr x \<Rightarrow> cs | Inl e \<Rightarrow> butlast cs)"
    using f unfolding careful_def by blast
  show "\<exists>cs. h' = h @ cs \<and> allAnswered N h (case r of Inr x \<Rightarrow> cs | Inl e \<Rightarrow> butlast cs)"
  proof (cases r1)
    case (Inl e)
    then show ?thesis using r f1 cs by auto
  next
    case (Inr x)
    then have "g h1 x = (h', r)" using r f1 by simp
    then obtain ds where "h' = h1 @ ds" "allAnswered N h1 (case r of Inr x \<Rightarrow> ds | Inl e \<Rightarrow> butlast ds)"
      using g [of x] unfolding careful_def by blast
    then show ?thesis using cs Inr
      by (auto simp: allAnswered_append butlast_append allAnswered_butlast intro!: exI [of _ "cs @ ds"] split: sum.splits)
  qed
qed

lemma careful_if [careful]: "careful N f \<Longrightarrow> careful N g \<Longrightarrow> careful N (\<lambda>h. if b then f h else g h)"
  by (cases b) simp_all

lemma careful_option [careful]:
  "careful N f \<Longrightarrow> (\<And>x. careful N (\<lambda>h. g h x)) \<Longrightarrow> careful N (\<lambda>h. case acc of None \<Rightarrow> f h | Some x \<Rightarrow> g h x)"
  by (cases acc) auto

lemma careful_calls [careful]:
  "careful N (\<lambda>h. (h @ [RequestAirdrop k n], requestAirdrop N h k n))"
  "careful N (\<lambda>h. (h @ [ConfirmAirdrop s], confirmAirdrop N h s))"
  "careful N (\<lambda>h. (h @ [ReadAccount k], readAccount N h k))"
  "careful N (\<lambda>h. (h @ [SendAndConfirm t ks], sendAndConfirm N h t ks))"
  by (auto simp: careful_def split: sum.splits)

lemma careful_airdrop [careful]: "careful N (airdrop N k)"
  unfolding airdrop_def [abs_def] by (intro careful)

lemma careful_sendCommand [careful]: "careful N (sendCommand N t ks)"
  unfolding sendCommand_def [abs_def] by (intro careful)

lemma careful_get_bridge_state [careful]: "careful N (get_bridge_state W N K bid)"
  unfolding get_bridge_state_def [abs_def] by (intro careful)

lemma careful_sendVerifyTxs [careful]: "careful N (sendVerifyTxs W N payer ss txs)"
proof (induction txs)
  case (Cons tx txs)
  show ?case unfolding sendVerifyTxs.simps [abs_def] by (intro careful Cons.IH)
qed (simp add: careful_pure)

lemma careful_post_vaa [careful]: "careful N (post_vaa W N K bid payer vaa ss)"
  unfolding post_vaa_def [abs_def] Let_def by (intro careful)

lemma careful_submitGovernance [careful]: "careful N (submitGovernance W N K parse action bid v k ss)"
  unfolding submitGovernance_def [abs_def] Let_def by (intro careful)

text \<open>The interface of a command: after a call that fails there is no other, and the command fails.\<close>

locale command =
  fixes N :: "'k client_node" and run :: "'k client_calls \<Rightarrow> 'k client_calls \<times> 'a result"
  assumes run_careful: "careful N run"
begin

lemma stops:
  assumes "run [] = (h, r)" "i < length h" "\<not> answered N (take i h) (h ! i)"
  shows "Suc i = length h \<and> (\<exists>e. r = Inl e)"
proof -
  have a: "allAnswered N [] (case r of Inr x \<Rightarrow> h | Inl e \<Rightarrow> butlast h)"
    using run_careful [unfolded careful_def, rule_format, OF assms(1)] by simp
  show ?thesis
  proof (cases r)
    case (Inl e)
    have "\<not> i < length (butlast h)"
    proof
      assume i: "i < length (butlast h)"
      then have "answered N ([] @ take i (butlast h)) (butlast h ! i)" using a Inl by (intro allAnswered_nth) simp_all
      then show False using assms(3) i by (simp add: nth_butlast take_butlast)
    qed
    then show ?thesis using assms(2) Inl by simp
  next
    case (Inr x)
    then show ?thesis using allAnswered_nth [of N "[]" h i] a assms(2,3) by simp
  qed
qed

lemma answers: "run [] = (h, Inr x) \<Longrightarrow> i < length h \<Longrightarrow> answered N (take i h) (h ! i)"
  using stops [of h "Inr x" i] by auto

end

interpretation cmd_post_vaa: command N "post_vaa_command W N K b v k ss" for N W K b v k ss
  by unfold_locales (unfold post_vaa_command_def [abs_def], intro careful)

interpretation cmd_token: command N "solana_execute_governance_vaa W N K parse G b t v k ss" for N W K parse G b t v k ss
  by unfold_locales (unfold solana_execute_governance_vaa_def [abs_def], intro careful)

interpretation cmd_nft: command N "nft_solana_execute_governance_vaa W N K parse G b t v k ss" for N W K parse G b t v k ss
  by unfold_locales (unfold nft_solana_execute_governance_vaa_def [abs_def], intro careful)

interpretation cmd_core: command N "core_execute_governance_vaa W N K parse G b v k ss" for N W K parse G b v k ss
  by unfold_locales (unfold core_execute_governance_vaa_def [abs_def], intro careful)

interpretation cmd_message: command N "post_message W N K tr pm b n m c k e ms" for N W K tr pm b n m c k e ms
  by unfold_locales (unfold post_message_def [abs_def] Let_def, intro careful)

section \<open>What a command that succeeds has sent\<close>

text \<open>The transaction that the loop makes of a group of instructions.\<close>

definition verifyTransaction :: "'k web3 \<Rightarrow> rust_ix list \<Rightarrow> 'k transaction \<Rightarrow> bool" where
  "verifyTransaction W tx t \<longleftrightarrow>
     (\<exists>ixs. sequenceR (map (ixFromRust W) tx) = Inr ixs \<and> newTransaction W [js_index ixs 0, js_index ixs 1] = Inr t)"

lemma airdrop_Inr:
  "airdrop N k h = (h', Inr x) \<Longrightarrow> \<exists>s. h' = h @ [RequestAirdrop (publicKey k) 1000000000, ConfirmAirdrop s]"
  by (auto simp: airdrop_def bindH_eq_Inr)

lemma sendCommand_Inr: "sendCommand N t ks h = (h', Inr x) \<Longrightarrow> h' = h @ [SendAndConfirm t ks]"
  by (simp add: sendCommand_def)

lemma get_bridge_state_Inr:
  "get_bridge_state W N K bid h = (h', Inr st) \<Longrightarrow>
    \<exists>a data. bindR (state_address K (keyString W bid)) (publicKeyB W) = Inr a \<and> readAccount N h a = Inr (Some data) \<and>
      parse_state K data = Inr st \<and> h' = h @ [ReadAccount a]"
  by (auto simp: get_bridge_state_def bindH_eq_Inr split: option.splits)

lemma sendVerifyTxs_Inr:
  "sendVerifyTxs W N payer ss txs h = (h', Inr x) \<Longrightarrow>
    \<exists>ts. list_all2 (verifyTransaction W) txs ts \<and> h' = h @ map (\<lambda>t. SendAndConfirm t [payer, ss]) ts"
proof (induction txs arbitrary: h)
  case (Cons tx txs)
  then obtain ixs t h1 y where t: "sequenceR (map (ixFromRust W) tx) = Inr ixs" "newTransaction W [js_index ixs 0, js_index ixs 1] = Inr t"
    "sendCommand N t [payer, ss] h = (h1, Inr y)" "sendVerifyTxs W N payer ss txs h1 = (h', Inr x)"
    by (auto simp: bindH_eq_Inr)
  from Cons.IH [OF t(4)] obtain ts where "list_all2 (verifyTransaction W) txs ts" "h' = h1 @ map (\<lambda>t. SendAndConfirm t [payer, ss]) ts"
    by blast
  moreover have "verifyTransaction W tx t" using t(1,2) by (auto simp: verifyTransaction_def)
  ultimately show ?case using sendCommand_Inr [OF t(3)] by (intro exI [of _ "t # ts"]) simp
qed simp

text \<open>The two ways in which a VAA is taken as posted: the transactions have been sent, or there is no guardian set.\<close>

definition postedBy :: "'k web3 \<Rightarrow> 'k client_node \<Rightarrow> 'g core_wasm \<Rightarrow> 'k \<Rightarrow> 'k keypair \<Rightarrow> bytes \<Rightarrow> 'k keypair \<Rightarrow> bridge_state \<Rightarrow>
    bytes \<Rightarrow> 'k client_calls \<Rightarrow> bool" where
  "postedBy W N K bid payer vaa ss st data cs \<longleftrightarrow>
     (\<exists>gs txs ts ix p. parse_guardian_set K data = Inr gs \<and>
        verify_signatures_ix K (keyString W bid) (keyString W (publicKey payer)) (guardian_set_index st) gs
          (keyString W (publicKey ss)) vaa = Inr txs \<and>
        list_all2 (verifyTransaction W) txs ts \<and>
        bindR (post_vaa_ix K (keyString W bid) (keyString W (publicKey payer)) (keyString W (publicKey ss)) vaa) (ixFromRust W) = Inr ix \<and>
        newTransaction W [Some ix] = Inr p \<and>
        cs = map (\<lambda>t. SendAndConfirm t [payer, ss]) ts @ [SendAndConfirm p [payer]])"

lemma post_vaa_Inr:
  assumes "post_vaa W N K bid payer vaa ss h = (h', Inr x)"
  shows "\<exists>a st g cs. h' = h @ [ReadAccount a, ReadAccount g] @ cs \<and>
    bindR (guardian_set_address K (keyString W bid) (guardian_set_index st)) (publicKeyB W) = Inr g \<and>
    (readAccount N (h @ [ReadAccount a]) g = Inr None \<and> cs = [] \<or>
     (\<exists>data. readAccount N (h @ [ReadAccount a]) g = Inr (Some data) \<and> postedBy W N K bid payer vaa ss st data cs))"
proof -
  obtain h1 st g acc where st: "get_bridge_state W N K bid h = (h1, Inr st)"
    and g: "bindR (guardian_set_address K (keyString W bid) (guardian_set_index st)) (publicKeyB W) = Inr g"
    and acc: "readAccount N h1 g = Inr acc"
    using assms by (auto simp: post_vaa_def Let_def bindH_eq_Inr simp del: bindR_eq_Inr)
  from get_bridge_state_Inr [OF st] obtain a where a: "h1 = h @ [ReadAccount a]" by blast
  show ?thesis
  proof (cases acc)
    case None
    then have "h' = h1 @ [ReadAccount g]" using assms st g acc by (simp add: post_vaa_def)
    then show ?thesis using a g acc None by (intro exI [of _ a] exI [of _ st] exI [of _ g] exI [of _ "[]"]) simp
  next
    case (Some data)
    then obtain gs txs h2 y ix p h3 z where *: "parse_guardian_set K data = Inr gs"
      "verify_signatures_ix K (keyString W bid) (keyString W (publicKey payer)) (guardian_set_index st) gs
        (keyString W (publicKey ss)) vaa = Inr txs"
      "sendVerifyTxs W N payer ss txs (h1 @ [ReadAccount g]) = (h2, Inr y)"
      "bindR (post_vaa_ix K (keyString W bid) (keyString W (publicKey payer)) (keyString W (publicKey ss)) vaa) (ixFromRust W) = Inr ix"
      "newTransaction W [Some ix] = Inr p" "sendCommand N p [payer] h2 = (h3, Inr z)" "h' = h3"
      using assms st g acc by (auto simp: post_vaa_def Let_def bindH_eq_Inr)
    from sendVerifyTxs_Inr [OF *(3)] obtain ts where ts: "list_all2 (verifyTransaction W) txs ts"
      "h2 = (h1 @ [ReadAccount g]) @ map (\<lambda>t. SendAndConfirm t [payer, ss]) ts" by blast
    have "h' = h @ [ReadAccount a, ReadAccount g] @ (map (\<lambda>t. SendAndConfirm t [payer, ss]) ts @ [SendAndConfirm p [payer]])"
      using sendCommand_Inr [OF *(6)] *(7) ts(2) a by simp
    moreover have "postedBy W N K bid payer vaa ss st data (map (\<lambda>t. SendAndConfirm t [payer, ss]) ts @ [SendAndConfirm p [payer]])"
      unfolding postedBy_def using *(1,2,4,5) ts(1) by blast
    ultimately show ?thesis using g acc a Some by blast
  qed
qed

lemma submitGovernance_Inr:
  assumes "submitGovernance W N K parse action bid v k ss h = (h', Inr x)"
  shows "\<exists>s a st g cs parsed ix act.
    h' = h @ [RequestAirdrop (publicKey k) 1000000000, ConfirmAirdrop s, ReadAccount a, ReadAccount g] @ cs @ [SendAndConfirm act [k]] \<and>
    parse (fromHex v) = Inr parsed \<and>
    bindR (action (keyString W (publicKey k)) (fromHex v) (vaa_payload parsed)) (ixFromRust W) = Inr ix \<and>
    newTransaction W [Some ix] = Inr act \<and>
    bindR (guardian_set_address K (keyString W bid) (guardian_set_index st)) (publicKeyB W) = Inr g \<and>
    (readAccount N (h @ [RequestAirdrop (publicKey k) 1000000000, ConfirmAirdrop s, ReadAccount a]) g = Inr None \<and> cs = [] \<or>
     (\<exists>data. readAccount N (h @ [RequestAirdrop (publicKey k) 1000000000, ConfirmAirdrop s, ReadAccount a]) g = Inr (Some data) \<and>
       postedBy W N K bid k (fromHex v) ss st data cs))"
proof -
  obtain h1 y h2 z parsed ix act where *: "airdrop N k h = (h1, Inr y)" "post_vaa W N K bid k (fromHex v) ss h1 = (h2, Inr z)"
    "parse (fromHex v) = Inr parsed" "bindR (action (keyString W (publicKey k)) (fromHex v) (vaa_payload parsed)) (ixFromRust W) = Inr ix"
    "newTransaction W [Some ix] = Inr act" "sendCommand N act [k] h2 = (h', Inr x)"
    using assms by (auto simp: submitGovernance_def Let_def bindH_eq_Inr)
  from airdrop_Inr [OF *(1)] obtain s where h1: "h1 = h @ [RequestAirdrop (publicKey k) 1000000000, ConfirmAirdrop s]" by blast
  from post_vaa_Inr [OF *(2)] sendCommand_Inr [OF *(6)] *(3-5) show ?thesis unfolding h1 by auto blast+
qed

lemma bridgeAction_Inr: "bindR (bridgeAction G t b payer vaa payload) f = Inr ix \<Longrightarrow> js_index payload 32 = Some 1 \<or> js_index payload 32 = Some 2"
  by (auto simp: bridgeAction_def split: if_splits)

section \<open>Properties\<close>


text \<open>where the account of the guardian set does not exist, the command sends the transaction of the action although the
  VAA has not been posted.\<close>

theorem unposted_vaa_executed:
  assumes "solana_execute_governance_vaa W N K parse G b t v k ss [] = (h, Inr signature)"
    and "\<And>i bid g h. publicKeyS W b = Inr bid \<Longrightarrow>
      bindR (guardian_set_address K (keyString W bid) i) (publicKeyB W) = Inr g \<Longrightarrow> readAccount N h g = Inr None"
  shows "\<exists>s a g act. h = [RequestAirdrop (publicKey k) 1000000000, ConfirmAirdrop s, ReadAccount a, ReadAccount g, SendAndConfirm act [k]]"
proof -
  obtain bid tid where ids: "publicKeyS W b = Inr bid"
    and sub: "submitGovernance W N K parse (bridgeAction G (keyString W tid) (keyString W bid)) bid v k ss [] = (h, Inr signature)"
    using assms(1) by (auto simp: solana_execute_governance_vaa_def bindH_eq_Inr)
  from submitGovernance_Inr [OF sub] assms(2) [OF ids] show ?thesis
    by (auto simp del: bindR_eq_Inr)
qed

text \<open>after a call of the command that fails there is no other, and the command fails: no signature is left out, and the
  transaction of the action is not sent when one before it was not confirmed.\<close>

theorem governance_command_stops:
  assumes "solana_execute_governance_vaa W N K parse G b t v k ss [] = (h, r)"
    and "i < length h" "\<not> answered N (take i h) (h ! i)"
  shows "Suc i = length h \<and> (\<exists>e. r = Inl e)"
  using assms by (rule cmd_token.stops)

text \<open>\<open>post_message\<close> sends one transaction, which pays the bridge's fee to its collector before the message; with another
  consistency level than the two it sends none.\<close>

theorem post_message_pays:
  assumes "post_message W N K tr pm b n m c k e ms [] = (h, r)"
  shows "(\<forall>signature. r = Inr signature \<longrightarrow> (\<exists>bid fc st s a toKey pay ix t.
      publicKeyS W b = Inr bid \<and> fee_collector_address K (keyString W bid) = Inr fc \<and> publicKeyB W fc = Inr toKey \<and>
      get_bridge_state W N K bid (take 2 h) = (take 3 h, Inr st) \<and>
      tr (publicKey k) toKey (fee (config st)) = Inr pay \<and> newTransaction W [Some pay, Some ix] = Inr t \<and>
      h = [RequestAirdrop (publicKey k) 1000000000, ConfirmAirdrop s, ReadAccount a, SendAndConfirm t [k, e, ms]])) \<and>
    (c \<notin> {''CONFIRMED'', ''FINALIZED''} \<longrightarrow> (\<exists>err. r = Inl err) \<and> (\<forall>t ks. SendAndConfirm t ks \<notin> set h))"
proof (intro conjI allI impI)
  fix signature
  assume "r = Inr signature"
  with assms obtain bid fc st h1 y h2 toKey pay ix t where *: "publicKeyS W b = Inr bid" "airdrop N k [] = (h1, Inr y)"
    "fee_collector_address K (keyString W bid) = Inr fc" "get_bridge_state W N K bid h1 = (h2, Inr st)"
    "publicKeyB W fc = Inr toKey" "tr (publicKey k) toKey (fee (config st)) = Inr pay"
    "newTransaction W [Some pay, Some ix] = Inr t" "sendCommand N t [k, e, ms] h2 = (h, Inr signature)"
    by (auto simp: post_message_def Let_def bindH_eq_Inr split: if_splits)
  from airdrop_Inr [OF *(2)] obtain s where h1: "h1 = [RequestAirdrop (publicKey k) 1000000000, ConfirmAirdrop s]" by auto
  from get_bridge_state_Inr [OF *(4)] obtain a where a: "h2 = h1 @ [ReadAccount a]" by blast
  have h: "h = [RequestAirdrop (publicKey k) 1000000000, ConfirmAirdrop s, ReadAccount a, SendAndConfirm t [k, e, ms]]"
    using sendCommand_Inr [OF *(8)] a h1 by simp
  then have "take 2 h = h1" "take 3 h = h2" using a h1 by (simp_all add: numeral_3_eq_3)
  then show "\<exists>bid fc st s a toKey pay ix t.
      publicKeyS W b = Inr bid \<and> fee_collector_address K (keyString W bid) = Inr fc \<and> publicKeyB W fc = Inr toKey \<and>
      get_bridge_state W N K bid (take 2 h) = (take 3 h, Inr st) \<and>
      tr (publicKey k) toKey (fee (config st)) = Inr pay \<and> newTransaction W [Some pay, Some ix] = Inr t \<and>
      h = [RequestAirdrop (publicKey k) 1000000000, ConfirmAirdrop s, ReadAccount a, SendAndConfirm t [k, e, ms]]"
    using * h by metis
next
  assume c: "c \<notin> {''CONFIRMED'', ''FINALIZED''}"
  show "\<exists>err. r = Inl err" using assms c
    by (cases r) (auto simp: post_message_def Let_def bindH_eq_Inr)
  fix t ks
  show "SendAndConfirm t ks \<notin> set h" using assms c
    by (auto simp: post_message_def Let_def airdrop_def get_bridge_state_def bindH_def split: prod.splits sum.splits option.splits)
qed

text \<open>The action of a payload is the byte after its module.\<close>

lemma action_byte:
  "js_index (registerPayload (fromHex TOKEN_BRIDGE_MODULE) chain address) 32 = Some 1"
  "js_index (upgradePayload (fromHex TOKEN_BRIDGE_MODULE) chain address) 32 = Some 2"
  by (simp_all add: registerPayload_def upgradePayload_def TOKEN_BRIDGE_MODULE_def js_index_def hexval_def)

text \<open>What the two clients do with a VAA in hexadecimal digits of which the payload has an action.\<close>

lemma action_executes:
  assumes "parse vaa = Inr parsed"
  shows "js_index (vaa_payload parsed) 32 = Some 1 \<Longrightarrow>
      eth_execute_governance_vaa parse tb bridge (toHex vaa) = ([RegisterChain bridge vaa], tb (RegisterChain bridge vaa)) \<and>
      bridgeAction G t b p vaa (vaa_payload parsed) = register_chain_ix G t b p vaa"
    and "js_index (vaa_payload parsed) 32 = Some 2 \<Longrightarrow>
      eth_execute_governance_vaa parse tb bridge (toHex vaa) = ([Upgrade bridge vaa], tb (Upgrade bridge vaa)) \<and>
      bridgeAction G t b p vaa (vaa_payload parsed) = upgrade_contract_ix G t b p p vaa"
  using assms by (simp_all add: eth_execute_governance_vaa_def bridgeAction_def)

text \<open>C32: a VAA that the client of the token bridge generates is executed by the same client as what it was made for: on an EVM
  chain with \<open>registerChain\<close> or \<open>upgrade\<close> of the same bytes, on Solana with the instruction of that name.\<close>

theorem generated_vaas_execute:
  assumes A: "abi_text_laws A" and K: "keccak_laws (solidityKeccak256 A) K" and EC: "elliptic_laws EC"
    and c: "chain < 2 ^ 16" "length address = 32" and rand: "0 \<le> rand" "rand < 1"
    and signs: "\<And>key h. \<exists>sig. ec_sign EC key h = Inr sig"
    and parse: "\<And>bs m. readVM bs = Some m \<Longrightarrow> parse bs = Inr (vm_vaa m)"
  shows "(\<exists>vaa parsed. generate_register_chain_vaa A EC rand chain (''0x'' @ toHex address) key = Inr (toHex vaa) \<and>
      parse vaa = Inr parsed \<and>
      eth_execute_governance_vaa parse tb bridge (toHex vaa) = ([RegisterChain bridge vaa], tb (RegisterChain bridge vaa)) \<and>
      bridgeAction G t b p vaa (vaa_payload parsed) = register_chain_ix G t b p vaa) \<and>
    (\<exists>vaa parsed. generate_upgrade_chain_vaa A EC rand chain (''0x'' @ toHex address) key = Inr (toHex vaa) \<and>
      parse vaa = Inr parsed \<and>
      eth_execute_governance_vaa parse tb bridge (toHex vaa) = ([Upgrade bridge vaa], tb (Upgrade bridge vaa)) \<and>
      bridgeAction G t b p vaa (vaa_payload parsed) = upgrade_contract_ix G t b p p vaa)"
proof -
  let ?v = "\<lambda>payload. governanceVaa (nat \<lfloor>rand * 100000000\<rfloor>) payload"
  let ?r = "?v (registerPayload (fromHex TOKEN_BRIDGE_MODULE) chain address)"
  let ?u = "?v (upgradePayload (fromHex TOKEN_BRIDGE_MODULE) chain address)"
  obtain r u rs us where
    r: "generate_register_chain_vaa A EC rand chain (''0x'' @ toHex address) key = Inr (toHex r)" "readVM r = Some (vmOf 0 ?r [rs])" and
    u: "generate_upgrade_chain_vaa A EC rand chain (''0x'' @ toHex address) key = Inr (toHex u)" "readVM u = Some (vmOf 0 ?u [us])"
    using generated_governance_vaas [OF A K EC c rand signs] by blast
  have p: "parse r = Inr ?r" "parse u = Inr ?u" using parse [OF r(2)] parse [OF u(2)] by (simp_all add: vmOf_def)
  have act: "js_index (vaa_payload ?r) 32 = Some 1" "js_index (vaa_payload ?u) 32 = Some 2"
    by (simp_all add: governanceVaa_def action_byte)
  have "parse r = Inr ?r \<and> eth_execute_governance_vaa parse tb bridge (toHex r) = ([RegisterChain bridge r], tb (RegisterChain bridge r)) \<and>
      bridgeAction G t b p r (vaa_payload ?r) = register_chain_ix G t b p r"
    using p(1) act(1) action_executes(1) [of parse r ?r] by blast
  moreover have "parse u = Inr ?u \<and> eth_execute_governance_vaa parse tb bridge (toHex u) = ([Upgrade bridge u], tb (Upgrade bridge u)) \<and>
      bridgeAction G t b p u (vaa_payload ?u) = upgrade_contract_ix G t b p p u"
    using p(2) act(2) action_executes(2) [of parse u ?u] by blast
  ultimately show ?thesis using r(1) u(1) by metis
qed

section \<open>Runs\<close>

definition demo_node :: "string client_node" where
  "demo_node = \<lparr>requestAirdrop = (\<lambda>h k n. Inr ''air''), confirmAirdrop = (\<lambda>h s. Inr ()), readAccount = (\<lambda>h k. Inr (Some [0])),
     sendAndConfirm = (\<lambda>h t ks. Inr ''sig'')\<rparr>"

definition demo_key :: "string keypair" where
  "demo_key = \<lparr>publicKey = ''key'', secretKey = [8]\<rparr>"

definition demo_governance :: governance_wasm where
  "demo_governance = \<lparr>register_chain_ix = (\<lambda>t b p v. Inr (demo_ix 7)), upgrade_contract_ix = (\<lambda>t b p q v. Inr (demo_ix 8))\<rparr>"

definition demo_parse :: "bytes \<Rightarrow> parsed_vaa result" where
  "demo_parse bs = Inr (governanceVaa 0 (replicate 32 0 @ [1]))"

text \<open>A node whose guardian set is not there.\<close>

definition no_guardians :: "string client_node" where
  "no_guardians = demo_node\<lparr>readAccount := (\<lambda>h k. Inr (if k = toHex [2] then None else Some [0]))\<rparr>"

lemma demo_action: "bridgeAction demo_governance t b p v (vaa_payload (governanceVaa 0 (replicate 32 0 @ [1]))) = Inr (demo_ix 7)"
  by (simp add: bridgeAction_def governanceVaa_def js_index_def demo_governance_def nth_append)

lemma demo_run_governance:
  "\<exists>h. solana_execute_governance_vaa demo_web3 demo_node demo_core demo_parse demo_governance ''b'' ''t'' ''01'' demo_key demo_signature_set []
     = (h, Inr ''sig'')"
  by (simp add: solana_execute_governance_vaa_def submitGovernance_def airdrop_def post_vaa_def get_bridge_state_def sendCommand_def
      demo_node_def demo_core_def demo_parse_def demo_action demo_sels Let_def del: toHex_simps)

lemma demo_run_unposted:
  "\<exists>h. solana_execute_governance_vaa demo_web3 no_guardians demo_core demo_parse demo_governance ''b'' ''t'' ''01'' demo_key demo_signature_set []
     = (h, Inr ''sig'')"
  by (simp add: solana_execute_governance_vaa_def submitGovernance_def airdrop_def post_vaa_def get_bridge_state_def sendCommand_def
      no_guardians_def demo_node_def demo_core_def demo_parse_def demo_action demo_sels Let_def)


theorem unposted_vaa_executed_witness:
  "\<exists>h s a g act. solana_execute_governance_vaa demo_web3 no_guardians demo_core demo_parse demo_governance ''b'' ''t'' ''01''
      demo_key demo_signature_set [] = (h, Inr ''sig'') \<and>
    h = [RequestAirdrop (publicKey demo_key) 1000000000, ConfirmAirdrop s, ReadAccount a, ReadAccount g, SendAndConfirm act [demo_key]]"
proof -
  obtain h where h: "solana_execute_governance_vaa demo_web3 no_guardians demo_core demo_parse demo_governance ''b'' ''t'' ''01''
      demo_key demo_signature_set [] = (h, Inr ''sig'')" using demo_run_unposted by blast
  from unposted_vaa_executed [OF this] h show ?thesis
    by (simp add: demo_core_def demo_web3_def no_guardians_def)
qed

theorem governance_command_stops_witness:
  "\<exists>h e. solana_execute_governance_vaa demo_web3 (demo_node\<lparr>confirmAirdrop := (\<lambda>h s. Inl (Rejected ''no''))\<rparr>) demo_core demo_parse
     demo_governance ''b'' ''t'' ''01'' demo_key demo_signature_set [] = (h, Inl e) \<and> length h = 2"
proof -
  let ?N = "demo_node\<lparr>confirmAirdrop := (\<lambda>h s. Inl (Rejected ''no''))\<rparr>"
  have h: "solana_execute_governance_vaa demo_web3 ?N demo_core demo_parse demo_governance ''b'' ''t'' ''01'' demo_key demo_signature_set []
      = ([RequestAirdrop ''key'' 1000000000, ConfirmAirdrop ''air''], Inl (Rejected ''no''))"
    by (simp add: solana_execute_governance_vaa_def submitGovernance_def airdrop_def demo_node_def demo_sels demo_key_def Let_def)
  from governance_command_stops [OF this, of 1] h show ?thesis by simp
qed

theorem post_message_pays_witness:
  "\<exists>h t. post_message demo_web3 demo_node demo_core
      (\<lambda>a b n. ixFromRust demo_web3 (demo_ix 1)) (\<lambda>b p e m n d c. Inr (demo_ix 2)) ''b'' 3 ''ff'' ''CONFIRMED'' demo_key demo_signature_set demo_key []
     = (h, Inr ''sig'') \<and> SendAndConfirm t [demo_key, demo_signature_set, demo_key] = last h \<and> length h = 4"
proof -
  obtain h where h: "post_message demo_web3 demo_node demo_core
      (\<lambda>a b n. ixFromRust demo_web3 (demo_ix 1)) (\<lambda>b p e m n d c. Inr (demo_ix 2)) ''b'' 3 ''ff'' ''CONFIRMED'' demo_key demo_signature_set demo_key []
     = (h, Inr ''sig'')"
    by (simp add: post_message_def airdrop_def get_bridge_state_def sendCommand_def demo_node_def demo_core_def demo_sels Let_def
        del: toHex_simps)
  from post_message_pays [OF this] h show ?thesis by (auto simp del: bindR_eq_Inr)
qed

theorem generated_vaas_execute_witness:
  "\<exists>vaa. generate_register_chain_vaa demo_abi_text demo_elliptic (1 / 2) 2 (''0x'' @ toHex (replicate 32 7)) ''key'' = Inr (toHex vaa) \<and>
     eth_execute_governance_vaa (\<lambda>bs. case readVM bs of Some m \<Rightarrow> Inr (vm_vaa m) | None \<Rightarrow> Inl (Rejected ''VAA''))
       (\<lambda>c. Inr ''hash'') ''bridge'' (toHex vaa) = ([RegisterChain ''bridge'' vaa], Inr ''hash'')"
proof -
  have k: "keccak_laws (solidityKeccak256 demo_abi_text) (\<lambda>bs. bs)" using demo_text_laws(2) by (simp add: demo_abi_text_def)
  show ?thesis
    using generated_vaas_execute [OF demo_text_laws(1) k demo_text_laws(3) _ _ _ _ demo_signs, where chain = 2 and
      address = "replicate 32 7" and rand = "1 / 2" and key = "''key''" and tb = "\<lambda>c. Inr ''hash''" and bridge = "''bridge''" and
      parse = "\<lambda>bs. case readVM bs of Some m \<Rightarrow> Inr (vm_vaa m) | None \<Rightarrow> Inl (Rejected ''VAA'')"] by fastforce
qed

end
