(* ===== verification/EvmMigration.thy ===== *)
theory EvmMigration
  imports Effects Inputs
begin

text \<open>
  The pages of the bridge UI that exchange tokens of an earlier bridge on an EVM chain: the hook that reads a pool
  (\<open>hooks/useEthereumMigratorInformation.tsx\<close>), the page for one token (\<open>components/Migration/EvmWorkflow.tsx\<close>), the page for all
  tokens of a wallet (\<open>components/Migration/EvmQuickMigrate.tsx\<close>), and what a link opens (\<open>components/Migration/index.tsx\<close>).
  Contracts are addresses; the network, \<open>parseUnits\<close> and \<open>formatUnits\<close> are parameters.
\<close>

section \<open>Reading a pool\<close>

text \<open>The views of the migrator and of tokens.\<close>

record pool_net =
  pn_fromAsset :: "string \<Rightarrow> string result"
  pn_toAsset :: "string \<Rightarrow> string result"
  pn_symbol :: "string \<Rightarrow> string result"
  pn_fromDecimals :: "string \<Rightarrow> nat result"
  pn_toDecimals :: "string \<Rightarrow> nat result"
  pn_sharesDecimals :: "string \<Rightarrow> nat result"
  pn_balanceOf :: "string \<Rightarrow> string \<Rightarrow> nat result"

record requisite_data =
  rd_poolAddress :: string
  rd_fromAddress :: string
  rd_toAddress :: string
  rd_fromSymbol :: string
  rd_toSymbol :: string
  rd_fromDecimals :: nat
  rd_toDecimals :: nat
  rd_sharesDecimals :: nat
  rd_fromWalletBalance :: string
  rd_toWalletBalance :: string
  rd_fromPoolBalance :: string
  rd_toPoolBalance :: string
  rd_walletSharesBalance :: string

definition formatBalance :: "(string \<Rightarrow> nat \<Rightarrow> string result) \<Rightarrow> pool_net \<Rightarrow> string \<Rightarrow> string \<Rightarrow> nat \<Rightarrow> string result" where
  "formatBalance formatUnits N token owner decs = bindR (pn_balanceOf N token owner) (\<lambda>n. formatUnits (decimal n) decs)"

definition getRequisiteData :: "(string \<Rightarrow> nat \<Rightarrow> string result) \<Rightarrow> pool_net \<Rightarrow> string \<Rightarrow> string \<Rightarrow> requisite_data result" where
  "getRequisiteData formatUnits N migrator signerAddress =
     (case
        bindR (pn_fromAsset N migrator) (\<lambda>fromAddress.
        bindR (pn_toAsset N migrator) (\<lambda>toAddress.
        bindR (pn_symbol N fromAddress) (\<lambda>fromSymbol.
        bindR (pn_symbol N toAddress) (\<lambda>toSymbol.
        bindR (pn_fromDecimals N migrator) (\<lambda>fromDecimals.
        bindR (pn_toDecimals N migrator) (\<lambda>toDecimals.
        bindR (pn_sharesDecimals N migrator) (\<lambda>sharesDecimals.
        bindR (formatBalance formatUnits N fromAddress signerAddress fromDecimals) (\<lambda>fromWalletBalance.
        bindR (formatBalance formatUnits N toAddress signerAddress toDecimals) (\<lambda>toWalletBalance.
        bindR (formatBalance formatUnits N fromAddress migrator fromDecimals) (\<lambda>fromPoolBalance.
        bindR (formatBalance formatUnits N toAddress migrator toDecimals) (\<lambda>toPoolBalance.
        bindR (formatBalance formatUnits N migrator signerAddress sharesDecimals) (\<lambda>walletSharesBalance.
        Inr \<lparr>rd_poolAddress = migrator, rd_fromAddress = fromAddress, rd_toAddress = toAddress, rd_fromSymbol = fromSymbol,
          rd_toSymbol = toSymbol, rd_fromDecimals = fromDecimals, rd_toDecimals = toDecimals, rd_sharesDecimals = sharesDecimals,
          rd_fromWalletBalance = fromWalletBalance, rd_toWalletBalance = toWalletBalance, rd_fromPoolBalance = fromPoolBalance,
          rd_toPoolBalance = toPoolBalance, rd_walletSharesBalance = walletSharesBalance\<rparr>))))))))))))
      of Inl e \<Rightarrow> Inl (Rejected ''Failed to retrieve required data.'') | Inr d \<Rightarrow> Inr d)"

record pool_info =
  pi_isLoading :: bool
  pi_error :: string
  pi_data :: "requisite_data option"

definition pool_initial :: pool_info where
  "pool_initial = \<lparr>pi_isLoading = False, pi_error = '''', pi_data = None\<rparr>"

datatype pool_action = PISetLoading bool | PISetError string | PISetData requisite_data

fun poolReducer :: "pool_info \<Rightarrow> pool_action \<Rightarrow> pool_info" where
  "poolReducer s (PISetLoading b) = s\<lparr>pi_isLoading := b\<rparr>"
| "poolReducer s (PISetError e) = s\<lparr>pi_error := e\<rparr>"
| "poolReducer s (PISetData d) = s\<lparr>pi_data := Some d\<rparr>"

text \<open>A signer is a number. The migrator is there when its address and the signer are.\<close>

record pool_deps =
  pd_migratorAddress :: "string option"
  pd_signer :: "nat option"
  pd_signerAddress :: "string option"
  pd_toggleRefresh :: bool

definition useEthereumMigratorInformation :: "(string \<Rightarrow> nat \<Rightarrow> string result) \<Rightarrow> (pool_deps, pool_net, pool_action) effect" where
  "useEthereumMigratorInformation formatUnits d =
     Inr (if pd_signer d = None \<or> \<not> truthy (pd_migratorAddress d) \<or> \<not> truthy (pd_signerAddress d) then noEffect
       else \<lparr>atOnce = [PISetLoading True],
         whenAnswered = Some (\<lambda>N. case getRequisiteData formatUnits N (the (pd_migratorAddress d)) (the (pd_signerAddress d)) of
             Inr r \<Rightarrow> [PISetData r, PISetLoading False]
           | Inl e \<Rightarrow> [PISetLoading False, PISetError ''Failed to retrieve necessary data.'']),
         cleansUp = True\<rparr>)"

text \<open>What the hook returns.\<close>

definition poolInfo :: "pool_deps \<Rightarrow> pool_info \<Rightarrow> pool_info" where
  "poolInfo d s =
     (if \<not> truthy (pd_migratorAddress d) \<or> pd_signer d = None \<or> \<not> truthy (pd_signerAddress d)
      then \<lparr>pi_isLoading = False,
          pi_error = (if pd_signer d = None \<or> \<not> truthy (pd_signerAddress d) then ''Wallet not connected''
            else if \<not> truthy (pd_migratorAddress d) then ''No contract address'' else ''Error''),
          pi_data = None\<rparr>
      else s)"

section \<open>The page for one token\<close>

record workflow_state =
  wf_migrationAmount :: string
  wf_migrationIsProcessing :: bool
  wf_error :: string
  wf_transaction :: "string option"
  wf_toggleRefresh :: bool

definition workflow_initial :: workflow_state where
  "workflow_initial = \<lparr>wf_migrationAmount = '''', wf_migrationIsProcessing = False, wf_error = '''', wf_transaction = None,
     wf_toggleRefresh = False\<rparr>"

datatype workflow_action =
    WFSetAmount string
  | WFSetProcessing bool
  | WFSetError string
  | WFSetTransaction string
  | WFForceRefresh

fun workflowReducer :: "workflow_state \<Rightarrow> workflow_action \<Rightarrow> workflow_state" where
  "workflowReducer s (WFSetAmount a) = s\<lparr>wf_migrationAmount := a\<rparr>"
| "workflowReducer s (WFSetProcessing b) = s\<lparr>wf_migrationIsProcessing := b\<rparr>"
| "workflowReducer s (WFSetError e) = s\<lparr>wf_error := e\<rparr>"
| "workflowReducer s (WFSetTransaction t) = s\<lparr>wf_transaction := Some t\<rparr>"
| "workflowReducer s WFForceRefresh = s\<lparr>wf_toggleRefresh := \<not> wf_toggleRefresh s\<rparr>"

text \<open>A decimal number of 0 is falsy.\<close>

definition fromParse :: "(string \<Rightarrow> nat \<Rightarrow> int result) \<Rightarrow> pool_info \<Rightarrow> workflow_state \<Rightarrow> string \<Rightarrow> int" where
  "fromParse parseUnits p s amt =
     (case pi_data p of
        None \<Rightarrow> 0
      | Some d \<Rightarrow>
          if rd_fromDecimals d = 0 \<or> wf_migrationAmount s = '''' then 0
          else (case parseUnits amt (rd_fromDecimals d) of Inr n \<Rightarrow> n | Inl e \<Rightarrow> 0))"

text \<open>\<open>parseFloat(a) <= parseFloat(b)\<close>; a comparison with NaN is false.\<close>

definition floatLe :: "string \<Rightarrow> string \<Rightarrow> bool" where
  "floatLe a b = (case (jsNumber a, jsNumber b) of (Some x, Some y) \<Rightarrow> x \<le> y | _ \<Rightarrow> False)"

definition amountGreaterThanZero :: "(string \<Rightarrow> nat \<Rightarrow> int result) \<Rightarrow> pool_info \<Rightarrow> workflow_state \<Rightarrow> bool" where
  "amountGreaterThanZero parseUnits p s \<longleftrightarrow> 0 < fromParse parseUnits p s (wf_migrationAmount s)"

definition sufficientFromTokens :: "(string \<Rightarrow> nat \<Rightarrow> int result) \<Rightarrow> pool_info \<Rightarrow> workflow_state \<Rightarrow> bool" where
  "sufficientFromTokens parseUnits p s =
     (case pi_data p of
        None \<Rightarrow> False
      | Some d \<Rightarrow> rd_fromWalletBalance d \<noteq> '''' \<and> wf_migrationAmount s \<noteq> '''' \<and>
          fromParse parseUnits p s (wf_migrationAmount s) \<le> fromParse parseUnits p s (rd_fromWalletBalance d))"

definition sufficientPoolBalance :: "pool_info \<Rightarrow> workflow_state \<Rightarrow> bool" where
  "sufficientPoolBalance p s =
     (case pi_data p of
        None \<Rightarrow> False
      | Some d \<Rightarrow> rd_toPoolBalance d \<noteq> '''' \<and> wf_migrationAmount s \<noteq> '''' \<and>
          floatLe (wf_migrationAmount s) (rd_toPoolBalance d))"

definition isReadyToTransfer :: "(string \<Rightarrow> nat \<Rightarrow> int result) \<Rightarrow> bool \<Rightarrow> pool_info \<Rightarrow> workflow_state \<Rightarrow> bool" where
  "isReadyToTransfer parseUnits isReady p s \<longleftrightarrow>
     isReady \<and> amountGreaterThanZero parseUnits p s \<and> sufficientFromTokens parseUnits p s \<and> sufficientPoolBalance p s \<and>
     pi_data p \<noteq> None"

definition getNotReadyCause :: "(string \<Rightarrow> nat \<Rightarrow> int result) \<Rightarrow> bool \<Rightarrow> pool_info \<Rightarrow> workflow_state \<Rightarrow> string" where
  "getNotReadyCause parseUnits isReady p s =
     (if \<not> isReady then ''Connect your wallet to proceed.''
      else if pi_error p \<noteq> '''' then ''Unable to retrieve necessary information. This asset may not be supported.''
      else if wf_migrationAmount s = '''' then ''Enter an amount to transfer.''
      else if \<not> amountGreaterThanZero parseUnits p s then ''The transfer amount must be greater than zero.''
      else if \<not> sufficientFromTokens parseUnits p s then ''There are not sufficient funds in your wallet for this transfer.''
      else if \<not> sufficientPoolBalance p s then ''There are not sufficient funds in the pool for this transfer.''
      else '''')"

text \<open>What the page offers: the wait for a wallet or the pool, an error for good, or the form; in the form the field and the
  button.\<close>

datatype workflow_view = ConnectWallet | LoadingPool | FatalError string | MainWorkflow

definition workflowView :: "bool \<Rightarrow> pool_info \<Rightarrow> workflow_view" where
  "workflowView isReady p =
     (if \<not> isReady then ConnectWallet
      else if pi_isLoading p then LoadingPool
      else if pi_error p \<noteq> '''' then FatalError ''Unable to retrieve necessary information. This asset may not be supported.''
      else MainWorkflow)"

definition amountEnabled :: "workflow_state \<Rightarrow> bool" where
  "amountEnabled s \<longleftrightarrow> \<not> wf_migrationIsProcessing s \<and> \<not> truthy (wf_transaction s)"

definition migrateEnabled :: "(string \<Rightarrow> nat \<Rightarrow> int result) \<Rightarrow> bool \<Rightarrow> pool_info \<Rightarrow> workflow_state \<Rightarrow> bool" where
  "migrateEnabled parseUnits isReady p s \<longleftrightarrow>
     workflowView isReady p = MainWorkflow \<and> \<not> truthy (wf_transaction s) \<and>
     isReadyToTransfer parseUnits isReady p s \<and> \<not> wf_migrationIsProcessing s"

definition handleMaxClick :: "pool_info \<Rightarrow> workflow_action list" where
  "handleMaxClick p =
     (case pi_data p of None \<Rightarrow> [] | Some d \<Rightarrow> if rd_fromWalletBalance d \<noteq> '''' then [WFSetAmount (rd_fromWalletBalance d)] else [])"

subsection \<open>The click\<close>

text \<open>What a click does: a new value of the page's state, a message, sending an approval or the exchange, and waiting for a
  transaction. The replies of the signer may depend on what happened before.\<close>

datatype 'a migrate_event =
    SetPage 'a
  | Notice severity string
  | SendApprove string string int
  | SendMigrate string int
  | WaitMined string

type_synonym 'a migrate_events = "'a migrate_event list"

record 'a migrate_signer =
  ms_approve :: "'a migrate_events \<Rightarrow> string \<Rightarrow> string \<Rightarrow> int \<Rightarrow> unit result"
  ms_migrate :: "'a migrate_events \<Rightarrow> string \<Rightarrow> int \<Rightarrow> string result"
  ms_wait :: "'a migrate_events \<Rightarrow> string \<Rightarrow> unit result"

definition sendApprove :: "'a migrate_signer \<Rightarrow> string \<Rightarrow> string \<Rightarrow> int \<Rightarrow> 'a migrate_events \<Rightarrow> 'a migrate_events \<times> unit result" where
  "sendApprove S token spender n h = (h @ [SendApprove token spender n], ms_approve S h token spender n)"

definition sendMigrate :: "'a migrate_signer \<Rightarrow> string \<Rightarrow> int \<Rightarrow> 'a migrate_events \<Rightarrow> 'a migrate_events \<times> string result" where
  "sendMigrate S pool n h = (h @ [SendMigrate pool n], ms_migrate S h pool n)"

definition waitMined :: "'a migrate_signer \<Rightarrow> string \<Rightarrow> 'a migrate_events \<Rightarrow> 'a migrate_events \<times> unit result" where
  "waitMined S tx h = (h @ [WaitMined tx], ms_wait S h tx)"

definition migrateTokens_page :: "(string \<Rightarrow> nat \<Rightarrow> int result) \<Rightarrow> workflow_action migrate_signer \<Rightarrow> pool_info \<Rightarrow> string \<Rightarrow>
    workflow_action migrate_events \<Rightarrow> workflow_action migrate_events" where
  "migrateTokens_page parseUnits S p amt h =
     (case pi_data p of
        None \<Rightarrow> h @ [Notice SevError ''Could not migrate the tokens.'']
      | Some d \<Rightarrow>
          (case
             bindH (h @ [SetPage (WFSetProcessing True), SetPage (WFSetError '''')], parseUnits amt (rd_fromDecimals d)) (\<lambda>h n.
             bindH (sendApprove S (rd_fromAddress d) (rd_poolAddress d) n h) (\<lambda>h _.
             bindH (h, parseUnits amt (rd_fromDecimals d)) (\<lambda>h n.
             bindH (sendMigrate S (rd_poolAddress d) n h) (\<lambda>h transaction.
             bindH (waitMined S transaction h) (\<lambda>h _.
             (h @ [SetPage (WFSetTransaction transaction), SetPage WFForceRefresh,
                Notice SevSuccess ''Successfully migrated the tokens.'', SetPage (WFSetProcessing False)], Inr ()))))))
           of (h, Inr _) \<Rightarrow> h
            | (h, Inl e) \<Rightarrow> h @ [Notice SevError ''Could not migrate the tokens.'', SetPage (WFSetProcessing False),
                SetPage (WFSetError ''Failed to send the transaction.'')]))"

section \<open>The page for all tokens of a wallet\<close>

definition compareWithDecimalOffset :: "(string \<Rightarrow> nat \<Rightarrow> int result) \<Rightarrow> string \<Rightarrow> nat \<Rightarrow> string \<Rightarrow> nat \<Rightarrow> int result" where
  "compareWithDecimalOffset parseUnits valueA decimalsA valueB decimalsB =
     (let decimalsBasis = if decimalsA > decimalsB then decimalsA else decimalsB in
      bindR (parseUnits valueA decimalsBasis) (\<lambda>normalizedA.
      bindR (parseUnits valueB decimalsBasis) (\<lambda>normalizedB.
      Inr (if normalizedA < normalizedB then - 1 else if normalizedA = normalizedB then 0 else 1))))"

subsection \<open>A line\<close>

record line_state =
  li_loaded :: bool
  li_migrationIsProcessing :: bool
  li_transaction :: string
  li_error :: string

definition line_initial :: line_state where
  "line_initial = \<lparr>li_loaded = False, li_migrationIsProcessing = False, li_transaction = '''', li_error = ''''\<rparr>"

datatype line_action = LISetLoaded bool | LISetProcessing bool | LISetTransaction string | LISetError string

fun lineReducer :: "line_state \<Rightarrow> line_action \<Rightarrow> line_state" where
  "lineReducer s (LISetLoaded b) = s\<lparr>li_loaded := b\<rparr>"
| "lineReducer s (LISetProcessing b) = s\<lparr>li_migrationIsProcessing := b\<rparr>"
| "lineReducer s (LISetTransaction t) = s\<lparr>li_transaction := t\<rparr>"
| "lineReducer s (LISetError e) = s\<lparr>li_error := e\<rparr>"

text \<open>What the line compares while it is drawn; an exception here takes the page away.\<close>

definition line_sufficientPoolBalance :: "(string \<Rightarrow> nat \<Rightarrow> int result) \<Rightarrow> pool_info \<Rightarrow> bool result" where
  "line_sufficientPoolBalance parseUnits p =
     (case pi_data p of
        None \<Rightarrow> Inr False
      | Some d \<Rightarrow> mapR (\<lambda>c. c \<noteq> 1) (compareWithDecimalOffset parseUnits (rd_fromWalletBalance d) (rd_fromDecimals d)
          (rd_toPoolBalance d) (rd_toDecimals d)))"

definition line_enabled :: "(string \<Rightarrow> nat \<Rightarrow> int result) \<Rightarrow> pool_info \<Rightarrow> line_state \<Rightarrow> bool" where
  "line_enabled parseUnits p s \<longleftrightarrow>
     pi_data p \<noteq> None \<and> li_transaction s = '''' \<and> line_sufficientPoolBalance parseUnits p = Inr True \<and> \<not> li_migrationIsProcessing s"

definition line_buttonError :: "(string \<Rightarrow> nat \<Rightarrow> int result) \<Rightarrow> pool_info \<Rightarrow> line_state \<Rightarrow> string" where
  "line_buttonError parseUnits p s =
     (if li_error s \<noteq> '''' then li_error s
      else if line_sufficientPoolBalance parseUnits p \<noteq> Inr True then ''The swap pool has insufficient funds.'' else '''')"

text \<open>The effect that reports to the page, with the actions it dispatches and how often it calls \<open>onLoadComplete\<close>.\<close>

definition lineReport :: "line_state \<Rightarrow> pool_info \<Rightarrow> line_action list \<times> nat" where
  "lineReport s p = (if \<not> li_loaded s \<and> (pi_data p \<noteq> None \<or> pi_error p \<noteq> '''') then ([LISetLoaded True], 1) else ([], 0))"

definition migrateTokens_line :: "(string \<Rightarrow> nat \<Rightarrow> int result) \<Rightarrow> line_action migrate_signer \<Rightarrow> pool_info \<Rightarrow>
    line_action migrate_events \<Rightarrow> line_action migrate_events" where
  "migrateTokens_line parseUnits S p h =
     (case pi_data p of
        None \<Rightarrow> h @ [Notice SevError ''Could not migrate the tokens.'']
      | Some d \<Rightarrow>
          (case
             bindH (h, parseUnits (rd_fromWalletBalance d) (rd_fromDecimals d)) (\<lambda>h migrationAmountAbs.
             bindH (h @ [SetPage (LISetProcessing True)], Inr ()) (\<lambda>h _.
             bindH (sendApprove S (rd_fromAddress d) (rd_poolAddress d) migrationAmountAbs h) (\<lambda>h _.
             bindH (sendMigrate S (rd_poolAddress d) migrationAmountAbs h) (\<lambda>h transaction.
             bindH (waitMined S transaction h) (\<lambda>h _.
             (h @ [SetPage (LISetTransaction transaction), Notice SevSuccess ''Successfully migrated the tokens.'',
                SetPage (LISetProcessing False)], Inr ()))))))
           of (h, Inr _) \<Rightarrow> h
            | (h, Inl e) \<Rightarrow> h @ [Notice SevError ''Could not migrate the tokens.'', SetPage (LISetProcessing False),
                SetPage (LISetError ''Failed to send the transaction.'')]))"

subsection \<open>The list\<close>

text \<open>Making a contract object, the balances of an owner, and the order in which the answers to a list of questions come.\<close>

record quick_net =
  qn_connect :: "string \<Rightarrow> unit result"
  qn_balanceOf :: "string \<Rightarrow> string \<Rightarrow> nat result"
  qn_order :: "string list \<Rightarrow> string list"

text \<open>The entries of the map, in the order in which they are set.\<close>

definition getAddressBalances :: "quick_net \<Rightarrow> string \<Rightarrow> string list \<Rightarrow> (string \<times> nat option) list result" where
  "getAddressBalances N signerAddress addresses =
     (case sequenceR (map (qn_connect N) addresses) of
        Inl e \<Rightarrow> Inl (Rejected ''Unable to retrieve token balances.'')
      | Inr _ \<Rightarrow> Inr (map (\<lambda>a. (a, case qn_balanceOf N a signerAddress of Inr n \<Rightarrow> Some n | Inl e \<Rightarrow> None)) (qn_order N addresses)))"

definition migratorFor :: "(string \<Rightarrow> string) \<Rightarrow> (string \<rightharpoonup> string) \<Rightarrow> string \<times> nat option \<Rightarrow> string option" where
  "migratorFor getAddress migrationMap entry =
     (case entry of
        (token, Some n) \<Rightarrow> if 0 < n \<and> truthy (migrationMap (getAddress token)) then migrationMap (getAddress token) else None
      | (token, None) \<Rightarrow> None)"

definition migratorsOf :: "(string \<Rightarrow> string) \<Rightarrow> (string \<rightharpoonup> string) \<Rightarrow> (string \<times> nat option) list \<Rightarrow> string list" where
  "migratorsOf getAddress migrationMap balances = List.map_filter (migratorFor getAddress migrationMap) balances"

record 'm quick_state =
  qs_migrators :: "'m list option"
  qs_migratorsError :: string
  qs_migratorsLoading :: bool
  qs_migratorsFinishedLoading :: nat

definition quick_initial :: "'m quick_state" where
  "quick_initial = \<lparr>qs_migrators = None, qs_migratorsError = '''', qs_migratorsLoading = False, qs_migratorsFinishedLoading = 0\<rparr>"

datatype 'm quick_action =
    QMSetMigrators "'m list"
  | QMSetError string
  | QMSetLoading bool
  | QMResetFinished
  | QMReportLoadComplete

fun quickReducer :: "'m quick_state \<Rightarrow> 'm quick_action \<Rightarrow> 'm quick_state" where
  "quickReducer s (QMSetMigrators ms) = s\<lparr>qs_migrators := Some ms\<rparr>"
| "quickReducer s (QMSetError e) = s\<lparr>qs_migratorsError := e\<rparr>"
| "quickReducer s (QMSetLoading b) = s\<lparr>qs_migratorsLoading := b\<rparr>"
| "quickReducer s QMResetFinished = s\<lparr>qs_migratorsFinishedLoading := 0\<rparr>"
| "quickReducer s QMReportLoadComplete = s\<lparr>qs_migratorsFinishedLoading := qs_migratorsFinishedLoading s + 1\<rparr>"

text \<open>The map of the chain is given by its keys in order and what it maps them to.\<close>

record quick_deps =
  qd_isReady :: bool
  qd_signer :: "nat option"
  qd_signerAddress :: "string option"
  qd_eligibleTokens :: "string list"
  qd_chainId :: ChainId

definition EvmQuickMigrate :: "(string \<Rightarrow> string) \<Rightarrow> cluster \<Rightarrow> (quick_deps, quick_net, string quick_action) effect" where
  "EvmQuickMigrate getAddress c d =
     Inr (if qd_isReady d \<and> qd_signer d \<noteq> None \<and> truthy (qd_signerAddress d)
       then \<lparr>atOnce = [QMSetLoading True, QMSetError ''''],
         whenAnswered = Some (\<lambda>N. case getAddressBalances N (the (qd_signerAddress d)) (qd_eligibleTokens d) of
             Inr bals \<Rightarrow> [QMResetFinished,
               QMSetMigrators (migratorsOf getAddress (getMigrationAssetMap getAddress c (qd_chainId d)) bals), QMSetLoading False]
           | Inl e \<Rightarrow> [QMSetLoading False, QMSetError ''Failed to retrieve available token information.'']),
         cleansUp = True\<rparr>
       else noEffect)"

definition quick_isLoading :: "'m quick_state \<Rightarrow> bool" where
  "quick_isLoading s \<longleftrightarrow>
     qs_migratorsLoading s \<or>
     (case qs_migrators s of None \<Rightarrow> False | Some ms \<Rightarrow> ms \<noteq> [] \<and> qs_migratorsFinishedLoading s < length ms)"

definition quick_hasEligibleAssets :: "'m quick_state \<Rightarrow> bool" where
  "quick_hasEligibleAssets s = (case qs_migrators s of None \<Rightarrow> False | Some ms \<Rightarrow> 0 < length ms)"

section \<open>What a link opens\<close>

datatype migration_view =
    NotEligible
  | InvalidTokenAccount
  | OpenSolanaWorkflow string string string
  | OpenEvmWorkflow ChainId string
  | NothingToShow

text \<open>\<open>canonical\<close> is \<open>new PublicKey(s).toString()\<close>. The first exception ends the block and keeps what was assigned before.\<close>

definition SolanaRoot :: "(string \<Rightarrow> string result) \<Rightarrow> cluster \<Rightarrow> string \<Rightarrow> string \<Rightarrow> migration_view" where
  "SolanaRoot canonical c legacyAsset fromTokenAccount =
     (let key = (\<lambda>s. if s = '''' then Inr '''' else canonical s) in
      case key legacyAsset of
        Inl e \<Rightarrow> NotEligible
      | Inr fromMint \<Rightarrow>
          (case mapOf (MIGRATION_ASSET_MAP c) legacyAsset of
             None \<Rightarrow> NotEligible
           | Some tgt \<Rightarrow>
               (case key tgt of
                  Inl e \<Rightarrow> NotEligible
                | Inr toMint \<Rightarrow>
                    if fromMint = '''' \<or> toMint = '''' then NotEligible
                    else (case key fromTokenAccount of
                        Inl e \<Rightarrow> InvalidTokenAccount
                      | Inr acct \<Rightarrow> if acct = '''' then InvalidTokenAccount else OpenSolanaWorkflow fromMint toMint acct))))"

text \<open>Here \<open>getAddress\<close> throws for what is no address.\<close>

definition EthereumRoot :: "(string \<Rightarrow> string result) \<Rightarrow> (string \<rightharpoonup> string) \<Rightarrow> ChainId \<Rightarrow> string \<Rightarrow> migration_view result" where
  "EthereumRoot getAddress assetMap chainId legacyAsset =
     bindR (getAddress legacyAsset) (\<lambda>address.
     let targetPool = assetMap address in
     Inr (if legacyAsset = '''' \<or> \<not> truthy targetPool then NotEligible else OpenEvmWorkflow chainId (the targetPool)))"

definition MigrationRoot :: "(string \<Rightarrow> string result) \<Rightarrow> (string \<Rightarrow> string result) \<Rightarrow> (string \<Rightarrow> string) \<Rightarrow> cluster \<Rightarrow> ChainId \<Rightarrow>
    string \<Rightarrow> string \<Rightarrow> migration_view result" where
  "MigrationRoot canonical getAddress G c chainId legacyAsset fromTokenAccount =
     (if chainId = CHAIN_ID_SOLANA then Inr (SolanaRoot canonical c legacyAsset fromTokenAccount)
      else if chainId = CHAIN_ID_ETH \<or> chainId = CHAIN_ID_BSC
      then EthereumRoot getAddress (getMigrationAssetMap G c chainId) chainId legacyAsset
      else Inr NothingToShow)"

section \<open>Lemmas\<close>

interpretation pool_hook: cancelling "useEthereumMigratorInformation formatUnits" for formatUnits
  by unfold_locales (auto simp: useEthereumMigratorInformation_def noEffect_def split: if_splits)

interpretation quick_hook: cancelling "EvmQuickMigrate getAddress c" for getAddress c
  by unfold_locales (auto simp: EvmQuickMigrate_def noEffect_def split: if_splits)

lemma getRequisiteData_address: "getRequisiteData formatUnits N m w = Inr r \<Longrightarrow> rd_poolAddress r = m"
  by (auto simp: getRequisiteData_def split: sum.splits)

lemma migratorFor_Some:
  "migratorFor G M e = Some m \<longleftrightarrow> m \<noteq> '''' \<and> (\<exists>t n. e = (t, Some n) \<and> 0 < n \<and> M (G t) = Some m)"
  by (cases e; cases "snd e") (auto simp: migratorFor_def truthy_def)

lemma set_migratorsOf:
  "m \<in> set (migratorsOf G M bals) \<longleftrightarrow> m \<noteq> '''' \<and> (\<exists>t n. (t, Some n) \<in> set bals \<and> 0 < n \<and> M (G t) = Some m)"
proof -
  have "m \<in> set (migratorsOf G M bals) \<longleftrightarrow> (\<exists>e\<in>set bals. migratorFor G M e = Some m)"
    by (force simp: migratorsOf_def map_filter_def)
  then show ?thesis unfolding migratorFor_Some by blast
qed

text \<open>The new values of the page's state among the events, and whether an event reaches the network.\<close>

definition pageActions :: "'a migrate_events \<Rightarrow> 'a list" where
  "pageActions h = concat (map (\<lambda>e. case e of SetPage a \<Rightarrow> [a] | _ \<Rightarrow> []) h)"

lemma pageActions_simps [simp]:
  "pageActions [] = []" "pageActions (SetPage a # h) = a # pageActions h" "pageActions (Notice v t # h) = pageActions h"
  "pageActions (SendApprove x y n # h) = pageActions h" "pageActions (SendMigrate x n # h) = pageActions h"
  "pageActions (WaitMined x # h) = pageActions h"
  by (simp_all add: pageActions_def)

fun onNetwork :: "'a migrate_event \<Rightarrow> bool" where
  "onNetwork (SetPage a) = False"
| "onNetwork (Notice v t) = False"
| "onNetwork (SendApprove x y n) = True"
| "onNetwork (SendMigrate x n) = True"
| "onNetwork (WaitMined x) = True"

definition clickStart :: "workflow_action migrate_events" where
  "clickStart = [SetPage (WFSetProcessing True), SetPage (WFSetError '''')]"

definition clickFailed :: "workflow_action migrate_events" where
  "clickFailed = [Notice SevError ''Could not migrate the tokens.'', SetPage (WFSetProcessing False),
     SetPage (WFSetError ''Failed to send the transaction.'')]"

definition clickDone :: "string \<Rightarrow> workflow_action migrate_events" where
  "clickDone tx = [SetPage (WFSetTransaction tx), SetPage WFForceRefresh,
     Notice SevSuccess ''Successfully migrated the tokens.'', SetPage (WFSetProcessing False)]"

text \<open>What a click on the enabled button does.\<close>

lemma click_shape:
  assumes "migrateEnabled parseUnits isReady p s"
  shows "\<exists>d n tx. pi_data p = Some d \<and> parseUnits (wf_migrationAmount s) (rd_fromDecimals d) = Inr n \<and> 0 < n \<and>
    migrateTokens_page parseUnits S p (wf_migrationAmount s) [] \<in>
      {clickStart @ [SendApprove (rd_fromAddress d) (rd_poolAddress d) n] @ clickFailed,
       clickStart @ [SendApprove (rd_fromAddress d) (rd_poolAddress d) n, SendMigrate (rd_poolAddress d) n] @ clickFailed,
       clickStart @ [SendApprove (rd_fromAddress d) (rd_poolAddress d) n, SendMigrate (rd_poolAddress d) n, WaitMined tx] @ clickFailed,
       clickStart @ [SendApprove (rd_fromAddress d) (rd_poolAddress d) n, SendMigrate (rd_poolAddress d) n, WaitMined tx] @ clickDone tx}"
proof -
  obtain d where d: "pi_data p = Some d" using assms by (auto simp: migrateEnabled_def isReadyToTransfer_def)
  obtain n where n: "parseUnits (wf_migrationAmount s) (rd_fromDecimals d) = Inr n" "0 < n"
    using assms d
    by (auto simp: migrateEnabled_def isReadyToTransfer_def amountGreaterThanZero_def fromParse_def split: if_splits sum.splits)
  define h1 where "h1 = clickStart @ [SendApprove (rd_fromAddress d) (rd_poolAddress d) n]"
  have page: "migrateTokens_page parseUnits S p (wf_migrationAmount s) [] =
    (case bindH (h1, ms_approve S clickStart (rd_fromAddress d) (rd_poolAddress d) n) (\<lambda>h _.
        bindH (sendMigrate S (rd_poolAddress d) n h) (\<lambda>h transaction.
        bindH (waitMined S transaction h) (\<lambda>h _. (h @ clickDone transaction, Inr ()))))
     of (h, Inr _) \<Rightarrow> h | (h, Inl e) \<Rightarrow> h @ clickFailed)"
    using d n unfolding migrateTokens_page_def sendApprove_def clickStart_def clickFailed_def clickDone_def h1_def by simp
  show ?thesis
  proof (cases "ms_approve S clickStart (rd_fromAddress d) (rd_poolAddress d) n")
    case (Inl e)
    then show ?thesis using d n by (simp add: page h1_def)
  next
    case approved: (Inr u)
    show ?thesis
    proof (cases "ms_migrate S h1 (rd_poolAddress d) n")
      case (Inl e)
      then show ?thesis using d n approved by (simp add: page sendMigrate_def h1_def)
    next
      case (Inr tx)
      then show ?thesis using d n approved
        by (cases "ms_wait S (h1 @ [SendMigrate (rd_poolAddress d) n]) tx")
          (auto simp: page sendMigrate_def waitMined_def h1_def intro!: exI [of _ tx])
    qed
  qed
qed

section \<open>Properties\<close>

text \<open>data of a pool that the hook receives are those of the current pool for the current wallet.\<close>

theorem pool_data_current:
  assumes "hookRun (useEthereumMigratorInformation formatUnits) deps reduce evs s = (s', m)"
    and "settle k N m = (m', as)" "PISetData r \<in> set as"
  shows "\<exists>d pool w. lastDeps m = Some d \<and> pd_migratorAddress d = Some pool \<and> pd_signerAddress d = Some w \<and>
    getRequisiteData formatUnits N pool w = Inr r \<and> rd_poolAddress r = pool"
proof (rule pool_hook.answer_is_last [OF assms(1,2)])
  show "as \<noteq> []" using assms(3) by auto
next
  fix d run f
  assume d: "lastDeps m = Some d" "useEthereumMigratorInformation formatUnits d = Inr run" "whenAnswered run = Some f" "as = f N"
  then have deps: "truthy (pd_migratorAddress d)" "truthy (pd_signerAddress d)"
    and f: "f = (\<lambda>N. case getRequisiteData formatUnits N (the (pd_migratorAddress d)) (the (pd_signerAddress d)) of
             Inr r \<Rightarrow> [PISetData r, PISetLoading False]
           | Inl e \<Rightarrow> [PISetLoading False, PISetError ''Failed to retrieve necessary data.''])"
    by (auto simp: useEthereumMigratorInformation_def noEffect_def split: if_splits)
  then have "getRequisiteData formatUnits N (the (pd_migratorAddress d)) (the (pd_signerAddress d)) = Inr r"
    using assms(3) d(4) by (auto split: sum.splits)
  then show ?thesis using deps d(1) getRequisiteData_address
    by (cases "pd_migratorAddress d"; cases "pd_signerAddress d") (auto simp: truthy_def)
qed

text \<open>an error of the hook is never cleared: after one failure the page says that the asset may not be supported, also when
  the data of another wallet have been received since.\<close>

theorem pool_error_stays:
  assumes "pd_signer d \<noteq> None" "truthy (pd_migratorAddress d)" "truthy (pd_signerAddress d)"
    and "pd_signer d' \<noteq> None" "truthy (pd_migratorAddress d')" "truthy (pd_signerAddress d')" "d \<noteq> d'"
    and "getRequisiteData formatUnits N (the (pd_migratorAddress d)) (the (pd_signerAddress d)) = Inl e"
    and "getRequisiteData formatUnits N' (the (pd_migratorAddress d')) (the (pd_signerAddress d')) = Inr r"
    and "hookRun (useEthereumMigratorInformation formatUnits) fst (\<lambda>(d, s) a. (d, poolReducer s a))
      [Flush, Settle 0 N, Outside (\<lambda>(d, s). (d', s)), Flush, Settle 0 N'] (d, pool_initial) = ((x, s), m)"
  shows "pi_data (poolInfo d' s) = Some r \<and>
    workflowView True (poolInfo d' s) = FatalError ''Unable to retrieve necessary information. This asset may not be supported.''"
  using assms
  by (auto simp: hook_defs useEthereumMigratorInformation_def pool_initial_def poolInfo_def workflowView_def)


text \<open>tokens with 0 decimals cannot be exchanged on the page: whatever the amount, it counts as not greater than zero.\<close>

theorem zero_decimals_refused:
  assumes "pi_data p = Some d" "rd_fromDecimals d = 0" "pi_error p = ''''" "wf_migrationAmount s \<noteq> ''''"
  shows "\<not> migrateEnabled parseUnits True p s \<and> getNotReadyCause parseUnits True p s = ''The transfer amount must be greater than zero.''"
  using assms by (simp add: migrateEnabled_def isReadyToTransfer_def getNotReadyCause_def amountGreaterThanZero_def fromParse_def)

text \<open>What the comparison relies on: a formatted amount can be read with as many decimals or more.\<close>

definition units_laws :: "(string \<Rightarrow> nat \<Rightarrow> string result) \<Rightarrow> (string \<Rightarrow> nat \<Rightarrow> int result) \<Rightarrow> bool" where
  "units_laws formatUnits parseUnits \<longleftrightarrow>
     (\<forall>n d d' t. formatUnits (decimal n) d = Inr t \<longrightarrow> d \<le> d' \<longrightarrow> parseUnits t d' = Inr (int n * 10 ^ (d' - d)))"

text \<open>C33: the comparison of two formatted amounts compares the amounts themselves, as fractions with their decimals.\<close>

theorem compareWithDecimalOffset_compares:
  assumes "units_laws formatUnits parseUnits" "formatUnits (decimal a) da = Inr s" "formatUnits (decimal b) db = Inr t"
  shows "compareWithDecimalOffset parseUnits s da t db = Inr (sgn (int a * 10 ^ db - int b * 10 ^ da))"
proof -
  let ?m = "if da > db then da else db"
  have p: "parseUnits s ?m = Inr (int a * 10 ^ (?m - da))" "parseUnits t ?m = Inr (int b * 10 ^ (?m - db))"
    using assms unfolding units_laws_def by auto
  have e: "int a * 10 ^ db - int b * 10 ^ da = (int a * 10 ^ (?m - da) - int b * 10 ^ (?m - db)) * 10 ^ (da + db - ?m)"
    by (auto simp: left_diff_distrib mult.assoc simp flip: power_add)
  have "sgn (int a * 10 ^ db - int b * 10 ^ da) = sgn (int a * 10 ^ (?m - da) - int b * 10 ^ (?m - db))"
    unfolding e by (simp add: sgn_mult)
  then show ?thesis using p by (simp add: compareWithDecimalOffset_def Let_def sgn_if)
qed

text \<open>the list holds only migrators of tokens of the chain's map of which the current wallet has some.\<close>

theorem quick_lists_held:
  assumes "hookRun (EvmQuickMigrate G c) deps reduce evs s = (s', m)" "settle k N m = (m', as)" "QMSetMigrators ms \<in> set as"
    and "\<And>xs. set (qn_order N xs) = set xs"
  shows "\<exists>d w. lastDeps m = Some d \<and> qd_isReady d \<and> qd_signerAddress d = Some w \<and>
    set ms = {mg. mg \<noteq> '''' \<and> (\<exists>t\<in>set (qd_eligibleTokens d). getMigrationAssetMap G c (qd_chainId d) (G t) = Some mg \<and>
      (\<exists>n. qn_balanceOf N t w = Inr n \<and> 0 < n))}"
proof (rule quick_hook.answer_is_last [OF assms(1,2)])
  show "as \<noteq> []" using assms(3) by auto
next
  fix d run f
  assume d: "lastDeps m = Some d" "EvmQuickMigrate G c d = Inr run" "whenAnswered run = Some f" "as = f N"
  then obtain w where w: "qd_isReady d" "qd_signerAddress d = Some w"
    by (cases "qd_signerAddress d") (auto simp: EvmQuickMigrate_def noEffect_def truthy_def split: if_splits)
  define bals where
    "bals = map (\<lambda>a. (a, case qn_balanceOf N a w of Inr n \<Rightarrow> Some n | Inl e \<Rightarrow> None)) (qn_order N (qd_eligibleTokens d))"
  have ms: "ms = migratorsOf G (getMigrationAssetMap G c (qd_chainId d)) bals"
    using d(2-4) w assms(3)
    by (auto simp: EvmQuickMigrate_def noEffect_def getAddressBalances_def bals_def split: if_splits sum.splits)
  have pairs: "(t, Some n) \<in> set bals \<longleftrightarrow> t \<in> set (qd_eligibleTokens d) \<and> qn_balanceOf N t w = Inr n" for t n
    unfolding bals_def by (auto simp: assms(4) split: sum.splits)
  have "set ms = {mg. mg \<noteq> '''' \<and> (\<exists>t\<in>set (qd_eligibleTokens d). getMigrationAssetMap G c (qd_chainId d) (G t) = Some mg \<and>
      (\<exists>n. qn_balanceOf N t w = Inr n \<and> 0 < n))}"
    unfolding ms by (intro set_eqI) (simp only: set_migratorsOf pairs mem_Collect_eq, blast)
  then show ?thesis using d(1) w by blast
qed

text \<open>The effect of a line over the values of the pool that it sees.\<close>

fun lineRun :: "line_state \<Rightarrow> pool_info list \<Rightarrow> line_state \<times> nat" where
  "lineRun s [] = (s, 0)"
| "lineRun s (p # ps) =
     (case lineReport s p of (as, n) \<Rightarrow> case lineRun (foldl lineReducer s as) ps of (s', k) \<Rightarrow> (s', n + k))"

lemma lineRun_loaded: "li_loaded s \<Longrightarrow> lineRun s ps = (s, 0)"
  by (induction ps) (simp_all add: lineReport_def)

text \<open>a line reports once that it has loaded, as soon as it has data or an error.\<close>

theorem line_reports_once:
  "snd (lineRun line_initial ps) = (if \<exists>p\<in>set ps. pi_data p \<noteq> None \<or> pi_error p \<noteq> '''' then 1 else 0)"
proof (induction ps)
  case (Cons p ps)
  show ?case
  proof (cases "pi_data p \<noteq> None \<or> pi_error p \<noteq> ''''")
    case True
    then have "lineReport line_initial p = ([LISetLoaded True], 1)" by (auto simp: lineReport_def line_initial_def)
    then show ?thesis using True by (auto simp: lineRun_loaded)
  next
    case False
    then show ?thesis using Cons.IH by (auto simp: lineReport_def split: prod.splits)
  qed
qed (simp add: line_initial_def)

text \<open>a link with something that is no address is a message on Solana and an exception on Ethereum.\<close>

theorem bad_links:
  assumes "canonical x = Inl e" "getAddress x = Inl e'" "x \<noteq> ''''"
  shows "MigrationRoot canonical getAddress G c CHAIN_ID_SOLANA x a = Inr NotEligible \<and>
    MigrationRoot canonical getAddress G c CHAIN_ID_ETH x a = Inl e'"
  using assms by (simp add: MigrationRoot_def SolanaRoot_def EthereumRoot_def chain_ids)

section \<open>Examples\<close>

text \<open>An amount is written as its digits and a dot for each decimal.\<close>

definition demo_formatUnits :: "string \<Rightarrow> nat \<Rightarrow> string result" where
  "demo_formatUnits t d = Inr (t @ replicate d (CHR ''.''))"

definition demo_units :: "string \<Rightarrow> nat \<Rightarrow> int result" where
  "demo_units t d =
     (let ds = takeWhile isDigit t; k = length t - length ds in
      if k \<le> d then Inr (int (undecimal ds) * 10 ^ (d - k)) else Inl (Foreign ''fractional component exceeds decimals''))"

lemma takeWhile_dots: "takeWhile isDigit (decimal n @ replicate d (CHR ''.'')) = decimal n"
proof -
  have "takeWhile isDigit (replicate d (CHR ''.'')) = []" by (cases d) (simp_all add: isDigit_def)
  then show ?thesis using decimal_isDigit by (subst takeWhile_append2) auto
qed

lemma demo_units_laws: "units_laws demo_formatUnits demo_units"
  by (auto simp: units_laws_def demo_formatUnits_def demo_units_def takeWhile_dots undecimal_decimal Let_def)

lemma demo_units_decimal: "demo_units (decimal n) d = Inr (int n * 10 ^ d)"
proof -
  have "takeWhile isDigit (decimal n) = decimal n" using takeWhile_dots [of n 0] by (simp only: replicate_0 append_Nil2)
  then show ?thesis by (simp only: demo_units_def Let_def undecimal_decimal) simp
qed

definition demo_pool :: pool_net where
  "demo_pool = \<lparr>pn_fromAsset = (\<lambda>_. Inr ''0xfrom''), pn_toAsset = (\<lambda>_. Inr ''0xto''), pn_symbol = Inr, pn_fromDecimals = (\<lambda>_. Inr 0),
     pn_toDecimals = (\<lambda>_. Inr 0), pn_sharesDecimals = (\<lambda>_. Inr 0), pn_balanceOf = (\<lambda>t w. Inr 100)\<rparr>"

definition demo_pool_data :: requisite_data where
  "demo_pool_data = \<lparr>rd_poolAddress = ''0xpool'', rd_fromAddress = ''0xfrom'', rd_toAddress = ''0xto'', rd_fromSymbol = ''0xfrom'',
     rd_toSymbol = ''0xto'', rd_fromDecimals = 0, rd_toDecimals = 0, rd_sharesDecimals = 0, rd_fromWalletBalance = decimal 100,
     rd_toWalletBalance = decimal 100, rd_fromPoolBalance = decimal 100, rd_toPoolBalance = decimal 100,
     rd_walletSharesBalance = decimal 100\<rparr>"

lemma demo_pool_read: "getRequisiteData demo_formatUnits demo_pool ''0xpool'' w = Inr demo_pool_data"
  by (simp add: getRequisiteData_def formatBalance_def demo_formatUnits_def demo_pool_def demo_pool_data_def)

definition demo_pool_deps :: "string \<Rightarrow> pool_deps" where
  "demo_pool_deps w = \<lparr>pd_migratorAddress = Some ''0xpool'', pd_signer = Some 1, pd_signerAddress = Some w, pd_toggleRefresh = False\<rparr>"

theorem pool_data_current_witness:
  "\<exists>r. r \<in> set (snd (settle 0 demo_pool (snd (hookRun (useEthereumMigratorInformation demo_formatUnits) (\<lambda>_. demo_pool_deps ''0xme'')
      poolReducer [Flush] pool_initial)))) \<and> (\<exists>d pool. r = PISetData d \<and> rd_poolAddress d = pool \<and> pool = ''0xpool'')"
proof -
  obtain s m where h: "hookRun (useEthereumMigratorInformation demo_formatUnits) (\<lambda>_. demo_pool_deps ''0xme'') poolReducer [Flush] pool_initial
      = (s, m)" by fastforce
  obtain m' as where settled: "settle 0 demo_pool m = (m', as)" by fastforce
  have "as = [PISetData demo_pool_data, PISetLoading False]" and last: "lastDeps m = Some (demo_pool_deps ''0xme'')"
    using h settled by (auto simp: hook_defs useEthereumMigratorInformation_def demo_pool_deps_def truthy_def demo_pool_read)
  then have mem: "PISetData demo_pool_data \<in> set as" by simp
  from pool_data_current [OF h settled mem] last have "rd_poolAddress demo_pool_data = ''0xpool''" by (auto simp: demo_pool_deps_def)
  then show ?thesis using h settled mem by auto
qed

theorem pool_error_stays_witness:
  "\<exists>x s m. hookRun (useEthereumMigratorInformation demo_formatUnits) fst (\<lambda>(d, s) a. (d, poolReducer s a))
      [Flush, Settle 0 (demo_pool\<lparr>pn_symbol := \<lambda>_. Inl (Foreign ''timeout'')\<rparr>), Outside (\<lambda>(d, s). (demo_pool_deps ''0xyou'', s)),
       Flush, Settle 0 demo_pool] (demo_pool_deps ''0xme'', pool_initial) = ((x, s), m) \<and>
    pi_data (poolInfo (demo_pool_deps ''0xyou'') s) = Some demo_pool_data \<and>
    workflowView True (poolInfo (demo_pool_deps ''0xyou'') s) \<noteq> MainWorkflow"
proof -
  let ?N = "demo_pool\<lparr>pn_symbol := \<lambda>_. Inl (Foreign ''timeout'')\<rparr>"
  obtain x s m where run: "hookRun (useEthereumMigratorInformation demo_formatUnits) fst (\<lambda>(d, s) a. (d, poolReducer s a))
      [Flush, Settle 0 ?N, Outside (\<lambda>(d, s). (demo_pool_deps ''0xyou'', s)), Flush, Settle 0 demo_pool]
      (demo_pool_deps ''0xme'', pool_initial) = ((x, s), m)" by (metis prod.collapse)
  have deps: "pd_signer (demo_pool_deps w) \<noteq> None" "pd_migratorAddress (demo_pool_deps w) = Some ''0xpool''"
    "pd_signerAddress (demo_pool_deps w) = Some w" for w
    by (simp_all add: demo_pool_deps_def)
  have bad: "\<exists>e. getRequisiteData demo_formatUnits ?N ''0xpool'' w = Inl e" for w
    by (simp add: getRequisiteData_def demo_pool_def)
  then obtain e where bad: "getRequisiteData demo_formatUnits ?N ''0xpool'' ''0xme'' = Inl e" by blast
  have "demo_pool_deps ''0xme'' \<noteq> demo_pool_deps ''0xyou''" by (simp add: demo_pool_deps_def)
  with pool_error_stays [OF _ _ _ _ _ _ _ _ _ run, of e demo_pool_data] deps bad demo_pool_read run show ?thesis
    by (auto simp: truthy_def)
qed

definition demo_workflow :: workflow_state where
  "demo_workflow = workflow_initial\<lparr>wf_migrationAmount := decimal 5\<rparr>"

definition demo_info :: pool_info where
  "demo_info = \<lparr>pi_isLoading = False, pi_error = '''', pi_data = Some (demo_pool_data\<lparr>rd_fromDecimals := 2\<rparr>)\<rparr>"

lemma demo_enabled: "migrateEnabled demo_units True demo_info demo_workflow"
  by (simp add: migrateEnabled_def workflowView_def isReadyToTransfer_def amountGreaterThanZero_def sufficientFromTokens_def
      sufficientPoolBalance_def fromParse_def floatLe_def jsNumber_def parseFloat_decimal toDouble_nat [of 5, simplified]
      toDouble_nat [of 100, simplified] demo_units_decimal demo_info_def demo_workflow_def demo_pool_data_def workflow_initial_def
      del: decimal.simps)

definition demo_migrate_signer :: "'a migrate_signer" where
  "demo_migrate_signer = \<lparr>ms_approve = (\<lambda>h t s n. Inr ()), ms_migrate = (\<lambda>h p n. Inr ''0xtx''), ms_wait = (\<lambda>h t. Inr ())\<rparr>"


theorem zero_decimals_refused_witness:
  "getNotReadyCause demo_units True (demo_info\<lparr>pi_data := Some demo_pool_data\<rparr>) demo_workflow =
     ''The transfer amount must be greater than zero.''"
  using zero_decimals_refused [of "demo_info\<lparr>pi_data := Some demo_pool_data\<rparr>" demo_pool_data demo_workflow demo_units]
  by (simp add: demo_info_def demo_pool_data_def demo_workflow_def workflow_initial_def)

theorem compareWithDecimalOffset_compares_witness:
  "compareWithDecimalOffset demo_units (decimal 25 @ ''.'') 1 (decimal 3) 0 = Inr (- 1)"
  using compareWithDecimalOffset_compares [OF demo_units_laws, of 25 1 "decimal 25 @ ''.''" 3 0 "decimal 3"]
  by (simp add: demo_formatUnits_def del: decimal.simps)

definition demo_quick :: quick_net where
  "demo_quick = \<lparr>qn_connect = (\<lambda>_. Inr ()), qn_balanceOf = (\<lambda>t w. Inr 7), qn_order = (\<lambda>xs. xs)\<rparr>"

definition demo_quick_deps :: quick_deps where
  "demo_quick_deps = \<lparr>qd_isReady = True, qd_signer = Some 1, qd_signerAddress = Some ''0xme'',
     qd_eligibleTokens = [''0xd2877702675e6cEb975b4A1dFf9fb7BAF4C91ea9''], qd_chainId = CHAIN_ID_ETH\<rparr>"

theorem quick_lists_held_witness:
  "\<exists>s m ms. hookRun (EvmQuickMigrate (\<lambda>a. a) Mainnet) (\<lambda>_. demo_quick_deps) quickReducer [Flush] quick_initial = (s, m) \<and>
     QMSetMigrators ms \<in> set (snd (settle 0 demo_quick m)) \<and> (\<forall>mg\<in>set ms. mg \<noteq> '''')"
proof -
  obtain s m where h: "hookRun (EvmQuickMigrate (\<lambda>a. a) Mainnet) (\<lambda>_. demo_quick_deps) quickReducer [Flush] quick_initial = (s, m)"
    by fastforce
  obtain m' as where settled: "settle 0 demo_quick m = (m', as)" by fastforce
  have "\<exists>ms. QMSetMigrators ms \<in> set as"
    using h settled by (auto simp: hook_defs EvmQuickMigrate_def demo_quick_deps_def truthy_def getAddressBalances_def demo_quick_def)
  then obtain ms where ms: "QMSetMigrators ms \<in> set as" by blast
  have "\<And>xs. set (qn_order demo_quick xs) = set xs" by (simp add: demo_quick_def)
  from quick_lists_held [OF h settled ms this] h settled ms show ?thesis by auto
qed

theorem bad_links_witness:
  "MigrationRoot (\<lambda>s. Inl (Error ''Invalid public key input'')) (\<lambda>s. Inl (Foreign ''invalid address'')) (\<lambda>a. a) Mainnet CHAIN_ID_ETH ''x'' '''' =
     Inl (Foreign ''invalid address'')"
  using bad_links [of "\<lambda>s. Inl (Error ''Invalid public key input'')" "''x''" "Error ''Invalid public key input''"
      "\<lambda>s. Inl (Foreign ''invalid address'')" "Foreign ''invalid address''" "\<lambda>a. a" Mainnet "''''"]
  by simp

end
