(* ===== verification/SolanaMigration.thy ===== *)
theory SolanaMigration
  imports EvmMigration Migration
begin

text \<open>
  The pages of the bridge UI that exchange tokens of an earlier bridge on Solana: the accounts a wallet needs
  (\<open>components/SolanaCreateAssociatedAddress.tsx\<close>), the hook that reads a pool (\<open>hooks/useSolanaMigratorInformation.tsx\<close>), the page for
  one token (\<open>components/Migration/SolanaWorkflow.tsx\<close>, whose state and effects are a copy of those of the hook) and the page for all
  tokens (\<open>components/Migration/SolanaQuickMigrate.tsx\<close>). Names and logos are left out.
\<close>

section \<open>Associated accounts\<close>

text \<open>The library's functions for associated accounts, and whether an account exists.\<close>

record 'k assoc_lib =
  al_address :: "'k \<Rightarrow> 'k \<Rightarrow> 'k result"
  al_createIx :: "'k \<Rightarrow> 'k \<Rightarrow> 'k \<Rightarrow> 'k instruction result"

record 'k exists_deps =
  ed_targetChain :: ChainId
  ed_mintAddress :: "string option"
  ed_readableTargetAddress :: "string option"
  ed_solPK :: "'k option"

text \<open>The state and the actions are the flag \<open>associatedAccountExists\<close>. The networks are the look-up of an account. What goes wrong in
  the promise is an unhandled rejection.\<close>

definition useAssociatedAccountExistsState :: "'k web3 \<Rightarrow> 'k assoc_lib \<Rightarrow> ('k exists_deps, 'k \<Rightarrow> bytes option result, bool) effect" where
  "useAssociatedAccountExistsState W A d =
     Inr (if ed_targetChain d \<noteq> CHAIN_ID_SOLANA \<or> \<not> truthy (ed_mintAddress d) \<or> \<not> truthy (ed_readableTargetAddress d) \<or>
          ed_solPK d = None
       then \<lparr>atOnce = [True], whenAnswered = None, cleansUp = False\<rparr>
       else \<lparr>atOnce = [True],
         whenAnswered = Some (\<lambda>N.
           case bindR (publicKeyS W (the (ed_mintAddress d))) (\<lambda>mint. al_address A mint (the (ed_solPK d))) of
             Inl e \<Rightarrow> []
           | Inr address \<Rightarrow>
               if keyString W address = the (ed_readableTargetAddress d) \<and> N address = Inr None then [False] else []),
         cleansUp = True\<rparr>)"

datatype create_action = CASetCreating bool | CASetExists bool

definition createTransaction :: "'k web3 \<Rightarrow> 'k connection \<Rightarrow> 'k assoc_lib \<Rightarrow> 'k sol_wallet \<Rightarrow> 'k \<Rightarrow> 'k \<Rightarrow> 'k \<Rightarrow> 'k history \<Rightarrow>
    'k history \<times> string result" where
  "createTransaction W C A wallet mint address payer h =
     bindH (h, bindR (al_createIx A mint address payer) (\<lambda>ix. newTransaction W [Some ix])) (\<lambda>h transaction.
     bindH (h @ [GetRecentBlockhash], getRecentBlockhash C h) (\<lambda>h blockhash.
     signSendAndConfirm W C wallet (transaction\<lparr>recentBlockhash := Some blockhash, feePayer := Some payer\<rparr>) h))"

text \<open>The click that creates the account. Nothing catches what goes wrong.\<close>

definition createAccountClick :: "'k web3 \<Rightarrow> 'k connection \<Rightarrow> 'k assoc_lib \<Rightarrow> 'k sol_wallet \<Rightarrow> bool \<Rightarrow> string \<Rightarrow> string \<Rightarrow>
    (create_action, 'k, unit) task" where
  "createAccountClick W C A wallet associatedAccountExists mintAddress readableTargetAddress =
     (case sw_publicKey wallet of
        None \<Rightarrow> liftT (Inr ())
      | Some payer \<Rightarrow>
          if associatedAccountExists \<or> mintAddress = '''' \<or> readableTargetAddress = '''' then liftT (Inr ())
          else
            bindT (liftT (publicKeyS W mintAddress)) (\<lambda>mint.
            bindT (liftT (al_address A mint payer)) (\<lambda>address.
            if keyString W address = readableTargetAddress
            then bindT (solT (\<lambda>h. (h @ [GetAccountInfo address], getAccountInfo C h address))) (\<lambda>info.
              if info = None
              then thenT (emitT (Dispatch (CASetCreating True)))
                (bindT (solT (createTransaction W C A wallet mint address payer)) (\<lambda>_.
                thenT (emitT (Dispatch (CASetCreating False)))
                (emitT (Dispatch (CASetExists True)))))
              else liftT (Inr ()))
            else liftT (Inr ()))))"

record create_state =
  cs_isCreating :: bool
  cs_associatedAccountExists :: bool

fun createReducer :: "create_state \<Rightarrow> create_action \<Rightarrow> create_state" where
  "createReducer s (CASetCreating b) = s\<lparr>cs_isCreating := b\<rparr>"
| "createReducer s (CASetExists b) = s\<lparr>cs_associatedAccountExists := b\<rparr>"

definition createEnabled :: "'k sol_wallet \<Rightarrow> string \<Rightarrow> string \<Rightarrow> create_state \<Rightarrow> bool" where
  "createEnabled wallet mintAddress readableTargetAddress s \<longleftrightarrow>
     \<not> cs_associatedAccountExists s \<and> mintAddress \<noteq> '''' \<and> readableTargetAddress \<noteq> '''' \<and> sw_publicKey wallet \<noteq> None \<and> \<not> cs_isCreating s"

text \<open>\<open>SolanaCreateAssociatedAddressAlternate\<close>: the mint of the target token, and the button that creates the account in any case.\<close>

record alternate_deps =
  ad_originChain :: "nat option"
  ad_originAsset :: "string option"
  ad_addressHex :: "string option"
  ad_base58TargetAddress :: string
  ad_base58OriginAddress :: string

text \<open>The networks are \<open>getForeignAssetSolana\<close> of a chain and an address.\<close>

definition alternateTargetAsset :: "(alternate_deps, nat \<Rightarrow> bytes \<Rightarrow> string option result, string option) effect" where
  "alternateTargetAsset d =
     Inr (if ad_originChain d \<in> {None, Some 0} \<or> \<not> truthy (ad_originAsset d) \<or> \<not> truthy (ad_addressHex d) \<or> ad_base58TargetAddress d = ''''
       then \<lparr>atOnce = [None], whenAnswered = None, cleansUp = True\<rparr>
       else if ad_originChain d = Some CHAIN_ID_SOLANA \<and> ad_base58OriginAddress d \<noteq> ''''
       then \<lparr>atOnce = [Some (ad_base58OriginAddress d)], whenAnswered = None, cleansUp = True\<rparr>
       else \<lparr>atOnce = [],
         whenAnswered = Some (\<lambda>N. case N (the (ad_originChain d)) (hexToUint8Array (the (ad_originAsset d))) of Inr r \<Rightarrow> [r] | Inl e \<Rightarrow> []),
         cleansUp = True\<rparr>)"

definition forceCreateClick :: "(string \<Rightarrow> thrown) \<Rightarrow> 'k web3 \<Rightarrow> 'k connection \<Rightarrow> 'k assoc_lib \<Rightarrow> 'k sol_wallet \<Rightarrow> string option \<Rightarrow> string \<Rightarrow>
    (create_action, 'k, unit) task" where
  "forceCreateClick foreign W C A wallet targetMint base58TargetAddress =
     (case sw_publicKey wallet of
        None \<Rightarrow> liftT (Inr ())
      | Some payer \<Rightarrow>
          if \<not> truthy targetMint \<or> base58TargetAddress = '''' then liftT (Inr ())
          else
            bindT (liftT (publicKeyS W (the targetMint))) (\<lambda>mint.
            bindT (liftT (al_address A mint payer)) (\<lambda>address.
            if keyString W address = base58TargetAddress
            then catchT
              (bindT (solT (createTransaction W C A wallet mint address payer)) (\<lambda>_.
               thenT (emitT (Dispatch (CASetExists True)))
               (emitT (Snackbar SevSuccess ''Successfully created associated token account''))))
              (\<lambda>e. emitT (Snackbar SevError (parseError (thrownOf foreign e))))
            else emitT (Snackbar SevError
              ''Derived address does not match the target address. Do you have the same wallet connected?''))))"

section \<open>Reading a pool\<close>

text \<open>What a node says of a mint, an account, and a list of accounts (whether each is there).\<close>

record 'k pool_node =
  po_decimals :: "'k \<Rightarrow> nat option result"
  po_uiAmountString :: "'k \<Rightarrow> string option result"
  po_accounts :: "'k list \<Rightarrow> bool list result"

record migrator_state =
  mg_poolAddress :: string
  mg_poolExists :: "bool option"
  mg_fromTokenAccountBalance :: "string option"
  mg_toTokenAccount :: "string option"
  mg_toTokenAccountBalance :: "string option"
  mg_fromMintDecimals :: "nat option"
  mg_toCustodyAddress :: "string option"
  mg_toCustodyBalance :: "string option"
  mg_error :: string

definition migrator_initial :: migrator_state where
  "migrator_initial = \<lparr>mg_poolAddress = '''', mg_poolExists = None, mg_fromTokenAccountBalance = None, mg_toTokenAccount = None,
     mg_toTokenAccountBalance = None, mg_fromMintDecimals = None, mg_toCustodyAddress = None, mg_toCustodyBalance = None, mg_error = ''''\<rparr>"

datatype migrator_action =
    MGSetPoolAddress string
  | MGSetPoolExists "bool option"
  | MGSetFromBalance "string option"
  | MGSetToTokenAccount "string option"
  | MGSetToBalance "string option"
  | MGSetDecimals "nat option"
  | MGSetCustodyAddress "string option"
  | MGSetCustodyBalance "string option"
  | MGSetError string

fun migratorReducer :: "migrator_state \<Rightarrow> migrator_action \<Rightarrow> migrator_state" where
  "migratorReducer s (MGSetPoolAddress a) = s\<lparr>mg_poolAddress := a\<rparr>"
| "migratorReducer s (MGSetPoolExists b) = s\<lparr>mg_poolExists := b\<rparr>"
| "migratorReducer s (MGSetFromBalance b) = s\<lparr>mg_fromTokenAccountBalance := b\<rparr>"
| "migratorReducer s (MGSetToTokenAccount a) = s\<lparr>mg_toTokenAccount := a\<rparr>"
| "migratorReducer s (MGSetToBalance b) = s\<lparr>mg_toTokenAccountBalance := b\<rparr>"
| "migratorReducer s (MGSetDecimals d) = s\<lparr>mg_fromMintDecimals := d\<rparr>"
| "migratorReducer s (MGSetCustodyAddress a) = s\<lparr>mg_toCustodyAddress := a\<rparr>"
| "migratorReducer s (MGSetCustodyBalance b) = s\<lparr>mg_toCustodyBalance := b\<rparr>"
| "migratorReducer s (MGSetError e) = s\<lparr>mg_error := e\<rparr>"

text \<open>\<open>getDecimals\<close> and \<open>getBalance\<close> clear the value at once and set it when the node has answered; they are never cancelled.\<close>

definition getDecimals :: "'k web3 \<Rightarrow> string \<Rightarrow> (nat option \<Rightarrow> migrator_action) \<Rightarrow> ('k pool_node, migrator_action) effect_run" where
  "getDecimals W mint setter =
     \<lparr>atOnce = [setter None],
      whenAnswered = (if mint = '''' then None
        else Some (\<lambda>N. case bindR (publicKeyS W mint) (po_decimals N) of Inr d \<Rightarrow> [setter d] | Inl e \<Rightarrow> [])),
      cleansUp = False\<rparr>"

definition getBalance :: "'k web3 \<Rightarrow> string option \<Rightarrow> (string option \<Rightarrow> migrator_action) \<Rightarrow> ('k pool_node, migrator_action) effect_run" where
  "getBalance W address setter =
     \<lparr>atOnce = [setter None],
      whenAnswered = (if \<not> truthy address then None
        else Some (\<lambda>N. case bindR (publicKeyS W (the address)) (po_uiAmountString N) of Inr b \<Rightarrow> [setter b] | Inl e \<Rightarrow> [])),
      cleansUp = False\<rparr>"

definition clearBalance :: "(string option \<Rightarrow> migrator_action) \<Rightarrow> ('k pool_node, migrator_action) effect_run" where
  "clearBalance setter = \<lparr>atOnce = [setter None], whenAnswered = None, cleansUp = False\<rparr>"

text \<open>The effects, in order, each with the values that it depends on.\<close>

definition decimalsEffect :: "'k web3 \<Rightarrow> (string, 'k pool_node, migrator_action) effect" where
  "decimalsEffect W fromMint = Inr (getDecimals W fromMint MGSetDecimals)"

definition fromBalanceEffect :: "'k web3 \<Rightarrow> (bool \<times> string, 'k pool_node, migrator_action) effect" where
  "fromBalanceEffect W d =
     (case d of (fromTokenAccountExists, fromTokenAccount) \<Rightarrow>
        Inr (if fromTokenAccount \<noteq> '''' \<and> fromTokenAccountExists then getBalance W (Some fromTokenAccount) MGSetFromBalance
          else clearBalance MGSetFromBalance))"

definition toBalanceEffect :: "'k web3 \<Rightarrow> (bool \<times> string option, 'k pool_node, migrator_action) effect" where
  "toBalanceEffect W d =
     (case d of (toTokenAccountExists, toTokenAccount) \<Rightarrow>
        Inr (if truthy toTokenAccount \<and> toTokenAccountExists then getBalance W toTokenAccount MGSetToBalance
          else clearBalance MGSetToBalance))"

definition custodyBalanceEffect :: "'k web3 \<Rightarrow> (string option, 'k pool_node, migrator_action) effect" where
  "custodyBalanceEffect W toCustody =
     Inr (if truthy toCustody then getBalance W toCustody MGSetCustodyBalance else clearBalance MGSetCustodyBalance)"

text \<open>The module answers with the bytes of a key. A promise that is fulfilled runs its handler, whose exception nobody hears; for the
  custody it is caught.\<close>

definition poolAddressEffect :: "'k web3 \<Rightarrow> 'pool migration_wasm \<Rightarrow> cluster \<Rightarrow> (string \<times> string, 'k pool_node, migrator_action) effect" where
  "poolAddressEffect W G c d =
     (case d of (toMint, fromMint) \<Rightarrow>
        Inr (if toMint \<noteq> '''' \<and> fromMint \<noteq> ''''
          then \<lparr>atOnce = [MGSetPoolAddress '''', MGSetPoolExists None],
            whenAnswered = Some (\<lambda>N. case bindR (poolAddress G (MIGRATION_PROGRAM_ADDRESS c) fromMint toMint) (publicKeyB W) of
                Inr key \<Rightarrow> [MGSetPoolAddress (keyString W key)]
              | Inl e \<Rightarrow> []),
            cleansUp = False\<rparr>
          else noEffect))"

definition poolExistsEffect :: "'k web3 \<Rightarrow> (string, 'k pool_node, migrator_action) effect" where
  "poolExistsEffect W pool =
     Inr (if pool = '''' then noEffect
       else (case publicKeyS W pool of
           Inl e \<Rightarrow> \<lparr>atOnce = [MGSetPoolExists None, MGSetError ''Could not fetch pool address''], whenAnswered = None, cleansUp = False\<rparr>
         | Inr key \<Rightarrow>
             \<lparr>atOnce = [MGSetPoolExists None],
              whenAnswered = Some (\<lambda>N. case po_accounts N [key] of
                  Inl e \<Rightarrow> []
                | Inr (True # _) \<Rightarrow> [MGSetPoolExists (Some True)]
                | Inr (False # _) \<Rightarrow> [MGSetPoolExists (Some False), MGSetError ''There is no swap pool for this token.'']
                | Inr [] \<Rightarrow> [MGSetError ''unexpected error in fetching pool address. Please reload and try again'']),
              cleansUp = False\<rparr>))"

definition custodyAddressEffect :: "'k web3 \<Rightarrow> 'pool migration_wasm \<Rightarrow> cluster \<Rightarrow> (string, 'k pool_node, migrator_action) effect" where
  "custodyAddressEffect W G c pool =
     Inr (if pool = '''' then \<lparr>atOnce = [MGSetCustodyAddress None], whenAnswered = None, cleansUp = False\<rparr>
       else \<lparr>atOnce = [],
         whenAnswered = Some (\<lambda>N. case bindR (toCustodyAddress G (MIGRATION_PROGRAM_ADDRESS c) pool) (publicKeyB W) of
             Inr key \<Rightarrow> [MGSetCustodyAddress (Some (keyString W key))]
           | Inl e \<Rightarrow> [MGSetCustodyAddress None]),
         cleansUp = False\<rparr>)"

definition toTokenAccountEffect :: "'k web3 \<Rightarrow> 'k assoc_lib \<Rightarrow> (string \<times> 'k option, 'k pool_node, migrator_action) effect" where
  "toTokenAccountEffect W A d =
     (case d of
        (toMint, Some owner) \<Rightarrow>
          if toMint = '''' then Inr noEffect
          else bindR (publicKeyS W toMint) (\<lambda>mint.
            Inr \<lparr>atOnce = [],
              whenAnswered = Some (\<lambda>N. case al_address A mint owner of
                  Inr a \<Rightarrow> [MGSetToTokenAccount (Some (keyString W a))]
                | Inl e \<Rightarrow> []),
              cleansUp = False\<rparr>)
      | (toMint, None) \<Rightarrow> Inr noEffect)"

section \<open>What the pages make of it\<close>

text \<open>The arguments of the hook and of the page, and what the other hooks say.\<close>

record migrator_props =
  mp_fromMint :: string
  mp_toMint :: string
  mp_fromTokenAccount :: string
  mp_isReady :: bool
  mp_fromTokenAccountExists :: bool
  mp_toTokenAccountExists :: bool

text \<open>\<open>parseUnits\<close> of the ethers library takes 18 decimals when it is given none.\<close>

definition parseAmount :: "(string \<Rightarrow> nat \<Rightarrow> int result) \<Rightarrow> migrator_state \<Rightarrow> string \<Rightarrow> int result" where
  "parseAmount parseUnits s amt = parseUnits amt (case mg_fromMintDecimals s of None \<Rightarrow> 18 | Some d \<Rightarrow> d)"

definition sol_fromParse :: "(string \<Rightarrow> nat \<Rightarrow> int result) \<Rightarrow> migrator_state \<Rightarrow> string \<Rightarrow> int" where
  "sol_fromParse parseUnits s amt = (case parseAmount parseUnits s amt of Inr n \<Rightarrow> n | Inl e \<Rightarrow> 0)"

definition sol_hasPool :: "migrator_props \<Rightarrow> migrator_state \<Rightarrow> bool" where
  "sol_hasPool a s \<longleftrightarrow> mp_fromMint a \<noteq> '''' \<and> mp_toMint a \<noteq> '''' \<and> mg_poolAddress s \<noteq> '''' \<and> mg_poolExists s = Some True"

definition sol_sufficientFromTokens :: "(string \<Rightarrow> nat \<Rightarrow> int result) \<Rightarrow> migrator_state \<Rightarrow> string \<Rightarrow> bool" where
  "sol_sufficientFromTokens parseUnits s amt \<longleftrightarrow>
     truthy (mg_fromTokenAccountBalance s) \<and> amt \<noteq> '''' \<and>
     sol_fromParse parseUnits s amt \<le> sol_fromParse parseUnits s (the (mg_fromTokenAccountBalance s))"

definition sol_sufficientPoolBalance :: "migrator_state \<Rightarrow> string \<Rightarrow> bool" where
  "sol_sufficientPoolBalance s amt \<longleftrightarrow>
     truthy (mg_toCustodyBalance s) \<and> amt \<noteq> '''' \<and> floatLe amt (the (mg_toCustodyBalance s))"

definition sol_getNotReadyCause :: "(string \<Rightarrow> nat \<Rightarrow> int result) \<Rightarrow> migrator_props \<Rightarrow> migrator_state \<Rightarrow> string \<Rightarrow> string" where
  "sol_getNotReadyCause parseUnits a s amt =
     (if \<not> sol_hasPool a s then ''This asset is not supported.''
      else if \<not> mp_isReady a then ''Wallet is not connected.''
      else if \<not> (mp_fromTokenAccountExists a \<and> mp_toTokenAccountExists a) then ''You have not created the necessary token accounts.''
      else if amt = '''' then ''Enter an amount to transfer.''
      else if \<not> 0 < sol_fromParse parseUnits s amt then ''Enter an amount greater than zero.''
      else if \<not> sol_sufficientFromTokens parseUnits s amt then ''There are not sufficient funds in your wallet for this transfer.''
      else if \<not> sol_sufficientPoolBalance s amt then ''There are not sufficient funds in the pool for this transfer.''
      else '''')"

text \<open>What the hook returns: its data are there when the last five values are.\<close>

record solana_migrator_information =
  sm_poolAddress :: string
  sm_fromMint :: string
  sm_toMint :: string
  sm_fromMintDecimals :: nat
  sm_fromAssociatedTokenAccountExists :: bool
  sm_toAssociatedTokenAccountExists :: bool
  sm_fromAssociatedTokenAccount :: string
  sm_toAssociatedTokenAccount :: string
  sm_fromAssociatedTokenAccountBalance :: string
  sm_toAssociatedTokenAccountBalance :: "string option"
  sm_toCustodyAddress :: string
  sm_toCustodyBalance :: string

record migrator_output =
  mo_isFetching :: bool
  mo_error :: bool
  mo_data :: "solana_migrator_information option"

definition sol_hasRequisiteData :: "migrator_state \<Rightarrow> bool" where
  "sol_hasRequisiteData s \<longleftrightarrow>
     mg_fromMintDecimals s \<noteq> None \<and> truthy (mg_toTokenAccount s) \<and> truthy (mg_fromTokenAccountBalance s) \<and>
     truthy (mg_toCustodyAddress s) \<and> truthy (mg_toCustodyBalance s)"

definition useSolanaMigratorInformation :: "migrator_props \<Rightarrow> bool \<Rightarrow> migrator_state \<Rightarrow> migrator_output" where
  "useSolanaMigratorInformation a fetching s =
     \<lparr>mo_isFetching = fetching, mo_error = (mg_error s \<noteq> '''' \<or> \<not> sol_hasRequisiteData s),
      mo_data = (if sol_hasRequisiteData s
        then Some \<lparr>sm_poolAddress = mg_poolAddress s, sm_fromMint = mp_fromMint a, sm_toMint = mp_toMint a,
          sm_fromMintDecimals = the (mg_fromMintDecimals s), sm_fromAssociatedTokenAccountExists = mp_fromTokenAccountExists a,
          sm_toAssociatedTokenAccountExists = mp_toTokenAccountExists a, sm_fromAssociatedTokenAccount = mp_fromTokenAccount a,
          sm_toAssociatedTokenAccount = the (mg_toTokenAccount s),
          sm_fromAssociatedTokenAccountBalance = the (mg_fromTokenAccountBalance s),
          sm_toAssociatedTokenAccountBalance = (if truthy (mg_toTokenAccountBalance s) then mg_toTokenAccountBalance s else None),
          sm_toCustodyAddress = the (mg_toCustodyAddress s), sm_toCustodyBalance = the (mg_toCustodyBalance s)\<rparr>
        else None)\<rparr>"

section \<open>The exchange\<close>

text \<open>What the exchange needs from outside.\<close>

record ('k, 'pool) migrate_env =
  me_web3 :: "'k web3"
  me_connection :: "'k connection"
  me_spl :: "'k spl_ix \<Rightarrow> 'k instruction result"
  me_migration :: "'pool migration_wasm"
  me_cluster :: cluster
  me_wallet :: "'k sol_wallet"
  me_parseUnits :: "string \<Rightarrow> nat \<Rightarrow> int result"

text \<open>The transaction of the hook and of the page; the amount has been checked to be positive.\<close>

definition buildMigration :: "('k, 'pool) migrate_env \<Rightarrow> migrator_props \<Rightarrow> migrator_state \<Rightarrow> string \<Rightarrow> 'k history \<Rightarrow>
    'k history \<times> 'k transaction result" where
  "buildMigration E a s amt h =
     bindH (h, parseAmount (me_parseUnits E) s amt) (\<lambda>h n.
     migrateTokens (me_web3 E) (me_connection E) (me_spl E) (me_migration E)
       (case sw_publicKey (me_wallet E) of None \<Rightarrow> '''' | Some k \<Rightarrow> keyString (me_web3 E) k) (MIGRATION_PROGRAM_ADDRESS (me_cluster E))
       (mp_fromMint a) (mp_toMint a) (mp_fromTokenAccount a) (orElse (mg_toTokenAccount s) '''') (nat n) h)"

definition hook_migrateTokens :: "('k, 'pool) migrate_env \<Rightarrow> migrator_props \<Rightarrow> migrator_state \<Rightarrow> string \<Rightarrow> 'k history \<Rightarrow>
    'k history \<times> string result" where
  "hook_migrateTokens E a s amt h =
     bindH (buildMigration E a s amt h) (\<lambda>h instruction.
     signSendAndConfirm (me_web3 E) (me_connection E) (me_wallet E) instruction h)"

text \<open>The page for one token. Its error is also set by the look-up of the pool; its amount, transaction and flag are its own.\<close>

record sol_workflow =
  sf_migrationAmount :: string
  sf_migrationIsProcessing :: bool
  sf_error :: string
  sf_transaction :: "string option"

datatype sol_workflow_action =
    SFSetAmount string
  | SFSetProcessing bool
  | SFSetError string
  | SFSetTransaction string

fun solWorkflowReducer :: "sol_workflow \<Rightarrow> sol_workflow_action \<Rightarrow> sol_workflow" where
  "solWorkflowReducer s (SFSetAmount x) = s\<lparr>sf_migrationAmount := x\<rparr>"
| "solWorkflowReducer s (SFSetProcessing b) = s\<lparr>sf_migrationIsProcessing := b\<rparr>"
| "solWorkflowReducer s (SFSetError e) = s\<lparr>sf_error := e\<rparr>"
| "solWorkflowReducer s (SFSetTransaction t) = s\<lparr>sf_transaction := Some t\<rparr>"

definition sol_isReadyToTransfer :: "(string \<Rightarrow> nat \<Rightarrow> int result) \<Rightarrow> migrator_props \<Rightarrow> migrator_state \<Rightarrow> string \<Rightarrow> bool" where
  "sol_isReadyToTransfer parseUnits a s amt \<longleftrightarrow>
     mp_isReady a \<and> 0 < sol_fromParse parseUnits s amt \<and> sol_sufficientFromTokens parseUnits s amt \<and>
     sol_sufficientPoolBalance s amt \<and>
     (mp_fromTokenAccountExists a \<and> mp_toTokenAccountExists a \<and> mg_poolExists s = Some True) \<and> sol_hasPool a s"

definition sol_migrateEnabled :: "(string \<Rightarrow> nat \<Rightarrow> int result) \<Rightarrow> migrator_props \<Rightarrow> migrator_state \<Rightarrow> sol_workflow \<Rightarrow> bool" where
  "sol_migrateEnabled parseUnits a s w \<longleftrightarrow>
     \<not> truthy (sf_transaction w) \<and> sol_isReadyToTransfer parseUnits a s (sf_migrationAmount w) \<and> \<not> sf_migrationIsProcessing w"

definition sol_handleMaxClick :: "migrator_state \<Rightarrow> sol_workflow_action list" where
  "sol_handleMaxClick s = (if truthy (mg_fromTokenAccountBalance s) then [SFSetAmount (the (mg_fromTokenAccountBalance s))] else [])"

text \<open>The click. Sending is a promise of its own whose two handlers set the state; nothing throws in them.\<close>

definition sol_migrateTokens :: "('k, 'pool) migrate_env \<Rightarrow> migrator_props \<Rightarrow> migrator_state \<Rightarrow> string \<Rightarrow>
    (sol_workflow_action, 'k, unit) task" where
  "sol_migrateTokens E a s amt =
     (let failed = (\<lambda>e. thenT (emitT (Dispatch (SFSetError ''Could not complete the migrateTokens transaction.'')))
            (emitT (Dispatch (SFSetProcessing False)))) in
      catchT
        (thenT (emitT (Dispatch (SFSetError '''')))
        (bindT (solT (buildMigration E a s amt)) (\<lambda>instruction.
         thenT (emitT (Dispatch (SFSetProcessing True)))
         (catchT
           (bindT (solT (signSendAndConfirm (me_web3 E) (me_connection E) (me_wallet E) instruction)) (\<lambda>transaction.
            thenT (emitT (Dispatch (SFSetProcessing False)))
            (emitT (Dispatch (SFSetTransaction transaction)))))
           failed))))
        failed)"

section \<open>The page for all tokens\<close>

record token_account_info =
  ta_fromMintKey :: string
  ta_toMintKey :: string
  ta_defaultFromTokenAccount :: string

text \<open>An account of the wallet, as the node has parsed it.\<close>

record 'k parsed_account =
  pa_pubkey :: 'k
  pa_mint :: string
  pa_amount :: string
  pa_uiAmountString :: "string option"

definition accountInfoOf :: "('k \<Rightarrow> string) \<Rightarrow> (string \<rightharpoonup> string) \<Rightarrow> 'k parsed_account \<Rightarrow> token_account_info option" where
  "accountInfoOf toString migrationMap item =
     (if truthy (pa_uiAmountString item) \<and> pa_amount item \<noteq> ''0'' \<and> truthy (migrationMap (pa_mint item))
      then Some \<lparr>ta_fromMintKey = pa_mint item, ta_toMintKey = the (migrationMap (pa_mint item)),
        ta_defaultFromTokenAccount = toString (pa_pubkey item)\<rparr>
      else None)"

definition getTokenBalances :: "'k web3 \<Rightarrow> ('k \<Rightarrow> 'k parsed_account list result) \<Rightarrow> string \<Rightarrow> (string \<rightharpoonup> string) \<Rightarrow>
    token_account_info list result" where
  "getTokenBalances W accountsOf wallet migrationMap =
     (case bindR (publicKeyS W wallet) accountsOf of
        Inr items \<Rightarrow> Inr (List.map_filter (accountInfoOf (keyString W) migrationMap) items)
      | Inl e \<Rightarrow> Inl (Rejected ''Unable to retrieve token balances.''))"

definition SolanaQuickMigrate :: "'k web3 \<Rightarrow> (string \<Rightarrow> string) \<Rightarrow> cluster \<Rightarrow>
    (bool \<times> string option, 'k \<Rightarrow> 'k parsed_account list result, token_account_info quick_action) effect" where
  "SolanaQuickMigrate W G c d =
     (case d of (isReady, wallet) \<Rightarrow>
        Inr (if isReady \<and> truthy wallet
          then \<lparr>atOnce = [QMSetLoading True, QMSetError ''''],
            whenAnswered = Some (\<lambda>N. case getTokenBalances W N (the wallet) (getMigrationAssetMap G c CHAIN_ID_SOLANA) of
                Inr infos \<Rightarrow> [QMResetFinished, QMSetMigrators infos, QMSetLoading False]
              | Inl e \<Rightarrow> [QMSetLoading False, QMSetError ''Failed to retrieve available token information.'']),
            cleansUp = True\<rparr>
          else noEffect))"

text \<open>A line: its button, its click, and how often its effect reports to the page over the objects that the hook returns one after
  the other.\<close>

definition sol_precheckError :: "(string \<Rightarrow> nat \<Rightarrow> int result) \<Rightarrow> migrator_props \<Rightarrow> migrator_state \<Rightarrow> migrator_output \<Rightarrow> string" where
  "sol_precheckError parseUnits a s out =
     (case mo_data out of None \<Rightarrow> ''''
      | Some d \<Rightarrow> sol_getNotReadyCause parseUnits a s (sm_fromAssociatedTokenAccountBalance d))"

definition sol_line_enabled :: "(string \<Rightarrow> nat \<Rightarrow> int result) \<Rightarrow> migrator_props \<Rightarrow> migrator_state \<Rightarrow> migrator_output \<Rightarrow> line_state \<Rightarrow> bool" where
  "sol_line_enabled parseUnits a s out l \<longleftrightarrow>
     (case mo_data out of
        None \<Rightarrow> False
      | Some d \<Rightarrow> li_transaction l = '''' \<and> sm_toAssociatedTokenAccountExists d \<and> \<not> mo_error out \<and>
          sol_precheckError parseUnits a s out = '''' \<and> \<not> li_migrationIsProcessing l)"

definition handleMigrateClick :: "('k, 'pool) migrate_env \<Rightarrow> migrator_props \<Rightarrow> migrator_state \<Rightarrow> migrator_output \<Rightarrow>
    (line_action, 'k, unit) task" where
  "handleMigrateClick E a s out =
     (case mo_data out of
        None \<Rightarrow> liftT (Inr ())
      | Some d \<Rightarrow>
          thenT (emitT (Dispatch (LISetProcessing True)))
          (thenT (emitT (Dispatch (LISetError '''')))
          (catchT
            (bindT (solT (hook_migrateTokens E a s (sm_fromAssociatedTokenAccountBalance d))) (\<lambda>result.
             thenT (emitT (Dispatch (LISetProcessing False)))
             (emitT (Dispatch (LISetTransaction result)))))
            (\<lambda>e. thenT (emitT (Dispatch (LISetError ''Unable to perform migration.'')))
             (emitT (Dispatch (LISetProcessing False)))))))"

definition sol_lineReports :: "migrator_output list \<Rightarrow> nat" where
  "sol_lineReports outs = length (filter (\<lambda>out. mo_data out \<noteq> None \<or> mo_error out) outs)"

section \<open>Lemmas\<close>

interpretation assoc_hook: cancelling "useAssociatedAccountExistsState W A" for W A
  by unfold_locales (auto simp: useAssociatedAccountExistsState_def split: if_splits)

interpretation alternate_hook: cancelling alternateTargetAsset
  by unfold_locales (auto simp: alternateTargetAsset_def split: if_splits)

interpretation sol_quick_hook: cancelling "SolanaQuickMigrate W G c" for W G c
  by unfold_locales (auto simp: SolanaQuickMigrate_def noEffect_def split: if_splits prod.splits)

interpretation from_balance: lasting "fromBalanceEffect W" for W
  by unfold_locales (auto simp: fromBalanceEffect_def getBalance_def clearBalance_def split: if_splits prod.splits)

interpretation custody_balance: lasting "custodyBalanceEffect W" for W
  by unfold_locales (auto simp: custodyBalanceEffect_def getBalance_def clearBalance_def split: if_splits)

lemma solT_fresh: "solOf tr = [] \<Longrightarrow> solT f tr = (case f [] of (h, r) \<Rightarrow> (tr @ map SolEvent h, Some r))"
  by (simp add: solT_def)

lemma ready_cause: "sol_isReadyToTransfer parseUnits a s amt \<longleftrightarrow> sol_getNotReadyCause parseUnits a s amt = ''''"
  by (auto simp: sol_isReadyToTransfer_def sol_getNotReadyCause_def sol_hasPool_def sol_sufficientFromTokens_def)

section \<open>Properties\<close>

text \<open>a wallet is told that its account is missing only if it is the account of the current mint and wallet, and the node has said
  that it does not exist.\<close>

theorem missing_account_current:
  assumes "hookRun (useAssociatedAccountExistsState W A) deps reduce evs s = (s', m)"
    and "settle k N m = (m', as)" "False \<in> set as"
  shows "\<exists>d mint owner address. lastDeps m = Some d \<and> ed_solPK d = Some owner \<and>
    bindR (publicKeyS W (the (ed_mintAddress d))) (\<lambda>mint. al_address A mint owner) = Inr address \<and>
    ed_readableTargetAddress d = Some (keyString W address) \<and> N address = Inr None"
proof (rule assoc_hook.answer_is_last [OF assms(1,2)])
  show "as \<noteq> []" using assms(3) by auto
next
  fix d r f
  assume d: "lastDeps m = Some d" "useAssociatedAccountExistsState W A d = Inr r" "whenAnswered r = Some f" "as = f N"
  then obtain owner readable where o: "ed_solPK d = Some owner" "ed_readableTargetAddress d = Some readable"
    by (cases "ed_solPK d"; cases "ed_readableTargetAddress d")
      (auto simp: useAssociatedAccountExistsState_def truthy_def split: if_splits)
  have "as = (case bindR (publicKeyS W (the (ed_mintAddress d))) (\<lambda>mint. al_address A mint owner) of
             Inl e \<Rightarrow> []
           | Inr address \<Rightarrow> if keyString W address = the (ed_readableTargetAddress d) \<and> N address = Inr None then [False] else [])"
    using d(2-4) o(1) by (auto simp: useAssociatedAccountExistsState_def split: if_splits)
  then show ?thesis using assms(3) d(1) o
    by (cases "bindR (publicKeyS W (the (ed_mintAddress d))) (\<lambda>mint. al_address A mint owner)") (auto split: if_splits)
qed

text \<open>when the transaction that creates the account fails (the wallet refuses, say), the button stays disabled as if it were still
  being sent.\<close>

theorem create_stays_busy:
  assumes "createEnabled wallet mintA target s" "sw_publicKey wallet = Some payer"
    and "publicKeyS W mintA = Inr mint" "al_address A mint payer = Inr address" "keyString W address = target"
    and "getAccountInfo C [] address = Inr None" "createTransaction W C A wallet mint address payer [GetAccountInfo address] = (h, Inl e)"
    and "createAccountClick W C A wallet (cs_associatedAccountExists s) mintA target [] = (tr, r)"
  shows "r = Some (Inl e) \<and> cs_isCreating (foldl createReducer s (dispatched tr)) \<and>
    \<not> createEnabled wallet mintA target (foldl createReducer s (dispatched tr))"
proof -
  let ?b = "foldl createReducer s (dispatched tr)"
  have "tr = [SolEvent (GetAccountInfo address), Dispatch (CASetCreating True)] @ map SolEvent (drop 1 h) \<and> r = Some (Inl e)"
    using assms
    by (auto simp: createAccountClick_def createEnabled_def bindT_def thenT_def emitT_def liftT_def pureT_def solT_def)
  then show ?thesis by (auto simp: createEnabled_def)
qed

text \<open>while the mint on Solana is looked up for another asset, the one found for the asset before is still used.\<close>

theorem alternate_keeps_old:
  assumes "ad_originChain d = Some CHAIN_ID_SOLANA" "truthy (ad_originAsset d)" "truthy (ad_addressHex d)"
    "ad_base58TargetAddress d \<noteq> ''''" "ad_base58OriginAddress d \<noteq> ''''"
    and "ad_originChain d' = Some ch" "ch \<noteq> 0" "ch \<noteq> CHAIN_ID_SOLANA" "truthy (ad_originAsset d')" "truthy (ad_addressHex d')"
    "ad_base58TargetAddress d' \<noteq> ''''"
    and "hookRun alternateTargetAsset fst (\<lambda>(d, s) a. (d, a)) [Flush, Outside (\<lambda>(d, s). (d', s)), Flush] (d, None) = ((x, s), m)"
  shows "x = d' \<and> s = Some (ad_base58OriginAddress d) \<and> length (pending m) = 1"
  using assms by (auto simp: hook_defs alternateTargetAsset_def chain_ids split: if_splits)

text \<open>the page gives no reason exactly if it is ready.\<close>

theorem ready_without_cause:
  "sol_isReadyToTransfer parseUnits a s amt \<longleftrightarrow> sol_getNotReadyCause parseUnits a s amt = ''''"
  by (rule ready_cause)

text \<open>as long as the decimals of the mint are not known, the page reads amounts with 18 decimals, enables its button, and builds the
  transaction with the amount read that way.\<close>

theorem unknown_decimals_sent:
  assumes "mg_fromMintDecimals s = None" "sol_migrateEnabled (me_parseUnits E) a s w"
  shows "\<exists>n. me_parseUnits E (sf_migrationAmount w) 18 = Inr n \<and> 0 < n \<and>
    buildMigration E a s (sf_migrationAmount w) h =
      migrateTokens (me_web3 E) (me_connection E) (me_spl E) (me_migration E)
        (case sw_publicKey (me_wallet E) of None \<Rightarrow> '''' | Some k \<Rightarrow> keyString (me_web3 E) k) (MIGRATION_PROGRAM_ADDRESS (me_cluster E))
        (mp_fromMint a) (mp_toMint a) (mp_fromTokenAccount a) (orElse (mg_toTokenAccount s) '''') (nat n) h"
  using assms
  by (auto simp: sol_migrateEnabled_def sol_isReadyToTransfer_def sol_fromParse_def parseAmount_def buildMigration_def split: sum.splits)


text \<open>the hook's object has data or an error whatever its state, so that a line reports that it has loaded with every object: at
  once, before anything is known, and again with each change. The page's loader goes with the first reports.\<close>

theorem solana_reports_always:
  assumes "set outs \<subseteq> {useSolanaMigratorInformation a fetching s |a fetching s. True}"
  shows "sol_lineReports outs = length outs \<and>
    (qs_migrators q = Some lines \<longrightarrow> \<not> qs_migratorsLoading q \<longrightarrow> length lines \<le> sol_lineReports outs \<longrightarrow>
      \<not> quick_isLoading (foldl quickReducer q (replicate (sol_lineReports outs) QMReportLoadComplete)))"
proof -
  have "mo_data out \<noteq> None \<or> mo_error out" if "out \<in> set outs" for out
    using assms that by (auto simp: useSolanaMigratorInformation_def)
  then have n: "sol_lineReports outs = length outs" by (simp add: sol_lineReports_def)
  have count: "foldl quickReducer q (replicate k QMReportLoadComplete) =
      q\<lparr>qs_migratorsFinishedLoading := qs_migratorsFinishedLoading q + k\<rparr>" for k
    by (induction k arbitrary: q) (simp_all add: add.commute)
  show ?thesis unfolding n count by (auto simp: quick_isLoading_def)
qed

text \<open>a click on a line sends for the whole balance of the account; the line is busy while it is being sent, and ends with the hash or an
  error.\<close>

theorem line_click_ends:
  assumes "sol_line_enabled parseUnits a s (useSolanaMigratorInformation a fetching s) l"
    and "handleMigrateClick E a s (useSolanaMigratorInformation a fetching s) [] = (tr, r)"
  shows "\<exists>h res. hook_migrateTokens E a s (the (mg_fromTokenAccountBalance s)) [] = (h, res) \<and> solOf tr = h \<and>
    take (2 + length h) tr = [Dispatch (LISetProcessing True), Dispatch (LISetError '''')] @ map SolEvent h \<and>
    \<not> li_migrationIsProcessing (foldl lineReducer l (dispatched tr)) \<and>
    (case res of Inr tx \<Rightarrow> li_transaction (foldl lineReducer l (dispatched tr)) = tx
     | Inl e \<Rightarrow> li_error (foldl lineReducer l (dispatched tr)) = ''Unable to perform migration.'')"
proof -
  have d: "sol_hasRequisiteData s" using assms(1) by (auto simp: sol_line_enabled_def useSolanaMigratorInformation_def split: if_splits)
  obtain h res where run: "hook_migrateTokens E a s (the (mg_fromTokenAccountBalance s)) [] = (h, res)" by fastforce
  show ?thesis using assms(2) d run
    by (cases res) (auto simp: handleMigrateClick_def useSolanaMigratorInformation_def thenT_emit bindT_def solT_fresh catchT_def emitT_def)
qed

text \<open>the list holds the accounts of the current wallet that are not empty and whose token can be exchanged.\<close>

theorem solana_quick_lists_held:
  assumes "hookRun (SolanaQuickMigrate W G c) deps reduce evs s = (s', m)" "settle k N m = (m', as)" "QMSetMigrators infos \<in> set as"
  shows "\<exists>w key items. lastDeps m = Some (True, Some w) \<and> publicKeyS W w = Inr key \<and> N key = Inr items \<and>
    set infos = {\<lparr>ta_fromMintKey = pa_mint i, ta_toMintKey = to, ta_defaultFromTokenAccount = keyString W (pa_pubkey i)\<rparr> |i to.
      i \<in> set items \<and> truthy (pa_uiAmountString i) \<and> pa_amount i \<noteq> ''0'' \<and> to \<noteq> '''' \<and>
      getMigrationAssetMap G c CHAIN_ID_SOLANA (pa_mint i) = Some to}"
proof (rule sol_quick_hook.answer_is_last [OF assms(1,2)])
  show "as \<noteq> []" using assms(3) by auto
next
  fix d r f
  assume d: "lastDeps m = Some d" "SolanaQuickMigrate W G c d = Inr r" "whenAnswered r = Some f" "as = f N"
  then obtain w where w: "d = (True, Some w)"
    by (cases d; cases "snd d") (auto simp: SolanaQuickMigrate_def noEffect_def truthy_def split: if_splits)
  have "getTokenBalances W N w (getMigrationAssetMap G c CHAIN_ID_SOLANA) = Inr infos"
    using d(2-4) w assms(3) by (auto simp: SolanaQuickMigrate_def noEffect_def split: if_splits sum.splits)
  then obtain key items where k: "publicKeyS W w = Inr key" "N key = Inr items"
    "infos = List.map_filter (accountInfoOf (keyString W) (getMigrationAssetMap G c CHAIN_ID_SOLANA)) items"
    by (auto simp: getTokenBalances_def split: sum.splits)
  have one: "accountInfoOf (keyString W) M i = Some x \<longleftrightarrow> (\<exists>to. x = \<lparr>ta_fromMintKey = pa_mint i, ta_toMintKey = to,
      ta_defaultFromTokenAccount = keyString W (pa_pubkey i)\<rparr> \<and> truthy (pa_uiAmountString i) \<and> pa_amount i \<noteq> ''0'' \<and> to \<noteq> '''' \<and>
      M (pa_mint i) = Some to)" for M i x
    by (cases "M (pa_mint i)") (auto simp: accountInfoOf_def truthy_def)
  have "x \<in> set infos \<longleftrightarrow> (\<exists>i\<in>set items. accountInfoOf (keyString W) (getMigrationAssetMap G c CHAIN_ID_SOLANA) i = Some x)" for x
    unfolding k(3) by (force simp: map_filter_def)
  then have "set infos = {\<lparr>ta_fromMintKey = pa_mint i, ta_toMintKey = to, ta_defaultFromTokenAccount = keyString W (pa_pubkey i)\<rparr> |i to.
      i \<in> set items \<and> truthy (pa_uiAmountString i) \<and> pa_amount i \<noteq> ''0'' \<and> to \<noteq> '''' \<and>
      getMigrationAssetMap G c CHAIN_ID_SOLANA (pa_mint i) = Some to}"
    unfolding one by (intro set_eqI) (simp only: mem_Collect_eq, blast)
  then show ?thesis using d(1) w k(1,2) by blast
qed

section \<open>Examples\<close>

definition demo_assoc :: "string assoc_lib" where
  "demo_assoc = \<lparr>al_address = (\<lambda>mint owner. Inr (mint @ owner)), al_createIx = (\<lambda>m a p. Inr \<lparr>programId = ''ata'', ix_data = [], ix_keys = []\<rparr>)\<rparr>"

definition demo_exists_deps :: "string exists_deps" where
  "demo_exists_deps = \<lparr>ed_targetChain = CHAIN_ID_SOLANA, ed_mintAddress = Some ''mint'', ed_readableTargetAddress = Some ''mintme'',
     ed_solPK = Some ''me''\<rparr>"

text \<open>A wallet that cannot sign, and one that can.\<close>

definition mute_wallet :: "string sol_wallet" where
  "mute_wallet = \<lparr>sw_publicKey = Some ''me'', sw_signTransaction = None\<rparr>"

definition signing_wallet :: "string sol_wallet" where
  "signing_wallet = \<lparr>sw_publicKey = Some ''me'', sw_signTransaction = Some demo_wallet\<rparr>"

theorem missing_account_current_witness:
  "False \<in> set (snd (settle 0 (\<lambda>a. Inr None) (snd (hookRun (useAssociatedAccountExistsState demo_web3 demo_assoc)
      (\<lambda>_. demo_exists_deps) (\<lambda>(s :: bool) a. a) [Flush] True)))) \<and> ed_readableTargetAddress demo_exists_deps = Some (''mint'' @ ''me'')"
proof -
  obtain s m where h: "hookRun (useAssociatedAccountExistsState demo_web3 demo_assoc) (\<lambda>_. demo_exists_deps) (\<lambda>(s :: bool) a. a) [Flush] True
      = (s, m)" by fastforce
  obtain m' as where settled: "settle 0 (\<lambda>a. Inr None) m = (m', as)" by fastforce
  have f: "False \<in> set as" and last: "lastDeps m = Some demo_exists_deps"
    using h settled by (auto simp: hook_defs useAssociatedAccountExistsState_def demo_exists_deps_def demo_assoc_def demo_web3_def truthy_def)
  from missing_account_current [OF h settled f] h settled f last show ?thesis
    by (auto simp: demo_exists_deps_def demo_assoc_def demo_web3_def)
qed

definition no_account :: "string connection" where
  "no_account = demo_connection\<lparr>getAccountInfo := (\<lambda>h k. Inr None)\<rparr>"

theorem create_stays_busy_witness:
  "\<exists>tr r. createAccountClick demo_web3 no_account demo_assoc mute_wallet False ''mint'' ''mintme'' [] = (tr, r) \<and>
     cs_isCreating (foldl createReducer \<lparr>cs_isCreating = False, cs_associatedAccountExists = False\<rparr> (dispatched tr))"
proof -
  let ?s = "\<lparr>cs_isCreating = False, cs_associatedAccountExists = False\<rparr>"
  obtain tr r where run: "createAccountClick demo_web3 no_account demo_assoc mute_wallet (cs_associatedAccountExists ?s) ''mint'' ''mintme'' [] = (tr, r)"
    by fastforce
  have enabled: "createEnabled mute_wallet ''mint'' ''mintme'' ?s" by (simp add: createEnabled_def mute_wallet_def)
  have failed: "\<exists>h. createTransaction demo_web3 no_account demo_assoc mute_wallet ''mint'' ''mintme'' ''me'' [GetAccountInfo ''mintme''] =
      (h, Inl (Error ''wallet.signTransaction is undefined''))"
    by (simp add: createTransaction_def demo_assoc_def demo_web3_def no_account_def demo_connection_def signSendAndConfirm_def mute_wallet_def)
  then obtain h where failed: "createTransaction demo_web3 no_account demo_assoc mute_wallet ''mint'' ''mintme'' ''me'' [GetAccountInfo ''mintme''] =
      (h, Inl (Error ''wallet.signTransaction is undefined''))" by blast
  show ?thesis
    using create_stays_busy [OF enabled _ _ _ _ _ failed run] run
    by (simp add: mute_wallet_def demo_web3_def demo_assoc_def no_account_def)
qed

definition demo_alternate :: "nat \<Rightarrow> alternate_deps" where
  "demo_alternate ch = \<lparr>ad_originChain = Some ch, ad_originAsset = Some ''0a'', ad_addressHex = Some ''0b'', ad_base58TargetAddress = ''target'',
     ad_base58OriginAddress = ''origin''\<rparr>"

theorem alternate_keeps_old_witness:
  "\<exists>x m. hookRun alternateTargetAsset fst (\<lambda>(d, s) a. (d, a)) [Flush, Outside (\<lambda>(d, s). (demo_alternate 2, s)), Flush] (demo_alternate 1, None)
     = ((x, Some ''origin''), m)"
proof -
  obtain x s m where run: "hookRun alternateTargetAsset fst (\<lambda>(d, s) a. (d, a)) [Flush, Outside (\<lambda>(d, s). (demo_alternate 2, s)), Flush]
      (demo_alternate 1, None) = ((x, s), m)" by (metis prod.collapse)
  show ?thesis using alternate_keeps_old [OF _ _ _ _ _ _ _ _ _ _ _ run, of 2] run
    by (simp add: demo_alternate_def truthy_def chain_ids)
qed

definition demo_props :: migrator_props where
  "demo_props = \<lparr>mp_fromMint = ''from'', mp_toMint = ''to'', mp_fromTokenAccount = ''acct'', mp_isReady = True, mp_fromTokenAccountExists = True,
     mp_toTokenAccountExists = True\<rparr>"

definition demo_migrator :: migrator_state where
  "demo_migrator = \<lparr>mg_poolAddress = ''pool'', mg_poolExists = Some True, mg_fromTokenAccountBalance = Some (decimal 100),
     mg_toTokenAccount = Some ''tome'', mg_toTokenAccountBalance = None, mg_fromMintDecimals = Some 2, mg_toCustodyAddress = Some ''custody'',
     mg_toCustodyBalance = Some (decimal 100), mg_error = ''''\<rparr>"

definition demo_env :: "(string, nat) migrate_env" where
  "demo_env = \<lparr>me_web3 = demo_web3, me_connection = demo_connection, me_spl = (\<lambda>i. Inr \<lparr>programId = ''spl'', ix_data = [], ix_keys = []\<rparr>),
     me_migration = demo_migration, me_cluster = Mainnet, me_wallet = mute_wallet, me_parseUnits = demo_units\<rparr>"

definition demo_sol_page :: sol_workflow where
  "demo_sol_page = \<lparr>sf_migrationAmount = decimal 5, sf_migrationIsProcessing = False, sf_error = '''', sf_transaction = None\<rparr>"

lemmas demo_ready_defs = sol_migrateEnabled_def sol_isReadyToTransfer_def sol_fromParse_def parseAmount_def sol_sufficientFromTokens_def
  sol_sufficientPoolBalance_def sol_hasPool_def floatLe_def jsNumber_def truthy_def demo_migrator_def demo_props_def demo_sol_page_def

lemma demo_ready:
  "sol_migrateEnabled demo_units demo_props demo_migrator demo_sol_page"
  "sol_migrateEnabled demo_units demo_props (demo_migrator\<lparr>mg_fromMintDecimals := None\<rparr>) demo_sol_page"
  by (simp_all add: demo_ready_defs parseFloat_decimal toDouble_nat [of 5, simplified] toDouble_nat [of 100, simplified] demo_units_decimal
      del: decimal.simps)

theorem unknown_decimals_sent_witness:
  "\<exists>n. demo_units (decimal 5) 18 = Inr n \<and> n = 5 * 10 ^ 18"
  using unknown_decimals_sent [of "demo_migrator\<lparr>mg_fromMintDecimals := None\<rparr>" demo_env demo_props demo_sol_page] demo_ready(2)
    demo_units_decimal [of 5 18]
  by (simp add: demo_env_def demo_migrator_def demo_sol_page_def del: decimal.simps)

lemma demo_build: "\<exists>cs tx. buildMigration demo_env demo_props demo_migrator (sf_migrationAmount demo_sol_page) [] = (cs, Inr tx)"
  by (simp add: buildMigration_def parseAmount_def demo_env_def demo_migrator_def demo_sol_page_def demo_units_decimal migrateTokens_def
      approveAuthority_def migrationIx_def demo_migration_def demo_web3_def finishTransaction_def demo_connection_def mute_wallet_def
      demo_props_def ixFromRust_def accountMetaFromRust_def demo_ix_def del: decimal.simps toHex_simps)


theorem solana_reports_always_witness:
  "sol_lineReports [useSolanaMigratorInformation demo_props True migrator_initial, useSolanaMigratorInformation demo_props False demo_migrator] = 2"
proof -
  let ?outs = "[useSolanaMigratorInformation demo_props True migrator_initial, useSolanaMigratorInformation demo_props False demo_migrator]"
  have "set ?outs \<subseteq> {useSolanaMigratorInformation a fetching s |a fetching s. True}"
    by (simp only: list.set insert_subset empty_subsetI mem_Collect_eq) blast
  from solana_reports_always [OF this, of "quick_initial :: string quick_state" "[]"] show ?thesis by (simp add: numeral_2_eq_2)
qed

theorem line_click_ends_witness:
  "\<exists>tr r. handleMigrateClick demo_env demo_props demo_migrator (useSolanaMigratorInformation demo_props False demo_migrator) [] = (tr, r) \<and>
     \<not> li_migrationIsProcessing (foldl lineReducer line_initial (dispatched tr))"
proof -
  let ?out = "useSolanaMigratorInformation demo_props False demo_migrator"
  obtain tr r where run: "handleMigrateClick demo_env demo_props demo_migrator ?out [] = (tr, r)" by fastforce
  have "sol_getNotReadyCause demo_units demo_props (demo_migrator) (decimal 100) = ''''"
    unfolding ready_cause [symmetric]
    by (simp add: demo_ready_defs parseFloat_decimal toDouble_nat [of 100, simplified] demo_units_decimal del: decimal.simps)
  then have "sol_line_enabled demo_units demo_props demo_migrator ?out line_initial"
    by (simp add: sol_line_enabled_def sol_precheckError_def useSolanaMigratorInformation_def sol_hasRequisiteData_def demo_migrator_def
        demo_props_def truthy_def line_initial_def del: decimal.simps)
  from line_click_ends [OF this run] run show ?thesis by blast
qed

theorem solana_quick_lists_held_witness:
  "\<exists>s m infos. hookRun (SolanaQuickMigrate demo_web3 (\<lambda>a. a) Testnet) (\<lambda>_. (True, Some ''me'')) quickReducer [Flush] quick_initial = (s, m) \<and>
     QMSetMigrators infos \<in> set (snd (settle 0 (\<lambda>k. Inr []) m)) \<and> infos = []"
proof -
  obtain s m where h: "hookRun (SolanaQuickMigrate demo_web3 (\<lambda>a. a) Testnet) (\<lambda>_. (True, Some ''me'')) quickReducer [Flush] quick_initial = (s, m)"
    by fastforce
  obtain m' as where settled: "settle 0 (\<lambda>k. Inr []) m = (m', as)" by fastforce
  have "\<exists>infos. QMSetMigrators infos \<in> set as"
    using h settled by (auto simp: hook_defs SolanaQuickMigrate_def truthy_def getTokenBalances_def demo_web3_def)
  then obtain infos where infos: "QMSetMigrators infos \<in> set as" by blast
  have "set infos = {}"
    using solana_quick_lists_held [OF h settled infos] by auto
  then show ?thesis using h settled infos by auto
qed

end
