(* ===== verification/Spec2Isabelle.thy ===== *)
theory Spec2Isabelle
  imports AlphBridge Terra Ethereum SignedVAA Selectors SolanaPost Migration Config HandleTransfer HandleNft HandleAttest AssetHooks Recovery TokenAccounts Wizard Pickers Metadata GovernanceVaa AlphDeploy PricePublisher Balances Clients SolanaMigration
begin

text \<open>
  A model of the TypeScript side of Wormhole: the SDK (\<open>sdk/js\<close>) that builds the transactions of the token and NFT
  bridges on Ethereum, Solana, Terra and Alephium and reads what they leave behind, and the web client
  (\<open>bridge_ui\<close>) that drives it: its store, its handlers and its effects; the tools that make
  governance VAAs and deploy the bridge on Alephium; and the Algorand price caster.

  \<^bold>\<open>The program.\<close> A transfer is a transaction on one chain, whose core bridge emits a message; the guardians sign it
  as a VAA; a transaction on the target chain redeems the VAA. The SDK has, per chain, functions that send the
  transactions of the bridges, and queries about assets and transfers. The client keeps the state of its three pages
  (transfer, NFT, attest) in a Redux store; its hooks ask the chains about the chosen asset and write what they learn
  into the store; selectors decide how far a page may go; a click runs a handler, which sends a transaction with the
  SDK, finds the sequence number of the message in its log, waits for the VAA and stores it.

  \<^bold>\<open>The theories.\<close>
  \<^item> \<open>Prelude\<close> (results as sums, options, lists), \<open>Bytes\<close> (buffers, hex, UTF-8).
  \<^item> \<open>Serde\<close>, \<open>AlphScript\<close>, \<open>AlphBridge\<close>: \<open>alephium/serde.ts\<close>, \<open>alephium/token_bridge.ts\<close> and the Alephium entry
    points of \<open>token_bridge/\<close>. Machine integers are words (\<open>ToInt32\<close>, \<open>ToUint8\<close>); the specification of the scripts is
    a disassembler, and of the numbers a decoder.
  \<^item> \<open>Addresses\<close>: \<open>utils/consts.ts\<close>, \<open>utils/array.ts\<close>, \<open>terra/address.ts\<close>, \<open>bridge/getEmitterAddress.ts\<close>.
    \<open>Payloads\<close>: \<open>utils/parseVaa.ts\<close>. \<open>Logs\<close>: \<open>bridge/parseSequenceFromLog.ts\<close>. \<open>Base64\<close>: the encoding and
    \<open>utils/createNonce.ts\<close>.
  \<^item> \<open>Solana\<close>, \<open>SolanaSend\<close>, \<open>SolanaPost\<close>: \<open>utils/solana.ts\<close>, \<open>solana/rust.ts\<close>, \<open>solana/wasm.ts\<close>, \<open>solana/postVaa.ts\<close>,
    \<open>solana/getBridgeFeeIx.ts\<close>: the loop that sends with retries, with its history of calls, and the posting of a VAA.
  \<^item> \<open>SolanaBridge\<close>, \<open>Ethereum\<close>, \<open>Terra\<close>: the functions of \<open>token_bridge/\<close> and \<open>nft_bridge/\<close> for these chains.
    \<open>Migration\<close>: \<open>migration/\<close>. \<open>SignedVAA\<close>: both loops that fetch a VAA.
  \<^item> \<open>Store\<close>, \<open>TransferSlice\<close>, \<open>NftSlice\<close>, \<open>AttestSlice\<close>, \<open>Selectors\<close>: \<open>bridge_ui/src/store/\<close>, one definition per
    reducer and selector. \<open>Config\<close>: \<open>utils/consts.ts\<close> per cluster.
  \<^item> \<open>UiTask\<close>: asynchronous functions of the client as tasks over a trace of events, with \<open>utils/parseError.ts\<close> and
    what the handlers share of \<open>utils/solana.ts\<close> and \<open>utils/terra.ts\<close>. \<open>Pages\<close>: what a click may dispatch.
    \<open>HandleTransfer\<close>, \<open>HandleNft\<close>, \<open>HandleAttest\<close>: the six hooks with the handlers of the buttons.
  \<^item> \<open>Wizard\<close>: \<open>index.tsx\<close>, \<open>Source.tsx\<close> and \<open>Target.tsx\<close> of the three pages as a step relation on the store and the
    phase of the page's handler. \<open>Inputs\<close>: how text becomes a number. \<open>Recovery\<close>: \<open>components/Recovery.tsx\<close>.
  \<^item> \<open>Effects\<close>: effects of React hooks that wait for a network, as steps of a mounted hook. \<open>WalletHooks\<close> and
    \<open>AssetHooks\<close>: the hooks that look at the wallets and ask about assets and transfers, \<open>TokenAccounts\<close> the one
    that lists the wallet's tokens (\<open>hooks/useGetSourceParsedTokenAccounts.ts\<close>). \<open>Pickers\<close>: what the pickers of
    \<open>components/TokenSelectors/\<close> offer and what a click on an option does. \<open>Metadata\<close>: the hooks that fetch the names and
    symbols of tokens (\<open>hooks/useMetadata.ts\<close> and the six it uses). \<open>Balances\<close>: the hooks that ask whether a wallet can pay
    (\<open>hooks/useTransactionFees.tsx\<close> and two others). \<open>EvmMigration\<close>, \<open>SolanaMigration\<close>: the pages that exchange tokens of an
    earlier bridge (\<open>components/Migration/\<close>) with the hooks they use.
  \<^item> \<open>GovernanceVaa\<close>: the governance VAAs that the command line clients and the scripts of the Alephium development
    network make (\<open>clients/token_bridge/main.ts\<close>, \<open>clients/nft_bridge/main.ts\<close>, \<open>alephium/devnet/gen_register_vaa.ts\<close>).
    \<open>Clients\<close>: the commands of the clients that post and execute VAAs, as sequences of calls to a node.
    \<open>AlphDeploy\<close>: the deployment of the bridge there (\<open>alephium/lib/wormhole.ts\<close>, \<open>alephium/devnet/\<close>), as a log of calls to
    the node.
  \<^item> \<open>PriceTools\<close>, \<open>PriceCaster\<close>, \<open>PricePublisher\<close>: \<open>staging/algorand/\<close>, a service that takes VAAs with prices from a stream,
    keeps the last of each symbol and publishes it on Algorand in a group of transactions: \<open>tools/app-tools.js\<close>,
    \<open>lib/pricecaster.js\<close> and \<open>backend/\<close> (the fetcher, the strategies, the publisher, the routine of a worker).

  \<^bold>\<open>How the code is modelled.\<close> A function of the source is a definition of the same name. An exception or a rejected
  promise is \<open>Inl\<close> of a \<open>js_error\<close>. What a function does to the outside is a list that it extends: the calls to a
  connection or wallet (\<open>history\<close>), the events of a page (\<open>trace\<close>). Third-party packages, WebAssembly modules, wallets,
  contracts and networks are arguments (\<open>libs\<close>, \<open>web3\<close>, \<open>bridge_wasm\<close>, \<open>outside\<close>, \<open>networks\<close>, \<open>\<dots>\<close>); what a theorem relies
  on is a named predicate (\<open>ethers_laws\<close>, \<open>web3_laws\<close>, \<open>\<dots>\<close>), each with an instance in the witnesses.

  \<^bold>\<open>Termination and bounds.\<close> No fuel is used. The byte loops terminate by a measure. The loops that poll a guardian or
  a node are \<open>partial_function (option)\<close>: a run that never ends is \<open>None\<close>, and the theorems say exactly when it
  ends. The loop that sends on Solana carries the number of retries that are left.

  \<^bold>\<open>The interfaces.\<close> \<open>slice\<close> (a reducer, its invariant and guarantee; \<open>Store\<close>) is interpreted by every slice and by the
  store; \<open>attempt_loop\<close> (a loop over attempts; \<open>SignedVAA\<close>) by the five polling loops; \<open>busy_page\<close> and \<open>send_page\<close>
  (\<open>Pages\<close>) by the three pages; \<open>cancelling\<close> (\<open>Effects\<close>: an effect whose pending question has a cleanup) by the
  hooks that have one, and \<open>lasting\<close> by those that do not; \<open>kept_list\<close> (\<open>Metadata\<close>: a list asked for when there is none) by
  the three hooks for token lists; \<open>command\<close> (\<open>Clients\<close>: nothing is called after a failure) by the five commands for Solana; \<open>wizard_page\<close> (\<open>Wizard\<close>: the slice and the buttons of a page)
  by the three pages. The properties below and in the theories rest on these interpretations.

  \<^bold>\<open>What is shown.\<close> The scripts and payloads have the layout that their readers expect, and their encodings round-trip;
  each transaction of a bridge names the same amount, token, recipient and nonce in all its parts and approves before
  it transfers; the sending loop refines a plain statement of what reached the chain; the slices keep their invariant
  and clear what depends on a changed choice; the buttons follow the protocol of their page whatever the networks do;
  an answer that a hook hears belongs to its last question; the exchange of old tokens approves and sends one amount; from the click that sends to the VAA the choices on a page
  stay what they were; what is recovered is what the VAA says; the two tools that make a
  governance VAA agree, and the clients execute it as what it was made for, after posting it; the contracts of a deployment know each other; a group that
  the library of the price caster sends is signed and sent whole, though its publisher never gets so far. The theorems named in the findings of the manifest show
  where the code does not do this.

  \<^bold>\<open>Not modelled.\<close> The contracts and programs on the chains and the guardian node (Solidity, Rust, Go: other languages),
  generated code (protocol buffers, contract bindings), the JSX of the pages and their styling, the explorer and the
  LP page, the timers, settings and scripts of the price caster, and the examples. Of React, the order in which effects of one component run is the order given; that
  a flush happens is an event of its own, so nothing is assumed about when.
\<close>

section \<open>Properties of the pages together\<close>

text \<open>C5: every button of the three pages keeps the protocol of its page, whatever the chains, the wallets and the
  guardians do: a click to send dispatches what \<open>send_run\<close> allows (busy, then at most one transaction, then the VAA or
  the end of being busy), a click to redeem or to create what \<open>redeem_run\<close> allows, or nothing at all; and no promise of a
  handler is rejected.\<close>

theorem clicks_follow_protocol:
  "does (handleTransferClick E s fd eth sol terra) (clicked (send_run SetIsSending SetTransferTx SetSignedVAAHex)) \<and>
   does (nft_handleTransferClick E n eth sol) (clicked (send_run NftSetIsSending NftSetTransferTx NftSetSignedVAAHex)) \<and>
   does (handleAttestClick E a fd eth sol terra) (clicked (send_run AttestSetIsSending AttestSetAttestTx AttestSetSignedVAAHex)) \<and>
   does (handleRedeemClick E s fd eth sol terra) (clicked (redeem_run SetIsRedeeming SetRedeemTx)) \<and>
   does (handleRedeemNativeClick E s fd eth sol terra) (clicked (redeem_run SetIsRedeeming SetRedeemTx)) \<and>
   does (nft_handleRedeemClick E n eth sol) (clicked (redeem_run NftSetIsRedeeming NftSetRedeemTx)) \<and>
   does (handleCreateClick E a fd eth sol terra update) (clicked (redeem_run AttestSetIsCreating AttestSetCreateTx))"
  by (simp add: handleRedeemClick_def handleRedeemNativeClick_def does_handleTransferClick does_nft_handleTransferClick
    does_handleAttestClick does_redeemClick does_nft_handleRedeemClick does_handleCreateClick)



end
